(* ===== verification/Authsec_Prelude.thy ===== *)
theory Authsec_Prelude
  imports Complex_Main "HOL-Library.Word"
begin

text \<open>
  Shared vocabulary of the development: the Go values and errors the services exchange, the clock,
  SQL statements over tables of rows, and the generic lemmas and \<^theory_text>\<open>named_theorems\<close>
  collections that the component theories draw on.

  \<^item> A Go \<^verbatim>\<open>uuid.UUID\<close> is its canonical text form, so \<^verbatim>\<open>String()\<close> is the identity on it;
    \<^verbatim>\<open>uuid.New()\<close> and the bytes of \<^verbatim>\<open>rand.Read\<close> are arguments of the operations that draw them,
    and \<^verbatim>\<open>uuid.Parse\<close> is a function argument where it is called.
  \<^item> A \<^verbatim>\<open>time.Time\<close> or \<^verbatim>\<open>time.Duration\<close> is an integer number of nanoseconds; \<^verbatim>\<open>Unix()\<close> rounds
    down to seconds.
  \<^item> A table is the list of its rows. Every statement sent to the database consumes one outcome of
    the connection's schedule: it is applied, it is lost (an error and no effect), or it takes
    effect but the reply is lost (an error all the same). An exhausted schedule means that no
    statement fails, which is the setting of the functional theorems; the error theorems use
    schedules with faults.
\<close>

section \<open>Go values and errors\<close>

type_synonym uuid = string
type_synonym gotime = int
type_synonym byte = "8 word"

text \<open>The outcome of \<^verbatim>\<open>rand.Read\<close> on a fresh buffer: an error, or the bytes of the buffer by index.\<close>

type_synonym random = "(nat \<Rightarrow> byte) option"

datatype go_error =
    NoRows                      \<comment> \<open>\<^verbatim>\<open>sql.ErrNoRows\<close>\<close>
  | DBError                     \<comment> \<open>any other error of the database driver\<close>
  | Errorf string               \<comment> \<open>\<^verbatim>\<open>fmt.Errorf\<close> without a wrapped error\<close>
  | Wrap string go_error        \<comment> \<open>\<^verbatim>\<open>fmt.Errorf\<close> with \<^verbatim>\<open>%w\<close>\<close>

text \<open>
  A value of Go's \<^verbatim>\<open>interface{}\<close>, by dynamic type. \<open>GArr\<close> is \<^verbatim>\<open>[]interface{}\<close>, \<open>GStrs\<close> is
  \<^verbatim>\<open>[]string\<close>, \<open>GMaps\<close> is \<^verbatim>\<open>[]map[string]interface{}\<close> and \<open>GPerms\<close> is \<^verbatim>\<open>[]authz.Perm\<close>;
  \<open>GFloat\<close> holds a finite \<^verbatim>\<open>float64\<close> as the rational it denotes.
\<close>

datatype goval =
    GNil
  | GBool bool
  | GInt int
  | GInt64 int
  | GFloat rat
  | GStr string
  | GArr "goval list"
  | GStrs "string list"
  | GMap "(string \<times> goval) list"
  | GMaps "(string \<times> goval) list list"
  | GPerms "(string \<times> string list) list"

text \<open>The value of a 64-bit \<^verbatim>\<open>int\<close> after wrap-around.\<close>

definition wrap_int :: "int \<Rightarrow> int" where
  "wrap_int x = (x + 2 ^ 63) mod 2 ^ 64 - 2 ^ 63"

lemma wrap_int_id: "- (2 ^ 63) \<le> x \<Longrightarrow> x < 2 ^ 63 \<Longrightarrow> wrap_int x = x"
  by (simp add: wrap_int_def)

text \<open>
  The conversion of a \<^verbatim>\<open>float64\<close> to \<^verbatim>\<open>int\<close> or \<^verbatim>\<open>int64\<close> cuts towards zero; of a value out of range Go leaves the result to the
  implementation, here \<open>conv\<close>.
\<close>

definition float_to_int :: "(rat \<Rightarrow> int) \<Rightarrow> rat \<Rightarrow> int" where
  "float_to_int conv x =
     (let n = (if 0 \<le> x then \<lfloor>x\<rfloor> else \<lceil>x\<rceil>)
      in if - (2 ^ 63) \<le> n \<and> n < 2 ^ 63 then n else conv x)"

text \<open>
  A value after \<^verbatim>\<open>json.Marshal\<close> and \<^verbatim>\<open>json.Unmarshal\<close> into an \<^verbatim>\<open>interface{}\<close>: every number is a
  \<^verbatim>\<open>float64\<close>, every slice is \<^verbatim>\<open>[]interface{}\<close> and every struct or map is a map.
\<close>

fun json_value :: "goval \<Rightarrow> goval" where
  "json_value (GInt i) = GFloat (of_int i)"
| "json_value (GInt64 i) = GFloat (of_int i)"
| "json_value (GArr vs) = GArr (map json_value vs)"
| "json_value (GStrs ss) = GArr (map GStr ss)"
| "json_value (GMap m) = GMap (map (\<lambda>(k, v). (k, json_value v)) m)"
| "json_value (GMaps ms) = GArr (map (\<lambda>m. GMap (map (\<lambda>(k, v). (k, json_value v)) m)) ms)"
| "json_value (GPerms ps) = GArr (map (\<lambda>(r, as). GMap [(''r'', GStr r), (''a'', GArr (map GStr as))]) ps)"
| "json_value v = v"

text \<open>\<^verbatim>\<open>uuid.Nil\<close>.\<close>

definition nil_uuid :: uuid where
  "nil_uuid = ''00000000-0000-0000-0000-000000000000''"

section \<open>The clock\<close>

definition Second :: gotime where "Second = 1000000000"
definition Minute :: gotime where "Minute = 60 * Second"
definition Hour :: gotime where "Hour = 60 * Minute"

definition Unix :: "gotime \<Rightarrow> int" where
  "Unix t = t div Second"

text \<open>The zero \<^verbatim>\<open>time.Time\<close>, the first instant of the year 1.\<close>

definition zero_time :: gotime where
  "zero_time = - 62135596800 * Second"

named_theorems clock_simps
declare Second_def [clock_simps] Minute_def [clock_simps] Hour_def [clock_simps]

lemma Unix_add_seconds [simp]: "Unix (t + n * Second) = Unix t + n"
  by (simp add: Unix_def Second_def)

lemma Unix_diff_seconds [simp]: "Unix (t - n * Second) = Unix t - n"
  using Unix_add_seconds [of t "- n"] by simp

lemma Unix_mono: "s \<le> t \<Longrightarrow> Unix s \<le> Unix t"
  by (simp add: Unix_def Second_def zdiv_mono1)

lemma Unix_lower: "Unix t * Second \<le> t"
proof -
  have "0 \<le> t mod Second" by (simp add: Second_def)
  moreover have "t = Unix t * Second + t mod Second" by (simp add: Unix_def)
  ultimately show ?thesis by linarith
qed

lemma Unix_upper: "t < (Unix t + 1) * Second"
proof -
  have "t mod Second < Second" by (simp add: Second_def)
  moreover have "t = Unix t * Second + t mod Second"
    by (simp add: Unix_def)
  ultimately show ?thesis by (simp add: algebra_simps)
qed

lemma Unix_diff_bound: "t - s < (Unix t - Unix s + 1) * Second"
  using Unix_upper [of t] Unix_lower [of s] by (simp add: algebra_simps)

section \<open>SQL statements\<close>

datatype outcome = Applied | Lost | Unacked

type_synonym 's conn = "'s \<times> outcome list"

text \<open>\<open>exec f\<close> sends one statement whose effect on the tables and whose reply are \<open>f\<close>.\<close>

fun exec :: "('s \<Rightarrow> 's \<times> 'a) \<Rightarrow> 's conn \<Rightarrow> (go_error + 'a) \<times> 's conn" where
  "exec f (s, []) = (Inr (snd (f s)), fst (f s), [])"
| "exec f (s, Applied # os) = (Inr (snd (f s)), fst (f s), os)"
| "exec f (s, Lost # os) = (Inl DBError, s, os)"
| "exec f (s, Unacked # os) = (Inl DBError, fst (f s), os)"

definition query :: "('s \<Rightarrow> 'a) \<Rightarrow> 's conn \<Rightarrow> (go_error + 'a) \<times> 's conn" where
  "query g = exec (\<lambda>s. (s, g s))"

text \<open>A unique constraint makes an \<^verbatim>\<open>INSERT\<close> fail inside the database.\<close>

definition exec_checked ::
  "('s \<Rightarrow> (go_error + 's)) \<Rightarrow> 's conn \<Rightarrow> (go_error + unit) \<times> 's conn" where
  "exec_checked f c =
     (case exec (\<lambda>s. case f s of Inl e \<Rightarrow> (s, Inl e) | Inr s' \<Rightarrow> (s', Inr ())) c of
        (Inl e, c') \<Rightarrow> (Inl e, c')
      | (Inr r, c') \<Rightarrow> (r, c'))"

definition update_where :: "('r \<Rightarrow> bool) \<Rightarrow> ('r \<Rightarrow> 'r) \<Rightarrow> 'r list \<Rightarrow> 'r list" where
  "update_where P f t = map (\<lambda>r. if P r then f r else r) t"

definition delete_where :: "('r \<Rightarrow> bool) \<Rightarrow> 'r list \<Rightarrow> 'r list" where
  "delete_where P t = filter (\<lambda>r. \<not> P r) t"

definition affected :: "('r \<Rightarrow> bool) \<Rightarrow> 'r list \<Rightarrow> int" where
  "affected P t = int (length (filter P t))"

text \<open>\<^verbatim>\<open>QueryRow\<close> scans the first row of the result, or reports \<^verbatim>\<open>sql.ErrNoRows\<close>.\<close>

definition select_row :: "('r \<Rightarrow> bool) \<Rightarrow> 'r list \<Rightarrow> go_error + 'r" where
  "select_row P t = (case List.find P t of None \<Rightarrow> Inl NoRows | Some r \<Rightarrow> Inr r)"

definition query_row ::
  "('s \<Rightarrow> (go_error + 'r)) \<Rightarrow> 's conn \<Rightarrow> (go_error + 'r) \<times> 's conn" where
  "query_row g c =
     (case query g c of (Inl e, c') \<Rightarrow> (Inl e, c') | (Inr r, c') \<Rightarrow> (r, c'))"

text \<open>\<^verbatim>\<open>fmt.Errorf("...: %w", err)\<close> around the error of a statement.\<close>

definition wrap_err :: "string \<Rightarrow> (go_error + 'r) \<times> 'c \<Rightarrow> (go_error + 'r) \<times> 'c" where
  "wrap_err msg x = (case x of (Inl e, c) \<Rightarrow> (Inl (Wrap msg e), c) | (Inr r, c) \<Rightarrow> (Inr r, c))"

text \<open>
  A transaction: \<^verbatim>\<open>Begin\<close>, statements on a working copy of the tables, \<^verbatim>\<open>Commit\<close>. An error inside the body
  rolls the working copy back.
\<close>

definition in_tx :: "('s conn \<Rightarrow> (go_error + 'r) \<times> 's conn) \<Rightarrow> 's conn \<Rightarrow> (go_error + 'r) \<times> 's conn" where
  "in_tx body c =
     (case exec (\<lambda>s. (s, ())) c of
        (Inl e, c1) \<Rightarrow> (Inl e, c1)
      | (Inr _, c1) \<Rightarrow>
          (case body c1 of
             (Inl e, c2) \<Rightarrow> (Inl e, fst c1, snd c2)
           | (Inr r, c2) \<Rightarrow>
               (case exec (\<lambda>_. (fst c2, ())) (fst c1, snd c2) of
                  (Inl e, c3) \<Rightarrow> (Inl e, c3)
                | (Inr _, c3) \<Rightarrow> (Inr r, c3))))"

named_theorems sql_simps
named_theorems table_simps

lemma query_fault_free [sql_simps]: "query g (s, []) = (Inr (g s), s, [])"
  by (simp add: query_def)

lemma query_row_fault_free [sql_simps]: "query_row g (s, []) = (g s, s, [])"
  by (simp add: query_row_def sql_simps)

lemma exec_checked_fault_free [sql_simps]:
  "exec_checked f (s, []) =
     (case f s of Inl e \<Rightarrow> (Inl e, s, []) | Inr s' \<Rightarrow> (Inr (), s', []))"
  by (auto simp: exec_checked_def split: sum.splits)

lemma query_Cons: "fst (snd (exec (\<lambda>s. (s, g s)) (s, out # os))) = s"
  by (cases out) simp_all

lemma query_keeps_tables [simp]: "fst (snd (query g c)) = fst c"
proof -
  obtain s os where "c = (s, os)" by fastforce
  then show ?thesis
    unfolding query_def by (cases os) (simp_all add: query_Cons)
qed

lemma query_row_keeps_tables [simp]: "fst (snd (query_row g c)) = fst c"
proof -
  obtain r c' where "query g c = (r, c')" by (cases "query g c")
  then show ?thesis
    using query_keeps_tables [of g c] by (cases r) (simp_all add: query_row_def)
qed

lemma query_tablesD: "query g c = (r, s, os) \<Longrightarrow> s = fst c"
  using query_keeps_tables [of g c] by simp

lemma query_row_tablesD: "query_row g c = (r, s, os) \<Longrightarrow> s = fst c"
  using query_row_keeps_tables [of g c] by simp

text \<open>The tables an operation leaves behind.\<close>

abbreviation tables :: "'r \<times> 's conn \<Rightarrow> 's" where
  "tables x \<equiv> fst (snd x)"

lemma tables_of: "x = (q, c1) \<Longrightarrow> fst c1 = tables x"
  by simp

text \<open>Whatever its outcome, a statement either leaves the tables alone or has its full effect.\<close>

lemma exec_tables:
  "exec f c = (r, c') \<Longrightarrow>
     fst c' = fst c \<or> fst c' = fst (f (fst c)) \<and> (\<forall>x. r = Inr x \<longrightarrow> x = snd (f (fst c)))"
  by (cases "(f, c)" rule: exec.cases) auto

lemma exec_Inr_tables:
  "exec f c = (Inr x, c') \<Longrightarrow> fst c' = fst (f (fst c)) \<and> x = snd (f (fst c))"
  by (cases "(f, c)" rule: exec.cases) auto

lemma conn_cases:
  obtains s where "c = (s, [])" | s os where "c = (s, Applied # os)"
  | s os where "c = (s, Lost # os)" | s os where "c = (s, Unacked # os)"
proof -
  obtain s os where c: "c = (s, os)" by (cases c)
  show thesis
  proof (cases os)
    case Nil
    with c that(1) show thesis by simp
  next
    case (Cons out os')
    with c that show thesis by (cases out) auto
  qed
qed

lemma exec_checked_tables:
  "exec_checked f c = (r, c') \<Longrightarrow> fst c' = fst c \<or> f (fst c) = Inr (fst c')"
  by (cases c rule: conn_cases; cases "f (fst c)") (auto simp: exec_checked_def)

lemma exec_checked_Inr_tables:
  "exec_checked f c = (Inr u, c') \<Longrightarrow> f (fst c) = Inr (fst c')"
  by (cases c rule: conn_cases; cases "f (fst c)") (auto simp: exec_checked_def)

text \<open>A property of the tables that the effect of a statement keeps, the statement keeps under every outcome.\<close>

lemma exec_keeps:
  assumes "P (fst c)" and "\<And>s. P s \<Longrightarrow> P (fst (f s))"
  shows "P (tables (exec f c))"
  using assms by (cases c rule: conn_cases) simp_all

lemma exec_checked_keeps:
  assumes "P (fst c)" and "\<And>s s'. P s \<Longrightarrow> f s = Inr s' \<Longrightarrow> P s'"
  shows "P (tables (exec_checked f c))"
  using exec_checked_tables [of f c] assms by (metis prod.collapse)

lemma in_tx_keeps:
  assumes "P (fst c)" and "\<And>c. P (fst c) \<Longrightarrow> P (tables (body c))"
  shows "P (tables (in_tx body c))"
proof -
  obtain r c1 where begin_: "exec (\<lambda>s. (s, ())) c = (r, c1)" by (metis surj_pair)
  then have "fst c1 = fst c" using exec_tables [OF begin_] by auto
  show ?thesis
  proof (cases r)
    case (Inl e)
    with begin_ \<open>fst c1 = fst c\<close> assms(1) show ?thesis by (simp add: in_tx_def)
  next
    case (Inr u)
    obtain r2 c2 where body: "body c1 = (r2, c2)" by (metis surj_pair)
    have "P (fst c2)" using assms(2) [of c1] assms(1) \<open>fst c1 = fst c\<close> body by simp
    obtain r3 c3 where commit: "exec (\<lambda>_. (fst c2, ())) (fst c1, snd c2) = (r3, c3)" by (metis surj_pair)
    have "fst c3 = fst c1 \<or> fst c3 = fst c2" using exec_tables [OF commit] by auto
    with \<open>P (fst c2)\<close> assms(1) \<open>fst c1 = fst c\<close> have "P (fst c3)" by auto
    with begin_ body Inr commit \<open>fst c1 = fst c\<close> assms(1) show ?thesis
      by (cases r2; cases r3) (simp_all add: in_tx_def)
  qed
qed

lemma in_tx_fault_free [sql_simps]:
  "in_tx body (s, []) =
     (case body (s, []) of (Inl e, c2) \<Rightarrow> (Inl e, s, snd c2)
      | (Inr r, c2) \<Rightarrow> (case exec (\<lambda>_. (fst c2, ())) (s, snd c2) of
                          (Inl e, c3) \<Rightarrow> (Inl e, c3) | (Inr _, c3) \<Rightarrow> (Inr r, c3)))"
  unfolding in_tx_def exec.simps by (simp only: prod.case sum.case fst_conv)

lemma wrap_err_snd [simp]: "snd (wrap_err msg x) = snd x"
  by (auto simp: wrap_err_def split: prod.splits sum.splits)

lemma wrap_err_Inr_iff [simp]: "wrap_err msg x = (Inr r, c) \<longleftrightarrow> x = (Inr r, c)"
  by (auto simp: wrap_err_def split: prod.splits sum.splits)

text \<open>
  The outcome of the statement number \<open>n\<close> from now on, and a statement as a function of its outcome: an answer exactly when it is
  applied, an effect unless it is lost.
\<close>

definition sched :: "outcome list \<Rightarrow> nat \<Rightarrow> outcome" where
  "sched os n = (if n < length os then os ! n else Applied)"

lemma sched_Nil [simp]: "sched [] n = Applied"
  by (simp add: sched_def)

lemma sched_tl [simp]: "sched (tl os) n = sched os (Suc n)"
  by (cases os) (simp_all add: sched_def)

lemma exec_sched:
  "exec f (s, os) =
     (if sched os 0 = Applied then Inr (snd (f s)) else Inl DBError, if sched os 0 = Lost then s else fst (f s), tl os)"
proof (cases os)
  case (Cons out os')
  then show ?thesis by (cases out) (simp_all add: sched_def)
qed simp

lemma query_row_sched:
  "query_row g (s, os) = (if sched os 0 = Applied then g s else Inl DBError, s, tl os)"
  by (simp add: query_row_def query_def exec_sched)

section \<open>Tables\<close>

lemma set_update_where [table_simps]:
  "set (update_where P f t) = {r \<in> set t. \<not> P r} \<union> f ` {r \<in> set t. P r}"
  by (auto simp: update_where_def)

lemma set_delete_where [table_simps]: "set (delete_where P t) = {r \<in> set t. \<not> P r}"
  by (auto simp: delete_where_def)

lemma length_update_where [simp]: "length (update_where P f t) = length t"
  by (simp add: update_where_def)

lemma nth_update_where:
  "i < length t \<Longrightarrow> update_where P f t ! i = (if P (t ! i) then f (t ! i) else t ! i)"
  by (simp add: update_where_def)

lemma map_update_where:
  assumes "\<And>r. k (f r) = k r"
  shows "map k (update_where P f t) = map k t"
  using assms by (simp add: update_where_def)

lemma map_delete_where_distinct:
  "distinct (map k t) \<Longrightarrow> distinct (map k (delete_where P t))"
  unfolding delete_where_def by (rule distinct_map_filter)

lemma update_where_cong:
  "(\<And>r. r \<in> set t \<Longrightarrow> P r = Q r) \<Longrightarrow> update_where P f t = update_where Q f t"
  by (simp add: update_where_def)

lemma update_where_fun_cong:
  "(\<And>r. r \<in> set t \<Longrightarrow> P r \<Longrightarrow> f r = g r) \<Longrightarrow> update_where P f t = update_where P g t"
  by (simp add: update_where_def)

lemma update_where_id: "update_where P (\<lambda>r. r) t = t"
  by (simp add: update_where_def)

lemma update_where_none: "\<forall>r \<in> set t. \<not> P r \<Longrightarrow> update_where P f t = t"
  by (simp add: update_where_def map_idI)

lemma update_where_all:
  assumes "\<forall>r \<in> set t. Q r" and "\<And>r. Q r \<Longrightarrow> Q (f r)"
  shows "\<forall>r \<in> set (update_where P f t). Q r"
  using assms by (auto simp: update_where_def)

lemma affected_zero_iff: "affected P t = 0 \<longleftrightarrow> (\<forall>r \<in> set t. \<not> P r)"
  by (simp add: affected_def filter_empty_conv)

lemma find_SomeD: "List.find P t = Some r \<Longrightarrow> r \<in> set t \<and> P r"
  by (auto simp: find_Some_iff)

lemma select_row_Inr_iff:
  "select_row P t = Inr r \<longleftrightarrow> List.find P t = Some r"
  by (simp add: select_row_def split: option.splits)

lemma select_row_Inl_iff:
  "select_row P t = Inl e \<longleftrightarrow> e = NoRows \<and> (\<forall>r \<in> set t. \<not> P r)"
  using find_None_iff [of P t] by (auto simp: select_row_def split: option.splits)

lemma select_row_sound: "select_row P t = Inr r \<Longrightarrow> r \<in> set t \<and> P r"
  by (auto simp: select_row_Inr_iff find_Some_iff)

text \<open>On a key that is unique in the table, \<^verbatim>\<open>QueryRow\<close> finds exactly the row with that key.\<close>

lemma select_row_key:
  assumes "distinct (map k t)" and "r \<in> set t" and "k r = x"
  shows "select_row (\<lambda>r. k r = x) t = Inr r"
proof -
  obtain r' where r': "List.find (\<lambda>r. k r = x) t = Some r'"
    using assms(2,3) by (metis (mono_tags, lifting) find_None_iff option.exhaust)
  then have "r' \<in> set t" and "k r' = x"
    by (auto simp: find_Some_iff)
  with assms have "r' = r"
    by (auto simp: distinct_map inj_on_def)
  with r' show ?thesis by (simp add: select_row_Inr_iff)
qed

text \<open>How \<^verbatim>\<open>QueryRow\<close> on a key sees an update that keeps the key, an append and a deletion.\<close>

lemma find_update_where [table_simps]:
  assumes "\<And>r. k (f r) = k r"
  shows "List.find (\<lambda>r. k r = x) (update_where P f t) =
           map_option (\<lambda>r. if P r then f r else r) (List.find (\<lambda>r. k r = x) t)"
  using assms by (induction t) (auto simp: update_where_def)

lemma find_map: "List.find P (map f xs) = map_option f (List.find (\<lambda>x. P (f x)) xs)"
  by (induction xs) simp_all

lemma find_append:
  "List.find P (t @ t') = (case List.find P t of Some r \<Rightarrow> Some r | None \<Rightarrow> List.find P t')"
  by (induction t) auto

lemma find_snoc [table_simps]:
  "List.find P (t @ [r]) =
     (case List.find P t of Some r' \<Rightarrow> Some r' | None \<Rightarrow> if P r then Some r else None)"
  by (induction t) auto

lemma find_delete_where [table_simps]:
  assumes "distinct (map k t)"
  shows "List.find (\<lambda>r. k r = x) (delete_where P t) =
           (case List.find (\<lambda>r. k r = x) t of
              None \<Rightarrow> None | Some r \<Rightarrow> if P r then None else Some r)"
  using assms
proof (induction t)
  case Nil
  then show ?case by (simp add: delete_where_def)
next
  case (Cons a t)
  have none: "List.find (\<lambda>r. k r = k a) (delete_where P t) = None"
    using Cons.prems by (auto simp: find_None_iff delete_where_def image_iff)
  from Cons none show ?case by (auto simp: delete_where_def)
qed

text \<open>
  \<open>rows_step k R\<close> is what a group of statements does to a table with key \<open>k\<close>: every row is changed
  along \<open>R\<close> without touching its key, then some rows are deleted and the rows \<open>new\<close> are appended.
\<close>

definition rows_step ::
  "('r \<Rightarrow> 'k) \<Rightarrow> ('r \<Rightarrow> 'r \<Rightarrow> bool) \<Rightarrow> 'r list \<Rightarrow> 'r list \<Rightarrow> 'r list \<Rightarrow> bool" where
  "rows_step k R t t' new \<longleftrightarrow>
     (\<exists>t1 D. list_all2 (\<lambda>r r'. k r' = k r \<and> R r r') t t1 \<and> t' = delete_where D t1 @ new)"

lemma delete_where_False [simp]: "delete_where (\<lambda>r. False) t = t"
  by (simp add: delete_where_def)

lemma rows_step_refl: "(\<And>r. R r r) \<Longrightarrow> rows_step k R t t []"
  unfolding rows_step_def
  by (rule exI [of _ t], rule exI [of _ "\<lambda>r. False"]) (simp add: list_all2_same)

lemma rows_step_append: "(\<And>r. R r r) \<Longrightarrow> rows_step k R t (t @ new) new"
  unfolding rows_step_def
  by (rule exI [of _ t], rule exI [of _ "\<lambda>r. False"]) (simp add: list_all2_same)

lemma rows_step_map_delete:
  assumes "\<And>r. r \<in> set t \<Longrightarrow> k (u r) = k r \<and> R r (u r)"
  shows "rows_step k R t (delete_where D (map u t)) []"
  unfolding rows_step_def using assms
  by (intro exI [of _ "map u t"] exI [of _ D]) (simp add: list_all2_map2 list_all2_same)

lemma rows_step_map:
  assumes "\<And>r. r \<in> set t \<Longrightarrow> k (u r) = k r \<and> R r (u r)"
  shows "rows_step k R t (map u t) []"
  using rows_step_map_delete [of t k u R "\<lambda>r. False"] assms by simp

lemma find_list_all2:
  assumes "list_all2 (\<lambda>r r'. k r' = k r \<and> R r r') t t'"
  shows "rel_option R (List.find (\<lambda>r. k r = x) t) (List.find (\<lambda>r. k r = x) t')"
  using assms by (induction rule: list_all2_induct) auto

lemma list_all2_keys:
  "list_all2 (\<lambda>r r'. k r' = k r \<and> R r r') t t' \<Longrightarrow> map k t' = map k t"
  by (induction rule: list_all2_induct) auto

lemma rows_step_distinct:
  assumes "rows_step k R t t' new" and "distinct (map k t)"
    and "distinct (map k new)" and "k ` set new \<inter> k ` set t = {}"
  shows "distinct (map k t')"
proof -
  obtain t1 D where t1: "list_all2 (\<lambda>r r'. k r' = k r \<and> R r r') t t1"
    and t': "t' = delete_where D t1 @ new"
    using assms(1) unfolding rows_step_def by blast
  have keys: "map k t1 = map k t" using t1 by (rule list_all2_keys)
  then have "distinct (map k (delete_where D t1))"
    using assms(2) by (intro map_delete_where_distinct) simp
  moreover have "k ` set (delete_where D t1) \<subseteq> k ` set t"
    using keys by (auto simp: table_simps) (metis image_eqI list.set_map)
  ultimately show ?thesis using t' assms(3,4) by auto
qed

lemma rows_step_distinct1:
  assumes "rows_step k R t t' new" and "distinct (map k t)"
    and "new = [] \<or> (\<exists>d. new = [d] \<and> k d \<notin> k ` set t)"
  shows "distinct (map k t')"
  using assms(3) by (intro rows_step_distinct [OF assms(1,2)]) auto

lemma rows_step_rekey:
  assumes "rows_step k R t t' new" and "\<And>r r'. R r r' \<Longrightarrow> k2 r' = k2 r"
  shows "rows_step k2 R t t' new"
proof -
  obtain t1 D where t1: "list_all2 (\<lambda>r r'. k r' = k r \<and> R r r') t t1"
    and t': "t' = delete_where D t1 @ new"
    using assms(1) unfolding rows_step_def by blast
  have "list_all2 (\<lambda>r r'. k2 r' = k2 r \<and> R r r') t t1"
    using t1 by (rule list_all2_mono) (use assms(2) in blast)
  with t' show ?thesis unfolding rows_step_def by blast
qed

text \<open>A row that survives has moved along \<open>R\<close>; a key that was absent stays absent unless appended.\<close>

lemma rows_step_find:
  assumes "rows_step k R t t' new" and "distinct (map k t)" and "x \<notin> k ` set new"
  shows "List.find (\<lambda>r. k r = x) t' = None \<or>
         (\<exists>r r'. List.find (\<lambda>r. k r = x) t = Some r \<and> List.find (\<lambda>r. k r = x) t' = Some r' \<and> R r r')"
proof -
  obtain t1 D where t1: "list_all2 (\<lambda>r r'. k r' = k r \<and> R r r') t t1"
    and t': "t' = delete_where D t1 @ new"
    using assms(1) unfolding rows_step_def by blast
  have "distinct (map k t1)" using list_all2_keys [OF t1] assms(2) by simp
  moreover have "List.find (\<lambda>r. k r = x) new = None"
    using assms(3) by (auto simp: find_None_iff)
  ultimately have "List.find (\<lambda>r. k r = x) t' =
      (case List.find (\<lambda>r. k r = x) t1 of None \<Rightarrow> None | Some r \<Rightarrow> if D r then None else Some r)"
    using t' find_delete_where [of k t1 x D]
    by (auto simp: find_append split: option.splits)
  with find_list_all2 [OF t1, of x] show ?thesis
    by (auto simp: option_rel_Some1 split: option.splits elim: option.rel_cases)
qed

lemma list_all2_source: "list_all2 R t t' \<Longrightarrow> r' \<in> set t' \<Longrightarrow> \<exists>r \<in> set t. R r r'"
  by (induction rule: list_all2_induct) auto

lemma rows_step_set:
  assumes "rows_step k R t t' new" and "r' \<in> set t'"
  shows "r' \<in> set new \<or> (\<exists>r \<in> set t. k r' = k r \<and> R r r')"
proof -
  obtain t1 D where t1: "list_all2 (\<lambda>r r'. k r' = k r \<and> R r r') t t1"
    and t': "t' = delete_where D t1 @ new"
    using assms(1) unfolding rows_step_def by blast
  from assms(2) t' consider "r' \<in> set new" | "r' \<in> set t1" by (auto simp: table_simps)
  then show ?thesis
  proof cases
    case 2
    with t1 show ?thesis by (auto dest: list_all2_source)
  qed simp
qed

text \<open>
  \<open>grows R t t'\<close>: the rows of \<open>t\<close> have moved along \<open>R\<close> in place and new rows follow them.
\<close>

definition grows :: "('r \<Rightarrow> 'r \<Rightarrow> bool) \<Rightarrow> 'r list \<Rightarrow> 'r list \<Rightarrow> bool" where
  "grows R t t' \<longleftrightarrow> (\<exists>t1 new. t' = t1 @ new \<and> list_all2 R t t1)"

lemma grows_refl: "(\<And>r. R r r) \<Longrightarrow> grows R t t"
  unfolding grows_def by (metis append_Nil2 list_all2_refl)

lemma grows_snoc: "(\<And>r. R r r) \<Longrightarrow> grows R t (t @ [r])"
  unfolding grows_def by (metis list_all2_refl)

lemma grows_update_where:
  assumes "\<And>r. R r r" and "\<And>r. r \<in> set t \<Longrightarrow> P r \<Longrightarrow> R r (f r)"
  shows "grows R t (update_where P f t)"
  unfolding grows_def update_where_def
  using assms by (intro exI [of _ "map (\<lambda>r. if P r then f r else r) t"] exI [of _ "[]"])
    (simp add: list_all2_map2 list_all2_same)

lemma grows_trans:
  assumes "\<And>a b c. R a b \<Longrightarrow> R b c \<Longrightarrow> R a c" and "grows R t t'" and "grows R t' t''"
  shows "grows R t t''"
proof -
  obtain t1 new where t': "t' = t1 @ new" and r1: "list_all2 R t t1"
    using assms(2) unfolding grows_def by blast
  obtain u v new' where t'': "t'' = (u @ v) @ new'" and r2: "list_all2 R t1 u"
    using assms(3) unfolding grows_def t' by (auto simp: list_all2_append1)
  have "list_all2 R t u" using r1 r2 by (rule list_all2_trans [rotated]) (use assms(1) in blast)
  with t'' show ?thesis unfolding grows_def by (metis append.assoc)
qed

lemma grows_find:
  assumes "grows R t t'" and "\<And>r r'. R r r' \<Longrightarrow> k r' = k r" and "List.find (\<lambda>r. k r = x) t = Some r"
  shows "\<exists>r'. List.find (\<lambda>r. k r = x) t' = Some r' \<and> R r r'"
proof -
  obtain t1 new where t': "t' = t1 @ new" and r1: "list_all2 R t t1"
    using assms(1) unfolding grows_def by blast
  have "list_all2 (\<lambda>r r'. k r' = k r \<and> R r r') t t1"
    using r1 by (rule list_all2_mono) (use assms(2) in blast)
  from find_list_all2 [OF this, of x] assms(3) show ?thesis
    by (auto simp: t' find_append option_rel_Some1)
qed

section \<open>Runs of operations\<close>

text \<open>The reply of an operation, tagged with its kind, after the connection it leaves.\<close>

definition reply :: "('r \<Rightarrow> 'o) \<Rightarrow> 'r \<times> 's conn \<Rightarrow> 's conn \<times> 'o" where
  "reply f x = (snd x, f (fst x))"

fun run :: "('op \<Rightarrow> 's \<Rightarrow> 's \<times> 'out) \<Rightarrow> 'op list \<Rightarrow> 's \<Rightarrow> 's \<times> ('op \<times> 'out) list" where
  "run step [] s = (s, [])"
| "run step (op # ops) s =
     (let (s1, out) = step op s; (s2, outs) = run step ops s1 in (s2, (op, out) # outs))"

lemma run_invariant:
  assumes "\<And>op s. I s \<Longrightarrow> I (fst (step op s))" and "I s"
  shows "I (fst (run step ops s))"
  using assms(2)
proof (induction ops arbitrary: s)
  case Nil
  then show ?case by simp
next
  case (Cons op ops)
  have "I (fst (step op s))" using assms(1) Cons.prems .
  from Cons.IH [OF this] show ?case
    by (simp add: case_prod_beta Let_def)
qed

lemma run_invariant_in:
  assumes "\<And>op s. op \<in> set ops \<Longrightarrow> I s \<Longrightarrow> I (fst (step op s))" and "I s"
  shows "I (fst (run step ops s))"
  using assms
proof (induction ops arbitrary: s)
  case (Cons op ops)
  have "I (fst (step op s))" using Cons.prems by simp
  then show ?case using Cons.IH [of "fst (step op s)"] Cons.prems(1) by (simp add: case_prod_beta Let_def)
qed simp

text \<open>A property of single replies that the invariant guarantees holds of every reply of a run.\<close>

lemma run_trace:
  assumes step: "\<And>op s. op \<in> H \<Longrightarrow> I s \<Longrightarrow> I (fst (step op s)) \<and> Q op (snd (step op s))"
    and "I s" and "set ops \<subseteq> H" and "(op, out) \<in> set (snd (run step ops s))"
  shows "Q op out"
  using assms(2-)
proof (induction ops arbitrary: s)
  case (Cons op' ops)
  have "I (fst (step op' s)) \<and> Q op' (snd (step op' s))"
    using Cons.prems by (intro step) auto
  with Cons show ?case by (auto simp: case_prod_beta Let_def)
qed simp

lemma run_ops: "map fst (snd (run step ops s)) = ops"
  by (induction ops arbitrary: s) (simp_all add: case_prod_beta Let_def)

lemma run_append_state: "fst (run step (xs @ ys) s) = fst (run step ys (fst (run step xs s)))"
  by (induction xs arbitrary: s) (simp_all add: case_prod_beta Let_def)

lemma run_last_reply:
  "(op, snd (step op (fst (run step ops s)))) \<in> set (snd (run step (ops @ [op]) s))"
  by (induction ops arbitrary: s) (simp_all add: case_prod_beta Let_def)

text \<open>
  The contract of a service whose operations keep an invariant of the tables and move them along a
  preorder: then so does every run.
\<close>

locale guarded_service =
  fixes step :: "'op \<Rightarrow> 's \<Rightarrow> 's \<times> 'out" and inv :: "'s \<Rightarrow> bool" and moves :: "'s \<Rightarrow> 's \<Rightarrow> bool"
  assumes step_keeps: "inv s \<Longrightarrow> inv (fst (step op s)) \<and> moves s (fst (step op s))"
    and moves_refl: "inv s \<Longrightarrow> moves s s"
    and moves_trans: "moves s s' \<Longrightarrow> moves s' s'' \<Longrightarrow> moves s s''"
begin

lemma run_keeps: "inv s \<Longrightarrow> inv (fst (run step ops s))"
  by (rule run_invariant) (use step_keeps in blast)+

lemma run_moves: "inv s \<Longrightarrow> moves s (fst (run step ops s))"
proof (induction ops arbitrary: s)
  case Nil
  then show ?case by (simp add: moves_refl)
next
  case (Cons op ops)
  from step_keeps [OF Cons.prems, of op] Cons.IH [of "fst (step op s)"] show ?case
    by (auto simp: case_prod_beta Let_def intro: moves_trans)
qed

end

text \<open>The steps of a trace whose reply satisfies \<open>P\<close>.\<close>

definition replies_with :: "('op \<Rightarrow> 'out \<Rightarrow> bool) \<Rightarrow> ('op \<times> 'out) list \<Rightarrow> ('op \<times> 'out) list" where
  "replies_with P tr = filter (\<lambda>(op, out). P op out) tr"

lemma replies_with_Cons:
  "replies_with P ((op, out) # tr) = (if P op out then [(op, out)] else []) @ replies_with P tr"
  by (simp add: replies_with_def)

end
