(* ===== verification/Go_Strings.thy ===== *)
theory Go_Strings
  imports Authsec_Prelude
begin

text \<open>
  The parts of Go's \<^verbatim>\<open>strings\<close>, \<^verbatim>\<open>unicode\<close> and \<^verbatim>\<open>path/filepath\<close> packages that the services use, on
  strings of ASCII characters (a \<^typ>\<open>char\<close> is one byte and one rune; case mapping and character
  classes leave bytes above 127 alone). \<open>Match\<close> follows the chunk by chunk algorithm of
  \<^verbatim>\<open>filepath.Match\<close> on Unix, with a malformed pattern reported as no match because every caller
  drops the error.
\<close>

section \<open>Characters\<close>

definition is_upper :: "char \<Rightarrow> bool" where
  "is_upper c \<longleftrightarrow> 65 \<le> (of_char c :: nat) \<and> (of_char c :: nat) \<le> 90"

definition is_lower :: "char \<Rightarrow> bool" where
  "is_lower c \<longleftrightarrow> 97 \<le> (of_char c :: nat) \<and> (of_char c :: nat) \<le> 122"

definition is_digit :: "char \<Rightarrow> bool" where
  "is_digit c \<longleftrightarrow> 48 \<le> (of_char c :: nat) \<and> (of_char c :: nat) \<le> 57"

definition is_print :: "char \<Rightarrow> bool" where
  "is_print c \<longleftrightarrow> 32 \<le> (of_char c :: nat) \<and> (of_char c :: nat) \<le> 126"

text \<open>\<^verbatim>\<open>unicode.IsPunct(c) || unicode.IsSymbol(c)\<close>: the printable ASCII characters that are
  neither letters, digits nor the space.\<close>

definition is_special :: "char \<Rightarrow> bool" where
  "is_special c \<longleftrightarrow>
     33 \<le> (of_char c :: nat) \<and> (of_char c :: nat) \<le> 126 \<and>
     \<not> is_upper c \<and> \<not> is_lower c \<and> \<not> is_digit c"

definition is_space :: "char \<Rightarrow> bool" where
  "is_space c \<longleftrightarrow> (of_char c :: nat) \<in> {9, 10, 11, 12, 13, 32}"

definition upper_char :: "char \<Rightarrow> char" where
  "upper_char c = (if is_lower c then char_of ((of_char c :: nat) - 32) else c)"

definition lower_char :: "char \<Rightarrow> char" where
  "lower_char c = (if is_upper c then char_of ((of_char c :: nat) + 32) else c)"

section \<open>Strings\<close>

definition ToUpper :: "string \<Rightarrow> string" where "ToUpper = map upper_char"
definition ToLower :: "string \<Rightarrow> string" where "ToLower = map lower_char"

definition EqualFold :: "string \<Rightarrow> string \<Rightarrow> bool" where
  "EqualFold s t \<longleftrightarrow> ToLower s = ToLower t"

definition HasPrefix :: "string \<Rightarrow> string \<Rightarrow> bool" where
  "HasPrefix s p \<longleftrightarrow> take (length p) s = p"

definition HasSuffix :: "string \<Rightarrow> string \<Rightarrow> bool" where
  "HasSuffix s p \<longleftrightarrow> HasPrefix (rev s) (rev p)"

fun Contains :: "string \<Rightarrow> string \<Rightarrow> bool" where
  "Contains [] p = (p = [])"
| "Contains (c # cs) p = (HasPrefix (c # cs) p \<or> Contains cs p)"

text \<open>\<^verbatim>\<open>strings.ReplaceAll(s, string(c), "")\<close> and SQL's \<^verbatim>\<open>REPLACE(s, 'c', '')\<close>.\<close>

definition remove_char :: "char \<Rightarrow> string \<Rightarrow> string" where
  "remove_char c s = filter (\<lambda>x. x \<noteq> c) s"

definition TrimSpace :: "string \<Rightarrow> string" where
  "TrimSpace s = rev (dropWhile is_space (rev (dropWhile is_space s)))"

text \<open>\<^verbatim>\<open>strings.SplitN(s, string(c), 2)\<close>.\<close>

fun SplitN2 :: "char \<Rightarrow> string \<Rightarrow> string list" where
  "SplitN2 c s =
     (if c \<in> set s then [takeWhile (\<lambda>x. x \<noteq> c) s, tl (dropWhile (\<lambda>x. x \<noteq> c) s)] else [s])"

text \<open>\<^verbatim>\<open>strings.Fields\<close>: the maximal runs of non-space characters.\<close>

fun fields_from :: "string \<Rightarrow> string \<Rightarrow> string list" where
  "fields_from w [] = (if w = [] then [] else [w])"
| "fields_from w (c # cs) =
     (if is_space c then (if w = [] then [] else [w]) @ fields_from [] cs
      else fields_from (w @ [c]) cs)"

definition Fields :: "string \<Rightarrow> string list" where
  "Fields s = fields_from [] s"

fun Join :: "string list \<Rightarrow> string \<Rightarrow> string" where
  "Join [] sep = []"
| "Join [s] sep = s"
| "Join (s # ss) sep = s @ sep @ Join ss sep"

text \<open>\<^verbatim>\<open>%d\<close> and \<^verbatim>\<open>%x\<close> of \<^verbatim>\<open>fmt.Sprintf\<close>, the latter on a byte slice.\<close>

fun show_nat :: "nat \<Rightarrow> string" where
  "show_nat n =
     (if n < 10 then [char_of (48 + n)] else show_nat (n div 10) @ [char_of (48 + n mod 10)])"

declare show_nat.simps [simp del]

definition Itoa :: "int \<Rightarrow> string" where
  "Itoa i = (if i < 0 then CHR ''-'' # show_nat (nat (- i)) else show_nat (nat i))"

definition hex_digit :: "nat \<Rightarrow> char" where
  "hex_digit n = ''0123456789abcdef'' ! (n mod 16)"

definition Hex :: "byte list \<Rightarrow> string" where
  "Hex bs = concat (map (\<lambda>b. [hex_digit (unat b div 16), hex_digit (unat b)]) bs)"

text \<open>\<^verbatim>\<open>base64.URLEncoding.EncodeToString\<close>: three bytes to four characters, padded with \<^verbatim>\<open>=\<close>.\<close>

definition base64_char :: "nat \<Rightarrow> char" where
  "base64_char n = ''ABCDEFGHIJKLMNOPQRSTUVWXYZabcdefghijklmnopqrstuvwxyz0123456789-_'' ! (n mod 64)"

fun Base64URL :: "byte list \<Rightarrow> string" where
  "Base64URL [] = []"
| "Base64URL [a] =
     [base64_char (unat a div 4), base64_char (unat a mod 4 * 16), CHR ''='', CHR ''='']"
| "Base64URL [a, b] =
     [base64_char (unat a div 4), base64_char (unat a mod 4 * 16 + unat b div 16),
      base64_char (unat b mod 16 * 4), CHR ''='']"
| "Base64URL (a # b # c # bs) =
     base64_char (unat a div 4) # base64_char (unat a mod 4 * 16 + unat b div 16) #
     base64_char (unat b mod 16 * 4 + unat c div 64) # base64_char (unat c) # Base64URL bs"

section \<open>Lemmas on strings\<close>

lemma length_Hex: "length (Hex bs) = 2 * length bs"
  by (induction bs) (simp_all add: Hex_def)

lemma HasPrefix_iff: "HasPrefix s p \<longleftrightarrow> (\<exists>t. s = p @ t)"
proof
  assume "HasPrefix s p"
  then have "s = p @ drop (length p) s"
    unfolding HasPrefix_def by (metis append_take_drop_id)
  then show "\<exists>t. s = p @ t" ..
qed (auto simp: HasPrefix_def)

lemma Contains_iff: "Contains s p \<longleftrightarrow> (\<exists>u v. s = u @ p @ v)"
proof (induction s)
  case Nil
  then show ?case by simp
next
  case (Cons c cs)
  have "(\<exists>u v. c # cs = u @ p @ v) \<longleftrightarrow>
        (\<exists>v. c # cs = p @ v) \<or> (\<exists>u v. cs = u @ p @ v)"
    by (metis append_Cons append_Nil append_eq_Cons_conv)
  with Cons show ?case by (simp add: HasPrefix_iff)
qed

lemma Contains_self [simp]: "Contains s s"
  by (auto simp: Contains_iff intro: exI [of _ "[]"])

lemma Contains_char: "Contains s [c] \<longleftrightarrow> c \<in> set s"
  by (induction s) (auto simp: HasPrefix_def)

lemma EqualFold_refl [simp]: "EqualFold s s"
  by (simp add: EqualFold_def)

lemma takeWhile_split: "c \<notin> set u \<Longrightarrow> takeWhile (\<lambda>x. x \<noteq> c) (u @ c # v) = u"
  by (induction u) auto

lemma dropWhile_split: "c \<notin> set u \<Longrightarrow> dropWhile (\<lambda>x. x \<noteq> c) (u @ c # v) = c # v"
  by (induction u) auto

lemma SplitN2_Cons_iff:
  "SplitN2 c s = [a, b] \<longleftrightarrow> s = a @ c # b \<and> c \<notin> set a"
proof (cases "c \<in> set s")
  case True
  then obtain u v where s: "s = u @ c # v" and u: "c \<notin> set u"
    by (metis split_list_first)
  have "takeWhile (\<lambda>x. x \<noteq> c) s = u" and "dropWhile (\<lambda>x. x \<noteq> c) s = c # v"
    using s u by (simp_all add: takeWhile_split dropWhile_split)
  with True s u show ?thesis
    by (auto simp: append_eq_append_conv2 append_eq_Cons_conv Cons_eq_append_conv)
next
  case False
  then show ?thesis by auto
qed

lemma SplitN2_two: "length (SplitN2 c s) = 2 \<longleftrightarrow> c \<in> set s"
  by simp

lemma remove_char_append [simp]: "remove_char c (s @ t) = remove_char c s @ remove_char c t"
  by (simp add: remove_char_def)

lemma remove_char_notin: "c \<notin> set s \<Longrightarrow> remove_char c s = s"
  unfolding remove_char_def by (rule filter_True) auto

text \<open>Decimal numbers: their digits, their lengths, and that they are told apart.\<close>

lemma lower_char_idem: "lower_char (lower_char c) = lower_char c"
proof (cases "is_upper c")
  case True
  then have "(of_char (lower_char c) :: nat) = of_char c + 32" by (simp add: lower_char_def is_upper_def)
  with True have "\<not> is_upper (lower_char c)" by (simp add: is_upper_def)
  then show ?thesis by (simp add: lower_char_def)
next
  case False
  then show ?thesis by (simp add: lower_char_def)
qed

lemma ToLower_idem: "ToLower (ToLower s) = ToLower s"
  by (simp add: ToLower_def lower_char_idem)

lemma show_nat_digits: "list_all is_digit (show_nat n)"
proof (induction n rule: show_nat.induct)
  case (1 n)
  have "is_digit (char_of (48 + k))" if "k < 10" for k :: nat
    using that by (simp add: is_digit_def of_char_of)
  with 1 show ?case by (cases "n < 10") (simp_all add: show_nat.simps)
qed

lemma length_show_nat: "n < 10 ^ k \<Longrightarrow> 0 < k \<Longrightarrow> length (show_nat n) \<le> k"
proof (induction n arbitrary: k rule: show_nat.induct)
  case (1 n)
  show ?case
  proof (cases "n < 10")
    case True
    with "1.prems"(2) show ?thesis by (simp add: show_nat.simps)
  next
    case False
    obtain j where k: "k = Suc j" using "1.prems"(2) by (cases k) simp_all
    with "1.prems"(1) False have "n div 10 < 10 ^ j" and "0 < j"
      by (auto simp: div_less_iff_less_mult mult.commute intro: gr0I)
    with "1.IH" [OF False] k False show ?thesis by (simp add: show_nat.simps)
  qed
qed

lemma length_show_nat_ge: "10 ^ k \<le> n \<Longrightarrow> k < length (show_nat n)"
proof (induction n arbitrary: k rule: show_nat.induct)
  case (1 n)
  show ?case
  proof (cases "n < 10")
    case True
    have "k = 0"
    proof (rule ccontr)
      assume "k \<noteq> 0"
      then have "(10 :: nat) ^ 1 \<le> 10 ^ k" by (intro power_increasing) simp_all
      with "1.prems" True show False by simp
    qed
    with True show ?thesis by (simp add: show_nat.simps)
  next
    case False
    show ?thesis
    proof (cases k)
      case 0
      then show ?thesis by (subst show_nat.simps) simp
    next
      case (Suc j)
      with "1.prems" have "10 ^ j \<le> n div 10" by simp
      from "1.IH" [OF False this] Suc False show ?thesis by (subst show_nat.simps) simp
    qed
  qed
qed

lemma show_nat_inject: "show_nat n = show_nat m \<Longrightarrow> n = m"
proof (induction n arbitrary: m rule: show_nat.induct)
  case (1 n)
  have last_digit: "last (show_nat k) = char_of (48 + k mod 10)" for k :: nat
    by (subst show_nat.simps) simp
  have "char_of (48 + n mod 10) = (char_of (48 + m mod 10) :: char)"
    using last_digit [of n] last_digit [of m] "1.prems" by simp
  then have "(48 + n mod 10) mod 256 = (48 + m mod 10) mod 256"
    by (metis of_char_of)
  then have mods: "n mod 10 = m mod 10" by simp
  have single: "length (show_nat k) = 1 \<longleftrightarrow> k < 10" for k :: nat
    by (subst show_nat.simps) (auto simp: show_nat.simps [of "k div 10"])
  show ?case
  proof (cases "n < 10")
    case True
    then have "m < 10" using single [of n] single [of m] "1.prems" by simp
    with True mods show ?thesis by simp
  next
    case False
    then have "\<not> m < 10" using single [of n] single [of m] "1.prems" by simp
    with False "1.prems" have "show_nat (n div 10) = show_nat (m div 10)"
      by (subst (asm) show_nat.simps, subst (asm) show_nat.simps [of m]) simp
    from "1.IH" [OF False this] mods show ?thesis by (metis div_mult_mod_eq)
  qed
qed

section \<open>filepath.Match\<close>

abbreviation separator :: char where "separator \<equiv> CHR ''/''"

fun scan_body :: "bool \<Rightarrow> string \<Rightarrow> string \<times> string" where
  "scan_body inrange [] = ([], [])"
| "scan_body inrange (c # cs) =
     (if c = CHR 0x5C then
        (case cs of
           [] \<Rightarrow> ([c], [])
         | d # ds \<Rightarrow> (let (chunk, rest) = scan_body inrange ds in (c # d # chunk, rest)))
      else if c = CHR ''*'' \<and> \<not> inrange then ([], c # cs)
      else
        (let inrange' = (if c = CHR ''['' then True else if c = CHR '']'' then False else inrange);
             (chunk, rest) = scan_body inrange' cs
         in (c # chunk, rest)))"

definition scanChunk :: "string \<Rightarrow> bool \<times> string \<times> string" where
  "scanChunk pattern =
     (let star = (pattern \<noteq> [] \<and> hd pattern = CHR ''*'')
      in (star, scan_body False (dropWhile (\<lambda>c. c = CHR ''*'') pattern)))"

definition getEsc :: "string \<Rightarrow> (char \<times> string) option" where
  "getEsc chunk =
     (case chunk of
        [] \<Rightarrow> None
      | c # cs \<Rightarrow>
          if c = CHR ''-'' \<or> c = CHR '']'' then None
          else if c = CHR 0x5C then
            (case cs of [] \<Rightarrow> None | d # ds \<Rightarrow> if ds = [] then None else Some (d, ds))
          else if cs = [] then None else Some (c, cs))"

lemma getEsc_shorter: "getEsc chunk = Some (c, rest) \<Longrightarrow> length rest < length chunk"
  by (auto simp: getEsc_def split: list.splits if_splits)

text \<open>
  The ranges of a character class after \<^verbatim>\<open>[\<close> and an optional \<^verbatim>\<open>^\<close>: whether the character is in one
  of them and what follows the closing bracket; \<open>None\<close> is \<^verbatim>\<open>ErrBadPattern\<close>.
\<close>

function class_ranges :: "char \<Rightarrow> string \<Rightarrow> bool \<Rightarrow> bool \<Rightarrow> (bool \<times> string) option" where
  "class_ranges r chunk some_range matched =
     (if some_range \<and> chunk \<noteq> [] \<and> hd chunk = CHR '']'' then Some (matched, tl chunk)
      else
        (case getEsc chunk of
           None \<Rightarrow> None
         | Some (lo, ch1) \<Rightarrow>
             (if hd ch1 = CHR ''-'' then
                (case getEsc (tl ch1) of
                   None \<Rightarrow> None
                 | Some (hi, ch2) \<Rightarrow>
                     class_ranges r ch2 True
                       (matched \<or> (of_char lo :: nat) \<le> of_char r \<and> (of_char r :: nat) \<le> of_char hi))
              else class_ranges r ch1 True (matched \<or> r = lo))))"
  by pat_completeness auto
termination
proof (relation "measure (\<lambda>(r, chunk, s, m). length chunk)", goal_cases)
  case 1
  then show ?case by simp
next
  case (2 r chunk some_range matched x2 lo ch1 x2a hi ch2)
  then have "length ch1 < length chunk" and "length ch2 < length (tl ch1)"
    using getEsc_shorter by force+
  then show ?case by (simp add: length_tl)
next
  case (3 r chunk some_range matched x2 lo ch1)
  then show ?case using getEsc_shorter by force
qed

declare class_ranges.simps [simp del]

lemma class_ranges_shorter:
  "class_ranges r chunk some_range matched = Some (m, rest) \<Longrightarrow> length rest < length chunk"
proof (induction r chunk some_range matched rule: class_ranges.induct)
  case (1 r chunk some_range matched)
  show ?case
  proof (cases "some_range \<and> chunk \<noteq> [] \<and> hd chunk = CHR '']''")
    case True
    with "1.prems" show ?thesis by (auto simp: class_ranges.simps [of r chunk])
  next
    case False
    with "1.prems" obtain lo ch1 where lo: "getEsc chunk = Some (lo, ch1)"
      by (auto simp: class_ranges.simps [of r chunk] split: option.splits)
    have len1: "length ch1 < length chunk" using lo by (rule getEsc_shorter)
    show ?thesis
    proof (cases "hd ch1 = CHR ''-''")
      case True
      with "1.prems" False lo obtain hi ch2 where hi: "getEsc (tl ch1) = Some (hi, ch2)"
        by (auto simp: class_ranges.simps [of r chunk] split: option.splits)
      have "length ch2 < length (tl ch1)" using hi by (rule getEsc_shorter)
      moreover have "length rest < length ch2"
        using "1.IH"(1) [OF False lo refl True hi refl] "1.prems" False lo True hi
        by (simp add: class_ranges.simps [of r chunk])
      ultimately show ?thesis using len1 by simp
    next
      case no_dash: False
      have "length rest < length ch1"
        using "1.IH"(2) [OF False lo refl no_dash] "1.prems" False lo no_dash
        by (simp add: class_ranges.simps [of r chunk])
      with len1 show ?thesis by simp
    qed
  qed
qed

text \<open>
  \<open>matchChunk\<close> matches a star-free chunk against a prefix of the name. The name is \<open>None\<close> once the
  match has failed (the loop then only goes on to find syntax errors); the result is \<open>None\<close> for
  \<^verbatim>\<open>ErrBadPattern\<close>, \<open>Some None\<close> for no match and \<open>Some (Some rest)\<close> for a match that leaves \<open>rest\<close>.
\<close>

definition advance :: "(char \<Rightarrow> bool) \<Rightarrow> string option \<Rightarrow> string option" where
  "advance ok name =
     (case name of Some (c # cs) \<Rightarrow> (if ok c then Some cs else None) | _ \<Rightarrow> None)"

definition rune_at :: "string option \<Rightarrow> char" where
  "rune_at name = (case name of Some (c # cs) \<Rightarrow> c | _ \<Rightarrow> CHR 0x00)"

function matchChunk :: "string \<Rightarrow> string option \<Rightarrow> string option option" where
  "matchChunk [] name = Some name"
| "matchChunk (c # cs) name =
     (if c = CHR ''['' then
        (let negated = (cs \<noteq> [] \<and> hd cs = CHR ''^'');
             body = (if negated then tl cs else cs)
         in case class_ranges (rune_at name) body False False of
              None \<Rightarrow> None
            | Some (m, rest) \<Rightarrow> matchChunk rest (advance (\<lambda>_. m \<noteq> negated) name))
      else if c = CHR ''?'' then matchChunk cs (advance (\<lambda>x. x \<noteq> separator) name)
      else if c = CHR 0x5C then
        (case cs of
           [] \<Rightarrow> None
         | d # ds \<Rightarrow> matchChunk ds (advance (\<lambda>x. x = d) name))
      else matchChunk cs (advance (\<lambda>x. x = c) name))"
  by pat_completeness auto
termination
proof (relation "measure (\<lambda>(chunk, name). length chunk)", goal_cases)
  case 1
  then show ?case by simp
next
  case (2 c cs name negated body y m rest)
  then have "length rest < length body" using class_ranges_shorter by force
  moreover have "length body \<le> length cs" using 2(3) by (cases cs) auto
  ultimately show ?case by simp
qed auto

text \<open>
  \<open>skip_match\<close> is the loop that looks for the chunk after skipping at least one byte of the name, never
  a separator; it reports the first position where the chunk matches, and for the last chunk one
  where it also exhausts the name.
\<close>

definition chunk_fits :: "string \<Rightarrow> bool \<Rightarrow> string \<Rightarrow> string option" where
  "chunk_fits chunk final name =
     (case matchChunk chunk (Some name) of
        Some (Some rest) \<Rightarrow> (if final \<and> rest \<noteq> [] then None else Some rest)
      | _ \<Rightarrow> None)"

fun skip_match :: "string \<Rightarrow> bool \<Rightarrow> string \<Rightarrow> string option" where
  "skip_match chunk final [] = None"
| "skip_match chunk final (c # cs) =
     (if c = separator then None
      else case chunk_fits chunk final cs of
             Some rest \<Rightarrow> Some rest
           | None \<Rightarrow> skip_match chunk final cs)"

lemma scan_body_length: "length (fst (scan_body b p)) + length (snd (scan_body b p)) = length p"
  by (induction b p rule: scan_body.induct)
    (auto simp: Let_def case_prod_beta split: list.splits)

lemma scan_body_progress:
  "p \<noteq> [] \<Longrightarrow> hd p \<noteq> CHR ''*'' \<Longrightarrow> fst (scan_body False p) \<noteq> []"
  by (cases p) (auto simp: Let_def case_prod_beta split: list.splits)

lemma scanChunk_shorter:
  assumes "p \<noteq> []" and "scanChunk p = (star, chunk, rest)"
  shows "length rest < length p"
proof -
  let ?q = "dropWhile (\<lambda>c. c = CHR ''*'') p"
  have scan: "scan_body False ?q = (chunk, rest)"
    using assms(2) by (simp add: scanChunk_def Let_def)
  have len: "length chunk + length rest = length ?q"
    using scan_body_length [of False ?q] scan by simp
  show ?thesis
  proof (cases "hd p = CHR ''*''")
    case True
    with assms(1) have "length ?q < length p"
      by (cases p) (auto intro: le_imp_less_Suc length_dropWhile_le)
    with len show ?thesis by simp
  next
    case False
    with assms(1) have "?q = p" by (cases p) auto
    with assms(1) False scan have "chunk \<noteq> []"
      using scan_body_progress [of p] by simp
    with len \<open>?q = p\<close> show ?thesis by (cases chunk) auto
  qed
qed

function Match :: "string \<Rightarrow> string \<Rightarrow> bool" where
  "Match pattern name =
     (if pattern = [] then name = []
      else
        (let (star, chunk, rest) = scanChunk pattern
         in if star \<and> chunk = [] then separator \<notin> set name
            else
              (case chunk_fits chunk (rest = []) name of
                 Some name' \<Rightarrow> Match rest name'
               | None \<Rightarrow>
                   (if star \<and> matchChunk chunk (Some name) \<noteq> None then
                      (case skip_match chunk (rest = []) name of
                         Some name' \<Rightarrow> Match rest name'
                       | None \<Rightarrow> False)
                    else False))))"
  by pat_completeness auto
termination
  by (relation "measure (\<lambda>(p, n). length p)") (auto dest: scanChunk_shorter [OF _ sym])

declare Match.simps [simp del]

subsection \<open>Patterns without metacharacters\<close>

definition plain_pattern :: "string \<Rightarrow> bool" where
  "plain_pattern p \<longleftrightarrow> (\<forall>c \<in> set p. c \<noteq> CHR ''*'' \<and> c \<noteq> CHR ''?'' \<and> c \<noteq> CHR ''['' \<and> c \<noteq> CHR 0x5C)"

lemma plain_pattern_Cons [simp]:
  "plain_pattern (c # cs) \<longleftrightarrow>
     c \<noteq> CHR ''*'' \<and> c \<noteq> CHR ''?'' \<and> c \<noteq> CHR ''['' \<and> c \<noteq> CHR 0x5C \<and> plain_pattern cs"
  by (auto simp: plain_pattern_def)

lemma scan_body_plain: "plain_pattern p \<Longrightarrow> scan_body False p = (p, [])"
  by (induction p) (auto simp: Let_def)

lemma matchChunk_plain_failed: "plain_pattern p \<Longrightarrow> matchChunk p None = Some None"
  by (induction p) (auto simp: advance_def)

lemma matchChunk_plain:
  "plain_pattern p \<Longrightarrow>
     matchChunk p (Some s) = Some (if HasPrefix s p then Some (drop (length p) s) else None)"
proof (induction p arbitrary: s)
  case Nil
  then show ?case by (simp add: HasPrefix_def)
next
  case (Cons c cs)
  then show ?case
    by (cases s) (auto simp: advance_def HasPrefix_def matchChunk_plain_failed)
qed

lemma scanChunk_plain: "plain_pattern p \<Longrightarrow> scanChunk p = (False, p, [])"
  by (cases p) (auto simp: scanChunk_def Let_def scan_body_plain)

lemma Match_plain: "plain_pattern p \<Longrightarrow> Match p s \<longleftrightarrow> p = s"
proof (cases "p = []")
  case True
  then show ?thesis by (auto simp: Match.simps [of "[]"])
next
  case False
  assume p: "plain_pattern p"
  have fits: "chunk_fits p True s = (if p = s then Some [] else None)"
    using p by (auto simp: chunk_fits_def matchChunk_plain HasPrefix_iff)
  show ?thesis
    using False p fits
    by (simp add: Match.simps [of p] scanChunk_plain Match.simps [of "[]"])
qed

lemma Match_star: "Match ''*'' s \<longleftrightarrow> separator \<notin> set s"
  by (simp add: Match.simps [of "''*''"] scanChunk_def)

end
