(* ===== verification/Directory.thy ===== *)
theory Directory
  imports Go_Strings
begin

text \<open>
  The platform tables that identify tenants and users (\<^verbatim>\<open>tenants\<close>, \<^verbatim>\<open>users\<close>) and the lookups of
  \<^verbatim>\<open>database/admin_tenant_repository.go\<close> and \<^verbatim>\<open>database/user_repository.go\<close> that the authorization
  flows call. The flows extend \<open>directory\<close> with tables of their own.
\<close>

record Tenant =
  tn_ID :: uuid
  tn_TenantID :: uuid
  tn_TenantDB :: string
  tn_Email :: string
  tn_Username :: "string option"
  tn_PasswordHash :: string
  tn_Provider :: string
  tn_ProviderID :: "string option"
  tn_Avatar :: "string option"
  tn_Name :: string
  tn_Source :: string
  tn_Status :: string
  tn_LastLogin :: "gotime option"
  tn_CreatedAt :: gotime
  tn_UpdatedAt :: gotime
  tn_TenantDomain :: string

text \<open>The columns of \<^verbatim>\<open>users\<close> that the queries below scan; \<open>None\<close> is SQL's \<^verbatim>\<open>NULL\<close>.\<close>

record ExtendedUser =
  us_ID :: uuid
  us_ClientID :: uuid
  us_TenantID :: uuid
  us_ProjectID :: uuid
  us_Name :: string
  us_Username :: "string option"
  us_Email :: string
  us_PasswordHash :: string
  us_TenantDomain :: string
  us_Provider :: string
  us_ProviderID :: string
  us_AvatarURL :: "string option"
  us_Active :: bool
  us_MFAEnabled :: bool
  us_MFAMethod :: "string list"
  us_MFADefaultMethod :: "string option"
  us_MFAEnrolledAt :: "gotime option"
  us_MFAVerified :: bool
  us_LastLogin :: "gotime option"
  us_CreatedAt :: gotime
  us_UpdatedAt :: gotime

text \<open>The zero value of the struct, \<^verbatim>\<open>&models.ExtendedUser{}\<close>.\<close>

definition zero_user :: ExtendedUser where
  "zero_user =
     \<lparr> us_ID = nil_uuid, us_ClientID = nil_uuid, us_TenantID = nil_uuid, us_ProjectID = nil_uuid,
       us_Name = [], us_Username = None, us_Email = [], us_PasswordHash = [],
       us_TenantDomain = [], us_Provider = [], us_ProviderID = [], us_AvatarURL = None,
       us_Active = False, us_MFAEnabled = False, us_MFAMethod = [], us_MFADefaultMethod = None,
       us_MFAEnrolledAt = None, us_MFAVerified = False, us_LastLogin = None,
       us_CreatedAt = 0, us_UpdatedAt = 0 \<rparr>"

record directory =
  tenants :: "Tenant list"
  users :: "ExtendedUser list"

definition GetAllTenants ::
  "'a directory_scheme conn \<Rightarrow> (go_error + Tenant list) \<times> 'a directory_scheme conn" where
  "GetAllTenants c =
     (case query (\<lambda>s. sort_key (\<lambda>t. - tn_CreatedAt t) (tenants s)) c of
        (Inl e, c') \<Rightarrow> (Inl (Wrap ''failed to query tenants: '' e), c')
      | (Inr ts, c') \<Rightarrow> (Inr ts, c'))"

definition GetTenantByID ::
  "uuid \<Rightarrow> 'a directory_scheme conn \<Rightarrow> (go_error + Tenant) \<times> 'a directory_scheme conn" where
  "GetTenantByID tenantID c =
     (case query_row (\<lambda>s. select_row (\<lambda>t. tn_TenantID t = tenantID) (tenants s)) c of
        (Inl NoRows, c') \<Rightarrow> (Inl (Errorf ''tenant not found''), c')
      | (Inl e, c') \<Rightarrow> (Inl (Wrap ''failed to get tenant: '' e), c')
      | (Inr t, c') \<Rightarrow> (Inr t, c'))"

definition GetUserByID ::
  "uuid \<Rightarrow> 'a directory_scheme conn \<Rightarrow> (go_error + ExtendedUser) \<times> 'a directory_scheme conn" where
  "GetUserByID userID c =
     (case query_row (\<lambda>s. select_row (\<lambda>u. us_ID u = userID) (users s)) c of
        (Inl NoRows, c') \<Rightarrow> (Inl (Errorf ''user not found''), c')
      | (Inl e, c') \<Rightarrow> (Inl e, c')
      | (Inr u, c') \<Rightarrow> (Inr u, c'))"

definition GetUserByEmail ::
  "string \<Rightarrow> 'a directory_scheme conn \<Rightarrow> (go_error + ExtendedUser) \<times> 'a directory_scheme conn" where
  "GetUserByEmail email c =
     (case query_row (\<lambda>s. select_row (\<lambda>u. ToLower (us_Email u) = ToLower email) (users s)) c of
        (Inl NoRows, c') \<Rightarrow> (Inl (Errorf ''user not found''), c')
      | (Inl e, c') \<Rightarrow> (Inl e, c')
      | (Inr u, c') \<Rightarrow> (Inr u, c'))"

definition GetUserByEmailAndTenant ::
  "string \<Rightarrow> uuid \<Rightarrow> 'a directory_scheme conn
     \<Rightarrow> (go_error + ExtendedUser) \<times> 'a directory_scheme conn" where
  "GetUserByEmailAndTenant email tenantID c =
     (case query_row
        (\<lambda>s. select_row (\<lambda>u. ToLower (us_Email u) = ToLower email \<and> us_TenantID u = tenantID)
               (users s)) c of
        (Inl NoRows, c') \<Rightarrow> (Inl (Errorf ''user not found''), c')
      | (Inl e, c') \<Rightarrow> (Inl e, c')
      | (Inr u, c') \<Rightarrow> (Inr u, c'))"

section \<open>Lookups do not write, and what they return\<close>

lemma GetAllTenants_fault_free [sql_simps]:
  "GetAllTenants (s, []) = (Inr (sort_key (\<lambda>t. - tn_CreatedAt t) (tenants s)), s, [])"
  by (simp add: GetAllTenants_def sql_simps)

lemma GetTenantByID_fault_free [sql_simps]:
  "GetTenantByID x (s, []) =
     ((case List.find (\<lambda>t. tn_TenantID t = x) (tenants s) of
         None \<Rightarrow> Inl (Errorf ''tenant not found'') | Some t \<Rightarrow> Inr t), s, [])"
  by (simp add: GetTenantByID_def sql_simps select_row_def split: option.splits)

lemma GetUserByID_fault_free [sql_simps]:
  "GetUserByID x (s, []) =
     ((case List.find (\<lambda>u. us_ID u = x) (users s) of
         None \<Rightarrow> Inl (Errorf ''user not found'') | Some u \<Rightarrow> Inr u), s, [])"
  by (simp add: GetUserByID_def sql_simps select_row_def split: option.splits)

lemma GetUserByEmail_fault_free [sql_simps]:
  "GetUserByEmail m (s, []) =
     ((case List.find (\<lambda>u. ToLower (us_Email u) = ToLower m) (users s) of
         None \<Rightarrow> Inl (Errorf ''user not found'') | Some u \<Rightarrow> Inr u), s, [])"
  by (simp add: GetUserByEmail_def sql_simps select_row_def split: option.splits)

lemma GetUserByEmailAndTenant_fault_free [sql_simps]:
  "GetUserByEmailAndTenant m x (s, []) =
     ((case List.find (\<lambda>u. ToLower (us_Email u) = ToLower m \<and> us_TenantID u = x) (users s) of
         None \<Rightarrow> Inl (Errorf ''user not found'') | Some u \<Rightarrow> Inr u), s, [])"
  by (simp add: GetUserByEmailAndTenant_def sql_simps select_row_def split: option.splits)

lemma GetTenantByID_keeps_tables [simp]: "fst (snd (GetTenantByID x c)) = fst c"
  unfolding GetTenantByID_def
  by (auto split: prod.splits sum.splits go_error.splits dest: query_row_tablesD)

lemma GetUserByID_keeps_tables [simp]: "fst (snd (GetUserByID x c)) = fst c"
  unfolding GetUserByID_def
  by (auto split: prod.splits sum.splits go_error.splits dest: query_row_tablesD)

section \<open>Examples\<close>

text \<open>A tenant and a user on which the witnesses of the other theories run.\<close>

definition ex_tenant :: Tenant where
  "ex_tenant =
     \<lparr> tn_ID = ''t-1'', tn_TenantID = ''t-1'', tn_TenantDB = ''db'', tn_Email = ''o@x.io'', tn_Username = None,
       tn_PasswordHash = [], tn_Provider = ''local'', tn_ProviderID = None, tn_Avatar = None,
       tn_Name = ''X'', tn_Source = [], tn_Status = ''active'', tn_LastLogin = None, tn_CreatedAt = 0,
       tn_UpdatedAt = 0, tn_TenantDomain = ''x.io'' \<rparr>"

definition ex_user :: ExtendedUser where
  "ex_user = zero_user\<lparr> us_ID := ''u-1'', us_Email := ''a@x.io'', us_TenantID := ''t-1'', us_Active := True \<rparr>"

end
