(* ===== verification/Token_Service.thy ===== *)
theory Token_Service
  imports Go_Strings
begin

text \<open>
  \<^verbatim>\<open>services/authmanager_token_service.go\<close>: the claims that every issued JWT carries. Signing is
  the JWT library's; it is the argument \<open>sign kid claims secret\<close>, which stands for
  \<^verbatim>\<open>jwt.NewWithClaims(HS256, claims)\<close> with the \<^verbatim>\<open>kid\<close> header set and \<^verbatim>\<open>SignedString(secret)\<close>.
\<close>

type_synonym MapClaims = "string \<rightharpoonup> goval"
type_synonym signer = "string \<Rightarrow> MapClaims \<Rightarrow> string \<Rightarrow> go_error + string"

record AuthManagerTokenService =
  jwtDefaultSecret :: string
  jwtSDKSecret :: string

definition NewAuthManagerTokenService ::
  "(string \<Rightarrow> string) \<Rightarrow> go_error + AuthManagerTokenService" where
  "NewAuthManagerTokenService Getenv =
     (let defaultSecret = Getenv ''JWT_DEF_SECRET''; sdkSecret = Getenv ''JWT_SDK_SECRET''
      in if defaultSecret = [] then
           Inl (Errorf ''CRITICAL: JWT_DEF_SECRET environment variable is not set. Cannot generate secure tokens'')
         else if sdkSecret = [] then
           Inl (Errorf ''CRITICAL: JWT_SDK_SECRET environment variable is not set. Cannot generate secure tokens'')
         else Inr \<lparr> jwtDefaultSecret = defaultSecret, jwtSDKSecret = sdkSecret \<rparr>)"

record TokenClaims =
  tc_TenantID :: string
  tc_TenantDomain :: string
  tc_ProjectID :: string
  tc_ClientID :: string
  tc_EmailID :: string
  tc_UserID :: "uuid option"
  tc_Scopes :: "string list"
  tc_Roles :: "string list"
  tc_ExpiresIn :: gotime

definition empty_claims :: TokenClaims where
  "empty_claims =
     \<lparr> tc_TenantID = [], tc_TenantDomain = [], tc_ProjectID = [], tc_ClientID = [],
       tc_EmailID = [], tc_UserID = None, tc_Scopes = [], tc_Roles = [], tc_ExpiresIn = 0 \<rparr>"

text \<open>The \<^verbatim>\<open>jwt.MapClaims\<close> that \<open>generateTokenWithType\<close> builds.\<close>

definition jwtClaims :: "gotime \<Rightarrow> TokenClaims \<Rightarrow> string \<Rightarrow> MapClaims" where
  "jwtClaims now claims tokenType =
     (let expiresIn = (if tc_ExpiresIn claims = 0 then 24 * Hour else tc_ExpiresIn claims);
          c0 = [ ''tenant_id'' \<mapsto> GStr (tc_TenantID claims),
                 ''project_id'' \<mapsto> GStr (tc_ProjectID claims),
                 ''client_id'' \<mapsto> GStr (tc_ClientID claims),
                 ''email_id'' \<mapsto> GStr (tc_EmailID claims),
                 ''token_type'' \<mapsto> GStr tokenType,
                 ''aud'' \<mapsto> GStr ''authsec-api'',
                 ''iat'' \<mapsto> GInt64 (Unix now),
                 ''nbf'' \<mapsto> GInt64 (Unix now),
                 ''exp'' \<mapsto> GInt64 (Unix (now + expiresIn)),
                 ''iss'' \<mapsto> GStr ''authsec-ai/auth-manager'' ];
          c1 = (case tc_UserID claims of None \<Rightarrow> c0
                | Some u \<Rightarrow> c0(''user_id'' \<mapsto> GStr u, ''sub'' \<mapsto> GStr u));
          c2 = (if tc_Scopes claims \<noteq> [] then c1(''scope'' \<mapsto> GStrs (tc_Scopes claims)) else c1);
          c3 = (if tc_TenantDomain claims \<noteq> [] then
                  c2(''tenant_domain'' \<mapsto> GStr (tc_TenantDomain claims)) else c2);
          c4 = (if tc_Roles claims \<noteq> [] then c3(''roles'' \<mapsto> GStrs (tc_Roles claims)) else c3)
      in c4)"

definition generateTokenWithType ::
  "signer \<Rightarrow> gotime \<Rightarrow> TokenClaims \<Rightarrow> string \<Rightarrow> string \<Rightarrow> go_error + string" where
  "generateTokenWithType sign now claims tokenType secret =
     (case sign tokenType (jwtClaims now claims tokenType) secret of
        Inl e \<Rightarrow> Inl (Wrap ''failed to sign token: '' e)
      | Inr t \<Rightarrow> Inr t)"

definition GenerateToken ::
  "AuthManagerTokenService \<Rightarrow> signer \<Rightarrow> gotime \<Rightarrow> TokenClaims \<Rightarrow> go_error + string" where
  "GenerateToken s sign now claims =
     generateTokenWithType sign now claims ''default'' (jwtDefaultSecret s)"

definition GenerateSDKToken ::
  "AuthManagerTokenService \<Rightarrow> signer \<Rightarrow> gotime \<Rightarrow> TokenClaims \<Rightarrow> go_error + string" where
  "GenerateSDKToken s sign now claims =
     generateTokenWithType sign now claims ''sdk-agent'' (jwtSDKSecret s)"

definition GenerateAdminToken ::
  "AuthManagerTokenService \<Rightarrow> signer \<Rightarrow> gotime \<Rightarrow> uuid \<Rightarrow> string \<Rightarrow> uuid \<Rightarrow> uuid option
     \<Rightarrow> string \<Rightarrow> string list \<Rightarrow> go_error + string" where
  "GenerateAdminToken s sign now adminUserID email projectID tenantID tenantDomain roles =
     (let tenantIDStr = (case tenantID of Some t \<Rightarrow> (if t \<noteq> nil_uuid then t else ''admin'') | None \<Rightarrow> ''admin'')
      in GenerateToken s sign now
           (empty_claims\<lparr> tc_TenantID := tenantIDStr, tc_TenantDomain := tenantDomain,
              tc_ProjectID := projectID, tc_ClientID := adminUserID, tc_EmailID := email,
              tc_UserID := Some adminUserID, tc_Roles := roles, tc_ExpiresIn := 24 * Hour \<rparr>))"

definition GenerateTenantUserToken ::
  "AuthManagerTokenService \<Rightarrow> signer \<Rightarrow> gotime \<Rightarrow> uuid \<Rightarrow> uuid \<Rightarrow> uuid \<Rightarrow> string \<Rightarrow> gotime
     \<Rightarrow> go_error + string" where
  "GenerateTenantUserToken s sign now userID tenantID projectID email expiresIn =
     GenerateToken s sign now
       (empty_claims\<lparr> tc_TenantID := tenantID, tc_ProjectID := projectID, tc_ClientID := userID,
          tc_EmailID := email, tc_UserID := Some userID, tc_ExpiresIn := expiresIn \<rparr>)"

definition GenerateEndUserToken ::
  "AuthManagerTokenService \<Rightarrow> signer \<Rightarrow> gotime \<Rightarrow> uuid \<Rightarrow> string \<Rightarrow> string \<Rightarrow> string
     \<Rightarrow> string list \<Rightarrow> gotime \<Rightarrow> go_error + string" where
  "GenerateEndUserToken s sign now userID tenantID clientID email scopes expiresIn =
     GenerateToken s sign now
       (empty_claims\<lparr> tc_TenantID := tenantID, tc_ProjectID := tenantID, tc_ClientID := clientID,
          tc_EmailID := email, tc_UserID := Some userID, tc_Scopes := scopes,
          tc_ExpiresIn := expiresIn \<rparr>)"

text \<open>The claims shared by the voice, device and CIBA tokens: the client is the user.\<close>

definition user_claims ::
  "uuid \<Rightarrow> uuid \<Rightarrow> string \<Rightarrow> string list \<Rightarrow> gotime \<Rightarrow> TokenClaims" where
  "user_claims userID tenantID email scopes expiresIn =
     empty_claims\<lparr> tc_TenantID := tenantID, tc_ProjectID := tenantID, tc_ClientID := userID,
       tc_EmailID := email, tc_UserID := Some userID, tc_Scopes := scopes,
       tc_ExpiresIn := expiresIn \<rparr>"

definition GenerateVoiceAuthToken ::
  "AuthManagerTokenService \<Rightarrow> signer \<Rightarrow> gotime \<Rightarrow> uuid \<Rightarrow> uuid \<Rightarrow> string \<Rightarrow> string list \<Rightarrow> gotime
     \<Rightarrow> go_error + string" where
  "GenerateVoiceAuthToken s sign now userID tenantID email scopes expiresIn =
     GenerateToken s sign now (user_claims userID tenantID email scopes expiresIn)"

definition GenerateDeviceAuthToken ::
  "AuthManagerTokenService \<Rightarrow> signer \<Rightarrow> gotime \<Rightarrow> uuid \<Rightarrow> uuid \<Rightarrow> string \<Rightarrow> string list \<Rightarrow> gotime
     \<Rightarrow> go_error + string" where
  "GenerateDeviceAuthToken s sign now userID tenantID email scopes expiresIn =
     GenerateToken s sign now (user_claims userID tenantID email scopes expiresIn)"

definition GenerateCIBAToken ::
  "AuthManagerTokenService \<Rightarrow> signer \<Rightarrow> gotime \<Rightarrow> uuid \<Rightarrow> uuid \<Rightarrow> string \<Rightarrow> string list \<Rightarrow> gotime
     \<Rightarrow> go_error + string" where
  "GenerateCIBAToken s sign now userID tenantID email scopes expiresIn =
     GenerateToken s sign now (user_claims userID tenantID email scopes expiresIn)"

definition GenerateTenantCIBAToken ::
  "AuthManagerTokenService \<Rightarrow> signer \<Rightarrow> gotime \<Rightarrow> uuid \<Rightarrow> uuid \<Rightarrow> uuid \<Rightarrow> string \<Rightarrow> string list
     \<Rightarrow> gotime \<Rightarrow> go_error + string" where
  "GenerateTenantCIBAToken s sign now userID tenantID clientID email scopes expiresIn =
     GenerateToken s sign now
       ((user_claims userID tenantID email scopes expiresIn)\<lparr> tc_ClientID := clientID \<rparr>)"

definition GenerateTOTPToken ::
  "AuthManagerTokenService \<Rightarrow> signer \<Rightarrow> gotime \<Rightarrow> uuid \<Rightarrow> uuid \<Rightarrow> string \<Rightarrow> gotime
     \<Rightarrow> go_error + string" where
  "GenerateTOTPToken s sign now userID tenantID email expiresIn =
     GenerateToken s sign now (user_claims userID tenantID email [] expiresIn)"

lemma generateTokenWithType_Inr_iff:
  "generateTokenWithType sign now claims ty secret = Inr t \<longleftrightarrow>
     sign ty (jwtClaims now claims ty) secret = Inr t"
  by (simp add: generateTokenWithType_def split: sum.splits)

lemma jwtClaims_identity:
  assumes "tc_UserID claims = Some u"
  shows "jwtClaims now claims ty ''sub'' = Some (GStr u)"
    and "jwtClaims now claims ty ''user_id'' = Some (GStr u)"
    and "jwtClaims now claims ty ''tenant_id'' = Some (GStr (tc_TenantID claims))"
    and "jwtClaims now claims ty ''token_type'' = Some (GStr ty)"
  using assms by (simp_all add: jwtClaims_def Let_def)

section \<open>Examples\<close>

definition ex_tokens :: AuthManagerTokenService where
  "ex_tokens = \<lparr> jwtDefaultSecret = ''s1'', jwtSDKSecret = ''s2'' \<rparr>"

text \<open>A signer that writes the subject and the secret into the token.\<close>

definition ex_sign :: signer where
  "ex_sign kid claims secret =
     (case claims ''sub'' of Some (GStr u) \<Rightarrow> Inr (''jwt.'' @ u @ ''.'' @ secret) | _ \<Rightarrow> Inr (''jwt.'' @ secret))"

lemma ex_sign_total: "\<exists>tok. tok \<noteq> [] \<and> ex_sign kid claims secret = Inr tok"
  by (simp add: ex_sign_def split: option.split goval.split)

end
