(* ===== verification/One_Time_Grant.thy ===== *)
theory One_Time_Grant
  imports Authsec_Prelude
begin

text \<open>
  What a polled authorization grant promises, whichever flow implements it. The abstract machine
  has five phases; \<open>phase_step\<close> is its step relation. The locale \<open>phased_grant\<close> is the refinement
  contract between a concrete service and that machine, and \<open>one_time_grant\<close> the weaker contract
  from which follows that a grant is redeemed at most once in any run. The device flow
  (theory \<open>Device_Auth\<close>) and the CIBA flow (theory \<open>Ciba_Auth\<close>) interpret \<open>phased_grant\<close>.
\<close>

section \<open>The abstract machine\<close>

datatype phase = Pending | Granted | Denied | Expired | Consumed

inductive phase_step :: "phase \<Rightarrow> phase \<Rightarrow> bool" where
  approve: "phase_step Pending Granted"
| deny: "phase_step Pending Denied"
| redeem: "phase_step Granted Consumed"
| expire: "phase_step p Expired"

inductive_simps phase_step_simps [simp]:
  "phase_step Pending q" "phase_step Granted q" "phase_step Denied q"
  "phase_step Expired q" "phase_step Consumed q"

inductive_cases phase_step_to_Granted: "phase_step p Granted"

definition live_phase :: "phase \<Rightarrow> bool" where
  "live_phase p \<longleftrightarrow> p = Pending \<or> p = Granted"

lemma live_phase_simps [simp]:
  "live_phase Pending" "live_phase Granted" "\<not> live_phase Denied"
  "\<not> live_phase Expired" "\<not> live_phase Consumed"
  by (simp_all add: live_phase_def)

lemma phase_step_dead: "phase_step p q \<Longrightarrow> \<not> live_phase p \<Longrightarrow> \<not> live_phase q"
  by (cases p) auto

text \<open>No sequence of steps revives a grant: only a pending or granted one can still be redeemed.\<close>

lemma phase_steps_dead: "phase_step\<^sup>*\<^sup>* p q \<Longrightarrow> \<not> live_phase p \<Longrightarrow> \<not> live_phase q"
  by (induction rule: rtranclp_induct) (auto dest: phase_step_dead)

text \<open>The phase a stored status denotes; the flows differ in the word for a granted request.\<close>

definition status_phase :: "string \<Rightarrow> string \<Rightarrow> phase" where
  "status_phase granted st =
     (if st = ''pending'' then Pending else if st = granted then Granted
      else if st = ''denied'' then Denied else if st = ''consumed'' then Consumed
      else Expired)"

section \<open>Contracts\<close>

text \<open>
  \<open>step\<close> is one operation of the service, \<open>spent k s\<close> that the grant with key \<open>k\<close> can no longer be
  redeemed, \<open>renews k op\<close> that \<open>op\<close> creates a grant under the key \<open>k\<close>, and \<open>issues k op out\<close> that the
  reply \<open>out\<close> of \<open>op\<close> hands out the token of \<open>k\<close>.
\<close>

locale one_time_grant =
  fixes step :: "'op \<Rightarrow> 's \<Rightarrow> 's \<times> 'out"
    and inv :: "'s \<Rightarrow> bool"
    and spent :: "'k \<Rightarrow> 's \<Rightarrow> bool"
    and renews :: "'k \<Rightarrow> 'op \<Rightarrow> bool"
    and issues :: "'k \<Rightarrow> 'op \<Rightarrow> 'out \<Rightarrow> bool"
  assumes step_inv: "inv s \<Longrightarrow> inv (fst (step op s))"
    and spent_stable: "inv s \<Longrightarrow> \<not> renews k op \<Longrightarrow> spent k s \<Longrightarrow> spent k (fst (step op s))"
    and issue_spends: "inv s \<Longrightarrow> issues k op (snd (step op s)) \<Longrightarrow> spent k (fst (step op s))"
    and spent_silent: "inv s \<Longrightarrow> spent k s \<Longrightarrow> \<not> issues k op (snd (step op s))"
begin

text \<open>Over any run the tokens handed out for a key number at most the grants made under it.\<close>

lemma tokens_bounded:
  assumes "inv s"
  shows "length (replies_with (issues k) (snd (run step ops s))) \<le>
           length (filter (renews k) ops) + (if spent k s then 0 else 1)"
  using assms
proof (induction ops arbitrary: s)
  case Nil
  then show ?case by (simp add: replies_with_def)
next
  case (Cons op ops)
  let ?s = "fst (step op s)"
  have rest: "length (replies_with (issues k) (snd (run step ops ?s))) \<le>
      length (filter (renews k) ops) + (if spent k ?s then 0 else 1)"
    using Cons by (simp add: step_inv)
  have "(if issues k op (snd (step op s)) then 1 else 0) + (if spent k ?s then 0 else 1) \<le>
      (if renews k op then 1 else 0) + (if spent k s then 0 else (1::nat))"
    using Cons.prems spent_stable [of s k op] issue_spends [of s k op] spent_silent [of s k op] by auto
  with rest show ?case
    by (simp add: case_prod_beta Let_def replies_with_Cons split: if_splits)
qed

lemma redeemed_at_most_once:
  assumes "inv s" and "\<forall>op \<in> set ops. \<not> renews k op"
  shows "length (replies_with (issues k) (snd (run step ops s))) \<le> 1"
  using tokens_bounded [OF assms(1), of k ops] assms(2) by (simp add: filter_empty_conv split: if_splits)

end

text \<open>
  The refinement contract. \<open>phase_of k s\<close> abstracts the stored grant with key \<open>k\<close>, \<open>None\<close> when there
  is none; every operation moves it along at most one step of the abstract machine, and a token is
  handed out exactly on the step from \<open>Granted\<close> to \<open>Consumed\<close>.
\<close>

locale phased_grant =
  fixes step :: "'op \<Rightarrow> 's \<Rightarrow> 's \<times> 'out"
    and inv :: "'s \<Rightarrow> bool"
    and phase_of :: "'k \<Rightarrow> 's \<Rightarrow> phase option"
    and renews :: "'k \<Rightarrow> 'op \<Rightarrow> bool"
    and issues :: "'k \<Rightarrow> 'op \<Rightarrow> 'out \<Rightarrow> bool"
  assumes step_keeps_inv: "inv s \<Longrightarrow> inv (fst (step op s))"
    and phase_refines: "inv s \<Longrightarrow> phase_of k s = Some p \<Longrightarrow>
          phase_of k (fst (step op s)) = Some q \<Longrightarrow> \<not> renews k op \<Longrightarrow> p = q \<or> phase_step p q"
    and phase_fresh: "inv s \<Longrightarrow> phase_of k s = None \<Longrightarrow> \<not> renews k op \<Longrightarrow>
          phase_of k (fst (step op s)) = None"
    and issue_redeems: "inv s \<Longrightarrow> issues k op (snd (step op s)) \<Longrightarrow>
          phase_of k s = Some Granted \<and> phase_of k (fst (step op s)) = Some Consumed"
begin

definition dead :: "'k \<Rightarrow> 's \<Rightarrow> bool" where
  "dead k s \<longleftrightarrow> (\<forall>p. phase_of k s = Some p \<longrightarrow> \<not> live_phase p)"

lemma dead_stable:
  assumes "inv s" and "\<not> renews k op" and "dead k s"
  shows "dead k (fst (step op s))"
proof (cases "phase_of k s")
  case None
  with assms show ?thesis by (simp add: dead_def phase_fresh)
next
  case (Some p)
  with assms(3) have "\<not> live_phase p" by (simp add: dead_def)
  with assms Some show ?thesis
    unfolding dead_def using phase_refines phase_step_dead by blast
qed

text \<open>Over a run the stored phases follow a path of the abstract machine.\<close>

lemma absent_run:
  assumes "inv s" and "\<forall>op \<in> set ops. \<not> renews k op" and "phase_of k s = None"
  shows "phase_of k (fst (run step ops s)) = None"
  using assms by (induction ops arbitrary: s)
    (simp_all add: case_prod_beta Let_def phase_fresh step_keeps_inv)

lemma phase_run:
  assumes "inv s" and "\<forall>op \<in> set ops. \<not> renews k op"
    and "phase_of k s = Some p" and "phase_of k (fst (run step ops s)) = Some q"
  shows "phase_step\<^sup>*\<^sup>* p q"
  using assms
proof (induction ops arbitrary: s p)
  case (Cons op ops)
  let ?s = "fst (step op s)"
  have inv: "inv ?s" using Cons.prems(1) by (rule step_keeps_inv)
  have rest: "phase_of k (fst (run step ops ?s)) = Some q"
    using Cons.prems(4) by (simp add: case_prod_beta Let_def)
  show ?case
  proof (cases "phase_of k ?s")
    case None
    with inv Cons.prems(2) rest show ?thesis using absent_run [of ?s ops k] by simp
  next
    case (Some p')
    then have "p = p' \<or> phase_step p p'" using Cons.prems phase_refines by auto
    moreover have "phase_step\<^sup>*\<^sup>* p' q" using Cons.IH [OF inv] Cons.prems(2) Some rest by simp
    ultimately show ?thesis by (auto intro: converse_rtranclp_into_rtranclp)
  qed
qed simp

sublocale one_time_grant step inv dead renews issues
proof
  fix s op k
  assume "inv s"
  then show "inv (fst (step op s))" by (rule step_keeps_inv)
next
  fix s op k
  assume "inv s" and "\<not> renews k op" and "dead k s"
  then show "dead k (fst (step op s))" by (rule dead_stable)
next
  fix s k op
  assume "inv s" and "issues k op (snd (step op s))"
  then show "dead k (fst (step op s))" using issue_redeems by (auto simp: dead_def)
next
  fix s k op
  assume "inv s" and "dead k s"
  then show "\<not> issues k op (snd (step op s))" using issue_redeems by (fastforce simp: dead_def)
qed

end

end
