(* ===== verification/Device_Auth.thy ===== *)
theory Device_Auth
  imports Directory Token_Service One_Time_Grant
begin

text \<open>
  The OAuth 2.0 device authorization grant: the row type of \<^verbatim>\<open>models/device_auth.go\<close>, the SQL of
  \<^verbatim>\<open>database/device_auth_repository.go\<close> and the operations of \<^verbatim>\<open>services/device_auth_service.go\<close>.
  Each operation reads the clock once (\<open>now\<close>); the row type keeps the nullable text columns as the
  empty string the scan turns them into.
\<close>

section \<open>Data model\<close>

record DeviceCode =
  dc_ID :: uuid
  dc_TenantID :: "uuid option"
  dc_ClientID :: "uuid option"
  dc_DeviceCode :: string
  dc_UserCode :: string
  dc_VerificationURI :: string
  dc_VerificationURIComplete :: string
  dc_UserID :: "uuid option"
  dc_UserEmail :: string
  dc_TenantDomain :: string
  dc_AccessToken :: string
  dc_Status :: string
  dc_Scopes :: "string list"
  dc_DeviceInfo :: "(string \<times> goval) list"
  dc_ExpiresAt :: int
  dc_LastPolledAt :: "int option"
  dc_AuthorizedAt :: "int option"
  dc_CreatedAt :: int
  dc_UpdatedAt :: int

definition dc_IsExpired :: "gotime \<Rightarrow> DeviceCode \<Rightarrow> bool" where
  "dc_IsExpired now d \<longleftrightarrow> Unix now > dc_ExpiresAt d"

definition dc_IsPending :: "gotime \<Rightarrow> DeviceCode \<Rightarrow> bool" where
  "dc_IsPending now d \<longleftrightarrow> dc_Status d = ''pending'' \<and> \<not> dc_IsExpired now d"

definition dc_IsAuthorized :: "DeviceCode \<Rightarrow> bool" where
  "dc_IsAuthorized d \<longleftrightarrow> dc_Status d = ''authorized''"

record DeviceCodeRequest =
  dreq_ClientID :: string
  dreq_TenantDomain :: string
  dreq_Scopes :: "string list"
  dreq_DeviceInfo :: "(string \<times> goval) list"

record DeviceCodeResponse =
  dres_DeviceCode :: string
  dres_UserCode :: string
  dres_VerificationURI :: string
  dres_VerificationURIComplete :: string
  dres_ExpiresIn :: int
  dres_Interval :: int

record DeviceTokenResponse =
  dt_AccessToken :: string
  dt_TokenType :: string
  dt_ExpiresIn :: int
  dt_Scope :: string
  dt_Email :: string
  dt_UserID :: string
  dt_TenantID :: string
  dt_TenantDomain :: string
  dt_ClientID :: string
  dt_Error :: string
  dt_ErrorDescription :: string

definition dt_error :: "string \<Rightarrow> string \<Rightarrow> DeviceTokenResponse" where
  "dt_error err desc =
     \<lparr> dt_AccessToken = [], dt_TokenType = [], dt_ExpiresIn = 0, dt_Scope = [], dt_Email = [],
       dt_UserID = [], dt_TenantID = [], dt_TenantDomain = [], dt_ClientID = [],
       dt_Error = err, dt_ErrorDescription = desc \<rparr>"

record DeviceActivationInfoResponse =
  ai_Success :: bool
  ai_UserCode :: string
  ai_DeviceInfo :: "(string \<times> goval) list"
  ai_Scopes :: "string list"
  ai_ExpiresAt :: string

record device_db = directory +
  device_codes :: "DeviceCode list"

section \<open>Repository\<close>

abbreviation normal_code :: "string \<Rightarrow> string" where
  "normal_code \<equiv> remove_char (CHR ''-'')"

text \<open>The insert violates a constraint when the id, the device code or the user code is taken.\<close>

definition insert_device_code :: "DeviceCode \<Rightarrow> 'a device_db_scheme \<Rightarrow> go_error + 'a device_db_scheme" where
  "insert_device_code d s =
     (if \<exists>r \<in> set (device_codes s). dc_ID r = dc_ID d \<or> dc_DeviceCode r = dc_DeviceCode d \<or>
           dc_UserCode r = dc_UserCode d
      then Inl DBError
      else Inr (s\<lparr> device_codes := device_codes s @ [d] \<rparr>))"

definition CreateDeviceCode ::
  "gotime \<Rightarrow> DeviceCode \<Rightarrow> 'a device_db_scheme conn \<Rightarrow> (go_error + unit) \<times> 'a device_db_scheme conn" where
  "CreateDeviceCode now d c =
     exec_checked
       (insert_device_code (d\<lparr> dc_UserID := None, dc_UserEmail := [], dc_TenantDomain := [],
          dc_AccessToken := [], dc_LastPolledAt := None, dc_AuthorizedAt := None,
          dc_CreatedAt := Unix now, dc_UpdatedAt := Unix now \<rparr>)) c"

definition device_not_found :: "(go_error + 'r) \<times> 'c \<Rightarrow> (go_error + 'r) \<times> 'c" where
  "device_not_found x =
     (case x of (Inl NoRows, c) \<Rightarrow> (Inl (Errorf ''device code not found''), c) | y \<Rightarrow> y)"

definition FindByDeviceCode ::
  "string \<Rightarrow> 'a device_db_scheme conn \<Rightarrow> (go_error + DeviceCode) \<times> 'a device_db_scheme conn" where
  "FindByDeviceCode deviceCode c =
     device_not_found
       (query_row (\<lambda>s. select_row (\<lambda>r. dc_DeviceCode r = deviceCode) (device_codes s)) c)"

definition FindByUserCode ::
  "string \<Rightarrow> 'a device_db_scheme conn \<Rightarrow> (go_error + DeviceCode) \<times> 'a device_db_scheme conn" where
  "FindByUserCode userCode c =
     device_not_found
       (query_row (\<lambda>s. select_row (\<lambda>r. normal_code (dc_UserCode r) = normal_code userCode)
                         (device_codes s)) c)"

definition device_UpdateStatus ::
  "gotime \<Rightarrow> string \<Rightarrow> string \<Rightarrow> 'a device_db_scheme conn \<Rightarrow> (go_error + unit) \<times> 'a device_db_scheme conn" where
  "device_UpdateStatus now deviceCode status c =
     exec (\<lambda>s. (s\<lparr> device_codes := update_where (\<lambda>r. dc_DeviceCode r = deviceCode)
                    (\<lambda>r. r\<lparr> dc_Status := status, dc_UpdatedAt := Unix now \<rparr>) (device_codes s) \<rparr>, ())) c"

text \<open>The reply is whether the poll came too soon: no row passed the interval test.\<close>

definition device_UpdateLastPolled ::
  "gotime \<Rightarrow> string \<Rightarrow> int \<Rightarrow> 'a device_db_scheme conn \<Rightarrow> (go_error + bool) \<times> 'a device_db_scheme conn" where
  "device_UpdateLastPolled now deviceCode minInterval c =
     (let cutoff = Unix now - minInterval;
          due = (\<lambda>r. dc_DeviceCode r = deviceCode \<and>
                   (case dc_LastPolledAt r of None \<Rightarrow> True | Some t \<Rightarrow> t \<le> cutoff))
      in exec (\<lambda>s. (s\<lparr> device_codes := update_where due
                        (\<lambda>r. r\<lparr> dc_LastPolledAt := Some (Unix now), dc_UpdatedAt := Unix now \<rparr>)
                        (device_codes s) \<rparr>,
                    affected due (device_codes s) = 0)) c)"

definition AuthorizeDeviceCode ::
  "gotime \<Rightarrow> string \<Rightarrow> uuid \<Rightarrow> string \<Rightarrow> uuid \<Rightarrow> string \<Rightarrow> uuid option \<Rightarrow> string \<Rightarrow> bool
     \<Rightarrow> 'a device_db_scheme conn \<Rightarrow> (go_error + unit) \<times> 'a device_db_scheme conn" where
  "AuthorizeDeviceCode now userCode userID userEmail tenantID tenantDomain clientID accessToken approve c =
     (let status = (if approve then ''authorized'' else ''denied'');
          open_row = (\<lambda>r. normal_code (dc_UserCode r) = normal_code userCode \<and> dc_Status r = ''pending'')
      in case exec (\<lambda>s. (s\<lparr> device_codes := update_where open_row
                 (\<lambda>r. r\<lparr> dc_UserID := Some userID, dc_UserEmail := userEmail,
                         dc_TenantID := Some tenantID, dc_TenantDomain := tenantDomain,
                         dc_ClientID := clientID, dc_AccessToken := accessToken,
                         dc_Status := status, dc_AuthorizedAt := Some (Unix now),
                         dc_UpdatedAt := Unix now \<rparr>)
                 (device_codes s) \<rparr>, affected open_row (device_codes s))) c of
           (Inl e, c') \<Rightarrow> (Inl e, c')
         | (Inr n, c') \<Rightarrow>
             (if n = 0 then (Inl (Errorf ''device code not found or already processed''), c')
              else (Inr (), c')))"

definition device_MarkAsConsumed ::
  "gotime \<Rightarrow> string \<Rightarrow> 'a device_db_scheme conn \<Rightarrow> (go_error + unit) \<times> 'a device_db_scheme conn" where
  "device_MarkAsConsumed now deviceCode c = device_UpdateStatus now deviceCode ''consumed'' c"

definition ExpireOldDeviceCodes ::
  "gotime \<Rightarrow> 'a device_db_scheme conn \<Rightarrow> (go_error + int) \<times> 'a device_db_scheme conn" where
  "ExpireOldDeviceCodes now c =
     (let old = (\<lambda>r. dc_Status r = ''pending'' \<and> dc_ExpiresAt r < Unix now)
      in exec (\<lambda>s. (s\<lparr> device_codes := update_where old
                        (\<lambda>r. r\<lparr> dc_Status := ''expired'', dc_UpdatedAt := Unix now \<rparr>)
                        (device_codes s) \<rparr>, affected old (device_codes s))) c)"

definition DeleteExpiredDeviceCodes ::
  "gotime \<Rightarrow> gotime \<Rightarrow> 'a device_db_scheme conn \<Rightarrow> (go_error + int) \<times> 'a device_db_scheme conn" where
  "DeleteExpiredDeviceCodes now olderThan c =
     (let cutoff = Unix (now - olderThan);
          old = (\<lambda>r. dc_Status r \<in> {''expired'', ''consumed'', ''denied''} \<and> dc_ExpiresAt r < cutoff)
      in exec (\<lambda>s. (s\<lparr> device_codes := delete_where old (device_codes s) \<rparr>,
                    affected old (device_codes s))) c)"

text \<open>The result of the first statement, which expires stale codes of the tenant, is ignored.\<close>

definition ListPendingDeviceCodes ::
  "gotime \<Rightarrow> uuid \<Rightarrow> uuid option \<Rightarrow> 'a device_db_scheme conn
     \<Rightarrow> (go_error + DeviceCode list) \<times> 'a device_db_scheme conn" where
  "ListPendingDeviceCodes now tenantID clientID c =
     (let stale = (\<lambda>r. dc_TenantID r = Some tenantID \<and> dc_Status r = ''pending'' \<and>
                     dc_ExpiresAt r < Unix now);
          (_, c1) = exec (\<lambda>s. (s\<lparr> device_codes := update_where stale
                       (\<lambda>r. r\<lparr> dc_Status := ''expired'', dc_UpdatedAt := Unix now \<rparr>)
                       (device_codes s) \<rparr>, ())) c;
          wanted = (\<lambda>r. dc_TenantID r = Some tenantID \<and>
                     (case clientID of None \<Rightarrow> True | Some k \<Rightarrow> dc_ClientID r = Some k) \<and>
                     dc_Status r = ''pending'' \<and> dc_ExpiresAt r > Unix now)
      in query (\<lambda>s. map (\<lambda>r. r\<lparr> dc_AccessToken := [] \<rparr>)
                      (sort_key (\<lambda>r. - dc_CreatedAt r) (filter wanted (device_codes s)))) c1)"

section \<open>Code generation\<close>

definition GenerateDeviceCode :: "random \<Rightarrow> go_error + string" where
  "GenerateDeviceCode rnd =
     (case rnd of None \<Rightarrow> Inl (Errorf ''rand'') | Some b \<Rightarrow> Inr (Hex (map b [0..<32])))"

definition user_code_charset :: string where
  "user_code_charset = ''ABCDEFGHJKMNPQRSTUVWXYZ23456789''"

definition user_code_char :: "byte \<Rightarrow> char" where
  "user_code_char b = user_code_charset ! (unat b mod length user_code_charset)"

definition GenerateUserCode :: "random \<Rightarrow> go_error + string" where
  "GenerateUserCode rnd =
     (case rnd of
        None \<Rightarrow> Inl (Errorf ''rand'')
      | Some b \<Rightarrow>
          Inr (map (\<lambda>i. user_code_char (b i)) [0..<4] @ [CHR ''-''] @
               map (\<lambda>i. user_code_char (b (i - 1))) [5..<9]))"

section \<open>Service\<close>

record DeviceAuthService =
  ds_verificationURI :: string
  ds_pollingInterval :: int
  ds_codeExpiry :: gotime
  ds_tokens :: AuthManagerTokenService

definition NewDeviceAuthService :: "(string \<Rightarrow> string) \<Rightarrow> AuthManagerTokenService \<Rightarrow> DeviceAuthService" where
  "NewDeviceAuthService Getenv tokens =
     \<lparr> ds_verificationURI =
         (let v = Getenv ''DEVICE_VERIFICATION_URI''
          in if v = [] then ''https://app.authsec.ai/activate'' else v),
       ds_pollingInterval = 5, ds_codeExpiry = 5 * Minute, ds_tokens = tokens \<rparr>"

definition InitiateDeviceFlow ::
  "DeviceAuthService \<Rightarrow> gotime \<Rightarrow> uuid \<Rightarrow> random \<Rightarrow> random \<Rightarrow> DeviceCodeRequest
     \<Rightarrow> 'a device_db_scheme conn \<Rightarrow> (go_error + DeviceCodeResponse) \<times> 'a device_db_scheme conn" where
  "InitiateDeviceFlow svc now newID rndDevice rndUser req c =
     (case GenerateDeviceCode rndDevice of
        Inl e \<Rightarrow> (Inl (Wrap ''failed to generate device code: '' e), c)
      | Inr deviceCode \<Rightarrow>
     (case GenerateUserCode rndUser of
        Inl e \<Rightarrow> (Inl (Wrap ''failed to generate user code: '' e), c)
      | Inr userCode \<Rightarrow>
          (let complete = ds_verificationURI svc @ ''?user_code='' @ userCode;
               scopes = (if dreq_Scopes req = [] then [''openid'', ''email'', ''profile'']
                         else dreq_Scopes req);
               d = \<lparr> dc_ID = newID, dc_TenantID = None, dc_ClientID = None,
                     dc_DeviceCode = deviceCode, dc_UserCode = userCode,
                     dc_VerificationURI = ds_verificationURI svc,
                     dc_VerificationURIComplete = complete,
                     dc_UserID = None, dc_UserEmail = [], dc_TenantDomain = [],
                     dc_AccessToken = [], dc_Status = ''pending'', dc_Scopes = scopes,
                     dc_DeviceInfo = dreq_DeviceInfo req,
                     dc_ExpiresAt = Unix (now + ds_codeExpiry svc),
                     dc_LastPolledAt = None, dc_AuthorizedAt = None,
                     dc_CreatedAt = 0, dc_UpdatedAt = 0 \<rparr>
           in case CreateDeviceCode now d c of
                (Inl e, c') \<Rightarrow> (Inl (Wrap ''failed to create device code: '' e), c')
              | (Inr _, c') \<Rightarrow>
                  (Inr \<lparr> dres_DeviceCode = deviceCode, dres_UserCode = userCode,
                         dres_VerificationURI = ds_verificationURI svc,
                         dres_VerificationURIComplete = complete,
                         dres_ExpiresIn = ds_codeExpiry svc div Second,
                         dres_Interval = ds_pollingInterval svc \<rparr>, c'))))"

text \<open>\<open>fmt_time\<close> is \<^verbatim>\<open>time.Unix(t, 0).Format(time.RFC3339)\<close> in the server's time zone.\<close>

definition GetDeviceActivationInfo ::
  "(int \<Rightarrow> string) \<Rightarrow> gotime \<Rightarrow> string \<Rightarrow> 'a device_db_scheme conn
     \<Rightarrow> (go_error + DeviceActivationInfoResponse) \<times> 'a device_db_scheme conn" where
  "GetDeviceActivationInfo fmt_time now userCode c =
     (case FindByUserCode userCode c of
        (Inl _, c1) \<Rightarrow> (Inl (Errorf ''invalid user code''), c1)
      | (Inr d, c1) \<Rightarrow>
          if dc_IsExpired now d then (Inl (Errorf ''device code expired''), c1)
          else if dc_Status d \<noteq> ''pending'' then (Inl (Errorf ''device code already processed''), c1)
          else (Inr \<lparr> ai_Success = True, ai_UserCode = dc_UserCode d,
                      ai_DeviceInfo = dc_DeviceInfo d, ai_Scopes = dc_Scopes d,
                      ai_ExpiresAt = fmt_time (dc_ExpiresAt d) \<rparr>, c1))"

definition device_generateJWTToken ::
  "DeviceAuthService \<Rightarrow> signer \<Rightarrow> gotime \<Rightarrow> ExtendedUser \<Rightarrow> Tenant \<Rightarrow> string list \<Rightarrow> go_error + string" where
  "device_generateJWTToken svc sign now user tenant scopes =
     GenerateDeviceAuthToken (ds_tokens svc) sign now (us_ID user) (tn_TenantID tenant)
       (us_Email user) scopes (24 * Hour)"

text \<open>The token of an approved code, or the error that makes the approval fail.\<close>

definition device_token_for ::
  "DeviceAuthService \<Rightarrow> signer \<Rightarrow> gotime \<Rightarrow> uuid \<Rightarrow> string \<Rightarrow> uuid \<Rightarrow> string list
     \<Rightarrow> 'a device_db_scheme conn \<Rightarrow> (go_error + string) \<times> 'a device_db_scheme conn" where
  "device_token_for svc sign now userID userEmail tenantID scopes c =
     (case GetTenantByID tenantID c of
        (Inl _, c1) \<Rightarrow> (Inl (Errorf ''tenant not found''), c1)
      | (Inr tenant, c1) \<Rightarrow>
          (let (r, c2) = GetUserByID userID c1;
               user = (case r of
                         Inr u \<Rightarrow> u
                       | Inl _ \<Rightarrow> zero_user\<lparr> us_ID := userID, us_Email := userEmail,
                                    us_TenantID := tenantID \<rparr>)
           in case device_generateJWTToken svc sign now user tenant scopes of
                Inl e \<Rightarrow> (Inl (Wrap ''failed to generate access token: '' e), c2)
              | Inr t \<Rightarrow> (Inr t, c2)))"

definition AuthorizeDevice ::
  "DeviceAuthService \<Rightarrow> signer \<Rightarrow> gotime \<Rightarrow> string \<Rightarrow> uuid \<Rightarrow> string \<Rightarrow> uuid \<Rightarrow> string \<Rightarrow> uuid option
     \<Rightarrow> bool \<Rightarrow> 'a device_db_scheme conn \<Rightarrow> (go_error + unit) \<times> 'a device_db_scheme conn" where
  "AuthorizeDevice svc sign now userCode userID userEmail tenantID tenantDomain clientID approve c =
     (case FindByUserCode userCode c of
        (Inl _, c1) \<Rightarrow> (Inl (Errorf ''invalid user code''), c1)
      | (Inr d, c1) \<Rightarrow>
          if dc_IsExpired now d then
            (let (_, c2) = device_UpdateStatus now (dc_DeviceCode d) ''expired'' c1
             in (Inl (Errorf ''device code expired''), c2))
          else if dc_Status d \<noteq> ''pending'' then (Inl (Errorf ''device code already processed''), c1)
          else
            (case (if approve then device_token_for svc sign now userID userEmail tenantID (dc_Scopes d) c1
                   else (Inr [], c1)) of
               (Inl e, c2) \<Rightarrow> (Inl e, c2)
             | (Inr accessToken, c2) \<Rightarrow>
                 AuthorizeDeviceCode now userCode userID userEmail tenantID tenantDomain clientID
                   accessToken approve c2))"

definition VerifyDeviceCode ::
  "DeviceAuthService \<Rightarrow> signer \<Rightarrow> gotime \<Rightarrow> string \<Rightarrow> uuid \<Rightarrow> string \<Rightarrow> uuid \<Rightarrow> string \<Rightarrow> uuid option
     \<Rightarrow> bool \<Rightarrow> 'a device_db_scheme conn \<Rightarrow> (go_error + unit) \<times> 'a device_db_scheme conn" where
  "VerifyDeviceCode = AuthorizeDevice"

definition ValidateUserCode ::
  "gotime \<Rightarrow> string \<Rightarrow> 'a device_db_scheme conn \<Rightarrow> (go_error + DeviceCode) \<times> 'a device_db_scheme conn" where
  "ValidateUserCode now userCode c =
     (case FindByUserCode userCode c of
        (Inl _, c1) \<Rightarrow> (Inl (Errorf ''invalid user code''), c1)
      | (Inr d, c1) \<Rightarrow>
          if dc_IsExpired now d then
            (let (_, c2) = device_UpdateStatus now (dc_DeviceCode d) ''expired'' c1
             in (Inl (Errorf ''expired''), c2))
          else if dc_Status d \<noteq> ''pending'' then (Inl (Errorf ''device code already processed''), c1)
          else (Inr d, c1))"

text \<open>The reply to a poll that passed the expiry and rate-limit checks, by the status read before.\<close>

definition device_token_response :: "DeviceCode \<Rightarrow> DeviceTokenResponse" where
  "device_token_response d =
     \<lparr> dt_AccessToken = dc_AccessToken d, dt_TokenType = ''Bearer'', dt_ExpiresIn = 86400,
       dt_Scope = Join (dc_Scopes d) '' '', dt_Email = dc_UserEmail d,
       dt_UserID = (case dc_UserID d of None \<Rightarrow> [] | Some u \<Rightarrow> u),
       dt_TenantID = (case dc_TenantID d of None \<Rightarrow> [] | Some t \<Rightarrow> t),
       dt_TenantDomain = dc_TenantDomain d,
       dt_ClientID = (case dc_ClientID d of None \<Rightarrow> [] | Some k \<Rightarrow> k),
       dt_Error = [], dt_ErrorDescription = [] \<rparr>"

definition device_poll_status ::
  "gotime \<Rightarrow> string \<Rightarrow> DeviceCode \<Rightarrow> 'a device_db_scheme conn
     \<Rightarrow> DeviceTokenResponse \<times> 'a device_db_scheme conn" where
  "device_poll_status now deviceCode d c =
     (if dc_Status d = ''pending'' then
        (dt_error ''authorization_pending'' ''User has not authorized the device yet'', c)
      else if dc_Status d = ''denied'' then
        (dt_error ''access_denied'' ''User denied the authorization request'', c)
      else if dc_Status d = ''authorized'' then
        (if dc_AccessToken d = [] then
           (dt_error ''server_error'' ''Device authorized but access token missing'', c)
         else
           (let (_, c1) = device_MarkAsConsumed now deviceCode c in (device_token_response d, c1)))
      else if dc_Status d = ''consumed'' then
        (dt_error ''expired_token'' ''Device code already used'', c)
      else if dc_Status d = ''expired'' then
        (dt_error ''expired_token'' ''Device code expired'', c)
      else (dt_error ''server_error'' ''Unknown device code status'', c))"

definition device_poll_found ::
  "DeviceAuthService \<Rightarrow> gotime \<Rightarrow> string \<Rightarrow> DeviceCode \<Rightarrow> 'a device_db_scheme conn
     \<Rightarrow> (go_error + DeviceTokenResponse) \<times> 'a device_db_scheme conn" where
  "device_poll_found svc now deviceCode d c =
     (if dc_IsExpired now d then
        (let (_, c2) = device_UpdateStatus now deviceCode ''expired'' c
         in (Inr (dt_error ''expired_token'' ''Device code expired''), c2))
      else
        (case device_UpdateLastPolled now deviceCode (ds_pollingInterval svc) c of
           (Inl e, c2) \<Rightarrow> (Inl (Wrap ''failed to update poll timestamp: '' e), c2)
         | (Inr tooSoon, c2) \<Rightarrow>
             if tooSoon then
               (Inr (dt_error ''slow_down''
                  (''Polling too frequently. Minimum interval is '' @
                   Itoa (ds_pollingInterval svc) @ '' seconds.'')), c2)
             else
               (let (resp, c3) = device_poll_status now deviceCode d c2 in (Inr resp, c3))))"

definition device_PollForToken ::
  "DeviceAuthService \<Rightarrow> gotime \<Rightarrow> string \<Rightarrow> 'a device_db_scheme conn
     \<Rightarrow> (go_error + DeviceTokenResponse) \<times> 'a device_db_scheme conn" where
  "device_PollForToken svc now deviceCode c =
     (case FindByDeviceCode deviceCode c of
        (Inl _, c1) \<Rightarrow> (Inr (dt_error ''expired_token'' ''Device code not found or expired''), c1)
      | (Inr d, c1) \<Rightarrow> device_poll_found svc now deviceCode d c1)"

definition device_CleanupExpiredCodes ::
  "gotime \<Rightarrow> 'a device_db_scheme conn \<Rightarrow> (int \<times> go_error option) \<times> 'a device_db_scheme conn" where
  "device_CleanupExpiredCodes now c =
     (case ExpireOldDeviceCodes now c of
        (Inl e, c1) \<Rightarrow> ((0, Some (Wrap ''failed to expire old codes: '' e)), c1)
      | (Inr expired, c1) \<Rightarrow>
          (case DeleteExpiredDeviceCodes now (24 * Hour) c1 of
             (Inl e, c2) \<Rightarrow> ((expired, Some (Wrap ''failed to delete expired codes: '' e)), c2)
           | (Inr deleted, c2) \<Rightarrow> ((expired + deleted, None), c2)))"

section \<open>The service as a state machine\<close>

datatype device_op =
    DInitiate gotime uuid random random DeviceCodeRequest
  | DInfo gotime string
  | DAuthorize gotime string uuid string uuid string "uuid option" bool
  | DValidate gotime string
  | DPoll gotime string
  | DCleanup gotime
  | DList gotime uuid "uuid option"

datatype device_reply =
    RInitiate "go_error + DeviceCodeResponse"
  | RInfo "go_error + DeviceActivationInfoResponse"
  | RAuthorize "go_error + unit"
  | RValidate "go_error + DeviceCode"
  | RPoll "go_error + DeviceTokenResponse"
  | RCleanup "int \<times> go_error option"
  | RList "go_error + DeviceCode list"

fun device_handle ::
  "DeviceAuthService \<Rightarrow> signer \<Rightarrow> (int \<Rightarrow> string) \<Rightarrow> device_op \<Rightarrow> device_db conn
     \<Rightarrow> device_db conn \<times> device_reply" where
  "device_handle svc sign fmt (DInitiate now i rd ru req) c =
     reply RInitiate (InitiateDeviceFlow svc now i rd ru req c)"
| "device_handle svc sign fmt (DInfo now u) c = reply RInfo (GetDeviceActivationInfo fmt now u c)"
| "device_handle svc sign fmt (DAuthorize now u uid mail tid domain cid ok) c =
     reply RAuthorize (AuthorizeDevice svc sign now u uid mail tid domain cid ok c)"
| "device_handle svc sign fmt (DValidate now u) c = reply RValidate (ValidateUserCode now u c)"
| "device_handle svc sign fmt (DPoll now k) c = reply RPoll (device_PollForToken svc now k c)"
| "device_handle svc sign fmt (DCleanup now) c = reply RCleanup (device_CleanupExpiredCodes now c)"
| "device_handle svc sign fmt (DList now t k) c = reply RList (ListPendingDeviceCodes now t k c)"

text \<open>One operation and the outcomes of its statements; with none listed, no statement fails.\<close>

definition device_step ::
  "DeviceAuthService \<Rightarrow> signer \<Rightarrow> (int \<Rightarrow> string) \<Rightarrow> device_op \<times> outcome list \<Rightarrow> device_db
     \<Rightarrow> device_db \<times> device_reply" where
  "device_step svc sign fmt op s =
     (let (c, out) = device_handle svc sign fmt (fst op) (s, snd op) in (fst c, out))"

section \<open>Statements by outcome\<close>

lemma FindByDeviceCode_sched:
  "FindByDeviceCode k (s, os) =
     ((if sched os 0 \<noteq> Applied then Inl DBError
       else case List.find (\<lambda>r. dc_DeviceCode r = k) (device_codes s) of
              None \<Rightarrow> Inl (Errorf ''device code not found'') | Some d \<Rightarrow> Inr d), s, tl os)"
  by (simp add: FindByDeviceCode_def device_not_found_def query_row_sched select_row_def split: option.splits)

lemma FindByUserCode_sched:
  "FindByUserCode u (s, os) =
     ((if sched os 0 \<noteq> Applied then Inl DBError
       else case List.find (\<lambda>r. normal_code (dc_UserCode r) = normal_code u) (device_codes s) of
              None \<Rightarrow> Inl (Errorf ''device code not found'') | Some d \<Rightarrow> Inr d), s, tl os)"
  by (simp add: FindByUserCode_def device_not_found_def query_row_sched select_row_def split: option.splits)

lemma FindByUserCode_ok:
  "FindByUserCode u (s, []) =
     ((case List.find (\<lambda>r. normal_code (dc_UserCode r) = normal_code u) (device_codes s) of
         None \<Rightarrow> Inl (Errorf ''device code not found'') | Some d \<Rightarrow> Inr d), s, [])"
  by (simp add: FindByUserCode_sched)

lemma device_token_for_keeps: "tables (device_token_for svc sign now uid mail tid sc c) = fst c"
proof -
  obtain q c1 where q: "GetTenantByID tid c = (q, c1)" by (rule prod.exhaust)
  obtain r c2 where r: "GetUserByID uid c1 = (r, c2)" by (rule prod.exhaust)
  have "fst c1 = fst c" "fst c2 = fst c1"
    using q GetTenantByID_keeps_tables [of tid c] r GetUserByID_keeps_tables [of uid c1] by simp_all
  with q r show ?thesis by (cases q) (simp_all add: device_token_for_def Let_def split: sum.split)
qed

text \<open>The row of a decided code.\<close>

definition decided_row ::
  "gotime \<Rightarrow> uuid \<Rightarrow> string \<Rightarrow> uuid \<Rightarrow> string \<Rightarrow> uuid option \<Rightarrow> string \<Rightarrow> bool \<Rightarrow> DeviceCode \<Rightarrow> DeviceCode" where
  "decided_row now uid mail tid domain cid tok ok r =
     r\<lparr> dc_UserID := Some uid, dc_UserEmail := mail, dc_TenantID := Some tid,
        dc_TenantDomain := domain, dc_ClientID := cid, dc_AccessToken := tok,
        dc_Status := (if ok then ''authorized'' else ''denied''),
        dc_AuthorizedAt := Some (Unix now), dc_UpdatedAt := Unix now \<rparr>"

definition open_row :: "string \<Rightarrow> DeviceCode \<Rightarrow> bool" where
  "open_row u r \<longleftrightarrow> normal_code (dc_UserCode r) = normal_code u \<and> dc_Status r = ''pending''"

lemma AuthorizeDeviceCode_sched:
  "AuthorizeDeviceCode now u uid mail tid domain cid tok ok (s, os) =
     ((if sched os 0 \<noteq> Applied then Inl DBError
       else if \<exists>r \<in> set (device_codes s). open_row u r then Inr ()
       else Inl (Errorf ''device code not found or already processed'')),
      (if sched os 0 = Lost then s
       else s\<lparr> device_codes := update_where (open_row u)
              (decided_row now uid mail tid domain cid tok ok) (device_codes s) \<rparr>), tl os)"
  by (auto simp: AuthorizeDeviceCode_def Let_def affected_zero_iff open_row_def decided_row_def
      update_where_def exec_sched)

lemma AuthorizeDeviceCode_ok:
  "AuthorizeDeviceCode now u uid mail tid domain cid tok ok (s, []) =
     ((if \<exists>r \<in> set (device_codes s). open_row u r then Inr ()
       else Inl (Errorf ''device code not found or already processed'')),
      s\<lparr> device_codes := update_where (open_row u)
           (decided_row now uid mail tid domain cid tok ok) (device_codes s) \<rparr>, [])"
  by (simp add: AuthorizeDeviceCode_sched)

lemma CreateDeviceCode_ok:
  "CreateDeviceCode now d (s, []) =
     (case insert_device_code (d\<lparr> dc_UserID := None, dc_UserEmail := [], dc_TenantDomain := [],
          dc_AccessToken := [], dc_LastPolledAt := None, dc_AuthorizedAt := None,
          dc_CreatedAt := Unix now, dc_UpdatedAt := Unix now \<rparr>) s of
        Inl e \<Rightarrow> (Inl e, s, []) | Inr s' \<Rightarrow> (Inr (), s', []))"
  by (simp add: CreateDeviceCode_def sql_simps)

section \<open>The effect of an operation on the table\<close>

abbreviation device_phase :: "DeviceCode \<Rightarrow> phase" where
  "device_phase r \<equiv> status_phase ''authorized'' (dc_Status r)"

definition device_statuses :: "string set" where
  "device_statuses = {''pending'', ''authorized'', ''denied'', ''expired'', ''consumed''}"

text \<open>
  How an operation may change one row: the keys, the scopes and the expiry stay, the status moves
  along the abstract machine, and a row becomes authorized only as a grant that satisfies \<open>B\<close>.
\<close>

definition same_grant :: "DeviceCode \<Rightarrow> DeviceCode \<Rightarrow> bool" where
  "same_grant r r' \<longleftrightarrow>
     dc_Status r = ''authorized'' \<and> dc_UserID r' = dc_UserID r \<and> dc_TenantID r' = dc_TenantID r \<and>
     dc_UserEmail r' = dc_UserEmail r \<and> dc_AccessToken r' = dc_AccessToken r"

definition device_row_step :: "(DeviceCode \<Rightarrow> bool) \<Rightarrow> DeviceCode \<Rightarrow> DeviceCode \<Rightarrow> bool" where
  "device_row_step B r r' \<longleftrightarrow>
     dc_ID r' = dc_ID r \<and> dc_UserCode r' = dc_UserCode r \<and> dc_ExpiresAt r' = dc_ExpiresAt r \<and>
     dc_Scopes r' = dc_Scopes r \<and>
     (dc_Status r' = dc_Status r \<or>
      dc_Status r' \<in> device_statuses \<and> phase_step (device_phase r) (device_phase r')) \<and>
     (dc_Status r' = ''authorized'' \<longrightarrow> same_grant r r' \<or> B r')"

lemma device_row_step_refl [simp]: "device_row_step B r r"
  by (simp add: device_row_step_def same_grant_def)

text \<open>
  The operation that approved the row: a decision of the user the row records, on this user code,
  before the code expired, whose token was signed for that user, the tenant and the scopes of the row.
\<close>

definition device_granted_by :: "DeviceAuthService \<Rightarrow> signer \<Rightarrow> device_op \<Rightarrow> DeviceCode \<Rightarrow> bool" where
  "device_granted_by svc sign op r \<longleftrightarrow>
     (\<exists>now u uid mail tid domain cid m. op = DAuthorize now u uid mail tid domain cid True \<and>
        normal_code u = normal_code (dc_UserCode r) \<and> \<not> dc_IsExpired now r \<and>
        dc_UserID r = Some uid \<and> dc_UserEmail r = mail \<and> dc_TenantID r = Some tid \<and>
        sign ''default'' (jwtClaims now (user_claims uid tid m (dc_Scopes r) (24 * Hour)) ''default'')
          (jwtDefaultSecret (ds_tokens svc)) = Inr (dc_AccessToken r))"

text \<open>Four characters, a hyphen and four characters, all of the unambiguous alphabet.\<close>

definition user_code_form :: "string \<Rightarrow> bool" where
  "user_code_form u \<longleftrightarrow>
     (\<exists>a b. u = a @ CHR ''-'' # b \<and> length a = 4 \<and> length b = 4 \<and>
        set (a @ b) \<subseteq> set user_code_charset)"

definition device_inv :: "'a device_db_scheme \<Rightarrow> bool" where
  "device_inv s \<longleftrightarrow>
     distinct (map dc_DeviceCode (device_codes s)) \<and>
     distinct (map dc_UserCode (device_codes s)) \<and>
     (\<forall>r \<in> set (device_codes s). dc_Status r \<in> device_statuses \<and> user_code_form (dc_UserCode r))"

lemma device_row_step_expired:
  "device_row_step B r (r\<lparr> dc_Status := ''expired'', dc_UpdatedAt := t \<rparr>)"
  by (simp add: device_row_step_def device_statuses_def status_phase_def expire)

text \<open>Whether an operation creates a code under the key \<open>k\<close>.\<close>

fun device_creates :: "string \<Rightarrow> device_op \<Rightarrow> bool" where
  "device_creates k (DInitiate now i rd ru req) = (GenerateDeviceCode rd = Inr k)"
| "device_creates k _ = False"

lemma same_rows:
  "rows_step dc_DeviceCode (device_row_step B) t t []"
  by (rule rows_step_refl) simp

lemma update_status_rows:
  assumes "\<And>r. r \<in> set (device_codes s) \<Longrightarrow> dc_DeviceCode r = k \<Longrightarrow>
      device_row_step B r (r\<lparr> dc_Status := st, dc_UpdatedAt := Unix now \<rparr>)"
  shows "rows_step dc_DeviceCode (device_row_step B) (device_codes s)
     (device_codes (tables (device_UpdateStatus now k st (s, os)))) []"
  using assms by (simp add: device_UpdateStatus_def exec_sched update_where_def rows_step_map same_rows)

lemma authorize_code_rows:
  assumes "\<And>r. r \<in> set (device_codes s) \<Longrightarrow> open_row u r \<Longrightarrow> ok \<Longrightarrow>
      B (decided_row now uid mail tid domain cid tok ok r)"
  shows "rows_step dc_DeviceCode (device_row_step B) (device_codes s)
     (device_codes (tables (AuthorizeDeviceCode now u uid mail tid domain cid tok ok (s, os)))) []"
  using assms
  by (auto simp: AuthorizeDeviceCode_sched update_where_def device_row_step_def device_statuses_def
      open_row_def decided_row_def status_phase_def same_grant_def same_rows intro!: rows_step_map)

text \<open>The token of an approval is signed for the approving user and the tenant of the session.\<close>

lemma device_token_for_bound:
  assumes "device_token_for svc sign now uid mail tid sc (s, os) = (Inr tok, c)"
  shows "\<exists>m. sign ''default'' (jwtClaims now (user_claims uid tid m sc (24 * Hour)) ''default'')
      (jwtDefaultSecret (ds_tokens svc)) = Inr tok"
  using assms
  by (auto simp: device_token_for_def GetTenantByID_def GetUserByID_def query_row_sched select_row_def Let_def
      device_generateJWTToken_def GenerateDeviceAuthToken_def GenerateToken_def generateTokenWithType_Inr_iff find_Some_iff
      split: option.splits sum.splits if_splits go_error.splits)

text \<open>Codes of the generated form are equal as soon as they agree up to hyphens.\<close>

lemma user_code_form_normal:
  assumes "user_code_form u" and "user_code_form v" and "normal_code u = normal_code v"
  shows "u = v"
proof -
  obtain a b a' b' where u: "u = a @ CHR ''-'' # b" "length a = 4" "length b = 4"
      "set (a @ b) \<subseteq> set user_code_charset"
    and v: "v = a' @ CHR ''-'' # b'" "length a' = 4" "length b' = 4"
      "set (a' @ b') \<subseteq> set user_code_charset"
    using assms(1,2) unfolding user_code_form_def by blast
  have "CHR ''-'' \<notin> set user_code_charset" by (simp add: user_code_charset_def)
  then have hyphen: "normal_code w = w" if "set w \<subseteq> set user_code_charset" for w
    using that by (intro remove_char_notin) blast
  have split: "normal_code (x @ CHR ''-'' # y) = normal_code (x @ y)" for x y
    by (simp add: remove_char_def)
  have "normal_code u = a @ b" and "normal_code v = a' @ b'"
    using hyphen [OF u(4)] hyphen [OF v(4)] by (simp_all only: u(1) v(1) split)
  with assms(3) have "a @ b = a' @ b'" by simp
  with u v show ?thesis by simp
qed

lemma device_inv_user_code:
  assumes "device_inv s" and "r \<in> set (device_codes s)" and "r' \<in> set (device_codes s)"
    and "normal_code (dc_UserCode r) = normal_code (dc_UserCode r')"
  shows "r = r'"
proof -
  have "dc_UserCode r = dc_UserCode r'"
    using assms(4) by (rule user_code_form_normal [rotated 2]) (use assms(1-3) in \<open>simp_all add: device_inv_def\<close>)
  moreover have "inj_on dc_UserCode (set (device_codes s))"
    using assms(1) by (simp add: device_inv_def distinct_map)
  ultimately show ?thesis using assms(2,3) by (simp add: inj_on_def)
qed

lemma authorize_rows:
  assumes inv: "device_inv s"
  shows "rows_step dc_DeviceCode
     (device_row_step (device_granted_by svc sign (DAuthorize now u uid mail tid domain cid ok))) (device_codes s)
     (device_codes (tables (AuthorizeDevice svc sign now u uid mail tid domain cid ok (s, os)))) []"
    (is "rows_step _ (device_row_step ?B) _ _ _")
proof -
  obtain q c1 where Pair: "FindByUserCode u (s, os) = (q, c1)" by (rule prod.exhaust)
  then have c1: "c1 = (s, tl os)" by (simp add: FindByUserCode_sched)
  show ?thesis
  proof (cases q)
    case (Inl e)
    with Pair c1 show ?thesis by (simp add: AuthorizeDevice_def same_rows)
  next
    case (Inr d)
    with Pair have d: "d \<in> set (device_codes s)" "normal_code (dc_UserCode d) = normal_code u"
      by (auto simp: FindByUserCode_sched find_Some_iff split: if_splits option.splits)
    have expired: "rows_step dc_DeviceCode (device_row_step ?B) (device_codes s)
        (device_codes (tables (device_UpdateStatus now k ''expired'' (s, os)))) []" for k os
      by (rule update_status_rows) (rule device_row_step_expired)
    have denied: "rows_step dc_DeviceCode (device_row_step ?B) (device_codes s)
        (device_codes (tables (AuthorizeDeviceCode now u uid mail tid domain cid [] False (s, os)))) []" for os
      by (rule authorize_code_rows) simp
    have granted: "rows_step dc_DeviceCode (device_row_step ?B) (device_codes s)
        (device_codes (tables (AuthorizeDeviceCode now u uid mail tid domain cid tok True (s, os2)))) []"
      if tok: "device_token_for svc sign now uid mail tid (dc_Scopes d) (s, os1) = (Inr tok, c)"
        and live: ok "\<not> dc_IsExpired now d" for tok os1 os2 c
    proof (rule authorize_code_rows)
      fix r
      assume "r \<in> set (device_codes s)" and "open_row u r"
      with d have "r = d" by (intro device_inv_user_code [OF inv]) (simp_all add: open_row_def)
      with device_token_for_bound [OF tok] live d
      show "?B (decided_row now uid mail tid domain cid tok True r)"
        by (auto simp: device_granted_by_def decided_row_def dc_IsExpired_def)
    qed
    obtain t c2 where t: "device_token_for svc sign now uid mail tid (dc_Scopes d) (s, tl os) = (t, c2)" by (rule prod.exhaust)
    moreover obtain os2 where "c2 = (s, os2)"
      using t device_token_for_keeps [of svc sign now uid mail tid "dc_Scopes d" "(s, tl os)"] by (cases c2) simp
    ultimately show ?thesis
      using Pair c1 Inr expired denied granted [of "tl os"]
      by (cases t; cases ok) (simp_all add: AuthorizeDevice_def Let_def case_prod_beta same_rows)
  qed
qed

lemma validate_rows:
  "rows_step dc_DeviceCode (device_row_step B) (device_codes s)
     (device_codes (tables (ValidateUserCode now u (s, os)))) []"
proof -
  have expired: "rows_step dc_DeviceCode (device_row_step B) (device_codes s)
      (device_codes (tables (device_UpdateStatus now k ''expired'' (s, os)))) []" for k os
    by (rule update_status_rows) (rule device_row_step_expired)
  then show ?thesis
    by (auto simp: ValidateUserCode_def FindByUserCode_sched Let_def case_prod_beta same_rows
        split: option.splits)
qed

text \<open>The row after a poll that passed the expiry check.\<close>

definition poll_due :: "gotime \<Rightarrow> int \<Rightarrow> DeviceCode \<Rightarrow> bool" where
  "poll_due now interval r \<longleftrightarrow>
     (case dc_LastPolledAt r of None \<Rightarrow> True | Some t \<Rightarrow> t \<le> Unix now - interval)"

definition polled_row :: "gotime \<Rightarrow> DeviceCode \<Rightarrow> DeviceCode" where
  "polled_row now r = r\<lparr> dc_LastPolledAt := Some (Unix now), dc_UpdatedAt := Unix now \<rparr>"

definition redeemable :: "DeviceCode \<Rightarrow> bool" where
  "redeemable r \<longleftrightarrow> dc_Status r = ''authorized'' \<and> dc_AccessToken r \<noteq> []"

lemma device_UpdateLastPolled_sched:
  "device_UpdateLastPolled now k n (s, os) =
     ((if sched os 0 \<noteq> Applied then Inl DBError
       else Inr (\<forall>r \<in> set (device_codes s). dc_DeviceCode r = k \<longrightarrow> \<not> poll_due now n r)),
      (if sched os 0 = Lost then s
       else s\<lparr> device_codes := update_where (\<lambda>r. dc_DeviceCode r = k \<and> poll_due now n r)
              (polled_row now) (device_codes s) \<rparr>), tl os)"
  by (auto simp: device_UpdateLastPolled_def Let_def affected_zero_iff poll_due_def polled_row_def
      update_where_def exec_sched)

text \<open>
  The specification of a poll, by the stored row and the outcomes of its statements. An unknown code, or one that cannot be read, and an
  expired one answer \<^verbatim>\<open>expired_token\<close>; a lost stamp is an error; a poll too soon answers \<^verbatim>\<open>slow_down\<close>; otherwise the reply is the one
  for the stored status. The row is expired, left alone, or stamped, and a redeemable row that is stamped is consumed unless that statement
  is lost.
\<close>

definition device_status_reply :: "DeviceCode \<Rightarrow> DeviceTokenResponse" where
  "device_status_reply d =
     (if dc_Status d = ''pending'' then
        dt_error ''authorization_pending'' ''User has not authorized the device yet''
      else if dc_Status d = ''denied'' then
        dt_error ''access_denied'' ''User denied the authorization request''
      else if redeemable d then device_token_response d
      else if dc_Status d = ''authorized'' then
        dt_error ''server_error'' ''Device authorized but access token missing''
      else if dc_Status d = ''consumed'' then
        dt_error ''expired_token'' ''Device code already used''
      else if dc_Status d = ''expired'' then dt_error ''expired_token'' ''Device code expired''
      else dt_error ''server_error'' ''Unknown device code status'')"

definition device_poll_reply ::
  "DeviceAuthService \<Rightarrow> gotime \<Rightarrow> outcome list \<Rightarrow> DeviceCode option \<Rightarrow> go_error + DeviceTokenResponse" where
  "device_poll_reply svc now os row =
     (case row of
        None \<Rightarrow> Inr (dt_error ''expired_token'' ''Device code not found or expired'')
      | Some d \<Rightarrow>
          if sched os 0 \<noteq> Applied then Inr (dt_error ''expired_token'' ''Device code not found or expired'')
          else if dc_IsExpired now d then Inr (dt_error ''expired_token'' ''Device code expired'')
          else if sched os 1 \<noteq> Applied then Inl (Wrap ''failed to update poll timestamp: '' DBError)
          else if \<not> poll_due now (ds_pollingInterval svc) d then
            Inr (dt_error ''slow_down''
              (''Polling too frequently. Minimum interval is '' @
               Itoa (ds_pollingInterval svc) @ '' seconds.''))
          else Inr (device_status_reply d))"

definition device_poll_row :: "DeviceAuthService \<Rightarrow> gotime \<Rightarrow> outcome list \<Rightarrow> DeviceCode \<Rightarrow> DeviceCode" where
  "device_poll_row svc now os r =
     (if sched os 0 \<noteq> Applied \<or> sched os 1 = Lost then r
      else if dc_IsExpired now r then r\<lparr> dc_Status := ''expired'', dc_UpdatedAt := Unix now \<rparr>
      else if \<not> poll_due now (ds_pollingInterval svc) r then r
      else (polled_row now r)\<lparr> dc_Status :=
              if sched os 1 = Applied \<and> redeemable r \<and> sched os 2 \<noteq> Lost then ''consumed'' else dc_Status r \<rparr>)"

lemma device_poll_status_sched:
  "device_poll_status now k d (s, os) =
     (device_status_reply d,
      (if redeemable d \<and> sched os 0 \<noteq> Lost then
         s\<lparr> device_codes := update_where (\<lambda>r. dc_DeviceCode r = k)
           (\<lambda>r. r\<lparr> dc_Status := ''consumed'', dc_UpdatedAt := Unix now \<rparr>) (device_codes s) \<rparr>
       else s),
      if redeemable d then tl os else os)"
  by (auto simp: device_poll_status_def device_status_reply_def redeemable_def
      device_MarkAsConsumed_def device_UpdateStatus_def exec_sched)

lemma polled_then_consumed:
  "update_where (\<lambda>r. dc_DeviceCode r = k) (\<lambda>r. r\<lparr> dc_Status := st, dc_UpdatedAt := Unix now \<rparr>)
     (update_where (\<lambda>r. dc_DeviceCode r = k) (polled_row now) t) =
   update_where (\<lambda>r. dc_DeviceCode r = k) (\<lambda>r. (polled_row now r)\<lparr> dc_Status := st \<rparr>) t"
  by (simp add: update_where_def polled_row_def)

lemma device_inv_unique:
  assumes "device_inv s" and "List.find (\<lambda>r. dc_DeviceCode r = k) (device_codes s) = Some d"
    and "r \<in> set (device_codes s)"
  shows "dc_DeviceCode r = k \<longleftrightarrow> r = d"
proof -
  have "d \<in> set (device_codes s)" and "dc_DeviceCode d = k"
    using assms(2) by (auto simp: find_Some_iff)
  moreover have "inj_on dc_DeviceCode (set (device_codes s))"
    using assms(1) by (simp add: device_inv_def distinct_map)
  ultimately show ?thesis using assms(3) by (auto dest: inj_onD)
qed

text \<open>A poll that is neither expired nor too soon and whose stamp is answered.\<close>

lemma device_PollForToken_due:
  assumes inv: "device_inv s" and d: "List.find (\<lambda>r. dc_DeviceCode r = k) (device_codes s) = Some d"
    and live: "\<not> dc_IsExpired now d" and due: "poll_due now (ds_pollingInterval svc) d"
    and os: "sched os 0 = Applied" "sched os 1 = Applied"
  shows "fst (device_PollForToken svc now k (s, os)) = Inr (device_status_reply d) \<and>
    tables (device_PollForToken svc now k (s, os)) =
     s\<lparr> device_codes := update_where (\<lambda>r. dc_DeviceCode r = k)
          (\<lambda>r. (polled_row now r)\<lparr> dc_Status := if redeemable d \<and> sched os 2 \<noteq> Lost then ''consumed'' else dc_Status r \<rparr>)
          (device_codes s) \<rparr>"
proof -
  let ?n = "ds_pollingInterval svc"
  note only = device_inv_unique [OF inv d]
  have dset: "d \<in> set (device_codes s)" "dc_DeviceCode d = k"
    using d by (auto simp: find_Some_iff)
  have stamp: "update_where (\<lambda>r. dc_DeviceCode r = k \<and> poll_due now ?n r) (polled_row now) (device_codes s) =
      update_where (\<lambda>r. dc_DeviceCode r = k) (polled_row now) (device_codes s)"
    using due only by (intro update_where_cong) auto
  have soon: "(\<forall>r \<in> set (device_codes s). dc_DeviceCode r = k \<longrightarrow> \<not> poll_due now ?n r) = False"
    using due dset by blast
  have keep: "(\<lambda>r. (polled_row now r)\<lparr> dc_Status := dc_Status r \<rparr>) = polled_row now"
    by (simp add: polled_row_def fun_eq_iff)
  have two: "sched os (Suc (Suc 0)) = sched os 2" by (simp add: numeral_2_eq_2)
  show ?thesis
    using d live os
    by (cases "redeemable d"; cases "sched os 2 = Lost")
      (simp_all add: device_PollForToken_def device_poll_found_def FindByDeviceCode_sched device_UpdateLastPolled_sched soon
        stamp device_poll_status_sched polled_then_consumed keep two del: append_Cons append_Nil)
qed

text \<open>Every poll, whatever its statements come to.\<close>

lemma device_PollForToken_run:
  assumes inv: "device_inv s"
  shows "fst (device_PollForToken svc now k (s, os)) =
      device_poll_reply svc now os (List.find (\<lambda>r. dc_DeviceCode r = k) (device_codes s)) \<and>
    tables (device_PollForToken svc now k (s, os)) =
      s\<lparr> device_codes := update_where (\<lambda>r. dc_DeviceCode r = k) (device_poll_row svc now os) (device_codes s) \<rparr>"
proof (cases "List.find (\<lambda>r. dc_DeviceCode r = k) (device_codes s)")
  case None
  then have "update_where (\<lambda>r. dc_DeviceCode r = k) (device_poll_row svc now os) (device_codes s) = device_codes s"
    by (intro update_where_none) (auto simp: find_None_iff)
  with None show ?thesis
    by (simp add: device_PollForToken_def FindByDeviceCode_sched device_poll_reply_def)
next
  case (Some d)
  let ?P = "\<lambda>r. dc_DeviceCode r = k" and ?n = "ds_pollingInterval svc"
  note only = device_inv_unique [OF inv Some]
  have rows: "update_where ?P (device_poll_row svc now os) (device_codes s) = update_where ?P f (device_codes s)"
    if "f d = device_poll_row svc now os d" for f
    using only that by (intro update_where_fun_cong) auto
  have same: "update_where ?P (device_poll_row svc now os) (device_codes s) = device_codes s" if "device_poll_row svc now os d = d"
    using rows [of "\<lambda>r. r"] that by (simp add: update_where_id)
  have stamp: "update_where (\<lambda>r. ?P r \<and> poll_due now ?n r) (polled_row now) (device_codes s) =
      (if poll_due now ?n d then update_where ?P (polled_row now) (device_codes s) else device_codes s)"
    using only by (auto intro!: update_where_cong update_where_none)
  have soon: "(\<forall>r \<in> set (device_codes s). ?P r \<longrightarrow> \<not> poll_due now ?n r) \<longleftrightarrow> \<not> poll_due now ?n d"
    using only find_SomeD [OF Some] by blast
  consider (unread) "sched os 0 \<noteq> Applied" | (expired) "sched os 0 = Applied" "dc_IsExpired now d"
    | (failed) "sched os 0 = Applied" "\<not> dc_IsExpired now d" "sched os 1 \<noteq> Applied"
    | (soon) "sched os 0 = Applied" "\<not> dc_IsExpired now d" "sched os 1 = Applied" "\<not> poll_due now ?n d"
    | (due) "sched os 0 = Applied" "\<not> dc_IsExpired now d" "sched os 1 = Applied" "poll_due now ?n d" by blast
  then show ?thesis
  proof cases
    case unread
    then show ?thesis
      using Some same by (simp add: device_PollForToken_def FindByDeviceCode_sched device_poll_reply_def device_poll_row_def)
  next
    case expired
    have "sched os 1 \<noteq> Lost \<Longrightarrow> update_where ?P (device_poll_row svc now os) (device_codes s) =
        update_where ?P (\<lambda>r. r\<lparr> dc_Status := ''expired'', dc_UpdatedAt := Unix now \<rparr>) (device_codes s)"
      using expired by (intro rows) (simp add: device_poll_row_def)
    with expired Some same show ?thesis
      by (auto simp: device_PollForToken_def device_poll_found_def FindByDeviceCode_sched device_UpdateStatus_def exec_sched
          device_poll_reply_def device_poll_row_def case_prod_beta)
  next
    case failed
    have "sched os 1 \<noteq> Lost \<Longrightarrow> poll_due now ?n d \<Longrightarrow> update_where ?P (device_poll_row svc now os) (device_codes s) =
        update_where ?P (polled_row now) (device_codes s)"
      using failed by (intro rows) (simp add: device_poll_row_def polled_row_def)
    with failed Some same show ?thesis
      by (auto simp: device_PollForToken_def device_poll_found_def FindByDeviceCode_sched device_UpdateLastPolled_sched stamp
          device_poll_reply_def device_poll_row_def)
  next
    case soon
    with Some same \<open>_ \<longleftrightarrow> \<not> poll_due now ?n d\<close> show ?thesis
      by (simp add: device_PollForToken_def device_poll_found_def FindByDeviceCode_sched device_UpdateLastPolled_sched stamp
          device_poll_reply_def device_poll_row_def del: append_Cons append_Nil)
  next
    case due
    then show ?thesis
      using device_PollForToken_due [OF inv Some due(2,4,1,3)] Some
        rows [of "\<lambda>r. (polled_row now r)\<lparr> dc_Status := if redeemable d \<and> sched os 2 \<noteq> Lost then ''consumed'' else dc_Status r \<rparr>"]
      by (simp add: device_poll_reply_def device_poll_row_def)
  qed
qed

text \<open>With no statement failing the schedule stays empty.\<close>

lemma device_PollForToken_ok:
  "device_inv s \<Longrightarrow> \<exists>s'. device_PollForToken svc now k (s, []) =
     (device_poll_reply svc now [] (List.find (\<lambda>r. dc_DeviceCode r = k) (device_codes s)), s', [])"
proof -
  assume inv: "device_inv s"
  have "snd (snd (device_PollForToken svc now k (s, []))) = []"
    by (simp add: device_PollForToken_def device_poll_found_def FindByDeviceCode_sched device_UpdateStatus_def exec_sched
        device_UpdateLastPolled_sched device_poll_status_sched case_prod_beta split: option.split)
  with device_PollForToken_run [OF inv, of svc now k "[]"] show ?thesis by (metis prod.collapse)
qed

subsection \<open>Every operation\<close>

lemma device_poll_row_step:
  "dc_DeviceCode (device_poll_row svc now os r) = dc_DeviceCode r \<and>
   device_row_step B r (device_poll_row svc now os r)"
  by (auto simp: device_poll_row_def same_grant_def device_row_step_def polled_row_def redeemable_def
      device_statuses_def status_phase_def expire)

lemma poll_rows:
  "device_inv s \<Longrightarrow> rows_step dc_DeviceCode (device_row_step B) (device_codes s)
     (device_codes (tables (device_PollForToken svc now k (s, os)))) []"
  by (simp add: device_PollForToken_run update_where_def rows_step_map device_poll_row_step)

lemma expire_rows:
  "rows_step dc_DeviceCode (device_row_step B) t
     (update_where P (\<lambda>r. r\<lparr> dc_Status := ''expired'', dc_UpdatedAt := u \<rparr>) t) []"
  unfolding update_where_def by (rule rows_step_map) (simp add: device_row_step_expired)

lemma cleanup_rows:
  "rows_step dc_DeviceCode (device_row_step B) (device_codes s)
     (device_codes (tables (device_CleanupExpiredCodes now (s, os)))) []"
proof -
  have gone: "rows_step dc_DeviceCode (device_row_step B) t
      (delete_where D (update_where P (\<lambda>r. r\<lparr> dc_Status := ''expired'', dc_UpdatedAt := u \<rparr>) t)) []" for t D P u
    unfolding update_where_def by (rule rows_step_map_delete) (simp add: device_row_step_expired)
  show ?thesis
    by (simp add: device_CleanupExpiredCodes_def ExpireOldDeviceCodes_def DeleteExpiredDeviceCodes_def Let_def exec_sched
        expire_rows gone same_rows)
qed

lemma list_rows:
  "rows_step dc_DeviceCode (device_row_step B) (device_codes s)
     (device_codes (tables (ListPendingDeviceCodes now t k (s, os)))) []"
  by (simp add: ListPendingDeviceCodes_def exec_sched Let_def expire_rows same_rows)

lemma info_rows:
  "tables (GetDeviceActivationInfo fmt now u (s, os)) = s"
  by (simp add: GetDeviceActivationInfo_def FindByUserCode_sched split: option.splits)

text \<open>What a fresh code brings into the table.\<close>

definition fresh_code :: "DeviceCode list \<Rightarrow> DeviceCode \<Rightarrow> bool" where
  "fresh_code t d \<longleftrightarrow>
     dc_Status d = ''pending'' \<and> user_code_form (dc_UserCode d) \<and>
     dc_DeviceCode d \<notin> dc_DeviceCode ` set t \<and> dc_UserCode d \<notin> dc_UserCode ` set t"

lemma user_code_char_in: "user_code_char b \<in> set user_code_charset"
  unfolding user_code_char_def by (rule nth_mem) (simp add: user_code_charset_def)

lemma GenerateUserCode_form:
  assumes "GenerateUserCode rnd = Inr u"
  shows "user_code_form u"
proof -
  from assms obtain b where u: "u = map (\<lambda>i. user_code_char (b i)) [0..<4] @ CHR ''-'' #
      map (\<lambda>i. user_code_char (b (i - 1))) [5..<9]" (is "u = ?l @ _ # ?r")
    by (auto simp: GenerateUserCode_def split: option.splits)
  have "set (?l @ ?r) \<subseteq> set user_code_charset"
    using user_code_char_in by auto
  with u show ?thesis
    unfolding user_code_form_def by (intro exI [of _ ?l] exI [of _ ?r]) simp
qed

text \<open>The operation that made the code, the user code shown with it, the scopes and the lifetime it gave it.\<close>

definition device_scopes :: "DeviceCodeRequest \<Rightarrow> string list" where
  "device_scopes req = (if dreq_Scopes req = [] then [''openid'', ''email'', ''profile''] else dreq_Scopes req)"

definition device_created_by :: "DeviceAuthService \<Rightarrow> device_op \<Rightarrow> DeviceCode \<Rightarrow> bool" where
  "device_created_by svc op d \<longleftrightarrow>
     (\<exists>now i rd ru req. op = DInitiate now i rd ru req \<and> GenerateDeviceCode rd = Inr (dc_DeviceCode d) \<and>
        GenerateUserCode ru = Inr (dc_UserCode d) \<and> dc_Scopes d = device_scopes req \<and>
        dc_ExpiresAt d = Unix (now + ds_codeExpiry svc))"

lemma device_created_by_creates: "device_created_by svc op d \<Longrightarrow> device_creates (dc_DeviceCode d) op"
  by (auto simp: device_created_by_def)

lemma initiate_rows:
  "device_codes (tables (InitiateDeviceFlow svc now i rd ru req (s, os))) = device_codes s \<or>
   (\<exists>d. device_codes (tables (InitiateDeviceFlow svc now i rd ru req (s, os))) = device_codes s @ [d] \<and>
        fresh_code (device_codes s) d \<and> device_created_by svc (DInitiate now i rd ru req) d)"
  by (cases "GenerateDeviceCode rd"; cases "GenerateUserCode ru")
    (auto simp: InitiateDeviceFlow_def CreateDeviceCode_def exec_checked_def exec_sched insert_device_code_def Let_def
      fresh_code_def GenerateUserCode_form device_created_by_def device_scopes_def)

lemma device_step_rows:
  assumes "device_inv s"
  shows "\<exists>new. rows_step dc_DeviceCode (device_row_step (device_granted_by svc sign op)) (device_codes s)
             (device_codes (fst (device_step svc sign fmt (op, os) s))) new \<and>
           (new = [] \<or> (\<exists>d. new = [d] \<and> fresh_code (device_codes s) d \<and>
              device_created_by svc op d))"
proof (cases op)
  case (DInitiate now i rd ru req)
  from initiate_rows [of svc now i rd ru req s os] consider
      "device_codes (tables (InitiateDeviceFlow svc now i rd ru req (s, os))) = device_codes s"
    | d where "device_codes (tables (InitiateDeviceFlow svc now i rd ru req (s, os))) = device_codes s @ [d]"
      "fresh_code (device_codes s) d" "device_created_by svc op d"
    using DInitiate by blast
  then show ?thesis
  proof cases
    case 1
    then show ?thesis
      using DInitiate by (intro exI [of _ "[]"]) (simp add: device_step_def reply_def case_prod_beta same_rows)
  next
    case 2
    then show ?thesis
      using DInitiate by (intro exI [of _ "[d]"]) (simp add: device_step_def reply_def case_prod_beta rows_step_append)
  qed
qed (auto simp: device_step_def reply_def case_prod_beta assms info_rows same_rows authorize_rows validate_rows
      poll_rows cleanup_rows list_rows intro!: exI [of _ "[]"])

section \<open>Invariant and refinement\<close>

lemma device_step_inv:
  assumes inv: "device_inv s"
  shows "device_inv (fst (device_step svc sign fmt op_os s))"
proof -
  obtain op os where op_os: "op_os = (op, os)" by (rule prod.exhaust)
  let ?t = "device_codes s" and ?t' = "device_codes (fst (device_step svc sign fmt (op, os) s))"
  obtain new where rows: "rows_step dc_DeviceCode (device_row_step (device_granted_by svc sign op)) ?t ?t' new"
    and new: "new = [] \<or> (\<exists>d. new = [d] \<and> fresh_code ?t d \<and> device_created_by svc op d)"
    using device_step_rows [OF inv] by blast
  have old: "distinct (map dc_DeviceCode ?t)" "distinct (map dc_UserCode ?t)"
    using inv by (simp_all add: device_inv_def)
  have "distinct (map dc_DeviceCode ?t')"
    using rows old(1) by (rule rows_step_distinct1) (use new in \<open>auto simp: fresh_code_def\<close>)
  moreover have "rows_step dc_UserCode (device_row_step (device_granted_by svc sign op)) ?t ?t' new"
    using rows by (rule rows_step_rekey) (simp add: device_row_step_def)
  then have "distinct (map dc_UserCode ?t')"
    using old(2) by (rule rows_step_distinct1) (use new in \<open>auto simp: fresh_code_def\<close>)
  moreover have "dc_Status r' \<in> device_statuses \<and> user_code_form (dc_UserCode r')" if "r' \<in> set ?t'" for r'
    using rows_step_set [OF rows that] new inv
    by (auto simp: fresh_code_def device_inv_def device_row_step_def device_statuses_def)
  ultimately show ?thesis by (simp add: device_inv_def op_os)
qed

definition device_phase_of :: "string \<Rightarrow> 'a device_db_scheme \<Rightarrow> phase option" where
  "device_phase_of k s =
     map_option (\<lambda>r. status_phase ''authorized'' (dc_Status r))
       (List.find (\<lambda>r. dc_DeviceCode r = k) (device_codes s))"

text \<open>
  The reply that hands out the token of the device code \<open>k\<close>, and the polls of \<open>k\<close> whose third statement, the one that marks the
  code as consumed, is lost: only these can hand a token out and leave it behind.
\<close>

fun device_issues :: "string \<Rightarrow> device_op \<times> outcome list \<Rightarrow> device_reply \<Rightarrow> bool" where
  "device_issues k (DPoll now k', os) (RPoll (Inr resp)) = (k' = k \<and> dt_AccessToken resp \<noteq> [])"
| "device_issues k _ _ = False"

fun device_consume_lost :: "string \<Rightarrow> device_op \<times> outcome list \<Rightarrow> bool" where
  "device_consume_lost k (DPoll now k', os) = (k' = k \<and> sched os 2 = Lost)"
| "device_consume_lost k _ = False"

definition device_redeems :: "string \<Rightarrow> device_op \<times> outcome list \<Rightarrow> device_reply \<Rightarrow> bool" where
  "device_redeems k op out \<longleftrightarrow> device_issues k op out \<and> \<not> device_consume_lost k op"

lemma device_issuesD:
  "device_issues k op out \<Longrightarrow>
     \<exists>now os resp. op = (DPoll now k, os) \<and> out = RPoll (Inr resp) \<and> dt_AccessToken resp \<noteq> []"
  by (induction k op out rule: device_issues.induct) auto

lemma device_status_reply_token:
  "dt_AccessToken (device_status_reply d) \<noteq> [] \<longleftrightarrow> redeemable d"
  by (auto simp: device_status_reply_def dt_error_def device_token_response_def redeemable_def)

lemma device_poll_reply_token:
  assumes "device_poll_reply svc now os row = Inr resp" and "dt_AccessToken resp \<noteq> []"
  obtains d where "row = Some d" and "\<not> dc_IsExpired now d" and "poll_due now (ds_pollingInterval svc) d" and "redeemable d"
    and "sched os 0 = Applied" and "sched os 1 = Applied" and "resp = device_token_response d"
proof (cases row)
  case None
  with assms show ?thesis by (auto simp: device_poll_reply_def dt_error_def)
next
  case (Some d)
  with assms have branch: "\<not> dc_IsExpired now d" "poll_due now (ds_pollingInterval svc) d"
    "sched os 0 = Applied" "sched os 1 = Applied"
    by (auto simp: device_poll_reply_def dt_error_def split: if_splits)
  with Some assms have "resp = device_status_reply d" by (simp add: device_poll_reply_def)
  with assms(2) device_status_reply_token [of d] have "redeemable d" "resp = device_token_response d"
    by (auto simp: device_status_reply_def redeemable_def)
  with Some branch that show ?thesis by blast
qed

lemma device_step_poll:
  "device_inv s \<Longrightarrow> device_step svc sign fmt (DPoll now k, os) s =
     (s\<lparr> device_codes := update_where (\<lambda>r. dc_DeviceCode r = k) (device_poll_row svc now os) (device_codes s) \<rparr>,
      RPoll (device_poll_reply svc now os (List.find (\<lambda>r. dc_DeviceCode r = k) (device_codes s))))"
  by (simp add: device_step_def reply_def case_prod_beta device_PollForToken_run)

lemma find_device_poll_row:
  "List.find (\<lambda>r. dc_DeviceCode r = k) (update_where P (device_poll_row svc now os) t) =
     map_option (\<lambda>r. if P r then device_poll_row svc now os r else r)
       (List.find (\<lambda>r. dc_DeviceCode r = k) t)"
  using device_poll_row_step by (intro find_update_where) blast

lemma device_step_rows_other:
  assumes "device_inv s" and "\<not> device_creates k (fst op)"
  obtains new where "rows_step dc_DeviceCode (device_row_step (device_granted_by svc sign (fst op))) (device_codes s)
      (device_codes (fst (device_step svc sign fmt op s))) new" and "k \<notin> dc_DeviceCode ` set new"
proof -
  obtain new where rows: "rows_step dc_DeviceCode (device_row_step (device_granted_by svc sign (fst op))) (device_codes s)
      (device_codes (fst (device_step svc sign fmt op s))) new"
    and "new = [] \<or> (\<exists>d. new = [d] \<and> device_creates (dc_DeviceCode d) (fst op))"
    using device_step_rows [OF assms(1), of svc sign "fst op" fmt "snd op"] device_created_by_creates by auto
  then have "k \<notin> dc_DeviceCode ` set new" using assms(2) by auto
  with rows that show ?thesis by blast
qed

interpretation dev: phased_grant "device_step svc sign fmt" device_inv device_phase_of "\<lambda>k op. device_creates k (fst op)" device_redeems
  for svc sign fmt
proof
  fix s :: device_db and op
  assume "device_inv s"
  then show "device_inv (fst (device_step svc sign fmt op s))" by (rule device_step_inv)
next
  fix s :: device_db and op :: "device_op \<times> outcome list" and k p q
  assume inv: "device_inv s" and p: "device_phase_of k s = Some p"
    and q: "device_phase_of k (fst (device_step svc sign fmt op s)) = Some q" and old: "\<not> device_creates k (fst op)"
  obtain new where rows: "rows_step dc_DeviceCode (device_row_step (device_granted_by svc sign (fst op))) (device_codes s)
      (device_codes (fst (device_step svc sign fmt op s))) new" and new: "k \<notin> dc_DeviceCode ` set new"
    using device_step_rows_other [OF inv old] .
  with inv p q show "p = q \<or> phase_step p q"
    using rows_step_find [OF rows _ new]
    by (auto simp: device_phase_of_def device_inv_def device_row_step_def)
next
  fix s :: device_db and op :: "device_op \<times> outcome list" and k
  assume inv: "device_inv s" and p: "device_phase_of k s = None" and old: "\<not> device_creates k (fst op)"
  obtain new where rows: "rows_step dc_DeviceCode (device_row_step (device_granted_by svc sign (fst op))) (device_codes s)
      (device_codes (fst (device_step svc sign fmt op s))) new" and new: "k \<notin> dc_DeviceCode ` set new"
    using device_step_rows_other [OF inv old] .
  with inv p show "device_phase_of k (fst (device_step svc sign fmt op s)) = None"
    using rows_step_find [OF rows _ new] by (auto simp: device_phase_of_def device_inv_def)
next
  fix s :: device_db and k and op :: "device_op \<times> outcome list"
  assume inv: "device_inv s" and red: "device_redeems k op (snd (device_step svc sign fmt op s))"
  then obtain now os resp where op: "op = (DPoll now k, os)"
    and out: "snd (device_step svc sign fmt op s) = RPoll (Inr resp)" and tok: "dt_AccessToken resp \<noteq> []"
    using device_issuesD [of k op "snd (device_step svc sign fmt op s)"] by (simp add: device_redeems_def) blast
  from op red have kept: "sched os 2 \<noteq> Lost" by (simp add: device_redeems_def)
  have "device_poll_reply svc now os (List.find (\<lambda>r. dc_DeviceCode r = k) (device_codes s)) = Inr resp"
    using out op by (simp add: device_step_poll [OF inv])
  then obtain d where d: "List.find (\<lambda>r. dc_DeviceCode r = k) (device_codes s) = Some d"
    and live: "\<not> dc_IsExpired now d" "poll_due now (ds_pollingInterval svc) d" "redeemable d"
      "sched os 0 = Applied" "sched os 1 = Applied"
    using tok by (rule device_poll_reply_token)
  then have "dc_DeviceCode d = k" by (auto simp: find_Some_iff)
  with inv op d live kept show "device_phase_of k s = Some Granted \<and>
      device_phase_of k (fst (device_step svc sign fmt op s)) = Some Consumed"
    by (simp add: device_step_poll device_phase_of_def find_device_poll_row device_poll_row_def
        redeemable_def status_phase_def)
qed

section \<open>History of a run\<close>

text \<open>Every stored code stems from an operation of \<open>H\<close>, and every authorized one was approved by one.\<close>

definition device_history :: "DeviceAuthService \<Rightarrow> signer \<Rightarrow> device_op set \<Rightarrow> device_db \<Rightarrow> bool" where
  "device_history svc sign H s \<longleftrightarrow>
     device_inv s \<and>
     (\<forall>r \<in> set (device_codes s).
        (\<exists>op \<in> H. device_created_by svc op r) \<and>
        (dc_Status r = ''authorized'' \<longrightarrow> (\<exists>op \<in> H. device_granted_by svc sign op r)))"

lemma device_created_by_row_step:
  "device_created_by svc op r \<Longrightarrow> dc_DeviceCode r' = dc_DeviceCode r \<Longrightarrow> device_row_step B r r' \<Longrightarrow>
     device_created_by svc op r'"
  by (auto simp: device_created_by_def device_row_step_def)

lemma device_granted_by_same_grant:
  "device_granted_by svc sign op r \<Longrightarrow> same_grant r r' \<Longrightarrow> device_row_step B r r' \<Longrightarrow>
     device_granted_by svc sign op r'"
  by (auto simp: device_granted_by_def same_grant_def device_row_step_def dc_IsExpired_def)

lemma device_history_step:
  assumes hist: "device_history svc sign H s" and op: "op \<in> H"
  shows "device_history svc sign H (fst (device_step svc sign fmt (op, os) s))"
proof -
  let ?t = "device_codes s" and ?t' = "device_codes (fst (device_step svc sign fmt (op, os) s))"
  have inv: "device_inv s" using hist by (simp add: device_history_def)
  obtain new where rows: "rows_step dc_DeviceCode (device_row_step (device_granted_by svc sign op)) ?t ?t' new"
    and new: "new = [] \<or> (\<exists>d. new = [d] \<and> fresh_code ?t d \<and> device_created_by svc op d)"
    using device_step_rows [OF inv] by blast
  have "(\<exists>op \<in> H. device_created_by svc op r') \<and>
      (dc_Status r' = ''authorized'' \<longrightarrow> (\<exists>op \<in> H. device_granted_by svc sign op r'))"
    if "r' \<in> set ?t'" for r'
    using rows_step_set [OF rows that]
  proof
    assume "r' \<in> set new"
    with new op show ?thesis by (auto simp: fresh_code_def)
  next
    assume "\<exists>r \<in> set ?t. dc_DeviceCode r' = dc_DeviceCode r \<and>
      device_row_step (device_granted_by svc sign op) r r'"
    then obtain r where r: "r \<in> set ?t" "dc_DeviceCode r' = dc_DeviceCode r"
      "device_row_step (device_granted_by svc sign op) r r'" by blast
    with hist have made: "\<exists>op \<in> H. device_created_by svc op r'"
      unfolding device_history_def using device_created_by_row_step by blast
    have "\<exists>op \<in> H. device_granted_by svc sign op r'" if "dc_Status r' = ''authorized''"
    proof -
      from that r(3) consider "same_grant r r'" | "device_granted_by svc sign op r'"
        by (auto simp: device_row_step_def)
      then show ?thesis
      proof cases
        case 1
        with hist r(1) obtain op' where "op' \<in> H" "device_granted_by svc sign op' r"
          by (auto simp: device_history_def same_grant_def)
        with 1 r(3) show ?thesis using device_granted_by_same_grant by blast
      qed (use op in blast)
    qed
    with made show ?thesis by blast
  qed
  with device_step_inv [OF inv] show ?thesis by (simp add: device_history_def)
qed

text \<open>
  What stands behind a token: one request that drew the device code and, with it, a user code; an approval in time of that user code, by the
  user named in the reply; and the signed claims, with the scopes of that request.
\<close>

definition device_token_backed ::
  "DeviceAuthService \<Rightarrow> signer \<Rightarrow> device_op set \<Rightarrow> gotime \<Rightarrow> string \<Rightarrow> DeviceTokenResponse \<Rightarrow> bool" where
  "device_token_backed svc sign H now k resp \<longleftrightarrow>
     (\<exists>t0 i rd ru req code. DInitiate t0 i rd ru req \<in> H \<and> GenerateDeviceCode rd = Inr k \<and> GenerateUserCode ru = Inr code \<and>
        Unix now \<le> Unix (t0 + ds_codeExpiry svc) \<and> dt_Scope resp = Join (device_scopes req) '' '' \<and>
      (\<exists>t1 u domain cid m.
        DAuthorize t1 u (dt_UserID resp) (dt_Email resp) (dt_TenantID resp) domain cid True \<in> H \<and>
        normal_code u = normal_code code \<and> Unix t1 \<le> Unix (t0 + ds_codeExpiry svc) \<and>
        sign ''default''
          (jwtClaims t1 (user_claims (dt_UserID resp) (dt_TenantID resp) m (device_scopes req) (24 * Hour)) ''default'')
          (jwtDefaultSecret (ds_tokens svc)) = Inr (dt_AccessToken resp)))"

lemma device_token_response_backed:
  assumes hist: "device_history svc sign H s" and d: "d \<in> set (device_codes s)" "dc_DeviceCode d = k"
    and ok: "redeemable d" "\<not> dc_IsExpired now d"
  shows "device_token_backed svc sign H now k (device_token_response d)"
proof -
  obtain op where "op \<in> H" "device_created_by svc op d"
    using hist d by (auto simp: device_history_def)
  then obtain t0 i rd ru req where made: "DInitiate t0 i rd ru req \<in> H" "GenerateDeviceCode rd = Inr k"
    "GenerateUserCode ru = Inr (dc_UserCode d)" "dc_Scopes d = device_scopes req" "dc_ExpiresAt d = Unix (t0 + ds_codeExpiry svc)"
    using d(2) by (auto simp: device_created_by_def)
  obtain op' where "op' \<in> H" "device_granted_by svc sign op' d"
    using hist d ok(1) by (auto simp: device_history_def redeemable_def)
  then obtain t1 u uid mail tid domain cid m where granted:
    "DAuthorize t1 u uid mail tid domain cid True \<in> H" "normal_code u = normal_code (dc_UserCode d)" "\<not> dc_IsExpired t1 d"
    "dc_UserID d = Some uid" "dc_UserEmail d = mail" "dc_TenantID d = Some tid"
    "sign ''default'' (jwtClaims t1 (user_claims uid tid m (dc_Scopes d) (24 * Hour)) ''default'')
       (jwtDefaultSecret (ds_tokens svc)) = Inr (dc_AccessToken d)"
    by (auto simp: device_granted_by_def)
  let ?r = "device_token_response d"
  have r: "dt_UserID ?r = uid" "dt_Email ?r = mail" "dt_TenantID ?r = tid" "dt_AccessToken ?r = dc_AccessToken d"
      "dt_Scope ?r = Join (device_scopes req) '' ''"
    using granted made(4) by (simp_all add: device_token_response_def)
  have live: "Unix now \<le> Unix (t0 + ds_codeExpiry svc)" "Unix t1 \<le> Unix (t0 + ds_codeExpiry svc)"
    using ok(2) granted(3) made(5) by (simp_all add: dc_IsExpired_def)
  show ?thesis unfolding device_token_backed_def r using made(1-3) live granted(1,2,7) unfolding made(4) by blast
qed

lemma device_history_empty: "device_history svc sign H (s\<lparr> device_codes := [] \<rparr>)"
  by (simp add: device_history_def device_inv_def)

lemma device_poll_backed:
  assumes hist: "device_history svc sign H s"
    and out: "snd (device_step svc sign fmt (DPoll now k, os) s) = RPoll (Inr resp)"
    and tok: "dt_AccessToken resp \<noteq> []"
  shows "device_token_backed svc sign H now k resp"
proof -
  have inv: "device_inv s" using hist by (simp add: device_history_def)
  have "device_poll_reply svc now os (List.find (\<lambda>r. dc_DeviceCode r = k) (device_codes s)) = Inr resp"
    using out by (simp add: device_step_poll [OF inv])
  then obtain d where d: "List.find (\<lambda>r. dc_DeviceCode r = k) (device_codes s) = Some d"
    and live: "\<not> dc_IsExpired now d" "redeemable d" and resp: "resp = device_token_response d"
    using tok by (rule device_poll_reply_token)
  have "d \<in> set (device_codes s)" "dc_DeviceCode d = k" using d by (auto simp: find_Some_iff)
  with resp show ?thesis using device_token_response_backed [OF hist] live by blast
qed

section \<open>Round trips\<close>

lemma device_run_inv: "device_inv (fst (run (device_step svc sign fmt) ops (s\<lparr> device_codes := [] \<rparr>)))"
  by (rule run_invariant [where I = device_inv]) (simp_all add: device_step_inv, simp add: device_inv_def)

text \<open>The row a successful request stores.\<close>

lemma InitiateDeviceFlow_row:
  assumes "InitiateDeviceFlow svc now i rd ru req (s, []) = (Inr resp, s', [])"
  obtains d where "s' = s\<lparr> device_codes := device_codes s @ [d] \<rparr>"
    and "dc_DeviceCode d = dres_DeviceCode resp" and "dc_UserCode d = dres_UserCode resp"
    and "dc_Status d = ''pending''" and "dc_LastPolledAt d = None"
    and "dc_ExpiresAt d = Unix (now + ds_codeExpiry svc)"
  using assms
  by (auto simp: InitiateDeviceFlow_def Let_def CreateDeviceCode_ok insert_device_code_def
      split: sum.splits if_splits)

lemma InitiateDeviceFlow_inv:
  assumes "device_inv (s :: device_db)" and "InitiateDeviceFlow svc now i rd ru req (s, []) = (Inr resp, s', [])"
  shows "device_inv s'"
  using device_step_inv [OF assms(1), of svc _ _ "(DInitiate now i rd ru req, [])"] assms(2)
  by (simp add: device_step_def reply_def)

text \<open>A user code finds its own row, however the hyphen is typed.\<close>

lemma device_inv_find_user_code:
  assumes "device_inv s" and "d \<in> set (device_codes s)" and "normal_code u = normal_code (dc_UserCode d)"
  shows "List.find (\<lambda>r. normal_code (dc_UserCode r) = normal_code u) (device_codes s) = Some d"
proof -
  obtain r where r: "List.find (\<lambda>r. normal_code (dc_UserCode r) = normal_code u) (device_codes s) = Some r"
    using assms(2,3) by (metis (mono_tags, lifting) find_None_iff option.exhaust)
  then have "r \<in> set (device_codes s)" "normal_code (dc_UserCode r) = normal_code u"
    by (auto simp: find_Some_iff)
  with assms have "r = d" by (intro device_inv_user_code [OF assms(1)]) simp_all
  with r show ?thesis by simp
qed

lemma device_inv_find_code:
  assumes "device_inv s" and "d \<in> set (device_codes s)"
  shows "List.find (\<lambda>r. dc_DeviceCode r = dc_DeviceCode d) (device_codes s) = Some d"
  using select_row_key [of dc_DeviceCode "device_codes s" d "dc_DeviceCode d"] assms
  by (simp add: device_inv_def select_row_Inr_iff)

text \<open>An approval in time turns the pending row into a granted one that carries the signed token.\<close>

lemma AuthorizeDevice_approves:
  assumes inv: "device_inv s" and d: "d \<in> set (device_codes s)" "dc_Status d = ''pending''"
    and u: "normal_code u = normal_code (dc_UserCode d)" and live: "\<not> dc_IsExpired now d"
    and tenant: "GetTenantByID tid (s, []) = (Inr tn, s, [])"
    and sign: "\<forall>claims. \<exists>tok. tok \<noteq> [] \<and> sign ''default'' claims (jwtDefaultSecret (ds_tokens svc)) = Inr tok"
  shows "\<exists>tok. tok \<noteq> [] \<and> AuthorizeDevice svc sign now u uid mail tid domain cid True (s, []) =
    (Inr (), s\<lparr> device_codes := update_where (\<lambda>r. r = d)
       (decided_row now uid mail tid domain cid tok True) (device_codes s) \<rparr>, [])"
proof -
  have only: "open_row u r \<longleftrightarrow> r = d" if "r \<in> set (device_codes s)" for r
    using device_inv_user_code [OF inv that d(1)] d(2) u by (auto simp: open_row_def)
  let ?user = "case fst (GetUserByID uid (s, [])) of Inr u \<Rightarrow> u
      | Inl _ \<Rightarrow> zero_user\<lparr> us_ID := uid, us_Email := mail, us_TenantID := tid \<rparr>"
  obtain tok where tok: "tok \<noteq> []" "device_generateJWTToken svc sign now ?user tn (dc_Scopes d) = Inr tok"
    using sign by (auto simp: device_generateJWTToken_def GenerateDeviceAuthToken_def GenerateToken_def
        generateTokenWithType_Inr_iff)
  then have for_d: "device_token_for svc sign now uid mail tid (dc_Scopes d) (s, []) = (Inr tok, s, [])"
    using tenant by (simp add: device_token_for_def GetUserByID_fault_free)
  have ex: "(\<exists>r \<in> set (device_codes s). open_row u r) = True" using only d(1) by blast
  have "update_where (open_row u) f (device_codes s) = update_where (\<lambda>r. r = d) f (device_codes s)" for f
    using only by (intro update_where_cong) simp
  with tok ex show ?thesis
    using device_inv_find_user_code [OF inv d(1) u] live d(2)
    by (intro exI [of _ tok]) (simp add: AuthorizeDevice_def FindByUserCode_ok for_d AuthorizeDeviceCode_ok)
qed

section \<open>Overlapping polls\<close>

text \<open>The rest of a poll, after the code has been read: the token it hands out, if any.\<close>

definition device_reply_token :: "go_error + DeviceTokenResponse \<Rightarrow> string" where
  "device_reply_token r = (case r of Inl _ \<Rightarrow> [] | Inr resp \<Rightarrow> dt_AccessToken resp)"

lemma device_poll_found_soon:
  assumes "\<forall>r \<in> set (device_codes s). dc_DeviceCode r = k \<longrightarrow> \<not> poll_due now (ds_pollingInterval svc) r"
  shows "device_reply_token (fst (device_poll_found svc now k d (s, []))) = []"
  using assms by (simp add: device_poll_found_def device_UpdateLastPolled_sched device_reply_token_def dt_error_def
      case_prod_beta)

lemma device_poll_found_stamps:
  assumes inv: "device_inv s" and tok: "device_reply_token (fst (device_poll_found svc now k d (s, []))) \<noteq> []"
  shows "\<exists>s1. snd (device_poll_found svc now k d (s, [])) = (s1, []) \<and>
    (\<forall>r \<in> set (device_codes s1). dc_DeviceCode r = k \<longrightarrow> dc_LastPolledAt r = Some (Unix now))"
proof -
  let ?n = "ds_pollingInterval svc"
  let ?rows = "update_where (\<lambda>r. dc_DeviceCode r = k \<and> poll_due now ?n r) (polled_row now) (device_codes s)"
  have live: "\<not> dc_IsExpired now d"
    using tok by (auto simp: device_poll_found_def device_reply_token_def dt_error_def case_prod_beta)
  obtain r0 where r0: "r0 \<in> set (device_codes s)" "dc_DeviceCode r0 = k" "poll_due now ?n r0"
    using tok device_poll_found_soon by blast
  have due: "poll_due now ?n r" if "r \<in> set (device_codes s)" "dc_DeviceCode r = k" for r
    using device_inv_unique [OF inv device_inv_find_code [OF inv r0(1)] that(1)] that(2) r0(2,3) by simp
  have stamped: "\<forall>r \<in> set ?rows. dc_DeviceCode r = k \<longrightarrow> dc_LastPolledAt r = Some (Unix now)"
  proof (intro ballI impI)
    fix r
    assume "r \<in> set ?rows" and k: "dc_DeviceCode r = k"
    then obtain q where q: "q \<in> set (device_codes s)"
      "r = (if dc_DeviceCode q = k \<and> poll_due now ?n q then polled_row now q else q)"
      unfolding update_where_def by auto
    then have "dc_DeviceCode q = k" using k by (simp add: polled_row_def split: if_splits)
    with q due show "dc_LastPolledAt r = Some (Unix now)" by (simp add: polled_row_def)
  qed
  have soon: "(\<forall>r \<in> set (device_codes s). dc_DeviceCode r = k \<longrightarrow> \<not> poll_due now ?n r) = False" using r0 by blast
  have "\<forall>r \<in> set (update_where (\<lambda>r. dc_DeviceCode r = k) (\<lambda>r. r\<lparr> dc_Status := ''consumed'', dc_UpdatedAt := Unix now \<rparr>) ?rows).
      dc_DeviceCode r = k \<longrightarrow> dc_LastPolledAt r = Some (Unix now)"
    using stamped by (rule update_where_all) simp
  with live stamped show ?thesis
    by (cases "redeemable d")
      (simp_all add: device_poll_found_def device_UpdateLastPolled_sched soon device_poll_status_sched)
qed

section \<open>Examples\<close>

text \<open>A service, a directory and the operations of one grant, on which the witnesses run.\<close>

definition ex_device_svc :: DeviceAuthService where
  "ex_device_svc = NewDeviceAuthService (\<lambda>_. []) ex_tokens"

definition ex_device_db :: device_db where
  "ex_device_db = \<lparr> tenants = [ex_tenant], users = [ex_user], device_codes = [] \<rparr>"

definition ex_device_req :: DeviceCodeRequest where
  "ex_device_req = \<lparr> dreq_ClientID = ''cli'', dreq_TenantDomain = ''x.io'', dreq_Scopes = [''read''], dreq_DeviceInfo = [] \<rparr>"

definition ex_device_code :: string where
  "ex_device_code = Hex (map (\<lambda>_. 0) [0..<32])"

definition ex_device_ops :: "(device_op \<times> outcome list) list" where
  "ex_device_ops =
     [(DInitiate 0 ''d-1'' (Some (\<lambda>_. 0)) (Some (\<lambda>_. 0)) ex_device_req, []),
      (DAuthorize (10 * Second) ''AAAAAAAA'' ''u-1'' ''a@x.io'' ''t-1'' ''x.io'' None True, [])]"

definition ex_device_row :: DeviceCode where
  "ex_device_row =
     \<lparr> dc_ID = ''d-1'', dc_TenantID = Some ''t-1'', dc_ClientID = None, dc_DeviceCode = ''k'',
       dc_UserCode = ''AAAA-AAAA'', dc_VerificationURI = [], dc_VerificationURIComplete = [],
       dc_UserID = Some ''u-1'', dc_UserEmail = ''a@x.io'', dc_TenantDomain = ''x.io'', dc_AccessToken = ''tok'',
       dc_Status = ''authorized'', dc_Scopes = [''read''], dc_DeviceInfo = [], dc_ExpiresAt = 300,
       dc_LastPolledAt = None, dc_AuthorizedAt = Some 1, dc_CreatedAt = 0, dc_UpdatedAt = 1 \<rparr>"

section \<open>Properties\<close>

lemma ex_device_row_inv: "device_inv (ex_device_db\<lparr> device_codes := [ex_device_row] \<rparr>)"
proof -
  have "user_code_form ''AAAA-AAAA''"
    unfolding user_code_form_def by (intro exI [of _ "''AAAA''"]) (simp add: user_code_charset_def)
  then show ?thesis by (simp add: device_inv_def ex_device_row_def device_statuses_def)
qed

lemma replies_with_lost:
  assumes "\<And>op out. P op out \<Longrightarrow> Q op out \<or> L op"
  shows "length (replies_with P tr) \<le> length (replies_with Q tr) + length (filter L (map fst tr))"
proof (induction tr)
  case (Cons e tr)
  have "(if P (fst e) (snd e) then 1 else 0) \<le> (if Q (fst e) (snd e) then 1 else 0) + (if L (fst e) then 1 else (0::nat))"
    using assms by auto
  with Cons show ?case by (cases e) (simp add: replies_with_Cons split: if_splits)
qed (simp add: replies_with_def)

text \<open>
  C1. Whatever the operations and whichever statements fail, starting from an empty table, the tokens handed out for a device code
  number at most the requests that drew that code plus the polls of it whose consuming statement was lost. So in a run in which no
  consuming statement is lost, a device code, once redeemed, never yields a second token.
\<close>

theorem device_tokens_bounded:
  "length (replies_with (device_issues k) (snd (run (device_step svc sign fmt) ops (s\<lparr> device_codes := [] \<rparr>))))
     \<le> length (filter (\<lambda>op. device_creates k (fst op)) ops) + length (filter (device_consume_lost k) ops)"
proof -
  let ?s = "s\<lparr> device_codes := [] \<rparr>"
  let ?tr = "snd (run (device_step svc sign fmt) ops ?s)"
  have "device_inv ?s" and "dev.dead k ?s"
    by (simp_all add: device_inv_def dev.dead_def device_phase_of_def)
  then have "length (replies_with (device_redeems k) ?tr) \<le> length (filter (\<lambda>op. device_creates k (fst op)) ops)"
    using dev.tokens_bounded [of ?s k svc sign fmt ops] by simp
  moreover have "length (replies_with (device_issues k) ?tr) \<le>
      length (replies_with (device_redeems k) ?tr) + length (filter (device_consume_lost k) (map fst ?tr))"
    by (rule replies_with_lost) (simp add: device_redeems_def)
  ultimately show ?thesis by (simp add: run_ops)
qed

text \<open>
  C15. Every token that a poll hands out in a run from an empty table, whichever statements fail, is backed by the history: a request
  drew the device code together with a user code, and the poll comes within the lifetime it gave the code; the user named in the reply
  approved that very user code within the lifetime, under the tenant named in the reply; and the token is the signature of claims for
  that user, that tenant and the scopes of that request, which the reply lists.
\<close>

theorem device_tokens_sound:
  assumes "((DPoll now k, os), RPoll (Inr resp)) \<in>
      set (snd (run (device_step svc sign fmt) ops (s\<lparr> device_codes := [] \<rparr>)))"
    and "dt_AccessToken resp \<noteq> []"
  shows "device_token_backed svc sign (fst ` set ops) now k resp"
proof -
  let ?H = "fst ` set ops"
  let ?Q = "\<lambda>op out. \<forall>now k os resp. op = (DPoll now k, os) \<longrightarrow> out = RPoll (Inr resp) \<longrightarrow>
      dt_AccessToken resp \<noteq> [] \<longrightarrow> device_token_backed svc sign ?H now k resp"
  have "device_history svc sign ?H (fst (device_step svc sign fmt op s)) \<and> ?Q op (snd (device_step svc sign fmt op s))"
    if "op \<in> set ops" "device_history svc sign ?H s" for op s
  proof -
    obtain o' os' where op: "op = (o', os')" by (rule prod.exhaust)
    with that(1) have "o' \<in> ?H" by force
    have "device_history svc sign ?H (fst (device_step svc sign fmt op s))"
      unfolding op by (rule device_history_step [OF that(2) \<open>o' \<in> ?H\<close>])
    moreover have "?Q op (snd (device_step svc sign fmt op s))"
      using device_poll_backed [OF that(2)] by blast
    ultimately show ?thesis ..
  qed
  then have "?Q (DPoll now k, os) (RPoll (Inr resp))"
    using device_history_empty subset_refl assms(1)
    by (rule run_trace [where Q = ?Q and I = "device_history svc sign ?H" and H = "set ops"])
  with assms(2) show ?thesis by blast
qed

theorem device_tokens_sound_witness:
  "\<exists>resp. dt_AccessToken resp \<noteq> [] \<and>
     device_token_backed ex_device_svc ex_sign (fst ` set (ex_device_ops @ [(DPoll (20 * Second) ex_device_code, [])]))
       (20 * Second) ex_device_code resp"
proof -
  let ?step = "device_step ex_device_svc ex_sign (\<lambda>_. [])" and ?op = "(DPoll (20 * Second) ex_device_code, [])"
  let ?out = "snd (?step ?op (fst (run ?step ex_device_ops (ex_device_db\<lparr> device_codes := [] \<rparr>))))"
  have "case ?out of RPoll (Inr resp) \<Rightarrow> dt_AccessToken resp \<noteq> [] | _ \<Rightarrow> False" by code_simp
  then obtain resp where "?out = RPoll (Inr resp)" and tok: "dt_AccessToken resp \<noteq> []"
    by (auto split: device_reply.splits sum.splits)
  with run_last_reply [of ?op ?step ex_device_ops "ex_device_db\<lparr> device_codes := [] \<rparr>"]
  have "(?op, RPoll (Inr resp)) \<in> set (snd (run ?step (ex_device_ops @ [?op]) (ex_device_db\<lparr> device_codes := [] \<rparr>)))"
    by simp
  with device_tokens_sound [OF this tok] tok show ?thesis by blast
qed

text \<open>
  C27. In every state reached by any operations under any faults, a poll is exactly specified whatever its own statements come to: an
  unknown code, one that cannot be read and an expired one answer expired_token, a stamp that fails is an error, a poll within the
  interval answers slow_down and changes nothing, and otherwise the reply is determined by the stored status; the row is expired,
  stamped, and consumed exactly when its token is handed out and the consuming statement is not lost.
\<close>

theorem device_PollForToken_spec:
  "let s' = fst (run (device_step svc sign fmt) ops (s\<lparr> device_codes := [] \<rparr>));
       row = List.find (\<lambda>r. dc_DeviceCode r = k) (device_codes s')
   in fst (device_PollForToken svc now k (s', os)) = device_poll_reply svc now os row \<and>
      tables (device_PollForToken svc now k (s', os)) =
        s'\<lparr> device_codes := update_where (\<lambda>r. dc_DeviceCode r = k) (device_poll_row svc now os) (device_codes s') \<rparr>"
  unfolding Let_def by (rule device_PollForToken_run [OF device_run_inv])

text \<open>
  C17. The stored status of a code only moves along the abstract machine (pending, then granted or
  denied, then consumed, with expiry from anywhere): over any sequence of operations that does not
  create the code anew, whichever statements fail, the phase before and the phase after are connected by steps of the machine.
\<close>

theorem device_status_refines_machine:
  assumes "\<forall>op \<in> set ops'. \<not> device_creates k (fst op)"
    and "device_phase_of k (fst (run (device_step svc sign fmt) ops (s\<lparr> device_codes := [] \<rparr>))) = Some p"
    and "device_phase_of k (fst (run (device_step svc sign fmt) (ops @ ops') (s\<lparr> device_codes := [] \<rparr>))) = Some q"
  shows "phase_step\<^sup>*\<^sup>* p q"
  using dev.phase_run [OF device_run_inv assms(1,2)] assms(3) by (simp add: run_append_state)

theorem device_status_refines_machine_witness: "phase_step\<^sup>*\<^sup>* Granted Consumed"
proof (rule device_status_refines_machine)
  let ?run = "\<lambda>ops. fst (run (device_step ex_device_svc ex_sign (\<lambda>_. [])) ops (ex_device_db\<lparr> device_codes := [] \<rparr>))"
  show "\<forall>op \<in> set [(DPoll (20 * Second) ex_device_code, [] :: outcome list)]. \<not> device_creates ex_device_code (fst op)" by simp
  show "device_phase_of ex_device_code (?run ex_device_ops) = Some Granted" by code_simp
  show "device_phase_of ex_device_code (?run (ex_device_ops @ [(DPoll (20 * Second) ex_device_code, [])])) = Some Consumed"
    by code_simp
qed

text \<open>
  From a request to the token: after a successful request in any reachable state, an approval of
  the displayed user code (typed with or without its hyphen) and then a poll, both within the lifetime,
  return a token for the approving user, provided the tenant exists and signing succeeds.
\<close>

theorem device_approve_then_poll:
  assumes "InitiateDeviceFlow svc t0 i rd ru req
      (fst (run (device_step svc sign fmt) ops (s\<lparr> device_codes := [] \<rparr>)), []) = (Inr resp, s1, [])"
    and "normal_code typed = normal_code (dres_UserCode resp)"
    and "Unix t1 \<le> Unix (t0 + ds_codeExpiry svc)" and "Unix t2 \<le> Unix (t0 + ds_codeExpiry svc)"
    and "GetTenantByID tid (s1, []) = (Inr tn, s1, [])"
    and "\<forall>claims. \<exists>tok. tok \<noteq> [] \<and> sign ''default'' claims (jwtDefaultSecret (ds_tokens svc)) = Inr tok"
  shows "\<exists>s2 s3 reply. AuthorizeDevice svc sign t1 typed uid mail tid domain cid True (s1, []) = (Inr (), s2, []) \<and>
    device_PollForToken svc t2 (dres_DeviceCode resp) (s2, []) = (Inr reply, s3, []) \<and>
    dt_AccessToken reply \<noteq> [] \<and> dt_UserID reply = uid \<and> dt_Email reply = mail \<and> dt_TenantID reply = tid"
proof -
  obtain d where s1: "device_codes s1 = device_codes (fst (run (device_step svc sign fmt) ops (s\<lparr> device_codes := [] \<rparr>))) @ [d]"
    and d: "dc_DeviceCode d = dres_DeviceCode resp" "dc_UserCode d = dres_UserCode resp" "dc_Status d = ''pending''"
      "dc_LastPolledAt d = None" "dc_ExpiresAt d = Unix (t0 + ds_codeExpiry svc)"
    by (rule InitiateDeviceFlow_row [OF assms(1)]) simp
  have inv: "device_inv s1" using InitiateDeviceFlow_inv [OF device_run_inv assms(1)] .
  have mem: "d \<in> set (device_codes s1)" using s1 by simp
  have u: "normal_code typed = normal_code (dc_UserCode d)" using assms(2) d(2) by simp
  have live: "\<not> dc_IsExpired t1 d" "\<not> dc_IsExpired t2 d" using d assms(3,4) by (simp_all add: dc_IsExpired_def)
  obtain tok where tok: "tok \<noteq> []" and auth: "AuthorizeDevice svc sign t1 typed uid mail tid domain cid True (s1, []) =
      (Inr (), s1\<lparr> device_codes := update_where (\<lambda>r. r = d) (decided_row t1 uid mail tid domain cid tok True)
         (device_codes s1) \<rparr>, [])" (is "_ = (_, ?s2, _)")
    using AuthorizeDevice_approves [where svc = svc and sign = sign, OF inv mem d(3) u live(1) assms(5,6)]
    by blast
  let ?d = "decided_row t1 uid mail tid domain cid tok True d"
  have "device_inv ?s2"
    using device_step_inv [OF inv, of svc sign fmt "(DAuthorize t1 typed uid mail tid domain cid True, [])"]
    by (simp add: device_step_def reply_def auth)
  moreover have "List.find (\<lambda>r. dc_DeviceCode r = dres_DeviceCode resp) (device_codes ?s2) = Some ?d"
    using device_inv_find_code [OF inv mem] d(1)
    by (simp add: find_update_where decided_row_def)
  moreover have "device_poll_reply svc t2 [] (Some ?d) = Inr (device_token_response ?d)"
    using live(2) d tok by (simp add: device_poll_reply_def device_status_reply_def redeemable_def decided_row_def
        dc_IsExpired_def poll_due_def)
  ultimately have "\<exists>s3. device_PollForToken svc t2 (dres_DeviceCode resp) (?s2, []) =
      (Inr (device_token_response ?d), s3, [])"
    using device_PollForToken_ok [of ?s2 svc t2 "dres_DeviceCode resp"] by simp
  moreover have "dt_AccessToken (device_token_response ?d) \<noteq> [] \<and> dt_UserID (device_token_response ?d) = uid \<and>
      dt_Email (device_token_response ?d) = mail \<and> dt_TenantID (device_token_response ?d) = tid"
    using tok by (simp add: device_token_response_def decided_row_def)
  ultimately show ?thesis using auth by blast
qed

theorem device_approve_then_poll_witness:
  "\<exists>(resp :: DeviceCodeResponse) (s1 :: device_db) s2 s3 reply.
     AuthorizeDevice ex_device_svc ex_sign (10 * Second) ''AAAAAAAA'' ''u-1'' ''a@x.io'' ''t-1'' ''x.io'' None True (s1, []) =
       (Inr (), s2, []) \<and>
     device_PollForToken ex_device_svc (20 * Second) (dres_DeviceCode resp) (s2, []) = (Inr reply, s3, []) \<and>
     dt_AccessToken reply \<noteq> [] \<and> dt_UserID reply = ''u-1'' \<and> dt_Email reply = ''a@x.io'' \<and> dt_TenantID reply = ''t-1''"
proof -
  let ?init = "InitiateDeviceFlow ex_device_svc 0 ''d-1'' (Some (\<lambda>_. 0)) (Some (\<lambda>_. 0)) ex_device_req
      (fst (run (device_step ex_device_svc ex_sign (\<lambda>_. [])) [] (ex_device_db\<lparr> device_codes := [] \<rparr>)), [])"
  have "case ?init of (Inr resp, s1, os) \<Rightarrow> os = [] \<and> tenants s1 = [ex_tenant] \<and>
      normal_code ''AAAAAAAA'' = normal_code (dres_UserCode resp) | _ \<Rightarrow> False" by code_simp
  then obtain resp s1 where init: "?init = (Inr resp, s1, [])" and tn: "tenants s1 = [ex_tenant]"
    and typed: "normal_code ''AAAAAAAA'' = normal_code (dres_UserCode resp)"
    by (auto split: prod.splits sum.splits)
  have lifetime: "Unix (10 * Second) \<le> Unix (0 + ds_codeExpiry ex_device_svc)"
    "Unix (20 * Second) \<le> Unix (0 + ds_codeExpiry ex_device_svc)" by code_simp+
  have "GetTenantByID ''t-1'' (s1, []) = (Inr ex_tenant, s1, [])"
    using tn by (simp add: sql_simps ex_tenant_def)
  from device_approve_then_poll [where sign = ex_sign and uid = "''u-1''" and mail = "''a@x.io''" and domain = "''x.io''"
      and cid = None, OF init typed lifetime this] ex_sign_total
  have "\<exists>s2 s3 reply.
     AuthorizeDevice ex_device_svc ex_sign (10 * Second) ''AAAAAAAA'' ''u-1'' ''a@x.io'' ''t-1'' ''x.io'' None True (s1, []) =
       (Inr (), s2, []) \<and>
     device_PollForToken ex_device_svc (20 * Second) (dres_DeviceCode resp) (s2, []) = (Inr reply, s3, []) \<and>
     dt_AccessToken reply \<noteq> [] \<and> dt_UserID reply = ''u-1'' \<and> dt_Email reply = ''a@x.io'' \<and> dt_TenantID reply = ''t-1''"
    by simp
  then show ?thesis by blast
qed

text \<open>
  A limit of the one-time guarantee: the poll ignores the result of the statement that marks the
  code as consumed, so when that statement is lost the token is handed out although the row stays
  authorized, and a later poll hands the same token out again.
\<close>

theorem device_lost_consume_reissues:
  assumes "device_inv s" and "List.find (\<lambda>r. dc_DeviceCode r = k) (device_codes s) = Some d"
    and "redeemable d" and "\<not> dc_IsExpired now d" and "poll_due now (ds_pollingInterval svc) d"
    and "Unix now + ds_pollingInterval svc \<le> Unix now'" and "\<not> dc_IsExpired now' d"
  shows "\<exists>s1 s2 reply.
    device_PollForToken svc now k (s, [Applied, Applied, Lost]) = (Inr (device_token_response d), s1, []) \<and>
    device_PollForToken svc now' k (s1, []) = (Inr reply, s2, []) \<and> dt_AccessToken reply = dc_AccessToken d \<and>
    dc_AccessToken d \<noteq> []"
proof -
  let ?n = "ds_pollingInterval svc"
  let ?s1 = "s\<lparr> device_codes := update_where (\<lambda>r. dc_DeviceCode r = k \<and> poll_due now ?n r)
      (polled_row now) (device_codes s) \<rparr>"
  have d: "d \<in> set (device_codes s)" "dc_DeviceCode d = k" using assms(2) by (auto simp: find_Some_iff)
  have soon: "(\<forall>r \<in> set (device_codes s). dc_DeviceCode r = k \<longrightarrow> \<not> poll_due now ?n r) = False"
    using d assms(5) by blast
  have first: "device_PollForToken svc now k (s, [Applied, Applied, Lost]) = (Inr (device_token_response d), ?s1, [])"
    using assms(3,4) soon
    by (simp add: device_PollForToken_def device_poll_found_def FindByDeviceCode_sched assms(2) device_UpdateLastPolled_sched
        device_poll_status_def redeemable_def device_MarkAsConsumed_def device_UpdateStatus_def sched_def)
  have "device_inv ?s1"
    using assms(1) by (simp add: device_inv_def map_update_where polled_row_def table_simps) auto
  moreover have "List.find (\<lambda>r. dc_DeviceCode r = k) (device_codes ?s1) = Some (polled_row now d)"
    using assms(2,5) d(2) by (simp add: find_update_where polled_row_def)
  moreover have "device_poll_reply svc now' [] (Some (polled_row now d)) = Inr (device_token_response (polled_row now d))"
    using assms(3,6,7) by (simp add: device_poll_reply_def device_status_reply_def redeemable_def polled_row_def
        poll_due_def dc_IsExpired_def)
  ultimately have "\<exists>s2. device_PollForToken svc now' k (?s1, []) =
      (Inr (device_token_response (polled_row now d)), s2, [])"
    using device_PollForToken_ok [of ?s1 svc now' k] by simp
  moreover have "dt_AccessToken (device_token_response (polled_row now d)) = dc_AccessToken d"
    by (simp add: device_token_response_def polled_row_def)
  ultimately show ?thesis using first assms(3) by (auto simp: redeemable_def)
qed

theorem device_lost_consume_reissues_witness:
  "\<exists>s1 s2 reply.
    device_PollForToken ex_device_svc (20 * Second) ''k'' (ex_device_db\<lparr> device_codes := [ex_device_row] \<rparr>, [Applied, Applied, Lost]) =
      (Inr (device_token_response ex_device_row), s1, []) \<and>
    device_PollForToken ex_device_svc (25 * Second) ''k'' (s1, []) = (Inr reply, s2, []) \<and>
    dt_AccessToken reply = dc_AccessToken ex_device_row \<and> dc_AccessToken ex_device_row \<noteq> []"
proof (rule device_lost_consume_reissues)
  show "device_inv (ex_device_db\<lparr> device_codes := [ex_device_row] \<rparr>)" by (rule ex_device_row_inv)
qed (code_simp+)

text \<open>
  The conditional update that enforces the polling interval also serialises polls: of two polls that
  both read the code before either completes, within one interval of each other, at most one hands out
  the token.
\<close>

theorem device_concurrent_polls_single_issue:
  assumes "device_inv s" and "Unix t2 - Unix t1 < ds_pollingInterval svc"
  shows "let (r1, c1) = device_poll_found svc t1 k d (s, []); (r2, c2) = device_poll_found svc t2 k d' c1
    in device_reply_token r1 = [] \<or> device_reply_token r2 = []"
proof (cases "device_reply_token (fst (device_poll_found svc t1 k d (s, []))) = []")
  case False
  then obtain s1 where s1: "snd (device_poll_found svc t1 k d (s, [])) = (s1, [])"
    and stamped: "\<forall>r \<in> set (device_codes s1). dc_DeviceCode r = k \<longrightarrow> dc_LastPolledAt r = Some (Unix t1)"
    using device_poll_found_stamps [OF assms(1)] by blast
  have "device_reply_token (fst (device_poll_found svc t2 k d' (s1, []))) = []"
    by (rule device_poll_found_soon) (use stamped assms(2) in \<open>auto simp: poll_due_def\<close>)
  with s1 show ?thesis by (simp add: case_prod_beta)
qed (simp add: case_prod_beta)

theorem device_concurrent_polls_single_issue_witness:
  "let s = ex_device_db\<lparr> device_codes := [ex_device_row] \<rparr>;
       (r1, c1) = device_poll_found ex_device_svc 0 ''k'' ex_device_row (s, []);
       (r2, c2) = device_poll_found ex_device_svc Second ''k'' ex_device_row c1
   in device_reply_token r1 = [] \<or> device_reply_token r2 = []"
  unfolding Let_def [of "ex_device_db\<lparr> device_codes := [ex_device_row] \<rparr>"]
proof (rule device_concurrent_polls_single_issue)
  show "device_inv (ex_device_db\<lparr> device_codes := [ex_device_row] \<rparr>)" by (rule ex_device_row_inv)
qed code_simp

text \<open>
  The cleanup job keeps every code that can still be used, leaves no pending code past its expiry,
  and leaves no finished code whose expiry lies more than a day back.
\<close>

theorem device_cleanup_sound:
  "let rows' = device_codes (fst (snd (device_CleanupExpiredCodes now (s, []))))
   in {r \<in> set (device_codes s). dc_Status r \<in> {''pending'', ''authorized''} \<and> \<not> dc_IsExpired now r} \<subseteq> set rows' \<and>
      {r \<in> set rows'. dc_Status r = ''pending'' \<and> dc_IsExpired now r} = {} \<and>
      {r \<in> set rows'. dc_Status r \<in> {''expired'', ''consumed'', ''denied''} \<and>
         dc_ExpiresAt r < Unix now - 24 * 60 * 60} = {} \<and>
      snd (fst (device_CleanupExpiredCodes now (s, []))) = None"
proof -
  have "now - 24 * Hour = now - (24 * 60 * 60) * Second" by (simp add: Hour_def Minute_def)
  then have day: "Unix (now - 24 * Hour) = Unix now - 24 * 60 * 60" by (simp only: Unix_diff_seconds)
  show ?thesis
    by (auto simp: Let_def device_CleanupExpiredCodes_def ExpireOldDeviceCodes_def DeleteExpiredDeviceCodes_def
        day table_simps dc_IsExpired_def)
qed

end
