(* ===== verification/Gin_Context.thy ===== *)
theory Gin_Context
  imports Authsec_Prelude
begin

text \<open>
  What the handlers of the controllers see and produce: the request context of \<^verbatim>\<open>gin\<close>, the reply, and the
  audit entries of \<^verbatim>\<open>middlewares/logging_middleware.go\<close>.
\<close>

text \<open>
  A handler gets the outcome of \<^verbatim>\<open>ShouldBindJSON\<close> and the keys that the authentication middleware put
  into the request context, and returns the status, the body and the audit entries it writes: the
  tenant and user of the context, the object type and id, and the action.
\<close>

type_synonym gin_context = "string \<rightharpoonup> goval"

record audit_entry =
  ae_tenant :: string
  ae_user :: string
  ae_email :: string
  ae_actor :: string
  ae_request :: string
  ae_event :: string
  ae_object :: string
  ae_id :: string
  ae_action :: string

record 'b http_reply =
  http_status :: nat
  http_body :: 'b
  http_audit :: "audit_entry list"

definition GetString :: "gin_context \<Rightarrow> string \<Rightarrow> string" where
  "GetString ctx key = (case ctx key of Some (GStr s) \<Rightarrow> s | _ \<Rightarrow> [])"

definition Audit :: "gin_context \<Rightarrow> string \<Rightarrow> string \<Rightarrow> string \<Rightarrow> audit_entry" where
  "Audit ctx objectType objectID actionType =
     (let tenantID = GetString ctx ''tenant_id''
      in \<lparr> ae_tenant = (if tenantID = [] then ''unknown_tenant'' else tenantID),
           ae_user = GetString ctx ''user_id'', ae_email = GetString ctx ''email_id'',
           ae_actor =
             (if GetString ctx ''user_id'' = [] then ''system''
              else if GetString ctx ''is_admin'' = ''true'' then ''admin'' else ''user''),
           ae_request = GetString ctx ''request_id'', ae_event = objectType @ CHR ''.'' # actionType,
           ae_object = objectType, ae_id = objectID, ae_action = actionType \<rparr>)"

end
