(* ===== verification/Ciba_Auth.thy ===== *)
theory Ciba_Auth
  imports Directory Token_Service One_Time_Grant Gin_Context
begin

text \<open>
  Client initiated backchannel authentication: the rows of \<^verbatim>\<open>models/ciba.go\<close>, the SQL of
  \<^verbatim>\<open>database/ciba_auth_repository.go\<close>, the operations of \<^verbatim>\<open>services/ciba_auth_service.go\<close> and the
  handlers of \<^verbatim>\<open>controllers/enduser/ciba_auth_controller.go\<close> for the three endpoints of the flow.
  \<^verbatim>\<open>uuid.Parse\<close> and the push provider are function arguments; foreign keys are not modelled, since
  the operations below delete no referenced row.
\<close>

section \<open>Data model\<close>

record DeviceToken =
  tok_ID :: uuid
  tok_UserID :: uuid
  tok_TenantID :: uuid
  tok_DeviceToken :: string
  tok_Platform :: string
  tok_DeviceName :: string
  tok_DeviceModel :: string
  tok_AppVersion :: string
  tok_OSVersion :: string
  tok_IsActive :: bool
  tok_LastUsed :: "int option"
  tok_CreatedAt :: int
  tok_UpdatedAt :: int

record CIBAAuthRequest =
  cb_ID :: uuid
  cb_AuthReqID :: string
  cb_UserID :: uuid
  cb_TenantID :: uuid
  cb_UserEmail :: string
  cb_ClientID :: "uuid option"
  cb_DeviceTokenID :: uuid
  cb_BindingMessage :: string
  cb_Scopes :: "string list"
  cb_Status :: string
  cb_BiometricVerified :: bool
  cb_ExpiresAt :: int
  cb_CreatedAt :: int
  cb_RespondedAt :: "int option"
  cb_LastPolledAt :: "int option"

definition cb_IsExpired :: "gotime \<Rightarrow> CIBAAuthRequest \<Rightarrow> bool" where
  "cb_IsExpired now r \<longleftrightarrow> Unix now > cb_ExpiresAt r"

definition cb_IsPending :: "gotime \<Rightarrow> CIBAAuthRequest \<Rightarrow> bool" where
  "cb_IsPending now r \<longleftrightarrow> cb_Status r = ''pending'' \<and> \<not> cb_IsExpired now r"

definition cb_IsApproved :: "CIBAAuthRequest \<Rightarrow> bool" where
  "cb_IsApproved r \<longleftrightarrow> cb_Status r = ''approved''"

record DeviceTokenRegistrationRequest =
  reg_DeviceToken :: string
  reg_Platform :: string
  reg_DeviceName :: string
  reg_DeviceModel :: string
  reg_AppVersion :: string
  reg_OSVersion :: string

record DeviceTokenRegistrationResponse =
  regr_Success :: bool
  regr_DeviceID :: string
  regr_Message :: string

record CIBAInitiateRequest =
  ci_LoginHint :: string
  ci_BindingMessage :: string
  ci_ClientID :: string
  ci_Scopes :: "string list"

record CIBAInitiateResponse =
  cir_AuthReqID :: string
  cir_ExpiresIn :: int
  cir_Interval :: int
  cir_Message :: string
  cir_Error :: string
  cir_ErrorDescription :: string

record CIBARespondRequest =
  cr_AuthReqID :: string
  cr_Approved :: bool
  cr_BiometricVerified :: bool

record CIBARespondResponse =
  crr_Success :: bool
  crr_Message :: string

record CIBATokenResponse =
  ct_AccessToken :: string
  ct_TokenType :: string
  ct_ExpiresIn :: int
  ct_RefreshToken :: string
  ct_Scope :: string
  ct_Error :: string
  ct_ErrorDescription :: string

record DeviceSummary =
  sum_ID :: string
  sum_DeviceName :: string
  sum_Platform :: string
  sum_DeviceModel :: string
  sum_AppVersion :: string
  sum_OSVersion :: string
  sum_IsActive :: bool
  sum_LastUsed :: "int option"
  sum_CreatedAt :: int

definition cir_error :: "string \<Rightarrow> string \<Rightarrow> CIBAInitiateResponse" where
  "cir_error err desc =
     \<lparr> cir_AuthReqID = [], cir_ExpiresIn = 0, cir_Interval = 0, cir_Message = [],
       cir_Error = err, cir_ErrorDescription = desc \<rparr>"

definition ct_error :: "string \<Rightarrow> string \<Rightarrow> CIBATokenResponse" where
  "ct_error err desc =
     \<lparr> ct_AccessToken = [], ct_TokenType = [], ct_ExpiresIn = 0, ct_RefreshToken = [], ct_Scope = [],
       ct_Error = err, ct_ErrorDescription = desc \<rparr>"

record ciba_db = directory +
  device_tokens :: "DeviceToken list"
  ciba_requests :: "CIBAAuthRequest list"

section \<open>Repository\<close>

text \<open>
  \<^verbatim>\<open>ON CONFLICT (device_token) DO UPDATE\<close>: a registered push token moves to the new owner and keeps
  its id, platform, creation time and last use; otherwise the row is new and its id must be unused.
\<close>

definition upsert_device_token :: "DeviceToken \<Rightarrow> 'a ciba_db_scheme \<Rightarrow> go_error + 'a ciba_db_scheme" where
  "upsert_device_token t s =
     (if \<exists>r \<in> set (device_tokens s). tok_DeviceToken r = tok_DeviceToken t then
        Inr (s\<lparr> device_tokens := update_where (\<lambda>r. tok_DeviceToken r = tok_DeviceToken t)
          (\<lambda>r. r\<lparr> tok_UserID := tok_UserID t, tok_TenantID := tok_TenantID t,
                  tok_DeviceName := tok_DeviceName t, tok_DeviceModel := tok_DeviceModel t,
                  tok_AppVersion := tok_AppVersion t, tok_OSVersion := tok_OSVersion t,
                  tok_IsActive := True, tok_UpdatedAt := tok_UpdatedAt t \<rparr>)
          (device_tokens s) \<rparr>)
      else if \<exists>r \<in> set (device_tokens s). tok_ID r = tok_ID t then Inl DBError
      else Inr (s\<lparr> device_tokens := device_tokens s @ [t\<lparr> tok_LastUsed := None \<rparr>] \<rparr>))"

definition CreateDeviceToken ::
  "gotime \<Rightarrow> DeviceToken \<Rightarrow> 'a ciba_db_scheme conn \<Rightarrow> (go_error + unit) \<times> 'a ciba_db_scheme conn" where
  "CreateDeviceToken now t c =
     wrap_err ''failed to create device token: ''
       (exec_checked (upsert_device_token (t\<lparr> tok_CreatedAt := Unix now, tok_UpdatedAt := Unix now \<rparr>)) c)"

definition GetDeviceTokensByUserID ::
  "uuid \<Rightarrow> uuid \<Rightarrow> 'a ciba_db_scheme conn \<Rightarrow> (go_error + DeviceToken list) \<times> 'a ciba_db_scheme conn" where
  "GetDeviceTokensByUserID userID tenantID c =
     wrap_err ''failed to query device tokens: ''
       (query (\<lambda>s. sort_key (\<lambda>t. - tok_CreatedAt t)
          (filter (\<lambda>t. tok_UserID t = userID \<and> tok_TenantID t = tenantID \<and> tok_IsActive t)
             (device_tokens s))) c)"

definition UpdateDeviceTokenLastUsed ::
  "gotime \<Rightarrow> uuid \<Rightarrow> 'a ciba_db_scheme conn \<Rightarrow> (go_error + unit) \<times> 'a ciba_db_scheme conn" where
  "UpdateDeviceTokenLastUsed now deviceTokenID c =
     exec (\<lambda>s. (s\<lparr> device_tokens := update_where (\<lambda>t. tok_ID t = deviceTokenID)
                    (\<lambda>t. t\<lparr> tok_LastUsed := Some (Unix now) \<rparr>) (device_tokens s) \<rparr>, ())) c"

definition insert_ciba_request ::
  "CIBAAuthRequest \<Rightarrow> 'a ciba_db_scheme \<Rightarrow> go_error + 'a ciba_db_scheme" where
  "insert_ciba_request r s =
     (if \<exists>q \<in> set (ciba_requests s). cb_ID q = cb_ID r \<or> cb_AuthReqID q = cb_AuthReqID r
      then Inl DBError
      else Inr (s\<lparr> ciba_requests := ciba_requests s @ [r] \<rparr>))"

definition CreateCIBAAuthRequest ::
  "gotime \<Rightarrow> CIBAAuthRequest \<Rightarrow> 'a ciba_db_scheme conn \<Rightarrow> (go_error + unit) \<times> 'a ciba_db_scheme conn" where
  "CreateCIBAAuthRequest now r c =
     wrap_err ''failed to create CIBA auth request: ''
       (exec_checked (insert_ciba_request
          (r\<lparr> cb_CreatedAt := Unix now, cb_RespondedAt := None, cb_LastPolledAt := None \<rparr>)) c)"

definition GetCIBAAuthRequestByID ::
  "string \<Rightarrow> 'a ciba_db_scheme conn \<Rightarrow> (go_error + CIBAAuthRequest) \<times> 'a ciba_db_scheme conn" where
  "GetCIBAAuthRequestByID authReqID c =
     (case query_row (\<lambda>s. select_row (\<lambda>r. cb_AuthReqID r = authReqID) (ciba_requests s)) c of
        (Inl NoRows, c') \<Rightarrow> (Inl (Errorf ''CIBA request not found''), c')
      | (Inl e, c') \<Rightarrow> (Inl (Wrap ''failed to get CIBA request: '' e), c')
      | (Inr r, c') \<Rightarrow> (Inr r, c'))"

definition UpdateCIBAAuthRequestStatus ::
  "gotime \<Rightarrow> string \<Rightarrow> string \<Rightarrow> bool \<Rightarrow> 'a ciba_db_scheme conn
     \<Rightarrow> (go_error + unit) \<times> 'a ciba_db_scheme conn" where
  "UpdateCIBAAuthRequestStatus now authReqID status biometricVerified c =
     wrap_err ''failed to update CIBA request status: ''
       (exec (\<lambda>s. (s\<lparr> ciba_requests := update_where (\<lambda>r. cb_AuthReqID r = authReqID)
          (\<lambda>r. r\<lparr> cb_Status := status, cb_BiometricVerified := biometricVerified,
                  cb_RespondedAt := Some (Unix now) \<rparr>) (ciba_requests s) \<rparr>, ())) c)"

definition ciba_UpdateLastPolled ::
  "gotime \<Rightarrow> string \<Rightarrow> 'a ciba_db_scheme conn \<Rightarrow> (go_error + unit) \<times> 'a ciba_db_scheme conn" where
  "ciba_UpdateLastPolled now authReqID c =
     exec (\<lambda>s. (s\<lparr> ciba_requests := update_where (\<lambda>r. cb_AuthReqID r = authReqID)
                    (\<lambda>r. r\<lparr> cb_LastPolledAt := Some (Unix now) \<rparr>) (ciba_requests s) \<rparr>, ())) c"

definition ciba_MarkAsConsumed ::
  "string \<Rightarrow> 'a ciba_db_scheme conn \<Rightarrow> (go_error + unit) \<times> 'a ciba_db_scheme conn" where
  "ciba_MarkAsConsumed authReqID c =
     exec (\<lambda>s. (s\<lparr> ciba_requests := update_where (\<lambda>r. cb_AuthReqID r = authReqID)
                    (\<lambda>r. r\<lparr> cb_Status := ''consumed'' \<rparr>) (ciba_requests s) \<rparr>, ())) c"

definition ExpireOldRequests ::
  "gotime \<Rightarrow> 'a ciba_db_scheme conn \<Rightarrow> (go_error + int) \<times> 'a ciba_db_scheme conn" where
  "ExpireOldRequests now c =
     (let old = (\<lambda>r. cb_ExpiresAt r < Unix now \<and> cb_Status r = ''pending'')
      in wrap_err ''failed to expire old requests: ''
           (exec (\<lambda>s. (s\<lparr> ciba_requests := update_where old (\<lambda>r. r\<lparr> cb_Status := ''expired'' \<rparr>)
                            (ciba_requests s) \<rparr>, affected old (ciba_requests s))) c))"

definition DeleteExpiredRequests ::
  "gotime \<Rightarrow> gotime \<Rightarrow> 'a ciba_db_scheme conn \<Rightarrow> (go_error + int) \<times> 'a ciba_db_scheme conn" where
  "DeleteExpiredRequests now olderThan c =
     (let cutoff = Unix (now - olderThan);
          old = (\<lambda>r. cb_CreatedAt r < cutoff \<and> cb_Status r \<in> {''expired'', ''consumed'', ''denied''})
      in wrap_err ''failed to delete expired requests: ''
           (exec (\<lambda>s. (s\<lparr> ciba_requests := delete_where old (ciba_requests s) \<rparr>,
                       affected old (ciba_requests s))) c))"

definition DeactivateDeviceToken ::
  "gotime \<Rightarrow> uuid \<Rightarrow> uuid \<Rightarrow> uuid \<Rightarrow> 'a ciba_db_scheme conn
     \<Rightarrow> (go_error + unit) \<times> 'a ciba_db_scheme conn" where
  "DeactivateDeviceToken now tokenID userID tenantID c =
     (let mine = (\<lambda>t. tok_ID t = tokenID \<and> tok_UserID t = userID \<and> tok_TenantID t = tenantID)
      in case wrap_err ''failed to deactivate device token: ''
             (exec (\<lambda>s. (s\<lparr> device_tokens := update_where mine
                (\<lambda>t. t\<lparr> tok_IsActive := False, tok_UpdatedAt := Unix now \<rparr>) (device_tokens s) \<rparr>,
              affected mine (device_tokens s))) c) of
           (Inl e, c') \<Rightarrow> (Inl e, c')
         | (Inr n, c') \<Rightarrow>
             (if n = 0 then (Inl (Errorf ''device not found or unauthorized''), c') else (Inr (), c')))"

definition GetDeviceTokenByID ::
  "uuid \<Rightarrow> 'a ciba_db_scheme conn \<Rightarrow> (go_error + DeviceToken) \<times> 'a ciba_db_scheme conn" where
  "GetDeviceTokenByID tokenID c =
     (case query_row (\<lambda>s. select_row (\<lambda>t. tok_ID t = tokenID) (device_tokens s)) c of
        (Inl NoRows, c') \<Rightarrow> (Inl (Errorf ''device token not found''), c')
      | (Inl e, c') \<Rightarrow> (Inl (Wrap ''failed to get device token: '' e), c')
      | (Inr t, c') \<Rightarrow> (Inr t, c'))"

section \<open>Service\<close>

text \<open>
  \<open>ca_push\<close> is the push provider, \<open>None\<close> when it is not configured; it gets the device token, the
  request id, the message and the address, and returns whether it failed.
\<close>

record CIBAAuthService =
  ca_pollingInterval :: int
  ca_requestExpiry :: gotime
  ca_tokens :: AuthManagerTokenService
  ca_push :: "(string \<Rightarrow> string \<Rightarrow> string \<Rightarrow> string \<Rightarrow> go_error + unit) option"

definition NewCIBAAuthService ::
  "AuthManagerTokenService \<Rightarrow> (string \<Rightarrow> string \<Rightarrow> string \<Rightarrow> string \<Rightarrow> go_error + unit) option \<Rightarrow> CIBAAuthService" where
  "NewCIBAAuthService tokens push =
     \<lparr> ca_pollingInterval = 5, ca_requestExpiry = 5 * Minute, ca_tokens = tokens, ca_push = push \<rparr>"

definition generateAuthReqID :: "random \<Rightarrow> go_error + string" where
  "generateAuthReqID rnd =
     (case rnd of None \<Rightarrow> Inl (Errorf ''rand'') | Some b \<Rightarrow> Inr (Base64URL (map b [0..<32])))"

text \<open>The search goes on past a tenant whose lookup fails, whatever the error.\<close>

fun first_user ::
  "string \<Rightarrow> Tenant list \<Rightarrow> 'a directory_scheme conn
     \<Rightarrow> (go_error + ExtendedUser) \<times> 'a directory_scheme conn" where
  "first_user email [] c = (Inl (Errorf (''user not found: '' @ email)), c)"
| "first_user email (t # ts) c =
     (case GetUserByEmailAndTenant email (tn_ID t) c of
        (Inr u, c') \<Rightarrow> (Inr u, c')
      | (Inl _, c') \<Rightarrow> first_user email ts c')"

definition lookupUserByEmail ::
  "string \<Rightarrow> 'a directory_scheme conn \<Rightarrow> (go_error + ExtendedUser) \<times> 'a directory_scheme conn" where
  "lookupUserByEmail email c =
     (case GetAllTenants c of
        (Inl e, c') \<Rightarrow> (Inl (Wrap ''failed to get tenants: '' e), c')
      | (Inr ts, c') \<Rightarrow> first_user email ts c')"

text \<open>Sending the push: its failure is only logged, its success stamps the device.\<close>

definition ciba_send_push ::
  "CIBAAuthService \<Rightarrow> gotime \<Rightarrow> DeviceToken \<Rightarrow> string \<Rightarrow> string \<Rightarrow> string
     \<Rightarrow> 'a ciba_db_scheme conn \<Rightarrow> 'a ciba_db_scheme conn" where
  "ciba_send_push svc now device authReqID bindingMsg email c =
     (case ca_push svc of
        None \<Rightarrow> c
      | Some push \<Rightarrow>
          (case push (tok_DeviceToken device) authReqID bindingMsg email of
             Inl _ \<Rightarrow> c
           | Inr _ \<Rightarrow> snd (UpdateDeviceTokenLastUsed now (tok_ID device) c)))"

definition ciba_new_request ::
  "CIBAAuthService \<Rightarrow> (string \<Rightarrow> uuid option) \<Rightarrow> gotime \<Rightarrow> uuid \<Rightarrow> string \<Rightarrow> CIBAInitiateRequest
     \<Rightarrow> ExtendedUser \<Rightarrow> DeviceToken \<Rightarrow> CIBAAuthRequest" where
  "ciba_new_request svc parse now newID authReqID req user device =
     (let clientID = (if ci_ClientID req \<noteq> [] then parse (ci_ClientID req) else None);
          scopes = (if ci_Scopes req = [] then [''openid'', ''email'', ''profile''] else ci_Scopes req)
      in \<lparr> cb_ID = newID, cb_AuthReqID = authReqID, cb_UserID = us_ID user,
           cb_TenantID = us_TenantID user, cb_UserEmail = us_Email user,
           cb_ClientID = clientID, cb_DeviceTokenID = tok_ID device,
           cb_BindingMessage = ci_BindingMessage req, cb_Scopes = scopes,
           cb_Status = ''pending'', cb_BiometricVerified = False,
           cb_ExpiresAt = Unix (now + ca_requestExpiry svc), cb_CreatedAt = 0,
           cb_RespondedAt = None, cb_LastPolledAt = None \<rparr>)"

definition InitiateCIBAAuth ::
  "CIBAAuthService \<Rightarrow> (string \<Rightarrow> uuid option) \<Rightarrow> gotime \<Rightarrow> uuid \<Rightarrow> random \<Rightarrow> CIBAInitiateRequest
     \<Rightarrow> 'a ciba_db_scheme conn \<Rightarrow> (go_error + CIBAInitiateResponse) \<times> 'a ciba_db_scheme conn" where
  "InitiateCIBAAuth svc parse now newID rnd req c =
     (case lookupUserByEmail (ci_LoginHint req) c of
        (Inl _, c1) \<Rightarrow>
          (Inr (cir_error ''user_not_found'' (''User not found: '' @ ci_LoginHint req)), c1)
      | (Inr user, c1) \<Rightarrow>
     (case GetDeviceTokensByUserID (us_ID user) (us_TenantID user) c1 of
        (Inl _, c2) \<Rightarrow>
          (Inr (cir_error ''no_device_registered'' ''User has no registered push notification devices''), c2)
      | (Inr [], c2) \<Rightarrow>
          (Inr (cir_error ''no_device_registered'' ''User has no registered push notification devices''), c2)
      | (Inr (device # _), c2) \<Rightarrow>
     (case generateAuthReqID rnd of
        Inl e \<Rightarrow> (Inl (Wrap ''failed to generate auth_req_id: '' e), c2)
      | Inr authReqID \<Rightarrow>
          (let r = ciba_new_request svc parse now newID authReqID req user device
           in case CreateCIBAAuthRequest now r c2 of
                (Inl e, c3) \<Rightarrow> (Inl (Wrap ''failed to create CIBA request: '' e), c3)
              | (Inr _, c3) \<Rightarrow>
                  (let bindingMsg = (if ci_BindingMessage req = [] then ''Authentication request''
                                     else ci_BindingMessage req);
                       c4 = ciba_send_push svc now device authReqID bindingMsg (us_Email user) c3
                   in (Inr \<lparr> cir_AuthReqID = authReqID, cir_ExpiresIn = ca_requestExpiry svc div Second,
                             cir_Interval = ca_pollingInterval svc,
                             cir_Message = ''Push notification sent to user's device'',
                             cir_Error = [], cir_ErrorDescription = [] \<rparr>, c4))))))"

text \<open>What a response does once the request has been read.\<close>

definition ciba_respond_found ::
  "gotime \<Rightarrow> CIBARespondRequest \<Rightarrow> CIBAAuthRequest \<Rightarrow> 'a ciba_db_scheme conn
     \<Rightarrow> (go_error + CIBARespondResponse) \<times> 'a ciba_db_scheme conn" where
  "ciba_respond_found now req authReq c =
     (if cb_IsExpired now authReq then
        (let (_, c1) = UpdateCIBAAuthRequestStatus now (cr_AuthReqID req) ''expired'' False c
         in (Inl (Errorf ''request expired''), c1))
      else if cb_Status authReq \<noteq> ''pending'' then (Inl (Errorf ''request already processed''), c)
      else
        (let status = (if cr_Approved req then ''approved'' else ''denied'');
             message = (if cr_Approved req then ''Authentication approved'' else ''Authentication denied'')
         in case UpdateCIBAAuthRequestStatus now (cr_AuthReqID req) status (cr_BiometricVerified req) c of
              (Inl e, c1) \<Rightarrow> (Inl (Wrap ''failed to update status: '' e), c1)
            | (Inr _, c1) \<Rightarrow> (Inr \<lparr> crr_Success = True, crr_Message = message \<rparr>, c1)))"

definition RespondToCIBA ::
  "gotime \<Rightarrow> CIBARespondRequest \<Rightarrow> 'a ciba_db_scheme conn
     \<Rightarrow> (go_error + CIBARespondResponse) \<times> 'a ciba_db_scheme conn" where
  "RespondToCIBA now req c =
     (case GetCIBAAuthRequestByID (cr_AuthReqID req) c of
        (Inl _, c1) \<Rightarrow> (Inl (Errorf ''invalid auth_req_id''), c1)
      | (Inr authReq, c1) \<Rightarrow> ciba_respond_found now req authReq c1)"

definition ciba_generateJWTToken ::
  "CIBAAuthService \<Rightarrow> signer \<Rightarrow> gotime \<Rightarrow> ExtendedUser \<Rightarrow> Tenant \<Rightarrow> string list \<Rightarrow> go_error + string" where
  "ciba_generateJWTToken svc sign now user tenant scopes =
     GenerateCIBAToken (ca_tokens svc) sign now (us_ID user) (tn_ID tenant) (us_Email user) scopes
       (365 * 24 * Hour)"

text \<open>The branch of an approved request: the token is made at the poll.\<close>

definition ciba_issue ::
  "CIBAAuthService \<Rightarrow> signer \<Rightarrow> gotime \<Rightarrow> string \<Rightarrow> CIBAAuthRequest \<Rightarrow> 'a ciba_db_scheme conn
     \<Rightarrow> CIBATokenResponse \<times> 'a ciba_db_scheme conn" where
  "ciba_issue svc sign now authReqID authReq c =
     (case GetUserByID (cb_UserID authReq) c of
        (Inl _, c1) \<Rightarrow> (ct_error ''server_error'' ''User not found'', c1)
      | (Inr user, c1) \<Rightarrow>
     (case GetTenantByID (cb_TenantID authReq) c1 of
        (Inl _, c2) \<Rightarrow> (ct_error ''server_error'' ''Tenant not found'', c2)
      | (Inr tenant, c2) \<Rightarrow>
     (case ciba_generateJWTToken svc sign now user tenant (cb_Scopes authReq) of
        Inl _ \<Rightarrow> (ct_error ''server_error'' ''Failed to generate token'', c2)
      | Inr token \<Rightarrow>
          (let (_, c3) = ciba_MarkAsConsumed authReqID c2
           in (\<lparr> ct_AccessToken = token, ct_TokenType = ''Bearer'', ct_ExpiresIn = 365 * 24 * 3600,
                 ct_RefreshToken = [], ct_Scope = Join (cb_Scopes authReq) '' '', ct_Error = [],
                 ct_ErrorDescription = [] \<rparr>, c3)))))"

definition ciba_poll_found ::
  "CIBAAuthService \<Rightarrow> signer \<Rightarrow> gotime \<Rightarrow> string \<Rightarrow> CIBAAuthRequest \<Rightarrow> 'a ciba_db_scheme conn
     \<Rightarrow> CIBATokenResponse \<times> 'a ciba_db_scheme conn" where
  "ciba_poll_found svc sign now authReqID authReq c =
     (let (_, c1) = ciba_UpdateLastPolled now authReqID c
      in if cb_IsExpired now authReq then
           (let (_, c2) = UpdateCIBAAuthRequestStatus now authReqID ''expired'' False c1
            in (ct_error ''expired_token'' ''Request expired'', c2))
         else if cb_Status authReq = ''pending'' then
           (ct_error ''authorization_pending'' ''User has not responded yet'', c1)
         else if cb_Status authReq = ''denied'' then
           (ct_error ''access_denied'' ''User denied the authentication request'', c1)
         else if cb_Status authReq = ''approved'' then ciba_issue svc sign now authReqID authReq c1
         else if cb_Status authReq = ''consumed'' then
           (ct_error ''expired_token'' ''Request already used'', c1)
         else if cb_Status authReq = ''expired'' then
           (ct_error ''expired_token'' ''Request expired'', c1)
         else (ct_error ''server_error'' ''Unknown status'', c1))"

definition ciba_PollForToken ::
  "CIBAAuthService \<Rightarrow> signer \<Rightarrow> gotime \<Rightarrow> string \<Rightarrow> 'a ciba_db_scheme conn
     \<Rightarrow> CIBATokenResponse \<times> 'a ciba_db_scheme conn" where
  "ciba_PollForToken svc sign now authReqID c =
     (case GetCIBAAuthRequestByID authReqID c of
        (Inl _, c1) \<Rightarrow> (ct_error ''expired_token'' ''Request not found or expired'', c1)
      | (Inr authReq, c1) \<Rightarrow> ciba_poll_found svc sign now authReqID authReq c1)"

definition RegisterDevice ::
  "gotime \<Rightarrow> uuid \<Rightarrow> uuid \<Rightarrow> uuid \<Rightarrow> DeviceTokenRegistrationRequest \<Rightarrow> 'a ciba_db_scheme conn
     \<Rightarrow> (go_error + DeviceTokenRegistrationResponse) \<times> 'a ciba_db_scheme conn" where
  "RegisterDevice now newID userID tenantID req c =
     (let t = \<lparr> tok_ID = newID, tok_UserID = userID, tok_TenantID = tenantID,
                tok_DeviceToken = reg_DeviceToken req, tok_Platform = reg_Platform req,
                tok_DeviceName = reg_DeviceName req, tok_DeviceModel = reg_DeviceModel req,
                tok_AppVersion = reg_AppVersion req, tok_OSVersion = reg_OSVersion req,
                tok_IsActive = True, tok_LastUsed = None, tok_CreatedAt = 0, tok_UpdatedAt = 0 \<rparr>
      in case CreateDeviceToken now t c of
           (Inl e, c1) \<Rightarrow> (Inl (Wrap ''failed to register device: '' e), c1)
         | (Inr _, c1) \<Rightarrow>
             (Inr \<lparr> regr_Success = True, regr_DeviceID = newID,
                    regr_Message = ''Device registered successfully for push notifications'' \<rparr>, c1))"

definition ciba_CleanupExpiredRequests ::
  "gotime \<Rightarrow> 'a ciba_db_scheme conn \<Rightarrow> (int \<times> go_error option) \<times> 'a ciba_db_scheme conn" where
  "ciba_CleanupExpiredRequests now c =
     (case ExpireOldRequests now c of
        (Inl e, c1) \<Rightarrow> ((0, Some (Wrap ''failed to expire old requests: '' e)), c1)
      | (Inr expired, c1) \<Rightarrow>
          (case DeleteExpiredRequests now (24 * Hour) c1 of
             (Inl e, c2) \<Rightarrow> ((expired, Some (Wrap ''failed to delete expired requests: '' e)), c2)
           | (Inr deleted, c2) \<Rightarrow> ((expired + deleted, None), c2)))"

definition GetUserDevices ::
  "uuid \<Rightarrow> uuid \<Rightarrow> 'a ciba_db_scheme conn \<Rightarrow> (go_error + DeviceSummary list) \<times> 'a ciba_db_scheme conn" where
  "GetUserDevices userID tenantID c =
     (case GetDeviceTokensByUserID userID tenantID c of
        (Inl e, c1) \<Rightarrow> (Inl (Wrap ''failed to retrieve devices: '' e), c1)
      | (Inr devices, c1) \<Rightarrow>
          (Inr (map (\<lambda>t. \<lparr> sum_ID = tok_ID t, sum_DeviceName = tok_DeviceName t,
                           sum_Platform = tok_Platform t, sum_DeviceModel = tok_DeviceModel t,
                           sum_AppVersion = tok_AppVersion t, sum_OSVersion = tok_OSVersion t,
                           sum_IsActive = tok_IsActive t, sum_LastUsed = tok_LastUsed t,
                           sum_CreatedAt = tok_CreatedAt t \<rparr>) devices), c1))"

definition DeleteDevice ::
  "gotime \<Rightarrow> uuid \<Rightarrow> uuid \<Rightarrow> uuid \<Rightarrow> 'a ciba_db_scheme conn
     \<Rightarrow> (go_error + unit) \<times> 'a ciba_db_scheme conn" where
  "DeleteDevice now deviceID userID tenantID c =
     (case GetDeviceTokenByID deviceID c of
        (Inl e, c1) \<Rightarrow> (Inl (Wrap ''device not found: '' e), c1)
      | (Inr device, c1) \<Rightarrow>
          if tok_UserID device \<noteq> userID \<or> tok_TenantID device \<noteq> tenantID then
            (Inl (Errorf ''device not found or unauthorized''), c1)
          else wrap_err ''failed to deactivate device: ''
                 (DeactivateDeviceToken now deviceID userID tenantID c1))"

section \<open>HTTP handlers\<close>

datatype ciba_body =
    BError string "go_error option"
  | BInitiate CIBAInitiateResponse
  | BRespond CIBARespondResponse
  | BToken CIBATokenResponse

definition http_InitiateCIBAAuth ::
  "CIBAAuthService \<Rightarrow> (string \<Rightarrow> uuid option) \<Rightarrow> gotime \<Rightarrow> uuid \<Rightarrow> random \<Rightarrow> gin_context
     \<Rightarrow> go_error + CIBAInitiateRequest \<Rightarrow> 'a ciba_db_scheme conn \<Rightarrow> ciba_body http_reply \<times> 'a ciba_db_scheme conn" where
  "http_InitiateCIBAAuth svc parse now newID rnd ctx body c =
     (case body of
        Inl e \<Rightarrow> (\<lparr> http_status = 400, http_body = BError ''Invalid request body'' (Some e), http_audit = [] \<rparr>, c)
      | Inr req \<Rightarrow>
          (case InitiateCIBAAuth svc parse now newID rnd req c of
             (Inl e, c1) \<Rightarrow>
               (\<lparr> http_status = 500, http_body = BError ''Failed to initiate CIBA'' (Some e), http_audit = [] \<rparr>, c1)
           | (Inr resp, c1) \<Rightarrow>
               if cir_Error resp \<noteq> [] then
                 (\<lparr> http_status = (if cir_Error resp = ''user_not_found'' then 400 else 200),
                    http_body = BInitiate resp, http_audit = [] \<rparr>, c1)
               else
                 (\<lparr> http_status = 200, http_body = BInitiate resp,
                    http_audit = [Audit ctx ''ciba_auth'' (cir_AuthReqID resp) ''initiate''] \<rparr>, c1)))"

definition http_RespondToCIBA ::
  "gotime \<Rightarrow> gin_context \<Rightarrow> go_error + CIBARespondRequest \<Rightarrow> 'a ciba_db_scheme conn
     \<Rightarrow> ciba_body http_reply \<times> 'a ciba_db_scheme conn" where
  "http_RespondToCIBA now ctx body c =
     (case body of
        Inl e \<Rightarrow> (\<lparr> http_status = 400, http_body = BError ''Invalid request body'' (Some e), http_audit = [] \<rparr>, c)
      | Inr req \<Rightarrow>
          (case RespondToCIBA now req c of
             (Inl e, c1) \<Rightarrow>
               (\<lparr> http_status = 400, http_body = BError ''Failed to respond'' (Some e), http_audit = [] \<rparr>, c1)
           | (Inr resp, c1) \<Rightarrow>
               (\<lparr> http_status = 200, http_body = BRespond resp,
                  http_audit = [Audit ctx ''ciba_auth'' (cr_AuthReqID req)
                                  (if cr_Approved req then ''approve'' else ''deny'')] \<rparr>, c1)))"

definition http_PollCIBAToken ::
  "CIBAAuthService \<Rightarrow> signer \<Rightarrow> gotime \<Rightarrow> go_error + string \<Rightarrow> 'a ciba_db_scheme conn
     \<Rightarrow> ciba_body http_reply \<times> 'a ciba_db_scheme conn" where
  "http_PollCIBAToken svc sign now body c =
     (case body of
        Inl e \<Rightarrow> (\<lparr> http_status = 400, http_body = BError ''Invalid request body'' (Some e), http_audit = [] \<rparr>, c)
      | Inr authReqID \<Rightarrow>
          (let (resp, c1) = ciba_PollForToken svc sign now authReqID c
           in (\<lparr> http_status =
                   (if ct_Error resp \<noteq> [] then
                      (if ct_Error resp = ''access_denied'' then 403
                       else if ct_Error resp = ''expired_token'' then 400 else 200)
                    else 200),
                 http_body = BToken resp, http_audit = [] \<rparr>, c1)))"

section \<open>The service as a state machine\<close>

datatype ciba_op =
    CRegister gotime uuid uuid uuid DeviceTokenRegistrationRequest
  | CInitiate gotime uuid random CIBAInitiateRequest
  | CRespond gotime CIBARespondRequest
  | CPoll gotime string
  | CCleanup gotime
  | CDevices uuid uuid
  | CDelete gotime uuid uuid uuid

datatype ciba_reply =
    SRegister "go_error + DeviceTokenRegistrationResponse"
  | SInitiate "go_error + CIBAInitiateResponse"
  | SRespond "go_error + CIBARespondResponse"
  | SPoll CIBATokenResponse
  | SCleanup "int \<times> go_error option"
  | SDevices "go_error + DeviceSummary list"
  | SDelete "go_error + unit"

fun ciba_handle ::
  "CIBAAuthService \<Rightarrow> signer \<Rightarrow> (string \<Rightarrow> uuid option) \<Rightarrow> ciba_op \<Rightarrow> ciba_db conn
     \<Rightarrow> ciba_db conn \<times> ciba_reply" where
  "ciba_handle svc sign parse (CRegister now i u t req) c = reply SRegister (RegisterDevice now i u t req c)"
| "ciba_handle svc sign parse (CInitiate now i rnd req) c =
     reply SInitiate (InitiateCIBAAuth svc parse now i rnd req c)"
| "ciba_handle svc sign parse (CRespond now req) c = reply SRespond (RespondToCIBA now req c)"
| "ciba_handle svc sign parse (CPoll now k) c = reply SPoll (ciba_PollForToken svc sign now k c)"
| "ciba_handle svc sign parse (CCleanup now) c = reply SCleanup (ciba_CleanupExpiredRequests now c)"
| "ciba_handle svc sign parse (CDevices u t) c = reply SDevices (GetUserDevices u t c)"
| "ciba_handle svc sign parse (CDelete now d u t) c = reply SDelete (DeleteDevice now d u t c)"

definition ciba_step ::
  "CIBAAuthService \<Rightarrow> signer \<Rightarrow> (string \<Rightarrow> uuid option) \<Rightarrow> ciba_op \<Rightarrow> ciba_db
     \<Rightarrow> ciba_db \<times> ciba_reply" where
  "ciba_step svc sign parse op s =
     (let (c, out) = ciba_handle svc sign parse op (s, []) in (fst c, out))"

section \<open>Statements without faults\<close>

named_theorems ciba_sql

lemma GetCIBAAuthRequestByID_ok [ciba_sql]:
  "GetCIBAAuthRequestByID k (s, []) =
     ((case List.find (\<lambda>r. cb_AuthReqID r = k) (ciba_requests s) of
         None \<Rightarrow> Inl (Errorf ''CIBA request not found'') | Some r \<Rightarrow> Inr r), s, [])"
  by (simp add: GetCIBAAuthRequestByID_def sql_simps select_row_def split: option.splits)

lemma GetDeviceTokensByUserID_ok [ciba_sql]:
  "GetDeviceTokensByUserID u t (s, []) =
     (Inr (sort_key (\<lambda>t. - tok_CreatedAt t)
        (filter (\<lambda>d. tok_UserID d = u \<and> tok_TenantID d = t \<and> tok_IsActive d) (device_tokens s))), s, [])"
  by (simp add: GetDeviceTokensByUserID_def wrap_err_def sql_simps)

lemma GetDeviceTokenByID_ok [ciba_sql]:
  "GetDeviceTokenByID k (s, []) =
     ((case List.find (\<lambda>r. tok_ID r = k) (device_tokens s) of
         None \<Rightarrow> Inl (Errorf ''device token not found'') | Some r \<Rightarrow> Inr r), s, [])"
  by (simp add: GetDeviceTokenByID_def sql_simps select_row_def split: option.splits)

definition answered_row :: "gotime \<Rightarrow> string \<Rightarrow> bool \<Rightarrow> CIBAAuthRequest \<Rightarrow> CIBAAuthRequest" where
  "answered_row now status bio r =
     r\<lparr> cb_Status := status, cb_BiometricVerified := bio, cb_RespondedAt := Some (Unix now) \<rparr>"

lemma UpdateCIBAAuthRequestStatus_ok [ciba_sql]:
  "UpdateCIBAAuthRequestStatus now k status bio (s, []) =
     (Inr (), s\<lparr> ciba_requests := update_where (\<lambda>r. cb_AuthReqID r = k) (answered_row now status bio)
        (ciba_requests s) \<rparr>, [])"
  by (simp add: UpdateCIBAAuthRequestStatus_def wrap_err_def answered_row_def update_where_def)

lemma answered_row_key [simp]: "cb_AuthReqID (answered_row now st bio r) = cb_AuthReqID r"
  by (simp add: answered_row_def)

lemma CreateCIBAAuthRequest_ok [ciba_sql]:
  "CreateCIBAAuthRequest now r (s, []) =
     (case insert_ciba_request (r\<lparr> cb_CreatedAt := Unix now, cb_RespondedAt := None, cb_LastPolledAt := None \<rparr>) s of
        Inl e \<Rightarrow> (Inl (Wrap ''failed to create CIBA auth request: '' e), s, [])
      | Inr s' \<Rightarrow> (Inr (), s', []))"
  by (simp add: CreateCIBAAuthRequest_def wrap_err_def sql_simps split: sum.splits)

lemma first_user_ok: "\<exists>r. first_user email ts (s, []) = (r, s, [])"
  by (induction ts) (auto simp: sql_simps split: option.splits)

lemma lookupUserByEmail_ok: "\<exists>r. lookupUserByEmail email (s, []) = (r, s, [])"
  using first_user_ok by (simp add: lookupUserByEmail_def sql_simps)

lemma ciba_send_push_rows:
  "ciba_requests (fst (ciba_send_push svc now d k m e (s, []))) = ciba_requests s \<and>
   snd (ciba_send_push svc now d k m e (s, [])) = []"
  by (simp add: ciba_send_push_def UpdateDeviceTokenLastUsed_def split: option.splits sum.splits)

section \<open>The effect of an operation on the requests\<close>

abbreviation ciba_phase :: "CIBAAuthRequest \<Rightarrow> phase" where
  "ciba_phase r \<equiv> status_phase ''approved'' (cb_Status r)"

definition ciba_statuses :: "string set" where
  "ciba_statuses = {''pending'', ''approved'', ''denied'', ''expired'', ''consumed''}"

text \<open>
  How an operation may change a request: who and what it is for and its expiry stay, the status moves
  along the abstract machine, and a request becomes approved only in a way that satisfies \<open>B\<close>.
\<close>

definition ciba_row_step :: "(CIBAAuthRequest \<Rightarrow> bool) \<Rightarrow> CIBAAuthRequest \<Rightarrow> CIBAAuthRequest \<Rightarrow> bool" where
  "ciba_row_step B r r' \<longleftrightarrow>
     cb_ID r' = cb_ID r \<and> cb_UserID r' = cb_UserID r \<and> cb_TenantID r' = cb_TenantID r \<and>
     cb_UserEmail r' = cb_UserEmail r \<and> cb_Scopes r' = cb_Scopes r \<and>
     cb_ExpiresAt r' = cb_ExpiresAt r \<and> cb_CreatedAt r' = cb_CreatedAt r \<and>
     (cb_Status r' = cb_Status r \<or>
      cb_Status r' \<in> ciba_statuses \<and> phase_step (ciba_phase r) (ciba_phase r')) \<and>
     (cb_Status r' = ''approved'' \<longrightarrow> cb_Status r = ''approved'' \<or> B r')"

lemma ciba_row_step_refl [simp]: "ciba_row_step B r r"
  by (simp add: ciba_row_step_def)

lemma ciba_row_step_expired:
  "ciba_row_step B r (answered_row now ''expired'' bio r)"
  "ciba_row_step B r (r\<lparr> cb_Status := ''expired'' \<rparr>)"
  by (simp_all add: ciba_row_step_def ciba_statuses_def status_phase_def answered_row_def expire)

definition ciba_inv :: "'a ciba_db_scheme \<Rightarrow> bool" where
  "ciba_inv s \<longleftrightarrow>
     distinct (map cb_AuthReqID (ciba_requests s)) \<and>
     (\<forall>r \<in> set (ciba_requests s). cb_Status r \<in> ciba_statuses)"

lemma ciba_inv_unique:
  assumes "ciba_inv s" and "List.find (\<lambda>r. cb_AuthReqID r = k) (ciba_requests s) = Some d"
    and "r \<in> set (ciba_requests s)"
  shows "cb_AuthReqID r = k \<longleftrightarrow> r = d"
proof -
  have "d \<in> set (ciba_requests s)" and "cb_AuthReqID d = k"
    using assms(2) by (auto simp: find_Some_iff)
  moreover have "inj_on cb_AuthReqID (set (ciba_requests s))"
    using assms(1) by (simp add: ciba_inv_def distinct_map)
  ultimately show ?thesis using assms(3) by (auto dest: inj_onD)
qed

text \<open>The operation that approved a request, in time.\<close>

definition ciba_granted_by :: "ciba_op \<Rightarrow> CIBAAuthRequest \<Rightarrow> bool" where
  "ciba_granted_by op r \<longleftrightarrow>
     (\<exists>now req. op = CRespond now req \<and> cr_AuthReqID req = cb_AuthReqID r \<and> cr_Approved req \<and>
        \<not> cb_IsExpired now r)"

lemma respond_rows:
  assumes inv: "ciba_inv s"
  shows "rows_step cb_AuthReqID (ciba_row_step (ciba_granted_by (CRespond now req))) (ciba_requests s)
     (ciba_requests (fst (snd (RespondToCIBA now req (s, []))))) []"
proof (cases "List.find (\<lambda>r. cb_AuthReqID r = cr_AuthReqID req) (ciba_requests s)")
  case None
  then show ?thesis
    by (simp add: RespondToCIBA_def ciba_sql rows_step_refl)
next
  case (Some d)
  have "ciba_row_step (ciba_granted_by (CRespond now req)) r (answered_row now st bio r)"
    if "r \<in> set (ciba_requests s)" "cb_AuthReqID r = cr_AuthReqID req" "cb_Status d = ''pending''"
      "\<not> cb_IsExpired now d" "st = (if cr_Approved req then ''approved'' else ''denied'')" for r st bio
    using that ciba_inv_unique [OF inv Some that(1)]
    by (auto simp: ciba_row_step_def answered_row_def ciba_statuses_def status_phase_def
        ciba_granted_by_def cb_IsExpired_def)
  with Some show ?thesis
    by (auto simp: RespondToCIBA_def ciba_respond_found_def ciba_sql Let_def update_where_def
        ciba_row_step_expired intro!: rows_step_map rows_step_refl)
qed

text \<open>
  The specification of a poll without faults: the reply is determined by the stored request, and by
  the directory and the signer when the request is approved; every poll stamps the request.
\<close>

definition ciba_signed ::
  "CIBAAuthService \<Rightarrow> signer \<Rightarrow> gotime \<Rightarrow> 'a ciba_db_scheme \<Rightarrow> CIBAAuthRequest \<Rightarrow> string + string" where
  "ciba_signed svc sign now s r =
     (case List.find (\<lambda>u. us_ID u = cb_UserID r) (users s) of
        None \<Rightarrow> Inl ''User not found''
      | Some user \<Rightarrow>
          (case List.find (\<lambda>t. tn_TenantID t = cb_TenantID r) (tenants s) of
             None \<Rightarrow> Inl ''Tenant not found''
           | Some tenant \<Rightarrow>
               (case ciba_generateJWTToken svc sign now user tenant (cb_Scopes r) of
                  Inl _ \<Rightarrow> Inl ''Failed to generate token'' | Inr tok \<Rightarrow> Inr tok)))"

definition ciba_poll_reply ::
  "CIBAAuthService \<Rightarrow> signer \<Rightarrow> gotime \<Rightarrow> 'a ciba_db_scheme \<Rightarrow> CIBAAuthRequest option \<Rightarrow> CIBATokenResponse" where
  "ciba_poll_reply svc sign now s row =
     (case row of
        None \<Rightarrow> ct_error ''expired_token'' ''Request not found or expired''
      | Some r \<Rightarrow>
          if cb_IsExpired now r then ct_error ''expired_token'' ''Request expired''
          else if cb_Status r = ''pending'' then ct_error ''authorization_pending'' ''User has not responded yet''
          else if cb_Status r = ''denied'' then ct_error ''access_denied'' ''User denied the authentication request''
          else if cb_Status r = ''approved'' then
            (case ciba_signed svc sign now s r of
               Inl why \<Rightarrow> ct_error ''server_error'' why
             | Inr tok \<Rightarrow>
                 \<lparr> ct_AccessToken = tok, ct_TokenType = ''Bearer'', ct_ExpiresIn = 365 * 24 * 3600,
                   ct_RefreshToken = [], ct_Scope = Join (cb_Scopes r) '' '', ct_Error = [],
                   ct_ErrorDescription = [] \<rparr>)
          else if cb_Status r = ''consumed'' then ct_error ''expired_token'' ''Request already used''
          else if cb_Status r = ''expired'' then ct_error ''expired_token'' ''Request expired''
          else ct_error ''server_error'' ''Unknown status'')"

definition ciba_poll_row ::
  "CIBAAuthService \<Rightarrow> signer \<Rightarrow> gotime \<Rightarrow> 'a ciba_db_scheme \<Rightarrow> CIBAAuthRequest \<Rightarrow> CIBAAuthRequest" where
  "ciba_poll_row svc sign now s r =
     (let r' = r\<lparr> cb_LastPolledAt := Some (Unix now) \<rparr>
      in if cb_IsExpired now r then answered_row now ''expired'' False r'
         else if cb_Status r = ''approved'' \<and> \<not> isl (ciba_signed svc sign now s r) then
           r'\<lparr> cb_Status := ''consumed'' \<rparr>
         else r')"

lemma ciba_issue_ok:
  "ciba_issue svc sign now k r (s, []) =
     (case ciba_signed svc sign now s r of
        Inl why \<Rightarrow> (ct_error ''server_error'' why, s, [])
      | Inr tok \<Rightarrow>
          (\<lparr> ct_AccessToken = tok, ct_TokenType = ''Bearer'', ct_ExpiresIn = 365 * 24 * 3600,
             ct_RefreshToken = [], ct_Scope = Join (cb_Scopes r) '' '', ct_Error = [],
             ct_ErrorDescription = [] \<rparr>,
           s\<lparr> ciba_requests := update_where (\<lambda>r. cb_AuthReqID r = k) (\<lambda>r. r\<lparr> cb_Status := ''consumed'' \<rparr>)
                (ciba_requests s) \<rparr>, []))"
  by (simp add: ciba_issue_def ciba_signed_def sql_simps ciba_MarkAsConsumed_def split: option.split sum.split)

lemma ciba_PollForToken_run:
  assumes inv: "ciba_inv s"
  shows "ciba_PollForToken svc sign now k (s, []) =
    (ciba_poll_reply svc sign now s (List.find (\<lambda>r. cb_AuthReqID r = k) (ciba_requests s)),
     s\<lparr> ciba_requests := update_where (\<lambda>r. cb_AuthReqID r = k) (ciba_poll_row svc sign now s)
          (ciba_requests s) \<rparr>, [])"
proof (cases "List.find (\<lambda>r. cb_AuthReqID r = k) (ciba_requests s)")
  case None
  then have "update_where (\<lambda>r. cb_AuthReqID r = k) (ciba_poll_row svc sign now s) (ciba_requests s) = ciba_requests s"
    by (intro update_where_none) (auto simp: find_None_iff)
  with None show ?thesis
    by (simp add: ciba_PollForToken_def ciba_sql ciba_poll_reply_def)
next
  case (Some d)
  have rows: "update_where (\<lambda>r. cb_AuthReqID r = k) (ciba_poll_row svc sign now s) (ciba_requests s) =
      update_where (\<lambda>r. cb_AuthReqID r = k) f (ciba_requests s)" if "f d = ciba_poll_row svc sign now s d" for f
    using ciba_inv_unique [OF inv Some] that by (intro update_where_fun_cong) auto
  let ?p = "\<lambda>r. r\<lparr> cb_LastPolledAt := Some (Unix now) \<rparr>"
  have twice: "update_where (\<lambda>r. cb_AuthReqID r = k) g (update_where (\<lambda>r. cb_AuthReqID r = k) ?p t) =
      update_where (\<lambda>r. cb_AuthReqID r = k) (\<lambda>r. g (?p r)) t" for g t
    by (simp add: update_where_def)
  have signed: "ciba_signed svc sign now (s\<lparr> ciba_requests := x \<rparr>) d = ciba_signed svc sign now s d" for x
    by (simp add: ciba_signed_def cong: option.case_cong)
  note go = ciba_PollForToken_def ciba_poll_found_def ciba_sql ciba_UpdateLastPolled_def ciba_issue_ok
    ciba_poll_reply_def signed twice
  note row = ciba_poll_row_def Let_def
  consider "cb_IsExpired now d" | tok where "\<not> cb_IsExpired now d" "cb_Status d = ''approved''"
      "ciba_signed svc sign now s d = Inr tok"
    | "\<not> cb_IsExpired now d" "cb_Status d = ''approved'' \<longrightarrow> isl (ciba_signed svc sign now s d)"
    by (cases "ciba_signed svc sign now s d") auto
  then show ?thesis
  proof cases
    case 1
    then show ?thesis using Some rows [of "\<lambda>r. answered_row now ''expired'' False (?p r)"] by (simp add: go row)
  next
    case 2
    then show ?thesis using Some rows [of "\<lambda>r. (?p r)\<lparr> cb_Status := ''consumed'' \<rparr>"] by (simp add: go row)
  next
    case 3
    then have "update_where (\<lambda>r. cb_AuthReqID r = k) (ciba_poll_row svc sign now s) (ciba_requests s) =
        update_where (\<lambda>r. cb_AuthReqID r = k) ?p (ciba_requests s)" by (intro rows) (auto simp: row isl_def)
    with 3 Some show ?thesis by (auto simp: go isl_def)
  qed
qed

lemma ciba_poll_row_step:
  "cb_AuthReqID (ciba_poll_row svc sign now s r) = cb_AuthReqID r \<and>
   ciba_row_step B r (ciba_poll_row svc sign now s r)"
  by (auto simp: ciba_poll_row_def Let_def ciba_row_step_def answered_row_def ciba_statuses_def
      status_phase_def expire)

lemma ciba_poll_rows:
  "ciba_inv s \<Longrightarrow> rows_step cb_AuthReqID (ciba_row_step B) (ciba_requests s)
     (ciba_requests (fst (snd (ciba_PollForToken svc sign now k (s, []))))) []"
  by (simp add: ciba_PollForToken_run update_where_def rows_step_map ciba_poll_row_step)

lemma ciba_cleanup_rows:
  "rows_step cb_AuthReqID (ciba_row_step B) (ciba_requests s)
     (ciba_requests (fst (snd (ciba_CleanupExpiredRequests now (s, []))))) []"
  by (auto simp: ciba_CleanupExpiredRequests_def ExpireOldRequests_def DeleteExpiredRequests_def
      wrap_err_def update_where_def Let_def ciba_row_step_expired intro!: rows_step_map_delete)

text \<open>The device operations do not touch the requests.\<close>

lemma ciba_device_rows:
  "ciba_requests (fst (snd (RegisterDevice now i u t req (s, [])))) = ciba_requests s"
  "ciba_requests (fst (snd (GetUserDevices u t (s, [])))) = ciba_requests s"
  "ciba_requests (fst (snd (DeleteDevice now d u t (s, [])))) = ciba_requests s"
    apply (simp add: RegisterDevice_def CreateDeviceToken_def wrap_err_def sql_simps upsert_device_token_def Let_def)
   apply (simp add: GetUserDevices_def ciba_sql)
  apply (simp add: DeleteDevice_def DeactivateDeviceToken_def ciba_sql wrap_err_def Let_def split: option.splits)
  done

text \<open>The operation that made a request, for whom, and the lifetime it gave it.\<close>

definition ciba_created_by ::
  "CIBAAuthService \<Rightarrow> ExtendedUser list \<Rightarrow> ciba_op \<Rightarrow> CIBAAuthRequest \<Rightarrow> bool" where
  "ciba_created_by svc us op r \<longleftrightarrow>
     (\<exists>now i rnd req u. op = CInitiate now i rnd req \<and> generateAuthReqID rnd = Inr (cb_AuthReqID r) \<and>
        u \<in> set us \<and> ToLower (us_Email u) = ToLower (ci_LoginHint req) \<and>
        cb_UserID r = us_ID u \<and> cb_TenantID r = us_TenantID u \<and>
        cb_ExpiresAt r = Unix (now + ca_requestExpiry svc))"

fun ciba_creates :: "string \<Rightarrow> ciba_op \<Rightarrow> bool" where
  "ciba_creates k (CInitiate now i rnd req) = (generateAuthReqID rnd = Inr k)"
| "ciba_creates k _ = False"

lemma ciba_created_by_creates: "ciba_created_by svc us op r \<Longrightarrow> ciba_creates (cb_AuthReqID r) op"
  by (auto simp: ciba_created_by_def)

lemma first_user_email:
  "first_user email ts (s, []) = (Inr u, c) \<Longrightarrow> u \<in> set (users s) \<and> ToLower (us_Email u) = ToLower email"
  by (induction ts) (auto simp: sql_simps find_Some_iff split: option.splits)

lemma lookupUserByEmail_email:
  "lookupUserByEmail email (s, []) = (Inr u, c) \<Longrightarrow> u \<in> set (users s) \<and> ToLower (us_Email u) = ToLower email"
  by (auto simp: lookupUserByEmail_def sql_simps dest: first_user_email)

definition fresh_request :: "CIBAAuthRequest list \<Rightarrow> CIBAAuthRequest \<Rightarrow> bool" where
  "fresh_request t r \<longleftrightarrow> cb_Status r = ''pending'' \<and> cb_AuthReqID r \<notin> cb_AuthReqID ` set t"

text \<open>
  What a request makes of the tables: nothing when it fails or reports an error, and otherwise one
  fresh row for the user that the lookup found. The directory stays as it is.
\<close>

lemma ciba_send_push_directory:
  "users (fst (ciba_send_push svc now d k m e (s, []))) = users s \<and>
   tenants (fst (ciba_send_push svc now d k m e (s, []))) = tenants s"
  by (simp add: ciba_send_push_def UpdateDeviceTokenLastUsed_def split: option.splits sum.splits)

definition ciba_request_made ::
  "CIBAAuthService \<Rightarrow> ciba_op \<Rightarrow> string \<Rightarrow> 'a ciba_db_scheme \<Rightarrow> 'a ciba_db_scheme \<Rightarrow> CIBAInitiateResponse
     \<Rightarrow> CIBAAuthRequest \<Rightarrow> bool" where
  "ciba_request_made svc op hint s s' resp r \<longleftrightarrow>
     ciba_requests s' = ciba_requests s @ [r] \<and> users s' = users s \<and> tenants s' = tenants s \<and>
     fresh_request (ciba_requests s) r \<and> ciba_created_by svc (users s) op r \<and> cir_AuthReqID resp = cb_AuthReqID r \<and>
     (\<exists>u. lookupUserByEmail hint (s, []) = (Inr u, s, []) \<and> cb_UserID r = us_ID u \<and> cb_TenantID r = us_TenantID u)"

lemma InitiateCIBAAuth_rows:
  assumes "InitiateCIBAAuth svc parse now i rnd req (s, []) = (out, s', os)"
  shows "os = []"
    and "s' = s \<and> (\<forall>resp. out = Inr resp \<longrightarrow> cir_Error resp \<noteq> []) \<or>
     (\<exists>r resp. out = Inr resp \<and> ciba_request_made svc (CInitiate now i rnd req) (ci_LoginHint req) s s' resp r)"
proof -
  obtain u where look: "lookupUserByEmail (ci_LoginHint req) (s, []) = (u, s, [])"
    using lookupUserByEmail_ok by blast
  let ?devs = "\<lambda>u. sort_key (\<lambda>t. - tok_CreatedAt t)
      (filter (\<lambda>d. tok_UserID d = us_ID u \<and> tok_TenantID d = us_TenantID u \<and> tok_IsActive d) (device_tokens s))"
  have "os = [] \<and> (s' = s \<and> (\<forall>resp. out = Inr resp \<longrightarrow> cir_Error resp \<noteq> []) \<or>
     (\<exists>r resp. out = Inr resp \<and> ciba_request_made svc (CInitiate now i rnd req) (ci_LoginHint req) s s' resp r))"
  proof (cases u)
    case (Inl e)
    with assms look show ?thesis by (auto simp: InitiateCIBAAuth_def cir_error_def)
  next
    case (Inr user)
    have email: "user \<in> set (users s)" "ToLower (us_Email user) = ToLower (ci_LoginHint req)"
      using look Inr lookupUserByEmail_email by blast+
    show ?thesis
    proof (cases "?devs user")
      case Nil
      with assms look Inr show ?thesis by (auto simp: InitiateCIBAAuth_def ciba_sql cir_error_def)
    next
      case (Cons d ds)
      show ?thesis
      proof (cases "generateAuthReqID rnd")
        case (Inl e)
        with assms look Inr Cons show ?thesis by (auto simp: InitiateCIBAAuth_def ciba_sql)
      next
        case k: (Inr k)
        let ?r = "(ciba_new_request svc parse now i k req user d)\<lparr> cb_CreatedAt := Unix now, cb_RespondedAt := None,
            cb_LastPolledAt := None \<rparr>"
        let ?s = "s\<lparr> ciba_requests := ciba_requests s @ [?r] \<rparr>"
        let ?m = "if ci_BindingMessage req = [] then ''Authentication request'' else ci_BindingMessage req"
        show ?thesis
        proof (cases "\<exists>q \<in> set (ciba_requests s). cb_ID q = cb_ID ?r \<or> cb_AuthReqID q = cb_AuthReqID ?r")
          case True
          then have "insert_ciba_request ?r s = Inl DBError" by (simp add: insert_ciba_request_def)
          with assms look Inr Cons k show ?thesis
            by (auto simp: InitiateCIBAAuth_def ciba_sql Let_def)
        next
          case False
          then have "insert_ciba_request ?r s = Inr ?s" by (auto simp: insert_ciba_request_def)
          with assms look Inr Cons k
          have "ciba_send_push svc now d k ?m (us_Email user) (?s, []) = (s', os)"
            and out: "\<exists>resp. out = Inr resp \<and> cir_AuthReqID resp = k"
            by (auto simp: InitiateCIBAAuth_def ciba_sql Let_def)
          then have "os = []" "ciba_requests s' = ciba_requests ?s" "users s' = users s" "tenants s' = tenants s"
            using ciba_send_push_rows [of svc now d k ?m "us_Email user" ?s]
              ciba_send_push_directory [of svc now d k ?m "us_Email user" ?s] by simp_all
          with False out look Inr email k show ?thesis
            by (force simp: ciba_request_made_def fresh_request_def ciba_created_by_def ciba_new_request_def Let_def)
        qed
      qed
    qed
  qed
  then show "os = []" and "s' = s \<and> (\<forall>resp. out = Inr resp \<longrightarrow> cir_Error resp \<noteq> []) \<or>
     (\<exists>r resp. out = Inr resp \<and> ciba_request_made svc (CInitiate now i rnd req) (ci_LoginHint req) s s' resp r)"
    by blast+
qed

lemma ciba_step_rows:
  assumes inv: "ciba_inv s"
  shows "\<exists>new. rows_step cb_AuthReqID (ciba_row_step (ciba_granted_by op)) (ciba_requests s)
             (ciba_requests (fst (ciba_step svc sign parse op s))) new \<and>
           (new = [] \<or> (\<exists>r. new = [r] \<and> fresh_request (ciba_requests s) r \<and> ciba_created_by svc (users s) op r))"
proof (cases op)
  case (CInitiate now i rnd req)
  obtain out s' os where run: "InitiateCIBAAuth svc parse now i rnd req (s, []) = (out, s', os)"
    using prod_cases3 by blast
  have step: "fst (ciba_step svc sign parse op s) = s'"
    using run CInitiate by (simp add: ciba_step_def reply_def)
  from InitiateCIBAAuth_rows(2) [OF run] show ?thesis
  proof
    assume "s' = s \<and> (\<forall>resp. out = Inr resp \<longrightarrow> cir_Error resp \<noteq> [])"
    with step show ?thesis by (intro exI [of _ "[]"]) (simp add: rows_step_refl)
  next
    assume "\<exists>r resp. out = Inr resp \<and>
      ciba_request_made svc (CInitiate now i rnd req) (ci_LoginHint req) s s' resp r"
    then obtain r where "ciba_requests s' = ciba_requests s @ [r]" "fresh_request (ciba_requests s) r"
      "ciba_created_by svc (users s) op r" using CInitiate by (auto simp: ciba_request_made_def)
    with step show ?thesis by (intro exI [of _ "[r]"]) (simp add: rows_step_append)
  qed
qed (auto simp: ciba_step_def reply_def ciba_device_rows rows_step_refl respond_rows [OF inv]
      ciba_poll_rows [OF inv] ciba_cleanup_rows intro!: exI [of _ "[]"])

section \<open>Invariant and refinement\<close>

lemma ciba_step_inv:
  assumes inv: "ciba_inv s"
  shows "ciba_inv (fst (ciba_step svc sign parse op s))"
proof -
  let ?t = "ciba_requests s" and ?t' = "ciba_requests (fst (ciba_step svc sign parse op s))"
  obtain new where rows: "rows_step cb_AuthReqID (ciba_row_step (ciba_granted_by op)) ?t ?t' new"
    and new: "new = [] \<or> (\<exists>r. new = [r] \<and> fresh_request ?t r \<and> ciba_created_by svc (users s) op r)"
    using ciba_step_rows [OF inv] by blast
  have "distinct (map cb_AuthReqID ?t')"
    using rows by (rule rows_step_distinct1) (use inv new in \<open>auto simp: fresh_request_def ciba_inv_def\<close>)
  moreover have "cb_Status r' \<in> ciba_statuses" if "r' \<in> set ?t'" for r'
    using rows_step_set [OF rows that] new inv
    by (auto simp: fresh_request_def ciba_inv_def ciba_row_step_def ciba_statuses_def)
  ultimately show ?thesis by (simp add: ciba_inv_def)
qed

definition ciba_phase_of :: "string \<Rightarrow> 'a ciba_db_scheme \<Rightarrow> phase option" where
  "ciba_phase_of k s =
     map_option (\<lambda>r. status_phase ''approved'' (cb_Status r))
       (List.find (\<lambda>r. cb_AuthReqID r = k) (ciba_requests s))"

fun ciba_issues :: "string \<Rightarrow> ciba_op \<Rightarrow> ciba_reply \<Rightarrow> bool" where
  "ciba_issues k (CPoll now k') (SPoll resp) = (k' = k \<and> ct_AccessToken resp \<noteq> [])"
| "ciba_issues k _ _ = False"

lemma ciba_issuesD:
  "ciba_issues k op out \<Longrightarrow> \<exists>now resp. op = CPoll now k \<and> out = SPoll resp \<and> ct_AccessToken resp \<noteq> []"
  by (induction k op out rule: ciba_issues.induct) auto

lemma ciba_poll_reply_token:
  "ct_AccessToken (ciba_poll_reply svc sign now s row) \<noteq> [] \<longleftrightarrow>
     (\<exists>r tok. row = Some r \<and> \<not> cb_IsExpired now r \<and> cb_Status r = ''approved'' \<and>
        ciba_signed svc sign now s r = Inr tok \<and> tok \<noteq> [])"
  by (auto simp: ciba_poll_reply_def ct_error_def split: option.splits sum.splits)

lemma ciba_step_poll:
  "ciba_inv s \<Longrightarrow> ciba_step svc sign parse (CPoll now k) s =
     (s\<lparr> ciba_requests := update_where (\<lambda>r. cb_AuthReqID r = k) (ciba_poll_row svc sign now s) (ciba_requests s) \<rparr>,
      SPoll (ciba_poll_reply svc sign now s (List.find (\<lambda>r. cb_AuthReqID r = k) (ciba_requests s))))"
  by (simp add: ciba_step_def reply_def ciba_PollForToken_run)

lemma find_ciba_poll_row:
  "List.find (\<lambda>r. cb_AuthReqID r = k) (update_where P (ciba_poll_row svc sign now s) t) =
     map_option (\<lambda>r. if P r then ciba_poll_row svc sign now s r else r)
       (List.find (\<lambda>r. cb_AuthReqID r = k) t)"
  using ciba_poll_row_step by (intro find_update_where) blast

lemma ciba_step_rows_other:
  assumes "ciba_inv s" and "\<not> ciba_creates k op"
  obtains new where "rows_step cb_AuthReqID (ciba_row_step (ciba_granted_by op)) (ciba_requests s)
      (ciba_requests (fst (ciba_step svc sign parse op s))) new" and "k \<notin> cb_AuthReqID ` set new"
proof -
  obtain new where rows: "rows_step cb_AuthReqID (ciba_row_step (ciba_granted_by op)) (ciba_requests s)
      (ciba_requests (fst (ciba_step svc sign parse op s))) new"
    and "new = [] \<or> (\<exists>r. new = [r] \<and> ciba_creates (cb_AuthReqID r) op)"
    using ciba_step_rows [OF assms(1)] ciba_created_by_creates by blast
  then have "k \<notin> cb_AuthReqID ` set new" using assms(2) by auto
  with rows that show ?thesis by blast
qed

interpretation ciba: phased_grant "ciba_step svc sign parse" ciba_inv ciba_phase_of ciba_creates ciba_issues
  for svc sign parse
proof
  fix s :: ciba_db and op
  assume "ciba_inv s"
  then show "ciba_inv (fst (ciba_step svc sign parse op s))" by (rule ciba_step_inv)
next
  fix s :: ciba_db and op k p q
  assume inv: "ciba_inv s" and p: "ciba_phase_of k s = Some p"
    and q: "ciba_phase_of k (fst (ciba_step svc sign parse op s)) = Some q" and old: "\<not> ciba_creates k op"
  obtain new where rows: "rows_step cb_AuthReqID (ciba_row_step (ciba_granted_by op)) (ciba_requests s)
      (ciba_requests (fst (ciba_step svc sign parse op s))) new" and new: "k \<notin> cb_AuthReqID ` set new"
    using ciba_step_rows_other [OF inv old] .
  with inv p q show "p = q \<or> phase_step p q"
    using rows_step_find [OF rows _ new]
    by (auto simp: ciba_phase_of_def ciba_inv_def ciba_row_step_def)
next
  fix s :: ciba_db and op k
  assume inv: "ciba_inv s" and p: "ciba_phase_of k s = None" and old: "\<not> ciba_creates k op"
  obtain new where rows: "rows_step cb_AuthReqID (ciba_row_step (ciba_granted_by op)) (ciba_requests s)
      (ciba_requests (fst (ciba_step svc sign parse op s))) new" and new: "k \<notin> cb_AuthReqID ` set new"
    using ciba_step_rows_other [OF inv old] .
  with inv p show "ciba_phase_of k (fst (ciba_step svc sign parse op s)) = None"
    using rows_step_find [OF rows _ new] by (auto simp: ciba_phase_of_def ciba_inv_def)
next
  fix s :: ciba_db and k op
  assume inv: "ciba_inv s" and iss: "ciba_issues k op (snd (ciba_step svc sign parse op s))"
  from ciba_issuesD [OF iss] obtain now resp where op: "op = CPoll now k"
    and out: "snd (ciba_step svc sign parse op s) = SPoll resp" and tok: "ct_AccessToken resp \<noteq> []"
    by blast
  with inv obtain d tok where d: "List.find (\<lambda>r. cb_AuthReqID r = k) (ciba_requests s) = Some d"
    and live: "\<not> cb_IsExpired now d" "cb_Status d = ''approved''" "ciba_signed svc sign now s d = Inr tok"
    by (auto simp: ciba_step_poll ciba_poll_reply_token)
  then have "cb_AuthReqID d = k" by (auto simp: find_Some_iff)
  with inv op d live show "ciba_phase_of k s = Some Granted \<and>
      ciba_phase_of k (fst (ciba_step svc sign parse op s)) = Some Consumed"
    by (simp add: ciba_step_poll ciba_phase_of_def find_ciba_poll_row ciba_poll_row_def status_phase_def)
qed

section \<open>History of a run\<close>

lemma ciba_step_directory:
  "users (fst (ciba_step svc sign parse op s)) = users s \<and> tenants (fst (ciba_step svc sign parse op s)) = tenants s"
proof (cases op)
  case (CInitiate now i rnd req)
  obtain out s' os where run: "InitiateCIBAAuth svc parse now i rnd req (s, []) = (out, s', os)"
    using prod_cases3 by blast
  with InitiateCIBAAuth_rows(2) [OF run] CInitiate show ?thesis
    by (auto simp: ciba_step_def reply_def ciba_request_made_def)
next
  case (CRegister now i u t req)
  then show ?thesis
    by (simp add: ciba_step_def reply_def RegisterDevice_def CreateDeviceToken_def wrap_err_def sql_simps
        upsert_device_token_def Let_def)
next
  case (CRespond now req)
  then show ?thesis
    by (simp add: ciba_step_def reply_def RespondToCIBA_def ciba_respond_found_def ciba_sql Let_def split: option.splits)
next
  case (CPoll now k)
  then show ?thesis
    by (simp add: ciba_step_def reply_def ciba_PollForToken_def ciba_poll_found_def ciba_sql ciba_UpdateLastPolled_def
        ciba_issue_ok split: option.splits sum.splits)
next
  case (CCleanup now)
  then show ?thesis
    by (simp add: ciba_step_def reply_def ciba_CleanupExpiredRequests_def ExpireOldRequests_def
        DeleteExpiredRequests_def wrap_err_def Let_def)
next
  case (CDevices u t)
  then show ?thesis by (simp add: ciba_step_def reply_def GetUserDevices_def ciba_sql)
next
  case (CDelete now d u t)
  then show ?thesis
    by (simp add: ciba_step_def reply_def DeleteDevice_def DeactivateDeviceToken_def ciba_sql wrap_err_def Let_def
        split: option.splits)
qed

definition ciba_history ::
  "CIBAAuthService \<Rightarrow> ciba_op set \<Rightarrow> ExtendedUser list \<Rightarrow> Tenant list \<Rightarrow> ciba_db \<Rightarrow> bool" where
  "ciba_history svc H us ts s \<longleftrightarrow>
     ciba_inv s \<and> users s = us \<and> tenants s = ts \<and>
     (\<forall>r \<in> set (ciba_requests s).
        (\<exists>op \<in> H. ciba_created_by svc us op r) \<and>
        (cb_Status r = ''approved'' \<longrightarrow> (\<exists>op \<in> H. ciba_granted_by op r)))"

lemma ciba_provenance_kept:
  assumes "cb_AuthReqID r' = cb_AuthReqID r" and "ciba_row_step B r r'"
  shows "ciba_created_by svc us op r \<Longrightarrow> ciba_created_by svc us op r'"
    and "ciba_granted_by op r \<Longrightarrow> ciba_granted_by op r'"
  using assms by (auto simp: ciba_created_by_def ciba_granted_by_def ciba_row_step_def cb_IsExpired_def)

lemma ciba_history_step:
  assumes hist: "ciba_history svc H us ts s" and op: "op \<in> H"
  shows "ciba_history svc H us ts (fst (ciba_step svc sign parse op s))"
proof -
  let ?t = "ciba_requests s" and ?t' = "ciba_requests (fst (ciba_step svc sign parse op s))"
  have inv: "ciba_inv s" and us: "users s = us" using hist by (simp_all add: ciba_history_def)
  obtain new where rows: "rows_step cb_AuthReqID (ciba_row_step (ciba_granted_by op)) ?t ?t' new"
    and new: "new = [] \<or> (\<exists>r. new = [r] \<and> fresh_request ?t r \<and> ciba_created_by svc us op r)"
    using ciba_step_rows [OF inv] us by blast
  have "(\<exists>op \<in> H. ciba_created_by svc us op r') \<and>
      (cb_Status r' = ''approved'' \<longrightarrow> (\<exists>op \<in> H. ciba_granted_by op r'))" if "r' \<in> set ?t'" for r'
    using rows_step_set [OF rows that]
  proof
    assume "r' \<in> set new"
    with new op show ?thesis by (auto simp: fresh_request_def)
  next
    assume "\<exists>r \<in> set ?t. cb_AuthReqID r' = cb_AuthReqID r \<and> ciba_row_step (ciba_granted_by op) r r'"
    then obtain r where r: "r \<in> set ?t" "cb_AuthReqID r' = cb_AuthReqID r"
      "ciba_row_step (ciba_granted_by op) r r'" by blast
    from r(3) have "cb_Status r' = ''approved'' \<longrightarrow> cb_Status r = ''approved'' \<or> ciba_granted_by op r'"
      by (simp add: ciba_row_step_def)
    with hist r op show ?thesis
      using ciba_provenance_kept [OF r(2,3)] unfolding ciba_history_def by blast
  qed
  with ciba_step_inv [OF inv] ciba_step_directory hist show ?thesis by (simp add: ciba_history_def)
qed

lemma ciba_signedD:
  assumes "ciba_signed svc sign now s r = Inr tok"
  shows "\<exists>tn m. tn \<in> set (tenants s) \<and> tn_TenantID tn = cb_TenantID r \<and>
    sign ''default'' (jwtClaims now (user_claims (cb_UserID r) (tn_ID tn) m (cb_Scopes r) (365 * 24 * Hour)) ''default'')
      (jwtDefaultSecret (ca_tokens svc)) = Inr tok"
  using assms
  by (auto simp: ciba_signed_def ciba_generateJWTToken_def GenerateCIBAToken_def GenerateToken_def
      generateTokenWithType_Inr_iff split: option.splits sum.splits dest!: find_SomeD) blast

text \<open>What stands behind a token: the request for an account, the approval in time, the signed claims.\<close>

definition ciba_token_backed ::
  "CIBAAuthService \<Rightarrow> signer \<Rightarrow> ciba_op set \<Rightarrow> 'a directory_scheme \<Rightarrow> gotime \<Rightarrow> string \<Rightarrow> CIBATokenResponse \<Rightarrow> bool" where
  "ciba_token_backed svc sign H dir now k resp \<longleftrightarrow>
     (\<exists>t0 i rnd req u. CInitiate t0 i rnd req \<in> H \<and> generateAuthReqID rnd = Inr k \<and>
        Unix now \<le> Unix (t0 + ca_requestExpiry svc) \<and>
        u \<in> set (users dir) \<and> ToLower (us_Email u) = ToLower (ci_LoginHint req) \<and>
      (\<exists>t1 rreq. CRespond t1 rreq \<in> H \<and> cr_AuthReqID rreq = k \<and> cr_Approved rreq \<and>
        Unix t1 \<le> Unix (t0 + ca_requestExpiry svc)) \<and>
      (\<exists>tn m scopes. tn \<in> set (tenants dir) \<and> tn_TenantID tn = us_TenantID u \<and> ct_Scope resp = Join scopes '' '' \<and>
        sign ''default''
          (jwtClaims now (user_claims (us_ID u) (tn_ID tn) m scopes (365 * 24 * Hour)) ''default'')
          (jwtDefaultSecret (ca_tokens svc)) = Inr (ct_AccessToken resp)))"

lemma ciba_poll_backed:
  assumes hist: "ciba_history svc H (users dir) (tenants dir) s"
    and out: "snd (ciba_step svc sign parse (CPoll now k) s) = SPoll resp"
    and tok: "ct_AccessToken resp \<noteq> []"
  shows "ciba_token_backed svc sign H dir now k resp"
proof -
  have inv: "ciba_inv s" using hist by (simp add: ciba_history_def)
  let ?row = "List.find (\<lambda>r. cb_AuthReqID r = k) (ciba_requests s)"
  have resp: "resp = ciba_poll_reply svc sign now s ?row" using out by (simp add: ciba_step_poll [OF inv])
  with tok obtain d tok where d: "?row = Some d" and live: "\<not> cb_IsExpired now d" "cb_Status d = ''approved''"
    "ciba_signed svc sign now s d = Inr tok"
    by (auto simp: ciba_poll_reply_token)
  have mem: "d \<in> set (ciba_requests s)" "cb_AuthReqID d = k" using d by (auto simp: find_Some_iff)
  have reply: "ct_AccessToken resp = tok" "ct_Scope resp = Join (cb_Scopes d) '' ''"
    using resp d live by (simp_all add: ciba_poll_reply_def)
  from hist mem live(2) obtain op op' where "op \<in> H" "ciba_created_by svc (users dir) op d"
    "op' \<in> H" "ciba_granted_by op' d"
    by (auto simp: ciba_history_def)
  then obtain t0 i rnd req u t1 rreq where made: "CInitiate t0 i rnd req \<in> H" "generateAuthReqID rnd = Inr k"
      "u \<in> set (users dir)" "ToLower (us_Email u) = ToLower (ci_LoginHint req)" "cb_UserID d = us_ID u"
      "cb_TenantID d = us_TenantID u" "cb_ExpiresAt d = Unix (t0 + ca_requestExpiry svc)"
    and granted: "CRespond t1 rreq \<in> H" "cr_AuthReqID rreq = k" "cr_Approved rreq" "\<not> cb_IsExpired t1 d"
    using mem(2) by (auto simp: ciba_created_by_def ciba_granted_by_def)
  from ciba_signedD [OF live(3)] hist made reply obtain tn m where signed: "tn \<in> set (tenants dir)"
    "tn_TenantID tn = us_TenantID u"
    "sign ''default'' (jwtClaims now (user_claims (us_ID u) (tn_ID tn) m (cb_Scopes d) (365 * 24 * Hour)) ''default'')
      (jwtDefaultSecret (ca_tokens svc)) = Inr (ct_AccessToken resp)"
    by (auto simp: ciba_history_def)
  show ?thesis
    unfolding ciba_token_backed_def
  proof (intro exI conjI)
    show "Unix now \<le> Unix (t0 + ca_requestExpiry svc)" and "Unix t1 \<le> Unix (t0 + ca_requestExpiry svc)"
      using live(1) granted(4) made(7) by (simp_all add: cb_IsExpired_def)
  qed (use made granted signed reply in blast)+
qed

section \<open>Round trips\<close>

lemma ciba_inv_find:
  assumes "ciba_inv s" and "r \<in> set (ciba_requests s)"
  shows "List.find (\<lambda>q. cb_AuthReqID q = cb_AuthReqID r) (ciba_requests s) = Some r"
  using select_row_key [of cb_AuthReqID "ciba_requests s" r "cb_AuthReqID r"] assms
  by (simp add: ciba_inv_def select_row_Inr_iff)

text \<open>An answer in time is recorded on the pending request, whoever gives it.\<close>

lemma RespondToCIBA_pending:
  assumes "ciba_inv s" and "r \<in> set (ciba_requests s)" and "cb_Status r = ''pending''"
    and "\<not> cb_IsExpired now r" and "cr_AuthReqID req = cb_AuthReqID r"
  shows "RespondToCIBA now req (s, []) =
    (Inr \<lparr> crr_Success = True,
           crr_Message = (if cr_Approved req then ''Authentication approved'' else ''Authentication denied'') \<rparr>,
     s\<lparr> ciba_requests := update_where (\<lambda>q. cb_AuthReqID q = cb_AuthReqID r)
          (answered_row now (if cr_Approved req then ''approved'' else ''denied'') (cr_BiometricVerified req))
          (ciba_requests s) \<rparr>, [])"
  using ciba_inv_find [OF assms(1,2)] assms(3-5)
  by (simp add: RespondToCIBA_def ciba_respond_found_def ciba_sql Let_def)

text \<open>A poll of an approved request in time hands out a token when the directory and the signer do their part.\<close>

lemma ciba_PollForToken_approved:
  assumes "ciba_inv s" and "r \<in> set (ciba_requests s)" and "cb_Status r = ''approved''"
    and "\<not> cb_IsExpired now r" and "ciba_signed svc sign now s r = Inr tok"
  shows "\<exists>s' resp. ciba_PollForToken svc sign now (cb_AuthReqID r) (s, []) = (resp, s', []) \<and>
    ct_AccessToken resp = tok \<and> ct_Error resp = []"
  using ciba_inv_find [OF assms(1,2)] assms(3-)
  by (simp add: ciba_PollForToken_run [OF assms(1)] ciba_poll_reply_def)

lemma ciba_signed_total:
  assumes "\<exists>u \<in> set (users s). us_ID u = cb_UserID r" and "\<exists>tn \<in> set (tenants s). tn_TenantID tn = cb_TenantID r"
    and "\<forall>claims. \<exists>tok. tok \<noteq> [] \<and> sign ''default'' claims (jwtDefaultSecret (ca_tokens svc)) = Inr tok"
  shows "\<exists>tok. tok \<noteq> [] \<and> ciba_signed svc sign now s r = Inr tok"
proof -
  obtain u where u: "List.find (\<lambda>u. us_ID u = cb_UserID r) (users s) = Some u"
    using assms(1) by (metis (mono_tags, lifting) find_None_iff option.exhaust)
  obtain tn where tn: "List.find (\<lambda>t. tn_TenantID t = cb_TenantID r) (tenants s) = Some tn"
    using assms(2) by (metis (mono_tags, lifting) find_None_iff option.exhaust)
  obtain tok where "tok \<noteq> []" "ciba_generateJWTToken svc sign now u tn (cb_Scopes r) = Inr tok"
    using assms(3) by (auto simp: ciba_generateJWTToken_def GenerateCIBAToken_def GenerateToken_def
        generateTokenWithType_Inr_iff)
  with u tn show ?thesis by (simp add: ciba_signed_def)
qed

section \<open>Examples\<close>

definition ex_ciba_svc :: CIBAAuthService where
  "ex_ciba_svc = NewCIBAAuthService ex_tokens None"

definition ex_device_token :: DeviceToken where
  "ex_device_token =
     \<lparr> tok_ID = ''p-1'', tok_UserID = ''u-1'', tok_TenantID = ''t-1'', tok_DeviceToken = ''expo'',
       tok_Platform = ''ios'', tok_DeviceName = [], tok_DeviceModel = [], tok_AppVersion = [],
       tok_OSVersion = [], tok_IsActive = True, tok_LastUsed = None, tok_CreatedAt = 0, tok_UpdatedAt = 0 \<rparr>"

definition ex_ciba_db :: ciba_db where
  "ex_ciba_db = \<lparr> tenants = [ex_tenant], users = [ex_user], device_tokens = [ex_device_token], ciba_requests = [] \<rparr>"

definition ex_ciba_req :: CIBAInitiateRequest where
  "ex_ciba_req = \<lparr> ci_LoginHint = ''A@x.io'', ci_BindingMessage = [], ci_ClientID = [], ci_Scopes = [''read''] \<rparr>"

definition ex_auth_req_id :: string where
  "ex_auth_req_id = Base64URL (map (\<lambda>_. 0) [0..<32])"

definition ex_ciba_ops :: "ciba_op list" where
  "ex_ciba_ops =
     [CInitiate 0 ''r-1'' (Some (\<lambda>_. 0)) ex_ciba_req,
      CRespond (10 * Second) \<lparr> cr_AuthReqID = ex_auth_req_id, cr_Approved = True, cr_BiometricVerified = False \<rparr>]"

definition ex_ciba_row :: CIBAAuthRequest where
  "ex_ciba_row =
     \<lparr> cb_ID = ''r-1'', cb_AuthReqID = ''k'', cb_UserID = ''u-1'', cb_TenantID = ''t-1'', cb_UserEmail = ''a@x.io'',
       cb_ClientID = None, cb_DeviceTokenID = ''p-1'', cb_BindingMessage = [], cb_Scopes = [''read''],
       cb_Status = ''approved'', cb_BiometricVerified = False, cb_ExpiresAt = 300, cb_CreatedAt = 0,
       cb_RespondedAt = Some 1, cb_LastPolledAt = None \<rparr>"

definition ex_registration :: DeviceTokenRegistrationRequest where
  "ex_registration =
     \<lparr> reg_DeviceToken = ''expo'', reg_Platform = ''ios'', reg_DeviceName = [], reg_DeviceModel = [],
       reg_AppVersion = [], reg_OSVersion = [] \<rparr>"

section \<open>Properties\<close>

lemma ciba_empty:
  "ciba_inv (s\<lparr> ciba_requests := [] \<rparr>)" "ciba_phase_of k (s\<lparr> ciba_requests := [] \<rparr>) = None"
  "ciba_history svc H (users (s\<lparr> ciba_requests := [] \<rparr>)) (tenants (s\<lparr> ciba_requests := [] \<rparr>)) (s\<lparr> ciba_requests := [] \<rparr>)"
  by (simp_all add: ciba_inv_def ciba_phase_of_def ciba_history_def)

text \<open>
  C2. In any run of the CIBA service that starts without requests, the tokens handed out for a request
  id number at most the requests made under that id (operations one after the other, fault-free database).
\<close>

theorem ciba_tokens_bounded:
  "length (replies_with (ciba_issues k) (snd (run (ciba_step svc sign parse) ops (s\<lparr> ciba_requests := [] \<rparr>))))
     \<le> length (filter (ciba_creates k) ops)"
  using ciba.tokens_bounded [OF ciba_empty(1), where k = k] by (simp add: ciba.dead_def ciba_empty(2))

text \<open>
  C16. Every token that a poll hands out in a run on a database that does not fail is backed by the history: an earlier request, still
  in its lifetime, named the address of an account; the request was approved within the lifetime; and the
  token is the signature of claims for that account, its tenant and the scopes of the reply.
\<close>

theorem ciba_tokens_sound:
  assumes "(CPoll now k, SPoll resp) \<in> set (snd (run (ciba_step svc sign parse) ops (s\<lparr> ciba_requests := [] \<rparr>)))"
    and "ct_AccessToken resp \<noteq> []"
  shows "ciba_token_backed svc sign (set ops) s now k resp"
proof -
  let ?s = "s\<lparr> ciba_requests := [] \<rparr>"
  let ?Q = "\<lambda>op out. \<forall>now k resp. op = CPoll now k \<longrightarrow> out = SPoll resp \<longrightarrow>
      ct_AccessToken resp \<noteq> [] \<longrightarrow> ciba_token_backed svc sign (set ops) ?s now k resp"
  have "?Q (CPoll now k) (SPoll resp)"
    using _ ciba_empty(3) subset_refl assms(1)
    by (rule run_trace [where Q = ?Q and I = "ciba_history svc (set ops) (users ?s) (tenants ?s)" and H = "set ops"])
      (use ciba_history_step ciba_poll_backed in blast)
  with assms(2) show ?thesis by (simp add: ciba_token_backed_def)
qed

theorem ciba_tokens_sound_witness:
  "\<exists>resp. ct_AccessToken resp \<noteq> [] \<and>
     ciba_token_backed ex_ciba_svc ex_sign (set (ex_ciba_ops @ [CPoll (20 * Second) ex_auth_req_id])) ex_ciba_db
       (20 * Second) ex_auth_req_id resp"
proof -
  let ?step = "ciba_step ex_ciba_svc ex_sign (\<lambda>_. None)" and ?op = "CPoll (20 * Second) ex_auth_req_id"
  let ?s = "ex_ciba_db\<lparr> ciba_requests := [] \<rparr>"
  let ?out = "snd (?step ?op (fst (run ?step ex_ciba_ops ?s)))"
  have "case ?out of SPoll resp \<Rightarrow> ct_AccessToken resp \<noteq> [] | _ \<Rightarrow> False" by code_simp
  then obtain resp where "?out = SPoll resp" and tok: "ct_AccessToken resp \<noteq> []"
    by (auto split: ciba_reply.splits)
  with run_last_reply [of ?op ?step ex_ciba_ops ?s]
  have "(?op, SPoll resp) \<in> set (snd (run ?step (ex_ciba_ops @ [?op]) ?s))" by simp
  with ciba_tokens_sound [OF this tok] tok show ?thesis by blast
qed

text \<open>
  C40. The endpoint that answers a request does not look at the caller: whatever the context of the
  authenticated caller, an approval of a fresh request by its id, within the lifetime, succeeds, and the
  next poll hands out a token of the account named in the request. Anyone with a valid session can thus
  start a request for someone else's address, approve it and collect the token.
\<close>

theorem ciba_any_caller_approves:
  fixes s :: ciba_db
  assumes "ciba_inv s"
    and "http_InitiateCIBAAuth svc parse t0 i rnd ctx0 (Inr req) (s, []) = (rep, s1, os)"
    and "http_body rep = BInitiate resp" and "cir_Error resp = []"
    and "Unix t1 \<le> Unix (t0 + ca_requestExpiry svc)" and "Unix t2 \<le> Unix (t0 + ca_requestExpiry svc)"
    and "lookupUserByEmail (ci_LoginHint req) (s, []) = (Inr u, s, [])"
    and "\<exists>tn \<in> set (tenants s). tn_TenantID tn = us_TenantID u"
    and "\<forall>claims. \<exists>tok. tok \<noteq> [] \<and> sign ''default'' claims (jwtDefaultSecret (ca_tokens svc)) = Inr tok"
  shows "\<exists>s2 s3 rep2 rep3 tok.
    http_RespondToCIBA t1 caller
      (Inr \<lparr> cr_AuthReqID = cir_AuthReqID resp, cr_Approved = True, cr_BiometricVerified = False \<rparr>) (s1, []) = (rep2, s2, []) \<and>
    http_status rep2 = 200 \<and>
    http_PollCIBAToken svc sign t2 (Inr (cir_AuthReqID resp)) (s2, []) = (rep3, s3, []) \<and>
    http_body rep3 = BToken tok \<and> ct_AccessToken tok \<noteq> [] \<and>
    (\<exists>tid m scopes. sign ''default''
       (jwtClaims t2 (user_claims (us_ID u) tid m scopes (365 * 24 * Hour)) ''default'')
       (jwtDefaultSecret (ca_tokens svc)) = Inr (ct_AccessToken tok))"
proof -
  obtain out where init: "InitiateCIBAAuth svc parse t0 i rnd req (s, []) = (out, s1, os)"
    using assms(2) by (auto simp: http_InitiateCIBAAuth_def split: prod.splits sum.splits if_splits)
  with assms(2,3) have out: "out = Inr resp"
    by (auto simp: http_InitiateCIBAAuth_def split: prod.splits sum.splits if_splits)
  with InitiateCIBAAuth_rows(2) [OF init] assms(4) obtain r where
    made: "ciba_request_made svc (CInitiate t0 i rnd req) (ci_LoginHint req) s s1 resp r" by auto
  with assms(7) have s1: "ciba_requests s1 = ciba_requests s @ [r]" "users s1 = users s" "tenants s1 = tenants s"
    and r: "cb_Status r = ''pending''" "cb_AuthReqID r = cir_AuthReqID resp" "cb_UserID r = us_ID u"
      "cb_TenantID r = us_TenantID u" "cb_ExpiresAt r = Unix (t0 + ca_requestExpiry svc)"
    by (auto simp: ciba_request_made_def fresh_request_def ciba_created_by_def)
  have inv1: "ciba_inv s1"
    using ciba_step_inv [OF assms(1), of svc _ parse "CInitiate t0 i rnd req"] init by (simp add: ciba_step_def reply_def)
  let ?req = "\<lparr> cr_AuthReqID = cir_AuthReqID resp, cr_Approved = True, cr_BiometricVerified = False \<rparr>"
  let ?s2 = "s1\<lparr> ciba_requests := update_where (\<lambda>q. cb_AuthReqID q = cb_AuthReqID r)
      (answered_row t1 ''approved'' False) (ciba_requests s1) \<rparr>"
  have respond: "\<exists>b. RespondToCIBA t1 ?req (s1, []) = (Inr b, ?s2, [])"
    using RespondToCIBA_pending [OF inv1, of r t1 ?req] r s1 assms(5) by (simp add: cb_IsExpired_def)
  have inv2: "ciba_inv ?s2"
    using ciba_step_inv [OF inv1, of svc sign parse "CRespond t1 ?req"] respond by (auto simp: ciba_step_def reply_def)
  let ?r = "answered_row t1 ''approved'' False r"
  have mem: "?r \<in> set (ciba_requests ?s2)" using s1 by (auto simp: table_simps)
  have u: "u \<in> set (users s)" using lookupUserByEmail_email [OF assms(7)] by blast
  obtain tok where tok: "tok \<noteq> []" "ciba_signed svc sign t2 ?s2 ?r = Inr tok"
    using ciba_signed_total [of ?s2 ?r sign svc t2] u assms(8,9) s1 r by (auto simp: answered_row_def)
  obtain s3 presp where poll: "ciba_PollForToken svc sign t2 (cir_AuthReqID resp) (?s2, []) = (presp, s3, [])"
    "ct_AccessToken presp = tok" "ct_Error presp = []"
    using ciba_PollForToken_approved [OF inv2 mem _ _ tok(2)] r assms(6) by (auto simp: answered_row_def cb_IsExpired_def)
  show ?thesis
    using respond poll tok ciba_signedD [OF tok(2)] r(3)
    by (auto simp: http_RespondToCIBA_def http_PollCIBAToken_def answered_row_def) blast
qed

theorem ciba_any_caller_approves_witness:
  "\<exists>(resp :: CIBAInitiateResponse) (s1 :: ciba_db) s2 rep2 rep3 s3 tok.
    http_RespondToCIBA (10 * Second) [''user_id'' \<mapsto> GStr ''mallory'']
      (Inr \<lparr> cr_AuthReqID = cir_AuthReqID resp, cr_Approved = True, cr_BiometricVerified = False \<rparr>) (s1, []) = (rep2, s2, []) \<and>
    http_status rep2 = 200 \<and>
    http_PollCIBAToken ex_ciba_svc ex_sign (20 * Second) (Inr (cir_AuthReqID resp)) (s2, []) = (rep3, s3, []) \<and>
    http_body rep3 = BToken tok \<and> ct_AccessToken tok \<noteq> []"
proof -
  let ?init = "http_InitiateCIBAAuth ex_ciba_svc (\<lambda>_. None) 0 ''r-1'' (Some (\<lambda>_. 0)) Map.empty (Inr ex_ciba_req) (ex_ciba_db, [])"
  have "case ?init of (rep, _) \<Rightarrow> (case http_body rep of BInitiate resp \<Rightarrow> cir_Error resp = [] | _ \<Rightarrow> False)"
    by code_simp
  then obtain rep s1 os resp where init: "?init = (rep, s1, os)" "http_body rep = BInitiate resp" "cir_Error resp = []"
    by (auto split: prod.splits ciba_body.splits)
  have look: "lookupUserByEmail (ci_LoginHint ex_ciba_req) (ex_ciba_db, []) = (Inr ex_user, ex_ciba_db, [])" by code_simp
  have "\<exists>tn \<in> set (tenants ex_ciba_db). tn_TenantID tn = us_TenantID ex_user" by code_simp
  moreover have "Unix (10 * Second) \<le> Unix (0 + ca_requestExpiry ex_ciba_svc)"
    "Unix (20 * Second) \<le> Unix (0 + ca_requestExpiry ex_ciba_svc)" by code_simp+
  moreover have "ciba_inv ex_ciba_db" by (simp add: ex_ciba_db_def ciba_inv_def)
  ultimately show ?thesis
    using ciba_any_caller_approves [where sign = ex_sign and caller = "[''user_id'' \<mapsto> GStr ''mallory'']", OF _ init _ _ look]
      ex_sign_total by blast
qed

text \<open>
  Polls are not serialised: two polls that both read the approved request before either marks it
  consumed each hand out a token.
\<close>

theorem ciba_concurrent_polls_double_issue:
  assumes "List.find (\<lambda>r. cb_AuthReqID r = k) (ciba_requests s) = Some d" and "cb_Status d = ''approved''"
    and "\<not> cb_IsExpired t1 d" and "\<not> cb_IsExpired t2 d"
    and "ciba_signed svc sign t1 s d = Inr tok1" and "ciba_signed svc sign t2 s d = Inr tok2"
  shows "GetCIBAAuthRequestByID k (s, []) = (Inr d, s, []) \<and>
    (let (resp1, c1) = ciba_poll_found svc sign t1 k d (s, []); (resp2, c2) = ciba_poll_found svc sign t2 k d c1
     in ct_AccessToken resp1 = tok1 \<and> ct_AccessToken resp2 = tok2)"
proof -
  have signed: "ciba_signed svc sign t (s\<lparr> ciba_requests := x \<rparr>) d = ciba_signed svc sign t s d" for x t
    by (simp add: ciba_signed_def cong: option.case_cong)
  show ?thesis
    using assms by (simp add: ciba_sql ciba_poll_found_def ciba_UpdateLastPolled_def ciba_issue_ok signed)
qed

theorem ciba_concurrent_polls_double_issue_witness:
  "let s = ex_ciba_db\<lparr> ciba_requests := [ex_ciba_row] \<rparr>; (resp1, c1) = ciba_poll_found ex_ciba_svc ex_sign 0 ''k'' ex_ciba_row (s, []);
       (resp2, c2) = ciba_poll_found ex_ciba_svc ex_sign Second ''k'' ex_ciba_row c1
   in ct_AccessToken resp1 = ''jwt.u-1.s1'' \<and> ct_AccessToken resp2 = ''jwt.u-1.s1''"
proof -
  let ?s = "ex_ciba_db\<lparr> ciba_requests := [ex_ciba_row] \<rparr>"
  have "List.find (\<lambda>r. cb_AuthReqID r = ''k'') (ciba_requests ?s) = Some ex_ciba_row" "cb_Status ex_ciba_row = ''approved''"
    "\<not> cb_IsExpired 0 ex_ciba_row" "\<not> cb_IsExpired Second ex_ciba_row"
    "ciba_signed ex_ciba_svc ex_sign 0 ?s ex_ciba_row = Inr ''jwt.u-1.s1''"
    "ciba_signed ex_ciba_svc ex_sign Second ?s ex_ciba_row = Inr ''jwt.u-1.s1''"
    by code_simp+
  from ciba_concurrent_polls_double_issue [OF this] show ?thesis by (simp add: Let_def)
qed

text \<open>
  Registering a push token that is already known keeps the stored device and its id, but the reply
  carries the freshly drawn id, under which no device exists: the id cannot be used to remove the device.
\<close>

theorem ciba_reregister_returns_unknown_id:
  assumes "\<exists>t \<in> set (device_tokens s). tok_DeviceToken t = reg_DeviceToken req"
    and "newID \<notin> tok_ID ` set (device_tokens s)"
  shows "\<exists>s' resp. RegisterDevice now newID u t req (s, []) = (Inr resp, s', []) \<and> regr_DeviceID resp = newID \<and>
    map tok_ID (device_tokens s') = map tok_ID (device_tokens s) \<and>
    fst (DeleteDevice now' (regr_DeviceID resp) u t (s', [])) =
      Inl (Wrap ''device not found: '' (Errorf ''device token not found''))"
proof -
  let ?t' = "update_where (\<lambda>r. tok_DeviceToken r = reg_DeviceToken req)
      (\<lambda>r. r\<lparr> tok_UserID := u, tok_TenantID := t, tok_DeviceName := reg_DeviceName req,
              tok_DeviceModel := reg_DeviceModel req, tok_AppVersion := reg_AppVersion req,
              tok_OSVersion := reg_OSVersion req, tok_IsActive := True, tok_UpdatedAt := Unix now \<rparr>) (device_tokens s)"
  have ids: "map tok_ID ?t' = map tok_ID (device_tokens s)" by (rule map_update_where) simp
  then have "newID \<notin> tok_ID ` set ?t'" using assms(2) by (metis list.set_map)
  then have none: "List.find (\<lambda>r. tok_ID r = newID) ?t' = None" by (auto simp: find_None_iff)
  have reg: "\<exists>resp. RegisterDevice now newID u t req (s, []) = (Inr resp, s\<lparr> device_tokens := ?t' \<rparr>, []) \<and>
      regr_DeviceID resp = newID"
    using assms(1) by (simp add: RegisterDevice_def CreateDeviceToken_def wrap_err_def sql_simps
        upsert_device_token_def Let_def)
  have "fst (DeleteDevice now' newID u t (s\<lparr> device_tokens := ?t' \<rparr>, [])) =
      Inl (Wrap ''device not found: '' (Errorf ''device token not found''))"
    using none by (simp add: DeleteDevice_def ciba_sql)
  with reg ids show ?thesis by auto
qed

theorem ciba_reregister_returns_unknown_id_witness:
  "\<exists>s' resp. RegisterDevice 0 ''p-2'' ''u-1'' ''t-1'' ex_registration (ex_ciba_db, []) = (Inr resp, s', []) \<and>
    regr_DeviceID resp = ''p-2'' \<and> map tok_ID (device_tokens s') = map tok_ID (device_tokens ex_ciba_db) \<and>
    fst (DeleteDevice Second (regr_DeviceID resp) ''u-1'' ''t-1'' (s', [])) =
      Inl (Wrap ''device not found: '' (Errorf ''device token not found''))"
  by (rule ciba_reregister_returns_unknown_id) code_simp+

end
