(* ===== verification/Authz.thy ===== *)
theory Authz
  imports Token_Service
begin

text \<open>
  Authorization on JWT claims: \<^verbatim>\<open>internal/authz/authz.go\<close> and \<^verbatim>\<open>policy.go\<close> (the gates, the permission,
  scope, role and resource checks, and the conversion of scopes to permissions), and the claim readers
  and checks of \<^verbatim>\<open>middlewares/auth.go\<close> that repeat them. A check is a bool-valued function of the
  claims; a gate returns what the middleware does with the request. Log lines are dropped.
\<close>

section \<open>Scopes with wildcards\<close>

text \<open>The parsed form of a \<^verbatim>\<open>resource:action\<close> string: split at the first colon.\<close>

definition split_scope :: "string \<Rightarrow> (string \<times> string) option" where
  "split_scope s = (case SplitN2 (CHR '':'') s of [r, a] \<Rightarrow> Some (r, a) | _ \<Rightarrow> None)"

abbreviation part_match :: "string \<Rightarrow> string \<Rightarrow> bool" where
  "part_match h n \<equiv> h = n \<or> h = ''*'' \<or> n = ''*''"

fun wildcardMatch :: "string list \<Rightarrow> string \<Rightarrow> bool" where
  "wildcardMatch have needed =
     (case split_scope needed of
        None \<Rightarrow> False
      | Some (nr, na) \<Rightarrow>
          list_ex (\<lambda>h. case split_scope h of
             None \<Rightarrow> False
           | Some (hr, ha) \<Rightarrow> part_match hr nr \<and> part_match ha na) have)"

text \<open>The loop of \<^verbatim>\<open>MatchScope\<close> in \<^verbatim>\<open>policy.go\<close>, which has its own parser and match.\<close>

fun match_any :: "string \<Rightarrow> string \<Rightarrow> string list \<Rightarrow> bool" where
  "match_any nr na [] = False"
| "match_any nr na (s # ss) =
     (case SplitN2 (CHR '':'') s of
        [hr, ha] \<Rightarrow>
          (if (hr = nr \<or> hr = ''*'' \<or> nr = ''*'') \<and> (ha = na \<or> ha = ''*'' \<or> na = ''*'') then True
           else match_any nr na ss)
      | _ \<Rightarrow> match_any nr na ss)"

definition MatchScope :: "string list \<Rightarrow> string \<Rightarrow> bool" where
  "MatchScope have needed =
     (case SplitN2 (CHR '':'') needed of [nr, na] \<Rightarrow> match_any nr na have | _ \<Rightarrow> False)"

section \<open>Permissions from scopes\<close>

text \<open>
  \<^verbatim>\<open>FromScopes\<close> collects the actions of each resource in a map of sets and then ranges over the maps.
  Go visits the keys of a map in an unspecified order; \<open>order\<close> stands for it. The map is the list of
  its entries, and a set of actions the list of its elements.
\<close>

type_synonym Perm = "string \<times> string list"

definition set_insert :: "string \<Rightarrow> string list \<Rightarrow> string list" where
  "set_insert x xs = (if x \<in> set xs then xs else xs @ [x])"

fun add_action :: "string \<Rightarrow> string \<Rightarrow> Perm list \<Rightarrow> Perm list" where
  "add_action r a [] = [(r, [a])]"
| "add_action r a ((r', as) # m) =
     (if r' = r then (r', set_insert a as) # m else (r', as) # add_action r a m)"

fun collect_scopes :: "string list \<Rightarrow> Perm list \<Rightarrow> Perm list" where
  "collect_scopes [] m = m"
| "collect_scopes (sc # scs) m =
     (case split_scope sc of
        None \<Rightarrow> collect_scopes scs m
      | Some (r, a) \<Rightarrow> collect_scopes scs (add_action r a m))"

definition FromScopes :: "(string list \<Rightarrow> string list) \<Rightarrow> string list \<Rightarrow> Perm list" where
  "FromScopes order scopeNames =
     (let m = collect_scopes scopeNames []
      in map (\<lambda>r. (r, order (case map_of m r of None \<Rightarrow> [] | Some as \<Rightarrow> as))) (order (map fst m)))"

text \<open>\<^verbatim>\<open>dedupe\<close> keeps the first occurrence of each string.\<close>

fun dedupe_from :: "string list \<Rightarrow> string list \<Rightarrow> string list" where
  "dedupe_from seen [] = []"
| "dedupe_from seen (s # ss) =
     (if s \<in> set seen then dedupe_from seen ss else s # dedupe_from (s # seen) ss)"

definition dedupe :: "string list \<Rightarrow> string list" where
  "dedupe = dedupe_from []"

section \<open>Checks on claims\<close>

text \<open>A type assertion to \<^verbatim>\<open>string\<close> that yields the zero value when it fails.\<close>

definition as_string :: "goval \<Rightarrow> string" where
  "as_string v = (case v of GStr s \<Rightarrow> s | _ \<Rightarrow> [])"

definition hasRole :: "MapClaims \<Rightarrow> string \<Rightarrow> bool" where
  "hasRole claims role =
     (case claims ''roles'' of
        Some (GArr arr) \<Rightarrow> list_ex (\<lambda>r. case r of GStr s \<Rightarrow> s = role | _ \<Rightarrow> False) arr
      | Some (GStrs arr) \<Rightarrow> role \<in> set arr
      | _ \<Rightarrow> False)"

definition perm_entry :: "(string \<times> goval) list \<Rightarrow> string \<Rightarrow> string" where
  "perm_entry m key = (case map_of m key of Some v \<Rightarrow> as_string v | None \<Rightarrow> [])"

definition hasPerm :: "MapClaims \<Rightarrow> string \<Rightarrow> string \<Rightarrow> bool" where
  "hasPerm claims r a =
     (case claims ''perms'' of
        Some (GPerms arr) \<Rightarrow>
          list_ex (\<lambda>(pr, pa). part_match pr r \<and> list_ex (\<lambda>act. part_match act a) pa) arr
      | Some (GArr arr) \<Rightarrow>
          list_ex (\<lambda>p. case p of
             GMap m \<Rightarrow>
               perm_entry m ''r'' = r \<and>
               (case map_of m ''a'' of
                  Some (GArr acts) \<Rightarrow> list_ex (\<lambda>v. as_string v = a) acts
                | Some (GStrs acts) \<Rightarrow> a \<in> set acts
                | _ \<Rightarrow> False)
           | _ \<Rightarrow> False) arr
      | Some (GMaps arr) \<Rightarrow>
          list_ex (\<lambda>m. perm_entry m ''r'' = r \<and>
             (case map_of m ''a'' of
                Some (GArr acts) \<Rightarrow> list_ex (\<lambda>v. as_string v = a) acts
              | _ \<Rightarrow> False)) arr
      | _ \<Rightarrow> False)"

definition hasScope :: "MapClaims \<Rightarrow> string \<Rightarrow> bool" where
  "hasScope claims needed =
     ((case claims ''scope'' of
         Some (GStr s) \<Rightarrow> s \<noteq> [] \<and> wildcardMatch (Fields s) needed
       | _ \<Rightarrow> False) \<or>
      (case claims ''scopes'' of
         Some (GArr arr) \<Rightarrow> wildcardMatch (filter (\<lambda>s. s \<noteq> []) (map as_string arr)) needed
       | Some (GStrs arr) \<Rightarrow> wildcardMatch arr needed
       | _ \<Rightarrow> False))"

definition hasResource :: "MapClaims \<Rightarrow> string \<Rightarrow> bool" where
  "hasResource claims resource =
     (case claims ''resources'' of
        Some (GArr arr) \<Rightarrow> list_ex (\<lambda>v. as_string v = resource) arr
      | Some (GStrs arr) \<Rightarrow> resource \<in> set arr
      | _ \<Rightarrow> False)"

section \<open>Gates\<close>

record Need =
  nd_Resource :: string
  nd_Action :: string

text \<open>
  What the context holds under the key \<^verbatim>\<open>claims\<close>: nothing, a value of another type, on which the type
  assertion panics, or claims. The gate aborts with 401 or 403, panics, or calls the next handler.
\<close>

datatype ctx_claims = NoClaims | OtherValue | Claims MapClaims

datatype gate = Unauthorized | Forbidden | Panic | Next

definition need_met :: "MapClaims \<Rightarrow> Need \<Rightarrow> bool" where
  "need_met claims n \<longleftrightarrow>
     hasPerm claims (nd_Resource n) (nd_Action n) \<or>
     hasScope claims (nd_Resource n @ '':'' @ nd_Action n)"

fun RequireAll :: "bool \<Rightarrow> Need list \<Rightarrow> ctx_claims \<Rightarrow> gate" where
  "RequireAll enforceResourceList needs NoClaims = Unauthorized"
| "RequireAll enforceResourceList needs OtherValue = Panic"
| "RequireAll enforceResourceList needs (Claims claims) =
     (if enforceResourceList \<and> \<not> list_all (\<lambda>n. hasResource claims (nd_Resource n)) needs then Forbidden
      else if hasRole claims ''admin'' then Next
      else if list_all (need_met claims) needs then Next
      else Forbidden)"

fun RequireAny :: "bool \<Rightarrow> Need list \<Rightarrow> ctx_claims \<Rightarrow> gate" where
  "RequireAny enforceResourceList needs NoClaims = Unauthorized"
| "RequireAny enforceResourceList needs OtherValue = Panic"
| "RequireAny enforceResourceList needs (Claims claims) =
     (if enforceResourceList \<and> \<not> list_ex (\<lambda>n. hasResource claims (nd_Resource n)) needs then Forbidden
      else if hasRole claims ''admin'' then Next
      else if list_ex (need_met claims) needs then Next
      else Forbidden)"

definition Require :: "bool \<Rightarrow> string \<Rightarrow> string \<Rightarrow> ctx_claims \<Rightarrow> gate" where
  "Require enforceResourceList resource action =
     RequireAll enforceResourceList [\<lparr> nd_Resource = resource, nd_Action = action \<rparr>]"

section \<open>The middleware's own checks\<close>

record UserInfo =
  ui_TenantID :: string
  ui_ProjectID :: string
  ui_ClientID :: string
  ui_UserID :: string
  ui_Email :: string
  ui_Roles :: "string list"
  ui_Groups :: "string list"
  ui_Scopes :: "string list"
  ui_Resources :: "string list"

definition extractStringSlice :: "goval option \<Rightarrow> go_error + string list" where
  "extractStringSlice v =
     (case v of
        None \<Rightarrow> Inr []
      | Some GNil \<Rightarrow> Inr []
      | Some (GStrs ss) \<Rightarrow> Inr ss
      | Some (GArr arr) \<Rightarrow> Inr (concat (map (\<lambda>x. case x of GStr s \<Rightarrow> [s] | _ \<Rightarrow> []) arr))
      | _ \<Rightarrow> Inl (Errorf ''invalid type for string slice''))"

definition slice_or_empty :: "goval option \<Rightarrow> string list" where
  "slice_or_empty v = (case extractStringSlice v of Inr ss \<Rightarrow> ss | Inl _ \<Rightarrow> [])"

definition claim_or :: "MapClaims \<Rightarrow> string \<Rightarrow> string \<Rightarrow> string" where
  "claim_or claims k alt =
     (case claims k of Some (GStr s) \<Rightarrow> s
      | _ \<Rightarrow> (case claims alt of Some (GStr s) \<Rightarrow> s | _ \<Rightarrow> []))"

text \<open>\<^verbatim>\<open>strings.Split(s, " ")\<close>.\<close>

fun split_from :: "string \<Rightarrow> string \<Rightarrow> string list" where
  "split_from w [] = [w]"
| "split_from w (c # cs) =
     (if c = CHR '' '' then w # split_from [] cs else split_from (w @ [c]) cs)"

definition extractUserInfo :: "ctx_claims \<Rightarrow> go_error + UserInfo" where
  "extractUserInfo ctx =
     (case ctx of
        NoClaims \<Rightarrow> Inl (Errorf ''claims not found in context'')
      | OtherValue \<Rightarrow> Inl (Errorf ''invalid claims format'')
      | Claims claims \<Rightarrow>
          (let str = (\<lambda>k. case claims k of Some (GStr s) \<Rightarrow> s | _ \<Rightarrow> []);
               scopes = slice_or_empty (claims ''scopes'')
           in Inr \<lparr> ui_TenantID = str ''tenant_id'', ui_ProjectID = str ''project_id'',
                    ui_ClientID = str ''client_id'', ui_UserID = claim_or claims ''user_id'' ''sub'',
                    ui_Email = claim_or claims ''email_id'' ''email'',
                    ui_Roles = slice_or_empty (claims ''roles''),
                    ui_Groups = slice_or_empty (claims ''groups''),
                    ui_Scopes = (if scopes \<noteq> [] then scopes
                                 else case claims ''scope'' of
                                        Some (GStr s) \<Rightarrow> (if s \<noteq> [] then split_from [] s else [])
                                      | _ \<Rightarrow> []),
                    ui_Resources = slice_or_empty (claims ''resources'') \<rparr>))"

definition mw_hasPerm :: "MapClaims \<Rightarrow> string \<Rightarrow> string \<Rightarrow> bool" where
  "mw_hasPerm claims r a =
     (case claims ''perms'' of
        Some (GArr arr) \<Rightarrow>
          list_ex (\<lambda>p. case p of
             GMap m \<Rightarrow>
               perm_entry m ''r'' = r \<and>
               (case map_of m ''a'' of
                  Some (GArr acts) \<Rightarrow> list_ex (\<lambda>v. as_string v = a) acts
                | Some (GStrs acts) \<Rightarrow> a \<in> set acts
                | _ \<Rightarrow> False)
           | _ \<Rightarrow> False) arr
      | Some (GMaps arr) \<Rightarrow>
          list_ex (\<lambda>m. perm_entry m ''r'' = r \<and>
             (case map_of m ''a'' of
                Some (GArr acts) \<Rightarrow> list_ex (\<lambda>v. as_string v = a) acts
              | _ \<Rightarrow> False)) arr
      | _ \<Rightarrow> False)"

definition mapHTTPMethodToAction :: "string \<Rightarrow> string" where
  "mapHTTPMethodToAction method =
     (let m = ToUpper method
      in if m = ''GET'' then ''read''
         else if m = ''POST'' \<or> m = ''PUT'' \<or> m = ''PATCH'' then ''write''
         else if m = ''DELETE'' then ''delete''
         else ToLower method)"

section \<open>Claims after a trip through JSON\<close>

text \<open>
  What \<^verbatim>\<open>encoding/json\<close> makes of a claim when a signed token is parsed again: every slice becomes
  \<^verbatim>\<open>[]interface{}\<close>, every map and struct \<^verbatim>\<open>map[string]interface{}\<close>, every number \<^verbatim>\<open>float64\<close>.
\<close>

definition json_claims :: "MapClaims \<Rightarrow> MapClaims" where
  "json_claims claims = (\<lambda>k. map_option json_value (claims k))"

section \<open>Lemmas\<close>

lemma split_scope_iff:
  "split_scope s = Some (r, a) \<longleftrightarrow> s = r @ CHR '':'' # a \<and> CHR '':'' \<notin> set r"
proof -
  have "split_scope s = Some (r, a) \<longleftrightarrow> SplitN2 (CHR '':'') s = [r, a]"
    unfolding split_scope_def by (auto split: list.splits)
  then show ?thesis by (simp only: SplitN2_Cons_iff)
qed

lemma split_scope_need [simp]: "CHR '':'' \<notin> set r \<Longrightarrow> split_scope (r @ CHR '':'' # a) = Some (r, a)"
  by (simp only: split_scope_iff) simp

text \<open>The scopes that grant a need, as a relation on strings.\<close>

definition scope_grants :: "string \<Rightarrow> string \<Rightarrow> string \<Rightarrow> bool" where
  "scope_grants h r a \<longleftrightarrow>
     (\<exists>hr ha. h = hr @ CHR '':'' # ha \<and> CHR '':'' \<notin> set hr \<and> part_match hr r \<and> part_match ha a)"

lemma scope_grants_code: "scope_grants h r a \<longleftrightarrow>
    (case split_scope h of None \<Rightarrow> False | Some (hr, ha) \<Rightarrow> part_match hr r \<and> part_match ha a)"
proof -
  have "scope_grants h r a \<longleftrightarrow> (\<exists>hr ha. split_scope h = Some (hr, ha) \<and> part_match hr r \<and> part_match ha a)"
    unfolding scope_grants_def split_scope_iff by blast
  then show ?thesis by (simp split: option.splits)
qed

lemma wildcardMatch_iff:
  assumes "CHR '':'' \<notin> set r"
  shows "wildcardMatch have (r @ CHR '':'' # a) \<longleftrightarrow> (\<exists>h \<in> set have. scope_grants h r a)"
  using assms by (simp add: list_ex_iff scope_grants_code)

lemma match_any_iff: "match_any r a hs \<longleftrightarrow> (\<exists>h \<in> set hs. scope_grants h r a)"
  by (induction hs) (auto simp: scope_grants_code split_scope_def simp del: SplitN2.simps split: list.splits)

text \<open>What the gates rely on in a scope matcher, and what follows from it.\<close>

locale scope_matcher =
  fixes matches :: "string list \<Rightarrow> string \<Rightarrow> bool"
  assumes matches_iff: "CHR '':'' \<notin> set r \<Longrightarrow> matches hs (r @ CHR '':'' # a) \<longleftrightarrow> (\<exists>h \<in> set hs. scope_grants h r a)"
    and matches_malformed: "CHR '':'' \<notin> set needed \<Longrightarrow> \<not> matches hs needed"
begin

lemma matches_mono:
  assumes "set hs \<subseteq> set hs'" and "matches hs needed"
  shows "matches hs' needed"
proof -
  obtain r a where "needed = r @ CHR '':'' # a" "CHR '':'' \<notin> set r"
    using assms(2) matches_malformed by (metis split_list_first)
  with assms show ?thesis by (auto simp: matches_iff)
qed

lemma matches_determined:
  "matches hs needed \<longleftrightarrow> (\<exists>r a. needed = r @ CHR '':'' # a \<and> CHR '':'' \<notin> set r \<and> (\<exists>h \<in> set hs. scope_grants h r a))"
  using matches_iff matches_malformed by (metis split_list_first)

end

interpretation gate_matcher: scope_matcher wildcardMatch
proof
  fix needed hs
  assume "CHR '':'' \<notin> set needed"
  then show "\<not> wildcardMatch hs needed" by (simp add: split_scope_def)
qed (rule wildcardMatch_iff)

interpretation policy_matcher: scope_matcher MatchScope
proof
  fix r a hs
  assume "CHR '':'' \<notin> set r"
  then have "SplitN2 (CHR '':'') (r @ CHR '':'' # a) = [r, a]" unfolding SplitN2_Cons_iff by simp
  then show "MatchScope hs (r @ CHR '':'' # a) \<longleftrightarrow> (\<exists>h \<in> set hs. scope_grants h r a)"
    unfolding MatchScope_def by (simp add: match_any_iff del: SplitN2.simps)
qed (simp add: MatchScope_def)

text \<open>Permissions collected from scopes grant exactly what the scopes grant.\<close>

definition perms_of :: "Perm list \<Rightarrow> (string \<times> string) set" where
  "perms_of m = {(r, a). \<exists>as. (r, as) \<in> set m \<and> a \<in> set as}"

lemma set_set_insert [simp]: "set (set_insert x xs) = insert x (set xs)"
  by (auto simp: set_insert_def)

lemma add_action_keys: "fst ` set (add_action r a m) = insert r (fst ` set m)"
  by (induction r a m rule: add_action.induct) auto

lemma add_action_distinct: "distinct (map fst m) \<Longrightarrow> distinct (map fst (add_action r a m))"
proof (induction r a m rule: add_action.induct)
  case (2 r a r' as m)
  then show ?case using add_action_keys [of r a m] by auto
qed simp

lemma add_action_perms: "perms_of (add_action r a m) = insert (r, a) (perms_of m)"
proof (induction r a m rule: add_action.induct)
  case (1 r a)
  then show ?case by (auto simp: perms_of_def)
next
  case (2 r a r' as m)
  show ?case
  proof (cases "r' = r")
    case True
    then show ?thesis by (auto simp: perms_of_def)
  next
    case False
    have "perms_of ((r', as) # add_action r a m) = perms_of [(r', as)] \<union> perms_of (add_action r a m)"
      by (auto simp: perms_of_def)
    moreover have "perms_of ((r', as) # m) = perms_of [(r', as)] \<union> perms_of m"
      by (auto simp: perms_of_def)
    ultimately show ?thesis using False 2 by simp
  qed
qed

lemma collect_scopes_spec:
  "perms_of (collect_scopes scs m) = perms_of m \<union> {(r, a). \<exists>sc \<in> set scs. split_scope sc = Some (r, a)} \<and>
   (distinct (map fst m) \<longrightarrow> distinct (map fst (collect_scopes scs m)))"
proof (induction scs m rule: collect_scopes.induct)
  case (2 sc scs m)
  then show ?case
    by (cases "split_scope sc") (auto simp: add_action_perms add_action_distinct)
qed simp

lemma FromScopes_perms:
  assumes order: "\<And>ks. set (order ks) = set ks"
  shows "perms_of (FromScopes order scopes) = {(r, a). \<exists>sc \<in> set scopes. split_scope sc = Some (r, a)}"
proof -
  let ?m = "collect_scopes scopes []"
  have dist: "distinct (map fst ?m)" using collect_scopes_spec [of scopes "[]"] by simp
  let ?acts = "\<lambda>r. case map_of ?m r of None \<Rightarrow> [] | Some as \<Rightarrow> as"
  have "(r, a) \<in> perms_of (FromScopes order scopes) \<longleftrightarrow> r \<in> fst ` set ?m \<and> a \<in> set (?acts r)" for r a
    unfolding FromScopes_def Let_def perms_of_def
    by (simp add: order image_iff)
  moreover have "(r, a) \<in> perms_of ?m \<longleftrightarrow> r \<in> fst ` set ?m \<and> a \<in> set (?acts r)" for r a
  proof -
    have "(r, as) \<in> set ?m \<longleftrightarrow> map_of ?m r = Some as" for as using dist by (simp add: map_of_eq_Some_iff)
    moreover have "r \<in> fst ` set ?m \<longleftrightarrow> map_of ?m r \<noteq> None" by (simp add: map_of_eq_None_iff)
    ultimately show ?thesis by (cases "map_of ?m r") (simp_all add: perms_of_def)
  qed
  ultimately have "perms_of (FromScopes order scopes) = perms_of ?m" by (intro set_eqI) (metis prod.exhaust)
  then show ?thesis using collect_scopes_spec [of scopes "[]"] by (auto simp: perms_of_def)
qed

lemma perms_of_ex: "(\<exists>(r, a) \<in> perms_of m. Q r a) \<longleftrightarrow> (\<exists>(r, as) \<in> set m. \<exists>a \<in> set as. Q r a)"
  by (auto simp: perms_of_def)

lemma hasPerm_perms:
  assumes "claims ''perms'' = Some (GPerms ps)"
  shows "hasPerm claims r a \<longleftrightarrow> (\<exists>(pr, pa) \<in> perms_of ps. part_match pr r \<and> part_match pa a)"
  unfolding perms_of_ex using assms by (simp add: hasPerm_def list_ex_iff case_prod_beta)

lemma hasPerm_json:
  assumes "claims ''perms'' = Some (GPerms ps)"
  shows "hasPerm (json_claims claims) r a \<longleftrightarrow> (r, a) \<in> perms_of ps"
proof -
  let ?entry = "\<lambda>(pr, pas). GMap [(''r'', GStr pr), (''a'', GArr (map GStr pas))]"
  have "json_claims claims ''perms'' = Some (GArr (map ?entry ps))"
    using assms by (simp add: json_claims_def)
  then have "hasPerm (json_claims claims) r a \<longleftrightarrow> (\<exists>p \<in> set ps. fst p = r \<and> a \<in> set (snd p))"
    by (auto simp: hasPerm_def list_ex_iff perm_entry_def as_string_def case_prod_beta)
  then show ?thesis by (force simp: perms_of_def)
qed

lemma issued_claims_keys:
  "jwtClaims now tc ty ''perms'' = None" "jwtClaims now tc ty ''scopes'' = None"
  "jwtClaims now tc ty ''scope'' = (if tc_Scopes tc = [] then None else Some (GStrs (tc_Scopes tc)))"
  "jwtClaims now tc ty ''roles'' = (if tc_Roles tc = [] then None else Some (GStrs (tc_Roles tc)))"
  by (auto simp: jwtClaims_def Let_def split: option.splits)








section \<open>Properties\<close>



text \<open>
  C26. Turning scopes into permissions loses nothing and adds nothing, in whatever order Go visits the
  maps: the permission check on the permissions of a scope list agrees with the wildcard match of the
  list itself; and the two wildcard matchers of the package, wildcardMatch and MatchScope, agree.
\<close>

theorem FromScopes_hasPerm:
  assumes "\<forall>ks. set (order ks) = set ks" and "CHR '':'' \<notin> set r"
  shows "(hasPerm [''perms'' \<mapsto> GPerms (FromScopes order scopes)] r a \<longleftrightarrow> wildcardMatch scopes (r @ '':'' @ a)) \<and>
    (MatchScope scopes needed \<longleftrightarrow> wildcardMatch scopes needed)"
proof
  have grants: "wildcardMatch scopes (r @ '':'' @ a) \<longleftrightarrow> (\<exists>h \<in> set scopes. scope_grants h r a)"
    using wildcardMatch_iff [OF assms(2)] by simp
  have "(\<exists>h \<in> set scopes. scope_grants h r a) \<longleftrightarrow>
      (\<exists>(pr, pa) \<in> {(r, a). \<exists>sc \<in> set scopes. split_scope sc = Some (r, a)}. part_match pr r \<and> part_match pa a)"
    unfolding scope_grants_def split_scope_iff by blast
  moreover have "hasPerm [''perms'' \<mapsto> GPerms (FromScopes order scopes)] r a \<longleftrightarrow>
      (\<exists>(pr, pa) \<in> perms_of (FromScopes order scopes). part_match pr r \<and> part_match pa a)"
    by (rule hasPerm_perms) simp
  ultimately show "hasPerm [''perms'' \<mapsto> GPerms (FromScopes order scopes)] r a \<longleftrightarrow> wildcardMatch scopes (r @ '':'' @ a)"
    using assms(1) by (simp only: grants FromScopes_perms)
  show "MatchScope scopes needed \<longleftrightarrow> wildcardMatch scopes needed"
    unfolding gate_matcher.matches_determined policy_matcher.matches_determined ..
qed

theorem FromScopes_hasPerm_witness:
  "hasPerm [''perms'' \<mapsto> GPerms (FromScopes rev [''invoice:read'', ''invoice:void'', ''user:*''])] ''user'' ''delete''"
proof -
  have "wildcardMatch [''invoice:read'', ''invoice:void'', ''user:*''] (''user'' @ '':'' @ ''delete'')" by code_simp
  moreover have "\<forall>ks :: string list. set (rev ks) = set ks" "CHR '':'' \<notin> set ''user''" by simp_all
  ultimately show ?thesis using FromScopes_hasPerm [of rev "''user''"] by blast
qed

text \<open>
  The same permissions read back from a token grant less: once the permissions have been through
  JSON the check compares strings and ignores wildcards, so it accepts exactly the pairs that were
  listed as scopes, while the check on the freshly built permissions honours wildcards.
\<close>

theorem json_perms_exact:
  assumes "\<forall>ks. set (order ks) = set ks"
  shows "hasPerm (json_claims [''perms'' \<mapsto> GPerms (FromScopes order scopes)]) r a \<longleftrightarrow>
    (\<exists>sc \<in> set scopes. split_scope sc = Some (r, a))"
proof -
  have "hasPerm (json_claims [''perms'' \<mapsto> GPerms (FromScopes order scopes)]) r a \<longleftrightarrow>
      (r, a) \<in> perms_of (FromScopes order scopes)" by (rule hasPerm_json) simp
  then show ?thesis using assms by (simp add: FromScopes_perms)
qed

theorem json_perms_exact_witness:
  "\<not> hasPerm (json_claims [''perms'' \<mapsto> GPerms (FromScopes rev [''*:*''])]) ''user'' ''read'' \<and>
   hasPerm [''perms'' \<mapsto> GPerms (FromScopes rev [''*:*''])] ''user'' ''read''"
proof
  have "\<not> (\<exists>sc \<in> set [''*:*'']. split_scope sc = Some (''user'', ''read''))" by code_simp
  then show "\<not> hasPerm (json_claims [''perms'' \<mapsto> GPerms (FromScopes rev [''*:*''])]) ''user'' ''read''"
    using json_perms_exact [of rev] by simp
  show "hasPerm [''perms'' \<mapsto> GPerms (FromScopes rev [''*:*''])] ''user'' ''read''" by code_simp
qed

text \<open>
  Tokens of the token service and the gates do not fit: the token carries its scopes as an array
  under the key scope, the gates read that key only as a string, and no permissions are put into the
  token. So a token without the admin role is refused by every gate with at least one requirement,
  whatever scopes it was issued with, whether its claims are used directly or parsed from the token.
\<close>

theorem issued_token_refused:
  assumes "needs \<noteq> []" and "''admin'' \<notin> set (tc_Roles tc)" and "f \<in> {\<lambda>c. c, json_claims}"
  shows "RequireAll enforce needs (Claims (f (jwtClaims now tc ty))) = Forbidden"
proof -
  let ?c = "f (jwtClaims now tc ty)"
  have "?c ''perms'' = None" "?c ''scopes'' = None" "\<nexists>s. ?c ''scope'' = Some (GStr s)" "\<not> hasRole ?c ''admin''"
    using assms(2,3) by (auto simp: json_claims_def issued_claims_keys hasRole_def list_ex_iff split: if_splits)
  then have "\<not> need_met ?c n" for n
    by (auto simp: need_met_def hasPerm_def hasScope_def split: option.splits goval.splits)
  with \<open>\<not> hasRole ?c ''admin''\<close> assms(1) show ?thesis by (cases needs) auto
qed

theorem issued_token_refused_witness:
  "RequireAll False [\<lparr> nd_Resource = ''invoice'', nd_Action = ''read'' \<rparr>]
     (Claims (json_claims (jwtClaims 0 (user_claims ''u-1'' ''t-1'' ''a@x.io'' [''invoice:read''] Hour) ''default''))) = Forbidden"
  by (rule issued_token_refused) (simp_all add: user_claims_def empty_claims_def)

text \<open>
  The permission check of the authentication middleware is the one of the gates wherever the claims
  come from a parsed token; on permissions built in memory the middleware refuses what the gates accept.
\<close>

theorem mw_hasPerm_agrees:
  "mw_hasPerm claims r a = (hasPerm claims r a \<and> (\<nexists>ps. claims ''perms'' = Some (GPerms ps)))"
  by (auto simp: mw_hasPerm_def hasPerm_def split: option.splits goval.splits)

end
