(* ===== verification/Go_Regexp.thy ===== *)
theory Go_Regexp
  imports Go_Strings
begin

text \<open>
  The fragment of Go's \<^verbatim>\<open>regexp\<close> that the validators use, anchored at both ends: character classes,
  alternation, concatenation and repetition. \<open>MatchString\<close> runs by derivatives; \<open>lang\<close> is the language
  of an expression, and \<open>MatchString_iff\<close> says that they agree. The lemmas after it give closed forms
  for the shapes that occur in the validators.
\<close>

section \<open>Expressions\<close>

text \<open>A class is a list of character ranges.\<close>

datatype rx =
    Zero
  | Eps
  | Cls "(char \<times> char) list"
  | Alt rx rx
  | Seq rx rx
  | Star rx

definition in_class :: "(char \<times> char) list \<Rightarrow> char \<Rightarrow> bool" where
  "in_class rs c = list_ex (\<lambda>(lo, hi). (of_char lo :: nat) \<le> of_char c \<and> (of_char c :: nat) \<le> of_char hi) rs"

definition Plus :: "rx \<Rightarrow> rx" where "Plus r = Seq r (Star r)"
definition Opt :: "rx \<Rightarrow> rx" where "Opt r = Alt Eps r"

fun Rep :: "nat \<Rightarrow> rx \<Rightarrow> rx" where
  "Rep 0 r = Eps"
| "Rep (Suc n) r = Seq r (Rep n r)"

text \<open>At most \<open>n\<close> repetitions, and \<^verbatim>\<open>r{m,n}\<close>, \<^verbatim>\<open>r{m,}\<close>.\<close>

fun UpTo :: "nat \<Rightarrow> rx \<Rightarrow> rx" where
  "UpTo 0 r = Eps"
| "UpTo (Suc n) r = Opt (Seq r (UpTo n r))"

definition Between :: "nat \<Rightarrow> nat \<Rightarrow> rx \<Rightarrow> rx" where
  "Between m n r = Seq (Rep m r) (UpTo (n - m) r)"

definition AtLeast :: "nat \<Rightarrow> rx \<Rightarrow> rx" where
  "AtLeast m r = Seq (Rep m r) (Star r)"

definition Lit :: "char \<Rightarrow> rx" where "Lit c = Cls [(c, c)]"

section \<open>Matching\<close>

primrec nullable :: "rx \<Rightarrow> bool" where
  "nullable Zero = False"
| "nullable Eps = True"
| "nullable (Cls rs) = False"
| "nullable (Alt r s) = (nullable r \<or> nullable s)"
| "nullable (Seq r s) = (nullable r \<and> nullable s)"
| "nullable (Star r) = True"

text \<open>Concatenation and alternation that drop the dead branches, so that derivatives stay small.\<close>

fun seq :: "rx \<Rightarrow> rx \<Rightarrow> rx" where
  "seq Zero s = Zero"
| "seq Eps s = s"
| "seq r s = Seq r s"

fun alt :: "rx \<Rightarrow> rx \<Rightarrow> rx" where
  "alt Zero s = s"
| "alt r Zero = r"
| "alt r s = Alt r s"

primrec deriv :: "char \<Rightarrow> rx \<Rightarrow> rx" where
  "deriv c Zero = Zero"
| "deriv c Eps = Zero"
| "deriv c (Cls rs) = (if in_class rs c then Eps else Zero)"
| "deriv c (Alt r s) = alt (deriv c r) (deriv c s)"
| "deriv c (Seq r s) =
     (if nullable r then alt (seq (deriv c r) s) (deriv c s) else seq (deriv c r) s)"
| "deriv c (Star r) = seq (deriv c r) (Star r)"

primrec MatchString :: "rx \<Rightarrow> string \<Rightarrow> bool" where
  "MatchString r [] = nullable r"
| "MatchString r (c # cs) = MatchString (deriv c r) cs"

section \<open>Languages\<close>

inductive_set star :: "string set \<Rightarrow> string set" for L where
  star_nil: "[] \<in> star L"
| star_app: "u \<in> L \<Longrightarrow> v \<in> star L \<Longrightarrow> u @ v \<in> star L"

definition conc :: "string set \<Rightarrow> string set \<Rightarrow> string set" where
  "conc A B = {u @ v | u v. u \<in> A \<and> v \<in> B}"

primrec lang :: "rx \<Rightarrow> string set" where
  "lang Zero = {}"
| "lang Eps = {[]}"
| "lang (Cls rs) = {[c] | c. in_class rs c}"
| "lang (Alt r s) = lang r \<union> lang s"
| "lang (Seq r s) = conc (lang r) (lang s)"
| "lang (Star r) = star (lang r)"

lemma conc_iff: "w \<in> conc A B \<longleftrightarrow> (\<exists>u v. w = u @ v \<and> u \<in> A \<and> v \<in> B)"
  by (auto simp: conc_def)

lemma lang_seq [simp]: "lang (seq r s) = conc (lang r) (lang s)"
  by (cases "(r, s)" rule: seq.cases) (auto simp: conc_def)

lemma lang_alt [simp]: "lang (alt r s) = lang r \<union> lang s"
  by (cases "(r, s)" rule: alt.cases) auto

lemma nullable_iff: "nullable r \<longleftrightarrow> [] \<in> lang r"
  by (induction r) (auto simp: conc_def star_nil)

lemma star_Cons:
  "c # cs \<in> star L \<longleftrightarrow> (\<exists>u v. cs = u @ v \<and> c # u \<in> L \<and> v \<in> star L)"
proof
  assume "c # cs \<in> star L"
  then show "\<exists>u v. cs = u @ v \<and> c # u \<in> L \<and> v \<in> star L"
  proof (induction "c # cs" arbitrary: cs)
    case (star_app u v)
    show ?case
    proof (cases u)
      case Nil
      with star_app show ?thesis by simp
    next
      case (Cons d u')
      with star_app show ?thesis by auto
    qed
  qed
next
  assume "\<exists>u v. cs = u @ v \<and> c # u \<in> L \<and> v \<in> star L"
  then show "c # cs \<in> star L" using star_app by fastforce
qed

lemma conc_Cons:
  "c # cs \<in> conc A B \<longleftrightarrow> (\<exists>u v. cs = u @ v \<and> c # u \<in> A \<and> v \<in> B) \<or> ([] \<in> A \<and> c # cs \<in> B)"
  unfolding conc_iff Cons_eq_append_conv by blast

lemma lang_deriv: "cs \<in> lang (deriv c r) \<longleftrightarrow> c # cs \<in> lang r"
proof (induction r arbitrary: cs)
  case (Seq r s)
  have "cs \<in> conc (lang (deriv c r)) (lang s) \<longleftrightarrow> (\<exists>u v. cs = u @ v \<and> c # u \<in> lang r \<and> v \<in> lang s)"
    using Seq.IH(1) by (auto simp: conc_iff)
  with Seq.IH(2) show ?case by (simp add: conc_Cons nullable_iff)
next
  case (Star r)
  then show ?case by (auto simp: conc_iff star_Cons)
qed auto

theorem MatchString_iff: "MatchString r s \<longleftrightarrow> s \<in> lang r"
  by (induction s arbitrary: r) (simp_all add: nullable_iff lang_deriv)

section \<open>Closed forms\<close>

lemma star_class: "star {[c] | c. P c} = {s. \<forall>c \<in> set s. P c}"
proof
  show "star {[c] | c. P c} \<subseteq> {s. \<forall>c \<in> set s. P c}"
  proof
    fix s
    assume "s \<in> star {[c] | c. P c}"
    then show "s \<in> {s. \<forall>c \<in> set s. P c}" by induction auto
  qed
  show "{s. \<forall>c \<in> set s. P c} \<subseteq> star {[c] | c. P c}"
  proof
    fix s
    assume "s \<in> {s. \<forall>c \<in> set s. P c}"
    then show "s \<in> star {[c] | c. P c}"
    proof (induction s)
      case (Cons c s)
      then have "[c] \<in> {[c] | c. P c}" "s \<in> star {[c] | c. P c}" by auto
      then have "[c] @ s \<in> star {[c] | c. P c}" by (rule star_app)
      then show ?case by simp
    qed (rule star_nil)
  qed
qed

lemma lang_Star_Cls: "lang (Star (Cls rs)) = {s. \<forall>c \<in> set s. in_class rs c}"
  by (simp add: star_class)

lemma conc_class: "s \<in> conc {[c] | c. P c} B \<longleftrightarrow> (\<exists>c cs. s = c # cs \<and> P c \<and> cs \<in> B)"
proof
  assume "\<exists>c cs. s = c # cs \<and> P c \<and> cs \<in> B"
  then obtain c cs where "s = [c] @ cs" "P c" "cs \<in> B" by auto
  then show "s \<in> conc {[c] | c. P c} B" unfolding conc_def by blast
qed (auto simp: conc_iff)

lemma lang_Plus_Cls: "lang (Plus (Cls rs)) = {s. s \<noteq> [] \<and> (\<forall>c \<in> set s. in_class rs c)}"
proof -
  have "s \<in> lang (Plus (Cls rs)) \<longleftrightarrow> s \<noteq> [] \<and> (\<forall>c \<in> set s. in_class rs c)" for s
    by (cases s) (auto simp: Plus_def star_class conc_class)
  then show ?thesis by blast
qed

lemma lang_Rep_Cls: "lang (Rep n (Cls rs)) = {s. length s = n \<and> (\<forall>c \<in> set s. in_class rs c)}"
proof (induction n)
  case (Suc n)
  have "s \<in> lang (Rep (Suc n) (Cls rs)) \<longleftrightarrow> length s = Suc n \<and> (\<forall>c \<in> set s. in_class rs c)" for s
    using Suc by (cases s) (auto simp: conc_class)
  then show ?case by blast
qed auto

lemma lang_UpTo_Cls: "lang (UpTo n (Cls rs)) = {s. length s \<le> n \<and> (\<forall>c \<in> set s. in_class rs c)}"
proof (induction n)
  case (Suc n)
  have "s \<in> lang (UpTo (Suc n) (Cls rs)) \<longleftrightarrow> length s \<le> Suc n \<and> (\<forall>c \<in> set s. in_class rs c)" for s
    using Suc by (cases s) (auto simp: Opt_def conc_class)
  then show ?case by blast
qed auto

lemma append_length_class:
  "(\<exists>u v. s = u @ v \<and> length u = m \<and> (\<forall>c \<in> set u. P c) \<and> Q (length v) \<and> (\<forall>c \<in> set v. P c)) \<longleftrightarrow>
     m \<le> length s \<and> Q (length s - m) \<and> (\<forall>c \<in> set s. P c)"
proof
  assume "m \<le> length s \<and> Q (length s - m) \<and> (\<forall>c \<in> set s. P c)"
  then show "\<exists>u v. s = u @ v \<and> length u = m \<and> (\<forall>c \<in> set u. P c) \<and> Q (length v) \<and> (\<forall>c \<in> set v. P c)"
    by (intro exI [of _ "take m s"] exI [of _ "drop m s"]) (auto dest: in_set_takeD in_set_dropD)
qed auto

lemma lang_Between_Cls:
  assumes "m \<le> n"
  shows "lang (Between m n (Cls rs)) = {s. m \<le> length s \<and> length s \<le> n \<and> (\<forall>c \<in> set s. in_class rs c)}"
  using assms append_length_class [of _ m "in_class rs" "\<lambda>k. k \<le> n - m"]
  by (auto simp: Between_def conc_def lang_Rep_Cls lang_UpTo_Cls)

lemma lang_AtLeast_Cls:
  "lang (AtLeast m (Cls rs)) = {s. m \<le> length s \<and> (\<forall>c \<in> set s. in_class rs c)}"
  using append_length_class [of _ m "in_class rs" "\<lambda>k. True"]
  by (auto simp: AtLeast_def conc_def lang_Rep_Cls star_class)

lemma lang_Lit: "lang (Lit c) = {[c]}"
  by (auto simp: Lit_def in_class_def)

end
