(* ===== verification/Go_Runes.thy ===== *)
theory Go_Runes
  imports Go_Strings
begin

text \<open>
  Strings as sequences of runes: the decoding that \<^verbatim>\<open>for _, r := range s\<close> does on the bytes of a string, and the character
  classes of the package \<^verbatim>\<open>unicode\<close>.

  \<^item> A \<^typ>\<open>char\<close> is one byte. A byte that does not start a well-formed sequence gives \<^verbatim>\<open>utf8.RuneError\<close>, and the decoding
    goes on with the next byte.
  \<^item> A code point has one general category. For the code points up to \<^verbatim>\<open>MaxLatin1\<close> it is the table \<^verbatim>\<open>properties\<close> of the package;
    beyond them the argument \<open>cat\<close> stands for the tables of the Unicode version that Go was built with, except that
    \<^verbatim>\<open>RuneError\<close> is a symbol in all of them.
\<close>

section \<open>Decoding\<close>

definition RuneError :: nat where
  "RuneError = 0xFFFD"

definition in_range :: "nat \<times> nat \<Rightarrow> nat \<Rightarrow> bool" where
  "in_range r b \<longleftrightarrow> fst r \<le> b \<and> b \<le> snd r"

abbreviation continuation :: "nat \<Rightarrow> bool" where
  "continuation b \<equiv> in_range (0x80, 0xBF) b"

text \<open>The second byte that may follow a first one (\<^verbatim>\<open>acceptRanges\<close>): no overlong form, no surrogate, nothing above \<^verbatim>\<open>MaxRune\<close>.\<close>

definition accept_range :: "nat \<Rightarrow> nat \<times> nat" where
  "accept_range b =
     (if b = 0xE0 then (0xA0, 0xBF) else if b = 0xED then (0x80, 0x9F)
      else if b = 0xF0 then (0x90, 0xBF) else if b = 0xF4 then (0x80, 0x8F) else (0x80, 0xBF))"

text \<open>The rune that the byte \<open>b\<close> and the bytes \<open>bs\<close> after it start with, and how many bytes of \<open>bs\<close> it takes.\<close>

definition decode_rune :: "nat \<Rightarrow> nat list \<Rightarrow> nat \<times> nat" where
  "decode_rune b bs =
     (if b < 0x80 then (b, 0)
      else if in_range (0xC2, 0xDF) b then
        (case bs of
           x # _ \<Rightarrow> if in_range (accept_range b) x then ((b - 0xC0) * 64 + (x - 0x80), 1) else (RuneError, 0)
         | _ \<Rightarrow> (RuneError, 0))
      else if in_range (0xE0, 0xEF) b then
        (case bs of
           x # y # _ \<Rightarrow>
             if in_range (accept_range b) x \<and> continuation y
             then ((b - 0xE0) * 4096 + (x - 0x80) * 64 + (y - 0x80), 2) else (RuneError, 0)
         | _ \<Rightarrow> (RuneError, 0))
      else if in_range (0xF0, 0xF4) b then
        (case bs of
           x # y # z # _ \<Rightarrow>
             if in_range (accept_range b) x \<and> continuation y \<and> continuation z
             then ((b - 0xF0) * 262144 + (x - 0x80) * 4096 + (y - 0x80) * 64 + (z - 0x80), 3) else (RuneError, 0)
         | _ \<Rightarrow> (RuneError, 0))
      else (RuneError, 0))"

function decode_runes :: "nat list \<Rightarrow> nat list" where
  "decode_runes [] = []"
| "decode_runes (b # bs) = (let (r, n) = decode_rune b bs in r # decode_runes (drop n bs))"
  by pat_completeness auto

termination
  by (relation "measure length") auto

definition runes :: "string \<Rightarrow> nat list" where
  "runes s = decode_runes (map of_char s)"

section \<open>Character classes\<close>

datatype category = Lu | Ll | Number | Punct | Symbol | OtherCategory

definition latin1_category :: "nat \<Rightarrow> category" where
  "latin1_category r =
     (if in_range (0x41, 0x5A) r \<or> in_range (0xC0, 0xDE) r \<and> r \<noteq> 0xD7 then Lu
      else if in_range (0x61, 0x7A) r \<or> r = 0xB5 \<or> in_range (0xDF, 0xFF) r \<and> r \<noteq> 0xF7 then Ll
      else if in_range (0x30, 0x39) r \<or> r \<in> {0xB2, 0xB3, 0xB9, 0xBC, 0xBD, 0xBE} then Number
      else if r \<in> {0x24, 0x2B, 0x3C, 0x3D, 0x3E, 0x5E, 0x60, 0x7C, 0x7E, 0xA2, 0xA3, 0xA4, 0xA5, 0xA6, 0xA8, 0xA9,
                  0xAC, 0xAE, 0xAF, 0xB0, 0xB1, 0xB4, 0xB8, 0xD7, 0xF7} then Symbol
      else if in_range (0x21, 0x7E) r \<or> r \<in> {0xA1, 0xA7, 0xAB, 0xB6, 0xB7, 0xBB, 0xBF} then Punct
      else OtherCategory)"

definition category_of :: "(nat \<Rightarrow> category) \<Rightarrow> nat \<Rightarrow> category" where
  "category_of cat r = (if r \<le> 0xFF then latin1_category r else if r = RuneError then Symbol else cat r)"

definition IsUpper :: "(nat \<Rightarrow> category) \<Rightarrow> nat \<Rightarrow> bool" where "IsUpper cat r \<longleftrightarrow> category_of cat r = Lu"
definition IsLower :: "(nat \<Rightarrow> category) \<Rightarrow> nat \<Rightarrow> bool" where "IsLower cat r \<longleftrightarrow> category_of cat r = Ll"
definition IsNumber :: "(nat \<Rightarrow> category) \<Rightarrow> nat \<Rightarrow> bool" where "IsNumber cat r \<longleftrightarrow> category_of cat r = Number"
definition IsPunct :: "(nat \<Rightarrow> category) \<Rightarrow> nat \<Rightarrow> bool" where "IsPunct cat r \<longleftrightarrow> category_of cat r = Punct"
definition IsSymbol :: "(nat \<Rightarrow> category) \<Rightarrow> nat \<Rightarrow> bool" where "IsSymbol cat r \<longleftrightarrow> category_of cat r = Symbol"

lemmas rune_classes = IsUpper_def IsLower_def IsNumber_def IsPunct_def IsSymbol_def

section \<open>Encoding\<close>

text \<open>\<^verbatim>\<open>utf8.AppendRune\<close> on a code point that is no surrogate, for the round trip.\<close>

definition encode_rune :: "nat \<Rightarrow> nat list" where
  "encode_rune r =
     (if r < 0x80 then [r]
      else if r < 0x800 then [0xC0 + r div 64, 0x80 + r mod 64]
      else if r < 0x10000 then [0xE0 + r div 4096, 0x80 + r div 64 mod 64, 0x80 + r mod 64]
      else [0xF0 + r div 262144, 0x80 + r div 4096 mod 64, 0x80 + r div 64 mod 64, 0x80 + r mod 64])"

definition scalar_value :: "nat \<Rightarrow> bool" where
  "scalar_value r \<longleftrightarrow> r < 0xD800 \<or> 0xDFFF < r \<and> r \<le> 0x10FFFF"

lemma digits64:
  fixes r :: nat
  shows "r = r div 4096 * 4096 + r div 64 mod 64 * 64 + r mod 64"
    and "r = r div 262144 * 262144 + r div 4096 mod 64 * 4096 + r div 64 mod 64 * 64 + r mod 64"
proof -
  have step: "q = q div 64 * 64 + q mod 64" for q :: nat by simp
  have two: "r div 64 = r div 4096 * 64 + r div 64 mod 64" and three: "r div 4096 = r div 262144 * 64 + r div 4096 mod 64"
    using step [of "r div 64"] step [of "r div 4096"] by (simp_all add: div_mult2_eq [symmetric])
  show one: "r = r div 4096 * 4096 + r div 64 mod 64 * 64 + r mod 64"
    using step [of r] arg_cong [OF two, of "\<lambda>q. q * 64"] by simp
  show "r = r div 262144 * 262144 + r div 4096 mod 64 * 4096 + r div 64 mod 64 * 64 + r mod 64"
    using one arg_cong [OF three, of "\<lambda>q. q * 4096"] by simp
qed

lemma decode_encode:
  assumes "scalar_value r"
  shows "\<exists>b cs. encode_rune r = b # cs \<and> decode_rune b (cs @ bs) = (r, length cs)"
proof -
  have "r \<le> 0x10FFFF" using assms by (auto simp: scalar_value_def)
  then consider "r < 0x80" | "0x80 \<le> r" "r < 0x800" | "0x800 \<le> r" "r < 0x10000" | "0x10000 \<le> r" "r \<le> 0x10FFFF"
    by linarith
  then show ?thesis
  proof cases
    case 1
    then show ?thesis by (simp add: encode_rune_def decode_rune_def)
  next
    case 2
    then have "2 \<le> r div 64" "r div 64 < 32" by auto
    with 2 show ?thesis by (auto simp: encode_rune_def decode_rune_def in_range_def accept_range_def)
  next
    case 3
    define a where "a = r div 4096"
    define m where "m = r div 64 mod 64"
    have r: "r = a * 4096 + m * 64 + r mod 64"
      unfolding a_def m_def by (rule digits64)
    have a: "a < 16" using 3 by (simp add: a_def)
    have m: "m < 64" "r mod 64 < 64" by (simp_all add: m_def)
    have low: "a = 0 \<Longrightarrow> 0x20 \<le> m" using 3 r m by linarith
    have gap: "a = 13 \<Longrightarrow> m < 0x20" using assms r m unfolding scalar_value_def by linarith
    have enc: "encode_rune r = [0xE0 + a, 0x80 + m, 0x80 + r mod 64]" using 3 by (simp add: encode_rune_def a_def m_def)
    have "decode_rune (0xE0 + a) ([0x80 + m, 0x80 + r mod 64] @ bs) = (a * 4096 + m * 64 + r mod 64, 2)"
      using a m low gap by (auto simp: decode_rune_def in_range_def accept_range_def)
    with enc r show ?thesis by simp
  next
    case 4
    define a where "a = r div 262144"
    define l where "l = r div 4096 mod 64"
    define m where "m = r div 64 mod 64"
    have r: "r = a * 262144 + l * 4096 + m * 64 + r mod 64"
      unfolding a_def l_def m_def by (rule digits64)
    have a: "a < 5" using 4 by (simp add: a_def)
    have m: "l < 64" "m < 64" "r mod 64 < 64" by (simp_all add: l_def m_def)
    have low: "a = 0 \<Longrightarrow> 0x10 \<le> l" using 4 r m by linarith
    have top: "a = 4 \<Longrightarrow> l < 0x10" using 4 r m by linarith
    have enc: "encode_rune r = [0xF0 + a, 0x80 + l, 0x80 + m, 0x80 + r mod 64]" using 4 by (simp add: encode_rune_def a_def l_def m_def)
    have "decode_rune (0xF0 + a) ([0x80 + l, 0x80 + m, 0x80 + r mod 64] @ bs) = (a * 262144 + l * 4096 + m * 64 + r mod 64, 3)"
      using a m low top by (auto simp: decode_rune_def in_range_def accept_range_def)
    with enc r show ?thesis by simp
  qed
qed

text \<open>Encoding followed by decoding gives the runes back; in particular an ASCII string is the list of its bytes.\<close>

lemma decode_runes_encode:
  "list_all scalar_value rs \<Longrightarrow> decode_runes (concat (map encode_rune rs)) = rs"
proof (induction rs)
  case (Cons r rs)
  then obtain b cs where "encode_rune r = b # cs" "decode_rune b (cs @ concat (map encode_rune rs)) = (r, length cs)"
    using decode_encode by fastforce
  with Cons show ?case by simp
qed simp

lemma runes_ascii:
  assumes "\<forall>c \<in> set s. (of_char c :: nat) < 0x80"
  shows "runes s = map of_char s"
  using assms unfolding runes_def by (induction s) (simp_all add: decode_rune_def)

end
