(* ===== verification/Input_Validation.thy ===== *)
theory Input_Validation
  imports Go_Regexp Go_Runes
begin

text \<open>
  \<^verbatim>\<open>utils/input_validation.go\<close>: the validators, each returning the error it would return or \<open>None\<close>.
  \<open>ValidatePassword\<close> takes any bytes, counts bytes and classifies runes; \<open>cat\<close> is the category of a code point beyond
  Latin-1 (theory \<open>Go_Runes\<close>). The inputs of the other validators are ASCII. The regular expressions are the source's, as
  terms of theory \<open>Go_Regexp\<close>; \<^verbatim>\<open>mail.ParseAddress\<close> is the argument \<open>parses\<close> of \<open>ValidateEmail\<close>.
\<close>

section \<open>Patterns\<close>

abbreviation lower :: "char \<times> char" where "lower \<equiv> (CHR ''a'', CHR ''z'')"
abbreviation upper :: "char \<times> char" where "upper \<equiv> (CHR ''A'', CHR ''Z'')"
abbreviation digit :: "char \<times> char" where "digit \<equiv> (CHR ''0'', CHR ''9'')"
abbreviation one :: "char \<Rightarrow> char \<times> char" where "one c \<equiv> (c, c)"

definition hex_class :: "(char \<times> char) list" where
  "hex_class = [digit, (CHR ''a'', CHR ''f''), (CHR ''A'', CHR ''F'')]"

definition usernameRegex :: rx where
  "usernameRegex = Plus (Cls [lower, upper, digit, one (CHR ''.''), one (CHR ''_''), one (CHR ''-'')])"

definition uuidRegex :: rx where
  "uuidRegex =
     (let h = Cls hex_class; d = Lit (CHR ''-'')
      in Seq (Rep 8 h) (Seq d (Seq (Rep 4 h) (Seq d (Seq (Rep 4 h) (Seq d (Seq (Rep 4 h) (Seq d (Rep 12 h)))))))))"

definition label_rx :: rx where
  "label_rx =
     Seq (Cls [lower, digit])
       (Opt (Seq (Star (Cls [lower, digit, one (CHR ''-'')])) (Cls [lower, digit])))"

definition domainRegex :: rx where
  "domainRegex = Seq (Plus (Seq label_rx (Lit (CHR ''.'')))) (AtLeast 2 (Cls [lower]))"

definition phoneRegex :: rx where
  "phoneRegex = Seq (Opt (Lit (CHR ''+''))) (Seq (Cls [(CHR ''1'', CHR ''9'')]) (Between 1 14 (Cls [digit])))"

definition otpRegex :: rx where
  "otpRegex = Rep 6 (Cls [digit])"

definition clientIDRegex :: rx where
  "clientIDRegex = Plus (Cls [lower, upper, digit, one (CHR ''_''), one (CHR ''-'')])"

definition tenantIDRegex :: rx where
  "tenantIDRegex = Between 3 50 (Cls [lower, upper, digit, one (CHR ''_''), one (CHR ''-'')])"

section \<open>Validators\<close>

definition ValidateEmail :: "(string \<Rightarrow> bool) \<Rightarrow> string \<Rightarrow> string option" where
  "ValidateEmail parses email =
     (if email = [] then Some ''email is required''
      else let email = TrimSpace email
           in if length email > 254 then Some ''email exceeds maximum length of 254 characters''
              else if \<not> parses email then Some ''invalid email format''
              else None)"

definition ValidateName :: "string \<Rightarrow> string \<Rightarrow> bool \<Rightarrow> string option" where
  "ValidateName name fieldName required =
     (let name = TrimSpace name
      in if required \<and> name = [] then Some (fieldName @ '' is required'')
         else if name = [] \<and> \<not> required then None
         else if length name < 1 then Some (fieldName @ '' must be at least 1 character'')
         else if length name > 100 then Some (fieldName @ '' exceeds maximum length of 100 characters'')
         else if \<not> list_all is_print name then Some (fieldName @ '' contains invalid characters'')
         else let lowerName = ToLower name
              in if Contains lowerName ''<script'' \<or> Contains lowerName ''javascript:'' \<or>
                    Contains lowerName ''onerror='' \<or> Contains lowerName ''onload=''
                 then Some (fieldName @ '' contains potentially malicious content'')
                 else None)"

definition ValidateUsername :: "string \<Rightarrow> string option" where
  "ValidateUsername username =
     (if username = [] then Some ''username is required''
      else let username = TrimSpace username
           in if length username < 3 then Some ''username must be at least 3 characters''
              else if length username > 50 then Some ''username exceeds maximum length of 50 characters''
              else if \<not> MatchString usernameRegex username then
                Some ''username can only contain letters, numbers, dots, underscores, and hyphens''
              else None)"

text \<open>The loop over the runes, with its four flags.\<close>

record char_flags =
  hasUpper :: bool
  hasLower :: bool
  hasNumber :: bool
  hasSpecial :: bool

definition note_char :: "(nat \<Rightarrow> category) \<Rightarrow> char_flags \<Rightarrow> nat \<Rightarrow> char_flags" where
  "note_char cat f r =
     (if IsUpper cat r then f\<lparr> hasUpper := True \<rparr>
      else if IsLower cat r then f\<lparr> hasLower := True \<rparr>
      else if IsNumber cat r then f\<lparr> hasNumber := True \<rparr>
      else if IsPunct cat r \<or> IsSymbol cat r then f\<lparr> hasSpecial := True \<rparr>
      else f)"

definition no_flags :: char_flags where
  "no_flags = \<lparr> hasUpper = False, hasLower = False, hasNumber = False, hasSpecial = False \<rparr>"

definition ValidatePassword :: "(nat \<Rightarrow> category) \<Rightarrow> string \<Rightarrow> string option" where
  "ValidatePassword cat password =
     (if password = [] then Some ''password is required''
      else if length password < 10 then Some ''password must be at least 10 characters''
      else if length password > 128 then Some ''password exceeds maximum length of 128 characters''
      else let f = foldl (note_char cat) no_flags (runes password)
           in if \<not> hasUpper f then Some ''password must contain at least one uppercase letter''
              else if \<not> hasLower f then Some ''password must contain at least one lowercase letter''
              else if \<not> hasNumber f then Some ''password must contain at least one number''
              else if \<not> hasSpecial f then Some ''password must contain at least one special character''
              else None)"

definition ValidateUUID :: "string \<Rightarrow> string \<Rightarrow> string option" where
  "ValidateUUID uuidStr fieldName =
     (if uuidStr = [] then Some (fieldName @ '' is required'')
      else if \<not> MatchString uuidRegex uuidStr then Some (fieldName @ '' must be a valid UUID'')
      else None)"

definition ValidateURL :: "string \<Rightarrow> string \<Rightarrow> bool \<Rightarrow> string option" where
  "ValidateURL urlStr fieldName required =
     (let urlStr = TrimSpace urlStr
      in if required \<and> urlStr = [] then Some (fieldName @ '' is required'')
         else if urlStr = [] \<and> \<not> required then None
         else if length urlStr > 2048 then Some (fieldName @ '' exceeds maximum length of 2048 characters'')
         else if \<not> HasPrefix urlStr ''http://'' \<and> \<not> HasPrefix urlStr ''https://'' then
           Some (fieldName @ '' must start with http:// or https://'')
         else let lowerURL = ToLower urlStr
              in if Contains lowerURL ''javascript:'' \<or> Contains lowerURL ''data:'' \<or> Contains lowerURL ''vbscript:''
                 then Some (fieldName @ '' contains potentially malicious scheme'')
                 else None)"

definition ValidateDomain :: "string \<Rightarrow> string \<Rightarrow> string option" where
  "ValidateDomain domain fieldName =
     (if domain = [] then Some (fieldName @ '' is required'')
      else let domain = ToLower (TrimSpace domain)
           in if length domain > 253 then Some (fieldName @ '' exceeds maximum length of 253 characters'')
              else if \<not> MatchString domainRegex domain then Some (fieldName @ '' must be a valid domain name'')
              else if Contains domain ''..'' \<or> HasPrefix domain ''-'' \<or> HasSuffix domain ''-'' \<or>
                      HasPrefix domain ''.'' \<or> HasSuffix domain ''.''
                   then Some (fieldName @ '' contains invalid domain format'')
              else None)"

definition strip_phone :: "string \<Rightarrow> string" where
  "strip_phone phone =
     remove_char (CHR '')'') (remove_char (CHR ''('') (remove_char (CHR ''-'') (remove_char (CHR '' '') phone)))"

definition ValidatePhoneNumber :: "string \<Rightarrow> string \<Rightarrow> bool \<Rightarrow> string option" where
  "ValidatePhoneNumber phone fieldName required =
     (let phone = TrimSpace phone
      in if required \<and> phone = [] then Some (fieldName @ '' is required'')
         else if phone = [] \<and> \<not> required then None
         else if \<not> MatchString phoneRegex (strip_phone phone) then
           Some (fieldName @ '' must be a valid phone number in E.164 format (e.g., +12345678900)'')
         else None)"

definition SanitizeInput :: "string \<Rightarrow> string" where
  "SanitizeInput input =
     filter (\<lambda>c. is_print c \<or> c = CHR 0x0A \<or> c = CHR 0x09) (remove_char (CHR 0x00) input)"

definition ValidateOTPCode :: "string \<Rightarrow> string option" where
  "ValidateOTPCode code =
     (if code = [] then Some ''OTP code is required''
      else if \<not> MatchString otpRegex (TrimSpace code) then Some ''OTP code must be 6 digits''
      else None)"

definition ValidateClientID :: "string \<Rightarrow> string option" where
  "ValidateClientID clientID =
     (if clientID = [] then Some ''client ID is required''
      else let clientID = TrimSpace clientID
           in if length clientID < 10 \<or> length clientID > 255 then
                Some ''client ID must be between 10 and 255 characters''
              else if \<not> MatchString clientIDRegex clientID then Some ''client ID contains invalid characters''
              else None)"

definition ValidateTenantID :: "string \<Rightarrow> string option" where
  "ValidateTenantID tenantID =
     (if tenantID = [] then Some ''tenant ID is required''
      else let tenantID = TrimSpace tenantID
           in if MatchString uuidRegex tenantID then None
              else if \<not> MatchString tenantIDRegex tenantID then
                Some ''tenant ID must be a valid UUID or alphanumeric identifier (3-50 characters)''
              else None)"

section \<open>Languages of the patterns\<close>

lemma in_class_simps:
  "in_class [] c = False"
  "in_class ((lo, hi) # rs) c =
     ((of_char lo :: nat) \<le> of_char c \<and> (of_char c :: nat) \<le> of_char hi \<or> in_class rs c)"
  by (simp_all add: in_class_def)

lemma of_char_eq_iff [simp]: "(of_char c :: nat) = of_char d \<longleftrightarrow> c = d"
  by (metis char_of_char)

lemma in_class_one: "(of_char d :: nat) \<le> of_char c \<and> (of_char c :: nat) \<le> of_char d \<longleftrightarrow> c = d"
  by (metis antisym order_refl of_char_eq_iff)

subsection \<open>Passwords\<close>

lemma note_chars:
  "hasUpper (foldl (note_char cat) f rs) = (hasUpper f \<or> list_ex (IsUpper cat) rs)"
  "hasLower (foldl (note_char cat) f rs) = (hasLower f \<or> list_ex (IsLower cat) rs)"
  "hasNumber (foldl (note_char cat) f rs) = (hasNumber f \<or> list_ex (IsNumber cat) rs)"
  "hasSpecial (foldl (note_char cat) f rs) = (hasSpecial f \<or> list_ex (\<lambda>r. IsPunct cat r \<or> IsSymbol cat r) rs)"
  by (induction rs arbitrary: f) (auto simp: note_char_def rune_classes)

text \<open>What the classes of a rune are on ASCII.\<close>

lemma ascii_classes:
  fixes c :: char
  assumes "(of_char c :: nat) < 0x80"
  shows "IsUpper cat (of_char c) \<longleftrightarrow> is_upper c" "IsLower cat (of_char c) \<longleftrightarrow> is_lower c" "IsNumber cat (of_char c) \<longleftrightarrow> is_digit c"
    and "IsPunct cat (of_char c) \<or> IsSymbol cat (of_char c) \<longleftrightarrow> is_special c"
  using assms by (auto simp: rune_classes category_of_def latin1_category_def in_range_def is_upper_def is_lower_def is_digit_def
      is_special_def)

subsection \<open>Identifiers\<close>

text \<open>The 8-4-4-4-12 form.\<close>

definition uuid_form :: "string \<Rightarrow> bool" where
  "uuid_form s \<longleftrightarrow>
     (\<exists>a b c d e. s = a @ CHR ''-'' # b @ CHR ''-'' # c @ CHR ''-'' # d @ CHR ''-'' # e \<and>
        length a = 8 \<and> length b = 4 \<and> length c = 4 \<and> length d = 4 \<and> length e = 12 \<and>
        list_all (in_class hex_class) (a @ b @ c @ d @ e))"

lemma segment_lang:
  "w \<in> lang (Seq (Rep n (Cls rs)) (Seq (Lit d) r)) \<longleftrightarrow>
     (\<exists>u v. w = u @ d # v \<and> length u = n \<and> list_all (in_class rs) u \<and> v \<in> lang r)"
proof -
  have "w \<in> lang (Seq (Rep n (Cls rs)) (Seq (Lit d) r)) \<longleftrightarrow>
      (\<exists>u v. w = u @ v \<and> u \<in> lang (Rep n (Cls rs)) \<and> v \<in> conc {[d]} (lang r))"
    by (simp add: conc_iff lang_Lit)
  moreover have "v \<in> conc {[d]} B \<longleftrightarrow> (\<exists>v'. v = d # v' \<and> v' \<in> B)" for v B
    by (auto simp: conc_iff)
  ultimately show ?thesis by (auto simp: lang_Rep_Cls list_all_iff)
qed

lemma uuidRegex_lang: "s \<in> lang uuidRegex \<longleftrightarrow> uuid_form s"
proof
  assume "s \<in> lang uuidRegex"
  then have "s \<in> lang (Seq (Rep 8 (Cls hex_class)) (Seq (Lit (CHR ''-'')) (Seq (Rep 4 (Cls hex_class)) (Seq (Lit (CHR ''-''))
      (Seq (Rep 4 (Cls hex_class)) (Seq (Lit (CHR ''-'')) (Seq (Rep 4 (Cls hex_class)) (Seq (Lit (CHR ''-''))
      (Rep 12 (Cls hex_class))))))))))"
    by (simp only: uuidRegex_def Let_def)
  then obtain a b c d e where "s = a @ CHR ''-'' # b @ CHR ''-'' # c @ CHR ''-'' # d @ CHR ''-'' # e"
    "length a = 8" "length b = 4" "length c = 4" "length d = 4" "e \<in> lang (Rep 12 (Cls hex_class))"
    "list_all (in_class hex_class) (a @ b @ c @ d)"
    unfolding segment_lang by (elim exE conjE) (simp only: list_all_append append_assoc)
  then have "s = a @ CHR ''-'' # b @ CHR ''-'' # c @ CHR ''-'' # d @ CHR ''-'' # e \<and>
      length a = 8 \<and> length b = 4 \<and> length c = 4 \<and> length d = 4 \<and> length e = 12 \<and>
      list_all (in_class hex_class) (a @ b @ c @ d @ e)"
    unfolding lang_Rep_Cls mem_Collect_eq list_all_iff [symmetric] by (simp only: list_all_append simp_thms)
  then show "uuid_form s" unfolding uuid_form_def by blast
next
  assume "uuid_form s"
  then obtain a b c d e where s: "s = a @ CHR ''-'' # b @ CHR ''-'' # c @ CHR ''-'' # d @ CHR ''-'' # e"
    "length a = 8" "length b = 4" "length c = 4" "length d = 4" "length e = 12"
    and hex: "list_all (in_class hex_class) a" "list_all (in_class hex_class) b" "list_all (in_class hex_class) c"
      "list_all (in_class hex_class) d" "list_all (in_class hex_class) e"
    unfolding uuid_form_def list_all_append by blast
  have "e \<in> lang (Rep 12 (Cls hex_class))" using s hex by (simp add: lang_Rep_Cls list_all_iff)
  with s hex show "s \<in> lang uuidRegex" unfolding uuidRegex_def Let_def segment_lang by blast
qed

definition id_char :: "char \<Rightarrow> bool" where
  "id_char c \<longleftrightarrow> is_lower c \<or> is_upper c \<or> is_digit c \<or> c = CHR ''_'' \<or> c = CHR ''-''"

lemma id_class: "in_class [lower, upper, digit, one (CHR ''_''), one (CHR ''-'')] c \<longleftrightarrow> id_char c"
  unfolding in_class_simps in_class_one by (simp add: id_char_def is_lower_def is_upper_def is_digit_def)

lemma hex_id_char: "in_class hex_class c \<Longrightarrow> id_char c"
  by (auto simp: in_class_simps hex_class_def id_char_def is_lower_def is_upper_def is_digit_def)

lemma tenantIDRegex_lang: "s \<in> lang tenantIDRegex \<longleftrightarrow> 3 \<le> length s \<and> length s \<le> 50 \<and> list_all id_char s"
  unfolding tenantIDRegex_def by (subst lang_Between_Cls) (simp_all add: id_class list_all_iff)

lemma uuid_form_tenant:
  assumes "uuid_form s"
  shows "length s = 36 \<and> list_all id_char s"
proof -
  have "list_all id_char w" if "list_all (in_class hex_class) w" for w
    using that hex_id_char by (auto simp: list_all_iff)
  moreover have "id_char (CHR ''-'')" by (simp add: id_char_def)
  ultimately show ?thesis using assms by (auto simp: uuid_form_def)
qed

subsection \<open>Phone numbers\<close>

definition e164 :: "string \<Rightarrow> bool" where
  "e164 ds \<longleftrightarrow> 2 \<le> length ds \<and> length ds \<le> 15 \<and> list_all is_digit ds \<and> hd ds \<noteq> CHR ''0''"

lemma digit_class: "in_class [digit] c \<longleftrightarrow> is_digit c"
  unfolding in_class_simps by (simp add: is_digit_def)

lemma leading_class: "in_class [(CHR ''1'', CHR ''9'')] c \<longleftrightarrow> is_digit c \<and> c \<noteq> CHR ''0''"
proof -
  have "c = CHR ''0'' \<longleftrightarrow> (of_char c :: nat) = 48" using of_char_eq_iff [of c "CHR ''0''"] by simp
  then show ?thesis unfolding in_class_simps by (auto simp: is_digit_def)
qed

lemma number_lang:
  "ds \<in> lang (Seq (Cls [(CHR ''1'', CHR ''9'')]) (Between 1 14 (Cls [digit]))) \<longleftrightarrow> e164 ds"
proof -
  have "ds \<in> lang (Seq (Cls [(CHR ''1'', CHR ''9'')]) (Between 1 14 (Cls [digit]))) \<longleftrightarrow>
      (\<exists>c cs. ds = c # cs \<and> in_class [(CHR ''1'', CHR ''9'')] c \<and> cs \<in> lang (Between 1 14 (Cls [digit])))"
    by (simp add: conc_class)
  then show ?thesis
    by (cases ds) (auto simp: e164_def lang_Between_Cls digit_class leading_class list_all_iff)
qed

lemma phoneRegex_lang: "s \<in> lang phoneRegex \<longleftrightarrow> e164 s \<or> (\<exists>ds. s = CHR ''+'' # ds \<and> e164 ds)"
proof -
  have "lang phoneRegex =
      conc {[], ''+''} (lang (Seq (Cls [(CHR ''1'', CHR ''9'')]) (Between 1 14 (Cls [digit]))))"
    unfolding phoneRegex_def lang.simps(5) [of "Opt _"] by (simp add: Opt_def lang_Lit insert_commute)
  then have "s \<in> lang phoneRegex \<longleftrightarrow> (\<exists>u v. s = u @ v \<and> u \<in> {[], ''+''} \<and> e164 v)"
    by (simp only: conc_iff number_lang)
  also have "\<dots> \<longleftrightarrow> e164 s \<or> (\<exists>ds. s = CHR ''+'' # ds \<and> e164 ds)"
    by (metis append_Cons append_Nil insertCI insertE singletonD)
  finally show ?thesis .
qed

subsection \<open>Domains\<close>

text \<open>A label is made of lower case letters, digits and inner hyphens; a domain is a dotted sequence of
  labels whose last part has at least two letters and nothing else.\<close>

definition label_char :: "char \<Rightarrow> bool" where
  "label_char c \<longleftrightarrow> is_lower c \<or> is_digit c"

definition label_form :: "string \<Rightarrow> bool" where
  "label_form l \<longleftrightarrow> l \<noteq> [] \<and> list_all (\<lambda>c. label_char c \<or> c = CHR ''-'') l \<and> hd l \<noteq> CHR ''-'' \<and> last l \<noteq> CHR ''-''"

definition domain_form :: "string \<Rightarrow> bool" where
  "domain_form d \<longleftrightarrow>
     (\<exists>labels tld. d = concat (map (\<lambda>l. l @ ''.'') labels) @ tld \<and> labels \<noteq> [] \<and> list_all label_form labels \<and>
        2 \<le> length tld \<and> list_all is_lower tld)"

lemma label_class: "in_class [lower, digit] c \<longleftrightarrow> label_char c"
  "in_class [lower, digit, one (CHR ''-'')] c \<longleftrightarrow> label_char c \<or> c = CHR ''-''"
  "in_class [lower] c \<longleftrightarrow> is_lower c"
  unfolding in_class_simps in_class_one by (simp_all add: label_char_def is_lower_def is_digit_def)

lemma not_label_char: "\<not> label_char (CHR ''-'')" "\<not> label_char (CHR ''.'')"
  by (simp_all add: label_char_def is_lower_def is_digit_def)

lemma label_rx_lang: "l \<in> lang label_rx \<longleftrightarrow> label_form l"
proof -
  have "l \<in> lang label_rx \<longleftrightarrow> (\<exists>c. l = [c] \<and> label_char c) \<or>
      (\<exists>c m d. l = c # m @ [d] \<and> label_char c \<and> list_all (\<lambda>c. label_char c \<or> c = CHR ''-'') m \<and> label_char d)"
  proof -
    let ?A = "{[c] | c. label_char c}" and ?B = "{s. \<forall>c \<in> set s. label_char c \<or> c = CHR ''-''}"
    have "lang label_rx = conc ?A ({[]} \<union> conc ?B ?A)"
      by (simp add: label_rx_def Opt_def star_class label_class)
    moreover have "v \<in> conc ?B ?A \<longleftrightarrow> (\<exists>m d. v = m @ [d] \<and> (\<forall>c \<in> set m. label_char c \<or> c = CHR ''-'') \<and> label_char d)" for v
      unfolding conc_iff by blast
    ultimately show ?thesis by (auto simp: conc_class list_all_iff)
  qed
  also have "\<dots> \<longleftrightarrow> label_form l"
  proof
    assume "label_form l"
    then obtain c cs where l: "l = c # cs" by (cases l) (auto simp: label_form_def)
    with \<open>label_form l\<close> have c: "label_char c" by (auto simp: label_form_def)
    show "(\<exists>c. l = [c] \<and> label_char c) \<or>
      (\<exists>c m d. l = c # m @ [d] \<and> label_char c \<and> list_all (\<lambda>c. label_char c \<or> c = CHR ''-'') m \<and> label_char d)"
    proof (cases cs rule: rev_cases)
      case Nil
      with l c show ?thesis by simp
    next
      case (snoc m d)
      with \<open>label_form l\<close> l have "list_all (\<lambda>c. label_char c \<or> c = CHR ''-'') m" "label_char d"
        by (auto simp: label_form_def)
      with l c snoc show ?thesis by blast
    qed
  qed (use not_label_char in \<open>auto simp: label_form_def\<close>)
  finally show ?thesis .
qed

lemma star_concat: "w \<in> star L \<longleftrightarrow> (\<exists>ws. w = concat ws \<and> set ws \<subseteq> L)"
proof
  assume "w \<in> star L"
  then show "\<exists>ws. w = concat ws \<and> set ws \<subseteq> L"
  proof induction
    case star_nil
    then show ?case by (intro exI [of _ "[]"]) simp
  next
    case (star_app u v)
    then obtain ws where "v = concat ws" "set ws \<subseteq> L" by blast
    with star_app show ?case by (intro exI [of _ "u # ws"]) simp
  qed
next
  assume "\<exists>ws. w = concat ws \<and> set ws \<subseteq> L"
  then obtain ws where "w = concat ws" "set ws \<subseteq> L" by blast
  then show "w \<in> star L"
    by (induction ws arbitrary: w) (auto intro: star.intros)
qed

lemma dotted_labels:
  "w \<in> lang (Plus (Seq label_rx (Lit (CHR ''.'')))) \<longleftrightarrow>
     (\<exists>labels. w = concat (map (\<lambda>l. l @ ''.'') labels) \<and> labels \<noteq> [] \<and> list_all label_form labels)"
proof -
  let ?L = "{l @ ''.'' | l. label_form l}"
  have L: "lang (Seq label_rx (Lit (CHR ''.''))) = ?L"
    by (auto simp: conc_iff lang_Lit label_rx_lang)
  have words: "set ws \<subseteq> ?L \<longleftrightarrow> (\<exists>labels. ws = map (\<lambda>l. l @ ''.'') labels \<and> list_all label_form labels)" for ws
  proof (induction ws)
    case (Cons w ws)
    show ?case
    proof
      assume "set (w # ws) \<subseteq> ?L"
      with Cons obtain l labels where "w = l @ ''.''" "label_form l" "ws = map (\<lambda>l. l @ ''.'') labels"
        "list_all label_form labels" by auto
      then show "\<exists>labels. w # ws = map (\<lambda>l. l @ ''.'') labels \<and> list_all label_form labels"
        by (intro exI [of _ "l # labels"]) simp
    qed (auto simp: list_all_iff)
  qed simp
  have "w \<in> lang (Plus (Seq label_rx (Lit (CHR ''.'')))) \<longleftrightarrow> (\<exists>u ws. w = u @ concat ws \<and> set (u # ws) \<subseteq> ?L)"
    unfolding Plus_def lang.simps(5) [of _ "Star _"] lang.simps(6) L conc_iff star_concat
    by (simp only: list.set insert_subset) blast
  also have "\<dots> \<longleftrightarrow> (\<exists>ws. ws \<noteq> [] \<and> w = concat ws \<and> set ws \<subseteq> ?L)"
  proof
    assume "\<exists>u ws. w = u @ concat ws \<and> set (u # ws) \<subseteq> ?L"
    then obtain u ws where "w = concat (u # ws)" "set (u # ws) \<subseteq> ?L" by auto
    then show "\<exists>ws. ws \<noteq> [] \<and> w = concat ws \<and> set ws \<subseteq> ?L" by blast
  next
    assume "\<exists>ws. ws \<noteq> [] \<and> w = concat ws \<and> set ws \<subseteq> ?L"
    then obtain ws where ws: "ws \<noteq> []" "w = concat ws" "set ws \<subseteq> ?L" by blast
    then obtain u us where "ws = u # us" by (cases ws) auto
    with ws show "\<exists>u ws. w = u @ concat ws \<and> set (u # ws) \<subseteq> ?L" by (intro exI [of _ u] exI [of _ us]) simp
  qed
  finally show ?thesis unfolding words by auto
qed

lemma domainRegex_lang: "d \<in> lang domainRegex \<longleftrightarrow> domain_form d"
proof -
  have "lang domainRegex = conc (lang (Plus (Seq label_rx (Lit (CHR ''.''))))) {s. 2 \<le> length s \<and> list_all is_lower s}"
    unfolding domainRegex_def lang.simps(5) [of _ "AtLeast _ _"] lang_AtLeast_Cls label_class list_all_iff ..
  then have "d \<in> lang domainRegex \<longleftrightarrow> (\<exists>u tld. d = u @ tld \<and>
      (\<exists>labels. u = concat (map (\<lambda>l. l @ ''.'') labels) \<and> labels \<noteq> [] \<and> list_all label_form labels) \<and>
      2 \<le> length tld \<and> list_all is_lower tld)"
    by (simp only: conc_iff dotted_labels mem_Collect_eq)
  then show ?thesis unfolding domain_form_def by blast
qed

text \<open>A string of the domain form has none of the shapes that the validator rejects afterwards.\<close>

lemma label_no_dot: "label_form l \<Longrightarrow> CHR ''.'' \<notin> set l"
  using not_label_char by (auto simp: label_form_def list_all_iff)

lemma Contains_dots_append:
  assumes "CHR ''.'' \<notin> set l" and "\<not> Contains r ''..''" and "r \<noteq> []" and "hd r \<noteq> CHR ''.''"
  shows "\<not> Contains (l @ CHR ''.'' # r) ''..''"
  using assms
proof (induction l)
  case Nil
  then show ?case by (cases r) (auto simp: HasPrefix_def)
next
  case (Cons c l)
  then show ?case by (auto simp: HasPrefix_def)
qed

lemma Contains_dots_free: "CHR ''.'' \<notin> set r \<Longrightarrow> \<not> Contains r ''..''"
  by (induction r) (auto simp: HasPrefix_def)

lemma dotted_shape:
  assumes "list_all label_form labels" and "tld \<noteq> []" and "list_all is_lower tld"
  shows "concat (map (\<lambda>l. l @ ''.'') labels) @ tld \<noteq> [] \<and>
    hd (concat (map (\<lambda>l. l @ ''.'') labels) @ tld) \<notin> {CHR ''.'', CHR ''-''} \<and>
    \<not> Contains (concat (map (\<lambda>l. l @ ''.'') labels) @ tld) ''..''"
  using assms
proof (induction labels)
  case Nil
  have dot: "\<not> is_lower (CHR ''.'')" "\<not> is_lower (CHR ''-'')" by (simp_all add: is_lower_def)
  with Nil have "CHR ''.'' \<notin> set tld" "hd tld \<noteq> CHR ''.''" "hd tld \<noteq> CHR ''-''"
    by (cases tld; auto simp: list_all_iff)+
  with Nil show ?case by (simp add: Contains_dots_free)
next
  case (Cons l labels)
  let ?r = "concat (map (\<lambda>l. l @ ''.'') labels) @ tld"
  have l: "label_form l" "l \<noteq> []" using Cons.prems by (auto simp: label_form_def)
  have "\<not> Contains (l @ CHR ''.'' # ?r) ''..''"
    using Cons label_no_dot [OF l(1)] by (intro Contains_dots_append) auto
  moreover have "hd l \<noteq> CHR ''.''" "hd l \<noteq> CHR ''-''"
    using l label_no_dot [OF l(1)] by (auto simp: label_form_def) (metis hd_in_set)
  ultimately show ?case using l by simp
qed

lemma domain_form_shape:
  assumes "domain_form d"
  shows "\<not> (Contains d ''..'' \<or> HasPrefix d ''-'' \<or> HasSuffix d ''-'' \<or> HasPrefix d ''.'' \<or> HasSuffix d ''.'')"
proof -
  obtain labels tld where d: "d = concat (map (\<lambda>l. l @ ''.'') labels) @ tld" "list_all label_form labels"
    "2 \<le> length tld" "list_all is_lower tld"
    using assms unfolding domain_form_def by blast
  have tld: "tld \<noteq> []" using d(3) by auto
  have shape: "d \<noteq> []" "hd d \<notin> {CHR ''.'', CHR ''-''}" "\<not> Contains d ''..''"
    using dotted_shape [OF d(2) tld d(4)] d(1) by blast+
  have "last d = last tld" using d(1) tld by simp
  moreover have "is_lower (last tld)" using d(4) tld by (simp add: list_all_iff)
  ultimately have lst: "last d \<noteq> CHR ''-''" "last d \<noteq> CHR ''.''" by (auto simp: is_lower_def)
  have "rev d \<noteq> []" "hd (rev d) = last d" using shape(1) by (simp_all add: hd_rev)
  with shape lst show ?thesis
    by (cases d; cases "rev d") (auto simp: HasPrefix_def HasSuffix_def)
qed

section \<open>Properties\<close>

text \<open>
  C36. A password, whatever its bytes, is accepted exactly when it has 10 to 128 bytes and among the runes they decode to there
  are an upper case letter, a lower case letter, a number and a punctuation mark or symbol, for every version of the Unicode tables. On a
  password of ASCII characters these are 10 to 128 characters with a letter of either case, a digit and a printable character that is
  neither.
\<close>

theorem ValidatePassword_spec:
  "(ValidatePassword cat p = None \<longleftrightarrow>
     10 \<le> length p \<and> length p \<le> 128 \<and>
     (\<exists>r \<in> set (runes p). IsUpper cat r) \<and> (\<exists>r \<in> set (runes p). IsLower cat r) \<and> (\<exists>r \<in> set (runes p). IsNumber cat r) \<and>
     (\<exists>r \<in> set (runes p). IsPunct cat r \<or> IsSymbol cat r)) \<and>
   ((\<forall>c \<in> set p. (of_char c :: nat) < 0x80) \<longrightarrow>
     (ValidatePassword cat p = None \<longleftrightarrow>
        10 \<le> length p \<and> length p \<le> 128 \<and> (\<exists>c \<in> set p. is_upper c) \<and> (\<exists>c \<in> set p. is_lower c) \<and> (\<exists>c \<in> set p. is_digit c) \<and>
        (\<exists>c \<in> set p. is_special c)))"
proof -
  have runes: "ValidatePassword cat p = None \<longleftrightarrow>
     10 \<le> length p \<and> length p \<le> 128 \<and>
     (\<exists>r \<in> set (runes p). IsUpper cat r) \<and> (\<exists>r \<in> set (runes p). IsLower cat r) \<and> (\<exists>r \<in> set (runes p). IsNumber cat r) \<and>
     (\<exists>r \<in> set (runes p). IsPunct cat r \<or> IsSymbol cat r)"
    by (auto simp: ValidatePassword_def Let_def note_chars no_flags_def list_ex_iff)
  have "ValidatePassword cat p = None \<longleftrightarrow>
      10 \<le> length p \<and> length p \<le> 128 \<and> (\<exists>c \<in> set p. is_upper c) \<and> (\<exists>c \<in> set p. is_lower c) \<and> (\<exists>c \<in> set p. is_digit c) \<and>
      (\<exists>c \<in> set p. is_special c)" if ascii: "\<forall>c \<in> set p. (of_char c :: nat) < 0x80"
  proof -
    have set: "set (runes p) = of_char ` set p" using runes_ascii [OF ascii] by simp
    note on_ascii = ascii_classes [OF ascii [rule_format], where cat = cat]
    show ?thesis unfolding runes set bex_simps by (simp add: on_ascii cong: bex_cong)
  qed
  with runes show ?thesis by blast
qed

text \<open>
  Ten bytes are not ten characters, and a broken byte counts as a special character: the first password lacks a special
  character, the second ends in half of a letter and is accepted.
\<close>

theorem ValidatePassword_spec_witness:
  "ValidatePassword (\<lambda>_. Ll) (''Ab1x'' @ [CHR 0xD0, CHR 0xB6, CHR 0xD0, CHR 0xB6, CHR 0xD0, CHR 0xB6]) \<noteq> None \<and>
   ValidatePassword (\<lambda>_. Ll) (''Ab1xy'' @ [CHR 0xD0, CHR 0xB6, CHR 0xD0, CHR 0xB6, CHR 0xD0]) = None \<and>
   ValidatePassword (\<lambda>_. Ll) ''Abcdefgh1!'' = None"
proof -
  let ?p = "''Ab1x'' @ [CHR 0xD0, CHR 0xB6, CHR 0xD0, CHR 0xB6, CHR 0xD0, CHR 0xB6]"
  let ?q = "''Ab1xy'' @ [CHR 0xD0, CHR 0xB6, CHR 0xD0, CHR 0xB6, CHR 0xD0]" and ?r = "''Abcdefgh1!''"
  note spec = ValidatePassword_spec [of "\<lambda>_. Ll"]
  note decode = runes_def decode_rune_def in_range_def accept_range_def RuneError_def
  note classes = rune_classes category_of_def latin1_category_def in_range_def RuneError_def
  have "runes ?p = [0x41, 0x62, 0x31, 0x78, 0x436, 0x436, 0x436]" by (simp add: decode)
  then have "\<not> (\<exists>r \<in> set (runes ?p). IsPunct (\<lambda>_. Ll) r \<or> IsSymbol (\<lambda>_. Ll) r)" by (simp add: classes)
  then have "ValidatePassword (\<lambda>_. Ll) ?p \<noteq> None" using spec [of ?p] by blast
  moreover have "runes ?q = [0x41, 0x62, 0x31, 0x78, 0x79, 0x436, 0x436, RuneError]" by (simp add: decode)
  then have "10 \<le> length ?q \<and> length ?q \<le> 128 \<and>
     (\<exists>r \<in> set (runes ?q). IsUpper (\<lambda>_. Ll) r) \<and> (\<exists>r \<in> set (runes ?q). IsLower (\<lambda>_. Ll) r) \<and> (\<exists>r \<in> set (runes ?q). IsNumber (\<lambda>_. Ll) r) \<and>
     (\<exists>r \<in> set (runes ?q). IsPunct (\<lambda>_. Ll) r \<or> IsSymbol (\<lambda>_. Ll) r)" by (simp add: classes)
  then have "ValidatePassword (\<lambda>_. Ll) ?q = None" using spec [of ?q] by blast
  moreover have "\<forall>c \<in> set ?r. (of_char c :: nat) < 0x80"
    "10 \<le> length ?r \<and> length ?r \<le> 128 \<and> (\<exists>c \<in> set ?r. is_upper c) \<and> (\<exists>c \<in> set ?r. is_lower c) \<and> (\<exists>c \<in> set ?r. is_digit c) \<and>
     (\<exists>c \<in> set ?r. is_special c)" by code_simp+
  then have "ValidatePassword (\<lambda>_. Ll) ?r = None" using spec [of ?r] by blast
  ultimately show ?thesis by blast
qed

text \<open>
  A domain is accepted exactly when, trimmed and in lower case, it has at most 253 characters and is
  a dotted sequence of labels (letters, digits, inner hyphens) that ends in at least two letters; the
  check for doubled dots and for leading or trailing dots and hyphens after the pattern never fires.
\<close>

theorem ValidateDomain_spec:
  "ValidateDomain domain field = None \<longleftrightarrow>
     domain \<noteq> [] \<and> length (ToLower (TrimSpace domain)) \<le> 253 \<and> domain_form (ToLower (TrimSpace domain))"
  using domain_form_shape [of "ToLower (TrimSpace domain)"]
  by (auto simp: ValidateDomain_def Let_def MatchString_iff domainRegex_lang)

text \<open>
  A UUID is accepted exactly in the 8-4-4-4-12 hexadecimal form, and a tenant id exactly when, trimmed,
  it has 3 to 50 letters, digits, underscores or hyphens: the UUID form is a special case of that.
\<close>

theorem ValidateTenantID_spec:
  "(ValidateUUID u field = None \<longleftrightarrow> uuid_form u) \<and>
   (ValidateTenantID t = None \<longleftrightarrow>
      t \<noteq> [] \<and> 3 \<le> length (TrimSpace t) \<and> length (TrimSpace t) \<le> 50 \<and> list_all id_char (TrimSpace t))"
proof
  have "\<not> uuid_form []" by (simp add: uuid_form_def)
  then show "ValidateUUID u field = None \<longleftrightarrow> uuid_form u"
    by (auto simp: ValidateUUID_def MatchString_iff uuidRegex_lang)
  show "ValidateTenantID t = None \<longleftrightarrow>
      t \<noteq> [] \<and> 3 \<le> length (TrimSpace t) \<and> length (TrimSpace t) \<le> 50 \<and> list_all id_char (TrimSpace t)"
    using uuid_form_tenant [of "TrimSpace t"]
    by (auto simp: ValidateTenantID_def Let_def MatchString_iff uuidRegex_lang tenantIDRegex_lang)
qed

text \<open>
  A required phone number is accepted exactly when, without blanks, hyphens and parentheses, it is
  an optional plus sign and 2 to 15 digits of which the first is not zero.
\<close>

theorem ValidatePhoneNumber_spec:
  "ValidatePhoneNumber p field True = None \<longleftrightarrow>
     TrimSpace p \<noteq> [] \<and>
     (e164 (strip_phone (TrimSpace p)) \<or> (\<exists>ds. strip_phone (TrimSpace p) = CHR ''+'' # ds \<and> e164 ds))"
  by (auto simp: ValidatePhoneNumber_def Let_def MatchString_iff phoneRegex_lang)

end
