(* ===== verification/Anti_Replay.thy ===== *)
theory Anti_Replay
  imports Go_Strings
begin

text \<open>
  \<^verbatim>\<open>services/anti_replay_service.go\<close>: one-time challenges and nonces on a store with expiring keys, the
  timestamp window, and request signatures. The Redis client is the argument \<open>R\<close>; what the service
  relies on is the locale \<open>ttl_store\<close>, whose laws are the documented behaviour of \<^verbatim>\<open>SET\<close> with an
  expiry, \<^verbatim>\<open>GET\<close> and \<^verbatim>\<open>EXISTS\<close>. The HMAC is the argument \<open>hmac\<close>. Timestamps and the clock are 64-bit.
\<close>

section \<open>Data model\<close>

record AuthChallenge =
  ac_Challenge :: string
  ac_ExpiresAt :: gotime
  ac_CreatedAt :: gotime

record SecureLoginRequest =
  sl_Email :: string
  sl_Password :: string
  sl_TenantDomain :: string
  sl_Nonce :: string
  sl_Timestamp :: int
  sl_Challenge :: string
  sl_Signature :: string

text \<open>
  A Redis client over a server state: \<open>rd_Get\<close> returns the value of a key, \<open>None\<close> for \<^verbatim>\<open>redis.Nil\<close>;
  \<open>rd_Exists\<close> the number of existing keys; \<open>rd_Set\<close> stores a value with a time to live and returns the
  error, if any, and the new state.
\<close>

record 'st redis =
  rd_Get :: "gotime \<Rightarrow> string \<Rightarrow> 'st \<Rightarrow> go_error + string option"
  rd_Exists :: "gotime \<Rightarrow> string \<Rightarrow> 'st \<Rightarrow> go_error + int"
  rd_Set :: "gotime \<Rightarrow> string \<Rightarrow> string \<Rightarrow> gotime \<Rightarrow> 'st \<Rightarrow> go_error option \<times> 'st"

section \<open>Service\<close>

definition challenge_key :: "string \<Rightarrow> string" where
  "challenge_key x = ''auth:challenge:'' @ x"

definition nonce_key :: "string \<Rightarrow> string" where
  "nonce_key x = ''auth:nonce:'' @ x"

definition GenerateChallenge ::
  "'st redis \<Rightarrow> gotime \<Rightarrow> uuid \<Rightarrow> 'st \<Rightarrow> (go_error + AuthChallenge) \<times> 'st" where
  "GenerateChallenge R now newID st =
     (let challenge = \<lparr> ac_Challenge = newID, ac_ExpiresAt = now + 5 * Minute, ac_CreatedAt = now \<rparr>
      in case rd_Set R now (challenge_key newID) ''pending'' (5 * Minute) st of
           (Some e, st') \<Rightarrow> (Inl (Wrap ''failed to store challenge: '' e), st')
         | (None, st') \<Rightarrow> (Inr challenge, st'))"

definition ValidateChallenge :: "'st redis \<Rightarrow> gotime \<Rightarrow> string \<Rightarrow> 'st \<Rightarrow> go_error option \<times> 'st" where
  "ValidateChallenge R now challengeID st =
     (if challengeID = [] then (Some (Errorf ''challenge is required''), st)
      else (case rd_Get R now (challenge_key challengeID) st of
              Inl e \<Rightarrow> (Some (Wrap ''failed to validate challenge: '' e), st)
            | Inr None \<Rightarrow> (Some (Errorf ''invalid or expired challenge''), st)
            | Inr (Some status) \<Rightarrow>
                if status = ''used'' then
                  (Some (Errorf ''challenge already used - potential replay attack detected''), st)
                else (case rd_Set R now (challenge_key challengeID) ''used'' (5 * Minute) st of
                        (Some e, st') \<Rightarrow> (Some (Wrap ''failed to mark challenge as used: '' e), st')
                      | (None, st') \<Rightarrow> (None, st'))))"

definition ValidateNonce :: "'st redis \<Rightarrow> gotime \<Rightarrow> string \<Rightarrow> 'st \<Rightarrow> go_error option \<times> 'st" where
  "ValidateNonce R now nonce st =
     (if nonce = [] then (Some (Errorf ''nonce is required''), st)
      else (case rd_Exists R now (nonce_key nonce) st of
              Inl e \<Rightarrow> (Some (Wrap ''failed to check nonce: '' e), st)
            | Inr n \<Rightarrow>
                if n > 0 then (Some (Errorf ''nonce already used - potential replay attack detected''), st)
                else (case rd_Set R now (nonce_key nonce) (Itoa (Unix now)) (2 * Minute) st of
                        (Some e, st') \<Rightarrow> (Some (Wrap ''failed to store nonce: '' e), st')
                      | (None, st') \<Rightarrow> (None, st'))))"

text \<open>
  \<^verbatim>\<open>now - timestamp\<close> wraps at 64 bits. The comparison in \<^verbatim>\<open>float64\<close> is that of the integers: the
  conversion is monotone and exact up to \<open>2 ^ 53\<close>, and the bound is far below.
\<close>

definition sub_int64 :: "int \<Rightarrow> int \<Rightarrow> int" where
  "sub_int64 a b = sint (word_of_int (a - b) :: 64 word)"

definition ValidateTimestamp :: "gotime \<Rightarrow> int \<Rightarrow> int \<Rightarrow> go_error option" where
  "ValidateTimestamp now timestamp maxSkewSeconds =
     (if timestamp = 0 then Some (Errorf ''timestamp is required'')
      else let skew = \<bar>sub_int64 (Unix now) timestamp\<bar>
           in if skew > maxSkewSeconds then
                Some (Errorf (''request timestamp too old or too far in future (skew: '' @ Itoa skew @
                  '' seconds, max: '' @ Itoa maxSkewSeconds @ '')''))
              else None)"

definition ValidateRequestSignature ::
  "(string \<Rightarrow> string \<Rightarrow> byte list) \<Rightarrow> string \<Rightarrow> string \<Rightarrow> string \<Rightarrow> go_error option" where
  "ValidateRequestSignature hmac data signature secret =
     (if signature = [] then Some (Errorf ''signature is required'')
      else if signature \<noteq> Hex (hmac secret data) then
        Some (Errorf ''invalid signature - potential tampering detected'')
      else None)"

definition ValidateLoginRequest :: "'st redis \<Rightarrow> gotime \<Rightarrow> SecureLoginRequest \<Rightarrow> 'st \<Rightarrow> go_error option \<times> 'st" where
  "ValidateLoginRequest R now req st =
     (case ValidateTimestamp now (sl_Timestamp req) 60 of
        Some e \<Rightarrow> (Some (Wrap ''timestamp validation failed: '' e), st)
      | None \<Rightarrow>
     (case ValidateNonce R now (sl_Nonce req) st of
        (Some e, st1) \<Rightarrow> (Some (Wrap ''nonce validation failed: '' e), st1)
      | (None, st1) \<Rightarrow>
          if sl_Challenge req \<noteq> [] then
            (case ValidateChallenge R now (sl_Challenge req) st1 of
               (Some e, st2) \<Rightarrow> (Some (Wrap ''challenge validation failed: '' e), st2)
             | (None, st2) \<Rightarrow> (None, st2))
          else (None, st1)))"

definition ComputeRequestSignature ::
  "(string \<Rightarrow> string \<Rightarrow> byte list) \<Rightarrow> string \<Rightarrow> string \<Rightarrow> string \<Rightarrow> int \<Rightarrow> string \<Rightarrow> string" where
  "ComputeRequestSignature hmac email password nonce timestamp secret =
     (let data = email @ '':'' @ password @ '':'' @ nonce @ '':'' @ Itoa timestamp
      in Hex (hmac secret data))"

text \<open>The requests that reach the service, one after the other, each at its time.\<close>

fun login_step :: "'st redis \<Rightarrow> gotime \<times> SecureLoginRequest \<Rightarrow> 'st \<Rightarrow> 'st \<times> go_error option" where
  "login_step R (now, req) st = (let (err, st') = ValidateLoginRequest R now req st in (st', err))"

section \<open>What the service relies on\<close>

text \<open>
  \<open>val t k st\<close> is the value that the key \<open>k\<close> has at time \<open>t\<close> if the state stays \<open>st\<close>. A failed write
  leaves every key with its old value or the new one.
\<close>

locale ttl_store =
  fixes R :: "'st redis" and val :: "gotime \<Rightarrow> string \<Rightarrow> 'st \<Rightarrow> string option"
  assumes get_val: "rd_Get R now k st = Inr x \<Longrightarrow> x = val now k st"
    and exists_val: "rd_Exists R now k st = Inr n \<Longrightarrow> n > 0 \<longleftrightarrow> val now k st \<noteq> None"
    and set_val: "rd_Set R now k v ttl st = (None, st') \<Longrightarrow> now \<le> t \<Longrightarrow>
          val t k st' = (if t < now + ttl then Some v else None)"
    and set_failed: "rd_Set R now k v ttl st = (Some e, st') \<Longrightarrow> now \<le> t \<Longrightarrow>
          val t k st' = val t k st \<or> val t k st' = (if t < now + ttl then Some v else None)"
    and set_other: "rd_Set R now k v ttl st = (err, st') \<Longrightarrow> k' \<noteq> k \<Longrightarrow> val t k' st' = val t k' st"
begin

text \<open>A nonce is held from the moment it is accepted until its time to live has passed.\<close>

definition nonce_held :: "string \<Rightarrow> gotime \<Rightarrow> gotime \<Rightarrow> 'st \<Rightarrow> bool" where
  "nonce_held n now until st \<longleftrightarrow> (\<forall>t. now \<le> t \<and> t < until \<longrightarrow> val t (nonce_key n) st \<noteq> None)"

lemma nonce_key_neq: "nonce_key n \<noteq> challenge_key c"
  by (simp add: nonce_key_def challenge_key_def)

lemma ValidateChallenge_keeps_nonces:
  "val t (nonce_key n) (snd (ValidateChallenge R now c st)) = val t (nonce_key n) st"
proof (cases "rd_Set R now (challenge_key c) ''used'' (5 * Minute) st")
  case (Pair err st')
  with set_other [OF Pair nonce_key_neq] show ?thesis
    by (cases err) (auto simp: ValidateChallenge_def split: sum.split option.split)
qed

lemma ValidateNonce_accepts:
  assumes "fst (ValidateNonce R now n st) = None"
  shows "val now (nonce_key n) st = None" and "nonce_held n now (now + 2 * Minute) (snd (ValidateNonce R now n st))"
proof -
  from assms obtain x where x: "rd_Exists R now (nonce_key n) st = Inr x" "\<not> x > 0"
    by (auto simp: ValidateNonce_def split: if_splits sum.splits)
  then show "val now (nonce_key n) st = None" using exists_val by blast
  from assms x obtain st' where "rd_Set R now (nonce_key n) (Itoa (Unix now)) (2 * Minute) st = (None, st')"
    "snd (ValidateNonce R now n st) = st'"
    by (auto simp: ValidateNonce_def split: if_splits prod.splits option.splits)
  with set_val show "nonce_held n now (now + 2 * Minute) (snd (ValidateNonce R now n st))"
    by (simp add: nonce_held_def)
qed

lemma ValidateNonce_other:
  assumes "m \<noteq> n"
  shows "val t (nonce_key n) (snd (ValidateNonce R now m st)) = val t (nonce_key n) st"
proof (cases "rd_Set R now (nonce_key m) (Itoa (Unix now)) (2 * Minute) st")
  case (Pair err st')
  have "nonce_key n \<noteq> nonce_key m" using assms by (simp add: nonce_key_def)
  with set_other [OF Pair this] Pair show ?thesis
    by (cases err) (auto simp: ValidateNonce_def split: sum.split)
qed

lemma ValidateNonce_held:
  assumes held: "nonce_held n now until st"
  shows "nonce_held n now until (snd (ValidateNonce R now m st))"
proof (cases "m = n \<and> \<not> now < until")
  case True
  then show ?thesis by (auto simp: nonce_held_def)
next
  case False
  show ?thesis
  proof (cases "m = n")
    case True
    with False held have "val now (nonce_key n) st \<noteq> None" by (simp add: nonce_held_def)
    then have "snd (ValidateNonce R now m st) = st"
      using True exists_val by (auto simp: ValidateNonce_def split: sum.split)
    with held show ?thesis by simp
  next
    case other: False
    with held show ?thesis by (simp add: nonce_held_def ValidateNonce_other)
  qed
qed

lemma ValidateLoginRequest_held:
  assumes "nonce_held n now until st"
  shows "nonce_held n now until (snd (ValidateLoginRequest R now req st))"
proof -
  have "nonce_held n now until (snd (ValidateNonce R now (sl_Nonce req) st))"
    using assms by (rule ValidateNonce_held)
  moreover have "nonce_held n now until (snd (ValidateChallenge R now c st1)) \<longleftrightarrow> nonce_held n now until st1" for c st1
    by (simp add: nonce_held_def ValidateChallenge_keeps_nonces)
  ultimately show ?thesis
    using assms by (cases "ValidateNonce R now (sl_Nonce req) st")
      (auto simp: ValidateLoginRequest_def split: option.splits prod.splits, (metis snd_conv)+)
qed

lemma ValidateLoginRequest_accepts:
  assumes "fst (ValidateLoginRequest R now req st) = None"
  shows "ValidateTimestamp now (sl_Timestamp req) 60 = None" and "val now (nonce_key (sl_Nonce req)) st = None"
    and "nonce_held (sl_Nonce req) now (now + 2 * Minute) (snd (ValidateLoginRequest R now req st))"
proof -
  from assms show "ValidateTimestamp now (sl_Timestamp req) 60 = None"
    by (auto simp: ValidateLoginRequest_def split: option.splits)
  from assms have nonce: "fst (ValidateNonce R now (sl_Nonce req) st) = None"
    by (auto simp: ValidateLoginRequest_def split: option.splits prod.splits)
  then show "val now (nonce_key (sl_Nonce req)) st = None" by (rule ValidateNonce_accepts)
  let ?st1 = "snd (ValidateNonce R now (sl_Nonce req) st)"
  have held: "nonce_held (sl_Nonce req) now (now + 2 * Minute) ?st1" using nonce by (rule ValidateNonce_accepts)
  have "snd (ValidateLoginRequest R now req st) \<in> {?st1, snd (ValidateChallenge R now (sl_Challenge req) ?st1)}"
    using assms by (auto simp: ValidateLoginRequest_def split: option.splits prod.splits if_splits)
  with held show "nonce_held (sl_Nonce req) now (now + 2 * Minute) (snd (ValidateLoginRequest R now req st))"
    by (auto simp: nonce_held_def ValidateChallenge_keeps_nonces)
qed

lemma nonce_held_later: "nonce_held n now until st \<Longrightarrow> now \<le> now' \<Longrightarrow> nonce_held n now' until st"
  by (simp add: nonce_held_def)

lemma nonce_held_run:
  assumes "nonce_held n now until st" and "sorted (now # map fst reqs @ [now'])"
  shows "nonce_held n now' until (fst (run (login_step R) reqs st))"
  using assms
proof (induction reqs arbitrary: now st)
  case Nil
  then show ?case using nonce_held_later by simp
next
  case (Cons req reqs)
  obtain t r where req: "req = (t, r)" by fastforce
  have "nonce_held n t until st" using Cons.prems req nonce_held_later by auto
  then have "nonce_held n t until (snd (ValidateLoginRequest R t r st))" by (rule ValidateLoginRequest_held)
  with Cons.IH [of t "snd (ValidateLoginRequest R t r st)"] Cons.prems req show ?case
    by (simp add: case_prod_beta Let_def)
qed

lemma replays_apart:
  assumes "fst (ValidateLoginRequest R t1 r1 st) = None" and "sorted (t1 # map fst reqs @ [t2])"
    and "fst (ValidateLoginRequest R t2 r2 (fst (run (login_step R) ((t1, r1) # reqs) st))) = None"
    and "sl_Nonce r1 = sl_Nonce r2"
  shows "t1 + 2 * Minute \<le> t2"
proof (rule ccontr)
  assume "\<not> t1 + 2 * Minute \<le> t2"
  let ?st1 = "snd (ValidateLoginRequest R t1 r1 st)"
  have "nonce_held (sl_Nonce r1) t2 (t1 + 2 * Minute) (fst (run (login_step R) reqs ?st1))"
    using ValidateLoginRequest_accepts(3) [OF assms(1)] assms(2) by (rule nonce_held_run)
  moreover have "fst (run (login_step R) ((t1, r1) # reqs) st) = fst (run (login_step R) reqs ?st1)"
    by (simp add: case_prod_beta Let_def)
  ultimately have "val t2 (nonce_key (sl_Nonce r2)) (fst (run (login_step R) ((t1, r1) # reqs) st)) \<noteq> None"
    using \<open>\<not> t1 + 2 * Minute \<le> t2\<close> assms(4) by (simp add: nonce_held_def)
  with ValidateLoginRequest_accepts(2) [OF assms(3)] show False by simp
qed

text \<open>A challenge is accepted at most once within the lifetime of its mark.\<close>

lemma ValidateChallenge_accepts:
  assumes "fst (ValidateChallenge R now c st) = None"
  shows "\<exists>v. val now (challenge_key c) st = Some v \<and> v \<noteq> ''used''"
    and "\<forall>t. now \<le> t \<and> t < now + 5 * Minute \<longrightarrow> val t (challenge_key c) (snd (ValidateChallenge R now c st)) = Some ''used''"
proof -
  from assms obtain v where v: "rd_Get R now (challenge_key c) st = Inr (Some v)" "v \<noteq> ''used''"
    by (auto simp: ValidateChallenge_def split: if_splits sum.splits option.splits)
  then show "\<exists>v. val now (challenge_key c) st = Some v \<and> v \<noteq> ''used''" using get_val by force
  from assms v obtain st' where "rd_Set R now (challenge_key c) ''used'' (5 * Minute) st = (None, st')"
    "snd (ValidateChallenge R now c st) = st'"
    by (auto simp: ValidateChallenge_def split: if_splits prod.splits option.splits)
  with set_val show "\<forall>t. now \<le> t \<and> t < now + 5 * Minute \<longrightarrow>
      val t (challenge_key c) (snd (ValidateChallenge R now c st)) = Some ''used''" by simp
qed

end

section \<open>A store\<close>

text \<open>Redis on one node: a key holds a value and the time at which it expires; no command fails.\<close>

type_synonym ttl_map = "string \<rightharpoonup> string \<times> gotime"

definition ttl_val :: "gotime \<Rightarrow> string \<Rightarrow> ttl_map \<Rightarrow> string option" where
  "ttl_val now k m = (case m k of Some (v, expiry) \<Rightarrow> (if now < expiry then Some v else None) | None \<Rightarrow> None)"

definition map_redis :: "ttl_map redis" where
  "map_redis =
     \<lparr> rd_Get = (\<lambda>now k m. Inr (ttl_val now k m)),
       rd_Exists = (\<lambda>now k m. Inr (if ttl_val now k m = None then 0 else 1)),
       rd_Set = (\<lambda>now k v ttl m. (None, m(k \<mapsto> (v, now + ttl)))) \<rparr>"

interpretation node: ttl_store map_redis ttl_val
  by unfold_locales (auto simp: map_redis_def ttl_val_def split: if_splits)

section \<open>Timestamps\<close>

lemma sub_int64_close:
  assumes "- (2 ^ 63) \<le> b" and "b < 2 ^ 63" and "0 \<le> a" and "a < 2 ^ 62" and "\<bar>sub_int64 a b\<bar> \<le> m" and "m < 2 ^ 60"
  shows "sub_int64 a b = a - b"
proof -
  let ?d = "sub_int64 a b"
  have "(word_of_int ?d :: 64 word) = word_of_int (a - b)" by (simp add: sub_int64_def)
  then have "take_bit 64 ?d = take_bit 64 (a - b)" unfolding word_of_int_eq_iff by simp
  then have "?d mod 2 ^ 64 = (a - b) mod 2 ^ 64" unfolding take_bit_eq_mod .
  then obtain k where k: "?d = (a - b) + k * 2 ^ 64" by (metis mod_eqE mult.commute)
  have "k = 0" using k assms by (simp add: abs_if split: if_splits)
  with k show ?thesis by simp
qed

lemma ValidateTimestamp_close:
  assumes "ValidateTimestamp now ts 60 = None" and "- (2 ^ 63) \<le> ts" and "ts < 2 ^ 63"
    and "0 \<le> Unix now" and "Unix now < 2 ^ 62"
  shows "\<bar>Unix now - ts\<bar> \<le> 60"
proof -
  have "\<bar>sub_int64 (Unix now) ts\<bar> \<le> 60"
    using assms(1) by (auto simp: ValidateTimestamp_def Let_def split: if_splits)
  with sub_int64_close [OF assms(2-5) this] show ?thesis by simp
qed

section \<open>Properties\<close>

text \<open>
  C35. A login request that is accepted once can be accepted again, unchanged, only in a window of one
  second that opens two minutes later: whatever other requests arrive in between, the nonce is held for
  two minutes, and the timestamp expires before two minutes and one second have passed.
\<close>

theorem login_replay_window:
  assumes "ttl_store R val"
    and "fst (ValidateLoginRequest R t1 req st) = None" and "sorted (t1 # map fst reqs @ [t2])"
    and "fst (ValidateLoginRequest R t2 req (fst (run (login_step R) ((t1, req) # reqs) st))) = None"
    and "- (2 ^ 63) \<le> sl_Timestamp req" and "sl_Timestamp req < 2 ^ 63" and "0 \<le> Unix t1" and "Unix t2 < 2 ^ 62"
  shows "2 * Minute \<le> t2 - t1 \<and> t2 - t1 < 2 * Minute + Second"
proof
  have apart: "t1 + 2 * Minute \<le> t2" using ttl_store.replays_apart [OF assms(1-4)] by simp
  then show "2 * Minute \<le> t2 - t1" by simp
  have "t1 \<le> t2" using apart by (simp add: clock_simps)
  then have "Unix t1 \<le> Unix t2" by (rule Unix_mono)
  then have "\<bar>Unix t1 - sl_Timestamp req\<bar> \<le> 60" "\<bar>Unix t2 - sl_Timestamp req\<bar> \<le> 60"
    using ttl_store.ValidateLoginRequest_accepts(1) [OF assms(1,2)] ttl_store.ValidateLoginRequest_accepts(1) [OF assms(1,4)]
      assms(5-8) by (auto intro!: ValidateTimestamp_close)
  then have "Unix t2 - Unix t1 \<le> 120" by linarith
  then have "(Unix t2 - Unix t1 + 1) * Second \<le> 2 * Minute + Second" by (simp add: clock_simps)
  with Unix_diff_bound [of t2 t1] show "t2 - t1 < 2 * Minute + Second" by linarith
qed

definition ex_login :: SecureLoginRequest where
  "ex_login =
     \<lparr> sl_Email = ''a@x.io'', sl_Password = ''pw'', sl_TenantDomain = [], sl_Nonce = ''n1'', sl_Timestamp = 160,
       sl_Challenge = [], sl_Signature = [] \<rparr>"

lemma ex_login_replayed:
  "fst (ValidateLoginRequest map_redis (100 * Second) ex_login Map.empty) = None"
  "fst (ValidateLoginRequest map_redis (220 * Second)  ex_login
     (fst (run (login_step map_redis) ((100 * Second, ex_login) # []) Map.empty))) = None"
  by code_simp+

theorem login_replay_window_witness: "2 * Minute \<le> 220 * Second - 100 * Second \<and> 220 * Second - 100 * Second < 2 * Minute + Second"
proof (rule login_replay_window [OF node.ttl_store_axioms ex_login_replayed(1) _ ex_login_replayed(2)])
  show "sorted (100 * Second # map fst ([] :: (gotime \<times> SecureLoginRequest) list) @ [220 * Second])"
    by (simp add: Second_def)
qed (simp_all add: ex_login_def Unix_def Second_def)

text \<open>
  The window is real: on a plain expiring store a request stamped one minute ahead is accepted, and
  accepted again two minutes later, although nonces are meant to be stored long enough to cover the
  acceptable clock skew.
\<close>

theorem login_replay_accepted:
  "\<exists>t1 t2 req. t1 < t2 \<and> fst (ValidateLoginRequest map_redis t1 req Map.empty) = None \<and>
     fst (ValidateLoginRequest map_redis t2 req (fst (run (login_step map_redis) [(t1, req)] Map.empty))) = None"
  using ex_login_replayed by (intro exI [of _ "100 * Second"] exI [of _ "220 * Second"] exI [of _ ex_login])
    (simp add: Second_def)

text \<open>
  A challenge that was accepted is refused while its mark lives, five minutes, as long as nothing
  else writes its key.
\<close>

theorem challenge_not_reused:
  assumes "ttl_store R val" and "fst (ValidateChallenge R t1 c st) = None"
    and "t1 \<le> t2" and "t2 < t1 + 5 * Minute"
  shows "fst (ValidateChallenge R t2 c (snd (ValidateChallenge R t1 c st))) \<noteq> None"
proof
  assume "fst (ValidateChallenge R t2 c (snd (ValidateChallenge R t1 c st))) = None"
  from ttl_store.ValidateChallenge_accepts(1) [OF assms(1) this] ttl_store.ValidateChallenge_accepts(2) [OF assms(1,2)] assms(3,4)
  show False by auto
qed

theorem challenge_not_reused_witness:
  "let st = snd (GenerateChallenge map_redis 0 ''c1'' Map.empty)
   in fst (ValidateChallenge map_redis Minute ''c1'' st) = None \<and>
      fst (ValidateChallenge map_redis (2 * Minute) ''c1'' (snd (ValidateChallenge map_redis Minute ''c1'' st))) \<noteq> None"
proof -
  let ?st = "snd (GenerateChallenge map_redis 0 ''c1'' Map.empty)"
  have "fst (ValidateChallenge map_redis Minute ''c1'' ?st) = None" by code_simp
  with challenge_not_reused [OF node.ttl_store_axioms this, of "2 * Minute"] show ?thesis
    by (simp add: Let_def clock_simps)
qed

text \<open>
  The signed text does not separate its fields: moving a colon and what follows it from the address to
  the password leaves the signature unchanged, so a signature for one pair of credentials is accepted for
  another.
\<close>

theorem signature_fields_ambiguous:
  "ComputeRequestSignature hmac (email @ '':'' @ x) password nonce ts secret =
     ComputeRequestSignature hmac email (x @ '':'' @ password) nonce ts secret"
  by (simp add: ComputeRequestSignature_def)

end
