(* ===== verification/Agent_Repository.thy ===== *)
theory Agent_Repository
  imports Go_Strings
begin

text \<open>
  The rows of the agent action guard (\<^verbatim>\<open>models/agent_action.go\<close>) and its SQL
  (\<^verbatim>\<open>database/agent_action_repository.go\<close>), with the unique constraints of migration
  \<^verbatim>\<open>105_create_agent_action_tables.sql\<close>. An integer column is an \<^typ>\<open>int\<close>: a value outside its range
  or a missing foreign key makes the statement fail, which is what a \<open>Lost\<close> outcome of the
  connection's schedule does.
\<close>

section \<open>Data model\<close>

text \<open>A \<^verbatim>\<open>map[string]interface{}\<close>; \<open>None\<close> is the nil map. A nil slice is \<open>None\<close> too.\<close>

type_synonym JSONBMap = "(string \<rightharpoonup> goval) option"
type_synonym JSONBArray = "goval list option"

record RiskPolicy =
  rp_ID :: uuid
  rp_TenantID :: uuid
  rp_Name :: string
  rp_Description :: string
  rp_ActionPattern :: string
  rp_ResourcePattern :: string
  rp_EnvironmentPattern :: string
  rp_BaseScore :: int
  rp_ScopeBulkThreshold :: int
  rp_ScopeBulkModifier :: int
  rp_PIIModifier :: int
  rp_FinancialModifier :: int
  rp_OffHoursModifier :: int
  rp_FirstTimeModifier :: int
  rp_AutoApproveBelow :: "int option"
  rp_RequireApprovalAbove :: "int option"
  rp_RequireMultiApprovalAbove :: "int option"
  rp_IsActive :: bool
  rp_Priority :: int
  rp_CreatedAt :: int
  rp_UpdatedAt :: int

record AgentGuardSettings =
  gs_ID :: uuid
  gs_TenantID :: uuid
  gs_AutoApproveBelow :: int
  gs_RequireApprovalAbove :: int
  gs_RequireMultiApprovalAbove :: int
  gs_ApprovalTimeoutSeconds :: int
  gs_PollingIntervalSeconds :: int
  gs_BusinessHoursStart :: int
  gs_BusinessHoursEnd :: int
  gs_BusinessHoursTimezone :: string
  gs_DefaultApproverUserID :: "uuid option"
  gs_RequireBiometric :: bool
  gs_CreatedAt :: int
  gs_UpdatedAt :: int

record AgentActionRequest =
  ar_ID :: uuid
  ar_ActionReqID :: string
  ar_TenantID :: uuid
  ar_UserID :: uuid
  ar_UserEmail :: string
  ar_AgentID :: string
  ar_AgentName :: string
  ar_AgentFramework :: string
  ar_SessionID :: string
  ar_Action :: string
  ar_Resource :: string
  ar_Detail :: string
  ar_Metadata :: JSONBMap
  ar_RiskScore :: int
  ar_RiskLevel :: string
  ar_RiskFactors :: JSONBArray
  ar_MatchedPolicyID :: "uuid option"
  ar_Status :: string
  ar_ApprovalType :: string
  ar_RequiredApprovals :: int
  ar_ReceivedApprovals :: int
  ar_CIBAAuthReqID :: string
  ar_DeviceTokenID :: "uuid option"
  ar_ExpiresAt :: int
  ar_CreatedAt :: int
  ar_DecidedAt :: "int option"
  ar_LastPolledAt :: "int option"

definition ar_IsExpired :: "gotime \<Rightarrow> AgentActionRequest \<Rightarrow> bool" where
  "ar_IsExpired now r \<longleftrightarrow> Unix now > ar_ExpiresAt r"

definition ar_IsPending :: "gotime \<Rightarrow> AgentActionRequest \<Rightarrow> bool" where
  "ar_IsPending now r \<longleftrightarrow> ar_Status r = ''pending'' \<and> \<not> ar_IsExpired now r"

definition ar_IsApproved :: "AgentActionRequest \<Rightarrow> bool" where
  "ar_IsApproved r \<longleftrightarrow> ar_Status r = ''approved'' \<or> ar_Status r = ''auto_approved''"

record AgentActionDecision =
  ad_ID :: uuid
  ad_ActionRequestID :: uuid
  ad_ApproverUserID :: uuid
  ad_ApproverEmail :: string
  ad_Decision :: string
  ad_Reason :: string
  ad_BiometricVerified :: bool
  ad_CreatedAt :: int

record AgentActionAuditLog =
  al_ID :: uuid
  al_TenantID :: uuid
  al_ActionRequestID :: "uuid option"
  al_AgentID :: string
  al_AgentName :: string
  al_UserID :: uuid
  al_UserEmail :: string
  al_Action :: string
  al_Resource :: string
  al_Detail :: string
  al_Metadata :: JSONBMap
  al_RiskScore :: int
  al_RiskLevel :: string
  al_FinalStatus :: string
  al_DecidedBy :: JSONBArray
  al_RequestedAt :: int
  al_DecidedAt :: "int option"
  al_ExecutionDurationMs :: "int option"
  al_CreatedAt :: int

record TenantMapping =
  tm_ClientID :: uuid
  tm_TenantID :: uuid

record guard_db =
  risk_policies :: "RiskPolicy list"
  agent_guard_settings :: "AgentGuardSettings list"
  agent_action_requests :: "AgentActionRequest list"
  agent_action_decisions :: "AgentActionDecision list"
  agent_action_audit_log :: "AgentActionAuditLog list"
  tenant_mappings :: "TenantMapping list"

text \<open>What is read back from a JSONB column.\<close>

definition jsonb_map :: "JSONBMap \<Rightarrow> JSONBMap" where
  "jsonb_map m = map_option (\<lambda>f k. map_option json_value (f k)) m"

definition jsonb_array :: "JSONBArray \<Rightarrow> JSONBArray" where
  "jsonb_array = map_option (map json_value)"

section \<open>Risk policies\<close>

definition insert_risk_policy :: "RiskPolicy \<Rightarrow> 'a guard_db_scheme \<Rightarrow> go_error + 'a guard_db_scheme" where
  "insert_risk_policy p s =
     (if \<exists>q \<in> set (risk_policies s). rp_ID q = rp_ID p \<or> rp_TenantID q = rp_TenantID p \<and> rp_Name q = rp_Name p
      then Inl DBError
      else Inr (s\<lparr> risk_policies := risk_policies s @ [p] \<rparr>))"

text \<open>The policy the caller holds carries the timestamps set here.\<close>

definition repo_CreateRiskPolicy ::
  "gotime \<Rightarrow> RiskPolicy \<Rightarrow> 'a guard_db_scheme conn \<Rightarrow> (go_error + RiskPolicy) \<times> 'a guard_db_scheme conn" where
  "repo_CreateRiskPolicy now policy c =
     (let p = policy\<lparr> rp_CreatedAt := Unix now, rp_UpdatedAt := Unix now \<rparr>
      in case wrap_err ''failed to create risk policy: '' (exec_checked (insert_risk_policy p) c) of
           (Inl e, c') \<Rightarrow> (Inl e, c')
         | (Inr _, c') \<Rightarrow> (Inr p, c'))"

text \<open>\<^verbatim>\<open>ORDER BY priority DESC, created_at ASC\<close>; \<^const>\<open>sort_key\<close> is stable.\<close>

definition active_policies :: "uuid \<Rightarrow> RiskPolicy list \<Rightarrow> RiskPolicy list" where
  "active_policies tenantID ps =
     sort_key (\<lambda>p. - rp_Priority p)
       (sort_key rp_CreatedAt (filter (\<lambda>p. rp_TenantID p = tenantID \<and> rp_IsActive p) ps))"

definition GetRiskPoliciesByTenant ::
  "uuid \<Rightarrow> 'a guard_db_scheme conn \<Rightarrow> (go_error + RiskPolicy list) \<times> 'a guard_db_scheme conn" where
  "GetRiskPoliciesByTenant tenantID c =
     wrap_err ''failed to query risk policies: ''
       (query (\<lambda>s. active_policies tenantID (risk_policies s)) c)"

definition GetRiskPolicyByID ::
  "uuid \<Rightarrow> uuid \<Rightarrow> 'a guard_db_scheme conn \<Rightarrow> (go_error + RiskPolicy) \<times> 'a guard_db_scheme conn" where
  "GetRiskPolicyByID policyID tenantID c =
     (case query_row
        (\<lambda>s. select_row (\<lambda>p. rp_ID p = policyID \<and> rp_TenantID p = tenantID) (risk_policies s)) c of
        (Inl NoRows, c') \<Rightarrow> (Inl (Errorf ''risk policy not found''), c')
      | (Inl e, c') \<Rightarrow> (Inl (Wrap ''failed to get risk policy: '' e), c')
      | (Inr p, c') \<Rightarrow> (Inr p, c'))"

text \<open>
  The update writes every column but the key, the tenant and the creation time; renaming a policy to
  the name of another one of the tenant violates the unique index.
\<close>

definition update_risk_policy ::
  "RiskPolicy \<Rightarrow> 'a guard_db_scheme \<Rightarrow> 'a guard_db_scheme \<times> (go_error + int)" where
  "update_risk_policy p s =
     (let hit = (\<lambda>q. rp_ID q = rp_ID p \<and> rp_TenantID q = rp_TenantID p)
      in if (\<exists>q \<in> set (risk_policies s). hit q) \<and>
            (\<exists>q \<in> set (risk_policies s). \<not> hit q \<and> rp_TenantID q = rp_TenantID p \<and> rp_Name q = rp_Name p)
         then (s, Inl DBError)
         else (s\<lparr> risk_policies :=
                  update_where hit
                    (\<lambda>q. p\<lparr> rp_ID := rp_ID q, rp_TenantID := rp_TenantID q, rp_CreatedAt := rp_CreatedAt q \<rparr>)
                    (risk_policies s) \<rparr>,
               Inr (affected hit (risk_policies s))))"

definition exec_affected ::
  "string \<Rightarrow> string \<Rightarrow> ('s \<Rightarrow> 's \<times> (go_error + int)) \<Rightarrow> 's conn \<Rightarrow> (go_error + unit) \<times> 's conn" where
  "exec_affected msg missing f c =
     (case exec f c of
        (Inl e, c') \<Rightarrow> (Inl (Wrap msg e), c')
      | (Inr (Inl e), c') \<Rightarrow> (Inl (Wrap msg e), c')
      | (Inr (Inr n), c') \<Rightarrow> (if n = 0 then (Inl (Errorf missing), c') else (Inr (), c')))"

definition repo_UpdateRiskPolicy ::
  "gotime \<Rightarrow> RiskPolicy \<Rightarrow> 'a guard_db_scheme conn \<Rightarrow> (go_error + RiskPolicy) \<times> 'a guard_db_scheme conn" where
  "repo_UpdateRiskPolicy now policy c =
     (let p = policy\<lparr> rp_UpdatedAt := Unix now \<rparr>
      in case exec_affected ''failed to update risk policy: '' ''risk policy not found'' (update_risk_policy p) c of
           (Inl e, c') \<Rightarrow> (Inl e, c')
         | (Inr _, c') \<Rightarrow> (Inr p, c'))"

definition repo_DeleteRiskPolicy ::
  "gotime \<Rightarrow> uuid \<Rightarrow> uuid \<Rightarrow> 'a guard_db_scheme conn \<Rightarrow> (go_error + unit) \<times> 'a guard_db_scheme conn" where
  "repo_DeleteRiskPolicy now policyID tenantID c =
     (let hit = (\<lambda>q. rp_ID q = policyID \<and> rp_TenantID q = tenantID)
      in exec_affected ''failed to delete risk policy: '' ''risk policy not found''
           (\<lambda>s. (s\<lparr> risk_policies :=
                   update_where hit (\<lambda>q. q\<lparr> rp_IsActive := False, rp_UpdatedAt := Unix now \<rparr>) (risk_policies s) \<rparr>,
                 Inr (affected hit (risk_policies s)))) c)"

section \<open>Tenant settings\<close>

definition default_settings :: "gotime \<Rightarrow> uuid \<Rightarrow> uuid \<Rightarrow> AgentGuardSettings" where
  "default_settings now newID tenantID =
     \<lparr> gs_ID = newID, gs_TenantID = tenantID, gs_AutoApproveBelow = 30, gs_RequireApprovalAbove = 31,
       gs_RequireMultiApprovalAbove = 81, gs_ApprovalTimeoutSeconds = 300, gs_PollingIntervalSeconds = 5,
       gs_BusinessHoursStart = 9, gs_BusinessHoursEnd = 17, gs_BusinessHoursTimezone = ''UTC'',
       gs_DefaultApproverUserID = None, gs_RequireBiometric = True,
       gs_CreatedAt = Unix now, gs_UpdatedAt = Unix now \<rparr>"

text \<open>\<^verbatim>\<open>ON CONFLICT (tenant_id) DO NOTHING\<close>; a clash on the primary key is still an error.\<close>

definition insert_settings ::
  "AgentGuardSettings \<Rightarrow> 'a guard_db_scheme \<Rightarrow> go_error + 'a guard_db_scheme" where
  "insert_settings g s =
     (if \<exists>h \<in> set (agent_guard_settings s). gs_TenantID h = gs_TenantID g then Inr s
      else if \<exists>h \<in> set (agent_guard_settings s). gs_ID h = gs_ID g then Inl DBError
      else Inr (s\<lparr> agent_guard_settings := agent_guard_settings s @ [g] \<rparr>))"

definition GetOrCreateSettings ::
  "gotime \<Rightarrow> uuid \<Rightarrow> uuid \<Rightarrow> 'a guard_db_scheme conn
     \<Rightarrow> (go_error + AgentGuardSettings) \<times> 'a guard_db_scheme conn" where
  "GetOrCreateSettings now newID tenantID c =
     (case query_row (\<lambda>s. select_row (\<lambda>g. gs_TenantID g = tenantID) (agent_guard_settings s)) c of
        (Inr g, c') \<Rightarrow> (Inr g, c')
      | (Inl NoRows, c') \<Rightarrow>
          (let g = default_settings now newID tenantID
           in case wrap_err ''failed to create default agent guard settings: ''
                     (exec_checked (insert_settings g) c') of
                (Inl e, c'') \<Rightarrow> (Inl e, c'')
              | (Inr _, c'') \<Rightarrow> (Inr g, c''))
      | (Inl e, c') \<Rightarrow> (Inl (Wrap ''failed to get agent guard settings: '' e), c'))"

definition repo_UpdateSettings ::
  "gotime \<Rightarrow> AgentGuardSettings \<Rightarrow> 'a guard_db_scheme conn
     \<Rightarrow> (go_error + AgentGuardSettings) \<times> 'a guard_db_scheme conn" where
  "repo_UpdateSettings now settings c =
     (let g = settings\<lparr> gs_UpdatedAt := Unix now \<rparr>
      in case wrap_err ''failed to update agent guard settings: ''
                (exec (\<lambda>s. (s\<lparr> agent_guard_settings :=
                     update_where (\<lambda>h. gs_TenantID h = gs_TenantID g)
                       (\<lambda>h. g\<lparr> gs_ID := gs_ID h, gs_TenantID := gs_TenantID h, gs_CreatedAt := gs_CreatedAt h \<rparr>)
                       (agent_guard_settings s) \<rparr>, ())) c) of
           (Inl e, c') \<Rightarrow> (Inl e, c')
         | (Inr _, c') \<Rightarrow> (Inr g, c'))"

section \<open>Action requests\<close>

definition insert_action_request ::
  "AgentActionRequest \<Rightarrow> 'a guard_db_scheme \<Rightarrow> go_error + 'a guard_db_scheme" where
  "insert_action_request r s =
     (if \<exists>q \<in> set (agent_action_requests s). ar_ID q = ar_ID r \<or> ar_ActionReqID q = ar_ActionReqID r
      then Inl DBError
      else Inr (s\<lparr> agent_action_requests := agent_action_requests s @ [r] \<rparr>))"

text \<open>
  The statement lists neither \<^verbatim>\<open>decided_at\<close> nor \<^verbatim>\<open>last_polled_at\<close>, so both are stored as \<^verbatim>\<open>NULL\<close>.
  The request the caller holds carries the creation time set here.
\<close>

definition stored_request :: "AgentActionRequest \<Rightarrow> AgentActionRequest" where
  "stored_request r =
     r\<lparr> ar_Metadata := jsonb_map (ar_Metadata r), ar_RiskFactors := jsonb_array (ar_RiskFactors r),
        ar_DecidedAt := None, ar_LastPolledAt := None \<rparr>"

definition CreateActionRequest ::
  "gotime \<Rightarrow> AgentActionRequest \<Rightarrow> 'a guard_db_scheme conn
     \<Rightarrow> (go_error + AgentActionRequest) \<times> 'a guard_db_scheme conn" where
  "CreateActionRequest now req c =
     (let r = req\<lparr> ar_CreatedAt := Unix now \<rparr>
      in case wrap_err ''failed to create agent action request: ''
                (exec_checked (insert_action_request (stored_request r)) c) of
           (Inl e, c') \<Rightarrow> (Inl e, c')
         | (Inr _, c') \<Rightarrow> (Inr r, c'))"

definition GetActionRequestByID ::
  "string \<Rightarrow> 'a guard_db_scheme conn \<Rightarrow> (go_error + AgentActionRequest) \<times> 'a guard_db_scheme conn" where
  "GetActionRequestByID actionReqID c =
     (case query_row (\<lambda>s. select_row (\<lambda>r. ar_ActionReqID r = actionReqID) (agent_action_requests s)) c of
        (Inl NoRows, c') \<Rightarrow> (Inl (Errorf ''agent action request not found''), c')
      | (Inl e, c') \<Rightarrow> (Inl (Wrap ''failed to get agent action request: '' e), c')
      | (Inr r, c') \<Rightarrow> (Inr r, c'))"

definition GetPendingActionsByUser ::
  "gotime \<Rightarrow> uuid \<Rightarrow> uuid \<Rightarrow> 'a guard_db_scheme conn
     \<Rightarrow> (go_error + AgentActionRequest list) \<times> 'a guard_db_scheme conn" where
  "GetPendingActionsByUser now tenantID userID c =
     wrap_err ''failed to query pending actions: ''
       (query (\<lambda>s. sort_key (\<lambda>r. - ar_CreatedAt r)
          (filter (\<lambda>r. ar_TenantID r = tenantID \<and> ar_UserID r = userID \<and> ar_Status r = ''pending'' \<and>
                       ar_ExpiresAt r > Unix now) (agent_action_requests s))) c)"

definition UpdateActionRequestStatus ::
  "gotime \<Rightarrow> string \<Rightarrow> string \<Rightarrow> 'a guard_db_scheme conn \<Rightarrow> (go_error + unit) \<times> 'a guard_db_scheme conn" where
  "UpdateActionRequestStatus now actionReqID status c =
     wrap_err ''failed to update action request status: ''
       (exec (\<lambda>s. (s\<lparr> agent_action_requests :=
            update_where (\<lambda>r. ar_ActionReqID r = actionReqID)
              (\<lambda>r. r\<lparr> ar_Status := status, ar_DecidedAt := Some (Unix now) \<rparr>)
              (agent_action_requests s) \<rparr>, ())) c)"

text \<open>\<^verbatim>\<open>UPDATE ... RETURNING\<close> scans the updated row, or reports \<^verbatim>\<open>sql.ErrNoRows\<close>.\<close>

definition IncrementApprovalCount ::
  "string \<Rightarrow> 'a guard_db_scheme conn \<Rightarrow> (go_error + int \<times> int) \<times> 'a guard_db_scheme conn" where
  "IncrementApprovalCount actionReqID c =
     (case exec (\<lambda>s.
        (let t = update_where (\<lambda>r. ar_ActionReqID r = actionReqID)
                   (\<lambda>r. r\<lparr> ar_ReceivedApprovals := ar_ReceivedApprovals r + 1 \<rparr>) (agent_action_requests s)
         in (s\<lparr> agent_action_requests := t \<rparr>, select_row (\<lambda>r. ar_ActionReqID r = actionReqID) t))) c of
        (Inl e, c') \<Rightarrow> (Inl (Wrap ''failed to increment approval count: '' e), c')
      | (Inr (Inl e), c') \<Rightarrow> (Inl (Wrap ''failed to increment approval count: '' e), c')
      | (Inr (Inr r), c') \<Rightarrow> (Inr (ar_ReceivedApprovals r, ar_RequiredApprovals r), c'))"

definition action_UpdateLastPolled ::
  "gotime \<Rightarrow> string \<Rightarrow> 'a guard_db_scheme conn \<Rightarrow> (go_error + unit) \<times> 'a guard_db_scheme conn" where
  "action_UpdateLastPolled now actionReqID c =
     exec (\<lambda>s. (s\<lparr> agent_action_requests :=
        update_where (\<lambda>r. ar_ActionReqID r = actionReqID)
          (\<lambda>r. r\<lparr> ar_LastPolledAt := Some (Unix now) \<rparr>) (agent_action_requests s) \<rparr>, ())) c"

definition ExpireOldActionRequests ::
  "gotime \<Rightarrow> 'a guard_db_scheme conn \<Rightarrow> (go_error + int) \<times> 'a guard_db_scheme conn" where
  "ExpireOldActionRequests now c =
     (let hit = (\<lambda>r. ar_ExpiresAt r < Unix now \<and> ar_Status r = ''pending'')
      in wrap_err ''failed to expire old action requests: ''
           (exec (\<lambda>s. (s\<lparr> agent_action_requests :=
                update_where hit (\<lambda>r. r\<lparr> ar_Status := ''expired'', ar_DecidedAt := Some (Unix now) \<rparr>)
                  (agent_action_requests s) \<rparr>, affected hit (agent_action_requests s))) c))"

section \<open>Decisions and the audit log\<close>

definition HasPriorAction ::
  "string \<Rightarrow> string \<Rightarrow> string \<Rightarrow> uuid \<Rightarrow> 'a guard_db_scheme conn \<Rightarrow> (go_error + bool) \<times> 'a guard_db_scheme conn" where
  "HasPriorAction agentID action resource tenantID c =
     wrap_err ''failed to check prior action: ''
       (query (\<lambda>s. list_ex (\<lambda>e. al_AgentID e = agentID \<and> al_Action e = action \<and> al_Resource e = resource \<and>
                              al_TenantID e = tenantID \<and>
                              (al_FinalStatus e = ''approved'' \<or> al_FinalStatus e = ''auto_approved''))
                 (agent_action_audit_log s)) c)"

definition insert_decision ::
  "AgentActionDecision \<Rightarrow> 'a guard_db_scheme \<Rightarrow> go_error + 'a guard_db_scheme" where
  "insert_decision d s =
     (if \<exists>q \<in> set (agent_action_decisions s). ad_ID q = ad_ID d then Inl DBError
      else Inr (s\<lparr> agent_action_decisions := agent_action_decisions s @ [d] \<rparr>))"

definition CreateDecision ::
  "gotime \<Rightarrow> AgentActionDecision \<Rightarrow> 'a guard_db_scheme conn \<Rightarrow> (go_error + unit) \<times> 'a guard_db_scheme conn" where
  "CreateDecision now decision c =
     wrap_err ''failed to create decision: ''
       (exec_checked (insert_decision (decision\<lparr> ad_CreatedAt := Unix now \<rparr>)) c)"

definition insert_audit ::
  "AgentActionAuditLog \<Rightarrow> 'a guard_db_scheme \<Rightarrow> go_error + 'a guard_db_scheme" where
  "insert_audit e s =
     (if \<exists>q \<in> set (agent_action_audit_log s). al_ID q = al_ID e then Inl DBError
      else Inr (s\<lparr> agent_action_audit_log := agent_action_audit_log s @ [e] \<rparr>))"

definition stored_audit :: "gotime \<Rightarrow> AgentActionAuditLog \<Rightarrow> AgentActionAuditLog" where
  "stored_audit now e =
     e\<lparr> al_CreatedAt := Unix now, al_Metadata := jsonb_map (al_Metadata e),
        al_DecidedBy := jsonb_array (al_DecidedBy e) \<rparr>"

definition CreateAuditEntry ::
  "gotime \<Rightarrow> AgentActionAuditLog \<Rightarrow> 'a guard_db_scheme conn \<Rightarrow> (go_error + unit) \<times> 'a guard_db_scheme conn" where
  "CreateAuditEntry now entry c =
     wrap_err ''failed to create audit entry: ''
       (exec_checked (insert_audit (stored_audit now entry)) c)"

text \<open>
  \<^verbatim>\<open>LIMIT l OFFSET o\<close>; PostgreSQL rejects a negative limit or offset. The newest entries come first.
\<close>

definition audit_of :: "uuid \<Rightarrow> AgentActionAuditLog list \<Rightarrow> AgentActionAuditLog list" where
  "audit_of tenantID es = sort_key (\<lambda>e. - al_CreatedAt e) (filter (\<lambda>e. al_TenantID e = tenantID) es)"

definition limit_offset :: "int \<Rightarrow> int \<Rightarrow> 'r list \<Rightarrow> go_error + 'r list" where
  "limit_offset l off t = (if l < 0 \<or> off < 0 then Inl DBError else Inr (take (nat l) (drop (nat off) t)))"

definition repo_GetAuditLog ::
  "uuid \<Rightarrow> int \<Rightarrow> int \<Rightarrow> 'a guard_db_scheme conn
     \<Rightarrow> (go_error + AgentActionAuditLog list \<times> int) \<times> 'a guard_db_scheme conn" where
  "repo_GetAuditLog tenantID page perPage c =
     (case query (\<lambda>s. affected (\<lambda>e. al_TenantID e = tenantID) (agent_action_audit_log s)) c of
        (Inl e, c1) \<Rightarrow> (Inl (Wrap ''failed to count audit entries: '' e), c1)
      | (Inr n, c1) \<Rightarrow>
          (let off = wrap_int (wrap_int (page - 1) * perPage)
           in case wrap_err ''failed to query audit log: ''
                     (query_row (\<lambda>s. limit_offset perPage off (audit_of tenantID (agent_action_audit_log s))) c1) of
                (Inl e, c2) \<Rightarrow> (Inl e, c2)
              | (Inr es, c2) \<Rightarrow> (Inr (es, n), c2)))"

end
