(* ===== verification/Risk_Engine.thy ===== *)
theory Risk_Engine
  imports Agent_Repository
begin

text \<open>
  The risk engine of the agent action guard, \<^verbatim>\<open>services/risk_engine_service.go\<close>: which policy of the
  tenant applies to an action, the score it gets and the number of human approvals it needs.

  \<^item> \<open>zone\<close> stands for \<^verbatim>\<open>time.LoadLocation\<close>: the offset of local time by instant, or an error for an
    unknown name. \<open>conv\<close> is Go's conversion of a \<^verbatim>\<open>float64\<close> outside the range of \<^verbatim>\<open>int\<close>, which the
    language leaves to the implementation.
  \<^item> The columns of a policy are 32-bit integers, so that the sum of seven of them cannot leave the
    range of \<^verbatim>\<open>int\<close>; scores are therefore plain integers here.
\<close>

section \<open>Data model\<close>

record RiskFactor =
  rf_Factor :: string
  rf_Score :: int
  rf_Reason :: string

record RiskEvaluation =
  re_Score :: int
  re_Level :: string
  re_Factors :: "RiskFactor list"
  re_ApprovalType :: string
  re_RequiredApprovals :: int
  re_MatchedPolicyID :: "uuid option"

section \<open>Metadata helpers\<close>

definition getIntFromMetadata :: "(rat \<Rightarrow> int) \<Rightarrow> JSONBMap \<Rightarrow> string \<Rightarrow> int" where
  "getIntFromMetadata conv metadata key =
     (case metadata of
        None \<Rightarrow> 0
      | Some m \<Rightarrow>
          (case m key of
             Some (GFloat x) \<Rightarrow> float_to_int conv x
           | Some (GInt n) \<Rightarrow> n
           | Some (GInt64 n) \<Rightarrow> n
           | _ \<Rightarrow> 0))"

definition getStringFromMetadata :: "JSONBMap \<Rightarrow> string \<Rightarrow> string" where
  "getStringFromMetadata metadata key =
     (case metadata of
        None \<Rightarrow> []
      | Some m \<Rightarrow> (case m key of Some (GStr s) \<Rightarrow> s | _ \<Rightarrow> []))"

definition tagged :: "goval \<Rightarrow> string \<Rightarrow> bool" where
  "tagged tags flag \<longleftrightarrow>
     (case tags of
        GArr ts \<Rightarrow> list_ex (\<lambda>t. case t of GStr s \<Rightarrow> EqualFold s flag | _ \<Rightarrow> False) ts
      | GStrs ts \<Rightarrow> list_ex (\<lambda>t. EqualFold t flag) ts
      | _ \<Rightarrow> False)"

definition isFlagged :: "JSONBMap \<Rightarrow> string \<Rightarrow> bool" where
  "isFlagged metadata flag =
     (case metadata of
        None \<Rightarrow> False
      | Some m \<Rightarrow>
          (case m flag of
             Some (GBool b) \<Rightarrow> b
           | _ \<Rightarrow> (case m ''tags'' of Some tags \<Rightarrow> tagged tags flag | None \<Rightarrow> False)))"

section \<open>Scoring\<close>

definition defaultActionScore :: "string \<Rightarrow> int" where
  "defaultActionScore action =
     (let upper = ToUpper action; any = list_ex (Contains upper)
      in if any [''READ'', ''GET'', ''LIST'', ''SELECT''] then 10
         else if any [''CREATE'', ''INSERT'', ''ADD''] then 30
         else if any [''UPDATE'', ''MODIFY'', ''EDIT''] then 45
         else if any [''SEND'', ''EMAIL'', ''NOTIFY''] then 50
         else if any [''DELETE'', ''DROP'', ''REMOVE''] then 70
         else if any [''TRANSFER'', ''PAY'', ''CHARGE''] then 80
         else if any [''DEPLOY'', ''MIGRATE'', ''ROLLBACK''] then 75
         else 50)"

definition scoreToLevel :: "int \<Rightarrow> string" where
  "scoreToLevel score =
     (if score \<le> 30 then ''low''
      else if score \<le> 60 then ''medium''
      else if score \<le> 80 then ''high''
      else ''critical'')"

definition determineApproval :: "int \<Rightarrow> RiskPolicy option \<Rightarrow> AgentGuardSettings \<Rightarrow> string \<times> int" where
  "determineApproval score policy settings =
     (let override = (\<lambda>f d. case policy of
                              None \<Rightarrow> d
                            | Some p \<Rightarrow> (case f p of None \<Rightarrow> d | Some x \<Rightarrow> x));
          autoBelow = override rp_AutoApproveBelow (gs_AutoApproveBelow settings);
          approvalAbove = override rp_RequireApprovalAbove (gs_RequireApprovalAbove settings);
          multiAbove = override rp_RequireMultiApprovalAbove (gs_RequireMultiApprovalAbove settings)
      in if score \<le> autoBelow then (''auto'', 0)
         else if score \<ge> multiAbove then (''multi'', 2)
         else if score \<ge> approvalAbove then (''single'', 1)
         else (''auto'', 0))"

text \<open>The hour and the day of the week (Sunday is 0) of an instant shown in a zone.\<close>

definition clock_hour :: "gotime \<Rightarrow> int" where
  "clock_hour local = local div Hour mod 24"

definition clock_weekday :: "gotime \<Rightarrow> int" where
  "clock_weekday local = (local div (24 * Hour) + 4) mod 7"

definition isOffHours ::
  "(string \<Rightarrow> (gotime \<Rightarrow> gotime) option) \<Rightarrow> gotime \<Rightarrow> AgentGuardSettings \<Rightarrow> bool" where
  "isOffHours zone now settings =
     (let off = (case zone (gs_BusinessHoursTimezone settings) of None \<Rightarrow> 0 | Some f \<Rightarrow> f now);
          local = now + off;
          hour = clock_hour local;
          weekday = clock_weekday local
      in weekday = 6 \<or> weekday = 0 \<or>
         hour < gs_BusinessHoursStart settings \<or> hour \<ge> gs_BusinessHoursEnd settings)"

definition isKnownPIIResource :: "string \<Rightarrow> bool" where
  "isKnownPIIResource resource =
     list_ex (Contains (ToLower resource))
       [''user'', ''customer'', ''patient'', ''employee'', ''person'', ''profile'', ''identity'',
        ''credential'', ''password'', ''ssn'', ''passport'']"

definition isKnownFinancialResource :: "string \<Rightarrow> bool" where
  "isKnownFinancialResource resource =
     list_ex (Contains (ToLower resource))
       [''billing'', ''payment'', ''invoice'', ''transaction'', ''transfer'', ''account'', ''balance'',
        ''wallet'', ''credit'', ''subscription'']"

section \<open>Policy matching\<close>

text \<open>A glob match after case normalisation, with the two case-insensitive comparisons it falls back to.\<close>

definition pattern_matches :: "(string \<Rightarrow> string) \<Rightarrow> string \<Rightarrow> string \<Rightarrow> bool" where
  "pattern_matches cased pattern s \<longleftrightarrow>
     Match (cased pattern) (cased s) \<or> EqualFold pattern s \<or> EqualFold pattern ''*''"

definition policy_env :: "JSONBMap \<Rightarrow> string" where
  "policy_env metadata =
     (let env = getStringFromMetadata metadata ''env'' in if env = [] then ''default'' else env)"

definition policy_matches :: "string \<Rightarrow> string \<Rightarrow> JSONBMap \<Rightarrow> RiskPolicy \<Rightarrow> bool" where
  "policy_matches action resource metadata p \<longleftrightarrow>
     pattern_matches ToUpper (rp_ActionPattern p) action \<and>
     pattern_matches ToLower (rp_ResourcePattern p) resource \<and>
     pattern_matches ToLower (rp_EnvironmentPattern p) (policy_env metadata)"

definition matchPolicy :: "RiskPolicy list \<Rightarrow> string \<Rightarrow> string \<Rightarrow> JSONBMap \<Rightarrow> RiskPolicy option" where
  "matchPolicy policies action resource metadata =
     List.find (policy_matches action resource metadata) policies"

section \<open>Evaluation\<close>

text \<open>\<^verbatim>\<open>totalScore += score; factors = append(factors, ...)\<close> under a condition.\<close>

definition add_factor ::
  "bool \<Rightarrow> string \<Rightarrow> int \<Rightarrow> string \<Rightarrow> int \<times> RiskFactor list \<Rightarrow> int \<times> RiskFactor list" where
  "add_factor cond factor score reason acc =
     (if cond then (fst acc + score, snd acc @ [\<lparr> rf_Factor = factor, rf_Score = score, rf_Reason = reason \<rparr>])
      else acc)"

definition pad2 :: "int \<Rightarrow> string" where
  "pad2 i = (if 0 \<le> i \<and> i < 10 then CHR ''0'' # Itoa i else Itoa i)"

text \<open>The factors that do not need the database.\<close>

definition static_factors ::
  "(string \<Rightarrow> (gotime \<Rightarrow> gotime) option) \<Rightarrow> (rat \<Rightarrow> int) \<Rightarrow> gotime \<Rightarrow> RiskPolicy \<Rightarrow> string \<Rightarrow> string
     \<Rightarrow> JSONBMap \<Rightarrow> AgentGuardSettings \<Rightarrow> int \<times> RiskFactor list" where
  "static_factors zone conv now p action resource metadata settings =
     (let rowCount = getIntFromMetadata conv metadata ''row_count'';
          base = add_factor True ''base'' (rp_BaseScore p)
            (''Policy '' @ CHR 0x27 # rp_Name p @ CHR 0x27 # '' matched action='' @ action @ '' resource='' @ resource)
            (0, []);
          bulk = add_factor (rowCount > rp_ScopeBulkThreshold p) ''bulk'' (rp_ScopeBulkModifier p)
            (''Bulk operation: '' @ Itoa rowCount @ '' items exceeds threshold of '' @ Itoa (rp_ScopeBulkThreshold p))
            base;
          pii = add_factor (isFlagged metadata ''pii'' \<or> isKnownPIIResource resource) ''pii'' (rp_PIIModifier p)
            (''Resource '' @ CHR 0x27 # resource @ CHR 0x27 # '' contains personally identifiable information'')
            bulk;
          financial = add_factor (isFlagged metadata ''financial'' \<or> isKnownFinancialResource resource)
            ''financial'' (rp_FinancialModifier p)
            (''Resource '' @ CHR 0x27 # resource @ CHR 0x27 # '' involves financial data'')
            pii
      in add_factor (isOffHours zone now settings) ''off_hours'' (rp_OffHoursModifier p)
           (''Action requested outside business hours ('' @ pad2 (gs_BusinessHoursStart settings) @ '':00-'' @
            pad2 (gs_BusinessHoursEnd settings) @ '':00 '' @ gs_BusinessHoursTimezone settings @ '')'')
           financial)"

text \<open>The first-time factor, dropped when the query fails, and the factor for the environment.\<close>

definition history_factors ::
  "go_error + bool \<Rightarrow> RiskPolicy \<Rightarrow> string \<Rightarrow> string \<Rightarrow> string \<Rightarrow> JSONBMap
     \<Rightarrow> int \<times> RiskFactor list \<Rightarrow> int \<times> RiskFactor list" where
  "history_factors hasPrior p agentID action resource metadata acc =
     (let env = getStringFromMetadata metadata ''env''
      in add_factor (env = ''production'' \<or> env = ''prod'') ''production'' 20
           ''Action targets production environment''
           (add_factor (hasPrior = Inr False) ''first_time'' (rp_FirstTimeModifier p)
              (''First time agent '' @ CHR 0x27 # agentID @ CHR 0x27 # '' performs '' @ action @ '' on '' @ resource)
              acc))"

definition risk_evaluation ::
  "RiskPolicy option \<Rightarrow> AgentGuardSettings \<Rightarrow> int \<times> RiskFactor list \<Rightarrow> RiskEvaluation" where
  "risk_evaluation matched settings acc =
     (let capped = (if fst acc > 100 then 100 else fst acc);
          score = (if capped < 0 then 0 else capped);
          (approvalType, requiredApprovals) = determineApproval score matched settings
      in \<lparr> re_Score = score, re_Level = scoreToLevel score, re_Factors = snd acc,
           re_ApprovalType = approvalType, re_RequiredApprovals = requiredApprovals,
           re_MatchedPolicyID = map_option rp_ID matched \<rparr>)"

definition Evaluate ::
  "(string \<Rightarrow> (gotime \<Rightarrow> gotime) option) \<Rightarrow> (rat \<Rightarrow> int) \<Rightarrow> gotime \<Rightarrow> uuid \<Rightarrow> string \<Rightarrow> string \<Rightarrow> string
     \<Rightarrow> JSONBMap \<Rightarrow> AgentGuardSettings \<Rightarrow> 'a guard_db_scheme conn
     \<Rightarrow> (go_error + RiskEvaluation) \<times> 'a guard_db_scheme conn" where
  "Evaluate zone conv now tenantID agentID action resource metadata settings c =
     (case GetRiskPoliciesByTenant tenantID c of
        (Inl e, c1) \<Rightarrow> (Inl (Wrap ''failed to load risk policies: '' e), c1)
      | (Inr policies, c1) \<Rightarrow>
          (case matchPolicy policies action resource metadata of
             Some p \<Rightarrow>
               (let (hasPrior, c2) = HasPriorAction agentID action resource tenantID c1
                in (Inr (risk_evaluation (Some p) settings
                      (history_factors hasPrior p agentID action resource metadata
                        (static_factors zone conv now p action resource metadata settings))), c2))
           | None \<Rightarrow>
               (Inr (risk_evaluation None settings
                  (add_factor True ''default'' (defaultActionScore action)
                    (''No specific policy matched; default score for action '' @ CHR 0x27 # action @ [CHR 0x27])
                    (0, []))), c1)))"

section \<open>Which policy applies\<close>

lemma GetRiskPoliciesByTenant_fault_free [sql_simps]:
  "GetRiskPoliciesByTenant t (s, []) = (Inr (active_policies t (risk_policies s)), s, [])"
  by (simp add: GetRiskPoliciesByTenant_def wrap_err_def sql_simps)

lemma HasPriorAction_fault_free [sql_simps]:
  "HasPriorAction agent action resource t (s, []) =
     (Inr (\<exists>e \<in> set (agent_action_audit_log s). al_AgentID e = agent \<and> al_Action e = action \<and>
             al_Resource e = resource \<and> al_TenantID e = t \<and>
             (al_FinalStatus e = ''approved'' \<or> al_FinalStatus e = ''auto_approved'')), s, [])"
  by (simp add: HasPriorAction_def wrap_err_def sql_simps list_ex_iff)

lemma GetRiskPoliciesByTenant_tablesD:
  "GetRiskPoliciesByTenant t c = (r, s, os) \<Longrightarrow> s = fst c"
  by (auto simp: GetRiskPoliciesByTenant_def wrap_err_def split: prod.splits sum.splits dest: query_tablesD)

lemma HasPriorAction_tablesD:
  "HasPriorAction agent action resource t c = (r, s, os) \<Longrightarrow> s = fst c"
  by (auto simp: HasPriorAction_def wrap_err_def split: prod.splits sum.splits dest: query_tablesD)

text \<open>The evaluation only reads.\<close>

lemma Evaluate_keeps_tables:
  "fst (snd (Evaluate zone conv now t agent action resource md g c)) = fst c"
  by (auto simp: Evaluate_def split: prod.splits sum.splits option.splits
      dest!: GetRiskPoliciesByTenant_tablesD HasPriorAction_tablesD)

lemma set_active_policies [simp]:
  "set (active_policies t ps) = {p \<in> set ps. rp_TenantID p = t \<and> rp_IsActive p}"
  by (auto simp: active_policies_def)

text \<open>\<^verbatim>\<open>ORDER BY priority DESC, created_at ASC\<close> as a relation between rows.\<close>

definition outranks :: "RiskPolicy \<Rightarrow> RiskPolicy \<Rightarrow> bool" where
  "outranks p q \<longleftrightarrow> rp_Priority p > rp_Priority q \<or>
                   rp_Priority p = rp_Priority q \<and> rp_CreatedAt p \<le> rp_CreatedAt q"

lemma sorted_wrt_sort_key_stable:
  fixes f :: "'x \<Rightarrow> int" and g :: "'x \<Rightarrow> int"
  shows "sorted_wrt (\<lambda>p q. f p < f q \<or> f p = f q \<and> g p \<le> g q) (sort_key f (sort_key g xs))"
proof -
  let ?ys = "sort_key f (sort_key g xs)"
  have eq: "filter (\<lambda>y. f y = k) ?ys = filter (\<lambda>y. f y = k) (sort_key g xs)" for k
    by (rule sort_key_stable)
  show ?thesis
  proof (rule sorted_wrt_iff_nth_less [THEN iffD2], intro allI impI)
    fix i j assume ij: "i < j" "j < length ?ys"
    have le: "f (?ys ! i) \<le> f (?ys ! j)"
      using sorted_nth_mono [OF sorted_sort_key [of f "sort_key g xs"], of i j] ij by simp
    show "f (?ys ! i) < f (?ys ! j) \<or> f (?ys ! i) = f (?ys ! j) \<and> g (?ys ! i) \<le> g (?ys ! j)"
    proof (cases "f (?ys ! i) = f (?ys ! j)")
      case True
      let ?P = "\<lambda>y. f y = f (?ys ! i)"
      have split: "?ys = take j ?ys @ drop j ?ys" by simp
      have "?ys ! i \<in> set (filter ?P (take j ?ys))"
        using ij by (auto simp: in_set_conv_nth intro!: exI [of _ i])
      moreover have "?ys ! j \<in> set (filter ?P (drop j ?ys))"
        using ij True by (auto simp: in_set_conv_nth intro!: exI [of _ 0])
      moreover have "sorted_wrt (\<lambda>p q. g p \<le> g q) (filter ?P ?ys)"
        unfolding eq by (intro sorted_wrt_filter) (metis sorted_map sorted_sort_key)
      then have "sorted_wrt (\<lambda>p q. g p \<le> g q) (filter ?P (take j ?ys) @ filter ?P (drop j ?ys))"
        by (metis split filter_append)
      ultimately show ?thesis using True by (auto simp: sorted_wrt_append)
    qed (use le in simp)
  qed
qed

lemma active_policies_ranked: "sorted_wrt outranks (active_policies t ps)"
  unfolding active_policies_def
  using sorted_wrt_sort_key_stable [of "\<lambda>p. - rp_Priority p" rp_CreatedAt]
  by (rule sorted_wrt_mono_rel [rotated]) (auto simp: outranks_def)

lemma find_sorted_wrt:
  assumes "sorted_wrt R xs" and "List.find P xs = Some x" and "y \<in> set xs" and "P y"
  shows "y = x \<or> R x y"
  using assms by (induction xs) (auto split: if_splits)

lemma matchPolicy_active_Some:
  assumes "matchPolicy (active_policies t ps) action resource md = Some p"
  shows "p \<in> set ps" and "rp_TenantID p = t" and "rp_IsActive p" and "policy_matches action resource md p"
    and "q \<in> set ps \<Longrightarrow> rp_TenantID q = t \<Longrightarrow> rp_IsActive q \<Longrightarrow> policy_matches action resource md q \<Longrightarrow> outranks p q"
proof -
  have find: "List.find (policy_matches action resource md) (active_policies t ps) = Some p"
    using assms by (simp add: matchPolicy_def)
  from find_SomeD [OF find]
  show "p \<in> set ps" "rp_TenantID p = t" "rp_IsActive p" "policy_matches action resource md p" by auto
  assume "q \<in> set ps" "rp_TenantID q = t" "rp_IsActive q" "policy_matches action resource md q"
  then show "outranks p q"
    using find_sorted_wrt [OF active_policies_ranked find, of q] by (auto simp: outranks_def)
qed

lemma matchPolicy_active_None:
  "matchPolicy (active_policies t ps) action resource md = None \<longleftrightarrow>
     (\<forall>q \<in> set ps. rp_TenantID q = t \<longrightarrow> rp_IsActive q \<longrightarrow> \<not> policy_matches action resource md q)"
  by (auto simp: matchPolicy_def find_None_iff)

section \<open>What a score means\<close>

definition explained :: "int \<times> RiskFactor list \<Rightarrow> bool" where
  "explained acc \<longleftrightarrow> fst acc = sum_list (map rf_Score (snd acc))"

lemma explained_add_factor [simp]: "explained acc \<Longrightarrow> explained (add_factor b f sc r acc)"
  by (simp add: explained_def add_factor_def)

lemma explained_start [simp]: "explained (0, [])"
  by (simp add: explained_def)

lemma explained_static [simp]: "explained (static_factors zone conv now p action resource md g)"
  by (simp add: static_factors_def Let_def)

lemma explained_history [simp]:
  "explained acc \<Longrightarrow> explained (history_factors prior p agent action resource md acc)"
  by (simp add: history_factors_def Let_def)

lemma add_factor_nonempty: "b \<or> snd acc \<noteq> [] \<Longrightarrow> snd (add_factor b f sc r acc) \<noteq> []"
  by (auto simp: add_factor_def)

lemma static_factors_nonempty: "snd (static_factors zone conv now p action resource md g) \<noteq> []"
  by (simp add: static_factors_def Let_def add_factor_nonempty)

lemma history_factors_nonempty:
  "snd acc \<noteq> [] \<Longrightarrow> snd (history_factors prior p agent action resource md acc) \<noteq> []"
  by (simp add: history_factors_def Let_def add_factor_nonempty)

lemma risk_evaluation_fields:
  fixes m :: "RiskPolicy option" and g acc
  defines "e \<equiv> risk_evaluation m g acc"
  shows "re_Score e = max 0 (min 100 (fst acc))" and "re_Level e = scoreToLevel (re_Score e)"
    and "re_Factors e = snd acc" and "re_MatchedPolicyID e = map_option rp_ID m"
    and "(re_ApprovalType e, re_RequiredApprovals e) = determineApproval (re_Score e) m g"
  unfolding e_def by (auto simp: risk_evaluation_def Let_def case_prod_beta)

lemma Evaluate_cases:
  assumes "Evaluate zone conv now t agent action resource md g c = (Inr e, c')"
  obtains (matched) p prior where "e = risk_evaluation (Some p) g
      (history_factors prior p agent action resource md (static_factors zone conv now p action resource md g))"
  | (unmatched) reason where
      "e = risk_evaluation None g (add_factor True ''default'' (defaultActionScore action) reason (0, []))"
proof -
  obtain r c1 where get: "GetRiskPoliciesByTenant t c = (r, c1)" by (cases "GetRiskPoliciesByTenant t c")
  with assms obtain ps where r: "r = Inr ps" by (cases r) (simp_all add: Evaluate_def)
  show thesis
  proof (cases "matchPolicy ps action resource md")
    case None
    with assms get r have "risk_evaluation None g (add_factor True ''default'' (defaultActionScore action)
        (''No specific policy matched; default score for action '' @ CHR 0x27 # action @ [CHR 0x27]) (0, [])) = e"
      unfolding Evaluate_def by simp
    then show thesis by (rule unmatched [OF sym])
  next
    case (Some p)
    obtain prior c2 where "HasPriorAction agent action resource t c1 = (prior, c2)"
      by (cases "HasPriorAction agent action resource t c1")
    with assms get r Some show thesis
      unfolding Evaluate_def by (intro matched [where p = p and prior = prior]) simp
  qed
qed

lemma Evaluate_result:
  assumes "Evaluate zone conv now t agent action resource md g c = (Inr e, c')"
  shows "\<exists>m acc. e = risk_evaluation m g acc \<and> explained acc"
  using assms
proof (cases rule: Evaluate_cases)
  case (matched p prior)
  then show ?thesis by (intro exI conjI, assumption) simp
next
  case (unmatched reason)
  then show ?thesis by (intro exI conjI, assumption) simp
qed

lemma Evaluate_fault_free:
  "Evaluate zone conv now t agent action resource md g (s, []) =
     (Inr (case matchPolicy (active_policies t (risk_policies s)) action resource md of
             Some p \<Rightarrow> risk_evaluation (Some p) g
               (history_factors (fst (HasPriorAction agent action resource t (s, []))) p agent action resource md
                  (static_factors zone conv now p action resource md g))
           | None \<Rightarrow> risk_evaluation None g
               (add_factor True ''default'' (defaultActionScore action)
                  (''No specific policy matched; default score for action '' @ CHR 0x27 # action @ [CHR 0x27])
                  (0, []))), s, [])"
  by (simp add: Evaluate_def sql_simps split: option.splits)

lemma Evaluate_fault_free_result:
  assumes "Evaluate zone conv now t agent action resource md g (s, []) = (Inr e, c')"
  obtains m where "m = None \<or> (\<exists>p \<in> set (risk_policies s). m = Some p)"
    and "re_RequiredApprovals e = snd (determineApproval (re_Score e) m g)"
    and "re_Level e = scoreToLevel (re_Score e)"
proof -
  let ?m = "matchPolicy (active_policies t (risk_policies s)) action resource md"
  have "\<exists>acc. e = risk_evaluation ?m g acc"
    using assms by (cases ?m) (auto simp: Evaluate_fault_free simp del: split_paired_Ex)
  then obtain acc where "e = risk_evaluation ?m g acc" ..
  moreover have "?m = None \<or> (\<exists>p \<in> set (risk_policies s). ?m = Some p)"
    using matchPolicy_active_Some(1) by (cases ?m) blast+
  ultimately show thesis
    using that [of ?m] risk_evaluation_fields(2,5) by (metis snd_conv)
qed

lemma determineApproval_range: "determineApproval sc p g \<in> {(''auto'', 0), (''single'', 1), (''multi'', 2)}"
  by (simp add: determineApproval_def Let_def)

lemma defaultActionScore_range: "10 \<le> defaultActionScore action \<and> defaultActionScore action \<le> 80"
  by (simp add: defaultActionScore_def Let_def)

section \<open>Examples\<close>

definition ex_guard :: guard_db where
  "ex_guard =
     \<lparr> risk_policies = [], agent_guard_settings = [], agent_action_requests = [], agent_action_decisions = [],
       agent_action_audit_log = [], tenant_mappings = [] \<rparr>"

definition ex_policy :: RiskPolicy where
  "ex_policy =
     \<lparr> rp_ID = ''p-1'', rp_TenantID = ''t-1'', rp_Name = ''deletes'', rp_Description = [],
       rp_ActionPattern = ''DELETE*'', rp_ResourcePattern = ''*'', rp_EnvironmentPattern = ''*'',
       rp_BaseScore = 50, rp_ScopeBulkThreshold = 100, rp_ScopeBulkModifier = 30, rp_PIIModifier = 20,
       rp_FinancialModifier = 40, rp_OffHoursModifier = 10, rp_FirstTimeModifier = 10,
       rp_AutoApproveBelow = None, rp_RequireApprovalAbove = None, rp_RequireMultiApprovalAbove = None,
       rp_IsActive = True, rp_Priority = 5, rp_CreatedAt = 0, rp_UpdatedAt = 0 \<rparr>"

lemma ex_delete_row:
  "\<exists>e. Evaluate (\<lambda>_. None) (\<lambda>_. 0) 0 ''t-1'' ''bot'' ''DELETE_ROW'' ''logs'' None (default_settings 0 ''g'' ''t-1'')
          (ex_guard, []) = (Inr e, ex_guard, []) \<and> re_Score e = 70 \<and> re_Level e = ''high''"
proof -
  have "defaultActionScore ''DELETE_ROW'' = 70" by code_simp
  then show ?thesis
    by (simp add: Evaluate_fault_free ex_guard_def active_policies_def matchPolicy_def risk_evaluation_fields
        add_factor_def scoreToLevel_def)
qed

section \<open>Properties\<close>

text \<open>
  C32. Whatever statements fail, an evaluation that returns explains its score: the score is the sum of the
  listed factors cut to the range 0 to 100, the level is read off that score, and the approval type is
  \<^verbatim>\<open>auto\<close>, \<^verbatim>\<open>single\<close> or \<^verbatim>\<open>multi\<close> for 0, 1 or 2 required approvals.
\<close>

theorem Evaluate_explained:
  assumes "Evaluate zone conv now t agent action resource md g c = (Inr e, c')"
  shows "re_Score e = max 0 (min 100 (\<Sum>f \<leftarrow> re_Factors e. rf_Score f)) \<and>
         re_Level e = scoreToLevel (re_Score e) \<and>
         (re_ApprovalType e, re_RequiredApprovals e) \<in> {(''auto'', 0), (''single'', 1), (''multi'', 2)} \<and>
         re_Factors e \<noteq> []"
proof -
  obtain m acc where e: "e = risk_evaluation m g acc" and acc: "explained acc"
    using Evaluate_result [OF assms] by blast
  have "re_Factors e \<noteq> []"
    using assms
  proof (cases rule: Evaluate_cases)
    case (matched p prior)
    then show ?thesis
      by (simp add: risk_evaluation_fields history_factors_nonempty static_factors_nonempty)
  next
    case (unmatched reason)
    then show ?thesis by (simp add: risk_evaluation_fields add_factor_def)
  qed
  moreover have "(re_ApprovalType e, re_RequiredApprovals e) \<in> {(''auto'', 0), (''single'', 1), (''multi'', 2)}"
    using determineApproval_range [of "re_Score e" m g] by (simp only: e risk_evaluation_fields(5))
  ultimately show ?thesis using acc by (simp add: e risk_evaluation_fields explained_def)
qed

theorem Evaluate_explained_witness:
  "\<exists>e. Evaluate (\<lambda>_. None) (\<lambda>_. 0) 0 ''t-1'' ''bot'' ''DELETE_ROW'' ''logs'' None (default_settings 0 ''g'' ''t-1'')
          (ex_guard, []) = (Inr e, ex_guard, []) \<and>
       re_Score e = 70 \<and> re_Score e = max 0 (min 100 (\<Sum>f \<leftarrow> re_Factors e. rf_Score f)) \<and> re_Level e = ''high''"
  using ex_delete_row Evaluate_explained by metis

text \<open>
  C33. The evaluation applies the right policy: the policy it names is an active policy of the tenant that
  matches, and no other active matching policy of the tenant has a higher priority, or the same
  priority and an earlier creation time. It names none exactly when none matches, and then the
  score is the default score of the action verb.
\<close>

theorem Evaluate_best_policy:
  assumes "Evaluate zone conv now t agent action resource md g (s, []) = (Inr e, c')"
  defines "cands \<equiv> {p \<in> set (risk_policies s). rp_TenantID p = t \<and> rp_IsActive p \<and> policy_matches action resource md p}"
  shows "(case re_MatchedPolicyID e of
            None \<Rightarrow> cands = {} \<and> re_Score e = defaultActionScore action
          | Some i \<Rightarrow> \<exists>p \<in> cands. rp_ID p = i \<and> (\<forall>q \<in> cands. outranks p q))"
proof -
  let ?m = "matchPolicy (active_policies t (risk_policies s)) action resource md"
  show ?thesis
  proof (cases ?m)
    case None
    then have "e = risk_evaluation None g (add_factor True ''default'' (defaultActionScore action)
        (''No specific policy matched; default score for action '' @ CHR 0x27 # action @ [CHR 0x27]) (0, []))"
      using assms(1) by (simp add: Evaluate_fault_free)
    moreover have "cands = {}"
      using None by (auto simp: cands_def matchPolicy_active_None)
    ultimately show ?thesis
      using defaultActionScore_range [of action] by (simp add: risk_evaluation_fields add_factor_def)
  next
    case (Some p)
    then have "re_MatchedPolicyID e = Some (rp_ID p)"
      using assms(1) by (auto simp: Evaluate_fault_free risk_evaluation_fields)
    moreover have "p \<in> cands" and "\<forall>q \<in> cands. outranks p q"
      using matchPolicy_active_Some [OF Some] by (auto simp: cands_def)
    ultimately show ?thesis by auto
  qed
qed

theorem Evaluate_best_policy_witness:
  "\<exists>e. Evaluate (\<lambda>_. None) (\<lambda>_. 0) 0 ''t-1'' ''bot'' ''DELETE_ROW'' ''logs'' None (default_settings 0 ''g'' ''t-1'')
          (ex_guard\<lparr> risk_policies := [ex_policy] \<rparr>, []) = (Inr e, ex_guard\<lparr> risk_policies := [ex_policy] \<rparr>, []) \<and>
       re_MatchedPolicyID e = Some ''p-1''"
proof -
  let ?s = "ex_guard\<lparr> risk_policies := [ex_policy] \<rparr>"
  obtain e where e: "Evaluate (\<lambda>_. None) (\<lambda>_. 0) 0 ''t-1'' ''bot'' ''DELETE_ROW'' ''logs'' None
      (default_settings 0 ''g'' ''t-1'') (?s, []) = (Inr e, ?s, [])"
    by (simp add: Evaluate_fault_free)
  have "policy_matches ''DELETE_ROW'' ''logs'' None ex_policy" by code_simp
  moreover have "rp_ID ex_policy = ''p-1''" and "rp_TenantID ex_policy = ''t-1''" and "rp_IsActive ex_policy"
    by (simp_all add: ex_policy_def)
  ultimately have "re_MatchedPolicyID e = Some ''p-1''"
    using Evaluate_best_policy [OF e] by (auto simp: ex_guard_def split: option.splits)
  with e show ?thesis by blast
qed

text \<open>
  A higher score never needs fewer approvals, for any thresholds of the tenant and the policy, even
  inconsistent ones.
\<close>

theorem determineApproval_mono:
  assumes "sc \<le> sc'"
  shows "snd (determineApproval sc p g) \<le> snd (determineApproval sc' p g)"
  using assms by (simp add: determineApproval_def Let_def)

theorem determineApproval_mono_witness:
  "snd (determineApproval 20 (Some (ex_policy\<lparr> rp_AutoApproveBelow := Some 90, rp_RequireMultiApprovalAbove := Some 10 \<rparr>))
          (default_settings 0 ''g'' ''t-1''))
   \<le> snd (determineApproval 95 (Some (ex_policy\<lparr> rp_AutoApproveBelow := Some 90, rp_RequireMultiApprovalAbove := Some 10 \<rparr>))
          (default_settings 0 ''g'' ''t-1''))"
  by (rule determineApproval_mono) simp

text \<open>
  With the default thresholds the risk level decides the approval: low risk needs none, medium and high
  risk need one and critical risk needs two approvals, whether or not a policy without overrides matches.
\<close>

theorem default_thresholds_by_level:
  assumes "Evaluate zone conv now t agent action resource md (default_settings now' i t') (s, []) = (Inr e, c')"
    and "\<forall>p \<in> set (risk_policies s). rp_AutoApproveBelow p = None \<and> rp_RequireApprovalAbove p = None \<and>
            rp_RequireMultiApprovalAbove p = None"
  shows "re_RequiredApprovals e =
           (if re_Level e = ''low'' then 0 else if re_Level e = ''critical'' then 2 else 1)"
proof -
  obtain m where m: "m = None \<or> (\<exists>p \<in> set (risk_policies s). m = Some p)"
    and req: "re_RequiredApprovals e = snd (determineApproval (re_Score e) m (default_settings now' i t'))"
    and lev: "re_Level e = scoreToLevel (re_Score e)"
    using Evaluate_fault_free_result [OF assms(1)] by metis
  have "snd (determineApproval (re_Score e) m (default_settings now' i t')) =
      (if re_Score e \<le> 30 then 0 else if 81 \<le> re_Score e then 2 else 1)"
    using m assms(2) by (auto simp: determineApproval_def default_settings_def Let_def)
  then show ?thesis unfolding req lev by (simp add: scoreToLevel_def)
qed

theorem default_thresholds_by_level_witness:
  "\<exists>e. Evaluate (\<lambda>_. None) (\<lambda>_. 0) 0 ''t-1'' ''bot'' ''DELETE_ROW'' ''logs'' None (default_settings 0 ''g'' ''t-1'')
          (ex_guard, []) = (Inr e, ex_guard, []) \<and> re_Level e = ''high'' \<and> re_RequiredApprovals e = 1"
proof -
  obtain e where e: "Evaluate (\<lambda>_. None) (\<lambda>_. 0) 0 ''t-1'' ''bot'' ''DELETE_ROW'' ''logs'' None
      (default_settings 0 ''g'' ''t-1'') (ex_guard, []) = (Inr e, ex_guard, [])"
    and lev: "re_Level e = ''high''"
    using ex_delete_row by metis
  from default_thresholds_by_level [OF e] lev have "re_RequiredApprovals e = 1"
    by (simp add: ex_guard_def)
  with e lev show ?thesis by blast
qed

text \<open>
  When no policy matches, an action whose upper-cased name contains the letters of READ, GET, LIST or
  SELECT anywhere is scored 10 and, under the default thresholds, approved without a human, whatever
  other verb the name starts with.
\<close>

theorem read_substring_auto_approved:
  assumes "Contains (ToUpper action) verb" and "verb \<in> {''READ'', ''GET'', ''LIST'', ''SELECT''}"
    and "\<forall>p \<in> set (risk_policies s). rp_TenantID p = t \<longrightarrow> \<not> policy_matches action resource md p"
  shows "\<exists>e. Evaluate zone conv now t agent action resource md (default_settings now' i t) (s, []) = (Inr e, s, []) \<and>
             re_Score e = 10 \<and> re_ApprovalType e = ''auto''"
proof -
  have "list_ex (Contains (ToUpper action)) [''READ'', ''GET'', ''LIST'', ''SELECT'']"
    using assms(1,2) by (auto simp only: list.pred_inject list_ex_iff list.set insert_iff empty_iff)
  then have sc: "defaultActionScore action = 10"
    unfolding defaultActionScore_def Let_def by (simp only: if_True)
  have none: "matchPolicy (active_policies t (risk_policies s)) action resource md = None"
    using assms(3) by (auto simp: matchPolicy_active_None)
  show ?thesis
    by (simp add: Evaluate_fault_free none risk_evaluation_def add_factor_def sc determineApproval_def
        default_settings_def)
qed

theorem read_substring_auto_approved_witness:
  "\<exists>e. Evaluate (\<lambda>_. None) (\<lambda>_. 0) 0 ''t-1'' ''bot'' ''DELETE_WIDGETS'' ''customers'' None
          (default_settings 0 ''g'' ''t-1'') (ex_guard, []) = (Inr e, ex_guard, []) \<and>
       re_Score e = 10 \<and> re_ApprovalType e = ''auto''"
  by (rule read_substring_auto_approved [where verb = "''GET''"]) (code_simp, simp, simp add: ex_guard_def)

end
