(* ===== verification/Agent_Action.thy ===== *)
theory Agent_Action
  imports Risk_Engine
begin

text \<open>
  The agent action guard, \<^verbatim>\<open>services/agent_action_service.go\<close>: an agent asks before it acts, the risk
  engine scores the action, and a risky action waits for the decisions of humans. The operations are
  those of \<^verbatim>\<open>AgentActionService\<close>, over the tables and statements of \<open>Agent_Repository\<close>.

  \<^item> \<open>parse\<close> is \<^verbatim>\<open>uuid.Parse\<close>; \<open>tenantDB\<close> is the connection manager
    (\<^verbatim>\<open>middlewares.GetConnectionDynamically\<close>), which yields the tenant's own database or an error.
  \<^item> An evaluation also returns the push notifications it sends; whether the provider accepts them
    does not influence the operation.
  \<^item> All clock reads of one operation see the same instant \<open>now\<close>.
\<close>

section \<open>Requests and responses\<close>

record AgentActionEvaluateRequest =
  aq_ClientID :: string
  aq_AgentID :: string
  aq_AgentName :: string
  aq_AgentFramework :: string
  aq_SessionID :: string
  aq_Action :: string
  aq_Resource :: string
  aq_Detail :: string
  aq_Metadata :: JSONBMap
  aq_UserEmail :: string

record AgentActionEvaluateResponse =
  er_ActionReqID :: string
  er_Status :: string
  er_RiskScore :: int
  er_RiskLevel :: string
  er_ApprovalType :: string
  er_ExpiresIn :: int
  er_Interval :: int
  er_Message :: string
  er_Error :: string
  er_ErrorDescription :: string

record AgentActionStatusResponse =
  ps_ActionReqID :: string
  ps_Status :: string
  ps_RiskScore :: int
  ps_RiskLevel :: string
  ps_Decision :: string
  ps_DecidedBy :: string
  ps_Reason :: string
  ps_Error :: string
  ps_ErrorDescription :: string

record AgentActionRespondResponse =
  arr_Success :: bool
  arr_Message :: string

record RiskPolicyCreateRequest =
  pc_Name :: string
  pc_Description :: string
  pc_ActionPattern :: string
  pc_ResourcePattern :: string
  pc_EnvironmentPattern :: string
  pc_BaseScore :: int
  pc_ScopeBulkThreshold :: int
  pc_ScopeBulkModifier :: int
  pc_PIIModifier :: int
  pc_FinancialModifier :: int
  pc_OffHoursModifier :: int
  pc_FirstTimeModifier :: int
  pc_AutoApproveBelow :: "int option"
  pc_RequireApprovalAbove :: "int option"
  pc_RequireMultiApprovalAbove :: "int option"
  pc_Priority :: int

record RiskPolicyUpdateRequest =
  pu_Name :: "string option"
  pu_Description :: "string option"
  pu_ActionPattern :: "string option"
  pu_ResourcePattern :: "string option"
  pu_EnvironmentPattern :: "string option"
  pu_BaseScore :: "int option"
  pu_ScopeBulkThreshold :: "int option"
  pu_ScopeBulkModifier :: "int option"
  pu_PIIModifier :: "int option"
  pu_FinancialModifier :: "int option"
  pu_OffHoursModifier :: "int option"
  pu_FirstTimeModifier :: "int option"
  pu_AutoApproveBelow :: "int option"
  pu_RequireApprovalAbove :: "int option"
  pu_RequireMultiApprovalAbove :: "int option"
  pu_IsActive :: "bool option"
  pu_Priority :: "int option"

record AgentGuardSettingsRequest =
  sr_AutoApproveBelow :: "int option"
  sr_RequireApprovalAbove :: "int option"
  sr_RequireMultiApprovalAbove :: "int option"
  sr_ApprovalTimeoutSeconds :: "int option"
  sr_PollingIntervalSeconds :: "int option"
  sr_BusinessHoursStart :: "int option"
  sr_BusinessHoursEnd :: "int option"
  sr_BusinessHoursTimezone :: "string option"
  sr_RequireBiometric :: "bool option"

text \<open>A row of the tenant database's \<^verbatim>\<open>tenant_device_tokens\<close> (\<^verbatim>\<open>models/tenant_device.go\<close>).\<close>

record TenantDeviceToken =
  td_ID :: uuid
  td_UserID :: uuid
  td_TenantID :: uuid
  td_DeviceToken :: string
  td_Platform :: string
  td_DeviceName :: string
  td_DeviceModel :: string
  td_AppVersion :: string
  td_OSVersion :: string
  td_IsActive :: bool
  td_LastUsed :: "int option"
  td_CreatedAt :: int
  td_UpdatedAt :: int

definition GetTenantDeviceTokensByUserID ::
  "uuid \<Rightarrow> uuid \<Rightarrow> TenantDeviceToken list conn \<Rightarrow> go_error + TenantDeviceToken list" where
  "GetTenantDeviceTokensByUserID userID tenantID c =
     fst (query (\<lambda>ts. sort_key (\<lambda>t. - td_CreatedAt t)
            (filter (\<lambda>t. td_UserID t = userID \<and> td_TenantID t = tenantID \<and> td_IsActive t) ts)) c)"

text \<open>The arguments of \<^verbatim>\<open>SendActionApproval\<close>.\<close>

record ActionPush =
  ap_deviceToken :: string
  ap_actionReqID :: string
  ap_bindingMessage :: string
  ap_userEmail :: string
  ap_action :: string
  ap_resource :: string
  ap_riskScore :: int
  ap_riskLevel :: string

definition er_error :: "string \<Rightarrow> string \<Rightarrow> AgentActionEvaluateResponse" where
  "er_error err desc =
     \<lparr> er_ActionReqID = [], er_Status = [], er_RiskScore = 0, er_RiskLevel = [], er_ApprovalType = [],
       er_ExpiresIn = 0, er_Interval = 0, er_Message = [], er_Error = err, er_ErrorDescription = desc \<rparr>"

definition ps_error :: "string \<Rightarrow> string \<Rightarrow> AgentActionStatusResponse" where
  "ps_error err desc =
     \<lparr> ps_ActionReqID = [], ps_Status = [], ps_RiskScore = 0, ps_RiskLevel = [], ps_Decision = [],
       ps_DecidedBy = [], ps_Reason = [], ps_Error = err, ps_ErrorDescription = desc \<rparr>"

section \<open>Internal helpers\<close>

definition generateActionReqID :: "random \<Rightarrow> string option" where
  "generateActionReqID rnd = map_option (\<lambda>f. ''act_'' @ Base64URL (map f [0..<32])) rnd"

definition resolveTenantFromClientID ::
  "uuid \<Rightarrow> 'a guard_db_scheme conn \<Rightarrow> (go_error + uuid) \<times> 'a guard_db_scheme conn" where
  "resolveTenantFromClientID clientID c =
     (case query_row (\<lambda>s. select_row (\<lambda>m. tm_ClientID m = clientID) (tenant_mappings s)) c of
        (Inl e, c') \<Rightarrow> (Inl (Wrap ''client not found in tenant_mappings: '' e), c')
      | (Inr m, c') \<Rightarrow> (Inr (tm_TenantID m), c'))"

definition audit_row ::
  "gotime \<Rightarrow> uuid \<Rightarrow> AgentActionRequest \<Rightarrow> string \<Rightarrow> (string \<times> goval) list list \<Rightarrow> AgentActionAuditLog" where
  "audit_row now newID req finalStatus decidedBy =
     \<lparr> al_ID = newID, al_TenantID = ar_TenantID req, al_ActionRequestID = Some (ar_ID req),
       al_AgentID = ar_AgentID req, al_AgentName = ar_AgentName req, al_UserID = ar_UserID req,
       al_UserEmail = ar_UserEmail req, al_Action = ar_Action req, al_Resource = ar_Resource req,
       al_Detail = ar_Detail req, al_Metadata = ar_Metadata req, al_RiskScore = ar_RiskScore req,
       al_RiskLevel = ar_RiskLevel req, al_FinalStatus = finalStatus,
       al_DecidedBy = (if decidedBy = [] then None else Some (map GMap decidedBy)),
       al_RequestedAt = ar_CreatedAt req, al_DecidedAt = Some (Unix now),
       al_ExecutionDurationMs =
         (if ar_CreatedAt req > 0 then Some ((Unix now - ar_CreatedAt req) * 1000) else None),
       al_CreatedAt = 0 \<rparr>"

text \<open>An entry that cannot be written is only reported on the console.\<close>

definition writeAuditLog ::
  "gotime \<Rightarrow> uuid \<Rightarrow> AgentActionRequest \<Rightarrow> string \<Rightarrow> (string \<times> goval) list list
     \<Rightarrow> 'a guard_db_scheme conn \<Rightarrow> 'a guard_db_scheme conn" where
  "writeAuditLog now newID req finalStatus decidedBy c =
     snd (CreateAuditEntry now (audit_row now newID req finalStatus decidedBy) c)"

section \<open>EvaluateAction\<close>

text \<open>
  The identity of the request: the user of the token, and the tenant of the token or, if it names
  none, of the client. A failure is an error response.
\<close>

definition resolve_identity ::
  "(string \<Rightarrow> uuid option) \<Rightarrow> AgentActionEvaluateRequest \<Rightarrow> string \<Rightarrow> string \<Rightarrow> (go_error \<Rightarrow> string)
     \<Rightarrow> 'a guard_db_scheme conn
     \<Rightarrow> (AgentActionEvaluateResponse + uuid \<times> uuid) \<times> 'a guard_db_scheme conn" where
  "resolve_identity parse req jwtUserID jwtTenantID show_error c =
     (case parse jwtUserID of
        None \<Rightarrow> (Inl (er_error ''user_not_found'' ''Invalid user ID from token''), c)
      | Some userID \<Rightarrow>
          if jwtTenantID \<noteq> [] then
            (case parse jwtTenantID of
               None \<Rightarrow> (Inl (er_error ''invalid_action'' ''Invalid tenant ID from token''), c)
             | Some tenantID \<Rightarrow> (Inr (userID, tenantID), c))
          else if aq_ClientID req \<noteq> [] then
            (case parse (aq_ClientID req) of
               None \<Rightarrow> (Inl (er_error ''invalid_action'' ''Invalid client_id format''), c)
             | Some clientID \<Rightarrow>
                 (case resolveTenantFromClientID clientID c of
                    (Inl e, c1) \<Rightarrow>
                      (Inl (er_error ''invalid_action'' (''Could not resolve tenant: '' @ show_error e)), c1)
                  | (Inr tenantID, c1) \<Rightarrow> (Inr (userID, tenantID), c1)))
          else (Inl (er_error ''invalid_action'' ''No tenant_id in token and no client_id in request''), c))"

definition action_request ::
  "gotime \<Rightarrow> uuid \<Rightarrow> string \<Rightarrow> uuid \<Rightarrow> uuid \<Rightarrow> string \<Rightarrow> AgentActionEvaluateRequest \<Rightarrow> AgentGuardSettings
     \<Rightarrow> RiskEvaluation \<Rightarrow> AgentActionRequest" where
  "action_request now newID actionReqID tenantID userID userEmail req settings ev =
     \<lparr> ar_ID = newID, ar_ActionReqID = actionReqID, ar_TenantID = tenantID, ar_UserID = userID,
       ar_UserEmail = userEmail, ar_AgentID = aq_AgentID req, ar_AgentName = aq_AgentName req,
       ar_AgentFramework = aq_AgentFramework req, ar_SessionID = aq_SessionID req,
       ar_Action = aq_Action req, ar_Resource = aq_Resource req, ar_Detail = aq_Detail req,
       ar_Metadata = aq_Metadata req, ar_RiskScore = re_Score ev, ar_RiskLevel = re_Level ev,
       ar_RiskFactors =
         (if re_Factors ev = [] then None
          else Some (map (\<lambda>f. GMap [(''factor'', GStr (rf_Factor f)), (''score'', GInt (rf_Score f)),
                                   (''reason'', GStr (rf_Reason f))]) (re_Factors ev))),
       ar_MatchedPolicyID = re_MatchedPolicyID ev, ar_Status = [], ar_ApprovalType = re_ApprovalType ev,
       ar_RequiredApprovals = re_RequiredApprovals ev, ar_ReceivedApprovals = 0,
       ar_CIBAAuthReqID = [], ar_DeviceTokenID = None,
       ar_ExpiresAt = Unix (now + gs_ApprovalTimeoutSeconds settings * Second), ar_CreatedAt = 0,
       ar_DecidedAt = None, ar_LastPolledAt = None \<rparr>"

text \<open>Step 8: the device that gets the notification, if any.\<close>

definition approval_device ::
  "(uuid \<Rightarrow> go_error + TenantDeviceToken list conn) \<Rightarrow> uuid \<Rightarrow> uuid \<Rightarrow> string \<times> uuid option" where
  "approval_device tenantDB userID tenantID =
     (case tenantDB tenantID of
        Inl _ \<Rightarrow> ([], None)
      | Inr tc \<Rightarrow>
          (case GetTenantDeviceTokensByUserID userID tenantID tc of
             Inr (d # _) \<Rightarrow> (td_DeviceToken d, Some (td_ID d))
           | _ \<Rightarrow> ([], None)))"

definition pending_response ::
  "string \<Rightarrow> RiskEvaluation \<Rightarrow> AgentGuardSettings \<Rightarrow> string \<Rightarrow> AgentActionEvaluateResponse" where
  "pending_response actionReqID ev settings message =
     \<lparr> er_ActionReqID = actionReqID, er_Status = ''pending'', er_RiskScore = re_Score ev,
       er_RiskLevel = re_Level ev, er_ApprovalType = re_ApprovalType ev,
       er_ExpiresIn = gs_ApprovalTimeoutSeconds settings, er_Interval = gs_PollingIntervalSeconds settings,
       er_Message = message, er_Error = [], er_ErrorDescription = [] \<rparr>"

definition action_push ::
  "string \<Rightarrow> string \<Rightarrow> string \<Rightarrow> AgentActionEvaluateRequest \<Rightarrow> RiskEvaluation \<Rightarrow> ActionPush" where
  "action_push deviceToken actionReqID userEmail req ev =
     \<lparr> ap_deviceToken = deviceToken, ap_actionReqID = actionReqID,
       ap_bindingMessage =
         (if aq_Detail req \<noteq> [] then ''['' @ re_Level ev @ ''] '' @ aq_AgentName req @ '': '' @ aq_Detail req
          else ''['' @ re_Level ev @ ''] '' @ aq_AgentName req @ '' wants to '' @ aq_Action req @ '' on '' @
               aq_Resource req),
       ap_userEmail = userEmail, ap_action = aq_Action req, ap_resource = aq_Resource req,
       ap_riskScore = re_Score ev, ap_riskLevel = re_Level ev \<rparr>"

text \<open>Steps 7 and 8, once the request record is built.\<close>

definition submit_action ::
  "bool \<Rightarrow> (uuid \<Rightarrow> go_error + TenantDeviceToken list conn) \<Rightarrow> gotime \<Rightarrow> uuid \<Rightarrow> AgentActionRequest
     \<Rightarrow> AgentActionEvaluateRequest \<Rightarrow> AgentGuardSettings \<Rightarrow> RiskEvaluation \<Rightarrow> 'a guard_db_scheme conn
     \<Rightarrow> ((go_error + AgentActionEvaluateResponse) \<times> ActionPush list) \<times> 'a guard_db_scheme conn" where
  "submit_action pushService tenantDB now auditID r req settings ev c =
     (if re_ApprovalType ev = ''auto'' then
        (case CreateActionRequest now (r\<lparr> ar_Status := ''auto_approved'', ar_DecidedAt := Some (Unix now) \<rparr>) c of
           (Inl e, c1) \<Rightarrow> ((Inl (Wrap ''failed to create action request: '' e), []), c1)
         | (Inr r1, c1) \<Rightarrow>
             ((Inr \<lparr> er_ActionReqID = ar_ActionReqID r, er_Status = ''auto_approved'',
                     er_RiskScore = re_Score ev, er_RiskLevel = re_Level ev, er_ApprovalType = ''auto'',
                     er_ExpiresIn = 0, er_Interval = 0,
                     er_Message = ''Action auto-approved based on risk assessment'',
                     er_Error = [], er_ErrorDescription = [] \<rparr>, []),
              writeAuditLog now auditID r1 ''auto_approved'' [] c1))
      else
        (let r' = r\<lparr> ar_Status := ''pending'' \<rparr>;
             (deviceToken, deviceTokenID) = approval_device tenantDB (ar_UserID r) (ar_TenantID r)
         in if deviceToken = [] then
              (case CreateActionRequest now r' c of
                 (Inl e, c1) \<Rightarrow> ((Inl (Wrap ''failed to create action request: '' e), []), c1)
               | (Inr _, c1) \<Rightarrow>
                   ((Inr (pending_response (ar_ActionReqID r) ev settings
                       (''Action requires approval. No push device registered '' @
                        [CHR 0xE2, CHR 0x80, CHR 0x94] @ '' approve via web or API.'')), []), c1))
            else
              (case CreateActionRequest now (r'\<lparr> ar_DeviceTokenID := deviceTokenID \<rparr>) c of
                 (Inl e, c1) \<Rightarrow> ((Inl (Wrap ''failed to create action request: '' e), []), c1)
               | (Inr _, c1) \<Rightarrow>
                   ((Inr (pending_response (ar_ActionReqID r) ev settings
                       ''Action requires human approval. Push notification sent.''),
                     if pushService
                     then [action_push deviceToken (ar_ActionReqID r) (ar_UserEmail r) req ev]
                     else []), c1))))"

text \<open>What the operation draws from its surroundings, beside the database.\<close>

record eval_env =
  ev_parse :: "string \<Rightarrow> uuid option"
  ev_zone :: "string \<Rightarrow> (gotime \<Rightarrow> gotime) option"
  ev_conv :: "rat \<Rightarrow> int"
  ev_show_error :: "go_error \<Rightarrow> string"
  ev_tenantDB :: "uuid \<Rightarrow> go_error + TenantDeviceToken list conn"
  ev_pushService :: bool
  ev_now :: gotime
  ev_settingsID :: uuid
  ev_requestID :: uuid
  ev_auditID :: uuid
  ev_random :: random

definition EvaluateAction ::
  "eval_env \<Rightarrow> AgentActionEvaluateRequest \<Rightarrow> string \<Rightarrow> string \<Rightarrow> string \<Rightarrow> 'a guard_db_scheme conn
     \<Rightarrow> ((go_error + AgentActionEvaluateResponse) \<times> ActionPush list) \<times> 'a guard_db_scheme conn" where
  "EvaluateAction env req jwtUserID jwtUserEmail jwtTenantID c =
     (case resolve_identity (ev_parse env) req jwtUserID jwtTenantID (ev_show_error env) c of
        (Inl resp, c1) \<Rightarrow> ((Inr resp, []), c1)
      | (Inr (userID, tenantID), c1) \<Rightarrow>
          (let userEmail = (if jwtUserEmail = [] then aq_UserEmail req else jwtUserEmail)
           in case GetOrCreateSettings (ev_now env) (ev_settingsID env) tenantID c1 of
                (Inl e, c2) \<Rightarrow> ((Inl (Wrap ''failed to get agent guard settings: '' e), []), c2)
              | (Inr settings, c2) \<Rightarrow>
                  (case Evaluate (ev_zone env) (ev_conv env) (ev_now env) tenantID (aq_AgentID req)
                          (aq_Action req) (aq_Resource req) (aq_Metadata req) settings c2 of
                     (Inl e, c3) \<Rightarrow> ((Inl (Wrap ''risk evaluation failed: '' e), []), c3)
                   | (Inr ev, c3) \<Rightarrow>
                       (case generateActionReqID (ev_random env) of
                          None \<Rightarrow>
                            ((Inl (Wrap ''failed to generate action request ID: '' (Errorf ''rand'')), []), c3)
                        | Some actionReqID \<Rightarrow>
                            submit_action (ev_pushService env) (ev_tenantDB env) (ev_now env) (ev_auditID env)
                              (action_request (ev_now env) (ev_requestID env) actionReqID tenantID userID
                                 userEmail req settings ev)
                              req settings ev c3))))"

section \<open>PollActionStatus\<close>

definition status_response ::
  "string \<Rightarrow> string \<Rightarrow> AgentActionRequest \<Rightarrow> string \<Rightarrow> string \<Rightarrow> string \<Rightarrow> AgentActionStatusResponse" where
  "status_response actionReqID status r decision err desc =
     \<lparr> ps_ActionReqID = actionReqID, ps_Status = status, ps_RiskScore = ar_RiskScore r,
       ps_RiskLevel = ar_RiskLevel r, ps_Decision = decision, ps_DecidedBy = [], ps_Reason = [],
       ps_Error = err, ps_ErrorDescription = desc \<rparr>"

definition PollActionStatus ::
  "gotime \<Rightarrow> uuid \<Rightarrow> string \<Rightarrow> 'a guard_db_scheme conn
     \<Rightarrow> (go_error + AgentActionStatusResponse) \<times> 'a guard_db_scheme conn" where
  "PollActionStatus now auditID actionReqID c =
     (case GetActionRequestByID actionReqID c of
        (Inl _, c1) \<Rightarrow> (Inr (ps_error ''not_found'' ''Action request not found''), c1)
      | (Inr r, c1) \<Rightarrow>
          (let c2 = snd (action_UpdateLastPolled now actionReqID c1)
           in if ar_Status r = ''pending'' \<and> ar_IsExpired now r then
                (let c3 = snd (UpdateActionRequestStatus now actionReqID ''expired'' c2)
                 in (Inr (status_response actionReqID ''expired'' r [] ''expired_token''
                       ''Approval request expired without response''),
                     writeAuditLog now auditID r ''expired'' [] c3))
              else if ar_Status r = ''pending'' then
                (Inr (status_response actionReqID ''pending'' r [] ''authorization_pending''
                   ''Waiting for human approval''), c2)
              else if ar_Status r = ''approved'' \<or> ar_Status r = ''auto_approved'' then
                (Inr (status_response actionReqID (ar_Status r) r ''approved'' [] []), c2)
              else if ar_Status r = ''denied'' then
                (Inr (status_response actionReqID ''denied'' r ''denied'' ''access_denied''
                   ''Human denied this action''), c2)
              else
                (Inr (status_response actionReqID (ar_Status r) r [] ''expired_token''
                   ''Request is no longer active''), c2)))"

section \<open>RespondToAction\<close>

text \<open>
  \<open>respond_found\<close> is what follows the guard on the loaded row; other requests may have changed the
  tables between the load and these statements.
\<close>

definition decision_row ::
  "uuid \<Rightarrow> AgentActionRequest \<Rightarrow> uuid \<Rightarrow> string \<Rightarrow> bool \<Rightarrow> string \<Rightarrow> bool \<Rightarrow> AgentActionDecision" where
  "decision_row newID r approverUserID approverEmail approved reason biometricVerified =
     \<lparr> ad_ID = newID, ad_ActionRequestID = ar_ID r, ad_ApproverUserID = approverUserID,
       ad_ApproverEmail = approverEmail, ad_Decision = (if approved then ''approved'' else ''denied''),
       ad_Reason = (if approved then [] else reason), ad_BiometricVerified = biometricVerified,
       ad_CreatedAt = 0 \<rparr>"

definition respond_found ::
  "gotime \<Rightarrow> uuid \<Rightarrow> uuid \<Rightarrow> string \<Rightarrow> AgentActionRequest \<Rightarrow> uuid \<Rightarrow> string \<Rightarrow> bool \<Rightarrow> string \<Rightarrow> bool
     \<Rightarrow> 'a guard_db_scheme conn \<Rightarrow> (go_error + AgentActionRespondResponse) \<times> 'a guard_db_scheme conn" where
  "respond_found now decisionID auditID actionReqID r approverUserID approverEmail approved reason biometricVerified c =
     (case CreateDecision now
             (decision_row decisionID r approverUserID approverEmail approved reason biometricVerified) c of
        (Inl e, c1) \<Rightarrow> (Inl (Wrap ''failed to record decision: '' e), c1)
      | (Inr _, c1) \<Rightarrow>
          if \<not> approved then
            (let c2 = snd (UpdateActionRequestStatus now actionReqID ''denied'' c1)
             in (Inr \<lparr> arr_Success = True, arr_Message = ''Action denied'' \<rparr>,
                 writeAuditLog now auditID r ''denied''
                   [[(''user_id'', GStr approverUserID), (''email'', GStr approverEmail),
                     (''decision'', GStr ''denied''), (''reason'', GStr reason)]] c2))
          else
            (case IncrementApprovalCount actionReqID c1 of
               (Inl e, c2) \<Rightarrow> (Inl (Wrap ''failed to update approval count: '' e), c2)
             | (Inr (received, required), c2) \<Rightarrow>
                 if received \<ge> required then
                   (let c3 = snd (UpdateActionRequestStatus now actionReqID ''approved'' c2)
                    in (Inr \<lparr> arr_Success = True, arr_Message = ''Action approved'' \<rparr>,
                        writeAuditLog now auditID r ''approved''
                          [[(''user_id'', GStr approverUserID), (''email'', GStr approverEmail),
                            (''decision'', GStr ''approved'')]] c3))
                 else
                   (Inr \<lparr> arr_Success = True,
                          arr_Message = ''Approval recorded ('' @ Itoa received @ ''/'' @ Itoa required @
                                        '' required)'' \<rparr>, c2)))"

definition RespondToAction ::
  "gotime \<Rightarrow> uuid \<Rightarrow> uuid \<Rightarrow> string \<Rightarrow> uuid \<Rightarrow> string \<Rightarrow> bool \<Rightarrow> string \<Rightarrow> bool
     \<Rightarrow> 'a guard_db_scheme conn \<Rightarrow> (go_error + AgentActionRespondResponse) \<times> 'a guard_db_scheme conn" where
  "RespondToAction now decisionID auditID actionReqID approverUserID approverEmail approved reason biometricVerified c =
     (case GetActionRequestByID actionReqID c of
        (Inl _, c1) \<Rightarrow> (Inr \<lparr> arr_Success = False, arr_Message = ''Action request not found'' \<rparr>, c1)
      | (Inr r, c1) \<Rightarrow>
          if \<not> ar_IsPending now r then
            (Inr \<lparr> arr_Success = False,
                   arr_Message = ''Request is no longer pending (status: '' @ ar_Status r @ '')'' \<rparr>, c1)
          else
            respond_found now decisionID auditID actionReqID r approverUserID approverEmail approved reason
              biometricVerified c1)"

section \<open>Administration\<close>

definition CreateRiskPolicy ::
  "gotime \<Rightarrow> uuid \<Rightarrow> uuid \<Rightarrow> RiskPolicyCreateRequest \<Rightarrow> 'a guard_db_scheme conn
     \<Rightarrow> (go_error + RiskPolicy) \<times> 'a guard_db_scheme conn" where
  "CreateRiskPolicy now newID tenantID req c =
     repo_CreateRiskPolicy now
       \<lparr> rp_ID = newID, rp_TenantID = tenantID, rp_Name = pc_Name req, rp_Description = pc_Description req,
         rp_ActionPattern = pc_ActionPattern req,
         rp_ResourcePattern = (if pc_ResourcePattern req = [] then ''*'' else pc_ResourcePattern req),
         rp_EnvironmentPattern = (if pc_EnvironmentPattern req = [] then ''*'' else pc_EnvironmentPattern req),
         rp_BaseScore = pc_BaseScore req, rp_ScopeBulkThreshold = pc_ScopeBulkThreshold req,
         rp_ScopeBulkModifier = pc_ScopeBulkModifier req, rp_PIIModifier = pc_PIIModifier req,
         rp_FinancialModifier = pc_FinancialModifier req, rp_OffHoursModifier = pc_OffHoursModifier req,
         rp_FirstTimeModifier = pc_FirstTimeModifier req, rp_AutoApproveBelow = pc_AutoApproveBelow req,
         rp_RequireApprovalAbove = pc_RequireApprovalAbove req,
         rp_RequireMultiApprovalAbove = pc_RequireMultiApprovalAbove req, rp_IsActive = True,
         rp_Priority = pc_Priority req, rp_CreatedAt = 0, rp_UpdatedAt = 0 \<rparr> c"

text \<open>\<^verbatim>\<open>if req.X != nil { x = *req.X }\<close>.\<close>

definition given :: "'x option \<Rightarrow> 'x \<Rightarrow> 'x" where
  "given new old = (case new of None \<Rightarrow> old | Some x \<Rightarrow> x)"

definition given_ref :: "'x option \<Rightarrow> 'x option \<Rightarrow> 'x option" where
  "given_ref new old = (case new of None \<Rightarrow> old | Some x \<Rightarrow> Some x)"

definition patch_policy :: "RiskPolicyUpdateRequest \<Rightarrow> RiskPolicy \<Rightarrow> RiskPolicy" where
  "patch_policy req p =
     p\<lparr> rp_Name := given (pu_Name req) (rp_Name p), rp_Description := given (pu_Description req) (rp_Description p),
        rp_ActionPattern := given (pu_ActionPattern req) (rp_ActionPattern p),
        rp_ResourcePattern := given (pu_ResourcePattern req) (rp_ResourcePattern p),
        rp_EnvironmentPattern := given (pu_EnvironmentPattern req) (rp_EnvironmentPattern p),
        rp_BaseScore := given (pu_BaseScore req) (rp_BaseScore p),
        rp_ScopeBulkThreshold := given (pu_ScopeBulkThreshold req) (rp_ScopeBulkThreshold p),
        rp_ScopeBulkModifier := given (pu_ScopeBulkModifier req) (rp_ScopeBulkModifier p),
        rp_PIIModifier := given (pu_PIIModifier req) (rp_PIIModifier p),
        rp_FinancialModifier := given (pu_FinancialModifier req) (rp_FinancialModifier p),
        rp_OffHoursModifier := given (pu_OffHoursModifier req) (rp_OffHoursModifier p),
        rp_FirstTimeModifier := given (pu_FirstTimeModifier req) (rp_FirstTimeModifier p),
        rp_AutoApproveBelow := given_ref (pu_AutoApproveBelow req) (rp_AutoApproveBelow p),
        rp_RequireApprovalAbove := given_ref (pu_RequireApprovalAbove req) (rp_RequireApprovalAbove p),
        rp_RequireMultiApprovalAbove := given_ref (pu_RequireMultiApprovalAbove req) (rp_RequireMultiApprovalAbove p),
        rp_IsActive := given (pu_IsActive req) (rp_IsActive p), rp_Priority := given (pu_Priority req) (rp_Priority p) \<rparr>"

definition UpdateRiskPolicy ::
  "gotime \<Rightarrow> uuid \<Rightarrow> uuid \<Rightarrow> RiskPolicyUpdateRequest \<Rightarrow> 'a guard_db_scheme conn
     \<Rightarrow> (go_error + RiskPolicy) \<times> 'a guard_db_scheme conn" where
  "UpdateRiskPolicy now policyID tenantID req c =
     (case GetRiskPolicyByID policyID tenantID c of
        (Inl e, c1) \<Rightarrow> (Inl e, c1)
      | (Inr p, c1) \<Rightarrow> repo_UpdateRiskPolicy now (patch_policy req p) c1)"

definition DeleteRiskPolicy ::
  "gotime \<Rightarrow> uuid \<Rightarrow> uuid \<Rightarrow> 'a guard_db_scheme conn \<Rightarrow> (go_error + unit) \<times> 'a guard_db_scheme conn" where
  "DeleteRiskPolicy now policyID tenantID c = repo_DeleteRiskPolicy now policyID tenantID c"

definition patch_settings :: "AgentGuardSettingsRequest \<Rightarrow> AgentGuardSettings \<Rightarrow> AgentGuardSettings" where
  "patch_settings req g =
     g\<lparr> gs_AutoApproveBelow := given (sr_AutoApproveBelow req) (gs_AutoApproveBelow g),
        gs_RequireApprovalAbove := given (sr_RequireApprovalAbove req) (gs_RequireApprovalAbove g),
        gs_RequireMultiApprovalAbove := given (sr_RequireMultiApprovalAbove req) (gs_RequireMultiApprovalAbove g),
        gs_ApprovalTimeoutSeconds := given (sr_ApprovalTimeoutSeconds req) (gs_ApprovalTimeoutSeconds g),
        gs_PollingIntervalSeconds := given (sr_PollingIntervalSeconds req) (gs_PollingIntervalSeconds g),
        gs_BusinessHoursStart := given (sr_BusinessHoursStart req) (gs_BusinessHoursStart g),
        gs_BusinessHoursEnd := given (sr_BusinessHoursEnd req) (gs_BusinessHoursEnd g),
        gs_BusinessHoursTimezone := given (sr_BusinessHoursTimezone req) (gs_BusinessHoursTimezone g),
        gs_RequireBiometric := given (sr_RequireBiometric req) (gs_RequireBiometric g) \<rparr>"

definition UpdateSettings ::
  "gotime \<Rightarrow> uuid \<Rightarrow> uuid \<Rightarrow> AgentGuardSettingsRequest \<Rightarrow> 'a guard_db_scheme conn
     \<Rightarrow> (go_error + AgentGuardSettings) \<times> 'a guard_db_scheme conn" where
  "UpdateSettings now newID tenantID req c =
     (case GetOrCreateSettings now newID tenantID c of
        (Inl e, c1) \<Rightarrow> (Inl e, c1)
      | (Inr g, c1) \<Rightarrow> repo_UpdateSettings now (patch_settings req g) c1)"

definition GetAuditLog ::
  "uuid \<Rightarrow> int \<Rightarrow> int \<Rightarrow> 'a guard_db_scheme conn
     \<Rightarrow> (go_error + AgentActionAuditLog list \<times> int) \<times> 'a guard_db_scheme conn" where
  "GetAuditLog tenantID page perPage c =
     (let page' = (if page < 1 then 1 else page);
          perPage' = (if perPage < 1 \<or> perPage > 100 then 20 else perPage)
      in repo_GetAuditLog tenantID page' perPage' c)"

definition CleanupExpiredRequests ::
  "gotime \<Rightarrow> 'a guard_db_scheme conn \<Rightarrow> (go_error + int) \<times> 'a guard_db_scheme conn" where
  "CleanupExpiredRequests now c = ExpireOldActionRequests now c"

section \<open>The service as a transition system\<close>

datatype guard_op =
    OpEvaluate eval_env AgentActionEvaluateRequest string string string
  | OpPoll gotime uuid string
  | OpRespond gotime uuid uuid string uuid string bool string bool
  | OpPending gotime uuid uuid
  | OpPolicies uuid
  | OpCreatePolicy gotime uuid uuid RiskPolicyCreateRequest
  | OpUpdatePolicy gotime uuid uuid RiskPolicyUpdateRequest
  | OpDeletePolicy gotime uuid uuid
  | OpGetSettings gotime uuid uuid
  | OpUpdateSettings gotime uuid uuid AgentGuardSettingsRequest
  | OpAudit uuid int int
  | OpCleanup gotime

datatype guard_out =
    OutEvaluate "(go_error + AgentActionEvaluateResponse) \<times> ActionPush list"
  | OutPoll "go_error + AgentActionStatusResponse"
  | OutRespond "go_error + AgentActionRespondResponse"
  | OutPending "go_error + AgentActionRequest list"
  | OutPolicies "go_error + RiskPolicy list"
  | OutPolicy "go_error + RiskPolicy"
  | OutDeleted "go_error + unit"
  | OutSettings "go_error + AgentGuardSettings"
  | OutAudit "go_error + AgentActionAuditLog list \<times> int"
  | OutCleanup "go_error + int"

fun guard_step :: "guard_op \<Rightarrow> 'a guard_db_scheme conn \<Rightarrow> 'a guard_db_scheme conn \<times> guard_out" where
  "guard_step (OpEvaluate env req u m t) c = reply OutEvaluate (EvaluateAction env req u m t c)"
| "guard_step (OpPoll now i x) c = reply OutPoll (PollActionStatus now i x c)"
| "guard_step (OpRespond now d i x u m b why bio) c = reply OutRespond (RespondToAction now d i x u m b why bio c)"
| "guard_step (OpPending now t u) c = reply OutPending (GetPendingActionsByUser now t u c)"
| "guard_step (OpPolicies t) c = reply OutPolicies (GetRiskPoliciesByTenant t c)"
| "guard_step (OpCreatePolicy now i t req) c = reply OutPolicy (CreateRiskPolicy now i t req c)"
| "guard_step (OpUpdatePolicy now p t req) c = reply OutPolicy (UpdateRiskPolicy now p t req c)"
| "guard_step (OpDeletePolicy now p t) c = reply OutDeleted (DeleteRiskPolicy now p t c)"
| "guard_step (OpGetSettings now i t) c = reply OutSettings (GetOrCreateSettings now i t c)"
| "guard_step (OpUpdateSettings now i t req) c = reply OutSettings (UpdateSettings now i t req c)"
| "guard_step (OpAudit t page perPage) c = reply OutAudit (GetAuditLog t page perPage c)"
| "guard_step (OpCleanup now) c = reply OutCleanup (CleanupExpiredRequests now c)"

end
