(* ===== verification/Agent_Guard.thy ===== *)
theory Agent_Guard
  imports Agent_Action
begin

text \<open>
  What the agent action guard promises: the effect of each statement under any outcome, the invariant of the
  stored requests (an approval is backed by recorded decisions, a decided request does not change), its
  preservation by every operation and every run with any schedule of faults, and the properties of the
  service.
\<close>

section \<open>The effect of single statements\<close>

text \<open>
  Each statement either leaves the tables alone or has the effect below, whatever its outcome; reads never
  write. These are all the facts about statements that the proofs on operations use.
\<close>

definition approvals :: "AgentActionDecision list \<Rightarrow> uuid \<Rightarrow> int" where
  "approvals ds i = affected (\<lambda>d. ad_ActionRequestID d = i \<and> ad_Decision d = ''approved'') ds"

named_theorems guard_reads

lemma exec_tables_cases: "tables (exec f c) = fst c \<or> tables (exec f c) = fst (f (fst c))"
  by (cases c rule: conn_cases) auto

lemma exec_checked_tables_cases:
  "tables (exec_checked f c) = fst c \<or> f (fst c) = Inr (tables (exec_checked f c))"
  using exec_checked_tables [of f c] by (cases "exec_checked f c") simp

lemma GetActionRequestByID_tables [guard_reads]: "tables (GetActionRequestByID x c) = fst c"
  unfolding GetActionRequestByID_def
  by (auto split: prod.splits sum.splits go_error.splits dest: query_row_tablesD)

lemma query_row_Inr: "query_row g c = (Inr r, c') \<Longrightarrow> g (fst c) = Inr r"
  by (cases c rule: conn_cases) (auto simp: query_row_def query_def split: sum.splits)

lemma GetActionRequestByID_found:
  assumes "GetActionRequestByID x c = (Inr r, c')"
  shows "List.find (\<lambda>r. ar_ActionReqID r = x) (agent_action_requests (fst c)) = Some r" and "fst c' = fst c"
proof -
  from assms obtain c1 where q: "query_row (\<lambda>s. select_row (\<lambda>r. ar_ActionReqID r = x) (agent_action_requests s)) c = (Inr r, c1)"
    unfolding GetActionRequestByID_def by (auto split: prod.splits sum.splits go_error.splits)
  from query_row_Inr [OF q] show "List.find (\<lambda>r. ar_ActionReqID r = x) (agent_action_requests (fst c)) = Some r"
    by (simp add: select_row_Inr_iff)
  show "fst c' = fst c" using GetActionRequestByID_tables [of x c] assms by simp
qed

definition set_status :: "gotime \<Rightarrow> string \<Rightarrow> string \<Rightarrow> AgentActionRequest list \<Rightarrow> AgentActionRequest list" where
  "set_status now x st =
     update_where (\<lambda>r. ar_ActionReqID r = x) (\<lambda>r. r\<lparr> ar_Status := st, ar_DecidedAt := Some (Unix now) \<rparr>)"

definition set_polled :: "gotime \<Rightarrow> string \<Rightarrow> AgentActionRequest list \<Rightarrow> AgentActionRequest list" where
  "set_polled now x =
     update_where (\<lambda>r. ar_ActionReqID r = x) (\<lambda>r. r\<lparr> ar_LastPolledAt := Some (Unix now) \<rparr>)"

definition count_approval :: "string \<Rightarrow> AgentActionRequest list \<Rightarrow> AgentActionRequest list" where
  "count_approval x =
     update_where (\<lambda>r. ar_ActionReqID r = x) (\<lambda>r. r\<lparr> ar_ReceivedApprovals := ar_ReceivedApprovals r + 1 \<rparr>)"

lemma UpdateActionRequestStatus_tables:
  fixes c :: "'a guard_db_scheme conn" and now x st
  defines "s' \<equiv> tables (UpdateActionRequestStatus now x st c)"
  shows "s' = fst c \<or> s' = (fst c)\<lparr> agent_action_requests := set_status now x st (agent_action_requests (fst c)) \<rparr>"
  unfolding s'_def UpdateActionRequestStatus_def set_status_def wrap_err_snd
  by (cases c rule: conn_cases) simp_all

lemma action_UpdateLastPolled_tables:
  fixes c :: "'a guard_db_scheme conn" and now x
  defines "s' \<equiv> tables (action_UpdateLastPolled now x c)"
  shows "s' = fst c \<or> s' = (fst c)\<lparr> agent_action_requests := set_polled now x (agent_action_requests (fst c)) \<rparr>"
  unfolding s'_def action_UpdateLastPolled_def set_polled_def
  by (cases c rule: conn_cases) simp_all

lemma writeAuditLog_tables:
  fixes c :: "'a guard_db_scheme conn" and now i r st decidedBy
  defines "s' \<equiv> fst (writeAuditLog now i r st decidedBy c)"
  shows "s' = fst c \<or> s' = (fst c)\<lparr> agent_action_audit_log := agent_action_audit_log (fst c) @
      [stored_audit now (audit_row now i r st decidedBy)] \<rparr>"
  unfolding s'_def writeAuditLog_def CreateAuditEntry_def wrap_err_snd
  by (cases c rule: conn_cases) (simp_all add: exec_checked_def insert_audit_def split: sum.splits)

lemma CreateDecision_tables:
  fixes c :: "'a guard_db_scheme conn" and now d
  defines "s' \<equiv> tables (CreateDecision now d c)"
  shows "s' = fst c \<or>
    s' = (fst c)\<lparr> agent_action_decisions := agent_action_decisions (fst c) @ [d\<lparr> ad_CreatedAt := Unix now \<rparr>] \<rparr>"
  unfolding s'_def CreateDecision_def wrap_err_snd
  by (cases c rule: conn_cases) (simp_all add: exec_checked_def insert_decision_def split: sum.splits)

lemma CreateDecision_ok:
  "CreateDecision now d c = (Inr u, c') \<Longrightarrow>
     fst c' = (fst c)\<lparr> agent_action_decisions := agent_action_decisions (fst c) @ [d\<lparr> ad_CreatedAt := Unix now \<rparr>] \<rparr>"
  unfolding CreateDecision_def wrap_err_Inr_iff
  by (drule exec_checked_Inr_tables) (simp add: insert_decision_def split: if_splits)

lemma IncrementApprovalCount_tables:
  fixes c :: "'a guard_db_scheme conn" and x
  assumes "IncrementApprovalCount x c = (r, c')"
  defines "t \<equiv> count_approval x (agent_action_requests (fst c))"
  shows "fst c' = fst c \<and> (\<exists>e. r = Inl e) \<or> fst c' = (fst c)\<lparr> agent_action_requests := t \<rparr> \<and>
    (\<forall>n m. r = Inr (n, m) \<longrightarrow>
      (\<exists>q. List.find (\<lambda>r. ar_ActionReqID r = x) t = Some q \<and> n = ar_ReceivedApprovals q \<and> m = ar_RequiredApprovals q))"
  using assms(1) unfolding IncrementApprovalCount_def t_def count_approval_def
  by (cases c rule: conn_cases) (auto simp: Let_def select_row_Inr_iff split: sum.splits)

lemma CreateActionRequest_tables:
  fixes c :: "'a guard_db_scheme conn" and now r
  defines "s' \<equiv> tables (CreateActionRequest now r c)"
  defines "q \<equiv> stored_request (r\<lparr> ar_CreatedAt := Unix now \<rparr>)"
  shows "s' = fst c \<or> s' = (fst c)\<lparr> agent_action_requests := agent_action_requests (fst c) @ [q] \<rparr> \<and>
    ar_ActionReqID q \<notin> ar_ActionReqID ` set (agent_action_requests (fst c)) \<and>
    ar_ID q \<notin> ar_ID ` set (agent_action_requests (fst c))"
proof -
  have "s' = tables (exec_checked (insert_action_request q) c)"
    unfolding s'_def q_def CreateActionRequest_def Let_def
    by (auto split: prod.splits sum.splits simp: wrap_err_def)
  then show ?thesis
    using exec_checked_tables_cases [of "insert_action_request q" c]
    by (auto simp: insert_action_request_def split: if_splits)
qed

lemma insert_settings_tables:
  "exec_checked (insert_settings g) c = (r, c') \<Longrightarrow>
     fst c' = fst c \<or> fst c' = (fst c)\<lparr> agent_guard_settings := agent_guard_settings (fst c) @ [g] \<rparr>"
  by (drule exec_checked_tables) (auto simp: insert_settings_def split: if_splits)

lemma GetOrCreateSettings_tables:
  assumes "GetOrCreateSettings now i t c = (r, c')"
  shows "fst c' = fst c \<or>
    fst c' = (fst c)\<lparr> agent_guard_settings := agent_guard_settings (fst c) @ [default_settings now i t] \<rparr>"
proof -
  let ?q = "query_row (\<lambda>s. select_row (\<lambda>g. gs_TenantID g = t) (agent_guard_settings s)) c"
  obtain q c1 where q: "?q = (q, c1)" by (cases ?q)
  then have c1: "fst c1 = fst c" by (metis query_row_tablesD prod.collapse)
  obtain u c2 where ins: "exec_checked (insert_settings (default_settings now i t)) c1 = (u, c2)"
    by (cases "exec_checked (insert_settings (default_settings now i t)) c1")
  have "c' = c1 \<or> c' = c2"
    using assms unfolding GetOrCreateSettings_def q
    by (auto simp: ins Let_def wrap_err_def split: sum.splits go_error.splits)
  with insert_settings_tables [OF ins] c1 show ?thesis by auto
qed

section \<open>Rows and their invariant\<close>

text \<open>
  What an operation may do to a stored request: it keeps everything but the status, the time of the
  decision, the count of approvals and the time of the last poll, and of these only the last one once the
  request is decided.
\<close>

definition request_moves :: "AgentActionRequest \<Rightarrow> AgentActionRequest \<Rightarrow> bool" where
  "request_moves r r' \<longleftrightarrow>
     r' = r\<lparr> ar_Status := ar_Status r', ar_DecidedAt := ar_DecidedAt r',
             ar_ReceivedApprovals := ar_ReceivedApprovals r', ar_LastPolledAt := ar_LastPolledAt r' \<rparr> \<and>
     (ar_Status r \<noteq> ''pending'' \<longrightarrow> r' = r\<lparr> ar_LastPolledAt := ar_LastPolledAt r' \<rparr>)"

lemma request_moves_refl [simp]: "request_moves r r"
  by (simp add: request_moves_def)

lemma request_moves_trans:
  assumes "request_moves a b" and "request_moves b c"
  shows "request_moves a c"
proof (cases "ar_Status a = ''pending''")
  case True
  with assms show ?thesis unfolding request_moves_def by (cases a; cases b; cases c) simp
next
  case False
  with assms show ?thesis unfolding request_moves_def by (cases a; cases b; cases c) simp
qed

lemma request_moves_id: "request_moves r r' \<Longrightarrow> ar_ActionReqID r' = ar_ActionReqID r"
  by (cases r; cases r') (simp add: request_moves_def)

text \<open>
  A row is in order when its status is known, its approval type fits the number of required approvals, it
  is approved only with that many approvals, and every counted approval is a recorded decision.
\<close>

definition row_ok :: "AgentActionDecision list \<Rightarrow> AgentActionRequest \<Rightarrow> bool" where
  "row_ok ds r \<longleftrightarrow>
     ar_Status r \<in> {''pending'', ''approved'', ''auto_approved'', ''denied'', ''expired''} \<and>
     (ar_ApprovalType r, ar_RequiredApprovals r) \<in> {(''auto'', 0), (''single'', 1), (''multi'', 2)} \<and>
     (ar_Status r = ''auto_approved'' \<longleftrightarrow> ar_ApprovalType r = ''auto'') \<and>
     (ar_Status r = ''approved'' \<longrightarrow> ar_RequiredApprovals r \<le> ar_ReceivedApprovals r) \<and>
     ar_ReceivedApprovals r \<le> approvals ds (ar_ID r)"

definition requests_ok :: "AgentActionDecision list \<Rightarrow> AgentActionRequest list \<Rightarrow> bool" where
  "requests_ok ds t \<longleftrightarrow>
     distinct (map ar_ActionReqID t) \<and> distinct (map ar_ID t) \<and> (\<forall>r \<in> set t. row_ok ds r)"

definition pending_at :: "string \<Rightarrow> AgentActionRequest list \<Rightarrow> bool" where
  "pending_at x t \<longleftrightarrow> (\<forall>r \<in> set t. ar_ActionReqID r = x \<longrightarrow> ar_Status r = ''pending'')"

abbreviation advances :: "AgentActionRequest list \<Rightarrow> AgentActionRequest list \<Rightarrow> bool" where
  "advances \<equiv> grows request_moves"

lemma advances_refl [simp]: "advances t t"
  by (rule grows_refl) simp

lemma advances_trans: "advances t t' \<Longrightarrow> advances t' t'' \<Longrightarrow> advances t t''"
  by (rule grows_trans [of request_moves]) (rule request_moves_trans)

lemmas guard_updates = set_status_def set_polled_def count_approval_def

lemma requests_ok_update:
  assumes "requests_ok ds t" and "\<And>r. ar_ActionReqID (f r) = ar_ActionReqID r" and "\<And>r. ar_ID (f r) = ar_ID r"
    and "\<And>r. r \<in> set t \<Longrightarrow> P r \<Longrightarrow> row_ok ds r \<Longrightarrow> row_ok ds (f r)"
  shows "requests_ok ds (update_where P f t)"
  using assms unfolding requests_ok_def by (auto simp: map_update_where table_simps)

lemma row_ok_expired:
  "row_ok ds r \<Longrightarrow> ar_Status r = ''pending'' \<Longrightarrow> row_ok ds (r\<lparr> ar_Status := ''expired'', ar_DecidedAt := d \<rparr>)"
  unfolding row_ok_def by auto

lemma requests_ok_polled: "requests_ok ds t \<Longrightarrow> requests_ok ds (set_polled now x t)"
  unfolding set_polled_def by (rule requests_ok_update) (auto simp: row_ok_def)

lemma advances_polled: "advances t (set_polled now x t)"
  unfolding set_polled_def by (rule grows_update_where) (simp_all add: request_moves_def)

lemma pending_at_polled: "pending_at x t \<Longrightarrow> pending_at x (set_polled now y t)"
  by (auto simp: pending_at_def set_polled_def table_simps)

lemma requests_ok_status:
  assumes "requests_ok ds t" and "pending_at x t" and "st \<in> {''approved'', ''denied'', ''expired''}"
    and "st = ''approved'' \<Longrightarrow> \<forall>r \<in> set t. ar_ActionReqID r = x \<longrightarrow> ar_RequiredApprovals r \<le> ar_ReceivedApprovals r"
  shows "requests_ok ds (set_status now x st t)"
  unfolding set_status_def using assms(2-)
  by (intro requests_ok_update [OF assms(1)]) (auto simp: row_ok_def pending_at_def)

lemma advances_status: "pending_at x t \<Longrightarrow> advances t (set_status now x st t)"
  unfolding set_status_def by (rule grows_update_where) (auto simp: request_moves_def pending_at_def)

lemma requests_ok_count:
  assumes "requests_ok ds t" and "pending_at x t"
    and "\<forall>r \<in> set t. ar_ActionReqID r = x \<longrightarrow> ar_ReceivedApprovals r < approvals ds (ar_ID r)"
  shows "requests_ok ds (count_approval x t)"
  unfolding count_approval_def using assms(2-)
  by (intro requests_ok_update [OF assms(1)]) (auto simp: row_ok_def pending_at_def)

lemma advances_count: "pending_at x t \<Longrightarrow> advances t (count_approval x t)"
  unfolding count_approval_def by (rule grows_update_where) (auto simp: request_moves_def pending_at_def)

lemma pending_at_count: "pending_at x t \<Longrightarrow> pending_at x (count_approval y t)"
  by (auto simp: pending_at_def count_approval_def table_simps)

lemma approvals_snoc:
  "approvals (ds @ [d]) i = approvals ds i + (if ad_ActionRequestID d = i \<and> ad_Decision d = ''approved'' then 1 else 0)"
  by (simp add: approvals_def affected_def)

lemma requests_ok_decide: "requests_ok ds t \<Longrightarrow> requests_ok (ds @ [d]) t"
  by (auto simp: requests_ok_def row_ok_def approvals_snoc)

lemma approvals_nonneg: "0 \<le> approvals ds i"
  by (simp add: approvals_def affected_def)

lemma requests_ok_insert:
  assumes "requests_ok ds t" and "ar_ActionReqID r \<notin> ar_ActionReqID ` set t" and "ar_ID r \<notin> ar_ID ` set t"
    and "ar_ReceivedApprovals r = 0" and "ar_Status r = (if ar_ApprovalType r = ''auto'' then ''auto_approved'' else ''pending'')"
    and "(ar_ApprovalType r, ar_RequiredApprovals r) \<in> {(''auto'', 0), (''single'', 1), (''multi'', 2)}"
  shows "requests_ok ds (t @ [r])"
  using assms approvals_nonneg [of ds "ar_ID r"] unfolding requests_ok_def row_ok_def by auto

lemma advances_insert: "advances t (t @ [r])"
  by (rule grows_snoc) simp

lemma find_pending_at:
  assumes "requests_ok ds t" and "List.find (\<lambda>r. ar_ActionReqID r = x) t = Some r" and "ar_Status r = ''pending''"
  shows "pending_at x t"
  using assms find_SomeD [OF assms(2)] unfolding pending_at_def requests_ok_def
  by (auto simp: distinct_map inj_on_def)

section \<open>Operations keep the invariant\<close>

definition guard_ok :: "'a guard_db_scheme \<Rightarrow> bool" where
  "guard_ok s \<longleftrightarrow> requests_ok (agent_action_decisions s) (agent_action_requests s)"

text \<open>From good tables to good tables, with every stored request moving only as it may.\<close>

definition guard_moves :: "'a guard_db_scheme \<Rightarrow> 'a guard_db_scheme \<Rightarrow> bool" where
  "guard_moves s s' \<longleftrightarrow> guard_ok s' \<and> advances (agent_action_requests s) (agent_action_requests s')"

lemma guard_moves_refl: "guard_ok s \<Longrightarrow> guard_moves s s"
  by (simp add: guard_moves_def)

lemma guard_moves_trans: "guard_moves s s' \<Longrightarrow> guard_moves s' s'' \<Longrightarrow> guard_moves s s''"
  unfolding guard_moves_def by (blast intro: advances_trans)

lemma guard_moves_other:
  assumes "guard_ok s" and "agent_action_requests s' = agent_action_requests s"
    and "agent_action_decisions s' = agent_action_decisions s"
  shows "guard_moves s s'"
  using assms by (simp add: guard_moves_def guard_ok_def)

lemma writeAuditLog_requests [simp]:
  "agent_action_requests (fst (writeAuditLog now i r st by c)) = agent_action_requests (fst c)"
  "agent_action_decisions (fst (writeAuditLog now i r st by c)) = agent_action_decisions (fst c)"
  using writeAuditLog_tables [of now i r st "by" c] by auto

lemma audit_moves: "guard_moves s (fst c) \<Longrightarrow> guard_moves s (fst (writeAuditLog now i r st by c))"
  by (simp add: guard_moves_def guard_ok_def)

lemma polled_moves:
  assumes "guard_ok (fst c)"
  shows "guard_moves (fst c) (tables (action_UpdateLastPolled now x c))"
    and "pending_at y (agent_action_requests (fst c)) \<Longrightarrow>
         pending_at y (agent_action_requests (tables (action_UpdateLastPolled now x c)))"
  using assms action_UpdateLastPolled_tables [of now x c]
  by (auto simp: guard_moves_def guard_ok_def requests_ok_polled advances_polled pending_at_polled)

lemma status_moves:
  assumes "guard_ok (fst c)" and "pending_at x (agent_action_requests (fst c))"
    and "st \<in> {''approved'', ''denied'', ''expired''}"
    and "st = ''approved'' \<Longrightarrow> \<forall>r \<in> set (agent_action_requests (fst c)).
           ar_ActionReqID r = x \<longrightarrow> ar_RequiredApprovals r \<le> ar_ReceivedApprovals r"
  shows "guard_moves (fst c) (tables (UpdateActionRequestStatus now x st c))"
  using UpdateActionRequestStatus_tables [of now x st c] assms
    requests_ok_status [of "agent_action_decisions (fst c)" "agent_action_requests (fst c)" x st now]
    advances_status [of x "agent_action_requests (fst c)" now st]
  by (auto simp: guard_moves_def guard_ok_def)

lemma PollActionStatus_moves:
  assumes ok: "guard_ok (fst c)"
  shows "guard_moves (fst c) (tables (PollActionStatus now i x c))"
proof -
  obtain res c1 where Pair: "GetActionRequestByID x c = (res, c1)" by (metis surj_pair)
  have c1: "fst c1 = fst c" using GetActionRequestByID_tables [of x c] Pair by simp
  show ?thesis
  proof (cases res)
    case (Inl e)
    with Pair c1 ok show ?thesis by (simp add: PollActionStatus_def guard_moves_refl)
  next
    case (Inr r)
    define c2 where "c2 = snd (action_UpdateLastPolled now x c1)"
    have m2: "guard_moves (fst c) (fst c2)" using polled_moves(1) [of c1] ok c1 by (simp add: c2_def)
    show ?thesis
    proof (cases "ar_Status r = ''pending'' \<and> ar_IsExpired now r")
      case True
      have "pending_at x (agent_action_requests (fst c))"
        using find_pending_at GetActionRequestByID_found(1) Pair Inr ok True unfolding guard_ok_def by blast
      then have "pending_at x (agent_action_requests (fst c2))"
        using polled_moves(2) [of c1] ok c1 by (simp add: c2_def)
      then have "guard_moves (fst c2) (tables (UpdateActionRequestStatus now x ''expired'' c2))"
        using m2 by (intro status_moves) (auto simp: guard_moves_def)
      with m2 have m3: "guard_moves (fst c) (tables (UpdateActionRequestStatus now x ''expired'' c2))"
        by (rule guard_moves_trans)
      have "guard_moves (fst c) (fst (writeAuditLog now i r ''expired'' []
          (snd (UpdateActionRequestStatus now x ''expired'' c2))))"
        using m3 by (rule audit_moves)
      with Pair Inr True show ?thesis by (simp add: PollActionStatus_def Let_def c2_def)
    next
      case False
      with m2 Pair Inr show ?thesis by (auto simp: PollActionStatus_def Let_def c2_def)
    qed
  qed
qed

lemma count_moves:
  assumes "guard_ok (fst c)" and "pending_at x (agent_action_requests (fst c))"
    and "\<forall>r \<in> set (agent_action_requests (fst c)). ar_ActionReqID r = x \<longrightarrow>
           ar_ReceivedApprovals r < approvals (agent_action_decisions (fst c)) (ar_ID r)"
    and "IncrementApprovalCount x c = (res, c')"
  shows "guard_moves (fst c) (fst c')" and "pending_at x (agent_action_requests (fst c'))"
    and "res = Inr (n, m) \<Longrightarrow> m \<le> n \<Longrightarrow> \<forall>r \<in> set (agent_action_requests (fst c')).
           ar_ActionReqID r = x \<longrightarrow> ar_RequiredApprovals r \<le> ar_ReceivedApprovals r"
proof -
  note eff = IncrementApprovalCount_tables [OF assms(4)]
  show moves: "guard_moves (fst c) (fst c')"
    using eff assms(1-3) requests_ok_count [of "agent_action_decisions (fst c)" "agent_action_requests (fst c)" x]
      advances_count [of x "agent_action_requests (fst c)"]
    by (auto simp: guard_moves_def guard_ok_def)
  show "pending_at x (agent_action_requests (fst c'))"
    using eff assms(2) pending_at_count by auto
  assume res: "res = Inr (n, m)" and "m \<le> n"
  with eff obtain q where find: "List.find (\<lambda>r. ar_ActionReqID r = x) (agent_action_requests (fst c')) = Some q"
    and "n = ar_ReceivedApprovals q" and "m = ar_RequiredApprovals q"
    by auto
  with moves find_SomeD [OF find] \<open>m \<le> n\<close>
  show "\<forall>r \<in> set (agent_action_requests (fst c')). ar_ActionReqID r = x \<longrightarrow> ar_RequiredApprovals r \<le> ar_ReceivedApprovals r"
    by (auto simp: guard_moves_def guard_ok_def requests_ok_def distinct_map inj_on_def)
qed

lemma decide_moves:
  assumes "guard_ok (fst c)"
  shows "guard_moves (fst c) (tables (CreateDecision now d c))"
  using assms CreateDecision_tables [of now d c]
  by (auto simp: guard_moves_def guard_ok_def requests_ok_decide)

lemma respond_found_moves:
  assumes ok: "guard_ok (fst c)" and r: "List.find (\<lambda>r. ar_ActionReqID r = x) (agent_action_requests (fst c)) = Some r"
    and pending: "ar_Status r = ''pending''"
  shows "guard_moves (fst c) (tables (respond_found now d i x r u m b why bio c))"
proof -
  let ?d = "decision_row d r u m b why bio"
  obtain res c1 where dec: "CreateDecision now ?d c = (res, c1)" by (metis surj_pair)
  have m1: "guard_moves (fst c) (fst c1)" using decide_moves [OF ok, of now ?d] dec by simp
  then have ok1: "guard_ok (fst c1)" by (simp add: guard_moves_def)
  have reqs1: "agent_action_requests (fst c1) = agent_action_requests (fst c)"
    using CreateDecision_tables [of now ?d c] dec by auto
  have pend: "pending_at x (agent_action_requests (fst c1))"
    using find_pending_at r ok pending reqs1 unfolding guard_ok_def by metis
  show ?thesis
  proof (cases res)
    case (Inl e)
    with dec m1 show ?thesis by (simp add: respond_found_def)
  next
    case (Inr u)
    note created = CreateDecision_ok [OF dec [unfolded Inr]]
    show ?thesis
    proof (cases b)
      case False
      have "guard_moves (fst c) (tables (UpdateActionRequestStatus now x ''denied'' c1))"
        using m1 by (rule guard_moves_trans) (rule status_moves [OF ok1 pend]; simp)
      from audit_moves [OF this] show ?thesis
        using dec Inr False by (simp add: respond_found_def Let_def)
    next
      case True
      obtain cnt c2 where inc: "IncrementApprovalCount x c1 = (cnt, c2)" by (metis surj_pair)
      have slack: "\<forall>r \<in> set (agent_action_requests (fst c1)). ar_ActionReqID r = x \<longrightarrow>
           ar_ReceivedApprovals r < approvals (agent_action_decisions (fst c1)) (ar_ID r)"
      proof (intro ballI impI)
        fix q assume q: "q \<in> set (agent_action_requests (fst c1))" "ar_ActionReqID q = x"
        then have "q = r"
          using find_SomeD [OF r] ok reqs1 by (auto simp: guard_ok_def requests_ok_def distinct_map inj_on_def)
        moreover have "ar_ReceivedApprovals r \<le> approvals (agent_action_decisions (fst c)) (ar_ID r)"
          using find_SomeD [OF r] ok by (auto simp: guard_ok_def requests_ok_def row_ok_def)
        ultimately show "ar_ReceivedApprovals q < approvals (agent_action_decisions (fst c1)) (ar_ID q)"
          using created True by (simp add: approvals_snoc decision_row_def)
      qed
      note count = count_moves [OF ok1 pend slack inc]
      have m2: "guard_moves (fst c) (fst c2)" using m1 count(1) by (rule guard_moves_trans)
      then have ok2: "guard_ok (fst c2)" by (simp add: guard_moves_def)
      show ?thesis
      proof (cases "\<exists>n k. cnt = Inr (n, k) \<and> k \<le> n")
        case True
        then obtain n k where nk: "cnt = Inr (n, k)" "k \<le> n" by blast
        have "guard_moves (fst c) (tables (UpdateActionRequestStatus now x ''approved'' c2))"
          using m2 by (rule guard_moves_trans) (rule status_moves [OF ok2 count(2)]; use count(3) [OF nk] in simp)
        from audit_moves [OF this] show ?thesis
          using dec Inr \<open>b\<close> inc nk by (simp add: respond_found_def Let_def)
      next
        case False
        with dec Inr \<open>b\<close> inc m2 show ?thesis
          by (auto simp: respond_found_def split: sum.splits)
      qed
    qed
  qed
qed

lemma RespondToAction_moves:
  assumes ok: "guard_ok (fst c)"
  shows "guard_moves (fst c) (tables (RespondToAction now d i x u m b why bio c))"
proof -
  obtain res c1 where get: "GetActionRequestByID x c = (res, c1)" by (metis surj_pair)
  have c1: "fst c1 = fst c" using GetActionRequestByID_tables [of x c] get by simp
  show ?thesis
  proof (cases "\<exists>r. res = Inr r \<and> ar_IsPending now r")
    case True
    then obtain r where r: "res = Inr r" "ar_IsPending now r" by blast
    then have "List.find (\<lambda>r. ar_ActionReqID r = x) (agent_action_requests (fst c1)) = Some r"
      using GetActionRequestByID_found(1) get c1 by metis
    with r ok c1 get show ?thesis
      using respond_found_moves [of c1 x r] by (simp add: RespondToAction_def ar_IsPending_def)
  next
    case False
    with get c1 ok show ?thesis
      by (auto simp: RespondToAction_def guard_moves_refl split: sum.splits)
  qed
qed

lemma create_moves:
  assumes "guard_ok (fst c)" and "ar_ReceivedApprovals r = 0"
    and "ar_Status r = (if ar_ApprovalType r = ''auto'' then ''auto_approved'' else ''pending'')"
    and "(ar_ApprovalType r, ar_RequiredApprovals r) \<in> {(''auto'', 0), (''single'', 1), (''multi'', 2)}"
    and "CreateActionRequest now r c = (res, c')"
  shows "guard_moves (fst c) (fst c')"
proof -
  let ?q = "stored_request (r\<lparr> ar_CreatedAt := Unix now \<rparr>)"
  have "fst c' = fst c \<or>
    fst c' = (fst c)\<lparr> agent_action_requests := agent_action_requests (fst c) @ [?q] \<rparr> \<and>
    ar_ActionReqID ?q \<notin> ar_ActionReqID ` set (agent_action_requests (fst c)) \<and>
    ar_ID ?q \<notin> ar_ID ` set (agent_action_requests (fst c))"
    using CreateActionRequest_tables [of now r c] assms(5) by auto
  then show ?thesis
  proof
    assume "fst c' = fst c"
    with assms(1) show ?thesis by (simp add: guard_moves_refl)
  next
    assume new: "fst c' = (fst c)\<lparr> agent_action_requests := agent_action_requests (fst c) @ [?q] \<rparr> \<and>
      ar_ActionReqID ?q \<notin> ar_ActionReqID ` set (agent_action_requests (fst c)) \<and>
      ar_ID ?q \<notin> ar_ID ` set (agent_action_requests (fst c))"
    have "requests_ok (agent_action_decisions (fst c)) (agent_action_requests (fst c) @ [?q])"
      using new assms(1-4) by (intro requests_ok_insert) (simp_all add: guard_ok_def stored_request_def)
    with new show ?thesis by (simp add: guard_moves_def guard_ok_def advances_insert)
  qed
qed

lemma submit_action_moves:
  assumes "guard_ok (fst c)" and "ar_ReceivedApprovals r = 0" and "re_ApprovalType ev = ar_ApprovalType r"
    and "(ar_ApprovalType r, ar_RequiredApprovals r) \<in> {(''auto'', 0), (''single'', 1), (''multi'', 2)}"
  shows "guard_moves (fst c) (tables (submit_action push tdb now i r req g ev c))"
proof (cases "re_ApprovalType ev = ''auto''")
  case True
  let ?r = "r\<lparr> ar_Status := ''auto_approved'', ar_DecidedAt := Some (Unix now) \<rparr>"
  obtain res c1 where cr: "CreateActionRequest now ?r c = (res, c1)" by (metis surj_pair)
  have "guard_moves (fst c) (fst c1)"
    by (rule create_moves [OF assms(1) _ _ _ cr]) (use assms True in auto)
  with True cr show ?thesis
    by (cases res) (simp_all add: submit_action_def audit_moves)
next
  case False
  have moves: "guard_moves (fst c) (fst c1)"
    if "CreateActionRequest now (r\<lparr> ar_Status := ''pending'' \<rparr>) c = (res, c1) \<or>
        CreateActionRequest now (r\<lparr> ar_Status := ''pending'', ar_DeviceTokenID := td \<rparr>) c = (res, c1)" for res c1 td
    using that by (elim disjE) (erule create_moves [OF assms(1), rotated -1]; use assms False in auto)+
  obtain tok td where dev: "approval_device tdb (ar_UserID r) (ar_TenantID r) = (tok, td)" by (metis surj_pair)
  from False dev show ?thesis
    by (auto simp: submit_action_def Let_def split: prod.splits sum.splits dest: moves [OF disjI1] moves [OF disjI2])
qed

lemma resolve_identity_tables: "tables (resolve_identity parse req u t show c) = fst c"
  unfolding resolve_identity_def resolveTenantFromClientID_def
  by (auto split: option.splits prod.splits sum.splits dest!: query_row_tablesD)

lemma Evaluate_approval:
  assumes "Evaluate zone conv now t agent action resource md g c = (Inr ev, c')"
  shows "(re_ApprovalType ev, re_RequiredApprovals ev) \<in> {(''auto'', 0), (''single'', 1), (''multi'', 2)}"
  using Evaluate_result [OF assms] risk_evaluation_fields(5) determineApproval_range by metis

lemma EvaluateAction_moves:
  assumes ok: "guard_ok (fst c)"
  shows "guard_moves (fst c) (tables (EvaluateAction env req u m t c))"
proof -
  obtain who c1 where w: "resolve_identity (ev_parse env) req u t (ev_show_error env) c = (who, c1)" by (metis surj_pair)
  have c1: "fst c1 = fst c" using resolve_identity_tables [of "ev_parse env" req u t "ev_show_error env" c] w by simp
  show ?thesis
  proof (cases who)
    case (Inl resp)
    with w c1 ok show ?thesis by (simp add: EvaluateAction_def guard_moves_refl)
  next
    case (Inr who')
    obtain user ten where who': "who' = (user, ten)" by (cases who')
    obtain st c2 where g: "GetOrCreateSettings (ev_now env) (ev_settingsID env) ten c1 = (st, c2)" by (metis surj_pair)
    have m2: "guard_moves (fst c) (fst c2)"
      using GetOrCreateSettings_tables [OF g] c1 ok by (auto intro!: guard_moves_other)
    show ?thesis
    proof (cases st)
      case (Inl e)
      with w Inr who' g m2 show ?thesis by (simp add: EvaluateAction_def)
    next
      case (Inr settings)
      obtain ev c3 where e: "Evaluate (ev_zone env) (ev_conv env) (ev_now env) ten (aq_AgentID req) (aq_Action req)
          (aq_Resource req) (aq_Metadata req) settings c2 = (ev, c3)" by (metis surj_pair)
      have c3: "fst c3 = fst c2"
        using Evaluate_keeps_tables [of "ev_zone env" "ev_conv env" "ev_now env" ten "aq_AgentID req" "aq_Action req"
          "aq_Resource req" "aq_Metadata req" settings c2] e by simp
      show ?thesis
      proof (cases "\<exists>v a. ev = Inr v \<and> generateActionReqID (ev_random env) = Some a")
        case True
        then obtain v a where va: "ev = Inr v" "generateActionReqID (ev_random env) = Some a" by blast
        have "guard_moves (fst c3) (tables (submit_action (ev_pushService env) (ev_tenantDB env) (ev_now env) (ev_auditID env)
            (action_request (ev_now env) (ev_requestID env) a ten user (if m = [] then aq_UserEmail req else m) req settings v)
            req settings v c3))"
          using m2 c3 Evaluate_approval [OF e [unfolded va(1)]]
          by (intro submit_action_moves) (auto simp: guard_moves_def action_request_def)
        with m2 c3 have "guard_moves (fst c) (tables (submit_action (ev_pushService env) (ev_tenantDB env) (ev_now env) (ev_auditID env)
            (action_request (ev_now env) (ev_requestID env) a ten user (if m = [] then aq_UserEmail req else m) req settings v)
            req settings v c3))"
          using guard_moves_trans by metis
        with w \<open>who = Inr who'\<close> who' g Inr e va show ?thesis
          by (simp add: EvaluateAction_def Let_def)
      next
        case False
        with w \<open>who = Inr who'\<close> who' g Inr e m2 c3 show ?thesis
          by (auto simp: EvaluateAction_def Let_def split: sum.splits option.splits)
      qed
    qed
  qed
qed

lemma cleanup_moves:
  assumes "guard_ok (fst c)"
  shows "guard_moves (fst c) (tables (CleanupExpiredRequests now c))"
proof -
  let ?hit = "\<lambda>r. ar_ExpiresAt r < Unix now \<and> ar_Status r = ''pending''"
  let ?t = "update_where ?hit (\<lambda>r. r\<lparr> ar_Status := ''expired'', ar_DecidedAt := Some (Unix now) \<rparr>)
              (agent_action_requests (fst c))"
  have "tables (CleanupExpiredRequests now c) = fst c \<or>
        tables (CleanupExpiredRequests now c) = (fst c)\<lparr> agent_action_requests := ?t \<rparr>"
    unfolding CleanupExpiredRequests_def ExpireOldActionRequests_def Let_def wrap_err_snd
    by (cases c rule: conn_cases) simp_all
  moreover have "requests_ok (agent_action_decisions (fst c)) ?t"
    using assms unfolding guard_ok_def by (rule requests_ok_update) (simp_all add: row_ok_expired)
  moreover have "advances (agent_action_requests (fst c)) ?t"
    by (rule grows_update_where) (simp_all add: request_moves_def)
  ultimately show ?thesis
    using assms by (elim disjE) (simp_all add: guard_moves_def guard_ok_def)
qed

text \<open>The other operations touch neither requests nor decisions.\<close>

abbreviation same_requests :: "'a guard_db_scheme \<Rightarrow> 'a guard_db_scheme \<Rightarrow> bool" where
  "same_requests s s' \<equiv> agent_action_requests s' = agent_action_requests s \<and>
     agent_action_decisions s' = agent_action_decisions s \<and> agent_action_audit_log s' = agent_action_audit_log s"

lemma exec_affected_tables:
  "fst (snd (exec_affected msg missing f c)) = fst c \<or> fst (snd (exec_affected msg missing f c)) = fst (f (fst c))"
  by (cases c rule: conn_cases) (auto simp: exec_affected_def split: sum.splits)

lemma GetRiskPolicyByID_tables [guard_reads]: "tables (GetRiskPolicyByID i t c) = fst c"
  unfolding GetRiskPolicyByID_def
  by (auto split: prod.splits sum.splits go_error.splits dest: query_row_tablesD)

lemma repo_UpdateRiskPolicy_tables:
  fixes c :: "'a guard_db_scheme conn" and now p
  defines "s' \<equiv> tables (repo_UpdateRiskPolicy now p c)"
  shows "s' = fst c \<or> s' = fst (update_risk_policy (p\<lparr> rp_UpdatedAt := Unix now \<rparr>) (fst c))"
proof -
  let ?x = "exec_affected ''failed to update risk policy: '' ''risk policy not found''
              (update_risk_policy (p\<lparr> rp_UpdatedAt := Unix now \<rparr>)) c"
  obtain r c1 where "?x = (r, c1)" by (metis surj_pair)
  then have "s' = tables ?x"
    unfolding s'_def repo_UpdateRiskPolicy_def Let_def by (cases r) simp_all
  then show ?thesis using exec_affected_tables by metis
qed

lemma policy_ops_requests:
  "same_requests (fst c) (tables (CreateRiskPolicy now i t pc c))"
  "same_requests (fst c) (tables (UpdateRiskPolicy now i t pu c))"
  "same_requests (fst c) (tables (DeleteRiskPolicy now i t c))"
proof -
  have "same_requests (fst c') (tables (repo_CreateRiskPolicy now p c'))" for p and c' :: "'a guard_db_scheme conn"
    by (cases c' rule: conn_cases)
      (auto simp: repo_CreateRiskPolicy_def Let_def wrap_err_def exec_checked_def insert_risk_policy_def split: sum.splits)
  then show "same_requests (fst c) (tables (CreateRiskPolicy now i t pc c))"
    by (simp add: CreateRiskPolicy_def)
  have "same_requests s (fst (update_risk_policy p s))" for p and s :: "'a guard_db_scheme"
    by (simp add: update_risk_policy_def Let_def)
  then have upd: "same_requests (fst c') (tables (repo_UpdateRiskPolicy now p c'))" for p and c' :: "'a guard_db_scheme conn"
    using repo_UpdateRiskPolicy_tables [of now p c'] by metis
  obtain r c1 where get: "GetRiskPolicyByID i t c = (r, c1)" by (metis surj_pair)
  then have "fst c1 = fst c" using GetRiskPolicyByID_tables [of i t c] by simp
  with get upd [where c' = c1] show "same_requests (fst c) (tables (UpdateRiskPolicy now i t pu c))"
    by (cases r) (simp_all add: UpdateRiskPolicy_def)
  show "same_requests (fst c) (tables (DeleteRiskPolicy now i t c))"
    unfolding DeleteRiskPolicy_def repo_DeleteRiskPolicy_def Let_def
    by (cases c rule: conn_cases) (simp_all add: exec_affected_def)
qed

lemma settings_ops_requests:
  "same_requests (fst c) (tables (GetOrCreateSettings now i t c))"
  "same_requests (fst c) (tables (UpdateSettings now i t sr c))"
proof -
  have get: "same_requests (fst c) (fst c')" if "GetOrCreateSettings now i t c = (r, c')" for r c'
    using GetOrCreateSettings_tables [OF that] by auto
  then show "same_requests (fst c) (tables (GetOrCreateSettings now i t c))"
    by (metis prod.collapse)
  have upd: "same_requests (fst c') (tables (repo_UpdateSettings now g c'))" for g and c' :: "'a guard_db_scheme conn"
    by (cases c' rule: conn_cases) (simp_all add: repo_UpdateSettings_def Let_def wrap_err_def)
  obtain r c1 where "GetOrCreateSettings now i t c = (r, c1)" by (metis surj_pair)
  with get upd [where c' = c1] show "same_requests (fst c) (tables (UpdateSettings now i t sr c))"
    by (cases r) (auto simp: UpdateSettings_def)
qed

lemma repo_GetAuditLog_tables [guard_reads]: "tables (repo_GetAuditLog t page n c) = fst c"
proof -
  let ?g = "\<lambda>s. limit_offset n (wrap_int (wrap_int (page - 1) * n)) (audit_of t (agent_action_audit_log s))"
  obtain r1 c1 where q1: "query (\<lambda>s. affected (\<lambda>e. al_TenantID e = t) (agent_action_audit_log s)) c = (r1, c1)"
    by (metis surj_pair)
  then have c1: "fst c1 = fst c" using query_keeps_tables by (metis snd_conv)
  obtain r2 c2 where q2: "query_row ?g c1 = (r2, c2)" by (metis surj_pair)
  then have c2: "fst c2 = fst c" using query_row_keeps_tables c1 by (metis snd_conv)
  show ?thesis
    using c1 c2 q2 by (cases r1; cases r2) (simp_all add: repo_GetAuditLog_def q1 Let_def wrap_err_def)
qed

lemma read_ops_tables:
  "tables (GetPendingActionsByUser now t u c) = fst c"
  "tables (GetRiskPoliciesByTenant t c) = fst c"
  "tables (GetAuditLog t page n c) = fst c"
  by (simp_all add: GetPendingActionsByUser_def GetRiskPoliciesByTenant_def GetAuditLog_def Let_def guard_reads)

lemma guard_step_moves:
  assumes "guard_ok (fst c)"
  shows "guard_moves (fst c) (fst (fst (guard_step op c)))"
  using assms
  by (cases op)
    (simp_all add: reply_def EvaluateAction_moves PollActionStatus_moves RespondToAction_moves cleanup_moves
      read_ops_tables guard_moves_refl guard_moves_other policy_ops_requests settings_ops_requests)

interpretation guard: guarded_service guard_step "\<lambda>c. guard_ok (fst c)" "\<lambda>c c'. guard_moves (fst c) (fst c')"
proof
  fix op and c :: "'a guard_db_scheme conn"
  assume "guard_ok (fst c)"
  then show "guard_ok (fst (fst (guard_step op c))) \<and> guard_moves (fst c) (fst (fst (guard_step op c)))"
    using guard_step_moves [of c op] by (simp add: guard_moves_def)
qed (auto intro: guard_moves_refl guard_moves_trans)

section \<open>Fault-free runs of single operations\<close>

abbreviation request_at :: "string \<Rightarrow> 'a guard_db_scheme \<Rightarrow> AgentActionRequest option" where
  "request_at x s \<equiv> List.find (\<lambda>r. ar_ActionReqID r = x) (agent_action_requests s)"

lemma GetActionRequestByID_fault_free [sql_simps]:
  "GetActionRequestByID x (s, []) =
     ((case request_at x s of
         None \<Rightarrow> Inl (Errorf ''agent action request not found'') | Some r \<Rightarrow> Inr r), s, [])"
  by (simp add: GetActionRequestByID_def sql_simps select_row_def split: option.splits)

lemma UpdateActionRequestStatus_fault_free [sql_simps]:
  "UpdateActionRequestStatus now x st (s, []) =
     (Inr (), s\<lparr> agent_action_requests := set_status now x st (agent_action_requests s) \<rparr>, [])"
  by (simp add: UpdateActionRequestStatus_def wrap_err_def set_status_def)

lemma action_UpdateLastPolled_fault_free [sql_simps]:
  "action_UpdateLastPolled now x (s, []) =
     (Inr (), s\<lparr> agent_action_requests := set_polled now x (agent_action_requests s) \<rparr>, [])"
  by (simp add: action_UpdateLastPolled_def set_polled_def)

lemma request_at_set_status [table_simps]:
  "List.find (\<lambda>r. ar_ActionReqID r = x) (set_status now y st t) =
     map_option (\<lambda>r. if ar_ActionReqID r = y then r\<lparr> ar_Status := st, ar_DecidedAt := Some (Unix now) \<rparr> else r)
       (List.find (\<lambda>r. ar_ActionReqID r = x) t)"
  unfolding set_status_def by (rule find_update_where) simp

lemma request_at_set_polled [table_simps]:
  "List.find (\<lambda>r. ar_ActionReqID r = x) (set_polled now y t) =
     map_option (\<lambda>r. if ar_ActionReqID r = y then r\<lparr> ar_LastPolledAt := Some (Unix now) \<rparr> else r)
       (List.find (\<lambda>r. ar_ActionReqID r = x) t)"
  unfolding set_polled_def by (rule find_update_where) simp

lemma request_at_count_approval [table_simps]:
  "List.find (\<lambda>r. ar_ActionReqID r = x) (count_approval y t) =
     map_option (\<lambda>r. if ar_ActionReqID r = y then r\<lparr> ar_ReceivedApprovals := ar_ReceivedApprovals r + 1 \<rparr> else r)
       (List.find (\<lambda>r. ar_ActionReqID r = x) t)"
  unfolding count_approval_def by (rule find_update_where) simp

lemma IncrementApprovalCount_fault_free [sql_simps]:
  assumes "request_at x s = Some r"
  shows "IncrementApprovalCount x (s, []) =
     (Inr (ar_ReceivedApprovals r + 1, ar_RequiredApprovals r),
      s\<lparr> agent_action_requests := count_approval x (agent_action_requests s) \<rparr>, [])"
proof -
  have "ar_ActionReqID r = x" using find_SomeD [OF assms] by simp
  with assms show ?thesis
    by (simp add: IncrementApprovalCount_def Let_def select_row_def request_at_count_approval
        flip: count_approval_def)
qed

lemma CreateDecision_fault_free [sql_simps]:
  "ad_ID d \<notin> ad_ID ` set (agent_action_decisions s) \<Longrightarrow>
     CreateDecision now d (s, []) =
       (Inr (), s\<lparr> agent_action_decisions := agent_action_decisions s @ [d\<lparr> ad_CreatedAt := Unix now \<rparr>] \<rparr>, [])"
  by (auto simp: CreateDecision_def wrap_err_def sql_simps insert_decision_def image_iff)

lemma writeAuditLog_fault_free [sql_simps]:
  "writeAuditLog now i r st decidedBy (s, []) =
     (if i \<in> al_ID ` set (agent_action_audit_log s) then s
      else s\<lparr> agent_action_audit_log := agent_action_audit_log s @
               [stored_audit now (audit_row now i r st decidedBy)] \<rparr>, [])"
proof -
  have "al_ID (stored_audit now (audit_row now i r st decidedBy)) = i"
    by (simp add: stored_audit_def audit_row_def)
  then show ?thesis
    by (auto simp: writeAuditLog_def CreateAuditEntry_def wrap_err_def sql_simps insert_audit_def image_iff)
qed

text \<open>The reply of a poll under any schedule: it speaks about the row it found.\<close>

lemma PollActionStatus_reply:
  assumes "PollActionStatus now i x c = (Inr resp, c')" and "ps_Decision resp = ''approved''"
  obtains r where "request_at x (fst c) = Some r" and "ar_Status r \<in> {''approved'', ''auto_approved''}"
    and "ps_Status resp = ar_Status r" and "ps_RiskScore resp = ar_RiskScore r"
proof -
  obtain res c1 where get: "GetActionRequestByID x c = (res, c1)" by (metis surj_pair)
  show thesis
  proof (cases res)
    case (Inl e)
    with assms get show thesis by (auto simp: PollActionStatus_def ps_error_def)
  next
    case (Inr r)
    from GetActionRequestByID_found(1) get Inr have "request_at x (fst c) = Some r" by blast
    moreover have "ar_Status r \<in> {''approved'', ''auto_approved''} \<and> ps_Status resp = ar_Status r \<and> ps_RiskScore resp = ar_RiskScore r"
      using assms get Inr by (auto simp: PollActionStatus_def Let_def status_response_def split: if_splits)
    ultimately show thesis using that by blast
  qed
qed

lemma RespondToAction_pending:
  assumes "request_at x s = Some r" and "ar_IsPending now r"
  shows "RespondToAction now d a x u m b why bio (s, []) = respond_found now d a x r u m b why bio (s, [])"
  using assms by (simp add: RespondToAction_def sql_simps)

lemma respond_found_approves:
  assumes "request_at x s = Some q" and "d \<notin> ad_ID ` set (agent_action_decisions s)"
    and "ar_RequiredApprovals q \<le> ar_ReceivedApprovals q + 1"
  obtains s' where "respond_found now d a x r u m True why bio (s, []) =
      (Inr \<lparr> arr_Success = True, arr_Message = ''Action approved'' \<rparr>, s', [])"
    and "request_at x s' = Some (q\<lparr> ar_Status := ''approved'', ar_ReceivedApprovals := ar_ReceivedApprovals q + 1,
                                    ar_DecidedAt := Some (Unix now) \<rparr>)"
proof -
  have x: "ar_ActionReqID q = x" using find_SomeD [OF assms(1)] by simp
  have fresh: "ad_ID (decision_row d r u m True why bio) \<notin> ad_ID ` set (agent_action_decisions s)"
    using assms(2) by (simp add: decision_row_def)
  let ?s1 = "s\<lparr> agent_action_decisions := agent_action_decisions s @
                 [decision_row d r u m True why bio\<lparr> ad_CreatedAt := Unix now \<rparr>] \<rparr>"
  have at1: "request_at x ?s1 = Some q" using assms(1) by simp
  let ?c = "writeAuditLog now a r ''approved''
      [[(''user_id'', GStr u), (''email'', GStr m), (''decision'', GStr ''approved'')]]
      (?s1\<lparr> agent_action_requests := set_status now x ''approved'' (count_approval x (agent_action_requests s)) \<rparr>, [])"
  have "respond_found now d a x r u m True why bio (s, []) =
      (Inr \<lparr> arr_Success = True, arr_Message = ''Action approved'' \<rparr>, ?c)"
    using assms(3)
    by (simp add: respond_found_def Let_def CreateDecision_fault_free [OF fresh] IncrementApprovalCount_fault_free [OF at1]
        UpdateActionRequestStatus_fault_free)
  moreover have "snd ?c = []" by (simp add: sql_simps)
  moreover have "request_at x (fst ?c) = Some (q\<lparr> ar_Status := ''approved'',
      ar_ReceivedApprovals := ar_ReceivedApprovals q + 1, ar_DecidedAt := Some (Unix now) \<rparr>)"
    using assms(1) x by (simp add: table_simps)
  ultimately show thesis using that by (metis prod.collapse)
qed

lemma respond_found_denies:
  assumes "request_at x s = Some q" and "d \<notin> ad_ID ` set (agent_action_decisions s)"
  obtains s' where "respond_found now d a x r u m False why bio (s, []) =
      (Inr \<lparr> arr_Success = True, arr_Message = ''Action denied'' \<rparr>, s', [])"
    and "request_at x s' = Some (q\<lparr> ar_Status := ''denied'', ar_DecidedAt := Some (Unix now) \<rparr>)"
    and "ad_ID ` set (agent_action_decisions s') = insert d (ad_ID ` set (agent_action_decisions s))"
proof -
  have x: "ar_ActionReqID q = x" using find_SomeD [OF assms(1)] by simp
  have fresh: "ad_ID (decision_row d r u m False why bio) \<notin> ad_ID ` set (agent_action_decisions s)"
    using assms(2) by (simp add: decision_row_def)
  let ?s1 = "s\<lparr> agent_action_decisions := agent_action_decisions s @
                 [decision_row d r u m False why bio\<lparr> ad_CreatedAt := Unix now \<rparr>],
               agent_action_requests := set_status now x ''denied'' (agent_action_requests s) \<rparr>"
  let ?c = "writeAuditLog now a r ''denied''
      [[(''user_id'', GStr u), (''email'', GStr m), (''decision'', GStr ''denied''), (''reason'', GStr why)]] (?s1, [])"
  have "respond_found now d a x r u m False why bio (s, []) =
      (Inr \<lparr> arr_Success = True, arr_Message = ''Action denied'' \<rparr>, ?c)"
    by (simp add: respond_found_def Let_def CreateDecision_fault_free [OF fresh] UpdateActionRequestStatus_fault_free)
  moreover have "snd ?c = []" by (simp add: sql_simps)
  moreover have "request_at x (fst ?c) = Some (q\<lparr> ar_Status := ''denied'', ar_DecidedAt := Some (Unix now) \<rparr>)"
    using assms(1) x by (simp add: table_simps)
  moreover have "ad_ID ` set (agent_action_decisions (fst ?c)) = insert d (ad_ID ` set (agent_action_decisions s))"
    by (simp add: decision_row_def)
  ultimately show thesis using that by (metis prod.collapse)
qed

lemma GetOrCreateSettings_found:
  "List.find (\<lambda>h. gs_TenantID h = t) (agent_guard_settings s) = Some h \<Longrightarrow>
     GetOrCreateSettings now i t (s, []) = (Inr h, s, [])"
  by (simp add: GetOrCreateSettings_def sql_simps select_row_def)

lemma GetOrCreateSettings_created:
  assumes "List.find (\<lambda>h. gs_TenantID h = t) (agent_guard_settings s) = None"
  shows "GetOrCreateSettings now i t (s, []) =
      (if \<exists>h \<in> set (agent_guard_settings s). gs_ID h = i
       then (Inl (Wrap ''failed to create default agent guard settings: '' DBError), s, [])
       else (Inr (default_settings now i t),
             s\<lparr> agent_guard_settings := agent_guard_settings s @ [default_settings now i t] \<rparr>, []))"
proof -
  have "insert_settings (default_settings now i t) s =
      (if \<exists>h \<in> set (agent_guard_settings s). gs_ID h = i then Inl DBError
       else Inr (s\<lparr> agent_guard_settings := agent_guard_settings s @ [default_settings now i t] \<rparr>))"
    using assms by (auto simp: insert_settings_def default_settings_def find_None_iff)
  with assms show ?thesis
    by (simp add: GetOrCreateSettings_def sql_simps select_row_def Let_def wrap_err_def)
qed

lemma GetRiskPolicyByID_found:
  assumes "GetRiskPolicyByID p t c = (Inr q, c')"
  shows "rp_ID q = p \<and> rp_TenantID q = t"
proof -
  obtain c1 where "query_row (\<lambda>s. select_row (\<lambda>q. rp_ID q = p \<and> rp_TenantID q = t) (risk_policies s)) c = (Inr q, c1)"
    using assms unfolding GetRiskPolicyByID_def by (auto split: prod.splits sum.splits go_error.splits)
  from select_row_sound [OF query_row_Inr [OF this]] show ?thesis by simp
qed

lemma filter_update_where_other:
  assumes "\<And>q. q \<in> set ps \<Longrightarrow> hit q \<Longrightarrow> \<not> P q \<and> \<not> P (f q)"
  shows "filter P (update_where hit f ps) = filter P ps"
  using assms by (induction ps) (auto simp: update_where_def)

lemma active_policies_other:
  assumes "t \<noteq> t'" and "\<And>q. rp_TenantID (f q) = rp_TenantID q"
  shows "active_policies t' (update_where (\<lambda>q. rp_ID q = p \<and> rp_TenantID q = t) f ps) = active_policies t' ps"
  unfolding active_policies_def
  by (subst filter_update_where_other) (use assms in auto)

lemma concat_pages: "concat (map (\<lambda>p. take n (drop ((p - 1) * n) xs)) [1..<k + 1]) = take (k * n) xs"
proof (induction k)
  case (Suc k)
  have "take (k * n) xs @ take n (drop (k * n) xs) = take (Suc k * n) xs"
    by (metis add.commute mult_Suc take_add)
  with Suc show ?case by simp
qed simp

section \<open>The audit trail\<close>

definition has_entry :: "AgentActionAuditLog list \<Rightarrow> AgentActionRequest \<Rightarrow> bool" where
  "has_entry es r \<longleftrightarrow>
     (\<exists>e \<in> set es. al_ActionRequestID e = Some (ar_ID r) \<and> al_FinalStatus e = ar_Status r)"

definition audited :: "'a guard_db_scheme \<Rightarrow> bool" where
  "audited s \<longleftrightarrow>
     (\<forall>r \<in> set (agent_action_requests s). ar_Status r \<noteq> ''pending'' \<longrightarrow> has_entry (agent_action_audit_log s) r)"

fun op_audit :: "guard_op \<Rightarrow> uuid list" where
  "op_audit (OpEvaluate env req u m t) = [ev_auditID env]"
| "op_audit (OpPoll now i x) = [i]"
| "op_audit (OpRespond now d i x u m b why bio) = [i]"
| "op_audit _ = []"

definition same_row :: "AgentActionRequest \<Rightarrow> AgentActionRequest \<Rightarrow> bool" where
  "same_row q q' \<longleftrightarrow> ar_ID q' = ar_ID q \<and> ar_ActionReqID q' = ar_ActionReqID q \<and> ar_Status q' = ar_Status q"

lemma audited_step:
  assumes "audited s" and "set (agent_action_audit_log s) \<subseteq> set (agent_action_audit_log s')"
    and "\<And>r'. r' \<in> set (agent_action_requests s') \<Longrightarrow> ar_Status r' \<noteq> ''pending'' \<Longrightarrow>
           has_entry (agent_action_audit_log s') r' \<or>
           (\<exists>r \<in> set (agent_action_requests s). ar_ID r = ar_ID r' \<and> ar_Status r = ar_Status r')"
  shows "audited s'"
proof -
  have "has_entry (agent_action_audit_log s') r'"
    if "r \<in> set (agent_action_requests s)" "ar_Status r \<noteq> ''pending''" "ar_ID r = ar_ID r'" "ar_Status r = ar_Status r'" for r r'
    using assms(1,2) that unfolding audited_def has_entry_def by fastforce
  with assms(3) show ?thesis unfolding audited_def by metis
qed

lemma has_entry_new:
  "ar_ID r = ar_ID q \<Longrightarrow> ar_Status r = st \<Longrightarrow>
     has_entry (es @ [stored_audit now (audit_row now i q st decidedBy)]) r"
  by (simp add: has_entry_def stored_audit_def audit_row_def)

text \<open>An operation that decides the request \<open>x\<close> and writes the matching entry.\<close>

lemma audited_decided:
  assumes ok: "guard_ok s" and "audited s" and r: "request_at x s = Some r"
    and "agent_action_audit_log s' = agent_action_audit_log s @ [stored_audit now (audit_row now i r st decidedBy)]"
    and reqs: "agent_action_requests s' = set_status now' x st t"
    and t: "list_all2 same_row
      (agent_action_requests s) t"
  shows "audited s'"
proof (rule audited_step [OF assms(2)])
  fix r' assume "r' \<in> set (agent_action_requests s')"
  then obtain q' where q': "q' \<in> set t"
    and upd: "r' = (if ar_ActionReqID q' = x then q'\<lparr> ar_Status := st, ar_DecidedAt := Some (Unix now') \<rparr> else q')"
    unfolding reqs set_status_def update_where_def by auto
  from list_all2_source [OF t q'] obtain q where q: "q \<in> set (agent_action_requests s)"
    and same: "ar_ID q' = ar_ID q" "ar_ActionReqID q' = ar_ActionReqID q" "ar_Status q' = ar_Status q"
    unfolding same_row_def by blast
  show "has_entry (agent_action_audit_log s') r' \<or>
      (\<exists>r \<in> set (agent_action_requests s). ar_ID r = ar_ID r' \<and> ar_Status r = ar_Status r')"
  proof (cases "ar_ActionReqID q' = x")
    case True
    then have "q = r"
      using q same find_SomeD [OF r] ok by (auto simp: guard_ok_def requests_ok_def distinct_map inj_on_def)
    with same upd True show ?thesis unfolding assms(4) by (intro disjI1 has_entry_new) simp_all
  next
    case False
    with q same upd show ?thesis by auto
  qed
qed (auto simp: assms(4))

lemma same_rows_refl: "list_all2 same_row t t"
  by (rule list_all2_refl) (simp add: same_row_def)

lemma same_rows_polled:
  "list_all2 same_row
     t (set_polled now x t)"
  by (simp add: set_polled_def update_where_def list_all2_map2 list_all2_same same_row_def)

lemma same_rows_counted:
  "list_all2 same_row
     t (count_approval x t)"
  by (simp add: count_approval_def update_where_def list_all2_map2 list_all2_same same_row_def)

lemma audited_same_rows:
  assumes "audited s" and "agent_action_audit_log s' = agent_action_audit_log s"
    and "list_all2 same_row
      (agent_action_requests s) (agent_action_requests s')"
  shows "audited s'"
proof (rule audited_step [OF assms(1)])
  fix r' assume "r' \<in> set (agent_action_requests s')"
  from list_all2_source [OF assms(3) this]
  show "has_entry (agent_action_audit_log s') r' \<or>
      (\<exists>r \<in> set (agent_action_requests s). ar_ID r = ar_ID r' \<and> ar_Status r = ar_Status r')"
    unfolding same_row_def by fastforce
qed (simp add: assms(2))

text \<open>What one fault-free step with a fresh audit id does to the trail.\<close>

definition trail_step :: "'a guard_db_scheme \<Rightarrow> uuid list \<Rightarrow> 'a guard_db_scheme conn \<Rightarrow> bool" where
  "trail_step s ids c \<longleftrightarrow>
     snd c = [] \<and> audited (fst c) \<and>
     al_ID ` set (agent_action_audit_log (fst c)) \<subseteq> set ids \<union> al_ID ` set (agent_action_audit_log s)"

lemma audit_row_id [simp]: "al_ID (stored_audit now (audit_row now i r st decidedBy)) = i"
  by (simp add: stored_audit_def audit_row_def)

lemma PollActionStatus_trail:
  assumes ok: "guard_ok s" and aud: "audited s" and fresh: "i \<notin> al_ID ` set (agent_action_audit_log s)"
  shows "trail_step s [i] (snd (PollActionStatus now i x (s, [])))"
proof (cases "request_at x s")
  case None
  with aud show ?thesis by (auto simp: PollActionStatus_def sql_simps trail_step_def)
next
  case (Some r)
  let ?s1 = "s\<lparr> agent_action_requests := set_polled now x (agent_action_requests s) \<rparr>"
  have aud1: "audited ?s1"
    by (rule audited_same_rows [OF aud]) (simp_all add: same_rows_polled)
  show ?thesis
  proof (cases "ar_Status r = ''pending'' \<and> ar_IsExpired now r")
    case True
    let ?s2 = "?s1\<lparr> agent_action_requests := set_status now x ''expired'' (set_polled now x (agent_action_requests s)),
      agent_action_audit_log := agent_action_audit_log s @ [stored_audit now (audit_row now i r ''expired'' [])] \<rparr>"
    have "audited ?s2"
      by (rule audited_decided [OF ok aud Some]) (simp, simp, simp add: same_rows_polled)
    moreover have "snd (PollActionStatus now i x (s, [])) = (?s2, [])"
      using Some True fresh by (simp add: PollActionStatus_def sql_simps Let_def)
    ultimately show ?thesis by (auto simp: trail_step_def)
  next
    case False
    then have "snd (PollActionStatus now i x (s, [])) = (?s1, [])"
      using Some by (auto simp: PollActionStatus_def sql_simps Let_def)
    with aud1 show ?thesis by (auto simp: trail_step_def)
  qed
qed

lemma respond_found_trail:
  assumes ok: "guard_ok s" and aud: "audited s" and fresh: "i \<notin> al_ID ` set (agent_action_audit_log s)"
    and r: "request_at x s = Some r"
  shows "trail_step s [i] (snd (respond_found now d i x r u m b why bio (s, [])))"
proof (cases "d \<in> ad_ID ` set (agent_action_decisions s)")
  case True
  then have "CreateDecision now (decision_row d r u m b why bio) (s, []) =
      (Inl (Wrap ''failed to create decision: '' DBError), s, [])"
    by (auto simp: CreateDecision_def wrap_err_def sql_simps insert_decision_def decision_row_def)
  with aud show ?thesis by (auto simp: respond_found_def trail_step_def)
next
  case False
  then have new: "ad_ID (decision_row d r u m b why bio) \<notin> ad_ID ` set (agent_action_decisions s)"
    by (simp add: decision_row_def)
  let ?s1 = "s\<lparr> agent_action_decisions := agent_action_decisions s @
      [decision_row d r u m b why bio\<lparr> ad_CreatedAt := Unix now \<rparr>] \<rparr>"
  have at1: "request_at x ?s1 = Some r" using r by simp
  show ?thesis
  proof (cases b)
    case False
    let ?by = "[[(''user_id'', GStr u), (''email'', GStr m), (''decision'', GStr ''denied''), (''reason'', GStr why)]]"
    let ?s2 = "?s1\<lparr> agent_action_requests := set_status now x ''denied'' (agent_action_requests s),
      agent_action_audit_log := agent_action_audit_log s @ [stored_audit now (audit_row now i r ''denied'' ?by)] \<rparr>"
    have "audited ?s2"
      by (rule audited_decided [OF ok aud r]) (simp, simp, simp add: same_rows_refl)
    moreover have "snd (respond_found now d i x r u m b why bio (s, [])) = (?s2, [])"
      using False fresh unfolding respond_found_def CreateDecision_fault_free [OF new]
      by (simp add: UpdateActionRequestStatus_fault_free writeAuditLog_fault_free)
    ultimately show ?thesis by (auto simp: trail_step_def)
  next
    case True
    let ?by = "[[(''user_id'', GStr u), (''email'', GStr m), (''decision'', GStr ''approved'')]]"
    let ?s2 = "?s1\<lparr> agent_action_requests := count_approval x (agent_action_requests s) \<rparr>"
    let ?s3 = "?s1\<lparr> agent_action_requests := set_status now x ''approved'' (count_approval x (agent_action_requests s)),
      agent_action_audit_log := agent_action_audit_log s @ [stored_audit now (audit_row now i r ''approved'' ?by)] \<rparr>"
    have "audited ?s2" by (rule audited_same_rows [OF aud]) (simp_all add: same_rows_counted)
    moreover have "audited ?s3"
      by (rule audited_decided [OF ok aud r]) (simp, simp, simp add: same_rows_counted)
    moreover have "snd (respond_found now d i x r u m b why bio (s, [])) =
        (if ar_RequiredApprovals r \<le> ar_ReceivedApprovals r + 1 then ?s3 else ?s2, [])"
      using True fresh
      unfolding respond_found_def CreateDecision_fault_free [OF new] prod.case sum.case
        IncrementApprovalCount_fault_free [OF at1]
      by (simp add: UpdateActionRequestStatus_fault_free writeAuditLog_fault_free)
    ultimately show ?thesis by (auto simp: trail_step_def)
  qed
qed

lemma RespondToAction_trail:
  assumes ok: "guard_ok s" and aud: "audited s" and fresh: "i \<notin> al_ID ` set (agent_action_audit_log s)"
  shows "trail_step s [i] (snd (RespondToAction now d i x u m b why bio (s, [])))"
proof (cases "request_at x s")
  case None
  with aud show ?thesis by (auto simp: RespondToAction_def sql_simps trail_step_def)
next
  case (Some r)
  with respond_found_trail [OF ok aud fresh Some] aud show ?thesis
    by (auto simp: RespondToAction_def sql_simps trail_step_def)
qed

lemma CreateActionRequest_fault_free:
  "CreateActionRequest now r (s, []) =
     (if ar_ID r \<in> ar_ID ` set (agent_action_requests s) \<or> ar_ActionReqID r \<in> ar_ActionReqID ` set (agent_action_requests s)
      then (Inl (Wrap ''failed to create agent action request: '' DBError), s, [])
      else (Inr (r\<lparr> ar_CreatedAt := Unix now \<rparr>),
            s\<lparr> agent_action_requests := agent_action_requests s @ [stored_request (r\<lparr> ar_CreatedAt := Unix now \<rparr>)] \<rparr>, []))"
proof -
  let ?q = "stored_request (r\<lparr> ar_CreatedAt := Unix now \<rparr>)"
  have "(\<exists>q \<in> set (agent_action_requests s). ar_ID q = ar_ID ?q \<or> ar_ActionReqID q = ar_ActionReqID ?q) \<longleftrightarrow>
      ar_ID r \<in> ar_ID ` set (agent_action_requests s) \<or> ar_ActionReqID r \<in> ar_ActionReqID ` set (agent_action_requests s)"
    unfolding stored_request_def image_iff by (simp, metis)
  then have "insert_action_request ?q s =
      (if ar_ID r \<in> ar_ID ` set (agent_action_requests s) \<or> ar_ActionReqID r \<in> ar_ActionReqID ` set (agent_action_requests s)
       then Inl DBError else Inr (s\<lparr> agent_action_requests := agent_action_requests s @ [?q] \<rparr>))"
    unfolding insert_action_request_def by simp
  then show ?thesis
    by (simp add: CreateActionRequest_def Let_def wrap_err_def exec_checked_fault_free)
qed

lemma audited_insert:
  assumes "audited s" and "set (agent_action_audit_log s) \<subseteq> set es"
    and "ar_Status r = ''pending'' \<or> has_entry es r"
  shows "audited (s\<lparr> agent_action_requests := agent_action_requests s @ [r], agent_action_audit_log := es \<rparr>)"
proof (rule audited_step [OF assms(1)])
  fix r' assume "r' \<in> set (agent_action_requests (s\<lparr> agent_action_requests := agent_action_requests s @ [r], agent_action_audit_log := es \<rparr>))"
    and "ar_Status r' \<noteq> ''pending''"
  with assms(3) show "has_entry (agent_action_audit_log (s\<lparr> agent_action_requests := agent_action_requests s @ [r], agent_action_audit_log := es \<rparr>)) r' \<or>
      (\<exists>r \<in> set (agent_action_requests s). ar_ID r = ar_ID r' \<and> ar_Status r = ar_Status r')"
    by auto
qed (use assms(2) in simp)

lemma submit_action_trail:
  assumes aud: "audited s" and fresh: "i \<notin> al_ID ` set (agent_action_audit_log s)"
  shows "trail_step s [i] (snd (submit_action push tdb now i r req g ev (s, [])))"
proof (cases "re_ApprovalType ev = ''auto''")
  case True
  let ?r = "r\<lparr> ar_Status := ''auto_approved'', ar_DecidedAt := Some (Unix now) \<rparr>"
  let ?q = "?r\<lparr> ar_CreatedAt := Unix now \<rparr>"
  have "audited (s\<lparr> agent_action_requests := agent_action_requests s @ [stored_request ?q],
      agent_action_audit_log := agent_action_audit_log s @ [stored_audit now (audit_row now i ?q ''auto_approved'' [])] \<rparr>)"
    using aud by (rule audited_insert) (auto simp: stored_request_def intro!: has_entry_new)
  with aud fresh True show ?thesis
    by (auto simp: submit_action_def CreateActionRequest_fault_free writeAuditLog_fault_free trail_step_def)
next
  case False
  have "audited (s\<lparr> agent_action_requests := agent_action_requests s @ [q] \<rparr>)" if "ar_Status q = ''pending''" for q
    using audited_insert [OF aud subset_refl, of q] that by simp
  with aud False show ?thesis
    by (cases "approval_device tdb (ar_UserID r) (ar_TenantID r)")
      (auto simp: submit_action_def Let_def CreateActionRequest_fault_free trail_step_def stored_request_def)
qed

lemma trail_same:
  assumes "audited s" and "same_requests s s'"
  shows "trail_step s ids (s', [])"
  using assms by (simp add: trail_step_def audited_def)

lemma GetOrCreateSettings_schedule: "snd (snd (GetOrCreateSettings now i t (s, []))) = []"
  by (cases "List.find (\<lambda>h. gs_TenantID h = t) (agent_guard_settings s)")
    (simp_all add: GetOrCreateSettings_found GetOrCreateSettings_created)

lemma resolve_identity_schedule: "snd (snd (resolve_identity parse req u t show_err (s, []))) = []"
  by (simp add: resolve_identity_def resolveTenantFromClientID_def sql_simps select_row_def split: option.splits)

lemma EvaluateAction_trail:
  assumes aud: "audited s" and fresh: "ev_auditID env \<notin> al_ID ` set (agent_action_audit_log s)"
  shows "trail_step s [ev_auditID env] (snd (EvaluateAction env req u m t (s, [])))"
proof -
  obtain who where w: "resolve_identity (ev_parse env) req u t (ev_show_error env) (s, []) = (who, s, [])"
    using resolve_identity_tables [of "ev_parse env" req u t "ev_show_error env" "(s, [])"]
      resolve_identity_schedule [of "ev_parse env" req u t "ev_show_error env" s]
    by (metis fst_conv prod.collapse)
  show ?thesis
  proof (cases who)
    case (Inl resp)
    with w aud show ?thesis by (simp add: EvaluateAction_def trail_same)
  next
    case (Inr who')
    obtain user ten where who': "who' = (user, ten)" by (cases who')
    obtain st s2 where g: "GetOrCreateSettings (ev_now env) (ev_settingsID env) ten (s, []) = (st, s2, [])"
      using GetOrCreateSettings_schedule by (metis prod.collapse)
    have same: "same_requests s s2"
      using settings_ops_requests(1) [where c = "(s, [])" and now = "ev_now env" and i = "ev_settingsID env" and t = ten] g
      by simp
    show ?thesis
    proof (cases st)
      case (Inl e)
      with w Inr who' g aud same show ?thesis by (simp add: EvaluateAction_def trail_same)
    next
      case (Inr settings)
      obtain v where e: "Evaluate (ev_zone env) (ev_conv env) (ev_now env) ten (aq_AgentID req) (aq_Action req)
          (aq_Resource req) (aq_Metadata req) settings (s2, []) = (Inr v, s2, [])"
        by (simp add: Evaluate_fault_free)
      show ?thesis
      proof (cases "generateActionReqID (ev_random env)")
        case None
        with w \<open>who = Inr who'\<close> who' g Inr e aud same show ?thesis by (simp add: EvaluateAction_def trail_same)
      next
        case (Some a)
        have "audited s2" using aud same by (simp add: audited_def)
        from submit_action_trail [OF this, of "ev_auditID env"] fresh same
        have "trail_step s2 [ev_auditID env] (snd (submit_action (ev_pushService env) (ev_tenantDB env) (ev_now env) (ev_auditID env)
            (action_request (ev_now env) (ev_requestID env) a ten user (if m = [] then aq_UserEmail req else m) req settings v)
            req settings v (s2, [])))" by simp
        with w \<open>who = Inr who'\<close> who' g Inr e Some same show ?thesis
          by (simp add: EvaluateAction_def Let_def trail_step_def)
      qed
    qed
  qed
qed

lemma other_ops_schedule:
  "snd (snd (CreateRiskPolicy now i t pc (s, []))) = []"
  "snd (snd (UpdateRiskPolicy now i t pu (s, []))) = []"
  "snd (snd (DeleteRiskPolicy now i t (s, []))) = []"
  "snd (snd (UpdateSettings now i t sr (s, []))) = []"
  "snd (snd (GetPendingActionsByUser now t u (s, []))) = []"
  "snd (snd (GetRiskPoliciesByTenant t (s, []))) = []"
  "snd (snd (GetAuditLog t page n (s, []))) = []"
proof -
  have upd: "snd (snd (repo_UpdateRiskPolicy now p (s, []))) = []" for p s
    by (auto simp: repo_UpdateRiskPolicy_def exec_affected_def Let_def split: sum.splits)
  show "snd (snd (UpdateRiskPolicy now i t pu (s, []))) = []"
    by (auto simp: UpdateRiskPolicy_def GetRiskPolicyByID_def sql_simps upd split: sum.splits go_error.splits)
  have set: "snd (snd (repo_UpdateSettings now g (s, []))) = []" for g s
    by (simp add: repo_UpdateSettings_def Let_def wrap_err_def)
  obtain r s1 where "GetOrCreateSettings now i t (s, []) = (r, s1, [])"
    using GetOrCreateSettings_schedule by (metis prod.collapse)
  then show "snd (snd (UpdateSettings now i t sr (s, []))) = []"
    by (cases r) (simp_all add: UpdateSettings_def set)
qed (auto simp: CreateRiskPolicy_def repo_CreateRiskPolicy_def DeleteRiskPolicy_def repo_DeleteRiskPolicy_def
    exec_affected_def GetPendingActionsByUser_def GetAuditLog_def repo_GetAuditLog_def Let_def wrap_err_def
    sql_simps split: sum.splits)

lemma guard_step_trail:
  assumes "guard_ok s" and "audited s" and "set (op_audit op) \<inter> al_ID ` set (agent_action_audit_log s) = {}"
    and "\<And>now. op \<noteq> OpCleanup now"
  shows "trail_step s (op_audit op) (fst (guard_step op (s, [])))"
proof -
  have other: "trail_step s ids (snd x)" if "same_requests s (tables x)" and "snd (snd x) = []"
    for ids and x :: "'r \<times> 'a guard_db_scheme conn"
    using trail_same [OF assms(2) that(1), of ids] that(2) by (metis prod.collapse)
  show ?thesis
  proof (cases op)
    case (OpEvaluate env req u m t)
    with assms EvaluateAction_trail [OF assms(2), of env req u m t] show ?thesis by (simp add: reply_def)
  next
    case (OpPoll now i x)
    with assms PollActionStatus_trail [OF assms(1,2), of i now x] show ?thesis by (simp add: reply_def)
  next
    case (OpRespond now d i x u m b why bio)
    with assms RespondToAction_trail [OF assms(1,2), of i now d x u m b why bio] show ?thesis by (simp add: reply_def)
  next
    case (OpCleanup now)
    with assms(4) [of now] show ?thesis by simp
  qed (simp_all add: reply_def other read_ops_tables policy_ops_requests [where c = "(s, [])", simplified]
      settings_ops_requests [where c = "(s, [])", simplified] other_ops_schedule GetOrCreateSettings_schedule)
qed

lemma run_trail:
  assumes "guard_ok s" and "audited s" and "distinct (concat (map op_audit ops))"
    and "set (concat (map op_audit ops)) \<inter> al_ID ` set (agent_action_audit_log s) = {}"
    and "\<forall>now. OpCleanup now \<notin> set ops"
  shows "audited (fst (fst (run guard_step ops (s, []))))"
  using assms
proof (induction ops arbitrary: s)
  case (Cons op ops)
  obtain s1 os where st: "fst (guard_step op (s, [])) = (s1, os)" by (metis surj_pair)
  have "trail_step s (op_audit op) (s1, os)"
    using guard_step_trail [OF Cons.prems(1,2), of op] Cons.prems(4,5) st by (auto simp: Int_Un_distrib2)
  then have os: "os = []" and aud: "audited s1"
    and ids: "al_ID ` set (agent_action_audit_log s1) \<subseteq> set (op_audit op) \<union> al_ID ` set (agent_action_audit_log s)"
    by (auto simp: trail_step_def)
  have "guard_ok s1" using guard_step_moves [of "(s, [])" op] Cons.prems(1) st by (simp add: guard_moves_def)
  moreover have "set (concat (map op_audit ops)) \<inter> al_ID ` set (agent_action_audit_log s1) = {}"
  proof -
    have "set (op_audit op) \<inter> set (concat (map op_audit ops)) = {}"
      and "set (concat (map op_audit ops)) \<inter> al_ID ` set (agent_action_audit_log s) = {}"
      using Cons.prems(3,4) by (simp_all add: Int_Un_distrib2)
    with ids show ?thesis by blast
  qed
  ultimately have "audited (fst (fst (run guard_step ops (s1, []))))"
    using Cons.IH [of s1] aud Cons.prems(3,5) by auto
  with st os show ?case by (simp add: case_prod_beta Let_def)
qed simp

section \<open>Properties\<close>

text \<open>
  C3. An agent is told that its action is approved only with cause: in any run from empty tables, under any
  schedule of database faults, a poll that answers approved speaks about a stored request that either was
  auto-approved because the risk engine asked for no approval, or has at least as many recorded
  approvals by humans as were required, one for the type single and two for the type multi.
\<close>

theorem guard_approved_backed:
  assumes "agent_action_requests s = []"
    and "PollActionStatus now i x (fst (run guard_step ops (s, os))) = (Inr resp, c')"
    and "ps_Decision resp = ''approved''"
  defines "s' \<equiv> fst (fst (run guard_step ops (s, os)))"
  shows "\<exists>r. request_at x s' = Some r \<and> ps_Status resp = ar_Status r \<and>
           (ar_Status r = ''auto_approved'' \<and> ar_ApprovalType r = ''auto'' \<or>
            ar_Status r = ''approved'' \<and>
            (if ar_ApprovalType r = ''multi'' then 2 else 1) \<le> approvals (agent_action_decisions s') (ar_ID r))"
proof -
  have "guard_ok (fst (s, os))" using assms(1) by (simp add: guard_ok_def requests_ok_def)
  from guard.run_keeps [OF this, of ops] have ok: "guard_ok s'" by (simp add: s'_def)
  from PollActionStatus_reply [OF assms(2,3)] obtain r where r: "request_at x s' = Some r"
    and st: "ar_Status r \<in> {''approved'', ''auto_approved''}" "ps_Status resp = ar_Status r"
    unfolding s'_def by metis
  have "row_ok (agent_action_decisions s') r"
    using ok find_SomeD [OF r] by (auto simp: guard_ok_def requests_ok_def)
  with r st show ?thesis by (auto simp: row_ok_def)
qed

text \<open>
  C4. A decision is final: once a request is approved, auto-approved, denied or expired, no sequence of
  operations, under any schedule of faults, changes anything of it but the time of the last poll.
\<close>

theorem guard_decision_final:
  assumes "guard_ok s" and "request_at x s = Some r" and "ar_Status r \<noteq> ''pending''"
  shows "\<exists>p. request_at x (fst (fst (run guard_step ops (s, os)))) = Some (r\<lparr> ar_LastPolledAt := p \<rparr>)"
proof -
  have "guard_moves s (fst (fst (run guard_step ops (s, os))))"
    using guard.run_moves [of "(s, os)" ops] assms(1) by simp
  then have "advances (agent_action_requests s) (agent_action_requests (fst (fst (run guard_step ops (s, os)))))"
    by (simp add: guard_moves_def)
  from grows_find [OF this, of ar_ActionReqID x r] assms(2) request_moves_id
  obtain r' where "request_at x (fst (fst (run guard_step ops (s, os)))) = Some r'" and "request_moves r r'"
    by blast
  with assms(3) show ?thesis unfolding request_moves_def by metis
qed

text \<open>
  Two approvals need not come from two people: on a pending request that needs two approvals, the same
  approver answering twice within its lifetime approves the action.
\<close>

theorem guard_one_person_suffices:
  assumes "request_at x s = Some r" and "ar_IsPending t1 r" and "ar_IsPending t2 r"
    and "ar_RequiredApprovals r = 2" and "ar_ReceivedApprovals r = 0"
    and "d1 \<noteq> d2" and "{d1, d2} \<inter> ad_ID ` set (agent_action_decisions s) = {}"
  shows "\<exists>c1 c2 rep r'. RespondToAction t1 d1 a1 x u m True [] bio (s, []) = (rep, c1) \<and>
           RespondToAction t2 d2 a2 x u m True [] bio c1 =
             (Inr \<lparr> arr_Success = True, arr_Message = ''Action approved'' \<rparr>, c2) \<and>
           request_at x (fst c2) = Some r' \<and> ar_Status r' = ''approved''"
proof -
  have x: "ar_ActionReqID r = x" using find_SomeD [OF assms(1)] by simp
  let ?d1 = "decision_row d1 r u m True [] bio\<lparr> ad_CreatedAt := Unix t1 \<rparr>"
  let ?s1 = "s\<lparr> agent_action_requests := count_approval x (agent_action_requests s),
               agent_action_decisions := agent_action_decisions s @ [?d1] \<rparr>"
  let ?r1 = "r\<lparr> ar_ReceivedApprovals := 1 \<rparr>"
  have first: "RespondToAction t1 d1 a1 x u m True [] bio (s, []) =
      (Inr \<lparr> arr_Success = True, arr_Message = ''Approval recorded ('' @ Itoa 1 @ ''/'' @ Itoa 2 @ '' required)'' \<rparr>,
       ?s1, [])"
    using assms by (simp add: RespondToAction_def respond_found_def sql_simps decision_row_def)
  have at1: "request_at x ?s1 = Some ?r1"
    using assms(1,5) x by (simp add: table_simps)
  have pend: "ar_IsPending t2 ?r1" using assms(3) by (simp add: ar_IsPending_def ar_IsExpired_def)
  obtain s2 where second: "respond_found t2 d2 a2 x ?r1 u m True [] bio (?s1, []) =
      (Inr \<lparr> arr_Success = True, arr_Message = ''Action approved'' \<rparr>, s2, [])"
    and "request_at x s2 = Some (?r1\<lparr> ar_Status := ''approved'', ar_ReceivedApprovals := ar_ReceivedApprovals ?r1 + 1,
                                     ar_DecidedAt := Some (Unix t2) \<rparr>)"
    by (rule respond_found_approves [OF at1, of d2]) (use assms(4,6,7) in \<open>auto simp: decision_row_def\<close>)
  then have "\<exists>r'. request_at x (fst (s2, [] :: outcome list)) = Some r' \<and> ar_Status r' = ''approved''"
    by simp
  with first second RespondToAction_pending [OF at1 pend, of d2 a2 u m True "[]" bio] show ?thesis by metis
qed

text \<open>
  Answers are not serialised: an approval that has read the pending request before a denial of another
  approver completes overwrites the denial, and the agent gets its approval.
\<close>

theorem guard_denial_overwritten:
  assumes "request_at x s = Some r" and "ar_IsPending t1 r" and "ar_RequiredApprovals r = 1"
    and "ar_ReceivedApprovals r = 0" and "d1 \<noteq> d2" and "{d1, d2} \<inter> ad_ID ` set (agent_action_decisions s) = {}"
  shows "\<exists>c1 c2 r1 r2. RespondToAction t1 d1 a1 x u1 m1 False why bio1 (s, []) =
             (Inr \<lparr> arr_Success = True, arr_Message = ''Action denied'' \<rparr>, c1) \<and>
           request_at x (fst c1) = Some r1 \<and> ar_Status r1 = ''denied'' \<and>
           respond_found t2 d2 a2 x r u2 m2 True [] bio2 c1 =
             (Inr \<lparr> arr_Success = True, arr_Message = ''Action approved'' \<rparr>, c2) \<and>
           request_at x (fst c2) = Some r2 \<and> ar_Status r2 = ''approved''"
proof -
  obtain s1 where deny: "respond_found t1 d1 a1 x r u1 m1 False why bio1 (s, []) =
      (Inr \<lparr> arr_Success = True, arr_Message = ''Action denied'' \<rparr>, s1, [])"
    and at1: "request_at x s1 = Some (r\<lparr> ar_Status := ''denied'', ar_DecidedAt := Some (Unix t1) \<rparr>)"
    and ids: "ad_ID ` set (agent_action_decisions s1) = insert d1 (ad_ID ` set (agent_action_decisions s))"
    by (rule respond_found_denies [OF assms(1), of d1]) (use assms(6) in auto)
  obtain s2 where grant: "respond_found t2 d2 a2 x r u2 m2 True [] bio2 (s1, []) =
      (Inr \<lparr> arr_Success = True, arr_Message = ''Action approved'' \<rparr>, s2, [])"
    and at2: "request_at x s2 = Some (r\<lparr> ar_Status := ''approved'', ar_DecidedAt := Some (Unix t2), ar_ReceivedApprovals := 1 \<rparr>)"
    by (rule respond_found_approves [OF at1, of d2 t2 a2 r u2 m2 "[]" bio2]) (use assms(3-6) ids in auto)
  have "RespondToAction t1 d1 a1 x u1 m1 False why bio1 (s, []) =
      (Inr \<lparr> arr_Success = True, arr_Message = ''Action denied'' \<rparr>, s1, [])"
    using RespondToAction_pending [OF assms(1,2)] deny by simp
  moreover have "request_at x (fst (s1, [] :: outcome list)) = Some (r\<lparr> ar_Status := ''denied'', ar_DecidedAt := Some (Unix t1) \<rparr>)"
    using at1 by simp
  moreover have "request_at x (fst (s2, [] :: outcome list)) = Some (r\<lparr> ar_Status := ''approved'', ar_DecidedAt := Some (Unix t2), ar_ReceivedApprovals := 1 \<rparr>)"
    using at2 by simp
  ultimately show ?thesis using grant by (intro exI conjI) (assumption | simp)+
qed

text \<open>
  The cleanup job closes overdue requests without a trace: it marks the request expired and writes no
  entry, and a later poll, which finds it expired already, writes none either.
\<close>

theorem guard_cleanup_unaudited:
  assumes "request_at x s = Some r" and "ar_Status r = ''pending''" and "ar_ExpiresAt r < Unix now"
  shows "\<exists>n c1 c2 r1 resp. CleanupExpiredRequests now (s, []) = (Inr n, c1) \<and> 1 \<le> n \<and>
           request_at x (fst c1) = Some r1 \<and> ar_Status r1 = ''expired'' \<and>
           PollActionStatus now' i x c1 = (Inr resp, c2) \<and> ps_Status resp = ''expired'' \<and>
           agent_action_audit_log (fst c2) = agent_action_audit_log s"
proof -
  let ?hit = "\<lambda>r. ar_ExpiresAt r < Unix now \<and> ar_Status r = ''pending''"
  let ?r1 = "r\<lparr> ar_Status := ''expired'', ar_DecidedAt := Some (Unix now) \<rparr>"
  let ?s1 = "s\<lparr> agent_action_requests :=
      update_where ?hit (\<lambda>r. r\<lparr> ar_Status := ''expired'', ar_DecidedAt := Some (Unix now) \<rparr>) (agent_action_requests s) \<rparr>"
  have "r \<in> set (filter ?hit (agent_action_requests s))" using find_SomeD [OF assms(1)] assms(2,3) by simp
  then have "1 \<le> affected ?hit (agent_action_requests s)"
    unfolding affected_def by (cases "filter ?hit (agent_action_requests s)") auto
  moreover have "CleanupExpiredRequests now (s, []) = (Inr (affected ?hit (agent_action_requests s)), ?s1, [])"
    by (simp add: CleanupExpiredRequests_def ExpireOldActionRequests_def wrap_err_def Let_def)
  moreover have at1: "request_at x ?s1 = Some ?r1"
    by (simp, subst find_update_where [of ar_ActionReqID]) (use assms in simp_all)
  moreover have "PollActionStatus now' i x (?s1, []) =
      (Inr (status_response x ''expired'' ?r1 [] ''expired_token'' ''Request is no longer active''),
       ?s1\<lparr> agent_action_requests := set_polled now' x (agent_action_requests ?s1) \<rparr>, [])"
    unfolding PollActionStatus_def GetActionRequestByID_fault_free at1
    by (simp add: sql_simps)
  ultimately show ?thesis
    by (intro exI conjI) (assumption | simp add: status_response_def)+
qed

text \<open>
  Settings round trip: what an update of the tenant's settings returns is what the next read returns.
\<close>

theorem guard_settings_roundtrip:
  assumes "UpdateSettings now i t req (s, []) = (Inr g, s1, os)"
  shows "GetOrCreateSettings now' i' t (s1, []) = (Inr g, s1, []) \<and>
         g = (patch_settings req (case List.find (\<lambda>h. gs_TenantID h = t) (agent_guard_settings s) of
                                    Some h \<Rightarrow> h | None \<Rightarrow> default_settings now i t))\<lparr> gs_UpdatedAt := Unix now \<rparr>"
proof -
  let ?pick = "\<lambda>s. List.find (\<lambda>h. gs_TenantID h = t) (agent_guard_settings s)"
  define g0 where "g0 = (case ?pick s of Some h \<Rightarrow> h | None \<Rightarrow> default_settings now i t)"
  obtain s0 where get: "GetOrCreateSettings now i t (s, []) = (Inr g0, s0, [])" and at0: "?pick s0 = Some g0"
  proof (cases "?pick s")
    case (Some h)
    then show thesis
      using that [of s] GetOrCreateSettings_found [OF Some, of now i] by (simp add: g0_def)
  next
    case None
    then show thesis
      using that [of "s\<lparr> agent_guard_settings := agent_guard_settings s @ [default_settings now i t] \<rparr>"]
        GetOrCreateSettings_created [OF None, of now i] assms
      by (cases "\<exists>h \<in> set (agent_guard_settings s). gs_ID h = i")
        (auto simp: g0_def UpdateSettings_def table_simps default_settings_def)
  qed
  have tenant: "gs_TenantID g0 = t" using find_SomeD [OF at0] by simp
  let ?g = "(patch_settings req g0)\<lparr> gs_UpdatedAt := Unix now \<rparr>"
  let ?f = "\<lambda>h. ?g\<lparr> gs_ID := gs_ID h, gs_TenantID := gs_TenantID h, gs_CreatedAt := gs_CreatedAt h \<rparr>"
  have upd: "repo_UpdateSettings now (patch_settings req g0) (s0, []) =
      (Inr ?g, s0\<lparr> agent_guard_settings := update_where (\<lambda>h. gs_TenantID h = t) ?f (agent_guard_settings s0) \<rparr>, [])"
    using tenant by (simp add: repo_UpdateSettings_def Let_def wrap_err_def patch_settings_def)
  have res: "g = ?g" and s1: "s1 = s0\<lparr> agent_guard_settings :=
      update_where (\<lambda>h. gs_TenantID h = t) ?f (agent_guard_settings s0) \<rparr>"
    using assms unfolding UpdateSettings_def get by (simp_all add: upd) auto
  have "?pick s1 = Some (?f g0)"
    using at0 tenant find_update_where [of gs_TenantID ?f t] unfolding s1 by simp
  moreover have "?f g0 = ?g" by (simp add: patch_settings_def)
  ultimately have "?pick s1 = Some g" using res by simp
  from GetOrCreateSettings_found [OF this] show ?thesis using res by (simp add: g0_def)
qed

text \<open>
  Tenants administer only their own policies: creating, updating or deleting a policy of one tenant
  leaves the active policies of every other tenant as they were, whatever statement fails.
\<close>

theorem guard_policy_isolation:
  assumes "t \<noteq> t'"
  shows "active_policies t' (risk_policies (tables (CreateRiskPolicy now i t pc c))) = active_policies t' (risk_policies (fst c)) \<and>
         active_policies t' (risk_policies (tables (UpdateRiskPolicy now p t pu c))) = active_policies t' (risk_policies (fst c)) \<and>
         active_policies t' (risk_policies (tables (DeleteRiskPolicy now p t c))) = active_policies t' (risk_policies (fst c))"
proof (intro conjI)
  show "active_policies t' (risk_policies (tables (CreateRiskPolicy now i t pc c))) = active_policies t' (risk_policies (fst c))"
    using assms unfolding CreateRiskPolicy_def
    by (cases c rule: conn_cases)
      (auto simp: repo_CreateRiskPolicy_def Let_def wrap_err_def exec_checked_def insert_risk_policy_def
        active_policies_def split: sum.splits)
  obtain r c1 where get: "GetRiskPolicyByID p t c = (r, c1)" by (metis surj_pair)
  then have c1: "fst c1 = fst c" using GetRiskPolicyByID_tables [of p t c] by simp
  show "active_policies t' (risk_policies (tables (UpdateRiskPolicy now p t pu c))) = active_policies t' (risk_policies (fst c))"
  proof (cases r)
    case (Inl e)
    with get c1 show ?thesis by (simp add: UpdateRiskPolicy_def)
  next
    case (Inr q)
    have "rp_TenantID q = t" using GetRiskPolicyByID_found [OF get [unfolded Inr]] by simp
    then have "active_policies t' (risk_policies (fst (update_risk_policy (patch_policy pu q\<lparr> rp_UpdatedAt := Unix now \<rparr>) (fst c1))))
        = active_policies t' (risk_policies (fst c))"
      using assms c1 by (simp add: update_risk_policy_def Let_def patch_policy_def active_policies_other)
    with get Inr c1 repo_UpdateRiskPolicy_tables [of now "patch_policy pu q" c1] show ?thesis
      by (auto simp: UpdateRiskPolicy_def)
  qed
  show "active_policies t' (risk_policies (tables (DeleteRiskPolicy now p t c))) = active_policies t' (risk_policies (fst c))"
    using assms exec_affected_tables
    unfolding DeleteRiskPolicy_def repo_DeleteRiskPolicy_def Let_def
    by (cases c rule: conn_cases) (simp_all add: exec_affected_def active_policies_other)
qed

text \<open>
  Paging through the audit log loses and repeats nothing: the pages 1 to k, with a page size of 1 to 100
  and enough of them, put together are the entries of the tenant, newest first, and every page reports
  their number.
\<close>

theorem guard_audit_pages:
  assumes "1 \<le> n" and "n \<le> 100" and "length (audit_of t (agent_action_audit_log s)) \<le> k * n" and "int (k * n) < 2 ^ 63"
  shows "\<exists>pages. list_all2 (\<lambda>p es. GetAuditLog t (int p) (int n) (s, []) =
             (Inr (es, int (length (audit_of t (agent_action_audit_log s)))), s, [])) [1..<k + 1] pages \<and>
           concat pages = audit_of t (agent_action_audit_log s)"
proof -
  let ?log = "audit_of t (agent_action_audit_log s)"
  let ?page = "\<lambda>p. take n (drop ((p - 1) * n) ?log)"
  have "GetAuditLog t (int p) (int n) (s, []) = (Inr (?page p, int (length ?log)), s, [])"
    if "p \<in> set [1..<k + 1]" for p
  proof -
    have "p \<noteq> 0" and "p \<le> k" using that by auto
    then obtain m where p: "p = Suc m" and "m < k" by (cases p) simp_all
    have "m * n \<le> k * n" and "m \<le> k * n"
      using \<open>m < k\<close> assms(1) mult_le_mono [of m k 1 n] by simp_all
    then have "wrap_int (int m) = int m" and "wrap_int (int (m * n)) = int (m * n)"
      using assms(4) by (intro wrap_int_id; linarith)+
    then have "wrap_int (wrap_int (int p - 1) * int n) = int (m * n)" by (simp add: p)
    moreover have "\<not> int m * int n < 0" and "nat (int m * int n) = m * n"
      by (simp_all add: nat_mult_distrib not_less)
    ultimately show ?thesis
      using assms(1,2)
      by (simp add: p GetAuditLog_def repo_GetAuditLog_def Let_def sql_simps wrap_err_def limit_offset_def
          audit_of_def affected_def)
  qed
  then have "list_all2 (\<lambda>p es. GetAuditLog t (int p) (int n) (s, []) = (Inr (es, int (length ?log)), s, []))
      [1..<k + 1] (map ?page [1..<k + 1])"
    by (simp add: list_all2_map2 list_all2_same)
  moreover have "concat (map ?page [1..<k + 1]) = ?log"
    using concat_pages [of n ?log k] assms(3) by simp
  ultimately show ?thesis by blast
qed


text \<open>
  C34. The audit trail is complete on the paths through the service: in a fault-free run from empty tables
  whose operations draw distinct fresh audit ids and do not include the cleanup job, every stored request
  that is no longer pending has an entry in the audit log with its final status.
\<close>

theorem guard_runs_audited:
  assumes "agent_action_requests s = []" and "distinct (concat (map op_audit ops))"
    and "set (concat (map op_audit ops)) \<inter> al_ID ` set (agent_action_audit_log s) = {}"
    and "\<forall>now. OpCleanup now \<notin> set ops"
  defines "s' \<equiv> fst (fst (run guard_step ops (s, [])))"
  shows "\<forall>r \<in> set (agent_action_requests s'). ar_Status r \<noteq> ''pending'' \<longrightarrow>
           (\<exists>e \<in> set (agent_action_audit_log s'). al_ActionRequestID e = Some (ar_ID r) \<and> al_FinalStatus e = ar_Status r)"
  using run_trail [of s ops] assms
  by (simp add: audited_def has_entry_def guard_ok_def requests_ok_def)

section \<open>Examples\<close>

text \<open>A deletion that needs one approval, asked for by a bot of user \<^verbatim>\<open>u-1\<close> without a push device.\<close>

definition ex_action :: AgentActionEvaluateRequest where
  "ex_action =
     \<lparr> aq_ClientID = [], aq_AgentID = ''bot'', aq_AgentName = ''Bot'', aq_AgentFramework = [], aq_SessionID = [],
       aq_Action = ''DELETE_ROW'', aq_Resource = ''logs'', aq_Detail = [], aq_Metadata = None, aq_UserEmail = [] \<rparr>"

definition ex_eval_env :: eval_env where
  "ex_eval_env =
     \<lparr> ev_parse = Some, ev_zone = (\<lambda>_. None), ev_conv = (\<lambda>_. 0), ev_show_error = (\<lambda>_. []),
       ev_tenantDB = (\<lambda>_. Inl DBError), ev_pushService = True, ev_now = 0, ev_settingsID = ''g'',
       ev_requestID = ''q-1'', ev_auditID = ''e-1'', ev_random = Some (\<lambda>_. 0) \<rparr>"

definition ex_action_id :: string where
  "ex_action_id = ''act_'' @ Base64URL (map (\<lambda>_. 0) [0..<32])"

definition ex_evaluation :: RiskEvaluation where
  "ex_evaluation = risk_evaluation None (default_settings 0 ''g'' ''t-1'')
     (add_factor True ''default'' (defaultActionScore ''DELETE_ROW'')
        (''No specific policy matched; default score for action '' @ CHR 0x27 # ''DELETE_ROW'' @ [CHR 0x27]) (0, []))"

definition ex_request :: AgentActionRequest where
  "ex_request = stored_request ((action_request 0 ''q-1'' ex_action_id ''t-1'' ''u-1'' ''a@x.io'' ex_action
     (default_settings 0 ''g'' ''t-1'') ex_evaluation)\<lparr> ar_Status := ''pending'', ar_CreatedAt := Unix 0 \<rparr>)"

definition ex_guard1 :: guard_db where
  "ex_guard1 = ex_guard\<lparr> agent_guard_settings := [default_settings 0 ''g'' ''t-1''], agent_action_requests := [ex_request] \<rparr>"

abbreviation ex_evaluate :: guard_op where
  "ex_evaluate \<equiv> OpEvaluate ex_eval_env ex_action ''u-1'' ''a@x.io'' ''t-1''"

abbreviation ex_approve :: guard_op where
  "ex_approve \<equiv> OpRespond 0 ''d-1'' ''e-2'' ex_action_id ''u-2'' ''b@x.io'' True [] True"

lemma ex_evaluation_approval: "re_ApprovalType ex_evaluation = ''single''" "re_RequiredApprovals ex_evaluation = 1"
proof -
  have "defaultActionScore ''DELETE_ROW'' = 70" by code_simp
  then show "re_ApprovalType ex_evaluation = ''single''" "re_RequiredApprovals ex_evaluation = 1"
    by (simp_all add: ex_evaluation_def risk_evaluation_def add_factor_def determineApproval_def default_settings_def)
qed

lemma ex_request_fields [simp]:
  "ar_ID ex_request = ''q-1''" "ar_ActionReqID ex_request = ex_action_id" "ar_Status ex_request = ''pending''"
  "ar_RequiredApprovals ex_request = 1" "ar_ReceivedApprovals ex_request = 0" "ar_ApprovalType ex_request = ''single''"
  "ar_ExpiresAt ex_request = 300"
  by (simp_all add: ex_request_def stored_request_def action_request_def ex_evaluation_approval default_settings_def
      Unix_def Second_def)

lemma ex_request_pending: "ar_IsPending 0 ex_request"
  by (simp add: ar_IsPending_def ar_IsExpired_def Unix_def Second_def)

lemma ex_evaluate_step: "fst (guard_step ex_evaluate (ex_guard, [])) = (ex_guard1, [])"
proof -
  have "Evaluate (\<lambda>_. None) (\<lambda>_. 0) 0 ''t-1'' ''bot'' ''DELETE_ROW'' ''logs'' None (default_settings 0 ''g'' ''t-1'')
      (ex_guard\<lparr> agent_guard_settings := [default_settings 0 ''g'' ''t-1''] \<rparr>, []) =
      (Inr ex_evaluation, ex_guard\<lparr> agent_guard_settings := [default_settings 0 ''g'' ''t-1''] \<rparr>, [])"
    by (simp add: Evaluate_fault_free ex_guard_def active_policies_def matchPolicy_def ex_evaluation_def)
  moreover have "GetOrCreateSettings 0 ''g'' ''t-1'' (ex_guard, []) =
      (Inr (default_settings 0 ''g'' ''t-1''), ex_guard\<lparr> agent_guard_settings := [default_settings 0 ''g'' ''t-1''] \<rparr>, [])"
    by (simp add: GetOrCreateSettings_created ex_guard_def)
  moreover have "generateActionReqID (Some (\<lambda>_. 0)) = Some ex_action_id"
    by (simp add: generateActionReqID_def ex_action_id_def)
  ultimately show ?thesis
    by (simp add: reply_def EvaluateAction_def resolve_identity_def ex_eval_env_def ex_action_def
        submit_action_def ex_evaluation_approval approval_device_def CreateActionRequest_fault_free
        ex_guard1_def ex_guard_def ex_request_def)
qed

lemma ex_guard1_ok: "guard_ok ex_guard1"
  by (simp add: guard_ok_def requests_ok_def row_ok_def ex_guard1_def ex_guard_def approvals_def affected_def)

lemma ex_guard1_at: "request_at ex_action_id ex_guard1 = Some ex_request"
  by (simp add: ex_guard1_def)

lemma ex_approve_step:
  "\<exists>s2. fst (guard_step ex_approve (ex_guard1, [])) = (s2, []) \<and>
     request_at ex_action_id s2 = Some (ex_request\<lparr> ar_Status := ''approved'', ar_ReceivedApprovals := 1, ar_DecidedAt := Some 0 \<rparr>)"
proof -
  obtain s2 where "respond_found 0 ''d-1'' ''e-2'' ex_action_id ex_request ''u-2'' ''b@x.io'' True [] True (ex_guard1, []) =
      (Inr \<lparr> arr_Success = True, arr_Message = ''Action approved'' \<rparr>, s2, [])"
    and "request_at ex_action_id s2 = Some (ex_request\<lparr> ar_Status := ''approved'',
      ar_ReceivedApprovals := ar_ReceivedApprovals ex_request + 1, ar_DecidedAt := Some (Unix 0) \<rparr>)"
    by (rule respond_found_approves [OF ex_guard1_at, of "''d-1''"]) (simp_all add: ex_guard1_def ex_guard_def)
  with RespondToAction_pending [OF ex_guard1_at ex_request_pending] show ?thesis
    by (simp add: reply_def Unix_def)
qed

lemma ex_run: "\<exists>s2. fst (run guard_step [ex_evaluate, ex_approve] (ex_guard, [])) = (s2, []) \<and>
     request_at ex_action_id s2 = Some (ex_request\<lparr> ar_Status := ''approved'', ar_ReceivedApprovals := 1, ar_DecidedAt := Some 0 \<rparr>)"
  using ex_approve_step ex_evaluate_step by (simp add: case_prod_beta Let_def)

theorem guard_approved_backed_witness:
  "\<exists>resp c' r. PollActionStatus 0 ''e-3'' ex_action_id (fst (run guard_step [ex_evaluate, ex_approve] (ex_guard, []))) = (Inr resp, c') \<and>
     ps_Decision resp = ''approved'' \<and>
     request_at ex_action_id (fst (fst (run guard_step [ex_evaluate, ex_approve] (ex_guard, [])))) = Some r \<and>
     1 \<le> approvals (agent_action_decisions (fst (fst (run guard_step [ex_evaluate, ex_approve] (ex_guard, []))))) (ar_ID r)"
proof -
  let ?c = "fst (run guard_step [ex_evaluate, ex_approve] (ex_guard, []))"
  obtain s2 where s2: "?c = (s2, [])" and at2: "request_at ex_action_id s2 =
      Some (ex_request\<lparr> ar_Status := ''approved'', ar_ReceivedApprovals := 1, ar_DecidedAt := Some 0 \<rparr>)"
    using ex_run by blast
  obtain resp c' where poll: "PollActionStatus 0 ''e-3'' ex_action_id ?c = (Inr resp, c')" and dec: "ps_Decision resp = ''approved''"
    using at2 unfolding s2 by (simp add: PollActionStatus_def sql_simps status_response_def)
  have "agent_action_requests ex_guard = []" by (simp add: ex_guard_def)
  from guard_approved_backed [OF this poll dec] at2 s2
  have "1 \<le> approvals (agent_action_decisions (fst ?c)) (ar_ID ex_request)" by auto
  with poll dec at2 s2 show ?thesis by auto
qed

theorem guard_decision_final_witness:
  "\<exists>s r p. request_at ex_action_id (s :: guard_db) = Some r \<and> ar_Status r = ''approved'' \<and>
     request_at ex_action_id (fst (fst (run guard_step
        [OpRespond 0 ''d-2'' ''e-4'' ex_action_id ''u-3'' [] False [] False, OpCleanup (1000 * Second)] (s, [Unacked])))) =
       Some (r\<lparr> ar_LastPolledAt := p \<rparr>)"
proof -
  obtain s2 where s2: "fst (run guard_step [ex_evaluate, ex_approve] (ex_guard, [])) = (s2, [])" and at2: "request_at ex_action_id s2 =
      Some (ex_request\<lparr> ar_Status := ''approved'', ar_ReceivedApprovals := 1, ar_DecidedAt := Some 0 \<rparr>)"
    using ex_run by blast
  have "guard_ok ex_guard" by (simp add: guard_ok_def requests_ok_def ex_guard_def)
  with guard.run_keeps [of "(ex_guard, [])" "[ex_evaluate, ex_approve]"] s2 have "guard_ok s2" by simp
  let ?r = "ex_request\<lparr> ar_Status := ''approved'', ar_ReceivedApprovals := 1, ar_DecidedAt := Some 0 \<rparr>"
  have "ar_Status ?r \<noteq> ''pending''" and "ar_Status ?r = ''approved''" by simp_all
  with guard_decision_final [OF \<open>guard_ok s2\<close> at2] at2 show ?thesis by blast
qed

theorem guard_one_person_suffices_witness:
  "\<exists>c1 c2 rep r'. RespondToAction 0 ''d-1'' ''e-1'' ex_action_id ''u-2'' [] True [] False
       (ex_guard1\<lparr> agent_action_requests := [ex_request\<lparr> ar_RequiredApprovals := 2 \<rparr>] \<rparr>, []) = (rep, c1) \<and>
     RespondToAction Second ''d-2'' ''e-2'' ex_action_id ''u-2'' [] True [] False c1 =
       (Inr \<lparr> arr_Success = True, arr_Message = ''Action approved'' \<rparr>, c2) \<and>
     request_at ex_action_id (fst c2) = Some r' \<and> ar_Status r' = ''approved''"
  by (rule guard_one_person_suffices [where r = "ex_request\<lparr> ar_RequiredApprovals := 2 \<rparr>"])
    (simp_all add: ar_IsPending_def ar_IsExpired_def Unix_def Second_def ex_guard1_def ex_guard_def)

theorem guard_denial_overwritten_witness:
  "\<exists>c1 c2 r1 r2. RespondToAction 0 ''d-1'' ''e-1'' ex_action_id ''u-2'' [] False [] False (ex_guard1, []) =
       (Inr \<lparr> arr_Success = True, arr_Message = ''Action denied'' \<rparr>, c1) \<and>
     request_at ex_action_id (fst c1) = Some r1 \<and> ar_Status r1 = ''denied'' \<and>
     respond_found Second ''d-2'' ''e-2'' ex_action_id ex_request ''u-3'' [] True [] False c1 =
       (Inr \<lparr> arr_Success = True, arr_Message = ''Action approved'' \<rparr>, c2) \<and>
     request_at ex_action_id (fst c2) = Some r2 \<and> ar_Status r2 = ''approved''"
  by (rule guard_denial_overwritten [OF ex_guard1_at ex_request_pending])
    (simp_all add: ex_guard1_def ex_guard_def)

theorem guard_cleanup_unaudited_witness:
  "\<exists>n c1 c2 r1 resp. CleanupExpiredRequests (1000 * Second) (ex_guard1, []) = (Inr n, c1) \<and> 1 \<le> n \<and>
     request_at ex_action_id (fst c1) = Some r1 \<and> ar_Status r1 = ''expired'' \<and>
     PollActionStatus (1001 * Second) ''e-1'' ex_action_id c1 = (Inr resp, c2) \<and> ps_Status resp = ''expired'' \<and>
     agent_action_audit_log (fst c2) = agent_action_audit_log ex_guard1"
  by (rule guard_cleanup_unaudited [OF ex_guard1_at]) (simp_all add: Unix_def Second_def)

definition ex_settings_request :: AgentGuardSettingsRequest where
  "ex_settings_request =
     \<lparr> sr_AutoApproveBelow = Some 20, sr_RequireApprovalAbove = None, sr_RequireMultiApprovalAbove = None,
       sr_ApprovalTimeoutSeconds = None, sr_PollingIntervalSeconds = None, sr_BusinessHoursStart = None,
       sr_BusinessHoursEnd = None, sr_BusinessHoursTimezone = None, sr_RequireBiometric = None \<rparr>"

theorem guard_settings_roundtrip_witness:
  "\<exists>g s1. UpdateSettings 0 ''g'' ''t-1'' ex_settings_request (ex_guard, []) = (Inr g, s1, []) \<and>
     GetOrCreateSettings 0 ''h'' ''t-1'' (s1, []) = (Inr g, s1, [])"
proof -
  obtain g s1 where u: "UpdateSettings 0 ''g'' ''t-1'' ex_settings_request (ex_guard, []) = (Inr g, s1, [])"
    by (simp add: UpdateSettings_def GetOrCreateSettings_created ex_guard_def repo_UpdateSettings_def Let_def wrap_err_def)
  with guard_settings_roundtrip [OF u, of 0 "''h''"] show ?thesis by blast
qed

theorem guard_policy_isolation_witness:
  "active_policies ''t-1'' (risk_policies (tables (DeleteRiskPolicy 0 ''p-1'' ''t-2''
     (ex_guard\<lparr> risk_policies := [ex_policy] \<rparr>, [])))) = [ex_policy]"
  using guard_policy_isolation [of "''t-2''" "''t-1''" 0 "[]" undefined "(ex_guard\<lparr> risk_policies := [ex_policy] \<rparr>, [])" "''p-1''"]
  by (simp add: active_policies_def ex_policy_def)

theorem guard_audit_pages_witness:
  "\<exists>pages. list_all2 (\<lambda>p es. GetAuditLog ''t-1'' (int p) (int 2)
       (ex_guard\<lparr> agent_action_audit_log := map (\<lambda>i. audit_row 0 i ex_request ''denied'' []) [''e-1'', ''e-2'', ''e-3''] \<rparr>, []) =
         (Inr (es, 3), ex_guard\<lparr> agent_action_audit_log := map (\<lambda>i. audit_row 0 i ex_request ''denied'' []) [''e-1'', ''e-2'', ''e-3''] \<rparr>, []))
       [1..<2 + 1] pages \<and> length (concat pages) = 3"
proof -
  let ?s = "ex_guard\<lparr> agent_action_audit_log := map (\<lambda>i. audit_row 0 i ex_request ''denied'' []) [''e-1'', ''e-2'', ''e-3''] \<rparr>"
  have "ar_TenantID ex_request = ''t-1''" by (simp add: ex_request_def stored_request_def action_request_def)
  then have len: "length (audit_of ''t-1'' (agent_action_audit_log ?s)) = 3"
    by (simp add: audit_of_def audit_row_def)
  have "\<exists>pages. list_all2 (\<lambda>p es. GetAuditLog ''t-1'' (int p) (int 2) (?s, []) =
             (Inr (es, int (length (audit_of ''t-1'' (agent_action_audit_log ?s)))), ?s, [])) [1..<2 + 1] pages \<and>
           concat pages = audit_of ''t-1'' (agent_action_audit_log ?s)"
    by (rule guard_audit_pages) (simp_all only: len, simp_all)
  then obtain pages where "list_all2 (\<lambda>p es. GetAuditLog ''t-1'' (int p) (int 2) (?s, []) = (Inr (es, 3), ?s, [])) [1..<2 + 1] pages"
    and "concat pages = audit_of ''t-1'' (agent_action_audit_log ?s)"
    unfolding len by auto
  with len show ?thesis by metis
qed

theorem guard_runs_audited_witness:
  "\<exists>r e. r \<in> set (agent_action_requests (fst (fst (run guard_step [ex_evaluate, ex_approve] (ex_guard, []))))) \<and>
     ar_Status r = ''approved'' \<and>
     e \<in> set (agent_action_audit_log (fst (fst (run guard_step [ex_evaluate, ex_approve] (ex_guard, []))))) \<and>
     al_ActionRequestID e = Some (ar_ID r) \<and> al_FinalStatus e = ''approved''"
proof -
  let ?s = "fst (fst (run guard_step [ex_evaluate, ex_approve] (ex_guard, [])))"
  obtain s2 where s2: "?s = s2" and at2: "request_at ex_action_id s2 =
      Some (ex_request\<lparr> ar_Status := ''approved'', ar_ReceivedApprovals := 1, ar_DecidedAt := Some 0 \<rparr>)"
    using ex_run by force
  have "\<forall>r \<in> set (agent_action_requests ?s). ar_Status r \<noteq> ''pending'' \<longrightarrow>
      (\<exists>e \<in> set (agent_action_audit_log ?s). al_ActionRequestID e = Some (ar_ID r) \<and> al_FinalStatus e = ar_Status r)"
    by (rule guard_runs_audited) (simp_all add: ex_guard_def ex_eval_env_def)
  with find_SomeD [OF at2] s2 show ?thesis by fastforce
qed

end
