(* ===== verification/Go_Crypto.thy ===== *)
theory Go_Crypto
  imports Go_Strings
begin

text \<open>
  What the one-time password services use of Go's \<^verbatim>\<open>crypto/sha1\<close>, \<^verbatim>\<open>crypto/hmac\<close>, \<^verbatim>\<open>encoding/binary\<close>
  and \<^verbatim>\<open>encoding/base32\<close>, and of \<^verbatim>\<open>fmt\<close> for padded numbers. The hash is the FIPS 180 algorithm on 32-bit
  words, the base 32 decoder follows the library's loop over quanta of eight characters.
\<close>

unbundle bit_operations_syntax

section \<open>Big-endian integers and padded numbers\<close>

text \<open>\<^verbatim>\<open>binary.BigEndian.Uint32\<close>, on a slice of at least four bytes, and \<^verbatim>\<open>PutUint64\<close>.\<close>

definition Uint32 :: "byte list \<Rightarrow> 32 word" where
  "Uint32 bs = word_rcat (take 4 bs)"

fun be_bytes :: "nat \<Rightarrow> int \<Rightarrow> byte list" where
  "be_bytes 0 i = []"
| "be_bytes (Suc n) i = be_bytes n (i div 256) @ [word_of_int i]"

definition PutUint64 :: "64 word \<Rightarrow> byte list" where
  "PutUint64 w = be_bytes 8 (uint w)"

text \<open>The conversion \<^verbatim>\<open>[]byte(s)\<close>.\<close>

definition bytes_of :: "string \<Rightarrow> byte list" where
  "bytes_of s = map of_char s"

text \<open>\<^verbatim>\<open>%06d\<close> and \<^verbatim>\<open>%08x\<close> of unsigned numbers.\<close>

definition fmt_06d :: "nat \<Rightarrow> string" where
  "fmt_06d n = replicate (6 - length (show_nat n)) (CHR ''0'') @ show_nat n"

definition fmt_08x :: "32 word \<Rightarrow> string" where
  "fmt_08x w = Hex (be_bytes 4 (uint w))"

section \<open>SHA-1\<close>

type_synonym chain = "32 word \<times> 32 word \<times> 32 word \<times> 32 word \<times> 32 word"
type_synonym mixer = "32 word \<Rightarrow> 32 word \<Rightarrow> 32 word \<Rightarrow> 32 word"

definition sha1_init :: chain where
  "sha1_init = (0x67452301, 0xEFCDAB89, 0x98BADCFE, 0x10325476, 0xC3D2E1F0)"

definition sha1_choose :: mixer where "sha1_choose b c d = (b AND c) OR (NOT b AND d)"
definition sha1_parity :: mixer where "sha1_parity b c d = b XOR c XOR d"
definition sha1_majority :: mixer where "sha1_majority b c d = ((b OR c) AND d) OR (b AND c)"

text \<open>The message schedule, kept newest word first while it grows.\<close>

fun sha1_schedule :: "nat \<Rightarrow> 32 word list \<Rightarrow> 32 word list" where
  "sha1_schedule 0 ws = rev ws"
| "sha1_schedule (Suc n) ws =
     sha1_schedule n (word_rotl 1 (ws ! 2 XOR ws ! 7 XOR ws ! 13 XOR ws ! 15) # ws)"

definition add5 :: "32 word \<Rightarrow> 32 word \<Rightarrow> 32 word \<Rightarrow> 32 word \<Rightarrow> 32 word \<Rightarrow> 32 word" where
  "add5 a b c d e = a + b + c + d + e"

lemma add5_code [code]: "add5 a b c d e = word_of_int (uint a + uint b + uint c + uint d + uint e)"
  by (simp add: add5_def)

fun sha1_rounds :: "mixer \<Rightarrow> 32 word \<Rightarrow> 32 word list \<Rightarrow> chain \<Rightarrow> chain" where
  "sha1_rounds f k [] h = h"
| "sha1_rounds f k (w # ws) (a, b, c, d, e) =
     sha1_rounds f k ws (add5 (word_rotl 5 a) (f b c d) e w k, a, word_rotl 30 b, c, d)"

fun add_chain :: "chain \<Rightarrow> chain \<Rightarrow> chain" where
  "add_chain (a, b, c, d, e) (a', b', c', d', e') = (a + a', b + b', c + c', d + d', e + e')"

fun be_words :: "byte list \<Rightarrow> 32 word list" where
  "be_words (a # b # c # d # bs) = Uint32 [a, b, c, d] # be_words bs"
| "be_words _ = []"

definition sha1_block :: "byte list \<Rightarrow> chain \<Rightarrow> chain" where
  "sha1_block p h =
     (let ws = sha1_schedule 64 (rev (be_words p));
          h1 = sha1_rounds sha1_choose 0x5A827999 (take 20 ws) h;
          h2 = sha1_rounds sha1_parity 0x6ED9EBA1 (take 20 (drop 20 ws)) h1;
          h3 = sha1_rounds sha1_majority 0x8F1BBCDC (take 20 (drop 40 ws)) h2;
          h4 = sha1_rounds sha1_parity 0xCA62C1D6 (drop 60 ws) h3
      in add_chain h h4)"

function sha1_blocks :: "byte list \<Rightarrow> chain \<Rightarrow> chain" where
  "sha1_blocks p h = (if length p < 64 then h else sha1_blocks (drop 64 p) (sha1_block (take 64 p) h))"
  by auto
termination by (relation "measure (length \<circ> fst)") auto

declare sha1_blocks.simps [simp del]

text \<open>The padding: a one bit, zeros up to 56 bytes modulo 64, the length in bits.\<close>

definition sha1_pad :: "byte list \<Rightarrow> byte list" where
  "sha1_pad m =
     m @ [0x80] @ replicate ((119 - length m mod 64) mod 64) 0 @ PutUint64 (of_nat (8 * length m))"

fun chain_bytes :: "chain \<Rightarrow> byte list" where
  "chain_bytes (a, b, c, d, e) = concat (map (\<lambda>w. be_bytes 4 (uint w)) [a, b, c, d, e])"

definition sha1_Sum :: "byte list \<Rightarrow> byte list" where
  "sha1_Sum m = chain_bytes (sha1_blocks (sha1_pad m) sha1_init)"

text \<open>\<^verbatim>\<open>hmac.New(sha1.New, key)\<close>, one \<^verbatim>\<open>Write\<close>, and \<^verbatim>\<open>Sum(nil)\<close>.\<close>

definition hmac_sha1 :: "byte list \<Rightarrow> byte list \<Rightarrow> byte list" where
  "hmac_sha1 key m =
     (let k = (if 64 < length key then sha1_Sum key else key);
          block = k @ replicate (64 - length k) 0
      in sha1_Sum (map (\<lambda>b. b XOR 0x5C) block @ sha1_Sum (map (\<lambda>b. b XOR 0x36) block @ m)))"

section \<open>Base 32\<close>

text \<open>\<^verbatim>\<open>base32.StdEncoding\<close>: five bytes to eight characters, padded with \<^verbatim>\<open>=\<close>.\<close>

definition b32_alphabet :: string where
  "b32_alphabet = ''ABCDEFGHIJKLMNOPQRSTUVWXYZ234567''"

definition b32_char :: "byte \<Rightarrow> char" where
  "b32_char b = b32_alphabet ! (unat b mod 32)"

definition b32_value :: "char \<Rightarrow> byte option" where
  "b32_value c =
     (let n = (of_char c :: nat)
      in if 65 \<le> n \<and> n \<le> 90 then Some (of_nat (n - 65))
         else if 50 \<le> n \<and> n \<le> 55 then Some (of_nat (n - 24)) else None)"

text \<open>The eight values of five bits of a group of five bytes.\<close>

definition b32_digits :: "byte \<Rightarrow> byte \<Rightarrow> byte \<Rightarrow> byte \<Rightarrow> byte \<Rightarrow> byte list" where
  "b32_digits a b c d e =
     [drop_bit 3 a, (push_bit 2 a OR drop_bit 6 b) AND 31, drop_bit 1 b AND 31,
      (push_bit 4 b OR drop_bit 4 c) AND 31, (push_bit 1 c OR drop_bit 7 d) AND 31,
      drop_bit 2 d AND 31, (push_bit 3 d OR drop_bit 5 e) AND 31, e AND 31]"

definition b32_tail :: "nat \<Rightarrow> byte list \<Rightarrow> string" where
  "b32_tail n ds = map b32_char (take n ds) @ replicate (8 - n) (CHR ''='')"

fun b32_EncodeToString :: "byte list \<Rightarrow> string" where
  "b32_EncodeToString [] = []"
| "b32_EncodeToString [a] = b32_tail 2 (b32_digits a 0 0 0 0)"
| "b32_EncodeToString [a, b] = b32_tail 4 (b32_digits a b 0 0 0)"
| "b32_EncodeToString [a, b, c] = b32_tail 5 (b32_digits a b c 0 0)"
| "b32_EncodeToString [a, b, c, d] = b32_tail 7 (b32_digits a b c d 0)"
| "b32_EncodeToString (a # b # c # d # e # bs) =
     map b32_char (b32_digits a b c d e) @ b32_EncodeToString bs"

text \<open>
  One quantum of the decoder: the values read so far, the input; the result are the values of the quantum,
  the remaining input and whether padding ended it. \<open>None\<close> is a \<^verbatim>\<open>CorruptInputError\<close>.
\<close>

fun b32_quantum :: "byte list \<Rightarrow> string \<Rightarrow> (byte list \<times> string \<times> bool) option" where
  "b32_quantum ds src =
     (if length ds = 8 then Some (ds, src, False) else
      (case src of
         [] \<Rightarrow> None
       | c # rest \<Rightarrow>
           if c = CHR ''='' \<and> 2 \<le> length ds \<and> length rest < 8 then
             (if length rest + length ds < 7 \<or> list_ex (\<lambda>x. x \<noteq> CHR ''='') (take (7 - length ds) rest)
                 \<or> length ds = 3 \<or> length ds = 6 then None
              else Some (ds, rest, True))
           else (case b32_value c of None \<Rightarrow> None | Some v \<Rightarrow> b32_quantum (ds @ [v]) rest)))"

declare b32_quantum.simps [simp del]

text \<open>The bytes of a quantum with 2, 4, 5, 7 or 8 values.\<close>

definition b32_pack :: "byte list \<Rightarrow> byte list" where
  "b32_pack ds =
     (let d = (\<lambda>i. if i < length ds then ds ! i else 0)
      in take (length ds * 5 div 8)
           [push_bit 3 (d 0) OR drop_bit 2 (d 1),
            push_bit 6 (d 1) OR push_bit 1 (d 2) OR drop_bit 4 (d 3),
            push_bit 4 (d 3) OR drop_bit 1 (d 4),
            push_bit 7 (d 4) OR push_bit 2 (d 5) OR drop_bit 3 (d 6),
            push_bit 5 (d 6) OR d 7])"

lemma b32_quantum_shorter:
  "b32_quantum ds src = Some (ds', rest, e) \<Longrightarrow> length ds < 8 \<Longrightarrow> length rest < length src"
proof (induction ds src rule: b32_quantum.induct)
  case (1 ds src)
  show ?case
  proof (cases src)
    case Nil
    with "1.prems" show ?thesis by (simp add: b32_quantum.simps)
  next
    case (Cons c cs)
    show ?thesis
    proof (cases "c = CHR ''='' \<and> 2 \<le> length ds \<and> length cs < 8")
      case True
      with Cons "1.prems" show ?thesis
        by (subst (asm) b32_quantum.simps) (simp split: if_splits)
    next
      case False
      then obtain v where v: "b32_value c = Some v" and rec: "b32_quantum (ds @ [v]) cs = Some (ds', rest, e)"
        using Cons "1.prems" by (subst (asm) b32_quantum.simps) (auto split: if_splits option.splits)
      show ?thesis
      proof (cases "length (ds @ [v]) < 8")
        case True
        from "1.IH" [OF _ Cons False v rec True] Cons "1.prems"(2) show ?thesis by simp
      next
        case False
        with "1.prems"(2) rec have "rest = cs" by (subst (asm) b32_quantum.simps) simp
        with Cons show ?thesis by simp
      qed
    qed
  qed
qed

function b32_decode :: "string \<Rightarrow> byte list option" where
  "b32_decode src =
     (if src = [] then Some [] else
      (case b32_quantum [] src of
         None \<Rightarrow> None
       | Some (ds, rest, end_) \<Rightarrow>
           if end_ then Some (b32_pack ds)
           else (case b32_decode rest of None \<Rightarrow> None | Some bs \<Rightarrow> Some (b32_pack ds @ bs))))"
  by auto
termination
  by (relation "measure length") (auto dest: b32_quantum_shorter)

declare b32_decode.simps [simp del]

definition b32_DecodeString :: "string \<Rightarrow> byte list option" where
  "b32_DecodeString s = b32_decode (filter (\<lambda>c. (of_char c :: nat) \<notin> {10, 13}) s)"


section \<open>Lengths and shapes\<close>

lemma length_be_bytes [simp]: "length (be_bytes n i) = n"
  by (induction n arbitrary: i) simp_all

lemma length_chain_bytes [simp]: "length (chain_bytes h) = 20"
  by (cases h rule: chain_bytes.cases) simp

lemma length_sha1_Sum [simp]: "length (sha1_Sum m) = 20"
  by (simp add: sha1_Sum_def)

lemma length_hmac_sha1 [simp]: "length (hmac_sha1 key m) = 20"
  by (simp add: hmac_sha1_def Let_def)

lemma fmt_06d_six: "n < 1000000 \<Longrightarrow> length (fmt_06d n) = 6 \<and> list_all is_digit (fmt_06d n)"
  using length_show_nat [of n 6] show_nat_digits [of n]
  by (auto simp: fmt_06d_def list_all_iff is_digit_def)

text \<open>Eight hexadecimal digits of four big-endian bytes are the digits of the bytes.\<close>

lemma word_rcat_four: "uint (Uint32 [a, b, c, d]) = ((uint a * 256 + uint b) * 256 + uint c) * 256 + uint d"
proof -
  have "0 \<le> uint x \<and> uint x < 256" for x :: byte
    using uint_bounded [of x] by simp
  from this [of a] this [of b] this [of c] this [of d]
  have "0 \<le> ((uint a * 256 + uint b) * 256 + uint c) * 256 + uint d"
    and "((uint a * 256 + uint b) * 256 + uint c) * 256 + uint d < 2 ^ 32" by simp_all
  then have "take_bit 32 (((uint a * 256 + uint b) * 256 + uint c) * 256 + uint d) =
      ((uint a * 256 + uint b) * 256 + uint c) * 256 + uint d"
    by (intro take_bit_int_eq_self) simp_all
  moreover have "Uint32 [a, b, c, d] = word_of_int (((uint a * 256 + uint b) * 256 + uint c) * 256 + uint d)"
    unfolding Uint32_def word_rcat_def by (simp add: algebra_simps)
  ultimately show ?thesis by (simp only: uint_word_of_int_eq) simp
qed

lemma fmt_08x_Uint32: "fmt_08x (Uint32 [a, b, c, d]) = Hex [a, b, c, d]"
proof -
  have "0 \<le> uint x \<and> uint x < 256" for x :: byte
    using uint_bounded [of x] by simp
  then have step: "(x * 256 + uint y) div 256 = x" for x and y :: byte by simp
  let ?i = "((uint a * 256 + uint b) * 256 + uint c) * 256 + uint d"
  have "?i div 256 = (uint a * 256 + uint b) * 256 + uint c"
    and "((uint a * 256 + uint b) * 256 + uint c) div 256 = uint a * 256 + uint b"
    and "(uint a * 256 + uint b) div 256 = uint a" by (rule step)+
  then have "be_bytes 4 ?i = map word_of_int [uint a, uint a * 256 + uint b, (uint a * 256 + uint b) * 256 + uint c, ?i]"
    by (simp add: eval_nat_numeral)
  moreover have "word_of_int (x * 256 + uint y) = y" for x and y :: byte
  proof -
    have "take_bit LENGTH(8) (x * 256 + uint y) = take_bit LENGTH(8) (uint y)" by (simp add: take_bit_eq_mod)
    then have "(word_of_int (x * 256 + uint y) :: byte) = word_of_int (uint y)" by (simp only: word_of_int_eq_iff)
    then show ?thesis by (simp only: word_of_int_uint)
  qed
  ultimately have "be_bytes 4 ?i = [a, b, c, d]" by (simp only: list.map word_of_int_uint)
  then show ?thesis unfolding fmt_08x_def word_rcat_four by simp
qed

section \<open>Base 32 round trip\<close>

lemma b32_char_values: "list_all (\<lambda>n. b32_value (b32_char (of_nat n)) = Some (of_nat n) \<and> b32_char (of_nat n) \<noteq> CHR ''='' \<and>
   (of_char (b32_char (of_nat n)) :: nat) \<notin> {10, 13}) [0..<32]"
  by (simp add: b32_value_def b32_char_def b32_alphabet_def upt_conv_Cons)

lemma b32_char_roundtrip:
  assumes "v < 32"
  shows "b32_value (b32_char v) = Some v" and "b32_char v \<noteq> CHR ''=''" and "(of_char (b32_char v) :: nat) \<notin> {10, 13}"
proof -
  have "unat v < 32" using assms by (simp add: word_less_nat_alt)
  with b32_char_values have "b32_value (b32_char (of_nat (unat v))) = Some (of_nat (unat v)) \<and>
      b32_char (of_nat (unat v)) \<noteq> CHR ''='' \<and> (of_char (b32_char (of_nat (unat v))) :: nat) \<notin> {10, 13}"
    unfolding list_all_iff by (metis atLeastLessThan_iff set_upt zero_le)
  then show "b32_value (b32_char v) = Some v" and "b32_char v \<noteq> CHR ''=''" and "(of_char (b32_char v) :: nat) \<notin> {10, 13}"
    by simp_all
qed

lemma b32_quantum_chars:
  assumes "\<forall>v \<in> set vs. v < 32" and "length ds + length vs \<le> 8"
  shows "b32_quantum ds (map b32_char vs @ rest) = b32_quantum (ds @ vs) rest"
  using assms
proof (induction vs arbitrary: ds)
  case (Cons v vs)
  have "b32_quantum ds (map b32_char (v # vs) @ rest) = b32_quantum (ds @ [v]) (map b32_char vs @ rest)"
    using Cons.prems b32_char_roundtrip [of v] by (subst b32_quantum.simps) simp
  with Cons show ?case by simp
qed simp

lemma b32_quantum_full:
  assumes "\<forall>v \<in> set vs. v < 32" and "length vs = 8"
  shows "b32_quantum [] (map b32_char vs @ rest) = Some (vs, rest, False)"
  using b32_quantum_chars [of vs "[]" rest] b32_quantum.simps [of vs rest] assms by simp

lemma b32_quantum_padded:
  assumes "\<forall>v \<in> set vs. v < 32" and "length vs \<in> {2, 4, 5, 7}"
  shows "b32_quantum [] (map b32_char vs @ replicate (8 - length vs) (CHR ''='')) =
           Some (vs, replicate (7 - length vs) (CHR ''=''), True)"
proof -
  have pad: "replicate (8 - length vs) (CHR ''='') = CHR ''='' # replicate (7 - length vs) (CHR ''='')"
    using assms(2) by (auto simp: eval_nat_numeral)
  have "b32_quantum vs (replicate (8 - length vs) (CHR ''='')) = Some (vs, replicate (7 - length vs) (CHR ''=''), True)"
    unfolding pad using assms(2) by (subst b32_quantum.simps) (auto simp: list_ex_iff)
  with b32_quantum_chars [of vs "[]"] assms show ?thesis by fastforce
qed

lemma b32_digits_small: "\<forall>v \<in> set (b32_digits a b c d e). v < 32"
proof -
  have and_small: "x AND 31 < 32" for x :: byte
    using word_and_le1 [of x 31] by (simp add: word_le_nat_alt word_less_nat_alt)
  have "drop_bit 3 a < 32" for a :: byte
    using unsigned_less [of a, where 'a = nat] by (simp add: word_less_nat_alt drop_bit_eq_div unat_div)
  with and_small show ?thesis by (simp add: b32_digits_def)
qed

lemma length_b32_digits [simp]: "length (b32_digits a b c d e) = 8"
  by (simp add: b32_digits_def)

lemma byte_eq_bits: "(x :: byte) = y \<longleftrightarrow> (\<forall>n \<in> {0, 1, 2, 3, 4, 5, 6, 7}. bit x n = bit y n)"
proof
  assume bits: "\<forall>n \<in> {0, 1, 2, 3, 4, 5, 6, 7}. bit x n = bit y n"
  show "x = y"
  proof (rule bit_word_eqI)
    fix n assume "n < LENGTH(8)"
    then have "n \<in> {0, 1, 2, 3, 4, 5, 6, 7}" by auto
    with bits show "bit x n = bit y n" by blast
  qed
qed simp

lemma bit_31: "bit (31 :: byte) n \<longleftrightarrow> n < 5"
proof -
  have "(31 :: byte) = mask 5" by (simp add: mask_eq_exp_minus_1)
  then show ?thesis by (simp only: bit_mask_iff) auto
qed

lemma b32_pack_digits: "b32_pack (b32_digits a b c d e) = [a, b, c, d, e]"
  by (simp add: b32_pack_def b32_digits_def byte_eq_bits bit_simps bit_31 numeral_2_eq_2 [symmetric] del: push_bit_Suc)

lemma b32_pack_tail:
  "b32_pack (take 2 (b32_digits a 0 0 0 0)) = [a]"
  "b32_pack (take 4 (b32_digits a b 0 0 0)) = [a, b]"
  "b32_pack (take 5 (b32_digits a b c 0 0)) = [a, b, c]"
  "b32_pack (take 7 (b32_digits a b c d 0)) = [a, b, c, d]"
  by (simp_all add: b32_pack_def b32_digits_def byte_eq_bits bit_simps bit_31 numeral_2_eq_2 [symmetric] del: push_bit_Suc)

lemma b32_decode_tail:
  assumes "n \<in> {2, 4, 5, 7}" and "\<forall>v \<in> set ds. v < 32" and "length ds = 8"
  shows "b32_decode (b32_tail n ds) = Some (b32_pack (take n ds))"
proof -
  have "\<forall>v \<in> set (take n ds). v < 32" using assms(2) by (meson in_set_takeD)
  moreover have "length (take n ds) = n" using assms by auto
  ultimately have "b32_quantum [] (b32_tail n ds) = Some (take n ds, replicate (7 - n) (CHR ''=''), True)"
    using b32_quantum_padded [of "take n ds"] assms(1) unfolding b32_tail_def by fastforce
  moreover have "b32_tail n ds \<noteq> []" using assms(1) by (auto simp: b32_tail_def)
  ultimately show ?thesis by (subst b32_decode.simps) simp
qed

lemma b32_decode_encode: "b32_decode (b32_EncodeToString bs) = Some bs"
proof (induction bs rule: b32_EncodeToString.induct)
  case 1
  show ?case by (simp add: b32_decode.simps)
next
  case (6 a b c d e bs)
  have "b32_quantum [] (b32_EncodeToString (a # b # c # d # e # bs)) =
      Some (b32_digits a b c d e, b32_EncodeToString bs, False)"
    using b32_quantum_full [of "b32_digits a b c d e"] b32_digits_small by simp
  moreover have "b32_EncodeToString (a # b # c # d # e # bs) \<noteq> []" by (simp add: b32_digits_def)
  ultimately show ?case using 6 by (subst b32_decode.simps) (simp add: b32_pack_digits)
qed (use b32_decode_tail b32_digits_small b32_pack_tail in \<open>simp_all\<close>)

lemma b32_tail_chars:
  "\<forall>v \<in> set ds. v < 32 \<Longrightarrow> x \<in> set (b32_tail n ds) \<Longrightarrow> x = CHR ''='' \<or> (\<exists>v < 32. x = b32_char v)"
  by (auto simp: b32_tail_def dest: in_set_takeD)

lemma b32_EncodeToString_chars: "\<forall>x \<in> set (b32_EncodeToString bs). x = CHR ''='' \<or> (\<exists>v < 32. x = b32_char v)"
proof (induction bs rule: b32_EncodeToString.induct)
  case (6 a b c d e bs)
  have "\<forall>x \<in> set (map b32_char (b32_digits a b c d e)). \<exists>v < 32. x = b32_char v"
    using b32_digits_small [of a b c d e] by (auto simp del: length_b32_digits)
  with 6 show ?case by (auto simp del: set_map)
qed (use b32_tail_chars [OF b32_digits_small] in auto)

lemma b32_roundtrip: "b32_DecodeString (b32_EncodeToString bs) = Some bs"
proof -
  have "\<forall>x \<in> set (b32_EncodeToString bs). (of_char x :: nat) \<notin> {10, 13}"
    using b32_EncodeToString_chars b32_char_roundtrip(3) by fastforce
  then have "filter (\<lambda>c. (of_char c :: nat) \<notin> {10, 13}) (b32_EncodeToString bs) = b32_EncodeToString bs"
    by (simp add: filter_id_conv)
  then show ?thesis by (simp only: b32_DecodeString_def b32_decode_encode)
qed

lemma length_b32_EncodeToString: "length (b32_EncodeToString bs) = (length bs + 4) div 5 * 8"
proof (induction bs rule: b32_EncodeToString.induct)
  case (6 a b c d e bs)
  then show ?case using div_add_self1 [of 5 "length bs + 4"] by (simp add: algebra_simps)
qed (simp_all add: b32_tail_def)

end
