(* ===== verification/Totp.thy ===== *)
theory Totp
  imports Device_Auth Go_Crypto Gin_Context
begin

text \<open>
  Authenticator codes: the rows of \<^verbatim>\<open>models/totp.go\<close>, the SQL of \<^verbatim>\<open>database/totp_repository.go\<close> with the
  constraints of migration \<^verbatim>\<open>081_create_totp_tables.sql\<close>, the operations of \<^verbatim>\<open>services/totp_service.go\<close>, and
  the two handlers of \<^verbatim>\<open>controllers/enduser/totp_controller.go\<close> that sign tokens for a caller who is not
  logged in. SHA-1, HMAC and base 32 are those of theory \<open>Go_Crypto\<close>. The theorems follow in theory
  \<open>Totp_Security\<close>.

  \<^item> \<open>rnd\<close>, \<open>rnds i\<close> are the outcomes of \<^verbatim>\<open>rand.Read\<close>, \<open>newID\<close> and \<open>ids i\<close> the values of \<^verbatim>\<open>uuid.New()\<close>.
  \<^item> All clock reads of one operation see the same instant \<open>now\<close>.
\<close>

section \<open>Data model\<close>

record TOTPSecret =
  ts_ID :: uuid
  ts_UserID :: uuid
  ts_TenantID :: uuid
  ts_Secret :: string
  ts_DeviceName :: string
  ts_DeviceType :: string
  ts_LastUsed :: "int option"
  ts_IsActive :: bool
  ts_IsPrimary :: bool
  ts_CreatedAt :: int
  ts_UpdatedAt :: int

record BackupCode =
  bc_ID :: uuid
  bc_UserID :: uuid
  bc_TenantID :: uuid
  bc_Code :: string
  bc_IsUsed :: bool
  bc_CreatedAt :: int
  bc_UsedAt :: "int option"

record TOTPRegistrationResponse =
  trr_Success :: bool
  trr_Secret :: string
  trr_QRCodeURL :: string
  trr_DeviceID :: string
  trr_BackupCodes :: "string list"
  trr_Message :: string

record TOTPRegistrationConfirmResponse =
  tcr_Success :: bool
  tcr_Message :: string
  tcr_DeviceID :: string
  tcr_DeviceName :: string

record TOTPLoginRequest =
  tl_Email :: string
  tl_TOTPCode :: string

record TOTPLoginResponse =
  tlr_Success :: bool
  tlr_Token :: string
  tlr_Message :: string

record TOTPDeviceApprovalRequest =
  ta_UserCode :: string
  ta_Email :: string
  ta_TOTPCode :: string

record TOTPDeviceApprovalResponse =
  tar_Success :: bool
  tar_Message :: string
  tar_Token :: string

record totp_db = device_db +
  totp_secrets :: "TOTPSecret list"
  totp_backup_codes :: "BackupCode list"

section \<open>Repository\<close>

text \<open>The partial unique index: one primary device of a user in a tenant.\<close>

definition primaries :: "TOTPSecret list \<Rightarrow> (uuid \<times> uuid) list" where
  "primaries t = map (\<lambda>r. (ts_UserID r, ts_TenantID r)) (filter ts_IsPrimary t)"

definition CreateTOTPSecret ::
  "gotime \<Rightarrow> uuid \<Rightarrow> TOTPSecret \<Rightarrow> 'a totp_db_scheme conn \<Rightarrow> (go_error + TOTPSecret) \<times> 'a totp_db_scheme conn" where
  "CreateTOTPSecret now newID secret c =
     (let d = secret\<lparr> ts_ID := (if ts_ID secret = nil_uuid then newID else ts_ID secret),
                      ts_CreatedAt := Unix now, ts_UpdatedAt := Unix now \<rparr>;
          row = d\<lparr> ts_LastUsed := None \<rparr>
      in case exec_checked (\<lambda>s.
                if (\<exists>r \<in> set (totp_secrets s). ts_ID r = ts_ID d) \<or>
                   \<not> distinct (primaries (totp_secrets s @ [row]))
                then Inl DBError
                else Inr (s\<lparr> totp_secrets := totp_secrets s @ [row] \<rparr>)) c of
           (Inl e, c1) \<Rightarrow> (Inl e, c1)
         | (Inr _, c1) \<Rightarrow> (Inr d, c1))"

definition UpdateTOTPSecret ::
  "gotime \<Rightarrow> TOTPSecret \<Rightarrow> 'a totp_db_scheme conn \<Rightarrow> (go_error + unit) \<times> 'a totp_db_scheme conn" where
  "UpdateTOTPSecret now secret c =
     exec_checked (\<lambda>s.
       let t = update_where
                 (\<lambda>r. ts_ID r = ts_ID secret \<and> ts_UserID r = ts_UserID secret \<and> ts_TenantID r = ts_TenantID secret)
                 (\<lambda>r. r\<lparr> ts_DeviceName := ts_DeviceName secret, ts_IsActive := ts_IsActive secret,
                         ts_IsPrimary := ts_IsPrimary secret, ts_UpdatedAt := Unix now \<rparr>) (totp_secrets s)
       in if distinct (primaries t) then Inr (s\<lparr> totp_secrets := t \<rparr>) else Inl DBError) c"

definition totp_UpdateLastUsed ::
  "gotime \<Rightarrow> uuid \<Rightarrow> 'a totp_db_scheme conn \<Rightarrow> (go_error + unit) \<times> 'a totp_db_scheme conn" where
  "totp_UpdateLastUsed now i c =
     exec (\<lambda>s. (s\<lparr> totp_secrets := update_where (\<lambda>r. ts_ID r = i)
        (\<lambda>r. r\<lparr> ts_LastUsed := Some (Unix now), ts_UpdatedAt := Unix now \<rparr>) (totp_secrets s) \<rparr>, ())) c"

definition GetTOTPSecretByID ::
  "uuid \<Rightarrow> uuid \<Rightarrow> uuid \<Rightarrow> 'a totp_db_scheme conn \<Rightarrow> (go_error + TOTPSecret) \<times> 'a totp_db_scheme conn" where
  "GetTOTPSecretByID i userID tenantID c =
     query_row (\<lambda>s. select_row (\<lambda>r. ts_ID r = i \<and> ts_UserID r = userID \<and> ts_TenantID r = tenantID)
       (totp_secrets s)) c"

text \<open>The active secrets of a user, the primary one first, then the newest.\<close>

definition active_secrets :: "uuid \<Rightarrow> uuid \<Rightarrow> TOTPSecret list \<Rightarrow> TOTPSecret list" where
  "active_secrets userID tenantID t =
     sort_key (\<lambda>r. if ts_IsPrimary r then 0 else 1 :: nat) (sort_key (\<lambda>r. - ts_CreatedAt r)
       (filter (\<lambda>r. ts_UserID r = userID \<and> ts_TenantID r = tenantID \<and> ts_IsActive r) t))"

definition GetUserTOTPSecrets ::
  "uuid \<Rightarrow> uuid \<Rightarrow> 'a totp_db_scheme conn \<Rightarrow> (go_error + TOTPSecret list) \<times> 'a totp_db_scheme conn" where
  "GetUserTOTPSecrets userID tenantID c = query (\<lambda>s. active_secrets userID tenantID (totp_secrets s)) c"

definition GetPrimaryTOTPSecret ::
  "uuid \<Rightarrow> uuid \<Rightarrow> 'a totp_db_scheme conn \<Rightarrow> (go_error + TOTPSecret option) \<times> 'a totp_db_scheme conn" where
  "GetPrimaryTOTPSecret userID tenantID c =
     (case query_row (\<lambda>s. select_row (\<lambda>r. ts_UserID r = userID \<and> ts_TenantID r = tenantID \<and> ts_IsActive r \<and>
             ts_IsPrimary r) (totp_secrets s)) c of
        (Inl NoRows, c1) \<Rightarrow> (Inr None, c1)
      | (Inl e, c1) \<Rightarrow> (Inl e, c1)
      | (Inr r, c1) \<Rightarrow> (Inr (Some r), c1))"

definition DeleteTOTPSecret ::
  "uuid \<Rightarrow> uuid \<Rightarrow> uuid \<Rightarrow> 'a totp_db_scheme conn \<Rightarrow> (go_error + unit) \<times> 'a totp_db_scheme conn" where
  "DeleteTOTPSecret i userID tenantID c =
     (let P = (\<lambda>r. ts_ID r = i \<and> ts_UserID r = userID \<and> ts_TenantID r = tenantID)
      in case exec (\<lambda>s. (s\<lparr> totp_secrets := delete_where P (totp_secrets s) \<rparr>, affected P (totp_secrets s))) c of
           (Inl e, c1) \<Rightarrow> (Inl e, c1)
         | (Inr n, c1) \<Rightarrow> (if n = 0 then (Inl NoRows, c1) else (Inr (), c1)))"

definition SetPrimaryTOTPSecret ::
  "gotime \<Rightarrow> uuid \<Rightarrow> uuid \<Rightarrow> uuid \<Rightarrow> 'a totp_db_scheme conn \<Rightarrow> (go_error + unit) \<times> 'a totp_db_scheme conn" where
  "SetPrimaryTOTPSecret now i userID tenantID c =
     in_tx (\<lambda>c0.
       case exec (\<lambda>s. (s\<lparr> totp_secrets := update_where (\<lambda>r. ts_UserID r = userID \<and> ts_TenantID r = tenantID)
              (\<lambda>r. r\<lparr> ts_IsPrimary := False \<rparr>) (totp_secrets s) \<rparr>, ())) c0 of
         (Inl e, c1) \<Rightarrow> (Inl e, c1)
       | (Inr _, c1) \<Rightarrow>
           exec_checked (\<lambda>s.
             let t = update_where (\<lambda>r. ts_ID r = i \<and> ts_UserID r = userID \<and> ts_TenantID r = tenantID)
                       (\<lambda>r. r\<lparr> ts_IsPrimary := True, ts_UpdatedAt := Unix now \<rparr>) (totp_secrets s)
             in if distinct (primaries t) then Inr (s\<lparr> totp_secrets := t \<rparr>) else Inl DBError) c1) c"

text \<open>The id and the hash of a backup code are unique.\<close>

definition CreateBackupCode ::
  "gotime \<Rightarrow> uuid \<Rightarrow> BackupCode \<Rightarrow> 'a totp_db_scheme conn \<Rightarrow> (go_error + unit) \<times> 'a totp_db_scheme conn" where
  "CreateBackupCode now newID code c =
     (let row = code\<lparr> bc_ID := (if bc_ID code = nil_uuid then newID else bc_ID code), bc_CreatedAt := Unix now,
                      bc_UsedAt := None \<rparr>
      in exec_checked (\<lambda>s.
           if \<exists>r \<in> set (totp_backup_codes s). bc_ID r = bc_ID row \<or> bc_Code r = bc_Code row then Inl DBError
           else Inr (s\<lparr> totp_backup_codes := totp_backup_codes s @ [row] \<rparr>)) c)"

definition GetUserBackupCodes ::
  "uuid \<Rightarrow> uuid \<Rightarrow> 'a totp_db_scheme conn \<Rightarrow> (go_error + BackupCode list) \<times> 'a totp_db_scheme conn" where
  "GetUserBackupCodes userID tenantID c =
     query (\<lambda>s. sort_key (\<lambda>r. - bc_CreatedAt r)
       (filter (\<lambda>r. bc_UserID r = userID \<and> bc_TenantID r = tenantID) (totp_backup_codes s))) c"

definition UseBackupCode ::
  "gotime \<Rightarrow> uuid \<Rightarrow> 'a totp_db_scheme conn \<Rightarrow> (go_error + unit) \<times> 'a totp_db_scheme conn" where
  "UseBackupCode now i c =
     exec (\<lambda>s. (s\<lparr> totp_backup_codes := update_where (\<lambda>r. bc_ID r = i)
        (\<lambda>r. r\<lparr> bc_IsUsed := True, bc_UsedAt := Some (Unix now) \<rparr>) (totp_backup_codes s) \<rparr>, ())) c"

definition DeleteBackupCodes ::
  "uuid \<Rightarrow> uuid \<Rightarrow> 'a totp_db_scheme conn \<Rightarrow> (go_error + unit) \<times> 'a totp_db_scheme conn" where
  "DeleteBackupCodes userID tenantID c =
     exec (\<lambda>s. (s\<lparr> totp_backup_codes := delete_where (\<lambda>r. bc_UserID r = userID \<and> bc_TenantID r = tenantID)
        (totp_backup_codes s) \<rparr>, ())) c"

section \<open>Codes\<close>

definition GenerateSecret :: "random \<Rightarrow> go_error + string" where
  "GenerateSecret rnd =
     (case rnd of
        None \<Rightarrow> Inl (Wrap ''failed to generate secret: '' (Errorf ''rand''))
      | Some b \<Rightarrow> Inr (b32_EncodeToString (map b [0..<20])))"

definition GenerateQRCodeURL :: "string \<Rightarrow> string \<Rightarrow> string \<Rightarrow> string" where
  "GenerateQRCodeURL secret email issuer =
     ''otpauth://totp/'' @ issuer @ '':'' @ email @ ''?secret='' @ secret @ ''&issuer='' @ issuer"

text \<open>One code per iteration of the loop; the first failing read ends it.\<close>

fun backup_codes :: "(nat \<Rightarrow> random) \<Rightarrow> nat list \<Rightarrow> go_error + string list" where
  "backup_codes rnds [] = Inr []"
| "backup_codes rnds (i # is) =
     (case rnds i of
        None \<Rightarrow> Inl (Wrap ''failed to generate backup code: '' (Errorf ''rand''))
      | Some b \<Rightarrow>
          (case backup_codes rnds is of
             Inl e \<Rightarrow> Inl e
           | Inr codes \<Rightarrow> Inr ((fmt_08x (Uint32 (map b [0..<4])) @ fmt_08x (Uint32 (map b [4..<8]))) # codes)))"

definition GenerateBackupCodes :: "(nat \<Rightarrow> random) \<Rightarrow> go_error + string list" where
  "GenerateBackupCodes rnds = backup_codes rnds [0..<10]"

definition HashBackupCode :: "string \<Rightarrow> string" where
  "HashBackupCode code = Hex (sha1_Sum (bytes_of code))"

definition generateTOTP :: "string \<Rightarrow> int \<Rightarrow> string" where
  "generateTOTP secret t =
     (case b32_DecodeString secret of
        None \<Rightarrow> []
      | Some key \<Rightarrow>
          (let hash = hmac_sha1 key (PutUint64 (word_of_int t));
               offset = unat (last hash AND 0x0F);
               code = Uint32 (drop offset hash) AND 0x7FFFFFFF
           in fmt_06d (unat (code mod 1000000))))"

text \<open>Go divides towards zero.\<close>

definition totp_counter :: "gotime \<Rightarrow> int \<Rightarrow> int" where
  "totp_counter now offset =
     (let u = Unix (now + offset * 30 * Second) in if u < 0 then - (- u div 30) else u div 30)"

definition ValidateTOTPCode :: "gotime \<Rightarrow> string \<Rightarrow> string \<Rightarrow> bool" where
  "ValidateTOTPCode now secret code =
     list_ex (\<lambda>offset. code = generateTOTP secret (totp_counter now offset)) [0, -1, 1]"

section \<open>Service\<close>

fun store_backup_codes ::
  "gotime \<Rightarrow> (nat \<Rightarrow> uuid) \<Rightarrow> nat \<Rightarrow> uuid \<Rightarrow> uuid \<Rightarrow> string list \<Rightarrow> 'a totp_db_scheme conn
     \<Rightarrow> (go_error + unit) \<times> 'a totp_db_scheme conn" where
  "store_backup_codes now ids i userID tenantID [] c = (Inr (), c)"
| "store_backup_codes now ids i userID tenantID (code # codes) c =
     (case CreateBackupCode now (ids i)
             \<lparr> bc_ID = nil_uuid, bc_UserID = userID, bc_TenantID = tenantID, bc_Code = HashBackupCode code,
               bc_IsUsed = False, bc_CreatedAt = 0, bc_UsedAt = None \<rparr> c of
        (Inl e, c1) \<Rightarrow> (Inl e, c1)
      | (Inr _, c1) \<Rightarrow> store_backup_codes now ids (Suc i) userID tenantID codes c1)"

definition totp_RegisterDevice ::
  "gotime \<Rightarrow> random \<Rightarrow> (nat \<Rightarrow> random) \<Rightarrow> uuid \<Rightarrow> (nat \<Rightarrow> uuid) \<Rightarrow> uuid \<Rightarrow> uuid \<Rightarrow> string \<Rightarrow> string \<Rightarrow> string
     \<Rightarrow> 'a totp_db_scheme conn \<Rightarrow> (go_error + TOTPRegistrationResponse) \<times> 'a totp_db_scheme conn" where
  "totp_RegisterDevice now rnd rnds newID ids userID tenantID email deviceName deviceType c =
     (case GenerateSecret rnd of
        Inl e \<Rightarrow> (Inl (Wrap ''failed to generate secret: '' e), c)
      | Inr secret \<Rightarrow>
     (case GenerateBackupCodes rnds of
        Inl e \<Rightarrow> (Inl (Wrap ''failed to generate backup codes: '' e), c)
      | Inr codes \<Rightarrow>
     (case CreateTOTPSecret now newID
             \<lparr> ts_ID = newID, ts_UserID = userID, ts_TenantID = tenantID, ts_Secret = secret,
               ts_DeviceName = deviceName, ts_DeviceType = deviceType, ts_LastUsed = None,
               ts_IsActive = False, ts_IsPrimary = False, ts_CreatedAt = 0, ts_UpdatedAt = 0 \<rparr> c of
        (Inl e, c1) \<Rightarrow> (Inl (Wrap ''failed to save device: '' e), c1)
      | (Inr device, c1) \<Rightarrow>
     (case wrap_err ''failed to save backup code: '' (store_backup_codes now ids 0 userID tenantID codes c1) of
        (Inl e, c2) \<Rightarrow> (Inl e, c2)
      | (Inr _, c2) \<Rightarrow>
          (Inr \<lparr> trr_Success = True, trr_Secret = secret,
                 trr_QRCodeURL = GenerateQRCodeURL secret email ''AuthSec'', trr_DeviceID = ts_ID device,
                 trr_BackupCodes = codes,
                 trr_Message = ''Scan QR code with your authenticator app, then enter the 6-digit code to confirm'' \<rparr>,
           c2)))))"

definition ConfirmRegistration ::
  "gotime \<Rightarrow> uuid \<Rightarrow> uuid \<Rightarrow> uuid \<Rightarrow> string \<Rightarrow> 'a totp_db_scheme conn
     \<Rightarrow> (go_error + TOTPRegistrationConfirmResponse) \<times> 'a totp_db_scheme conn" where
  "ConfirmRegistration now deviceID userID tenantID totpCode c =
     (case GetTOTPSecretByID deviceID userID tenantID c of
        (Inl _, c1) \<Rightarrow> (Inl (Errorf ''device not found''), c1)
      | (Inr device, c1) \<Rightarrow>
          if \<not> ValidateTOTPCode now (ts_Secret device) totpCode then (Inl (Errorf ''invalid TOTP code''), c1)
          else
            (let (r, c2) = GetUserTOTPSecrets userID tenantID c1;
                 first = (case r of Inr ds \<Rightarrow> ds = [] | Inl _ \<Rightarrow> False);
                 d = device\<lparr> ts_IsActive := True, ts_IsPrimary := ts_IsPrimary device \<or> first \<rparr>
             in case wrap_err ''failed to activate device: '' (UpdateTOTPSecret now d c2) of
                  (Inl e, c3) \<Rightarrow> (Inl e, c3)
                | (Inr _, c3) \<Rightarrow>
                    (Inr \<lparr> tcr_Success = True, tcr_Message = ''Device registered successfully'',
                           tcr_DeviceID = ts_ID d, tcr_DeviceName = ts_DeviceName d \<rparr>, c3)))"

text \<open>The loop over the devices; the result of \<^verbatim>\<open>UpdateLastUsed\<close> is dropped.\<close>

definition try_devices ::
  "gotime \<Rightarrow> string \<Rightarrow> TOTPSecret list \<Rightarrow> 'a totp_db_scheme conn \<Rightarrow> (go_error + bool) \<times> 'a totp_db_scheme conn" where
  "try_devices now totpCode devices c =
     (case List.find (\<lambda>d. ValidateTOTPCode now (ts_Secret d) totpCode) devices of
        None \<Rightarrow> (Inr False, c)
      | Some d \<Rightarrow> (Inr True, snd (totp_UpdateLastUsed now (ts_ID d) c)))"

definition VerifyTOTP ::
  "gotime \<Rightarrow> uuid \<Rightarrow> uuid \<Rightarrow> string \<Rightarrow> 'a totp_db_scheme conn \<Rightarrow> (go_error + bool) \<times> 'a totp_db_scheme conn" where
  "VerifyTOTP now userID tenantID totpCode c =
     (case GetUserTOTPSecrets userID tenantID c of
        (Inl e, c1) \<Rightarrow> (Inl e, c1)
      | (Inr devices, c1) \<Rightarrow> try_devices now totpCode devices c1)"

definition VerifyBackupCode ::
  "gotime \<Rightarrow> uuid \<Rightarrow> uuid \<Rightarrow> string \<Rightarrow> 'a totp_db_scheme conn \<Rightarrow> (go_error + bool) \<times> 'a totp_db_scheme conn" where
  "VerifyBackupCode now userID tenantID code c =
     (case GetUserBackupCodes userID tenantID c of
        (Inl e, c1) \<Rightarrow> (Inl e, c1)
      | (Inr codes, c1) \<Rightarrow>
          (case List.find (\<lambda>r. \<not> bc_IsUsed r \<and> bc_Code r = HashBackupCode code) codes of
             None \<Rightarrow> (Inr False, c1)
           | Some r \<Rightarrow> (Inr True, snd (UseBackupCode now (bc_ID r) c1))))"

definition totp_GetUserDevices ::
  "uuid \<Rightarrow> uuid \<Rightarrow> 'a totp_db_scheme conn \<Rightarrow> (go_error + TOTPSecret list) \<times> 'a totp_db_scheme conn" where
  "totp_GetUserDevices = GetUserTOTPSecrets"

definition totp_DeleteDevice ::
  "uuid \<Rightarrow> uuid \<Rightarrow> uuid \<Rightarrow> 'a totp_db_scheme conn \<Rightarrow> (go_error + unit) \<times> 'a totp_db_scheme conn" where
  "totp_DeleteDevice deviceID userID tenantID c =
     (let (r, c1) = GetUserTOTPSecrets userID tenantID c
      in if (case r of Inr ds \<Rightarrow> length ds = 1 | Inl _ \<Rightarrow> False)
         then (Inl (Errorf ''cannot delete the last device. Disable 2FA instead''), c1)
         else DeleteTOTPSecret deviceID userID tenantID c1)"

definition SetPrimaryDevice ::
  "gotime \<Rightarrow> uuid \<Rightarrow> uuid \<Rightarrow> uuid \<Rightarrow> 'a totp_db_scheme conn \<Rightarrow> (go_error + unit) \<times> 'a totp_db_scheme conn" where
  "SetPrimaryDevice = SetPrimaryTOTPSecret"

definition RegenerateBackupCodes ::
  "gotime \<Rightarrow> (nat \<Rightarrow> random) \<Rightarrow> (nat \<Rightarrow> uuid) \<Rightarrow> uuid \<Rightarrow> uuid \<Rightarrow> 'a totp_db_scheme conn
     \<Rightarrow> (go_error + string list) \<times> 'a totp_db_scheme conn" where
  "RegenerateBackupCodes now rnds ids userID tenantID c =
     (case DeleteBackupCodes userID tenantID c of
        (Inl e, c1) \<Rightarrow> (Inl e, c1)
      | (Inr _, c1) \<Rightarrow>
          (case GenerateBackupCodes rnds of
             Inl e \<Rightarrow> (Inl e, c1)
           | Inr codes \<Rightarrow>
               (case store_backup_codes now ids 0 userID tenantID codes c1 of
                  (Inl e, c2) \<Rightarrow> (Inl e, c2)
                | (Inr _, c2) \<Rightarrow> (Inr codes, c2))))"

definition LoginWithTOTPWithUser ::
  "gotime \<Rightarrow> ExtendedUser \<Rightarrow> string \<Rightarrow> 'a totp_db_scheme conn \<Rightarrow> (go_error + bool) \<times> 'a totp_db_scheme conn" where
  "LoginWithTOTPWithUser now user totpCode c =
     (case GetUserTOTPSecrets (us_ID user) (us_TenantID user) c of
        (Inl e, c1) \<Rightarrow> (Inl e, c1)
      | (Inr devices, c1) \<Rightarrow>
          if devices = [] then (Inl (Errorf ''no TOTP devices registered''), c1)
          else try_devices now totpCode devices c1)"

definition HasTOTPEnabled ::
  "uuid \<Rightarrow> uuid \<Rightarrow> 'a totp_db_scheme conn \<Rightarrow> (go_error + bool) \<times> 'a totp_db_scheme conn" where
  "HasTOTPEnabled userID tenantID c =
     (case GetUserTOTPSecrets userID tenantID c of
        (Inl e, c1) \<Rightarrow> (Inl e, c1)
      | (Inr devices, c1) \<Rightarrow> (Inr (devices \<noteq> []), c1))"

section \<open>Handlers\<close>

datatype totp_body =
    TError string "go_error option"
  | TLogin TOTPLoginResponse
  | TApproval TOTPDeviceApprovalResponse

abbreviation fail :: "nat \<Rightarrow> string \<Rightarrow> go_error option \<Rightarrow> totp_body http_reply" where
  "fail code msg details \<equiv> \<lparr> http_status = code, http_body = TError msg details, http_audit = [] \<rparr>"

definition totp_generateJWTToken ::
  "AuthManagerTokenService \<Rightarrow> signer \<Rightarrow> gotime \<Rightarrow> ExtendedUser \<Rightarrow> Tenant \<Rightarrow> go_error + string" where
  "totp_generateJWTToken tokens sign now user tenant =
     GenerateTOTPToken tokens sign now (us_ID user) (tn_ID tenant) (us_Email user) (24 * Hour)"

definition http_LoginWithTOTP ::
  "AuthManagerTokenService \<Rightarrow> signer \<Rightarrow> gotime \<Rightarrow> gin_context \<Rightarrow> go_error + TOTPLoginRequest
     \<Rightarrow> 'a totp_db_scheme conn \<Rightarrow> totp_body http_reply \<times> 'a totp_db_scheme conn" where
  "http_LoginWithTOTP tokens sign now ctx body c =
     (case body of
        Inl e \<Rightarrow> (fail 400 ''Invalid request body'' (Some e), c)
      | Inr req \<Rightarrow>
     (case GetUserByEmail (tl_Email req) c of
        (Inl _, c1) \<Rightarrow> (fail 404 ''User not found'' None, c1)
      | (Inr user, c1) \<Rightarrow>
     (case LoginWithTOTPWithUser now user (tl_TOTPCode req) c1 of
        (Inl e, c2) \<Rightarrow> (fail 400 [] (Some e), c2)
      | (Inr False, c2) \<Rightarrow> (fail 400 ''Invalid TOTP code'' None, c2)
      | (Inr True, c2) \<Rightarrow>
     (case GetTenantByID (us_TenantID user) c2 of
        (Inl _, c3) \<Rightarrow> (fail 500 ''Tenant not found'' None, c3)
      | (Inr tenant, c3) \<Rightarrow>
     (case totp_generateJWTToken tokens sign now user tenant of
        Inl e \<Rightarrow> (fail 500 ''Failed to generate token'' (Some e), c3)
      | Inr token \<Rightarrow>
          (\<lparr> http_status = 200,
             http_body = TLogin \<lparr> tlr_Success = True, tlr_Token = token, tlr_Message = ''Login successful'' \<rparr>,
             http_audit = [Audit ctx ''totp'' (us_ID user) ''login''] \<rparr>, c3))))))"

definition http_ApproveDeviceCodeWithTOTP ::
  "AuthManagerTokenService \<Rightarrow> signer \<Rightarrow> gotime \<Rightarrow> gin_context \<Rightarrow> go_error + TOTPDeviceApprovalRequest
     \<Rightarrow> 'a totp_db_scheme conn \<Rightarrow> totp_body http_reply \<times> 'a totp_db_scheme conn" where
  "http_ApproveDeviceCodeWithTOTP tokens sign now ctx body c =
     (case body of
        Inl e \<Rightarrow> (fail 400 ''Invalid request body'' (Some e), c)
      | Inr req \<Rightarrow>
     (case GetUserByEmail (ta_Email req) c of
        (Inl _, c1) \<Rightarrow> (fail 404 ''User not found'' None, c1)
      | (Inr user, c1) \<Rightarrow>
     (case LoginWithTOTPWithUser now user (ta_TOTPCode req) c1 of
        (Inl e, c2) \<Rightarrow> (fail 400 [] (Some e), c2)
      | (Inr False, c2) \<Rightarrow> (fail 400 ''Invalid TOTP code'' None, c2)
      | (Inr True, c2) \<Rightarrow>
     (case FindByUserCode (ta_UserCode req) c2 of
        (Inl _, c3) \<Rightarrow> (fail 404 ''Device code not found'' None, c3)
      | (Inr dc, c3) \<Rightarrow>
          if dc_IsExpired now dc then (fail 400 ''Device code expired'' None, c3)
          else if dc_Status dc \<noteq> ''pending'' then (fail 400 ''Device code already processed'' None, c3)
          else
     (case GetTenantByID (us_TenantID user) c3 of
        (Inl _, c4) \<Rightarrow> (fail 500 ''Tenant not found'' None, c4)
      | (Inr tenant, c4) \<Rightarrow>
          (let clientID = (case dc_ClientID dc of Some k \<Rightarrow> Some k | None \<Rightarrow> Some (us_ClientID user))
           in case totp_generateJWTToken tokens sign now user tenant of
                Inl e \<Rightarrow> (fail 500 ''Failed to generate token'' (Some e), c4)
              | Inr token \<Rightarrow>
                  (case AuthorizeDeviceCode now (ta_UserCode req) (us_ID user) (us_Email user) (us_TenantID user)
                          (tn_TenantDomain tenant) clientID token True c4 of
                     (Inl e, c5) \<Rightarrow> (fail 500 ''Failed to approve device'' (Some e), c5)
                   | (Inr _, c5) \<Rightarrow>
                       (\<lparr> http_status = 200,
                          http_body = TApproval \<lparr> tar_Success = True, tar_Message = ''Device approved successfully'',
                                                  tar_Token = token \<rparr>,
                          http_audit = [Audit ctx ''totp'' (us_ID user) ''approve_device''] \<rparr>, c5))))))))"

section \<open>The service as a state machine\<close>

datatype totp_op =
    TRegister gotime random "nat \<Rightarrow> random" uuid "nat \<Rightarrow> uuid" uuid uuid string string string
  | TConfirm gotime uuid uuid uuid string
  | TVerify gotime uuid uuid string
  | TBackup gotime uuid uuid string
  | TDevices uuid uuid
  | TDelete uuid uuid uuid
  | TSetPrimary gotime uuid uuid uuid
  | TRegenerate gotime "nat \<Rightarrow> random" "nat \<Rightarrow> uuid" uuid uuid
  | TLoginUser gotime ExtendedUser string
  | TEnabled uuid uuid

datatype totp_reply =
    URegister "go_error + TOTPRegistrationResponse"
  | UConfirm "go_error + TOTPRegistrationConfirmResponse"
  | UVerified "go_error + bool"
  | UDevices "go_error + TOTPSecret list"
  | UDone "go_error + unit"
  | UCodes "go_error + string list"

fun totp_handle :: "totp_op \<Rightarrow> totp_db conn \<Rightarrow> totp_db conn \<times> totp_reply" where
  "totp_handle (TRegister now rnd rnds i ids u t m n k) c =
     reply URegister (totp_RegisterDevice now rnd rnds i ids u t m n k c)"
| "totp_handle (TConfirm now d u t code) c = reply UConfirm (ConfirmRegistration now d u t code c)"
| "totp_handle (TVerify now u t code) c = reply UVerified (VerifyTOTP now u t code c)"
| "totp_handle (TBackup now u t code) c = reply UVerified (VerifyBackupCode now u t code c)"
| "totp_handle (TDevices u t) c = reply UDevices (totp_GetUserDevices u t c)"
| "totp_handle (TDelete d u t) c = reply UDone (totp_DeleteDevice d u t c)"
| "totp_handle (TSetPrimary now d u t) c = reply UDone (SetPrimaryDevice now d u t c)"
| "totp_handle (TRegenerate now rnds ids u t) c = reply UCodes (RegenerateBackupCodes now rnds ids u t c)"
| "totp_handle (TLoginUser now user code) c = reply UVerified (LoginWithTOTPWithUser now user code c)"
| "totp_handle (TEnabled u t) c = reply UVerified (HasTOTPEnabled u t c)"

end
