(* ===== verification/Totp_Security.thy ===== *)
theory Totp_Security
  imports Totp
begin

text \<open>
  What the authenticator service promises: the codes are those of the RFCs and valid for ninety seconds, a login is
  backed by a registered and confirmed device, a backup code is redeemed at most once, a registered device
  can be confirmed and used, and a device code approved with an authenticator code yields the same token to
  the approver and to the device. The last section shows where the code falls short.
\<close>

section \<open>Codes\<close>

lemma unat_mod_million: "unat ((w :: 32 word) mod 1000000) = unat w mod 1000000"
  by (simp add: unat_mod)

lemma generateTOTP_six:
  assumes "b32_DecodeString secret = Some key"
  shows "length (generateTOTP secret t) = 6 \<and> list_all is_digit (generateTOTP secret t)"
  using assms by (simp add: generateTOTP_def Let_def unat_mod_million fmt_06d_six)

text \<open>HOTP of RFC 4226 on the bytes of the HMAC, in plain arithmetic.\<close>

definition rfc4226_truncate :: "byte list \<Rightarrow> nat" where
  "rfc4226_truncate h =
     (let o' = unat (h ! 19) mod 16
      in ((unat (h ! o') mod 128) * 2 ^ 24 + unat (h ! (o' + 1)) * 2 ^ 16 + unat (h ! (o' + 2)) * 2 ^ 8 +
          unat (h ! (o' + 3))) mod 10 ^ 6)"

lemma low_nibble: "unat ((b :: byte) AND 15) = unat b mod 16"
proof -
  have "b AND 15 = take_bit 4 b" by (simp add: take_bit_eq_mask mask_eq_exp_minus_1)
  then show ?thesis by (simp add: take_bit_eq_mod unat_mod)
qed

lemma top_bit_cleared: "unat ((w :: 32 word) AND 0x7FFFFFFF) = unat w mod 2 ^ 31"
proof -
  have "w AND 0x7FFFFFFF = take_bit 31 w" by (simp add: take_bit_eq_mask mask_eq_exp_minus_1)
  then show ?thesis by (simp add: take_bit_eq_mod unat_mod)
qed

lemma byte_bound: "unat (b :: byte) < 256"
  using unsigned_less [of b, where 'a = nat] by simp

lemma Uint32_drop:
  assumes "o' + 3 < length h"
  shows "Uint32 (drop o' h) = Uint32 [h ! o', h ! (o' + 1), h ! (o' + 2), h ! (o' + 3)]"
proof -
  have "take 4 (drop o' h) = [h ! o', h ! (o' + 1), h ! (o' + 2), h ! (o' + 3)]"
    using assms by (intro nth_equalityI) (auto simp: less_Suc_eq numeral_eq_Suc)
  then show ?thesis by (simp add: Uint32_def)
qed

lemma unat_Uint32:
  "unat (Uint32 [a, b, c, d]) = unat a * 2 ^ 24 + unat b * 2 ^ 16 + unat c * 2 ^ 8 + unat d"
proof -
  have "int (unat (Uint32 [a, b, c, d])) = int (unat a * 2 ^ 24 + unat b * 2 ^ 16 + unat c * 2 ^ 8 + unat d)"
    by (simp add: word_rcat_four algebra_simps)
  then show ?thesis by linarith
qed

lemma truncation_arith:
  fixes a b c d :: nat
  assumes "b < 256" and "c < 256" and "d < 256"
  shows "(a * 2 ^ 24 + b * 2 ^ 16 + c * 2 ^ 8 + d) mod 2 ^ 31 = (a mod 128) * 2 ^ 24 + b * 2 ^ 16 + c * 2 ^ 8 + d"
proof -
  have "b * 2 ^ 16 + c * 2 ^ 8 + d < 2 ^ 24" using assms by simp
  moreover have "(x * 2 ^ 24 + y) mod (2 ^ 24 * 128) = (x mod 128) * 2 ^ 24 + y" if "y < 2 ^ 24" for x y :: nat
    using that mod_mult2_eq [of "x * 2 ^ 24 + y" "2 ^ 24" 128] by simp
  ultimately have "(a * 2 ^ 24 + (b * 2 ^ 16 + c * 2 ^ 8 + d)) mod (2 ^ 24 * 128) =
      (a mod 128) * 2 ^ 24 + (b * 2 ^ 16 + c * 2 ^ 8 + d)" by blast
  then show ?thesis by (simp add: add.assoc)
qed

text \<open>
  C30. The code is the HOTP of RFC 4226 on the counter: the six digits, with leading zeros, of the truncation of the
  HMAC-SHA-1 of the decoded secret over the counter as eight big-endian bytes.
\<close>

theorem generateTOTP_rfc4226:
  assumes "b32_DecodeString secret = Some key"
  shows "generateTOTP secret t = fmt_06d (rfc4226_truncate (hmac_sha1 key (PutUint64 (word_of_int t)))) \<and>
         length (generateTOTP secret t) = 6 \<and> list_all is_digit (generateTOTP secret t)"
proof -
  let ?h = "hmac_sha1 key (PutUint64 (word_of_int t))"
  define h where "h = ?h"
  have len: "length h = 20" by (simp add: h_def)
  then have "last h = h ! 19" by (cases h rule: rev_cases) (auto simp: nth_append)
  then have off: "unat (last h AND 0x0F) = unat (h ! 19) mod 16" by (simp add: low_nibble)
  let ?o = "unat (h ! 19) mod 16"
  have "?o < 16" by simp
  then have "?o + 3 < length h" using len by linarith
  from Uint32_drop [OF this]
  have word: "unat (Uint32 (drop ?o h) AND 0x7FFFFFFF) =
      (unat (h ! ?o) mod 128) * 2 ^ 24 + unat (h ! (?o + 1)) * 2 ^ 16 + unat (h ! (?o + 2)) * 2 ^ 8 +
      unat (h ! (?o + 3))"
    using truncation_arith byte_bound by (simp only: top_bit_cleared unat_Uint32)
  have "generateTOTP secret t = fmt_06d (unat (Uint32 (drop ?o h) AND 0x7FFFFFFF) mod 1000000)"
    using assms off by (simp add: generateTOTP_def Let_def h_def unat_mod_million)
  then have "generateTOTP secret t = fmt_06d (rfc4226_truncate h)"
    unfolding word rfc4226_truncate_def by (simp add: Let_def)
  with generateTOTP_six [OF assms] show ?thesis unfolding h_def by blast
qed

section \<open>The window of a code\<close>

lemma totp_counter_shift:
  assumes "30 * Second \<le> now" and "k \<in> {-1, 0, 1}"
  shows "totp_counter now k = Unix now div 30 + k"
proof -
  have "Unix (now + k * 30 * Second) = Unix now + k * 30"
    using Unix_add_seconds [of now "k * 30"] by simp
  moreover have "30 \<le> Unix now"
    using assms(1) Unix_mono [of "30 * Second" now] Unix_add_seconds [of 0 30] by (simp add: Unix_def)
  ultimately show ?thesis using assms(2) by (auto simp: totp_counter_def Let_def)
qed

lemma ValidateTOTPCode_iff:
  assumes "30 * Second \<le> now"
  shows "ValidateTOTPCode now secret code \<longleftrightarrow>
           (\<exists>k \<in> {-1, 0, 1}. code = generateTOTP secret (Unix now div 30 + k))"
  using totp_counter_shift [OF assms] by (auto simp: ValidateTOTPCode_def)

lemma step_window: "(\<exists>k \<in> {-1, 0, 1}. j = u div 30 + k) \<longleftrightarrow> 30 * (j - 1) \<le> u \<and> u < 30 * (j + 2)" for u :: int
proof
  assume "\<exists>k \<in> {-1, 0, 1}. j = u div 30 + k"
  moreover have "30 * (u div 30) \<le> u" and "u < 30 * (u div 30) + 30" by auto
  ultimately show "30 * (j - 1) \<le> u \<and> u < 30 * (j + 2)" by auto
next
  assume "30 * (j - 1) \<le> u \<and> u < 30 * (j + 2)"
  then have "j - u div 30 \<in> {-1, 0, 1}" by auto
  then show "\<exists>k \<in> {-1, 0, 1}. j = u div 30 + k" by (intro bexI [of _ "j - u div 30"]) auto
qed

text \<open>
  C31. When a code is accepted: at any time after the first half minute of the epoch, a code is valid for a secret
  exactly when it is the code of a thirty second step \<open>j\<close> that is the current one, the one before or the one
  after, that is, when the clock is within the ninety seconds from \<open>30 (j - 1)\<close> to \<open>30 (j + 2)\<close>.
\<close>

theorem ValidateTOTPCode_window:
  assumes "30 * Second \<le> now"
  shows "ValidateTOTPCode now secret code \<longleftrightarrow>
           (\<exists>j. code = generateTOTP secret j \<and> 30 * (j - 1) \<le> Unix now \<and> Unix now < 30 * (j + 2))"
  unfolding ValidateTOTPCode_iff [OF assms] step_window [symmetric] by blast

section \<open>What a stored device has behind it\<close>

definition registered :: "totp_op set \<Rightarrow> TOTPSecret \<Rightarrow> bool" where
  "registered H r \<longleftrightarrow>
     (\<exists>now b rnds ids m n k. TRegister now (Some b) rnds (ts_ID r) ids (ts_UserID r) (ts_TenantID r) m n k \<in> H \<and>
        ts_Secret r = b32_EncodeToString (map b [0..<20]))"

definition confirmed :: "totp_op set \<Rightarrow> TOTPSecret \<Rightarrow> bool" where
  "confirmed H r \<longleftrightarrow>
     (\<exists>now code. TConfirm now (ts_ID r) (ts_UserID r) (ts_TenantID r) code \<in> H \<and>
        ValidateTOTPCode now (ts_Secret r) code)"

definition secrets_ok :: "totp_op set \<Rightarrow> TOTPSecret list \<Rightarrow> bool" where
  "secrets_ok H t \<longleftrightarrow> distinct (map ts_ID t) \<and> distinct (primaries t) \<and>
     (\<forall>r \<in> set t. registered H r \<and> (ts_IsActive r \<longrightarrow> confirmed H r))"

abbreviation totp_ok :: "totp_op set \<Rightarrow> 'a totp_db_scheme \<Rightarrow> bool" where
  "totp_ok H s \<equiv> secrets_ok H (totp_secrets s)"

text \<open>Changes of the other columns keep what is behind a device.\<close>

definition same_device :: "TOTPSecret \<Rightarrow> TOTPSecret \<Rightarrow> bool" where
  "same_device r r' \<longleftrightarrow> ts_ID r' = ts_ID r \<and> ts_UserID r' = ts_UserID r \<and> ts_TenantID r' = ts_TenantID r \<and>
     ts_Secret r' = ts_Secret r"

lemma same_device_behind:
  "same_device r r' \<Longrightarrow> registered H r' = registered H r \<and> confirmed H r' = confirmed H r"
  by (simp add: same_device_def registered_def confirmed_def)

lemma secrets_ok_update:
  assumes "secrets_ok H t" and "distinct (primaries (update_where P f t))"
    and "\<And>r. r \<in> set t \<Longrightarrow> P r \<Longrightarrow> same_device r (f r) \<and> (ts_IsActive (f r) \<longrightarrow> ts_IsActive r \<or> confirmed H r)"
  shows "secrets_ok H (update_where P f t)"
proof -
  have "map ts_ID (update_where P f t) = map ts_ID t"
    using assms(3) by (auto simp: update_where_def same_device_def)
  moreover have "registered H r \<and> (ts_IsActive r \<longrightarrow> confirmed H r)" if "r \<in> set (update_where P f t)" for r
    using that assms(1,3) same_device_behind unfolding update_where_def secrets_ok_def by fastforce
  ultimately show ?thesis using assms(1,2) by (simp add: secrets_ok_def)
qed

lemma secrets_ok_primaries: "secrets_ok H t \<Longrightarrow> distinct (primaries t)"
  by (simp add: secrets_ok_def)

lemma primaries_filter: "distinct (primaries t) \<Longrightarrow> distinct (primaries (filter P t))"
proof -
  have "filter ts_IsPrimary (filter P t) = filter P (filter ts_IsPrimary t)" by (simp add: conj_commute)
  then show "distinct (primaries t) \<Longrightarrow> distinct (primaries (filter P t))"
    unfolding primaries_def by (simp only: distinct_map_filter)
qed

lemma secrets_ok_delete: "secrets_ok H t \<Longrightarrow> secrets_ok H (delete_where P t)"
  by (simp add: secrets_ok_def delete_where_def primaries_filter distinct_map_filter)

lemma primaries_update_where:
  assumes "\<And>r. (ts_UserID (f r), ts_TenantID (f r), ts_IsPrimary (f r)) = (ts_UserID r, ts_TenantID r, ts_IsPrimary r)"
  shows "primaries (update_where P f t) = primaries t"
  using assms by (induction t) (auto simp: primaries_def update_where_def)

lemma primaries_cleared:
  "distinct (primaries t) \<Longrightarrow> distinct (primaries (update_where P (\<lambda>r. r\<lparr> ts_IsPrimary := False \<rparr>) t))"
proof -
  have "primaries (update_where P (\<lambda>r. r\<lparr> ts_IsPrimary := False \<rparr>) t) = primaries (filter (\<lambda>r. \<not> P r) t)"
    by (induction t) (auto simp: primaries_def update_where_def)
  then show "distinct (primaries t) \<Longrightarrow> distinct (primaries (update_where P (\<lambda>r. r\<lparr> ts_IsPrimary := False \<rparr>) t))"
    by (simp only: primaries_filter)
qed

text \<open>Reads and writes of backup codes leave the devices alone.\<close>

lemma store_backup_codes_secrets [simp]:
  "totp_secrets (tables (store_backup_codes now ids i u t codes c)) = totp_secrets (fst c)"
proof (induction codes arbitrary: i c)
  case (Cons code codes)
  let ?row = "\<lparr> bc_ID = nil_uuid, bc_UserID = u, bc_TenantID = t, bc_Code = HashBackupCode code,
               bc_IsUsed = False, bc_CreatedAt = 0, bc_UsedAt = None \<rparr>"
  obtain r c1 where one: "CreateBackupCode now (ids i) ?row c = (r, c1)" by (metis surj_pair)
  have "totp_secrets (tables (CreateBackupCode now (ids i) ?row c)) = totp_secrets (fst c)"
    unfolding CreateBackupCode_def Let_def by (rule exec_checked_keeps) (auto split: if_splits)
  with one Cons.IH show ?case by (cases r) simp_all
qed simp

lemma totp_UpdateLastUsed_ok: "totp_ok H (fst c) \<Longrightarrow> totp_ok H (tables (totp_UpdateLastUsed now i c))"
  unfolding totp_UpdateLastUsed_def
proof (erule exec_keeps, goal_cases)
  case (1 s)
  then show ?case
    using secrets_ok_update [of H "totp_secrets s"] secrets_ok_primaries [OF 1]
    by (simp add: primaries_update_where same_device_def)
qed

lemma try_devices_ok: "totp_ok H (fst c) \<Longrightarrow> totp_ok H (tables (try_devices now code ds c))"
  by (auto simp: try_devices_def totp_UpdateLastUsed_ok split: option.splits)

lemma GetUserTOTPSecrets_tables [simp]: "tables (GetUserTOTPSecrets u t c) = fst c"
  by (simp add: GetUserTOTPSecrets_def)

lemma VerifyTOTP_ok: "totp_ok H (fst c) \<Longrightarrow> totp_ok H (tables (VerifyTOTP now u t code c))"
proof -
  assume ok: "totp_ok H (fst c)"
  obtain r c1 where "GetUserTOTPSecrets u t c = (r, c1)" by (metis surj_pair)
  with ok GetUserTOTPSecrets_tables [of u t c] show ?thesis
    by (cases r) (simp_all add: VerifyTOTP_def try_devices_ok)
qed

lemma LoginWithTOTPWithUser_ok: "totp_ok H (fst c) \<Longrightarrow> totp_ok H (tables (LoginWithTOTPWithUser now user code c))"
proof -
  assume ok: "totp_ok H (fst c)"
  obtain r c1 where "GetUserTOTPSecrets (us_ID user) (us_TenantID user) c = (r, c1)" by (metis surj_pair)
  with ok GetUserTOTPSecrets_tables [of "us_ID user" "us_TenantID user" c] show ?thesis
    by (cases r) (simp_all add: LoginWithTOTPWithUser_def try_devices_ok)
qed

lemma GetUserBackupCodes_tables [simp]: "tables (GetUserBackupCodes u t c) = fst c"
  by (simp add: GetUserBackupCodes_def)

lemma VerifyBackupCode_secrets: "totp_secrets (tables (VerifyBackupCode now u t code c)) = totp_secrets (fst c)"
proof -
  obtain r c1 where get: "GetUserBackupCodes u t c = (r, c1)" by (metis surj_pair)
  then have c1: "fst c1 = fst c" using GetUserBackupCodes_tables [of u t c] by simp
  have "totp_secrets (tables (UseBackupCode now i c1)) = totp_secrets (fst c1)" for i
    unfolding UseBackupCode_def by (rule exec_keeps) simp_all
  with get c1 show ?thesis by (cases r) (simp_all add: VerifyBackupCode_def split: option.split)
qed

lemma DeleteTOTPSecret_ok: "totp_ok H (fst c) \<Longrightarrow> totp_ok H (tables (DeleteTOTPSecret i u t c))"
proof -
  assume ok: "totp_ok H (fst c)"
  let ?P = "\<lambda>r. ts_ID r = i \<and> ts_UserID r = u \<and> ts_TenantID r = t"
  let ?f = "\<lambda>s. (s\<lparr> totp_secrets := delete_where ?P (totp_secrets s) \<rparr>, affected ?P (totp_secrets s))"
  obtain r c1 where del: "exec ?f c = (r, c1)" by (rule prod.exhaust)
  have "totp_ok H (tables (exec ?f c))" by (rule exec_keeps [where P = "totp_ok H"]) (simp_all add: ok secrets_ok_delete)
  with del have "totp_ok H (fst c1)" by simp
  with del show ?thesis by (cases r) (simp_all add: DeleteTOTPSecret_def Let_def)
qed

lemma totp_DeleteDevice_ok: "totp_ok H (fst c) \<Longrightarrow> totp_ok H (tables (totp_DeleteDevice i u t c))"
proof -
  assume ok: "totp_ok H (fst c)"
  obtain r c1 where "GetUserTOTPSecrets u t c = (r, c1)" by (metis surj_pair)
  with ok GetUserTOTPSecrets_tables [of u t c] show ?thesis
    by (cases r) (simp_all add: totp_DeleteDevice_def DeleteTOTPSecret_ok)
qed

lemma SetPrimaryDevice_ok: "totp_ok H (fst c) \<Longrightarrow> totp_ok H (tables (SetPrimaryDevice now i u t c))"
  unfolding SetPrimaryDevice_def SetPrimaryTOTPSecret_def
proof (erule in_tx_keeps, goal_cases)
  case (1 c)
  let ?clear = "\<lambda>s. s\<lparr> totp_secrets := update_where (\<lambda>r. ts_UserID r = u \<and> ts_TenantID r = t)
      (\<lambda>r. r\<lparr> ts_IsPrimary := False \<rparr>) (totp_secrets s) \<rparr>"
  obtain r c1 where one: "exec (\<lambda>s. (?clear s, ())) c = (r, c1)" by (rule prod.exhaust)
  have "totp_ok H (?clear s)" if "totp_ok H s" for s
    using secrets_ok_update [OF that primaries_cleared [OF secrets_ok_primaries [OF that]]]
    by (simp add: same_device_def)
  then have "totp_ok H (tables (exec (\<lambda>s. (?clear s, ())) c))" by (intro exec_keeps [where P = "totp_ok H"] 1) simp
  with one have "totp_ok H (fst c1)" by simp
  then have "totp_ok H (tables (exec_checked (\<lambda>s.
      let t = update_where (\<lambda>r. ts_ID r = i \<and> ts_UserID r = u \<and> ts_TenantID r = t)
                (\<lambda>r. r\<lparr> ts_IsPrimary := True, ts_UpdatedAt := Unix now \<rparr>) (totp_secrets s)
      in if distinct (primaries t) then Inr (s\<lparr> totp_secrets := t \<rparr>) else Inl DBError) c1))"
    by (rule exec_checked_keeps)
      (auto simp: Let_def same_device_def split: if_splits intro!: secrets_ok_update)
  with one \<open>totp_ok H (fst c1)\<close> show ?case by (cases r) simp_all
qed

lemma RegenerateBackupCodes_secrets:
  "totp_secrets (tables (RegenerateBackupCodes now rnds ids u t c)) = totp_secrets (fst c)"
proof -
  obtain r c1 where del: "DeleteBackupCodes u t c = (r, c1)" by (metis surj_pair)
  have "totp_secrets (tables (DeleteBackupCodes u t c)) = totp_secrets (fst c)"
    unfolding DeleteBackupCodes_def by (rule exec_keeps) simp_all
  with del have c1: "totp_secrets (fst c1) = totp_secrets (fst c)" by simp
  show ?thesis
  proof (cases "GenerateBackupCodes rnds")
    case (Inl e)
    with del c1 show ?thesis by (cases r) (simp_all add: RegenerateBackupCodes_def)
  next
    case (Inr codes)
    obtain r2 c2 where "store_backup_codes now ids 0 u t codes c1 = (r2, c2)" by (metis surj_pair)
    with store_backup_codes_secrets [of now ids 0 u t codes c1] c1 del Inr show ?thesis
      by (cases r; cases r2) (simp_all add: RegenerateBackupCodes_def)
  qed
qed


lemma GenerateSecret_Inr: "GenerateSecret rnd = Inr s \<longleftrightarrow> (\<exists>b. rnd = Some b \<and> s = b32_EncodeToString (map b [0..<20]))"
  by (auto simp: GenerateSecret_def split: option.splits)

lemma CreateTOTPSecret_ok:
  assumes "totp_ok H (fst c)" and "registered H d" and "\<not> ts_IsActive d" and "\<not> ts_IsPrimary d" and "ts_ID d = i"
  shows "totp_ok H (tables (CreateTOTPSecret now i d c))"
proof -
  let ?row = "d\<lparr> ts_ID := (if ts_ID d = nil_uuid then i else ts_ID d), ts_CreatedAt := Unix now, ts_UpdatedAt := Unix now,
      ts_LastUsed := None \<rparr>"
  let ?f = "\<lambda>s. if (\<exists>r \<in> set (totp_secrets s). ts_ID r = ts_ID ?row) \<or> \<not> distinct (primaries (totp_secrets s @ [?row]))
      then Inl DBError else Inr (s\<lparr> totp_secrets := totp_secrets s @ [?row] \<rparr>)"
  obtain r c1 where ins: "exec_checked ?f c = (r, c1)" by (rule prod.exhaust)
  have "ts_ID ?row = ts_ID d" using assms(5) by simp
  then have "registered H ?row" using assms(2) same_device_behind [of d ?row] by (simp add: same_device_def)
  then have "totp_ok H s'" if "totp_ok H s" and "?f s = Inr s'" for s s'
    using that assms(3) by (fastforce simp: secrets_ok_def split: if_splits)
  with assms(1) have "totp_ok H (tables (exec_checked ?f c))" by (intro exec_checked_keeps [where P = "totp_ok H"])
  with ins have "totp_ok H (fst c1)" by simp
  with ins show ?thesis by (cases r) (simp_all add: CreateTOTPSecret_def Let_def)
qed

lemma RegisterDevice_ok:
  assumes "totp_ok H (fst c)" and "TRegister now rnd rnds i ids u t m n k \<in> H"
  shows "totp_ok H (tables (totp_RegisterDevice now rnd rnds i ids u t m n k c))"
proof (cases "GenerateSecret rnd")
  case (Inl e)
  with assms(1) show ?thesis by (simp add: totp_RegisterDevice_def)
next
  case secret: (Inr secret)
  show ?thesis
  proof (cases "GenerateBackupCodes rnds")
    case (Inl e)
    with assms(1) secret show ?thesis by (simp add: totp_RegisterDevice_def)
  next
    case codes: (Inr codes)
    let ?d = "\<lparr> ts_ID = i, ts_UserID = u, ts_TenantID = t, ts_Secret = secret, ts_DeviceName = n, ts_DeviceType = k,
        ts_LastUsed = None, ts_IsActive = False, ts_IsPrimary = False, ts_CreatedAt = 0, ts_UpdatedAt = 0 \<rparr>"
    obtain r c1 where ins: "CreateTOTPSecret now i ?d c = (r, c1)" by (rule prod.exhaust)
    obtain b where "rnd = Some b" and "secret = b32_EncodeToString (map b [0..<20])"
      using secret by (auto simp: GenerateSecret_Inr)
    with assms(2) have "registered H ?d" unfolding registered_def TOTPSecret.simps by blast
    from CreateTOTPSecret_ok [OF assms(1) this, of i now] ins have "totp_ok H (fst c1)" by simp
    moreover obtain r2 c2 where "store_backup_codes now ids 0 u t codes c1 = (r2, c2)" by (rule prod.exhaust)
    ultimately show ?thesis
      using store_backup_codes_secrets [of now ids 0 u t codes c1] secret codes ins
      by (cases r; cases r2) (simp_all add: totp_RegisterDevice_def wrap_err_def)
  qed
qed

lemma GetTOTPSecretByID_tables [simp]: "tables (GetTOTPSecretByID i u t c) = fst c"
  by (simp add: GetTOTPSecretByID_def)

lemma query_row_sound:
  assumes "query_row (\<lambda>s. select_row P (f s)) c = (Inr x, c')"
  shows "x \<in> set (f (fst c)) \<and> P x"
  using assms select_row_sound [of P "f (fst c)" x] by (cases c rule: conn_cases) (auto simp: query_row_def query_def)

lemma UpdateTOTPSecret_ok:
  assumes "totp_ok H (fst c)" and "\<And>r. r \<in> set (totp_secrets (fst c)) \<Longrightarrow> ts_ID r = ts_ID d \<Longrightarrow> confirmed H r"
  shows "totp_ok H (tables (UpdateTOTPSecret now d c))"
proof -
  obtain r c' where upd: "UpdateTOTPSecret now d c = (r, c')" by (rule prod.exhaust)
  note eff = exec_checked_tables [OF upd [unfolded UpdateTOTPSecret_def]]
  show ?thesis
  proof (cases "fst c' = fst c")
    case True
    with upd assms(1) show ?thesis by simp
  next
    case False
    let ?t = "update_where
        (\<lambda>r. ts_ID r = ts_ID d \<and> ts_UserID r = ts_UserID d \<and> ts_TenantID r = ts_TenantID d)
        (\<lambda>r. r\<lparr> ts_DeviceName := ts_DeviceName d, ts_IsActive := ts_IsActive d,
                ts_IsPrimary := ts_IsPrimary d, ts_UpdatedAt := Unix now \<rparr>) (totp_secrets (fst c))"
    from False eff have d: "distinct (primaries ?t)" and "fst c' = (fst c)\<lparr> totp_secrets := ?t \<rparr>"
      by (simp_all add: Let_def split: if_splits)
    moreover have "secrets_ok H ?t"
      by (rule secrets_ok_update [OF assms(1) d]) (simp add: same_device_def assms(2))
    ultimately show ?thesis using upd by simp
  qed
qed

lemma ConfirmRegistration_ok:
  assumes "totp_ok H (fst c)" and "TConfirm now i u t code \<in> H"
  shows "totp_ok H (tables (ConfirmRegistration now i u t code c))"
proof -
  obtain r c1 where get: "GetTOTPSecretByID i u t c = (r, c1)" by (rule prod.exhaust)
  then have c1: "fst c1 = fst c" using GetTOTPSecretByID_tables [of i u t c] by simp
  show ?thesis
  proof (cases r)
    case (Inl e)
    with get c1 assms(1) show ?thesis by (simp add: ConfirmRegistration_def)
  next
    case (Inr d)
    with get have "query_row (\<lambda>s. select_row (\<lambda>r. ts_ID r = i \<and> ts_UserID r = u \<and> ts_TenantID r = t)
        (totp_secrets s)) c = (Inr d, c1)" by (simp add: GetTOTPSecretByID_def)
    from query_row_sound [OF this] have d: "d \<in> set (totp_secrets (fst c))" "ts_ID d = i" "ts_UserID d = u" "ts_TenantID d = t"
      by simp_all
    obtain r2 c2 where devs: "GetUserTOTPSecrets u t c1 = (r2, c2)" by (rule prod.exhaust)
    then have c2: "fst c2 = fst c" using GetUserTOTPSecrets_tables [of u t c1] c1 by simp
    show ?thesis
    proof (cases "ValidateTOTPCode now (ts_Secret d) code")
      case False
      with get Inr c1 assms(1) show ?thesis by (simp add: ConfirmRegistration_def)
    next
      case True
      let ?d = "d\<lparr> ts_IsActive := True,
          ts_IsPrimary := ts_IsPrimary d \<or> (case r2 of Inr ds \<Rightarrow> ds = [] | Inl _ \<Rightarrow> False) \<rparr>"
      have "confirmed H d" using True d(2-4) assms(2) by (auto simp: confirmed_def)
      moreover have "r = d" if "r \<in> set (totp_secrets (fst c2))" and "ts_ID r = ts_ID ?d" for r
        using that d(1) c2 assms(1) by (auto simp: secrets_ok_def distinct_map dest: inj_onD)
      ultimately have "totp_ok H (tables (UpdateTOTPSecret now ?d c2))"
        using assms(1) c2 by (intro UpdateTOTPSecret_ok) auto
      moreover obtain r3 c3 where "UpdateTOTPSecret now ?d c2 = (r3, c3)" by (rule prod.exhaust)
      ultimately show ?thesis using get Inr devs True
        by (cases r3) (simp_all add: ConfirmRegistration_def wrap_err_def Let_def)
    qed
  qed
qed

lemma reads_tables [simp]:
  "tables (totp_GetUserDevices u t c) = fst c" "tables (HasTOTPEnabled u t c) = fst c"
proof -
  show "tables (totp_GetUserDevices u t c) = fst c" by (simp add: totp_GetUserDevices_def)
  obtain r c1 where "GetUserTOTPSecrets u t c = (r, c1)" by (rule prod.exhaust)
  with GetUserTOTPSecrets_tables [of u t c] show "tables (HasTOTPEnabled u t c) = fst c"
    by (cases r) (simp_all add: HasTOTPEnabled_def)
qed

lemma totp_handle_ok:
  assumes "totp_ok H (fst c)" and "op \<in> H"
  shows "totp_ok H (fst (fst (totp_handle op c)))"
  using assms
  by (cases op) (simp_all add: reply_def RegisterDevice_ok ConfirmRegistration_ok VerifyTOTP_ok
      VerifyBackupCode_secrets totp_DeleteDevice_ok SetPrimaryDevice_ok RegenerateBackupCodes_secrets
      LoginWithTOTPWithUser_ok)

section \<open>Logins are backed by confirmed devices\<close>

lemma totp_run_ok:
  assumes "totp_secrets (fst c) = []"
  shows "totp_ok (set ops) (fst (fst (run totp_handle ops c)))"
proof -
  have "totp_ok H (fst (fst (run totp_handle ops c)))" if "totp_ok H (fst c)" and "set ops \<subseteq> H" for H
    using that
  proof (induction ops arbitrary: c)
    case (Cons op ops)
    have "totp_ok H (fst (fst (totp_handle op c)))" using Cons.prems by (intro totp_handle_ok) auto
    with Cons show ?case by (simp add: case_prod_beta Let_def)
  qed simp
  moreover have "totp_ok (set ops) (fst c)" using assms by (simp add: secrets_ok_def primaries_def)
  ultimately show ?thesis by blast
qed

lemma query_Inr: "query g c = (Inr x, c') \<Longrightarrow> x = g (fst c) \<and> fst c' = fst c"
  by (cases c rule: conn_cases) (auto simp: query_def)

lemma set_active_secrets:
  "set (active_secrets u t rows) = {r \<in> set rows. ts_UserID r = u \<and> ts_TenantID r = t \<and> ts_IsActive r}"
  by (auto simp: active_secrets_def)

lemma LoginWithTOTPWithUser_True:
  assumes "LoginWithTOTPWithUser now user code c = (Inr True, c')"
  shows "\<exists>d \<in> set (totp_secrets (fst c)). ts_UserID d = us_ID user \<and> ts_TenantID d = us_TenantID user \<and>
           ts_IsActive d \<and> ValidateTOTPCode now (ts_Secret d) code"
proof -
  obtain r c1 where get: "GetUserTOTPSecrets (us_ID user) (us_TenantID user) c = (r, c1)" by (rule prod.exhaust)
  with assms obtain ds where r: "r = Inr ds" and "try_devices now code ds c1 = (Inr True, c')"
    by (cases r) (auto simp: LoginWithTOTPWithUser_def split: if_splits)
  then obtain d where "List.find (\<lambda>d. ValidateTOTPCode now (ts_Secret d) code) ds = Some d"
    by (auto simp: try_devices_def split: option.splits)
  then have "d \<in> set ds" and "ValidateTOTPCode now (ts_Secret d) code" using find_SomeD by fastforce+
  moreover have "ds = active_secrets (us_ID user) (us_TenantID user) (totp_secrets (fst c))"
    using query_Inr [OF get [unfolded GetUserTOTPSecrets_def r]] by simp
  ultimately show ?thesis by (auto simp: set_active_secrets)
qed

lemma GetUserByEmail_tables [simp]: "tables (GetUserByEmail m c) = fst c"
  unfolding GetUserByEmail_def
  by (auto split: prod.splits sum.splits go_error.splits dest: query_row_tablesD)

lemma GetUserByEmail_Inr:
  assumes "GetUserByEmail m c = (Inr u, c')"
  shows "u \<in> set (users (fst c)) \<and> ToLower (us_Email u) = ToLower m \<and> fst c' = fst c"
proof -
  obtain r c1 where q: "query_row (\<lambda>s. select_row (\<lambda>u. ToLower (us_Email u) = ToLower m) (users s)) c = (r, c1)"
    by (rule prod.exhaust)
  with assms have "r = Inr u" and "c1 = c'"
    by (auto simp: GetUserByEmail_def split: sum.splits go_error.splits)
  with q have q': "query_row (\<lambda>s. select_row (\<lambda>u. ToLower (us_Email u) = ToLower m) (users s)) c = (Inr u, c')" by simp
  from query_row_sound [OF this] GetUserByEmail_tables [of m c] assms show ?thesis by simp
qed

text \<open>A login that answers 200, taken apart.\<close>

lemma http_LoginWithTOTP_200:
  assumes "http_LoginWithTOTP tokens sign now ctx (Inr req) c = (rep, c')" and "http_status rep = 200"
  obtains user c1 c2 tenant token where "GetUserByEmail (tl_Email req) c = (Inr user, c1)"
    and "LoginWithTOTPWithUser now user (tl_TOTPCode req) c1 = (Inr True, c2)"
    and "totp_generateJWTToken tokens sign now user tenant = Inr token"
    and "http_body rep = TLogin \<lparr> tlr_Success = True, tlr_Token = token, tlr_Message = ''Login successful'' \<rparr>"
proof -
  obtain r1 c1 where 1: "GetUserByEmail (tl_Email req) c = (r1, c1)" by (rule prod.exhaust)
  from assms 1 obtain user where r1: "r1 = Inr user" by (cases r1) (auto simp: http_LoginWithTOTP_def)
  obtain r2 c2 where 2: "LoginWithTOTPWithUser now user (tl_TOTPCode req) c1 = (r2, c2)" by (rule prod.exhaust)
  from assms 1 2 r1 have r2: "r2 = Inr True" by (cases r2) (auto simp: http_LoginWithTOTP_def split: bool.splits)
  obtain r3 c3 where 3: "GetTenantByID (us_TenantID user) c2 = (r3, c3)" by (rule prod.exhaust)
  from assms 1 2 3 r1 r2 obtain tenant where r3: "r3 = Inr tenant" by (cases r3) (auto simp: http_LoginWithTOTP_def)
  from assms 1 2 3 r1 r2 r3 obtain token where "totp_generateJWTToken tokens sign now user tenant = Inr token"
    and "http_body rep = TLogin \<lparr> tlr_Success = True, tlr_Token = token, tlr_Message = ''Login successful'' \<rparr>"
    by (cases "totp_generateJWTToken tokens sign now user tenant") (auto simp: http_LoginWithTOTP_def)
  with that 1 2 r1 r2 show thesis by blast
qed

text \<open>
  C5. A password-less login is backed by a confirmed authenticator: after any run of the service from an empty
  device table, under any schedule of database faults, the login endpoint answers 200 only with a token signed
  for a user with the given address, and only if a device of that user in that tenant was registered in the
  run, was confirmed in the run with a code that was valid then, and the presented code is valid now for the
  secret drawn at its registration.
\<close>

theorem totp_login_backed:
  assumes "totp_secrets s = []"
    and "http_LoginWithTOTP tokens sign now ctx (Inr req) (fst (run totp_handle ops (s, os))) = (rep, c')"
    and "http_status rep = 200"
  shows "\<exists>user tenant token i b t1 code1.
           user \<in> set (users (fst (fst (run totp_handle ops (s, os))))) \<and>
           ToLower (us_Email user) = ToLower (tl_Email req) \<and>
           totp_generateJWTToken tokens sign now user tenant = Inr token \<and>
           http_body rep = TLogin \<lparr> tlr_Success = True, tlr_Token = token, tlr_Message = ''Login successful'' \<rparr> \<and>
           (\<exists>t0 rnds ids m n k. TRegister t0 (Some b) rnds i ids (us_ID user) (us_TenantID user) m n k \<in> set ops) \<and>
           TConfirm t1 i (us_ID user) (us_TenantID user) code1 \<in> set ops \<and>
           ValidateTOTPCode t1 (b32_EncodeToString (map b [0..<20])) code1 \<and>
           ValidateTOTPCode now (b32_EncodeToString (map b [0..<20])) (tl_TOTPCode req)"
proof -
  let ?c = "fst (run totp_handle ops (s, os))"
  obtain user c1 c2 tenant token where u: "GetUserByEmail (tl_Email req) ?c = (Inr user, c1)"
    and l: "LoginWithTOTPWithUser now user (tl_TOTPCode req) c1 = (Inr True, c2)"
    and tok: "totp_generateJWTToken tokens sign now user tenant = Inr token"
      "http_body rep = TLogin \<lparr> tlr_Success = True, tlr_Token = token, tlr_Message = ''Login successful'' \<rparr>"
    using http_LoginWithTOTP_200 [OF assms(2,3)] by metis
  from GetUserByEmail_Inr [OF u] have user: "user \<in> set (users (fst ?c))" "ToLower (us_Email user) = ToLower (tl_Email req)"
    and c1: "fst c1 = fst ?c" by simp_all
  from LoginWithTOTPWithUser_True [OF l] c1 obtain d where d: "d \<in> set (totp_secrets (fst ?c))"
    "ts_UserID d = us_ID user" "ts_TenantID d = us_TenantID user" "ts_IsActive d"
    "ValidateTOTPCode now (ts_Secret d) (tl_TOTPCode req)" by auto
  have "registered (set ops) d" and "confirmed (set ops) d"
    using totp_run_ok [of "(s, os)" ops] assms(1) d(1,4) by (auto simp: secrets_ok_def)
  with user tok d show ?thesis unfolding registered_def confirmed_def by metis
qed

section \<open>Backup codes are redeemed at most once\<close>

text \<open>One operation on a database that does not fail.\<close>

definition totp_step :: "totp_op \<Rightarrow> totp_db \<Rightarrow> totp_db \<times> totp_reply" where
  "totp_step op s = (let (c, out) = totp_handle op (s, []) in (fst c, out))"

definition codes_ok :: "'a totp_db_scheme \<Rightarrow> bool" where
  "codes_ok s \<longleftrightarrow> distinct (map bc_ID (totp_backup_codes s)) \<and> distinct (map bc_Code (totp_backup_codes s))"

definition code_spent :: "string \<Rightarrow> 'a totp_db_scheme \<Rightarrow> bool" where
  "code_spent h s \<longleftrightarrow> (\<forall>r \<in> set (totp_backup_codes s). bc_Code r = h \<longrightarrow> bc_IsUsed r)"

text \<open>The operations that draw a code with a given hash, and those that accept one.\<close>

definition draws :: "string \<Rightarrow> (nat \<Rightarrow> random) \<Rightarrow> bool" where
  "draws h rnds \<longleftrightarrow> (\<exists>codes. GenerateBackupCodes rnds = Inr codes \<and> h \<in> HashBackupCode ` set codes)"

fun code_renews :: "string \<Rightarrow> totp_op \<Rightarrow> bool" where
  "code_renews h (TRegister _ _ rnds _ _ _ _ _ _ _) = draws h rnds"
| "code_renews h (TRegenerate _ rnds _ _ _) = draws h rnds"
| "code_renews h _ = False"

fun code_accepted :: "string \<Rightarrow> totp_op \<Rightarrow> totp_reply \<Rightarrow> bool" where
  "code_accepted h (TBackup _ _ _ code) (UVerified (Inr ok)) = (ok \<and> HashBackupCode code = h)"
| "code_accepted h _ _ = False"

fun_cases code_acceptedE: "code_accepted h op out"

lemma CreateBackupCode_grows:
  assumes "CreateBackupCode now i row c = (r, c1)"
  shows "\<exists>new. totp_backup_codes (fst c1) = totp_backup_codes (fst c) @ new \<and>
           (\<forall>r \<in> set new. bc_Code r = bc_Code row) \<and> (codes_ok (fst c) \<longrightarrow> codes_ok (fst c1))"
proof (cases "fst c1 = fst c")
  case True
  then show ?thesis by (intro exI [of _ "[]"]) simp
next
  case False
  let ?row = "row\<lparr> bc_ID := (if bc_ID row = nil_uuid then i else bc_ID row), bc_CreatedAt := Unix now, bc_UsedAt := None \<rparr>"
  from False exec_checked_tables [OF assms [unfolded CreateBackupCode_def Let_def]]
  have fresh: "\<forall>r \<in> set (totp_backup_codes (fst c)). bc_ID r \<noteq> bc_ID ?row \<and> bc_Code r \<noteq> bc_Code ?row"
    and c1: "fst c1 = (fst c)\<lparr> totp_backup_codes := totp_backup_codes (fst c) @ [?row] \<rparr>"
    by (auto split: if_splits)
  then show ?thesis by (intro exI [of _ "[?row]"]) (auto simp: codes_ok_def)
qed

lemma store_backup_codes_grows:
  "\<exists>new. totp_backup_codes (tables (store_backup_codes now ids i u t codes c)) = totp_backup_codes (fst c) @ new \<and>
     (\<forall>r \<in> set new. bc_Code r \<in> HashBackupCode ` set codes) \<and>
     (codes_ok (fst c) \<longrightarrow> codes_ok (tables (store_backup_codes now ids i u t codes c)))"
proof (induction codes arbitrary: i c)
  case (Cons code codes)
  let ?row = "\<lparr> bc_ID = nil_uuid, bc_UserID = u, bc_TenantID = t, bc_Code = HashBackupCode code,
               bc_IsUsed = False, bc_CreatedAt = 0, bc_UsedAt = None \<rparr>"
  obtain r c1 where one: "CreateBackupCode now (ids i) ?row c = (r, c1)" by (rule prod.exhaust)
  from CreateBackupCode_grows [OF one]
  obtain new where new: "totp_backup_codes (fst c1) = totp_backup_codes (fst c) @ new"
    "\<forall>r \<in> set new. bc_Code r = HashBackupCode code" "codes_ok (fst c) \<longrightarrow> codes_ok (fst c1)"
    by auto
  show ?case
  proof (cases r)
    case (Inl e)
    with one new show ?thesis by (intro exI [of _ new]) simp
  next
    case (Inr x)
    obtain new' where "totp_backup_codes (tables (store_backup_codes now ids (Suc i) u t codes c1)) = totp_backup_codes (fst c1) @ new'"
      "\<forall>r \<in> set new'. bc_Code r \<in> HashBackupCode ` set codes"
      "codes_ok (fst c1) \<longrightarrow> codes_ok (tables (store_backup_codes now ids (Suc i) u t codes c1))"
      using Cons.IH [of "Suc i" c1] by blast
    with one new Inr show ?thesis by (intro exI [of _ "new @ new'"]) auto
  qed
qed simp

text \<open>The operations that do not touch backup codes.\<close>

lemma codes_untouched:
  "totp_backup_codes (fst (totp_step (TConfirm now i u t code) s)) = totp_backup_codes s"
  "totp_backup_codes (fst (totp_step (TVerify now u t code) s)) = totp_backup_codes s"
  "totp_backup_codes (fst (totp_step (TDevices u t) s)) = totp_backup_codes s"
  "totp_backup_codes (fst (totp_step (TDelete i u t) s)) = totp_backup_codes s"
  "totp_backup_codes (fst (totp_step (TSetPrimary now i u t) s)) = totp_backup_codes s"
  "totp_backup_codes (fst (totp_step (TLoginUser now user code) s)) = totp_backup_codes s"
  "totp_backup_codes (fst (totp_step (TEnabled u t) s)) = totp_backup_codes s"
  by (simp_all add: totp_step_def reply_def ConfirmRegistration_def GetTOTPSecretByID_def GetUserTOTPSecrets_def
      UpdateTOTPSecret_def VerifyTOTP_def try_devices_def totp_UpdateLastUsed_def totp_GetUserDevices_def
      totp_DeleteDevice_def DeleteTOTPSecret_def SetPrimaryDevice_def SetPrimaryTOTPSecret_def
      LoginWithTOTPWithUser_def HasTOTPEnabled_def wrap_err_def sql_simps Let_def
      split: sum.split option.split)


lemma codes_ok_cong: "totp_backup_codes s' = totp_backup_codes s \<Longrightarrow> codes_ok s' = codes_ok s"
  by (simp add: codes_ok_def)

lemma code_spent_cong: "totp_backup_codes s' = totp_backup_codes s \<Longrightarrow> code_spent h s' = code_spent h s"
  by (simp add: code_spent_def)

lemmas codes_kept = codes_untouched [THEN codes_ok_cong] codes_untouched [THEN code_spent_cong]

text \<open>Storing the drawn codes keeps a code spent unless it is drawn again.\<close>

lemma store_drawn:
  assumes "GenerateBackupCodes rnds = Inr codes" and "codes_ok (fst c)"
  shows "codes_ok (tables (store_backup_codes now ids i u t codes c)) \<and>
         (\<not> draws h rnds \<longrightarrow> code_spent h (fst c) \<longrightarrow> code_spent h (tables (store_backup_codes now ids i u t codes c)))"
  using store_backup_codes_grows [of now ids i u t codes c] assms
  by (auto simp: draws_def code_spent_def)

lemma RegisterDevice_codes:
  assumes "codes_ok s"
  shows "codes_ok (fst (totp_step (TRegister now rnd rnds i ids u t m n k) s)) \<and>
         (\<not> draws h rnds \<longrightarrow> code_spent h s \<longrightarrow> code_spent h (fst (totp_step (TRegister now rnd rnds i ids u t m n k) s)))"
proof -
  let ?d = "\<lambda>secret. \<lparr> ts_ID = i, ts_UserID = u, ts_TenantID = t, ts_Secret = secret, ts_DeviceName = n, ts_DeviceType = k,
      ts_LastUsed = None, ts_IsActive = False, ts_IsPrimary = False, ts_CreatedAt = 0, ts_UpdatedAt = 0 \<rparr>"
  show ?thesis
  proof (cases "GenerateSecret rnd"; cases "GenerateBackupCodes rnds")
    fix secret codes
    assume gen: "GenerateSecret rnd = Inr secret" "GenerateBackupCodes rnds = Inr codes"
    obtain r c1 where ins: "CreateTOTPSecret now i (?d secret) (s, []) = (r, c1)" by (rule prod.exhaust)
    then have c1: "totp_backup_codes (fst c1) = totp_backup_codes s"
      by (auto simp: CreateTOTPSecret_def Let_def sql_simps split: if_splits)
    obtain r2 c2 where st: "store_backup_codes now ids 0 u t codes c1 = (r2, c2)" by (rule prod.exhaust)
    have "codes_ok (fst c2)" and "\<not> draws h rnds \<Longrightarrow> code_spent h s \<Longrightarrow> code_spent h (fst c2)"
      using store_drawn [OF gen(2), of c1 now ids 0 u t h] st assms codes_ok_cong [OF c1] code_spent_cong [OF c1]
      by simp_all
    with gen ins st assms codes_ok_cong [OF c1] code_spent_cong [OF c1] show ?thesis
      by (cases r; cases r2) (simp_all add: totp_step_def reply_def totp_RegisterDevice_def wrap_err_def)
  qed (use assms in \<open>simp_all add: totp_step_def reply_def totp_RegisterDevice_def\<close>)
qed

lemma RegenerateBackupCodes_codes:
  assumes "codes_ok s"
  shows "codes_ok (fst (totp_step (TRegenerate now rnds ids u t) s)) \<and>
         (\<not> draws h rnds \<longrightarrow> code_spent h s \<longrightarrow> code_spent h (fst (totp_step (TRegenerate now rnds ids u t) s)))"
proof -
  let ?s = "s\<lparr> totp_backup_codes := delete_where (\<lambda>r. bc_UserID r = u \<and> bc_TenantID r = t) (totp_backup_codes s) \<rparr>"
  have ok: "codes_ok ?s" and sp: "code_spent h s \<Longrightarrow> code_spent h ?s"
    using assms by (auto simp: codes_ok_def code_spent_def delete_where_def distinct_map_filter)
  show ?thesis
  proof (cases "GenerateBackupCodes rnds")
    case (Inl e)
    with ok sp show ?thesis by (simp add: totp_step_def reply_def RegenerateBackupCodes_def DeleteBackupCodes_def)
  next
    case (Inr codes)
    obtain r2 c2 where st: "store_backup_codes now ids 0 u t codes (?s, []) = (r2, c2)" by (rule prod.exhaust)
    from store_drawn [OF Inr, of "(?s, [])" now ids 0 u t h] st ok sp Inr show ?thesis
      by (cases r2) (simp_all add: totp_step_def reply_def RegenerateBackupCodes_def DeleteBackupCodes_def)
  qed
qed

text \<open>The effect of redeeming a code: the row that is found is marked used.\<close>

lemma VerifyBackupCode_step:
  "totp_step (TBackup now u t code) s =
     (case List.find (\<lambda>r. \<not> bc_IsUsed r \<and> bc_Code r = HashBackupCode code)
             (sort_key (\<lambda>r. - bc_CreatedAt r) (filter (\<lambda>r. bc_UserID r = u \<and> bc_TenantID r = t) (totp_backup_codes s))) of
        None \<Rightarrow> (s, UVerified (Inr False))
      | Some r \<Rightarrow> (s\<lparr> totp_backup_codes := update_where (\<lambda>x. bc_ID x = bc_ID r)
                     (\<lambda>x. x\<lparr> bc_IsUsed := True, bc_UsedAt := Some (Unix now) \<rparr>) (totp_backup_codes s) \<rparr>,
                   UVerified (Inr True)))"
  by (simp add: totp_step_def reply_def VerifyBackupCode_def GetUserBackupCodes_def UseBackupCode_def sql_simps
      split: option.split)

lemma VerifyBackupCode_ok:
  assumes "codes_ok s"
  shows "codes_ok (fst (totp_step (TBackup now u t code) s))"
  using assms unfolding VerifyBackupCode_step
  by (auto simp: codes_ok_def map_update_where split: option.split)

lemma VerifyBackupCode_spent:
  assumes "code_spent h s"
  shows "code_spent h (fst (totp_step (TBackup now u t code) s))"
  using assms unfolding VerifyBackupCode_step
  by (auto simp: code_spent_def update_where_def split: option.split)

lemma VerifyBackupCode_spends:
  assumes "codes_ok s" and "code_accepted h op (snd (totp_step op s))"
  shows "code_spent h (fst (totp_step op s))"
proof -
  from assms(2) obtain now u t code where op: "op = TBackup now u t code" and h: "HashBackupCode code = h"
    and out: "snd (totp_step op s) = UVerified (Inr True)" by (elim code_acceptedE) auto
  then obtain r where r: "List.find (\<lambda>r. \<not> bc_IsUsed r \<and> bc_Code r = h)
      (sort_key (\<lambda>r. - bc_CreatedAt r) (filter (\<lambda>r. bc_UserID r = u \<and> bc_TenantID r = t) (totp_backup_codes s))) = Some r"
    by (auto simp: VerifyBackupCode_step split: option.splits)
  then have "r \<in> set (totp_backup_codes s)" and "bc_Code r = h" using find_SomeD [OF r] by auto
  with assms(1) have "x = r" if "x \<in> set (totp_backup_codes s)" and "bc_Code x = h" for x
    using that by (auto simp: codes_ok_def distinct_map dest: inj_onD)
  then show ?thesis using op h r
    by (auto simp: VerifyBackupCode_step code_spent_def update_where_def)
qed

lemma VerifyBackupCode_silent:
  assumes "code_spent h s"
  shows "\<not> code_accepted h op (snd (totp_step op s))"
proof
  assume "code_accepted h op (snd (totp_step op s))"
  then obtain now u t code where op: "op = TBackup now u t code" and h: "HashBackupCode code = h"
    and out: "snd (totp_step op s) = UVerified (Inr True)" by (elim code_acceptedE) auto
  then obtain r where r: "List.find (\<lambda>r. \<not> bc_IsUsed r \<and> bc_Code r = h)
      (sort_key (\<lambda>r. - bc_CreatedAt r) (filter (\<lambda>r. bc_UserID r = u \<and> bc_TenantID r = t) (totp_backup_codes s))) = Some r"
    by (auto simp: VerifyBackupCode_step split: option.splits)
  from find_SomeD [OF r] assms show False by (auto simp: code_spent_def)
qed

interpretation backup: one_time_grant totp_step codes_ok code_spent code_renews code_accepted
proof
  fix s op
  assume "codes_ok (s :: totp_db)"
  then show "codes_ok (fst (totp_step op s))"
    by (cases op) (simp_all add: RegisterDevice_codes RegenerateBackupCodes_codes VerifyBackupCode_ok
        codes_kept)
next
  fix s :: totp_db and h op
  assume "codes_ok s" and "\<not> code_renews h op" and "code_spent h s"
  then show "code_spent h (fst (totp_step op s))"
    by (cases op) (simp_all add: RegisterDevice_codes RegenerateBackupCodes_codes VerifyBackupCode_spent
        codes_kept)
qed (use VerifyBackupCode_spends VerifyBackupCode_silent in blast)+

text \<open>
  C14. A backup code is redeemed at most once for each time it is drawn: in every run of the service from an empty
  table on a database that does not fail, the verifications that accept a code with a given hash number at most
  the registrations and regenerations that drew one.
\<close>

theorem backup_codes_single_use:
  assumes "totp_backup_codes s = []"
  shows "length (replies_with (code_accepted h) (snd (run totp_step ops s))) \<le> length (filter (code_renews h) ops)"
proof -
  have "codes_ok s" and "code_spent h s" using assms by (simp_all add: codes_ok_def code_spent_def)
  with backup.tokens_bounded [of s h ops] show ?thesis by simp
qed

section \<open>A registered device can be confirmed and used\<close>

lemma find_exists: "x \<in> set t \<Longrightarrow> P x \<Longrightarrow> \<exists>y. List.find P t = Some y"
  by (cases "List.find P t") (auto simp: find_None_iff)

definition used_device :: "gotime \<Rightarrow> TOTPSecret \<Rightarrow> TOTPSecret" where
  "used_device now r = r\<lparr> ts_LastUsed := Some (Unix now), ts_UpdatedAt := Unix now \<rparr>"

lemma LoginWithTOTPWithUser_accepts:
  assumes "d \<in> set (totp_secrets s)" and "ts_UserID d = us_ID user" and "ts_TenantID d = us_TenantID user"
    and "ts_IsActive d" and "ValidateTOTPCode now (ts_Secret d) code"
  shows "\<exists>i. LoginWithTOTPWithUser now user code (s, []) =
           (Inr True, s\<lparr> totp_secrets := update_where (\<lambda>r. ts_ID r = i) (used_device now) (totp_secrets s) \<rparr>, [])"
proof -
  let ?ds = "active_secrets (us_ID user) (us_TenantID user) (totp_secrets s)"
  have "d \<in> set ?ds" using assms(1-4) by (simp add: set_active_secrets)
  moreover from this assms(5) obtain x where "List.find (\<lambda>d. ValidateTOTPCode now (ts_Secret d) code) ?ds = Some x"
    using find_exists [of d ?ds "\<lambda>d. ValidateTOTPCode now (ts_Secret d) code"] by blast
  ultimately show ?thesis
    by (intro exI [of _ "ts_ID x"])
      (auto simp: LoginWithTOTPWithUser_def GetUserTOTPSecrets_def try_devices_def totp_UpdateLastUsed_def
        used_device_def [abs_def] sql_simps)
qed

lemma current_code_valid:
  "30 * Second \<le> now \<Longrightarrow> ValidateTOTPCode now secret (generateTOTP secret (Unix now div 30))"
  by (auto simp: ValidateTOTPCode_iff)

text \<open>Whatever fails, a registration leaves the devices alone or stores the new one, not active yet.\<close>

lemma CreateTOTPSecret_rows:
  assumes "CreateTOTPSecret now (ts_ID d) d c = (r, c1)"
  shows "totp_secrets (fst c1) = totp_secrets (fst c) \<or>
         (\<exists>d'. same_device d d' \<and> ts_IsActive d' = ts_IsActive d \<and> ts_IsPrimary d' = ts_IsPrimary d \<and>
            totp_secrets (fst c1) = totp_secrets (fst c) @ [d'] \<and>
            (\<forall>r \<in> set (totp_secrets (fst c)). ts_ID r \<noteq> ts_ID d) \<and> distinct (primaries (totp_secrets (fst c) @ [d'])))"
proof -
  let ?d = "d\<lparr> ts_CreatedAt := Unix now, ts_UpdatedAt := Unix now, ts_LastUsed := None \<rparr>"
  let ?f = "\<lambda>s. if (\<exists>r \<in> set (totp_secrets s). ts_ID r = ts_ID ?d) \<or> \<not> distinct (primaries (totp_secrets s @ [?d]))
      then Inl DBError else Inr (s\<lparr> totp_secrets := totp_secrets s @ [?d] \<rparr>)"
  obtain r0 c0 where ins: "exec_checked ?f c = (r0, c0)" by (rule prod.exhaust)
  have c1: "c1 = c0" using assms ins by (cases r0) (simp_all add: CreateTOTPSecret_def Let_def)
  show ?thesis
  proof (cases "fst c0 = fst c")
    case True
    with c1 show ?thesis by simp
  next
    case False
    with exec_checked_tables [OF ins]
    have "\<forall>r \<in> set (totp_secrets (fst c)). ts_ID r \<noteq> ts_ID d" and "distinct (primaries (totp_secrets (fst c) @ [?d]))"
      and "fst c0 = (fst c)\<lparr> totp_secrets := totp_secrets (fst c) @ [?d] \<rparr>"
      by (simp_all split: if_splits)
    with c1 show ?thesis by (intro disjI2 exI [of _ ?d]) (simp add: same_device_def)
  qed
qed

lemma totp_RegisterDevice_rows:
  assumes "totp_RegisterDevice now (Some b) rnds i ids u t m n k c = (r, c')"
  shows "totp_secrets (fst c') = totp_secrets (fst c) \<or>
         (\<exists>d. totp_secrets (fst c') = totp_secrets (fst c) @ [d] \<and> ts_ID d = i \<and> ts_UserID d = u \<and> ts_TenantID d = t \<and>
            ts_Secret d = b32_EncodeToString (map b [0..<20]) \<and> \<not> ts_IsActive d \<and> \<not> ts_IsPrimary d \<and>
            (\<forall>r \<in> set (totp_secrets (fst c)). ts_ID r \<noteq> i) \<and> distinct (primaries (totp_secrets (fst c) @ [d])))"
proof (cases "GenerateBackupCodes rnds")
  case (Inl e)
  with assms show ?thesis by (simp add: totp_RegisterDevice_def GenerateSecret_def)
next
  case (Inr codes)
  let ?new = "\<lparr> ts_ID = i, ts_UserID = u, ts_TenantID = t, ts_Secret = b32_EncodeToString (map b [0..<20]),
      ts_DeviceName = n, ts_DeviceType = k, ts_LastUsed = None, ts_IsActive = False, ts_IsPrimary = False,
      ts_CreatedAt = 0, ts_UpdatedAt = 0 \<rparr>"
  obtain r1 c1 where ins: "CreateTOTPSecret now (ts_ID ?new) ?new c = (r1, c1)" by (rule prod.exhaust)
  obtain r2 c2 where st: "store_backup_codes now ids 0 u t codes c1 = (r2, c2)" by (rule prod.exhaust)
  have "totp_secrets (fst c') = totp_secrets (fst c1)"
    using assms Inr ins st store_backup_codes_secrets [of now ids 0 u t codes c1]
    by (cases r1; cases r2) (auto simp: totp_RegisterDevice_def GenerateSecret_def wrap_err_def)
  with CreateTOTPSecret_rows [OF ins] show ?thesis by (auto simp: same_device_def)
qed

lemma GetTOTPSecretByID_finds:
  assumes "distinct (map ts_ID (totp_secrets s))" and "d \<in> set (totp_secrets s)"
  shows "GetTOTPSecretByID (ts_ID d) (ts_UserID d) (ts_TenantID d) (s, []) = (Inr d, s, [])"
proof -
  let ?P = "\<lambda>r. ts_ID r = ts_ID d \<and> ts_UserID r = ts_UserID d \<and> ts_TenantID r = ts_TenantID d"
  obtain x where x: "List.find ?P (totp_secrets s) = Some x"
    using find_exists [OF assms(2), of ?P] by blast
  from find_SomeD [OF x] assms have "x = d" by (auto simp: distinct_map dest: inj_onD)
  with x show ?thesis by (simp add: GetTOTPSecretByID_def sql_simps select_row_def)
qed

text \<open>The row of a confirmed device.\<close>

definition confirmed_row :: "gotime \<Rightarrow> bool \<Rightarrow> TOTPSecret \<Rightarrow> TOTPSecret" where
  "confirmed_row now first r =
     r\<lparr> ts_IsActive := True, ts_IsPrimary := ts_IsPrimary r \<or> first, ts_UpdatedAt := Unix now \<rparr>"

lemma ConfirmRegistration_accepts:
  assumes ids: "distinct (map ts_ID (totp_secrets s))" and pr: "distinct (primaries (totp_secrets s))"
    and d: "d \<in> set (totp_secrets s)" and u: "ts_UserID d = u" "ts_TenantID d = t"
    and valid: "ValidateTOTPCode now (ts_Secret d) code"
    and live: "\<forall>r \<in> set (totp_secrets s). ts_UserID r = u \<and> ts_TenantID r = t \<and> ts_IsPrimary r \<longrightarrow> ts_IsActive r"
  shows "\<exists>first s2. ConfirmRegistration now (ts_ID d) u t code (s, []) =
           (Inr \<lparr> tcr_Success = True, tcr_Message = ''Device registered successfully'', tcr_DeviceID = ts_ID d,
                  tcr_DeviceName = ts_DeviceName d \<rparr>, s2, []) \<and>
           s2 = s\<lparr> totp_secrets := update_where (\<lambda>r. r = d) (confirmed_row now first) (totp_secrets s) \<rparr>"
proof -
  define first where "first \<longleftrightarrow> active_secrets u t (totp_secrets s) = []"
  let ?d = "d\<lparr> ts_IsActive := True, ts_IsPrimary := ts_IsPrimary d \<or> first \<rparr>"
  let ?t = "update_where (\<lambda>r. r = d) (confirmed_row now first) (totp_secrets s)"
  have only: "ts_ID r = ts_ID d \<longleftrightarrow> r = d" if "r \<in> set (totp_secrets s)" for r
    using that ids d by (auto simp: distinct_map dest: inj_onD)
  have rows: "update_where (\<lambda>r. ts_ID r = ts_ID ?d \<and> ts_UserID r = ts_UserID ?d \<and> ts_TenantID r = ts_TenantID ?d)
      (\<lambda>r. r\<lparr> ts_DeviceName := ts_DeviceName ?d, ts_IsActive := ts_IsActive ?d,
              ts_IsPrimary := ts_IsPrimary ?d, ts_UpdatedAt := Unix now \<rparr>) (totp_secrets s) = ?t"
    unfolding update_where_def using only by (intro map_cong refl) (auto simp: confirmed_row_def)
  have none: "\<not> (ts_UserID r = u \<and> ts_TenantID r = t \<and> ts_IsPrimary r)" if "first" and "r \<in> set (totp_secrets s)" for r
  proof
    assume r: "ts_UserID r = u \<and> ts_TenantID r = t \<and> ts_IsPrimary r"
    with live that(2) have "r \<in> set (active_secrets u t (totp_secrets s))" by (simp add: set_active_secrets)
    with that(1) show False by (simp add: first_def)
  qed
  have "distinct (primaries ?t)"
  proof (cases first)
    case False
    then have "primaries ?t = primaries (totp_secrets s)"
      by (intro primaries_update_where) (simp add: confirmed_row_def)
    with pr show ?thesis by simp
  next
    case True
    obtain xs ys where split: "totp_secrets s = xs @ d # ys" using d by (metis split_list)
    with ids have "d \<notin> set xs" and "d \<notin> set ys" by (auto simp: distinct_map)
    then have "?t = xs @ confirmed_row now first d # ys"
      unfolding split update_where_def by (auto intro!: map_idI)
    moreover have "(u, t) \<notin> set (primaries xs)" and "(u, t) \<notin> set (primaries ys)"
      using none [OF True] unfolding split by (auto simp: primaries_def)
    moreover have "distinct (primaries xs @ primaries ys)"
      using pr unfolding split by (auto simp: primaries_def split: if_splits)
    ultimately show ?thesis using u by (auto simp: primaries_def confirmed_row_def)
  qed
  then have "UpdateTOTPSecret now ?d (s, []) = (Inr (), s\<lparr> totp_secrets := ?t \<rparr>, [])"
    using rows by (simp add: UpdateTOTPSecret_def Let_def sql_simps)
  then show ?thesis
    using GetTOTPSecretByID_finds [OF ids d] valid u
    by (intro exI [of _ first]) (simp add: ConfirmRegistration_def GetUserTOTPSecrets_def sql_simps Let_def wrap_err_def first_def)
qed


text \<open>
  C28. Enrolment works: once a registration has stored the device, whatever failed after that, and provided that no device of the user
  was made primary before it was confirmed (such a one makes the unique index refuse the confirmation), the code that the RFC computes
  for the current half minute from the secret drawn at the registration confirms the device when no statement of the confirmation
  fails, and then the current code logs the user in when no statement of the login fails, at every time after the first half minute
  of 1970.
\<close>

theorem totp_enrol_confirm_login:
  assumes "totp_ok H s"
    and "totp_RegisterDevice t0 (Some b) rnds i ids (us_ID user) (us_TenantID user) m n k (s, os) = (r, s1, os')"
    and "totp_secrets s1 \<noteq> totp_secrets s"
    and "\<forall>r \<in> set (totp_secrets s). ts_UserID r = us_ID user \<and> ts_TenantID r = us_TenantID user \<and> ts_IsPrimary r \<longrightarrow> ts_IsActive r"
    and "30 * Second \<le> t1" and "30 * Second \<le> t2"
  defines "secret \<equiv> b32_EncodeToString (map b [0..<20])"
  shows "\<exists>s2 s3 conf.
           ConfirmRegistration t1 i (us_ID user) (us_TenantID user) (generateTOTP secret (Unix t1 div 30)) (s1, []) =
             (Inr conf, s2, []) \<and>
           LoginWithTOTPWithUser t2 user (generateTOTP secret (Unix t2 div 30)) (s2, []) = (Inr True, s3, [])"
proof -
  obtain d where s1: "totp_secrets s1 = totp_secrets s @ [d]"
    and d: "ts_ID d = i" "ts_UserID d = us_ID user" "ts_TenantID d = us_TenantID user" "ts_Secret d = secret"
      "\<not> ts_IsActive d" "\<not> ts_IsPrimary d"
    and fresh: "\<forall>r \<in> set (totp_secrets s). ts_ID r \<noteq> i" "distinct (primaries (totp_secrets s @ [d]))"
    using totp_RegisterDevice_rows [OF assms(2)] assms(3) unfolding secret_def by auto
  have ids: "distinct (map ts_ID (totp_secrets s1))" using assms(1) fresh(1) d(1) unfolding s1 by (auto simp: secrets_ok_def)
  have pr: "distinct (primaries (totp_secrets s1))" using fresh(2) unfolding s1 .
  have live: "\<forall>r \<in> set (totp_secrets s1). ts_UserID r = us_ID user \<and> ts_TenantID r = us_TenantID user \<and> ts_IsPrimary r \<longrightarrow> ts_IsActive r"
    using assms(4) d(6) unfolding s1 by auto
  have mem: "d \<in> set (totp_secrets s1)" unfolding s1 by simp
  from ConfirmRegistration_accepts [OF ids pr mem d(2,3) current_code_valid [OF assms(5)] live]
  obtain first s2 conf where conf: "ConfirmRegistration t1 (ts_ID d) (us_ID user) (us_TenantID user)
      (generateTOTP (ts_Secret d) (Unix t1 div 30)) (s1, []) = (Inr conf, s2, [])"
    and s2: "s2 = s1\<lparr> totp_secrets := update_where (\<lambda>r. r = d) (confirmed_row t1 first) (totp_secrets s1) \<rparr>" by blast
  have "confirmed_row t1 first d \<in> set (totp_secrets s2)" using mem unfolding s2 by (auto simp: update_where_def)
  from LoginWithTOTPWithUser_accepts [OF this, of user t2 "generateTOTP (ts_Secret d) (Unix t2 div 30)"]
  have "\<exists>s3. LoginWithTOTPWithUser t2 user (generateTOTP (ts_Secret d) (Unix t2 div 30)) (s2, []) = (Inr True, s3, [])"
    using d(2,3) current_code_valid [OF assms(6)] by (auto simp: confirmed_row_def)
  with conf show ?thesis unfolding d(1,4) by blast
qed

section \<open>Approving a device code\<close>

text \<open>What an approval with an authenticator code does when nothing fails.\<close>

lemma http_ApproveDeviceCodeWithTOTP_accepts:
  assumes inv: "device_inv s" and dc: "dc \<in> set (device_codes s)" "dc_Status dc = ''pending''"
    and typed: "normal_code (ta_UserCode req) = normal_code (dc_UserCode dc)" and live: "\<not> dc_IsExpired now dc"
    and user: "List.find (\<lambda>u. ToLower (us_Email u) = ToLower (ta_Email req)) (users s) = Some user"
    and tenant: "List.find (\<lambda>t. tn_TenantID t = us_TenantID user) (tenants s) = Some tenant"
    and d: "d \<in> set (totp_secrets s)" "ts_UserID d = us_ID user" "ts_TenantID d = us_TenantID user" "ts_IsActive d"
      "ValidateTOTPCode now (ts_Secret d) (ta_TOTPCode req)"
    and tok: "totp_generateJWTToken tokens sign now user tenant = Inr token"
  shows "\<exists>rep s1 cid. http_ApproveDeviceCodeWithTOTP tokens sign now ctx (Inr req) (s, []) = (rep, s1, []) \<and>
    http_status rep = 200 \<and>
    http_body rep = TApproval \<lparr> tar_Success = True, tar_Message = ''Device approved successfully'', tar_Token = token \<rparr> \<and>
    device_codes s1 = update_where (\<lambda>r. r = dc)
      (decided_row now (us_ID user) (us_Email user) (us_TenantID user) (tn_TenantDomain tenant) cid token True) (device_codes s)"
proof -
  obtain i where login: "LoginWithTOTPWithUser now user (ta_TOTPCode req) (s, []) =
      (Inr True, s\<lparr> totp_secrets := update_where (\<lambda>r. ts_ID r = i) (used_device now) (totp_secrets s) \<rparr>, [])" (is "_ = (_, ?s, _)")
    using LoginWithTOTPWithUser_accepts [OF d] by blast
  have only: "open_row (ta_UserCode req) r \<longleftrightarrow> r = dc" if "r \<in> set (device_codes s)" for r
    using device_inv_user_code [OF inv that dc(1)] dc(2) typed by (auto simp: open_row_def)
  then have ex: "(\<exists>r \<in> set (device_codes s). open_row (ta_UserCode req) r) = True" using dc(1) by blast
  have rows: "update_where (open_row (ta_UserCode req)) f (device_codes s) = update_where (\<lambda>r. r = dc) f (device_codes s)" for f
    using only by (intro update_where_cong) simp
  let ?cid = "case dc_ClientID dc of Some k \<Rightarrow> Some k | None \<Rightarrow> Some (us_ClientID user)"
  let ?s1 = "?s\<lparr> device_codes := update_where (\<lambda>r. r = dc)
        (decided_row now (us_ID user) (us_Email user) (us_TenantID user) (tn_TenantDomain tenant) ?cid token True) (device_codes s) \<rparr>"
  have "http_ApproveDeviceCodeWithTOTP tokens sign now ctx (Inr req) (s, []) =
      (\<lparr> http_status = 200,
         http_body = TApproval \<lparr> tar_Success = True, tar_Message = ''Device approved successfully'', tar_Token = token \<rparr>,
         http_audit = [Audit ctx ''totp'' (us_ID user) ''approve_device''] \<rparr>, ?s1, [])"
    using device_inv_find_user_code [OF inv dc(1) typed] live dc(2) user tenant tok login
    by (simp add: http_ApproveDeviceCodeWithTOTP_def GetUserByEmail_fault_free GetTenantByID_fault_free FindByUserCode_ok
        AuthorizeDeviceCode_ok ex rows)
  then show ?thesis by (intro exI [of _ ?s1] exI conjI) (assumption | simp)+
qed


text \<open>
  Authenticator approval feeds the device flow: when a user approves a pending device code with a valid
  authenticator code, the endpoint returns a token signed for that user, and the device's next due poll
  within the lifetime returns exactly the same token, with the user's id, address and tenant.
\<close>

theorem totp_device_approval_polls:
  assumes "device_inv s" and "dc \<in> set (device_codes s)" and "dc_Status dc = ''pending''"
    and "normal_code (ta_UserCode req) = normal_code (dc_UserCode dc)" and "\<not> dc_IsExpired now dc"
    and "List.find (\<lambda>u. ToLower (us_Email u) = ToLower (ta_Email req)) (users s) = Some user"
    and "List.find (\<lambda>t. tn_TenantID t = us_TenantID user) (tenants s) = Some tenant"
    and "d \<in> set (totp_secrets s)" and "ts_UserID d = us_ID user" and "ts_TenantID d = us_TenantID user" and "ts_IsActive d"
    and "ValidateTOTPCode now (ts_Secret d) (ta_TOTPCode req)"
    and "totp_generateJWTToken tokens sign now user tenant = Inr token" and "token \<noteq> []"
    and "\<not> dc_IsExpired now' dc" and "poll_due now' (ds_pollingInterval svc) dc"
  shows "\<exists>rep s1 resp s2.
    http_ApproveDeviceCodeWithTOTP tokens sign now ctx (Inr req) (s, []) = (rep, s1, []) \<and> http_status rep = 200 \<and>
    http_body rep = TApproval \<lparr> tar_Success = True, tar_Message = ''Device approved successfully'', tar_Token = token \<rparr> \<and>
    device_PollForToken svc now' (dc_DeviceCode dc) (s1, []) = (Inr resp, s2, []) \<and> dt_AccessToken resp = token \<and>
    dt_UserID resp = us_ID user \<and> dt_Email resp = us_Email user \<and> dt_TenantID resp = us_TenantID user"
proof -
  obtain rep s1 cid where ap: "http_ApproveDeviceCodeWithTOTP tokens sign now ctx (Inr req) (s, []) = (rep, s1, [])"
    "http_status rep = 200"
    "http_body rep = TApproval \<lparr> tar_Success = True, tar_Message = ''Device approved successfully'', tar_Token = token \<rparr>"
    and s1: "device_codes s1 = update_where (\<lambda>r. r = dc)
      (decided_row now (us_ID user) (us_Email user) (us_TenantID user) (tn_TenantDomain tenant) cid token True) (device_codes s)"
    using http_ApproveDeviceCodeWithTOTP_accepts [OF assms(1-13)] by blast
  let ?row = "decided_row now (us_ID user) (us_Email user) (us_TenantID user) (tn_TenantDomain tenant) cid token True"
  have keys: "map dc_DeviceCode (device_codes s1) = map dc_DeviceCode (device_codes s)"
      "map dc_UserCode (device_codes s1) = map dc_UserCode (device_codes s)"
    unfolding s1 by (simp_all add: map_update_where decided_row_def)
  have "\<forall>r \<in> set (device_codes s1). dc_Status r \<in> device_statuses \<and> user_code_form (dc_UserCode r)"
    using assms(1) unfolding device_inv_def s1 by (auto simp: update_where_def decided_row_def device_statuses_def)
  with assms(1) have inv: "device_inv s1" by (simp add: device_inv_def keys)
  have at: "List.find (\<lambda>r. dc_DeviceCode r = dc_DeviceCode dc) (device_codes s1) = Some (?row dc)"
    using device_inv_find_code [OF assms(1,2)] unfolding s1 by (simp add: find_update_where decided_row_def)
  have "device_poll_reply svc now' [] (Some (?row dc)) = Inr (device_token_response (?row dc))"
    using assms(14-16) by (simp add: device_poll_reply_def device_status_reply_def redeemable_def decided_row_def
        dc_IsExpired_def poll_due_def)
  with device_PollForToken_ok [OF inv, of svc now' "dc_DeviceCode dc"] at
  have "\<exists>s2. device_PollForToken svc now' (dc_DeviceCode dc) (s1, []) = (Inr (device_token_response (?row dc)), s2, [])" by simp
  moreover have "dt_AccessToken (device_token_response (?row dc)) = token \<and> dt_UserID (device_token_response (?row dc)) = us_ID user \<and>
      dt_Email (device_token_response (?row dc)) = us_Email user \<and> dt_TenantID (device_token_response (?row dc)) = us_TenantID user"
    by (simp add: device_token_response_def decided_row_def)
  ultimately show ?thesis using ap by blast
qed

section \<open>Shortfalls\<close>

lemma ValidateTOTPCode_same_step:
  assumes "30 * Second \<le> now" and "30 * Second \<le> now'" and "Unix now' div 30 = Unix now div 30"
  shows "ValidateTOTPCode now' secret code = ValidateTOTPCode now secret code"
  using assms by (simp add: ValidateTOTPCode_iff)

text \<open>
  Authenticator codes can be replayed: a code that was accepted once is accepted again from everybody who presents it
  within the same half minute; nothing of the first use is remembered that the second checks.
\<close>

theorem totp_code_replayed:
  assumes "LoginWithTOTPWithUser now user code (s, []) = (Inr True, s1, [])"
    and "30 * Second \<le> now" and "30 * Second \<le> now'" and "Unix now' div 30 = Unix now div 30"
  shows "\<exists>s2. LoginWithTOTPWithUser now' user code (s1, []) = (Inr True, s2, [])"
proof -
  obtain d where d: "d \<in> set (totp_secrets s)" "ts_UserID d = us_ID user" "ts_TenantID d = us_TenantID user"
    "ts_IsActive d" "ValidateTOTPCode now (ts_Secret d) code"
    using LoginWithTOTPWithUser_True [OF assms(1)] by auto
  obtain i where "s1 = s\<lparr> totp_secrets := update_where (\<lambda>r. ts_ID r = i) (used_device now) (totp_secrets s) \<rparr>"
    using LoginWithTOTPWithUser_accepts [OF d] assms(1) by auto
  with d(1) have "(if ts_ID d = i then used_device now d else d) \<in> set (totp_secrets s1)" by (auto simp: update_where_def)
  moreover have "ValidateTOTPCode now' (ts_Secret d) code" using ValidateTOTPCode_same_step [OF assms(2-4)] d(5) by simp
  ultimately show ?thesis
    using LoginWithTOTPWithUser_accepts [of "if ts_ID d = i then used_device now d else d" s1 user now' code] d(2-4)
    by (auto simp: used_device_def split: if_splits)
qed

text \<open>
  A deactivated user can log in: the login endpoint does not look at the user's \<^verbatim>\<open>active\<close> flag, so a user
  whose account was deactivated still gets a token with an authenticator code.
\<close>

theorem totp_login_ignores_deactivation:
  assumes "List.find (\<lambda>u. ToLower (us_Email u) = ToLower (tl_Email req)) (users s) = Some user" and "\<not> us_Active user"
    and "List.find (\<lambda>t. tn_TenantID t = us_TenantID user) (tenants s) = Some tenant"
    and "d \<in> set (totp_secrets s)" and "ts_UserID d = us_ID user" and "ts_TenantID d = us_TenantID user" and "ts_IsActive d"
    and "ValidateTOTPCode now (ts_Secret d) (tl_TOTPCode req)"
    and "totp_generateJWTToken tokens sign now user tenant = Inr token"
  shows "\<exists>rep s1. http_LoginWithTOTP tokens sign now ctx (Inr req) (s, []) = (rep, s1, []) \<and> http_status rep = 200 \<and>
           http_body rep = TLogin \<lparr> tlr_Success = True, tlr_Token = token, tlr_Message = ''Login successful'' \<rparr>"
  using LoginWithTOTPWithUser_accepts [OF assms(4-8)] assms(1,3,9)
  by (auto simp: http_LoginWithTOTP_def GetUserByEmail_fault_free GetTenantByID_fault_free)

text \<open>
  Naming an unknown device as primary succeeds and takes the flag from every device of the user: the
  repository does not check that its second statement touched a row.
\<close>

theorem totp_unknown_primary_clears:
  assumes "\<forall>r \<in> set (totp_secrets s). ts_ID r \<noteq> i" and "distinct (primaries (totp_secrets s))"
  shows "\<exists>s1. SetPrimaryDevice now i u t (s, []) = (Inr (), s1, []) \<and>
           (\<forall>r \<in> set (totp_secrets s1). \<not> (ts_UserID r = u \<and> ts_TenantID r = t \<and> ts_IsPrimary r)) \<and>
           GetPrimaryTOTPSecret u t (s1, []) = (Inr None, s1, [])"
proof -
  let ?t1 = "update_where (\<lambda>r. ts_UserID r = u \<and> ts_TenantID r = t) (\<lambda>r. r\<lparr> ts_IsPrimary := False \<rparr>) (totp_secrets s)"
  let ?s1 = "s\<lparr> totp_secrets := ?t1 \<rparr>"
  have "map ts_ID ?t1 = map ts_ID (totp_secrets s)" by (simp add: map_update_where)
  with assms(1) have "i \<notin> ts_ID ` set ?t1" by (metis (no_types, lifting) imageE list.set_map)
  then have "\<forall>r \<in> set ?t1. \<not> (ts_ID r = i \<and> ts_UserID r = u \<and> ts_TenantID r = t)" by blast
  from update_where_none [OF this]
  have "update_where (\<lambda>r. ts_ID r = i \<and> ts_UserID r = u \<and> ts_TenantID r = t) f ?t1 = ?t1" for f .
  then have "SetPrimaryDevice now i u t (s, []) = (Inr (), ?s1, [])"
    using primaries_cleared [OF assms(2)]
    by (simp add: SetPrimaryDevice_def SetPrimaryTOTPSecret_def sql_simps Let_def)
  moreover have none: "\<forall>r \<in> set (totp_secrets ?s1). \<not> (ts_UserID r = u \<and> ts_TenantID r = t \<and> ts_IsPrimary r)"
    by (simp add: set_update_where ball_Un) blast
  moreover have "List.find (\<lambda>r. ts_UserID r = u \<and> ts_TenantID r = t \<and> ts_IsActive r \<and> ts_IsPrimary r) (totp_secrets ?s1) = None"
    using none unfolding find_None_iff by blast
  then have "GetPrimaryTOTPSecret u t (?s1, []) = (Inr None, ?s1, [])"
    by (simp add: GetPrimaryTOTPSecret_def sql_simps select_row_def)
  ultimately show ?thesis by blast
qed

section \<open>Examples\<close>

text \<open>A secret of twenty zero bytes, its confirmed device, and a database that holds it beside a pending device code.\<close>

definition ex_totp_secret :: string where
  "ex_totp_secret = b32_EncodeToString (map (\<lambda>_. 0) [0..<20])"

definition ex_totp_device :: TOTPSecret where
  "ex_totp_device =
     \<lparr> ts_ID = ''dev-1'', ts_UserID = ''u-1'', ts_TenantID = ''t-1'', ts_Secret = ex_totp_secret,
       ts_DeviceName = ''phone'', ts_DeviceType = ''generic'', ts_LastUsed = None, ts_IsActive = True,
       ts_IsPrimary = True, ts_CreatedAt = 0, ts_UpdatedAt = 0 \<rparr>"

definition ex_totp_db :: totp_db where
  "ex_totp_db =
     \<lparr> tenants = [ex_tenant], users = [ex_user], device_codes = [ex_device_row\<lparr> dc_Status := ''pending'' \<rparr>],
       totp_secrets = [], totp_backup_codes = [] \<rparr>"

abbreviation ex_code :: "gotime \<Rightarrow> string" where
  "ex_code now \<equiv> generateTOTP ex_totp_secret (Unix now div 30)"

lemma ex_code_valid: "30 * Second \<le> now \<Longrightarrow> ValidateTOTPCode now ex_totp_secret (ex_code now)"
  by (rule current_code_valid)

theorem generateTOTP_rfc4226_witness:
  "length (generateTOTP (b32_EncodeToString (bytes_of ''12345678901234567890'')) 1) = 6 \<and>
   generateTOTP (b32_EncodeToString (bytes_of ''12345678901234567890'')) 1 =
     fmt_06d (rfc4226_truncate (hmac_sha1 (bytes_of ''12345678901234567890'') (PutUint64 1)))"
  using generateTOTP_rfc4226 [OF b32_roundtrip, of "bytes_of ''12345678901234567890''" 1]
  unfolding of_int_1 by blast

theorem ValidateTOTPCode_window_witness:
  "ValidateTOTPCode (60 * Second) ex_totp_secret (generateTOTP ex_totp_secret 3)"
proof -
  have "Unix (60 * Second) = 60" by (simp add: Unix_def Second_def)
  then show ?thesis
    using ValidateTOTPCode_window [of "60 * Second" ex_totp_secret "generateTOTP ex_totp_secret 3"]
    by (auto simp: Second_def)
qed

lemma backup_codes_total: "\<forall>i \<in> set is. rnds i \<noteq> None \<Longrightarrow> \<exists>codes. backup_codes rnds is = Inr codes \<and> length codes = length is"
  by (induction "is") auto

lemma GenerateBackupCodes_total: "\<exists>code codes. GenerateBackupCodes (\<lambda>_. Some b) = Inr (code # codes)"
proof -
  obtain codes where "GenerateBackupCodes (\<lambda>_. Some b) = Inr codes" and "length codes = 10"
    using backup_codes_total [of "[0..<10]" "\<lambda>_. Some b"] by (auto simp: GenerateBackupCodes_def)
  then show ?thesis by (cases codes) simp_all
qed

text \<open>A registration whose first backup code is lost: the device is stored all the same.\<close>

abbreviation ex_register :: totp_op where
  "ex_register \<equiv> TRegister 0 (Some (\<lambda>_. 0)) (\<lambda>_. Some (\<lambda>_. 0)) ''dev-1'' (\<lambda>_. ''b-1'') ''u-1'' ''t-1'' ''a@x.io'' ''phone'' ''generic''"

definition ex_unconfirmed :: totp_db where
  "ex_unconfirmed = ex_totp_db\<lparr> totp_secrets := [ex_totp_device\<lparr> ts_IsActive := False, ts_IsPrimary := False \<rparr>] \<rparr>"

lemma ex_register_run:
  "totp_RegisterDevice 0 (Some (\<lambda>_. 0)) (\<lambda>_. Some (\<lambda>_. 0)) ''dev-1'' (\<lambda>_. ''b-1'') ''u-1'' ''t-1'' ''a@x.io'' ''phone''
     ''generic'' (ex_totp_db, [Applied, Lost]) =
   (Inl (Wrap ''failed to save backup code: '' DBError), ex_unconfirmed, [])"
proof -
  obtain code codes where "GenerateBackupCodes (\<lambda>_. Some (\<lambda>_. 0)) = Inr (code # codes)"
    using GenerateBackupCodes_total by blast
  then show ?thesis
    by (simp add: totp_RegisterDevice_def GenerateSecret_def CreateTOTPSecret_def CreateBackupCode_def exec_checked_def
        wrap_err_def Let_def nil_uuid_def ex_unconfirmed_def ex_totp_db_def ex_totp_device_def ex_totp_secret_def
        primaries_def Unix_def)
qed

lemma ex_confirm:
  "ConfirmRegistration (60 * Second) ''dev-1'' ''u-1'' ''t-1'' (ex_code (60 * Second)) (ex_unconfirmed, []) =
   (Inr \<lparr> tcr_Success = True, tcr_Message = ''Device registered successfully'', tcr_DeviceID = ''dev-1'',
          tcr_DeviceName = ''phone'' \<rparr>,
    ex_unconfirmed\<lparr> totp_secrets := [ex_totp_device\<lparr> ts_UpdatedAt := 60 \<rparr>] \<rparr>, [])"
  using ex_code_valid [of "60 * Second"]
  by (simp add: ConfirmRegistration_def GetTOTPSecretByID_def GetUserTOTPSecrets_def UpdateTOTPSecret_def ex_unconfirmed_def
      ex_totp_device_def active_secrets_def primaries_def sql_simps select_row_def update_where_def wrap_err_def Let_def
      Second_def Unix_def)


text \<open>The database after the confirmation, with any column of the user changed.\<close>

definition ex_live :: "bool \<Rightarrow> totp_db" where
  "ex_live active =
     ex_unconfirmed\<lparr> users := [ex_user\<lparr> us_Active := active \<rparr>], totp_secrets := [ex_totp_device\<lparr> ts_UpdatedAt := 60 \<rparr>] \<rparr>"

lemma ex_live_confirmed: "ex_unconfirmed\<lparr> totp_secrets := [ex_totp_device\<lparr> ts_UpdatedAt := 60 \<rparr>] \<rparr> = ex_live True"
  by (simp add: ex_live_def ex_unconfirmed_def ex_totp_db_def ex_user_def)

lemma ex_live_rows:
  "List.find (\<lambda>u. ToLower (us_Email u) = ToLower ''a@x.io'') (users (ex_live a)) = Some (ex_user\<lparr> us_Active := a \<rparr>)"
  "List.find (\<lambda>t. tn_TenantID t = us_TenantID (ex_user\<lparr> us_Active := a \<rparr>)) (tenants (ex_live a)) = Some ex_tenant"
  "ex_totp_device\<lparr> ts_UpdatedAt := 60 \<rparr> \<in> set (totp_secrets (ex_live a))"
  by (simp_all add: ex_live_def ex_unconfirmed_def ex_totp_db_def ex_user_def ex_tenant_def zero_user_def)

lemma ex_totp_device_of_user:
  "ts_UserID (ex_totp_device\<lparr> ts_UpdatedAt := 60 \<rparr>) = us_ID (ex_user\<lparr> us_Active := a \<rparr>)"
  "ts_TenantID (ex_totp_device\<lparr> ts_UpdatedAt := 60 \<rparr>) = us_TenantID (ex_user\<lparr> us_Active := a \<rparr>)"
  "ts_IsActive (ex_totp_device\<lparr> ts_UpdatedAt := 60 \<rparr>)" "ts_Secret (ex_totp_device\<lparr> ts_UpdatedAt := 60 \<rparr>) = ex_totp_secret"
  by (simp_all add: ex_totp_device_def ex_user_def)

lemma ex_device_valid: "30 * Second \<le> now \<Longrightarrow> ValidateTOTPCode now (ts_Secret (ex_totp_device\<lparr> ts_UpdatedAt := 60 \<rparr>)) (ex_code now)"
  unfolding ex_totp_device_of_user(4) by (rule ex_code_valid)

lemma ex_login:
  assumes "30 * Second \<le> now"
  obtains s1 where "LoginWithTOTPWithUser now (ex_user\<lparr> us_Active := a \<rparr>) (ex_code now) (ex_live a, []) = (Inr True, s1, [])"
    and "tenants s1 = tenants (ex_live a)"
proof -
  from LoginWithTOTPWithUser_accepts [OF ex_live_rows(3) [of a] ex_totp_device_of_user(1,2) [of a] ex_totp_device_of_user(3)
      ex_device_valid [OF assms]]
  obtain i where "LoginWithTOTPWithUser now (ex_user\<lparr> us_Active := a \<rparr>) (ex_code now) (ex_live a, []) =
     (Inr True, ex_live a\<lparr> totp_secrets := update_where (\<lambda>r. ts_ID r = i) (used_device now) (totp_secrets (ex_live a)) \<rparr>, [])" by blast
  then show thesis by (rule that) simp
qed

lemma ex_minute: "30 * Second \<le> 60 * Second" "30 * Second \<le> 61 * Second" "30 * Second \<le> 90 * Second"
  by (simp_all add: Second_def)

lemma ex_totp_token: "\<exists>token. token \<noteq> [] \<and> totp_generateJWTToken ex_tokens ex_sign now user tenant = Inr token"
  using ex_sign_total by (simp add: totp_generateJWTToken_def GenerateTOTPToken_def GenerateToken_def generateTokenWithType_Inr_iff)

theorem totp_enrol_confirm_login_witness:
  "\<exists>s2 s3 conf.
     ConfirmRegistration (60 * Second) ''dev-1'' ''u-1'' ''t-1'' (ex_code (60 * Second)) (ex_unconfirmed, []) =
       (Inr conf, s2, []) \<and>
     LoginWithTOTPWithUser (90 * Second) ex_user (ex_code (90 * Second)) (s2, []) = (Inr True, s3, [])"
proof -
  have "totp_ok {} ex_totp_db" by (simp add: ex_totp_db_def secrets_ok_def primaries_def)
  moreover have "totp_secrets ex_unconfirmed \<noteq> totp_secrets ex_totp_db" by (simp add: ex_unconfirmed_def ex_totp_db_def)
  moreover have "us_ID ex_user = ''u-1''" "us_TenantID ex_user = ''t-1''" by (simp_all add: ex_user_def)
  ultimately show ?thesis
    using totp_enrol_confirm_login [of "{}" ex_totp_db 0 "\<lambda>_. 0" "\<lambda>_. Some (\<lambda>_. 0)" "''dev-1''" "\<lambda>_. ''b-1''" ex_user
        "''a@x.io''" "''phone''" "''generic''" "[Applied, Lost]" _ ex_unconfirmed "[]" "60 * Second" "90 * Second"] ex_register_run
    by (simp add: ex_totp_secret_def ex_totp_db_def Second_def)
qed

theorem totp_code_replayed_witness:
  "\<exists>s2. LoginWithTOTPWithUser (61 * Second) (ex_user\<lparr> us_Active := True \<rparr>) (ex_code (60 * Second))
     (snd (LoginWithTOTPWithUser (60 * Second) (ex_user\<lparr> us_Active := True \<rparr>) (ex_code (60 * Second)) (ex_live True, []))) =
     (Inr True, s2, [])"
proof -
  obtain s1 where first: "LoginWithTOTPWithUser (60 * Second) (ex_user\<lparr> us_Active := True \<rparr>) (ex_code (60 * Second)) (ex_live True, []) =
      (Inr True, s1, [])" using ex_login [OF ex_minute(1), of True] by blast
  have "Unix (61 * Second) div 30 = Unix (60 * Second) div 30" by (simp add: Second_def Unix_def)
  from totp_code_replayed [OF first ex_minute(1,2) this] show ?thesis unfolding first snd_conv .
qed

theorem totp_login_ignores_deactivation_witness:
  "\<exists>token rep s1. http_LoginWithTOTP ex_tokens ex_sign (60 * Second) (\<lambda>_. None)
       (Inr \<lparr> tl_Email = ''a@x.io'', tl_TOTPCode = ex_code (60 * Second) \<rparr>) (ex_live False, []) = (rep, s1, []) \<and>
     http_status rep = 200 \<and>
     http_body rep = TLogin \<lparr> tlr_Success = True, tlr_Token = token, tlr_Message = ''Login successful'' \<rparr>"
proof -
  let ?req = "\<lparr> tl_Email = ''a@x.io'', tl_TOTPCode = ex_code (60 * Second) \<rparr>"
  obtain token where tok: "totp_generateJWTToken ex_tokens ex_sign (60 * Second) (ex_user\<lparr> us_Active := False \<rparr>) ex_tenant = Inr token"
    using ex_totp_token by blast
  have "ValidateTOTPCode (60 * Second) (ts_Secret (ex_totp_device\<lparr> ts_UpdatedAt := 60 \<rparr>)) (tl_TOTPCode ?req)"
    using ex_device_valid [OF ex_minute(1)] by simp
  moreover have "List.find (\<lambda>u. ToLower (us_Email u) = ToLower (tl_Email ?req)) (users (ex_live False)) = Some (ex_user\<lparr> us_Active := False \<rparr>)"
    using ex_live_rows(1) by simp
  moreover have "\<not> us_Active (ex_user\<lparr> us_Active := False \<rparr>)" by simp
  ultimately show ?thesis
    using totp_login_ignores_deactivation [OF _ _ ex_live_rows(2,3) ex_totp_device_of_user(1-3) _ tok, of ?req "\<lambda>_. None"] by blast
qed

lemma ex_live_inv: "device_inv (ex_live a)"
proof -
  have "user_code_form ''AAAA-AAAA''"
    unfolding user_code_form_def by (intro exI [of _ "''AAAA''"]) (simp add: user_code_charset_def)
  then show ?thesis
    by (simp add: device_inv_def ex_live_def ex_unconfirmed_def ex_totp_db_def ex_device_row_def device_statuses_def)
qed

theorem totp_device_approval_polls_witness:
  "\<exists>token rep s1 resp s2.
    http_ApproveDeviceCodeWithTOTP ex_tokens ex_sign (60 * Second) (\<lambda>_. None)
      (Inr \<lparr> ta_UserCode = ''AAAAAAAA'', ta_Email = ''a@x.io'', ta_TOTPCode = ex_code (60 * Second) \<rparr>) (ex_live True, []) =
      (rep, s1, []) \<and> http_status rep = 200 \<and>
    http_body rep = TApproval \<lparr> tar_Success = True, tar_Message = ''Device approved successfully'', tar_Token = token \<rparr> \<and>
    device_PollForToken ex_device_svc (65 * Second) ''k'' (s1, []) = (Inr resp, s2, []) \<and> dt_AccessToken resp = token \<and>
    dt_UserID resp = ''u-1''"
proof -
  let ?req = "\<lparr> ta_UserCode = ''AAAAAAAA'', ta_Email = ''a@x.io'', ta_TOTPCode = ex_code (60 * Second) \<rparr>"
  let ?dc = "ex_device_row\<lparr> dc_Status := ''pending'' \<rparr>" and ?user = "ex_user\<lparr> us_Active := True \<rparr>"
  obtain token where tok: "totp_generateJWTToken ex_tokens ex_sign (60 * Second) ?user ex_tenant = Inr token" "token \<noteq> []"
    using ex_totp_token by blast
  have dc: "?dc \<in> set (device_codes (ex_live True))" by (simp add: ex_live_def ex_unconfirmed_def ex_totp_db_def)
  have "normal_code ''AAAAAAAA'' = normal_code ''AAAA-AAAA''" by code_simp
  then have code: "normal_code (ta_UserCode ?req) = normal_code (dc_UserCode ?dc)" by (simp add: ex_device_row_def)
  have live: "\<not> dc_IsExpired (60 * Second) ?dc" "\<not> dc_IsExpired (65 * Second) ?dc"
    "poll_due (65 * Second) (ds_pollingInterval ex_device_svc) ?dc" "dc_Status ?dc = ''pending''"
    by (simp_all add: dc_IsExpired_def poll_due_def ex_device_row_def Unix_def Second_def)
  have user: "List.find (\<lambda>u. ToLower (us_Email u) = ToLower (ta_Email ?req)) (users (ex_live True)) = Some ?user"
    using ex_live_rows(1) by simp
  have valid: "ValidateTOTPCode (60 * Second) (ts_Secret (ex_totp_device\<lparr> ts_UpdatedAt := 60 \<rparr>)) (ta_TOTPCode ?req)"
    using ex_device_valid [OF ex_minute(1)] by simp
  have names: "dc_DeviceCode ?dc = ''k''" "us_ID ?user = ''u-1''" by (simp_all add: ex_device_row_def ex_user_def)
  from totp_device_approval_polls [OF ex_live_inv dc live(4) code live(1) user ex_live_rows(2,3) ex_totp_device_of_user(1-3) valid tok
      live(2,3), of "\<lambda>_. None"]
  obtain rep s1 resp s2 where
    "http_ApproveDeviceCodeWithTOTP ex_tokens ex_sign (60 * Second) (\<lambda>_. None) (Inr ?req) (ex_live True, []) = (rep, s1, [])"
    "http_status rep = 200"
    "http_body rep = TApproval \<lparr> tar_Success = True, tar_Message = ''Device approved successfully'', tar_Token = token \<rparr>"
    "device_PollForToken ex_device_svc (65 * Second) ''k'' (s1, []) = (Inr resp, s2, [])" "dt_AccessToken resp = token"
    "dt_UserID resp = ''u-1''"
    unfolding names by (elim exE conjE)
  then show ?thesis by (intro exI conjI)
qed

theorem totp_unknown_primary_clears_witness:
  "\<exists>s1. SetPrimaryDevice 0 ''dev-2'' ''u-1'' ''t-1'' (ex_live True, []) = (Inr (), s1, []) \<and>
     GetPrimaryTOTPSecret ''u-1'' ''t-1'' (s1, []) = (Inr None, s1, [])"
  using totp_unknown_primary_clears [of "ex_live True" "''dev-2''" 0 "''u-1''" "''t-1''"]
  by (auto simp: ex_live_def ex_totp_device_def primaries_def)

text \<open>A code that is drawn once and offered twice.\<close>

theorem backup_codes_single_use_witness:
  "length (replies_with (code_accepted (HashBackupCode ''0000000000000000''))
     (snd (run totp_step [ex_register, TBackup 0 ''u-1'' ''t-1'' ''0000000000000000'', TBackup 1 ''u-1'' ''t-1'' ''0000000000000000''] ex_totp_db))) \<le> 1"
proof -
  let ?code = "''0000000000000000''"
  let ?ops = "[ex_register, TBackup 0 ''u-1'' ''t-1'' ?code, TBackup 1 ''u-1'' ''t-1'' ?code]"
  have "totp_backup_codes ex_totp_db = []" by (simp add: ex_totp_db_def)
  note backup_codes_single_use [OF this, of "HashBackupCode ?code" ?ops]
  also have "length (filter (code_renews h) ?ops) \<le> 1" for h by simp
  finally show ?thesis .
qed

theorem totp_login_backed_witness:
  "\<exists>rep c' user tenant token.
     http_LoginWithTOTP ex_tokens ex_sign (90 * Second) (\<lambda>_. None)
       (Inr \<lparr> tl_Email = ''a@x.io'', tl_TOTPCode = ex_code (90 * Second) \<rparr>)
       (fst (run totp_handle [ex_register, TConfirm (60 * Second) ''dev-1'' ''u-1'' ''t-1'' (ex_code (60 * Second))]
              (ex_totp_db, [Applied, Lost]))) = (rep, c') \<and>
     http_status rep = 200 \<and> totp_generateJWTToken ex_tokens ex_sign (90 * Second) user tenant = Inr token \<and>
     http_body rep = TLogin \<lparr> tlr_Success = True, tlr_Token = token, tlr_Message = ''Login successful'' \<rparr>"
proof -
  let ?ops = "[ex_register, TConfirm (60 * Second) ''dev-1'' ''u-1'' ''t-1'' (ex_code (60 * Second))]"
  let ?req = "\<lparr> tl_Email = ''a@x.io'', tl_TOTPCode = ex_code (90 * Second) \<rparr>" and ?user = "ex_user\<lparr> us_Active := True \<rparr>"
  have run: "fst (run totp_handle ?ops (ex_totp_db, [Applied, Lost])) = (ex_live True, [])"
    using ex_register_run ex_confirm by (simp add: reply_def ex_live_confirmed)
  obtain s1 where "LoginWithTOTPWithUser (90 * Second) ?user (tl_TOTPCode ?req) (ex_live True, []) = (Inr True, s1, [])"
    and "tenants s1 = tenants (ex_live True)" using ex_login [OF ex_minute(3), of True] by auto
  moreover obtain token where "totp_generateJWTToken ex_tokens ex_sign (90 * Second) ?user ex_tenant = Inr token"
    using ex_totp_token by blast
  ultimately obtain rep c' where "http_LoginWithTOTP ex_tokens ex_sign (90 * Second) (\<lambda>_. None) (Inr ?req) (ex_live True, []) = (rep, c')"
    and "http_status rep = 200"
    using ex_live_rows(1,2) by (simp add: http_LoginWithTOTP_def GetUserByEmail_fault_free GetTenantByID_fault_free)
  then have login: "http_LoginWithTOTP ex_tokens ex_sign (90 * Second) (\<lambda>_. None) (Inr ?req)
      (fst (run totp_handle ?ops (ex_totp_db, [Applied, Lost]))) = (rep, c')" unfolding run by blast
  have "totp_secrets ex_totp_db = []" by (simp add: ex_totp_db_def)
  from totp_login_backed [OF this login \<open>http_status rep = 200\<close>] login \<open>http_status rep = 200\<close> show ?thesis by blast
qed

end
