(* ===== verification/Rbac.thy ===== *)
theory Rbac
  imports Authz "HOL-Library.List_Lexorder" "HOL-Library.Char_ord"
begin

text \<open>
  Roles and permissions: the rows of \<^verbatim>\<open>models/rbac_scoped.go\<close>, the operations of \<^verbatim>\<open>services/rbac_service.go\<close>
  with the policy decision point, and the readers of \<^verbatim>\<open>services/permission_service.go\<close> that put a user's
  scopes into tokens.

  \<^item> \<open>newID\<close> is the value of \<^verbatim>\<open>uuid.New()\<close> or the id the database draws.
  \<^item> Constraints: ids are unique, a role name is unique in its tenant, a pair of resource and action is unique
    in its tenant, a role holds a permission once, a link needs its role and its permission, a binding
    names a role of its tenant and exactly one principal (migrations 054 and 063). Deleting a role or a
    permission deletes what refers to it.
  \<^item> \<^verbatim>\<open>ORDER BY\<close> on text is the order of the characters.
\<close>

section \<open>Data model\<close>

record RBACRole =
  rl_ID :: uuid
  rl_TenantID :: "uuid option"
  rl_Name :: string
  rl_Description :: string
  rl_IsSystem :: bool
  rl_CreatedAt :: gotime

record RBACPermission =
  pm_ID :: uuid
  pm_TenantID :: "uuid option"
  pm_Resource :: string
  pm_Action :: string
  pm_Description :: string
  pm_CreatedAt :: gotime

record RolePermission =
  rlp_RoleID :: uuid
  rlp_PermissionID :: uuid

record RoleBinding =
  rb_ID :: uuid
  rb_TenantID :: "uuid option"
  rb_UserID :: "uuid option"
  rb_Username :: string
  rb_ServiceAccountID :: "uuid option"
  rb_RoleID :: uuid
  rb_RoleName :: string
  rb_ScopeType :: "string option"
  rb_ScopeID :: "uuid option"
  rb_Conditions :: string
  rb_ExpiresAt :: "gotime option"
  rb_CreatedBy :: "uuid option"
  rb_CreatedAt :: gotime

record PolicyCheckResult =
  pcr_Allowed :: bool
  pcr_Trace :: string

record Permission =
  pe_Resource :: string
  pe_Actions :: "string list"

record rbac_db =
  roles :: "RBACRole list"
  permissions :: "RBACPermission list"
  role_permissions :: "RolePermission list"
  role_bindings :: "RoleBinding list"

section \<open>Roles and permissions\<close>

text \<open>A key with a NULL part never violates a unique constraint.\<close>

definition same_key :: "uuid option \<Rightarrow> uuid option \<Rightarrow> bool" where
  "same_key a b \<longleftrightarrow> a \<noteq> None \<and> a = b"

definition ListPermissions ::
  "string \<Rightarrow> 'a rbac_db_scheme conn \<Rightarrow> (go_error + RBACPermission list) \<times> 'a rbac_db_scheme conn" where
  "ListPermissions resource c =
     query (\<lambda>s. filter (\<lambda>p. resource = [] \<or> pm_Resource p = resource) (permissions s)) c"

definition DeletePermission ::
  "uuid \<Rightarrow> 'a rbac_db_scheme conn \<Rightarrow> (go_error + unit) \<times> 'a rbac_db_scheme conn" where
  "DeletePermission permID c =
     exec (\<lambda>s. (s\<lparr> permissions := delete_where (\<lambda>p. pm_ID p = permID) (permissions s),
                   role_permissions := delete_where (\<lambda>l. rlp_PermissionID l = permID) (role_permissions s) \<rparr>, ())) c"

definition DeleteRole ::
  "uuid \<Rightarrow> 'a rbac_db_scheme conn \<Rightarrow> (go_error + unit) \<times> 'a rbac_db_scheme conn" where
  "DeleteRole roleID c =
     exec (\<lambda>s. (s\<lparr> roles := delete_where (\<lambda>r. rl_ID r = roleID) (roles s),
                   role_permissions := delete_where (\<lambda>l. rlp_RoleID l = roleID) (role_permissions s),
                   role_bindings := delete_where (\<lambda>b. rb_RoleID b = roleID) (role_bindings s) \<rparr>, ())) c"

text \<open>The role, then the links and the permissions that \<^verbatim>\<open>Preload\<close> reads.\<close>

definition GetRole ::
  "uuid \<Rightarrow> 'a rbac_db_scheme conn \<Rightarrow> (go_error + RBACRole \<times> RBACPermission list) \<times> 'a rbac_db_scheme conn" where
  "GetRole roleID c =
     (case query_row (\<lambda>s. select_row (\<lambda>r. rl_ID r = roleID) (roles s)) c of
        (Inl e, c1) \<Rightarrow> (Inl e, c1)
      | (Inr role, c1) \<Rightarrow>
          (case query (\<lambda>s. filter (\<lambda>l. rlp_RoleID l = rl_ID role) (role_permissions s)) c1 of
             (Inl e, c2) \<Rightarrow> (Inl e, c2)
           | (Inr links, c2) \<Rightarrow>
               if links = [] then (Inr (role, []), c2)
               else (case query (\<lambda>s. filter (\<lambda>p. pm_ID p \<in> set (map rlp_PermissionID links)) (permissions s)) c2 of
                       (Inl e, c3) \<Rightarrow> (Inl e, c3)
                     | (Inr ps, c3) \<Rightarrow> (Inr (role, ps), c3))))"

definition insert_role :: "RBACRole \<Rightarrow> 'a rbac_db_scheme \<Rightarrow> go_error + 'a rbac_db_scheme" where
  "insert_role role s =
     (if \<exists>r \<in> set (roles s). rl_ID r = rl_ID role \<or>
           same_key (rl_TenantID r) (rl_TenantID role) \<and> rl_Name r = rl_Name role
      then Inl DBError else Inr (s\<lparr> roles := roles s @ [role] \<rparr>))"

definition link_ok :: "'a rbac_db_scheme \<Rightarrow> RolePermission \<Rightarrow> bool" where
  "link_ok s l \<longleftrightarrow> (\<exists>r \<in> set (roles s). rl_ID r = rlp_RoleID l) \<and> (\<exists>p \<in> set (permissions s). pm_ID p = rlp_PermissionID l)"

text \<open>One \<^verbatim>\<open>INSERT\<close> with many rows: all of them or none.\<close>

definition insert_links :: "RolePermission list \<Rightarrow> 'a rbac_db_scheme \<Rightarrow> go_error + 'a rbac_db_scheme" where
  "insert_links links s =
     (if distinct (role_permissions s @ links) \<and> list_all (link_ok s) links
      then Inr (s\<lparr> role_permissions := role_permissions s @ links \<rparr>) else Inl DBError)"

definition CreateRoleComposite ::
  "uuid \<Rightarrow> RBACRole \<Rightarrow> uuid list \<Rightarrow> 'a rbac_db_scheme conn \<Rightarrow> (go_error + unit) \<times> 'a rbac_db_scheme conn" where
  "CreateRoleComposite newID role0 permissionIDs c =
     (let role = role0\<lparr> rl_ID := (if rl_ID role0 = nil_uuid then newID else rl_ID role0) \<rparr>
      in in_tx (\<lambda>c0.
           case exec_checked (insert_role role) c0 of
             (Inl e, c1) \<Rightarrow> (Inl e, c1)
           | (Inr _, c1) \<Rightarrow>
               if permissionIDs = [] then (Inr (), c1)
               else exec_checked (insert_links
                      (map (\<lambda>p. \<lparr> rlp_RoleID = rl_ID role, rlp_PermissionID = p \<rparr>) permissionIDs)) c1) c)"

definition insert_binding :: "RoleBinding \<Rightarrow> 'a rbac_db_scheme \<Rightarrow> go_error + 'a rbac_db_scheme" where
  "insert_binding b s =
     (if (\<exists>r \<in> set (role_bindings s). rb_ID r = rb_ID b) \<or>
         (rb_TenantID b \<noteq> None \<and> \<not> (\<exists>r \<in> set (roles s). rl_ID r = rb_RoleID b \<and> rl_TenantID r = rb_TenantID b)) \<or>
         (rb_UserID b = None) = (rb_ServiceAccountID b = None)
      then Inl DBError else Inr (s\<lparr> role_bindings := role_bindings s @ [b] \<rparr>))"

text \<open>
  A failed insert is tried again when its message says that a column is missing (\<open>lacks_column\<close>); PostgreSQL
  refuses every statement of a transaction after one has failed, so the retry fails too.
\<close>

definition AssignRoleScoped ::
  "(go_error \<Rightarrow> bool) \<Rightarrow> uuid \<Rightarrow> RoleBinding \<Rightarrow> 'a rbac_db_scheme conn
     \<Rightarrow> (go_error + unit) \<times> 'a rbac_db_scheme conn" where
  "AssignRoleScoped lacks_column newID binding c =
     (let b = binding\<lparr> rb_ID := (if rb_ID binding = nil_uuid then newID else rb_ID binding) \<rparr>
      in in_tx (\<lambda>c0.
           case exec_checked (insert_binding b) c0 of
             (Inr _, c1) \<Rightarrow> (Inr (), c1)
           | (Inl e, c1) \<Rightarrow>
               if lacks_column e then exec_checked (\<lambda>_. Inl DBError) c1 else (Inl e, c1)) c)"

definition RegisterAtomicPermission ::
  "uuid \<Rightarrow> RBACPermission \<Rightarrow> 'a rbac_db_scheme conn \<Rightarrow> (go_error + unit) \<times> 'a rbac_db_scheme conn" where
  "RegisterAtomicPermission newID perm0 c =
     (let perm = perm0\<lparr> pm_ID := (if pm_ID perm0 = nil_uuid then newID else pm_ID perm0) \<rparr>
      in exec_checked (\<lambda>s.
           if \<exists>p \<in> set (permissions s). pm_ID p = pm_ID perm \<or>
                same_key (pm_TenantID p) (pm_TenantID perm) \<and> pm_Resource p = pm_Resource perm \<and>
                pm_Action p = pm_Action perm
           then Inl DBError else Inr (s\<lparr> permissions := permissions s @ [perm] \<rparr>)) c)"

section \<open>The policy decision point\<close>

text \<open>The join of bindings, roles, links and permissions.\<close>

definition grants_of ::
  "'a rbac_db_scheme \<Rightarrow> (RoleBinding \<times> RBACRole \<times> RBACPermission) list" where
  "grants_of s =
     [(b, r, p). b \<leftarrow> role_bindings s, r \<leftarrow> roles s, rl_ID r = rb_RoleID b,
                 l \<leftarrow> role_permissions s, rlp_RoleID l = rl_ID r, p \<leftarrow> permissions s, pm_ID p = rlp_PermissionID l]"

definition PolicyDecisionPointCheck ::
  "uuid \<Rightarrow> string \<Rightarrow> string \<Rightarrow> uuid option \<Rightarrow> 'a rbac_db_scheme conn
     \<Rightarrow> (go_error + PolicyCheckResult) \<times> 'a rbac_db_scheme conn" where
  "PolicyDecisionPointCheck principalID resource action scopeID c =
     (case query (\<lambda>s. filter (\<lambda>(b, r, p).
                 (rb_UserID b = Some principalID \<or> rb_ServiceAccountID b = Some principalID) \<and>
                 pm_Resource p = resource \<and> pm_Action p = action \<and>
                 (if scopeID \<noteq> None then rb_ScopeID b = scopeID \<or> rb_ScopeID b = None else rb_ScopeID b = None))
               (grants_of s)) c of
        (Inl e, c1) \<Rightarrow> (Inl e, c1)
      | (Inr ((b, r, _) # _), c1) \<Rightarrow>
          (Inr \<lparr> pcr_Allowed = True,
                 pcr_Trace = ''Granted by Binding ['' @ rb_ID b @ ''] via Role ['' @ rl_Name r @ '']'' \<rparr>, c1)
      | (Inr [], c1) \<Rightarrow> (Inr \<lparr> pcr_Allowed = False, pcr_Trace = ''No matching binding found'' \<rparr>, c1))"

section \<open>Permissions and scopes of a user\<close>

definition visible :: "string \<Rightarrow> uuid option \<Rightarrow> bool" where
  "visible tenantID t \<longleftrightarrow> t = None \<or> t = Some tenantID"

text \<open>The permissions a user has through the roles bound to it.\<close>

definition user_grants :: "string \<Rightarrow> string \<Rightarrow> 'a rbac_db_scheme \<Rightarrow> RBACPermission list" where
  "user_grants userID tenantID s =
     map (\<lambda>(b, r, p). p) (filter (\<lambda>(b, r, p). rb_UserID b = Some userID \<and> visible tenantID (rb_TenantID b) \<and>
       visible tenantID (rl_TenantID r) \<and> visible tenantID (pm_TenantID p)) (grants_of s))"

text \<open>The map from resources to actions; \<open>order\<close> is the order in which Go visits its keys.\<close>

fun append_action :: "string \<times> string \<Rightarrow> (string \<times> string list) list \<Rightarrow> (string \<times> string list) list" where
  "append_action (r, a) [] = [(r, [a])]"
| "append_action (r, a) ((r', as) # m) =
     (if r' = r then (r', as @ [a]) # m else (r', as) # append_action (r, a) m)"

definition group_actions :: "(string list \<Rightarrow> string list) \<Rightarrow> (string \<times> string) list \<Rightarrow> Permission list" where
  "group_actions order rows =
     (let m = fold append_action rows []
      in map (\<lambda>r. \<lparr> pe_Resource = r, pe_Actions = (case map_of m r of None \<Rightarrow> [] | Some as \<Rightarrow> as) \<rparr>) (order (map fst m)))"

text \<open>\<^verbatim>\<open>ORDER BY resource, action\<close> on distinct pairs.\<close>

definition sorted_pairs :: "(string \<times> string) list \<Rightarrow> (string \<times> string) list" where
  "sorted_pairs xs = sort_key fst (sort_key snd (remdups xs))"

definition GetUserPermissions ::
  "(string list \<Rightarrow> string list) \<Rightarrow> string \<Rightarrow> string \<Rightarrow> 'a rbac_db_scheme conn
     \<Rightarrow> Permission list \<times> 'a rbac_db_scheme conn" where
  "GetUserPermissions order userID tenantID c =
     (case query (\<lambda>s. sorted_pairs (map (\<lambda>p. (pm_Resource p, pm_Action p)) (user_grants userID tenantID s))) c of
        (Inl _, c1) \<Rightarrow> ([], c1)
      | (Inr rows, c1) \<Rightarrow> (group_actions order rows, c1))"

definition scope_string :: "string \<times> string \<Rightarrow> string" where
  "scope_string ra = fst ra @ '':'' @ snd ra"

definition GetUserScopes ::
  "string \<Rightarrow> string \<Rightarrow> 'a rbac_db_scheme conn \<Rightarrow> string list \<times> 'a rbac_db_scheme conn" where
  "GetUserScopes userID tenantID c =
     (case query (\<lambda>s. sort (remdups (map (\<lambda>p. scope_string (pm_Resource p, pm_Action p))
             (user_grants userID tenantID s)))) c of
        (Inl _, c1) \<Rightarrow> ([], c1)
      | (Inr scopes, c1) \<Rightarrow> (scopes, c1))"

definition ResolvePermissionsFromRoles ::
  "(string list \<Rightarrow> string list) \<Rightarrow> string list \<Rightarrow> string \<Rightarrow> 'a rbac_db_scheme conn
     \<Rightarrow> (Permission list \<times> string list) \<times> 'a rbac_db_scheme conn" where
  "ResolvePermissionsFromRoles order roleNames tenantID c =
     (if roleNames = [] then (([], []), c)
      else (case query (\<lambda>s. sorted_pairs
                  [(pm_Resource p, pm_Action p). r \<leftarrow> roles s, rl_Name r \<in> set roleNames, visible tenantID (rl_TenantID r),
                     l \<leftarrow> role_permissions s, rlp_RoleID l = rl_ID r,
                     p \<leftarrow> permissions s, pm_ID p = rlp_PermissionID l, visible tenantID (pm_TenantID p)]) c of
              (Inl _, c1) \<Rightarrow> (([], []), c1)
            | (Inr rows, c1) \<Rightarrow> ((group_actions order rows, map scope_string rows), c1)))"

section \<open>Integrity of the tables\<close>

definition binding_ok :: "'a rbac_db_scheme \<Rightarrow> RoleBinding \<Rightarrow> bool" where
  "binding_ok s b \<longleftrightarrow> (rb_UserID b = None) \<noteq> (rb_ServiceAccountID b = None) \<and>
     (rb_TenantID b = None \<or> (\<exists>r \<in> set (roles s). rl_ID r = rb_RoleID b \<and> rl_TenantID r = rb_TenantID b))"

definition rbac_inv :: "'a rbac_db_scheme \<Rightarrow> bool" where
  "rbac_inv s \<longleftrightarrow> distinct (map rl_ID (roles s)) \<and> distinct (map pm_ID (permissions s)) \<and>
     distinct (map rb_ID (role_bindings s)) \<and> distinct (role_permissions s) \<and>
     (\<forall>l \<in> set (role_permissions s). link_ok s l) \<and> (\<forall>b \<in> set (role_bindings s). binding_ok s b)"

lemma link_ok_mono:
  "link_ok s l \<Longrightarrow> set (roles s) \<subseteq> set (roles s') \<Longrightarrow> set (permissions s) \<subseteq> set (permissions s') \<Longrightarrow> link_ok s' l"
  unfolding link_ok_def by blast

lemma binding_ok_mono: "binding_ok s b \<Longrightarrow> set (roles s) \<subseteq> set (roles s') \<Longrightarrow> binding_ok s' b"
  unfolding binding_ok_def by (auto dest: subsetD)

lemma rbac_inv_mono:
  assumes "rbac_inv s" and "set (roles s) \<subseteq> set (roles s')" and "set (permissions s) \<subseteq> set (permissions s')"
    and "distinct (map rl_ID (roles s'))" and "distinct (map pm_ID (permissions s'))"
    and "distinct (map rb_ID (role_bindings s'))" and "distinct (role_permissions s')"
    and "\<And>l. l \<in> set (role_permissions s') \<Longrightarrow> l \<in> set (role_permissions s) \<or> link_ok s l"
    and "\<And>b. b \<in> set (role_bindings s') \<Longrightarrow> b \<in> set (role_bindings s) \<or> binding_ok s b"
  shows "rbac_inv s'"
  using assms link_ok_mono [OF _ assms(2,3)] binding_ok_mono [OF _ assms(2)] unfolding rbac_inv_def by blast

lemmas rbac_inv_keys = rbac_inv_def [THEN iffD1, THEN conjunct1] rbac_inv_def [THEN iffD1, THEN conjunct2, THEN conjunct1]
  rbac_inv_def [THEN iffD1, THEN conjunct2, THEN conjunct2, THEN conjunct1]
  rbac_inv_def [THEN iffD1, THEN conjunct2, THEN conjunct2, THEN conjunct2, THEN conjunct1]

datatype rbac_op =
    RRegister uuid RBACPermission
  | RCreate uuid RBACRole "uuid list"
  | RAssign "go_error \<Rightarrow> bool" uuid RoleBinding
  | RDeletePermission uuid
  | RDeleteRole uuid

fun rbac_handle :: "rbac_op \<Rightarrow> rbac_db conn \<Rightarrow> rbac_db conn \<times> (go_error + unit)" where
  "rbac_handle (RRegister i p) c = reply id (RegisterAtomicPermission i p c)"
| "rbac_handle (RCreate i r ps) c = reply id (CreateRoleComposite i r ps c)"
| "rbac_handle (RAssign f i b) c = reply id (AssignRoleScoped f i b c)"
| "rbac_handle (RDeletePermission i) c = reply id (DeletePermission i c)"
| "rbac_handle (RDeleteRole i) c = reply id (DeleteRole i c)"

lemma insert_role_inv:
  assumes "rbac_inv s" and "insert_role r s = Inr s'"
  shows "rbac_inv s'"
proof -
  from assms(2) have s': "s' = s\<lparr> roles := roles s @ [r] \<rparr>" and "rl_ID r \<notin> rl_ID ` set (roles s)"
    by (auto simp: insert_role_def split: if_splits)
  with rbac_inv_keys [OF assms(1)] show ?thesis by (intro rbac_inv_mono [OF assms(1)]) auto
qed

lemma insert_links_inv:
  assumes "rbac_inv s" and "insert_links ls s = Inr s'"
  shows "rbac_inv s'"
proof -
  from assms(2) have "s' = s\<lparr> role_permissions := role_permissions s @ ls \<rparr>" and "distinct (role_permissions s @ ls)"
    and "\<forall>l \<in> set ls. link_ok s l" by (auto simp: insert_links_def list_all_iff split: if_splits)
  with rbac_inv_keys [OF assms(1)] show ?thesis by (intro rbac_inv_mono [OF assms(1)]) auto
qed

lemma insert_binding_inv:
  assumes "rbac_inv s" and "insert_binding b s = Inr s'"
  shows "rbac_inv s'"
proof -
  from assms(2) have "s' = s\<lparr> role_bindings := role_bindings s @ [b] \<rparr>" and "rb_ID b \<notin> rb_ID ` set (role_bindings s)"
    and "binding_ok s b" by (auto simp: insert_binding_def binding_ok_def split: if_splits)
  with rbac_inv_keys [OF assms(1)] show ?thesis by (intro rbac_inv_mono [OF assms(1)]) auto
qed

lemma RegisterAtomicPermission_inv: "rbac_inv (fst c) \<Longrightarrow> rbac_inv (tables (RegisterAtomicPermission i p c))"
  unfolding RegisterAtomicPermission_def Let_def
proof (erule exec_checked_keeps, goal_cases)
  case (1 s s')
  let ?p = "p\<lparr> pm_ID := (if pm_ID p = nil_uuid then i else pm_ID p) \<rparr>"
  from 1(2) have "s' = s\<lparr> permissions := permissions s @ [?p] \<rparr>" and "pm_ID ?p \<notin> pm_ID ` set (permissions s)"
    by (auto split: if_splits)
  with rbac_inv_keys [OF 1(1)] show ?case by (intro rbac_inv_mono [OF 1(1)]) auto
qed

lemma CreateRoleComposite_inv: "rbac_inv (fst c) \<Longrightarrow> rbac_inv (tables (CreateRoleComposite i r ps c))"
  unfolding CreateRoleComposite_def Let_def
proof (erule in_tx_keeps, goal_cases)
  case (1 c)
  let ?r = "r\<lparr> rl_ID := (if rl_ID r = nil_uuid then i else rl_ID r) \<rparr>"
  obtain u c1 where one: "exec_checked (insert_role ?r) c = (u, c1)" by (rule prod.exhaust)
  have "rbac_inv (tables (exec_checked (insert_role ?r) c))"
    by (rule exec_checked_keeps [where P = rbac_inv, OF 1]) (rule insert_role_inv)
  with one have "rbac_inv (fst c1)" by simp
  moreover from this have "rbac_inv (tables (exec_checked (insert_links ls) c1))" for ls
    by (rule exec_checked_keeps [where P = rbac_inv]) (rule insert_links_inv)
  ultimately show ?case using one by (cases u) simp_all
qed

lemma AssignRoleScoped_inv: "rbac_inv (fst c) \<Longrightarrow> rbac_inv (tables (AssignRoleScoped f i b c))"
  unfolding AssignRoleScoped_def Let_def
proof (erule in_tx_keeps, goal_cases)
  case (1 c)
  let ?b = "b\<lparr> rb_ID := (if rb_ID b = nil_uuid then i else rb_ID b) \<rparr>"
  obtain u c1 where one: "exec_checked (insert_binding ?b) c = (u, c1)" by (rule prod.exhaust)
  have "rbac_inv (tables (exec_checked (insert_binding ?b) c))"
    by (rule exec_checked_keeps [where P = rbac_inv, OF 1]) (rule insert_binding_inv)
  with one have "rbac_inv (fst c1)" by simp
  moreover from this have "rbac_inv (tables (exec_checked (\<lambda>_. Inl DBError) c1))"
    by (rule exec_checked_keeps [where P = rbac_inv]) simp
  ultimately show ?case using one by (cases u) simp_all
qed

lemma DeletePermission_inv: "rbac_inv (fst c) \<Longrightarrow> rbac_inv (tables (DeletePermission i c))"
  unfolding DeletePermission_def
proof (erule exec_keeps, goal_cases)
  case (1 s)
  let ?s = "s\<lparr> permissions := delete_where (\<lambda>p. pm_ID p = i) (permissions s),
      role_permissions := delete_where (\<lambda>l. rlp_PermissionID l = i) (role_permissions s) \<rparr>"
  have "link_ok ?s l" if "l \<in> set (role_permissions ?s)" for l
  proof -
    from that 1 have "link_ok s l" and "rlp_PermissionID l \<noteq> i" by (simp_all add: rbac_inv_def table_simps)
    then show ?thesis by (auto simp: link_ok_def table_simps)
  qed
  moreover have "binding_ok ?s b = binding_ok s b" for b by (simp add: binding_ok_def)
  ultimately show ?case using 1 by (simp add: rbac_inv_def delete_where_def distinct_map_filter)
qed

lemma DeleteRole_inv: "rbac_inv (fst c) \<Longrightarrow> rbac_inv (tables (DeleteRole i c))"
  unfolding DeleteRole_def
proof (erule exec_keeps, goal_cases)
  case (1 s)
  let ?s = "s\<lparr> roles := delete_where (\<lambda>r. rl_ID r = i) (roles s),
      role_permissions := delete_where (\<lambda>l. rlp_RoleID l = i) (role_permissions s),
      role_bindings := delete_where (\<lambda>b. rb_RoleID b = i) (role_bindings s) \<rparr>"
  have "link_ok ?s l" if "l \<in> set (role_permissions ?s)" for l
  proof -
    from that 1 have "link_ok s l" and "rlp_RoleID l \<noteq> i" by (simp_all add: rbac_inv_def table_simps)
    then show ?thesis by (auto simp: link_ok_def table_simps)
  qed
  moreover have "binding_ok ?s b" if "b \<in> set (role_bindings ?s)" for b
  proof -
    from that 1 have "binding_ok s b" and "rb_RoleID b \<noteq> i" by (simp_all add: rbac_inv_def table_simps)
    then show ?thesis by (auto simp: binding_ok_def table_simps)
  qed
  ultimately show ?case using 1 by (simp add: rbac_inv_def delete_where_def distinct_map_filter)
qed

lemma rbac_handle_inv: "rbac_inv (fst c) \<Longrightarrow> rbac_inv (fst (fst (rbac_handle op c)))"
  by (cases op) (simp_all add: reply_def RegisterAtomicPermission_inv CreateRoleComposite_inv AssignRoleScoped_inv
      DeletePermission_inv DeleteRole_inv)

section \<open>The decision\<close>

text \<open>A principal is granted an action when a binding leads to a permission through a role, as far as the scopes allow.\<close>

definition granted :: "'a rbac_db_scheme \<Rightarrow> uuid \<Rightarrow> string \<Rightarrow> string \<Rightarrow> uuid option \<Rightarrow> bool" where
  "granted s pid resource action scope \<longleftrightarrow>
     (\<exists>b \<in> set (role_bindings s). \<exists>p \<in> set (permissions s).
        (rb_UserID b = Some pid \<or> rb_ServiceAccountID b = Some pid) \<and>
        \<lparr> rlp_RoleID = rb_RoleID b, rlp_PermissionID = pm_ID p \<rparr> \<in> set (role_permissions s) \<and>
        pm_Resource p = resource \<and> pm_Action p = action \<and> (rb_ScopeID b = None \<or> rb_ScopeID b = scope))"

lemma grants_of_iff:
  "(b, r, p) \<in> set (grants_of s) \<longleftrightarrow>
     b \<in> set (role_bindings s) \<and> r \<in> set (roles s) \<and> rl_ID r = rb_RoleID b \<and> p \<in> set (permissions s) \<and>
     \<lparr> rlp_RoleID = rb_RoleID b, rlp_PermissionID = pm_ID p \<rparr> \<in> set (role_permissions s)"
proof -
  have eq: "rlp_RoleID l = i \<and> rlp_PermissionID l = j \<longleftrightarrow> l = \<lparr> rlp_RoleID = i, rlp_PermissionID = j \<rparr>" for l i j
    by (cases l) auto
  have link: "(\<exists>l \<in> set (role_permissions s). rlp_RoleID l = i \<and> rlp_PermissionID l = j) \<longleftrightarrow>
      \<lparr> rlp_RoleID = i, rlp_PermissionID = j \<rparr> \<in> set (role_permissions s)" for i j unfolding eq by simp
  have "(b, r, p) \<in> set (grants_of s) \<longleftrightarrow> b \<in> set (role_bindings s) \<and> r \<in> set (roles s) \<and> rl_ID r = rb_RoleID b \<and>
      p \<in> set (permissions s) \<and> (\<exists>l \<in> set (role_permissions s). rlp_RoleID l = rl_ID r \<and> rlp_PermissionID l = pm_ID p)"
    unfolding grants_of_def set_concat set_map image_image
    by (simp add: if_distrib split del: if_split cong: if_cong)
      (simp add: Bex_def conj_commute conj_left_commute eq_commute cong: conj_cong)
  then show ?thesis unfolding link by auto
qed

lemma PolicyDecisionPointCheck_run:
  assumes "rbac_inv s"
  shows "\<exists>r. PolicyDecisionPointCheck pid resource action scope (s, []) = (Inr r, s, []) \<and>
           (pcr_Allowed r \<longleftrightarrow> granted s pid resource action scope)"
proof -
  let ?P = "\<lambda>(b, r :: RBACRole, p). (rb_UserID b = Some pid \<or> rb_ServiceAccountID b = Some pid) \<and>
      pm_Resource p = resource \<and> pm_Action p = action \<and>
      (if scope \<noteq> None then rb_ScopeID b = scope \<or> rb_ScopeID b = None else rb_ScopeID b = None)"
  have role: "\<exists>r. r \<in> set (roles s) \<and> rl_ID r = i"
    if "\<lparr> rlp_RoleID = i, rlp_PermissionID = j \<rparr> \<in> set (role_permissions s)" for i j
    using that assms unfolding rbac_inv_def link_ok_def by fastforce
  have "filter ?P (grants_of s) = [] \<longleftrightarrow> \<not> (\<exists>b r p. (b, r, p) \<in> set (grants_of s) \<and> ?P (b, r, p))"
    unfolding filter_empty_conv by blast
  also have "(\<exists>b r p. (b, r, p) \<in> set (grants_of s) \<and> ?P (b, r, p)) \<longleftrightarrow> granted s pid resource action scope"
    unfolding granted_def grants_of_iff prod.case using role by (cases scope) (simp_all, blast+)
  finally have "filter ?P (grants_of s) = [] \<longleftrightarrow> \<not> granted s pid resource action scope" .
  moreover have "\<exists>r. PolicyDecisionPointCheck pid resource action scope (s, []) = (Inr r, s, []) \<and>
      (pcr_Allowed r \<longleftrightarrow> filter ?P (grants_of s) \<noteq> [])"
  proof (cases "filter ?P (grants_of s)")
    case Nil
    then show ?thesis unfolding PolicyDecisionPointCheck_def query_fault_free by simp
  next
    case (Cons x xs)
    obtain b r p where "x = (b, r, p)" by (cases x)
    with Cons show ?thesis unfolding PolicyDecisionPointCheck_def query_fault_free by simp
  qed
  ultimately show ?thesis by blast
qed

text \<open>
  C10. The policy decision point decides the access relation: after any run of the role operations from empty tables,
  under any schedule of database faults, a check on a database that answers allows exactly what a chain
  of binding, role and permission grants, within the scope of the binding: a binding for the
  whole tenant counts in every scope, a scoped one only in its own.
\<close>

theorem pdp_decides:
  "let s = fst (fst (run rbac_handle ops (\<lparr> roles = [], permissions = [], role_permissions = [], role_bindings = [] \<rparr>, os)))
   in \<exists>r. PolicyDecisionPointCheck pid resource action scope (s, []) = (Inr r, s, []) \<and>
        (pcr_Allowed r \<longleftrightarrow> granted s pid resource action scope)"
proof -
  let ?c = "(\<lparr> roles = [], permissions = [], role_permissions = [], role_bindings = [] \<rparr> :: rbac_db, os)"
  have "rbac_inv (fst (fst (run rbac_handle ops ?c)))"
    by (rule run_invariant [where I = "\<lambda>c. rbac_inv (fst c)"]) (simp_all add: rbac_handle_inv, simp add: rbac_inv_def)
  then show ?thesis unfolding Let_def by (rule PolicyDecisionPointCheck_run)
qed

text \<open>What the decision point answers on a database that does not fail.\<close>

definition allows :: "'a rbac_db_scheme \<Rightarrow> uuid \<Rightarrow> string \<Rightarrow> string \<Rightarrow> uuid option \<Rightarrow> bool" where
  "allows s pid resource action scope \<longleftrightarrow>
     (case PolicyDecisionPointCheck pid resource action scope (s, []) of (Inr r, _) \<Rightarrow> pcr_Allowed r | _ \<Rightarrow> False)"

lemma allows_granted: "rbac_inv s \<Longrightarrow> allows s pid resource action scope \<longleftrightarrow> granted s pid resource action scope"
  using PolicyDecisionPointCheck_run [of s pid resource action scope] by (auto simp: allows_def)

section \<open>Granting and revoking\<close>

lemma RegisterAtomicPermission_step:
  assumes "RegisterAtomicPermission i perm (s, []) = (Inr (), s1, [])" and "pm_ID perm = nil_uuid"
  shows "s1 = s\<lparr> permissions := permissions s @ [perm\<lparr> pm_ID := i \<rparr>] \<rparr> \<and> i \<notin> pm_ID ` set (permissions s)"
  using assms by (auto simp: RegisterAtomicPermission_def exec_checked_fault_free split: if_splits)

lemma CreateRoleComposite_step:
  assumes "CreateRoleComposite i role ps (s, []) = (Inr (), s1, [])" and "rl_ID role = nil_uuid" and "ps \<noteq> []"
  shows "s1 = s\<lparr> roles := roles s @ [role\<lparr> rl_ID := i \<rparr>],
                 role_permissions := role_permissions s @ map (\<lambda>p. \<lparr> rlp_RoleID = i, rlp_PermissionID = p \<rparr>) ps \<rparr> \<and>
         i \<notin> rl_ID ` set (roles s)"
  using assms
  by (auto simp: CreateRoleComposite_def Let_def in_tx_fault_free exec_checked_fault_free insert_role_def insert_links_def
      split: if_splits sum.splits)

lemma AssignRoleScoped_step:
  assumes "AssignRoleScoped f i b (s, []) = (Inr (), s1, [])" and "rb_ID b = nil_uuid"
  shows "s1 = s\<lparr> role_bindings := role_bindings s @ [b\<lparr> rb_ID := i \<rparr>] \<rparr> \<and> (rb_UserID b = None) \<noteq> (rb_ServiceAccountID b = None)"
  using assms
  by (auto simp: AssignRoleScoped_def Let_def in_tx_fault_free exec_checked_fault_free insert_binding_def split: if_splits sum.splits)

text \<open>A binding and a permission that answer a request through one of the links \<open>L\<close>.\<close>

definition answers ::
  "uuid \<Rightarrow> string \<Rightarrow> string \<Rightarrow> uuid option \<Rightarrow> RolePermission set \<Rightarrow> RoleBinding \<Rightarrow> RBACPermission \<Rightarrow> bool" where
  "answers pid resource action scope L b p \<longleftrightarrow> (rb_UserID b = Some pid \<or> rb_ServiceAccountID b = Some pid) \<and>
     \<lparr> rlp_RoleID = rb_RoleID b, rlp_PermissionID = pm_ID p \<rparr> \<in> L \<and> pm_Resource p = resource \<and> pm_Action p = action \<and>
     (rb_ScopeID b = None \<or> rb_ScopeID b = scope)"

lemma granted_answers:
  "granted s pid r a scope \<longleftrightarrow>
     (\<exists>b \<in> set (role_bindings s). \<exists>p \<in> set (permissions s). answers pid r a scope (set (role_permissions s)) b p)"
  unfolding granted_def answers_def by simp

lemma unlinked_answers:
  "rb_RoleID b \<notin> rlp_RoleID ` L \<or> pm_ID p \<notin> rlp_PermissionID ` L \<Longrightarrow> \<not> answers pid r a scope L b p"
  by (force simp: answers_def)

lemma granted_new_role:
  assumes tables: "role_bindings s' = role_bindings s @ [b]" "permissions s' = permissions s @ [p]"
      "set (role_permissions s') = insert \<lparr> rlp_RoleID = rb_RoleID b, rlp_PermissionID = pm_ID p \<rparr> (set (role_permissions s))"
    and fresh: "rb_RoleID b \<notin> rlp_RoleID ` set (role_permissions s)" "pm_ID p \<notin> rlp_PermissionID ` set (role_permissions s)"
      "\<forall>b' \<in> set (role_bindings s). rb_RoleID b' \<noteq> rb_RoleID b" "pm_ID p \<notin> pm_ID ` set (permissions s)"
    and user: "rb_UserID b = Some u" "rb_ServiceAccountID b = None"
  shows "granted s' pid r a scope \<longleftrightarrow> granted s pid r a scope \<or>
           pid = u \<and> r = pm_Resource p \<and> a = pm_Action p \<and> (rb_ScopeID b = None \<or> rb_ScopeID b = scope)"
proof -
  let ?L = "set (role_permissions s)" and ?l = "\<lparr> rlp_RoleID = rb_RoleID b, rlp_PermissionID = pm_ID p \<rparr>"
  have new: "answers pid r a scope (insert ?l ?L) b' p' \<longleftrightarrow> answers pid r a scope ?L b' p'"
    if "rb_RoleID b' \<noteq> rb_RoleID b \<or> pm_ID p' \<noteq> pm_ID p" for b' p' using that by (auto simp: answers_def)
  have old: "answers pid r a scope (insert ?l ?L) b' p' \<longleftrightarrow> answers pid r a scope ?L b' p'"
    if "b' \<in> set (role_bindings s)" for b' p' using new fresh(3) that by blast
  have off: "\<not> answers pid r a scope (insert ?l ?L) b p'" if "p' \<in> set (permissions s)" for p'
  proof -
    have "pm_ID p' \<noteq> pm_ID p" using fresh(4) that by (metis imageI)
    then show ?thesis using new [of b p'] unlinked_answers [of b ?L p'] fresh(1) by simp
  qed
  have on: "answers pid r a scope (insert ?l ?L) b p \<longleftrightarrow>
      pid = u \<and> r = pm_Resource p \<and> a = pm_Action p \<and> (rb_ScopeID b = None \<or> rb_ScopeID b = scope)"
    using user by (auto simp: answers_def)
  show ?thesis
    unfolding granted_answers tables set_append list.set bex_Un using old off on unlinked_answers [of _ ?L p] fresh(2) by simp
qed

lemma granted_unlinked:
  assumes "set (role_bindings s') = set (role_bindings s)" and "permissions s' = permissions s @ [p]"
    and "set (role_permissions s') = set (role_permissions s)" and "pm_ID p \<notin> rlp_PermissionID ` set (role_permissions s)"
  shows "granted s' pid r a scope = granted s pid r a scope"
  unfolding granted_answers assms(1-3) using unlinked_answers [of _ _ p] assms(4) by simp

text \<open>
  C29. Granting and revoking are exact: registering a permission, creating a role with it and binding the role to a
  user changes the decisions of the decision point exactly for that user and that action, within the scope of the
  binding; deleting the role restores every decision as it was.
\<close>

theorem role_grant_revoke:
  assumes "rbac_inv s" and "RegisterAtomicPermission i1 perm (s, []) = (Inr (), s1, [])" and "pm_ID perm = nil_uuid"
    and "CreateRoleComposite i2 role [i1] (s1, []) = (Inr (), s2, [])" and "rl_ID role = nil_uuid"
    and "AssignRoleScoped f i3 b (s2, []) = (Inr (), s3, [])" and "rb_ID b = nil_uuid"
    and "rb_RoleID b = i2" and "rb_UserID b = Some u" and "\<forall>b \<in> set (role_bindings s). rb_RoleID b \<noteq> i2"
  shows "(allows s3 pid r a scope \<longleftrightarrow> allows s pid r a scope \<or>
            pid = u \<and> r = pm_Resource perm \<and> a = pm_Action perm \<and> (rb_ScopeID b = None \<or> rb_ScopeID b = scope)) \<and>
         (\<exists>s4. DeleteRole i2 (s3, []) = (Inr (), s4, []) \<and> allows s4 pid r a scope = allows s pid r a scope)"
proof -
  note 1 = RegisterAtomicPermission_step [OF assms(2,3)]
  note 2 = CreateRoleComposite_step [OF assms(4,5), simplified]
  note 3 = AssignRoleScoped_step [OF assms(6,7)]
  have inv1: "rbac_inv s1" using RegisterAtomicPermission_inv [of "(s, [])" i1 perm] assms(1,2) by simp
  have inv2: "rbac_inv s2" using CreateRoleComposite_inv [of "(s1, [])" i2 role "[i1]"] inv1 assms(4) by simp
  have inv3: "rbac_inv s3" using AssignRoleScoped_inv [of "(s2, [])" f i3 b] inv2 assms(6) by simp
  let ?s4 = "s3\<lparr> roles := delete_where (\<lambda>r. rl_ID r = i2) (roles s3),
      role_permissions := delete_where (\<lambda>l. rlp_RoleID l = i2) (role_permissions s3),
      role_bindings := delete_where (\<lambda>b. rb_RoleID b = i2) (role_bindings s3) \<rparr>"
  have del: "DeleteRole i2 (s3, []) = (Inr (), ?s4, [])" by (simp add: DeleteRole_def)
  have inv4: "rbac_inv ?s4" using DeleteRole_inv [of "(s3, [])" i2] inv3 del by simp
  have sa: "rb_ServiceAccountID b = None" using 3 assms(9) by simp
  have old: "i2 \<notin> rlp_RoleID ` set (role_permissions s)" "i1 \<notin> rlp_PermissionID ` set (role_permissions s)"
    using assms(1) 1 2 unfolding rbac_inv_def link_ok_def by (auto, metis image_eqI)+
  have s3: "role_bindings s3 = role_bindings s @ [b\<lparr> rb_ID := i3 \<rparr>]" "permissions s3 = permissions s @ [perm\<lparr> pm_ID := i1 \<rparr>]"
    "set (role_permissions s3) = insert \<lparr> rlp_RoleID = i2, rlp_PermissionID = i1 \<rparr> (set (role_permissions s))" using 1 2 3 by simp_all
  have "granted s3 pid r a scope \<longleftrightarrow> granted s pid r a scope \<or>
      pid = u \<and> r = pm_Resource perm \<and> a = pm_Action perm \<and> (rb_ScopeID b = None \<or> rb_ScopeID b = scope)"
    using granted_new_role [OF s3(1,2), of u pid r a scope] s3(3) old 1 sa assms(8-10) by simp
  moreover have "granted ?s4 pid r a scope = granted s pid r a scope"
  proof (rule granted_unlinked)
    show "set (role_bindings ?s4) = set (role_bindings s)" using assms(8,10) s3(1) by (auto simp: table_simps)
    show "permissions ?s4 = permissions s @ [perm\<lparr> pm_ID := i1 \<rparr>]" using s3(2) by simp
    show "set (role_permissions ?s4) = set (role_permissions s)" using old(1) s3(3) by (auto simp: table_simps)
  qed (use old(2) in simp)
  ultimately show ?thesis using del allows_granted [OF inv3] allows_granted [OF inv4] allows_granted [OF assms(1)] by simp
qed

abbreviation ex_rbac :: rbac_db where
  "ex_rbac \<equiv> \<lparr> roles = [], permissions = [], role_permissions = [], role_bindings = [] \<rparr>"

abbreviation ex_permission :: RBACPermission where
  "ex_permission \<equiv> \<lparr> pm_ID = nil_uuid, pm_TenantID = Some ''t'', pm_Resource = ''invoice'', pm_Action = ''read'',
     pm_Description = [], pm_CreatedAt = 0 \<rparr>"

abbreviation ex_role :: RBACRole where
  "ex_role \<equiv> \<lparr> rl_ID = nil_uuid, rl_TenantID = Some ''t'', rl_Name = ''clerk'', rl_Description = [],
     rl_IsSystem = False, rl_CreatedAt = 0 \<rparr>"

abbreviation ex_binding :: RoleBinding where
  "ex_binding \<equiv> \<lparr> rb_ID = nil_uuid, rb_TenantID = Some ''t'', rb_UserID = Some ''u'', rb_Username = [],
     rb_ServiceAccountID = None, rb_RoleID = ''r1'', rb_RoleName = ''clerk'', rb_ScopeType = Some ''project'',
     rb_ScopeID = Some ''x'', rb_Conditions = [], rb_ExpiresAt = Some 5, rb_CreatedBy = None, rb_CreatedAt = 0 \<rparr>"

abbreviation ex_granted :: rbac_db where
  "ex_granted \<equiv> \<lparr> roles = [ex_role\<lparr> rl_ID := ''r1'' \<rparr>], permissions = [ex_permission\<lparr> pm_ID := ''p1'' \<rparr>],
     role_permissions = [\<lparr> rlp_RoleID = ''r1'', rlp_PermissionID = ''p1'' \<rparr>],
     role_bindings = [ex_binding\<lparr> rb_ID := ''b1'' \<rparr>] \<rparr>"

theorem role_grant_revoke_witness:
  "allows ex_granted ''u'' ''invoice'' ''read'' (Some ''x'') \<and>
   (\<exists>s4. DeleteRole ''r1'' (ex_granted, []) = (Inr (), s4, []) \<and>
      allows s4 ''u'' ''invoice'' ''read'' (Some ''x'') = allows ex_rbac ''u'' ''invoice'' ''read'' (Some ''x''))"
proof -
  let ?s1 = "ex_rbac\<lparr> permissions := [ex_permission\<lparr> pm_ID := ''p1'' \<rparr>] \<rparr>"
  let ?s2 = "?s1\<lparr> roles := [ex_role\<lparr> rl_ID := ''r1'' \<rparr>],
    role_permissions := [\<lparr> rlp_RoleID = ''r1'', rlp_PermissionID = ''p1'' \<rparr>] \<rparr>"
  have "RegisterAtomicPermission ''p1'' ex_permission (ex_rbac, []) = (Inr (), ?s1, [])"
    by (simp add: RegisterAtomicPermission_def exec_checked_fault_free)
  moreover have "CreateRoleComposite ''r1'' ex_role [''p1''] (?s1, []) = (Inr (), ?s2, [])"
    by (simp add: CreateRoleComposite_def in_tx_fault_free exec_checked_fault_free insert_role_def insert_links_def link_ok_def)
  moreover have "AssignRoleScoped (\<lambda>_. False) ''b1'' ex_binding (?s2, []) = (Inr (), ex_granted, [])"
    by (simp add: AssignRoleScoped_def in_tx_fault_free exec_checked_fault_free insert_binding_def)
  ultimately show ?thesis
    using role_grant_revoke [of ex_rbac "''p1''" ex_permission ?s1 "''r1''" ex_role ?s2 "\<lambda>_. False" "''b1''" ex_binding
        ex_granted "''u''" "''u''" "''invoice''" "''read''" "Some ''x''"]
    by (simp add: rbac_inv_def)
qed

section \<open>Permissions and scopes agree\<close>

lemma fold_append_action_keys: "set (map fst (fold append_action rows m)) = set (map fst m) \<union> fst ` set rows"
proof -
  have one: "set (map fst (append_action x m)) = insert (fst x) (set (map fst m))" for x m
    by (induction x m rule: append_action.induct) auto
  show ?thesis by (induction rows arbitrary: m) (auto simp: one simp del: set_map)
qed

lemma append_action_lookup:
  "map_of (append_action (r, a) m) r' =
     (if r' = r then Some ((case map_of m r of None \<Rightarrow> [] | Some as \<Rightarrow> as) @ [a]) else map_of m r')"
  by (induction "(r, a)" m rule: append_action.induct) auto

lemma fold_append_action_lookup:
  "(case map_of (fold append_action rows m) r of None \<Rightarrow> [] | Some as \<Rightarrow> as) =
     (case map_of m r of None \<Rightarrow> [] | Some as \<Rightarrow> as) @ map snd (filter (\<lambda>x. fst x = r) rows)"
  by (induction rows arbitrary: m) (auto simp: append_action_lookup)

lemma group_actions_pairs:
  assumes "\<forall>ks. set (order ks) = set ks"
  shows "{(pe_Resource p, a) | p a. p \<in> set (group_actions order rows) \<and> a \<in> set (pe_Actions p)} = set rows"
proof -
  have "set (order (map fst (fold append_action rows []))) = fst ` set rows"
    using assms fold_append_action_keys [of rows "[]"] by (simp del: set_map)
  moreover have "(case map_of (fold append_action rows []) r of None \<Rightarrow> [] | Some as \<Rightarrow> as) =
      map snd (filter (\<lambda>x. fst x = r) rows)" for r
    using fold_append_action_lookup [of rows "[]"] by simp
  ultimately have all: "set (group_actions order rows) =
      (\<lambda>r. \<lparr> pe_Resource = r, pe_Actions = map snd (filter (\<lambda>x. fst x = r) rows) \<rparr>) ` fst ` set rows"
    by (simp add: group_actions_def Let_def)
  have pair: "(\<exists>p \<in> set (group_actions order rows). pe_Resource p = r \<and> a \<in> set (pe_Actions p)) \<longleftrightarrow> (r, a) \<in> set rows" for r a
    unfolding all by force
  have "{(pe_Resource p, a) | p a. p \<in> set (group_actions order rows) \<and> a \<in> set (pe_Actions p)} =
      {(r, a). \<exists>p \<in> set (group_actions order rows). pe_Resource p = r \<and> a \<in> set (pe_Actions p)}" by auto
  then show ?thesis unfolding pair by simp
qed

text \<open>
  The two readers of the permission service agree: in whatever order Go visits the map, the scopes of a user are
  exactly the pairs of resource and action of the user's permissions, joined by a colon, sorted and without
  repetition.
\<close>

theorem user_scopes_permissions_agree:
  assumes "\<forall>ks. set (order ks) = set ks"
  shows "set (fst (GetUserScopes u t (s, []))) =
           {pe_Resource p @ '':'' @ a | p a. p \<in> set (fst (GetUserPermissions order u t (s, []))) \<and> a \<in> set (pe_Actions p)} \<and>
         sorted (fst (GetUserScopes u t (s, []))) \<and> distinct (fst (GetUserScopes u t (s, [])))"
proof -
  let ?rows = "sorted_pairs (map (\<lambda>p. (pm_Resource p, pm_Action p)) (user_grants u t s))"
  have "set (fst (GetUserScopes u t (s, []))) = scope_string ` set ?rows"
    by (auto simp: GetUserScopes_def query_fault_free sorted_pairs_def)
  also have "set ?rows = {(pe_Resource p, a) | p a. p \<in> set (group_actions order ?rows) \<and> a \<in> set (pe_Actions p)}"
    using group_actions_pairs [OF assms] by blast
  also have "group_actions order ?rows = fst (GetUserPermissions order u t (s, []))"
    by (simp add: GetUserPermissions_def query_fault_free)
  also have "scope_string ` {(pe_Resource p, a) | p a. p \<in> set (fst (GetUserPermissions order u t (s, []))) \<and> a \<in> set (pe_Actions p)} =
      {pe_Resource p @ '':'' @ a | p a. p \<in> set (fst (GetUserPermissions order u t (s, []))) \<and> a \<in> set (pe_Actions p)}"
    by (force simp: scope_string_def)
  finally show ?thesis by (simp add: GetUserScopes_def query_fault_free)
qed

theorem user_scopes_permissions_agree_witness:
  "set (fst (GetUserScopes ''u'' ''t'' (ex_granted, []))) =
     {pe_Resource p @ '':'' @ a | p a. p \<in> set (fst (GetUserPermissions rev ''u'' ''t'' (ex_granted, []))) \<and> a \<in> set (pe_Actions p)}"
  using user_scopes_permissions_agree [of rev "''u''" "''t''" ex_granted] by simp

section \<open>Shortfalls\<close>

text \<open>
  Bindings never expire: the decision point and the scopes of a user do not depend on the expiry dates of the
  bindings, so a binding that has expired grants what it granted before.
\<close>

theorem expired_bindings_grant:
  "PolicyDecisionPointCheck pid r a scope (s\<lparr> role_bindings := map (\<lambda>b. b\<lparr> rb_ExpiresAt := e b \<rparr>) (role_bindings s) \<rparr>, []) =
     (fst (PolicyDecisionPointCheck pid r a scope (s, [])),
      s\<lparr> role_bindings := map (\<lambda>b. b\<lparr> rb_ExpiresAt := e b \<rparr>) (role_bindings s) \<rparr>, []) \<and>
   fst (GetUserScopes u t (s\<lparr> role_bindings := map (\<lambda>b. b\<lparr> rb_ExpiresAt := e b \<rparr>) (role_bindings s) \<rparr>, [])) =
     fst (GetUserScopes u t (s, []))"
proof -
  let ?s = "s\<lparr> role_bindings := map (\<lambda>b. b\<lparr> rb_ExpiresAt := e b \<rparr>) (role_bindings s) \<rparr>"
  have grants: "grants_of ?s = map (\<lambda>(b, r, p). (b\<lparr> rb_ExpiresAt := e b \<rparr>, r, p)) (grants_of s)"
    by (simp add: grants_of_def map_concat comp_def if_distrib cong: if_cong)
  have decide: "filter (\<lambda>(b, r', p). (rb_UserID b = Some pid \<or> rb_ServiceAccountID b = Some pid) \<and> pm_Resource p = r \<and>
        pm_Action p = a \<and> (if scope \<noteq> None then rb_ScopeID b = scope \<or> rb_ScopeID b = None else rb_ScopeID b = None)) (grants_of ?s) =
      map (\<lambda>(b, r, p). (b\<lparr> rb_ExpiresAt := e b \<rparr>, r, p)) (filter (\<lambda>(b, r', p). (rb_UserID b = Some pid \<or> rb_ServiceAccountID b = Some pid) \<and>
        pm_Resource p = r \<and> pm_Action p = a \<and>
        (if scope \<noteq> None then rb_ScopeID b = scope \<or> rb_ScopeID b = None else rb_ScopeID b = None)) (grants_of s))"
    unfolding grants filter_map by (intro arg_cong [where f = "map _"] filter_cong refl) auto
  have "user_grants u t ?s = user_grants u t s"
    unfolding user_grants_def grants filter_map map_map by (intro map_cong filter_cong refl) auto
  then show ?thesis
    unfolding PolicyDecisionPointCheck_def GetUserScopes_def query_fault_free decide
    by (simp split: list.split)
qed

text \<open>
  A role bound for one project reaches the whole tenant through the token: when every binding of a user is
  limited to a scope, the decision point refuses the tenant-wide action, but the scopes that go into the
  user's token contain it all the same.
\<close>

theorem scoped_binding_in_token_scopes:
  assumes "rbac_inv s" and "b \<in> set (role_bindings s)" and "rb_UserID b = Some u" and "visible t (rb_TenantID b)"
    and "r \<in> set (roles s)" and "rl_ID r = rb_RoleID b" and "visible t (rl_TenantID r)"
    and "p \<in> set (permissions s)" and "visible t (pm_TenantID p)"
    and "\<lparr> rlp_RoleID = rl_ID r, rlp_PermissionID = pm_ID p \<rparr> \<in> set (role_permissions s)"
    and "\<forall>b \<in> set (role_bindings s). rb_UserID b = Some u \<or> rb_ServiceAccountID b = Some u \<longrightarrow> rb_ScopeID b \<noteq> None"
  shows "\<not> allows s u (pm_Resource p) (pm_Action p) None \<and>
         pm_Resource p @ '':'' @ pm_Action p \<in> set (fst (GetUserScopes u t (s, [])))"
proof
  show "\<not> allows s u (pm_Resource p) (pm_Action p) None"
    using assms(11) by (auto simp: allows_granted [OF assms(1)] granted_def)
  have "(b, r, p) \<in> set (grants_of s)" using assms by (simp add: grants_of_iff)
  then have "p \<in> set (user_grants u t s)" using assms(3,4,7,9) by (force simp: user_grants_def)
  then show "pm_Resource p @ '':'' @ pm_Action p \<in> set (fst (GetUserScopes u t (s, [])))"
    by (force simp: GetUserScopes_def query_fault_free scope_string_def)
qed

theorem scoped_binding_in_token_scopes_witness:
  "\<not> allows ex_granted ''u'' ''invoice'' ''read'' None \<and>
   ''invoice:read'' \<in> set (fst (GetUserScopes ''u'' ''t'' (ex_granted, [])))"
  using scoped_binding_in_token_scopes [of ex_granted "ex_binding\<lparr> rb_ID := ''b1'' \<rparr>" "''u''" "''t''"
      "ex_role\<lparr> rl_ID := ''r1'' \<rparr>" "ex_permission\<lparr> pm_ID := ''p1'' \<rparr>"]
  by (simp add: rbac_inv_def link_ok_def binding_ok_def visible_def)

end
