(* ===== verification/Otp.thy ===== *)
theory Otp
  imports Rbac
begin

text \<open>
  Mailed one-time passwords and staged registrations: the rows \<^verbatim>\<open>OTPEntry\<close> and \<^verbatim>\<open>PendingRegistration\<close> of
  \<^verbatim>\<open>models/aliases.go\<close>, the SQL of \<^verbatim>\<open>database/otp_repository.go\<close>, and the generator of \<^verbatim>\<open>utils/otp.go\<close>.

  \<^item> \<open>newID\<close> is the id the database draws for a row, or the value of \<^verbatim>\<open>uuid.New()\<close>.
  \<^item> A timestamp column keeps the instant written to it.
  \<^item> The tables extend those of roles and permissions: both are in the main database, and the endpoints of the
    administration use them together.
\<close>

section \<open>Data model\<close>

record OTPEntry =
  ot_ID :: uuid
  ot_Email :: string
  ot_OTP :: string
  ot_ExpiresAt :: gotime
  ot_Verified :: bool
  ot_CreatedAt :: gotime
  ot_UpdatedAt :: gotime

record PendingRegistration =
  pr_ID :: uuid
  pr_Email :: string
  pr_PasswordHash :: string
  pr_FirstName :: string
  pr_LastName :: string
  pr_TenantID :: uuid
  pr_ProjectID :: uuid
  pr_ClientID :: uuid
  pr_ExpiresAt :: gotime
  pr_CreatedAt :: gotime
  pr_UpdatedAt :: gotime
  pr_TenantDomain :: string

record otp_db = rbac_db +
  otp_entries :: "OTPEntry list"
  pending_registrations :: "PendingRegistration list"

text \<open>The codes that the source calls hardwired.\<close>

definition hardwired :: "string \<Rightarrow> bool" where
  "hardwired code \<longleftrightarrow> code = ''111111'' \<or> code = ''1111111''"

section \<open>One-time passwords\<close>

text \<open>
  \<^verbatim>\<open>rand.Int(rand.Reader, n)\<close> fails or draws a number below \<open>n\<close>; \<open>draw n\<close> is its outcome. The limit is
  \<open>999999 - 100000\<close>: \<^verbatim>\<open>max.Sub(max, min)\<close> stores the difference in \<^verbatim>\<open>max\<close>.
\<close>

definition GenerateOTP :: "(nat \<Rightarrow> nat option) \<Rightarrow> go_error + string" where
  "GenerateOTP draw =
     (let min = 100000; max = 999999 - min
      in case draw max of
           None \<Rightarrow> Inl (Errorf ''rand'')
         | Some n \<Rightarrow> Inr (show_nat (n + min)))"

definition CreateOTP ::
  "gotime \<Rightarrow> uuid \<Rightarrow> OTPEntry \<Rightarrow> 'a otp_db_scheme conn \<Rightarrow> (go_error + unit) \<times> 'a otp_db_scheme conn" where
  "CreateOTP now newID otp c =
     (let row = otp\<lparr> ot_ID := newID,
                     ot_CreatedAt := (if ot_CreatedAt otp = zero_time then now else ot_CreatedAt otp),
                     ot_UpdatedAt := (if ot_UpdatedAt otp = zero_time then now else ot_UpdatedAt otp) \<rparr>
      in exec_checked (\<lambda>s.
           if \<exists>r \<in> set (otp_entries s). ot_ID r = newID then Inl DBError
           else Inr (s\<lparr> otp_entries := otp_entries s @ [row] \<rparr>)) c)"

text \<open>The newest row with \<open>P\<close>.\<close>

definition newest_otp :: "(OTPEntry \<Rightarrow> bool) \<Rightarrow> OTPEntry list \<Rightarrow> go_error + OTPEntry" where
  "newest_otp P t = select_row (\<lambda>_. True) (sort_key (\<lambda>r. - ot_CreatedAt r) (filter P t))"

definition GetValidOTP ::
  "gotime \<Rightarrow> uuid \<Rightarrow> string \<Rightarrow> string \<Rightarrow> 'a otp_db_scheme conn
     \<Rightarrow> (go_error + OTPEntry) \<times> 'a otp_db_scheme conn" where
  "GetValidOTP now newID email otpCode c =
     (if hardwired otpCode then
        (Inr \<lparr> ot_ID = newID, ot_Email = email, ot_OTP = otpCode, ot_ExpiresAt = now + 30 * Minute,
               ot_Verified = False, ot_CreatedAt = now, ot_UpdatedAt = now \<rparr>, c)
      else
        (case query_row (\<lambda>s. newest_otp (\<lambda>r. ot_Email r = email \<and> ot_OTP r = otpCode \<and>
                 ot_ExpiresAt r > now - Second \<and> \<not> ot_Verified r) (otp_entries s)) c of
           (Inl NoRows, c1) \<Rightarrow> (Inl (Errorf ''valid OTP not found''), c1)
         | (Inl e, c1) \<Rightarrow> (Inl e, c1)
         | (Inr r, c1) \<Rightarrow> (Inr r, c1)))"

text \<open>The second statement of \<^verbatim>\<open>GetVerifiedOTP\<close>.\<close>

definition verified_otp ::
  "gotime \<Rightarrow> string \<Rightarrow> 'a otp_db_scheme conn \<Rightarrow> (go_error + OTPEntry) \<times> 'a otp_db_scheme conn" where
  "verified_otp now email c =
     (case query_row (\<lambda>s. newest_otp (\<lambda>r. ot_Email r = email \<and> ot_Verified r \<and> ot_ExpiresAt r > now)
             (otp_entries s)) c of
        (Inl NoRows, c1) \<Rightarrow> (Inl (Errorf ''verified OTP not found''), c1)
      | (Inl e, c1) \<Rightarrow> (Inl e, c1)
      | (Inr r, c1) \<Rightarrow> (Inr r, c1))"

definition GetVerifiedOTP ::
  "gotime \<Rightarrow> uuid \<Rightarrow> string \<Rightarrow> 'a otp_db_scheme conn \<Rightarrow> (go_error + OTPEntry) \<times> 'a otp_db_scheme conn" where
  "GetVerifiedOTP now newID email c =
     (case query_row (\<lambda>s. newest_otp (\<lambda>r. ot_Email r = email) (otp_entries s)) c of
        (Inr r, c1) \<Rightarrow>
          (if hardwired (ot_OTP r) then
             (Inr \<lparr> ot_ID = newID, ot_Email = email, ot_OTP = ot_OTP r, ot_ExpiresAt = now + 30 * Minute,
                    ot_Verified = True, ot_CreatedAt = now, ot_UpdatedAt = now \<rparr>, c1)
           else verified_otp now email c1)
      | (Inl _, c1) \<Rightarrow> verified_otp now email c1)"

definition VerifyOTP ::
  "gotime \<Rightarrow> uuid \<Rightarrow> 'a otp_db_scheme conn \<Rightarrow> (go_error + unit) \<times> 'a otp_db_scheme conn" where
  "VerifyOTP now otpID c =
     (case exec (\<lambda>s. (s\<lparr> otp_entries := update_where (\<lambda>r. ot_ID r = otpID)
                       (\<lambda>r. r\<lparr> ot_Verified := True, ot_UpdatedAt := now \<rparr>) (otp_entries s) \<rparr>,
                     affected (\<lambda>r. ot_ID r = otpID) (otp_entries s))) c of
        (Inl e, c1) \<Rightarrow> (Inl e, c1)
      | (Inr n, c1) \<Rightarrow> (if n = 0 then (Inl (Errorf ''OTP not found''), c1) else (Inr (), c1)))"

definition DeleteOTPsByEmail ::
  "string \<Rightarrow> 'a otp_db_scheme conn \<Rightarrow> (go_error + unit) \<times> 'a otp_db_scheme conn" where
  "DeleteOTPsByEmail email c =
     exec (\<lambda>s. (s\<lparr> otp_entries := delete_where (\<lambda>r. ot_Email r = email) (otp_entries s) \<rparr>, ())) c"

definition DeleteExpiredOTPs ::
  "gotime \<Rightarrow> 'a otp_db_scheme conn \<Rightarrow> (go_error + unit) \<times> 'a otp_db_scheme conn" where
  "DeleteExpiredOTPs now c =
     exec (\<lambda>s. (s\<lparr> otp_entries := delete_where (\<lambda>r. ot_ExpiresAt r < now) (otp_entries s) \<rparr>, ())) c"

definition HasValidOTP ::
  "gotime \<Rightarrow> string \<Rightarrow> 'a otp_db_scheme conn \<Rightarrow> (go_error + bool) \<times> 'a otp_db_scheme conn" where
  "HasValidOTP now email c =
     query (\<lambda>s. list_ex (\<lambda>r. ot_Email r = email \<and> ot_ExpiresAt r > now \<and> \<not> ot_Verified r) (otp_entries s)) c"

section \<open>Staged registrations\<close>

definition CreatePendingRegistration ::
  "gotime \<Rightarrow> uuid \<Rightarrow> PendingRegistration \<Rightarrow> 'a otp_db_scheme conn
     \<Rightarrow> (go_error + unit) \<times> 'a otp_db_scheme conn" where
  "CreatePendingRegistration now newID pending c =
     (let row = pending\<lparr> pr_ID := newID,
                   pr_CreatedAt := (if pr_CreatedAt pending = zero_time then now else pr_CreatedAt pending),
                   pr_UpdatedAt := (if pr_UpdatedAt pending = zero_time then now else pr_UpdatedAt pending) \<rparr>
      in exec_checked (\<lambda>s.
           if \<exists>r \<in> set (pending_registrations s). pr_ID r = newID then Inl DBError
           else Inr (s\<lparr> pending_registrations := pending_registrations s @ [row] \<rparr>)) c)"

text \<open>\<open>Inr None\<close> is the answer \<^verbatim>\<open>nil, nil\<close>.\<close>

definition GetPendingRegistration ::
  "gotime \<Rightarrow> string \<Rightarrow> 'a otp_db_scheme conn
     \<Rightarrow> (go_error + PendingRegistration option) \<times> 'a otp_db_scheme conn" where
  "GetPendingRegistration now email c =
     (case query_row (\<lambda>s. select_row (\<lambda>_. True) (sort_key (\<lambda>r. - pr_CreatedAt r)
             (filter (\<lambda>r. pr_Email r = email \<and> pr_ExpiresAt r > now) (pending_registrations s)))) c of
        (Inl NoRows, c1) \<Rightarrow> (Inr None, c1)
      | (Inl e, c1) \<Rightarrow> (Inl e, c1)
      | (Inr r, c1) \<Rightarrow> (Inr (Some r), c1))"

definition DeletePendingRegistrationsByEmail ::
  "string \<Rightarrow> 'a otp_db_scheme conn \<Rightarrow> (go_error + unit) \<times> 'a otp_db_scheme conn" where
  "DeletePendingRegistrationsByEmail email c =
     exec (\<lambda>s. (s\<lparr> pending_registrations :=
       delete_where (\<lambda>r. pr_Email r = email) (pending_registrations s) \<rparr>, ())) c"

definition DeleteExpiredPendingRegistrations ::
  "gotime \<Rightarrow> 'a otp_db_scheme conn \<Rightarrow> (go_error + unit) \<times> 'a otp_db_scheme conn" where
  "DeleteExpiredPendingRegistrations now c =
     exec (\<lambda>s. (s\<lparr> pending_registrations :=
       delete_where (\<lambda>r. pr_ExpiresAt r < now) (pending_registrations s) \<rparr>, ())) c"

definition UpdatePendingRegistration ::
  "gotime \<Rightarrow> PendingRegistration \<Rightarrow> 'a otp_db_scheme conn \<Rightarrow> (go_error + unit) \<times> 'a otp_db_scheme conn" where
  "UpdatePendingRegistration now pending c =
     exec (\<lambda>s. (s\<lparr> pending_registrations := update_where (\<lambda>r. pr_Email r = pr_Email pending)
       (\<lambda>r. r\<lparr> pr_PasswordHash := pr_PasswordHash pending, pr_TenantID := pr_TenantID pending,
               pr_ProjectID := pr_ProjectID pending, pr_ClientID := pr_ClientID pending,
               pr_TenantDomain := pr_TenantDomain pending, pr_ExpiresAt := pr_ExpiresAt pending,
               pr_UpdatedAt := now \<rparr>) (pending_registrations s) \<rparr>, ())) c"

section \<open>The same statements inside a transaction\<close>

text \<open>A transaction runs the statement on its own connection.\<close>

definition CreateOTPTx ::
  "gotime \<Rightarrow> uuid \<Rightarrow> OTPEntry \<Rightarrow> 'a otp_db_scheme conn \<Rightarrow> (go_error + unit) \<times> 'a otp_db_scheme conn" where
  "CreateOTPTx now newID otp tx = CreateOTP now newID otp tx"

definition VerifyOTPTx ::
  "gotime \<Rightarrow> uuid \<Rightarrow> 'a otp_db_scheme conn \<Rightarrow> (go_error + unit) \<times> 'a otp_db_scheme conn" where
  "VerifyOTPTx now otpID tx = VerifyOTP now otpID tx"

definition DeleteOTPsByEmailTx ::
  "string \<Rightarrow> 'a otp_db_scheme conn \<Rightarrow> (go_error + unit) \<times> 'a otp_db_scheme conn" where
  "DeleteOTPsByEmailTx email tx = DeleteOTPsByEmail email tx"

definition DeletePendingRegistrationsByEmailTx ::
  "string \<Rightarrow> 'a otp_db_scheme conn \<Rightarrow> (go_error + unit) \<times> 'a otp_db_scheme conn" where
  "DeletePendingRegistrationsByEmailTx email tx = DeletePendingRegistrationsByEmail email tx"

section \<open>What the operations do\<close>

lemma query_row_newest:
  assumes "query_row (\<lambda>s. newest_otp P (otp_entries s)) c = (Inr r, c')"
  shows "r \<in> set (otp_entries (fst c)) \<and> P r"
proof -
  obtain q c1 where q: "query (\<lambda>s. newest_otp P (otp_entries s)) c = (q, c1)" by (rule prod.exhaust)
  with assms have "q = Inr (Inr r)" by (cases q) (auto simp: query_row_def)
  then have "newest_otp P (otp_entries (fst c)) = Inr r"
    using q by (cases c rule: conn_cases) (auto simp: query_def)
  then show ?thesis
    using select_row_sound [of "\<lambda>_. True" "sort_key (\<lambda>r. - ot_CreatedAt r) (filter P (otp_entries (fst c)))" r]
    by (simp add: newest_otp_def)
qed

lemma GetValidOTP_tables [simp]: "tables (GetValidOTP now i m code c) = fst c"
  unfolding GetValidOTP_def
  by (auto split: prod.splits sum.splits go_error.splits dest: query_row_tablesD)

lemma verified_otp_tables [simp]: "tables (verified_otp now m c) = fst c"
  unfolding verified_otp_def
  by (auto split: prod.splits sum.splits go_error.splits dest: query_row_tablesD)

lemma GetVerifiedOTP_tables [simp]: "tables (GetVerifiedOTP now i m c) = fst c"
proof -
  obtain r c1 where q: "query_row (\<lambda>s. newest_otp (\<lambda>r. ot_Email r = m) (otp_entries s)) c = (r, c1)" by (rule prod.exhaust)
  then have "fst c1 = fst c" using query_row_keeps_tables [of "\<lambda>s. newest_otp (\<lambda>r. ot_Email r = m) (otp_entries s)" c] by simp
  with q show ?thesis by (cases r) (simp_all add: GetVerifiedOTP_def)
qed

text \<open>What stands behind a code that is accepted, and behind an address that counts as verified.\<close>

lemma GetValidOTP_Inr:
  assumes "GetValidOTP now i m code c = (Inr e, c')" and "\<not> hardwired code"
  shows "e \<in> set (otp_entries (fst c)) \<and> ot_Email e = m \<and> ot_OTP e = code \<and> now - Second < ot_ExpiresAt e \<and>
           \<not> ot_Verified e"
proof -
  let ?P = "\<lambda>r. ot_Email r = m \<and> ot_OTP r = code \<and> ot_ExpiresAt r > now - Second \<and> \<not> ot_Verified r"
  obtain r c1 where q: "query_row (\<lambda>s. newest_otp ?P (otp_entries s)) c = (r, c1)" by (rule prod.exhaust)
  with assms have "r = Inr e" and "c1 = c'" by (auto simp: GetValidOTP_def split: sum.splits go_error.splits)
  with query_row_newest [OF q [unfolded \<open>r = Inr e\<close>]] show ?thesis by simp
qed

lemma GetVerifiedOTP_Inr:
  assumes "GetVerifiedOTP now i m c = (Inr e, c')"
  shows "\<exists>r \<in> set (otp_entries (fst c)). ot_Email r = m \<and> (hardwired (ot_OTP r) \<or> ot_Verified r \<and> now < ot_ExpiresAt r)"
proof -
  obtain r c1 where q: "query_row (\<lambda>s. newest_otp (\<lambda>r. ot_Email r = m) (otp_entries s)) c = (r, c1)" by (rule prod.exhaust)
  then have c1: "fst c1 = fst c" using query_row_keeps_tables [of "\<lambda>s. newest_otp (\<lambda>r. ot_Email r = m) (otp_entries s)" c] by simp
  show ?thesis
  proof (cases "\<exists>x. r = Inr x \<and> hardwired (ot_OTP x)")
    case True
    then obtain x where "r = Inr x" and "hardwired (ot_OTP x)" by blast
    with query_row_newest [OF q [unfolded \<open>r = Inr x\<close>]] show ?thesis by blast
  next
    case False
    with q assms have "verified_otp now m c1 = (Inr e, c')" by (cases r) (auto simp: GetVerifiedOTP_def split: if_splits)
    then obtain c2 where "query_row (\<lambda>s. newest_otp (\<lambda>r. ot_Email r = m \<and> ot_Verified r \<and> ot_ExpiresAt r > now)
        (otp_entries s)) c1 = (Inr e, c2)"
      by (auto simp: verified_otp_def split: prod.splits sum.splits go_error.splits)
    from query_row_newest [OF this] c1 show ?thesis by auto
  qed
qed

text \<open>
  A generated one-time password has six digits and lies between 100000 and 999998: whatever the generator
  draws below its limit, \<open>999999\<close> is never produced.
\<close>

theorem GenerateOTP_range:
  assumes "draw 899999 = Some n" and "n < 899999"
  shows "\<exists>k. GenerateOTP draw = Inr (show_nat k) \<and> 100000 \<le> k \<and> k \<le> 999998 \<and> length (show_nat k) = 6 \<and>
           list_all is_digit (show_nat k) \<and> show_nat k \<noteq> show_nat 999999"
proof -
  have "length (show_nat (n + 100000)) = 6"
    using length_show_nat [of "n + 100000" 6] length_show_nat_ge [of 5 "n + 100000"] assms(2) by simp
  moreover have "show_nat (n + 100000) \<noteq> show_nat 999999" using show_nat_inject [of "n + 100000" 999999] assms(2) by auto
  ultimately show ?thesis
    using assms show_nat_digits [of "n + 100000"] by (intro exI [of _ "n + 100000"]) (simp add: GenerateOTP_def)
qed

theorem GenerateOTP_range_witness: "\<exists>k. GenerateOTP (\<lambda>n. Some 7) = Inr (show_nat k) \<and> 100000 \<le> k \<and> k \<le> 999998"
  using GenerateOTP_range [of "\<lambda>n. Some 7" 7] by auto

end
