(* ===== verification/Go_Net.thy ===== *)
theory Go_Net
  imports Go_Strings "HOL-Library.Sublist"
begin

text \<open>
  What the sources use of \<^verbatim>\<open>net\<close> and of the cutting functions of \<^verbatim>\<open>strings\<close>: prefixes, suffixes, separators and
  whether a text is an IP address.
\<close>

section \<open>Cutting strings\<close>

definition TrimPrefix :: "string \<Rightarrow> string \<Rightarrow> string" where
  "TrimPrefix s p = (if HasPrefix s p then drop (length p) s else s)"

definition TrimSuffix :: "string \<Rightarrow> string \<Rightarrow> string" where
  "TrimSuffix s p = (if HasSuffix s p then take (length s - length p) s else s)"

text \<open>The text before the first occurrence of a character of \<open>cs\<close>, and before the last one of \<open>c\<close>.\<close>

definition before_any :: "string \<Rightarrow> string \<Rightarrow> string" where
  "before_any cs s = takeWhile (\<lambda>x. x \<notin> set cs) s"

definition before_last :: "char \<Rightarrow> string \<Rightarrow> string" where
  "before_last c s = rev (tl (dropWhile (\<lambda>x. x \<noteq> c) (rev s)))"

text \<open>\<^verbatim>\<open>strings.Split(s, string(c))\<close>.\<close>

fun Split :: "char \<Rightarrow> string \<Rightarrow> string list" where
  "Split c [] = [[]]"
| "Split c (x # s) = (if x = c then [] # Split c s else (case Split c s of [] \<Rightarrow> [[x]] | w # ws \<Rightarrow> (x # w) # ws))"

section \<open>IP addresses\<close>

text \<open>\<^verbatim>\<open>net.ParseIP(s) != nil\<close>: the dotted form without leading zeros, or the colon form.\<close>

fun dec_value :: "nat \<Rightarrow> string \<Rightarrow> nat" where
  "dec_value n [] = n"
| "dec_value n (c # cs) = dec_value (10 * n + (of_char c - 48)) cs"

definition is_octet :: "string \<Rightarrow> bool" where
  "is_octet s \<longleftrightarrow> s \<noteq> [] \<and> list_all is_digit s \<and> (length s = 1 \<or> hd s \<noteq> CHR ''0'') \<and> dec_value 0 s \<le> 255"

definition is_ipv4 :: "string \<Rightarrow> bool" where
  "is_ipv4 s \<longleftrightarrow> length (Split (CHR ''.'') s) = 4 \<and> list_all is_octet (Split (CHR ''.'') s)"

definition is_hex :: "char \<Rightarrow> bool" where
  "is_hex c \<longleftrightarrow> c \<in> set ''0123456789abcdefABCDEF''"

text \<open>\<open>ipv6_groups n ellipsis s\<close>: at most \<open>n\<close> groups of two bytes are still missing.\<close>

fun ipv6_groups :: "nat \<Rightarrow> bool \<Rightarrow> string \<Rightarrow> bool" where
  "ipv6_groups 0 ellipsis s = (s = [] \<and> \<not> ellipsis)"
| "ipv6_groups (Suc n) ellipsis s =
     (let h = takeWhile is_hex s; r = dropWhile is_hex s
      in if h = [] \<or> length h > 4 then False
         else case r of
           [] \<Rightarrow> ellipsis = (n > 0)
         | c # t \<Rightarrow>
             if c = CHR ''.'' then n > 0 \<and> is_ipv4 s \<and> ellipsis = (n > 1)
             else if c \<noteq> CHR '':'' then False
             else (case t of
                     [] \<Rightarrow> False
                   | d # u \<Rightarrow>
                       if d = CHR '':'' then \<not> ellipsis \<and> (if u = [] then n > 0 else ipv6_groups n True u)
                       else ipv6_groups n ellipsis t))"

definition is_ipv6 :: "string \<Rightarrow> bool" where
  "is_ipv6 s \<longleftrightarrow>
     (if HasPrefix s ''::'' then drop 2 s = [] \<or> ipv6_groups 8 True (drop 2 s) else ipv6_groups 8 False s)"

definition ParseIP :: "string \<Rightarrow> bool" where
  "ParseIP s \<longleftrightarrow>
     (case List.find (\<lambda>c. c \<in> set ''.:%'') s of
        None \<Rightarrow> False
      | Some c \<Rightarrow> if c = CHR ''.'' then is_ipv4 s else if c = CHR '':'' then is_ipv6 s else False)"

lemma TrimPrefix_append [simp]: "TrimPrefix (p @ s) p = s"
  by (simp add: TrimPrefix_def HasPrefix_def)

lemma before_last_append: "c \<notin> set t \<Longrightarrow> before_last c (s @ c # t) = s"
  unfolding before_last_def by (induction t rule: rev_induct) auto

lemma before_any_append: "set s \<inter> set cs = {} \<Longrightarrow> c \<in> set cs \<Longrightarrow> before_any cs (s @ c # t) = s"
  unfolding before_any_def by (induction s) auto

lemma before_any_id: "set s \<inter> set cs = {} \<Longrightarrow> before_any cs s = s"
  unfolding before_any_def by (induction s) auto

lemma set_before_any: "set (before_any cs s) \<subseteq> set s - set cs"
  unfolding before_any_def by (induction s) auto

lemma set_before_last: "set (before_last c s) \<subseteq> set s"
proof -
  have "set (tl (dropWhile (\<lambda>x. x \<noteq> c) (rev s))) \<subseteq> set (dropWhile (\<lambda>x. x \<noteq> c) (rev s))"
    by (rule set_mono_suffix [OF suffix_tl])
  also have "\<dots> \<subseteq> set (rev s)" by (auto dest: set_dropWhileD)
  finally show ?thesis by (simp add: before_last_def)
qed

lemma Split_single: "c \<notin> set s \<Longrightarrow> Split c s = [s]"
  by (induction s) auto

lemma Split_cons: "c \<notin> set h \<Longrightarrow> Split c (h @ c # t) = h # Split c t"
  by (induction h) auto

lemma Split_nonempty: "Split c s \<noteq> []"
  by (induction s) (auto split: list.split)

lemma Split_one: "Split c s = [h] \<Longrightarrow> c \<notin> set s \<and> s = h"
  by (induction s arbitrary: h) (auto simp: Split_nonempty split: if_splits list.splits)

lemma Split_two: "Split c s = [h, t] \<Longrightarrow> s = h @ c # t \<and> c \<notin> set h \<and> c \<notin> set t"
proof (induction s arbitrary: h)
  case (Cons x s)
  show ?case
  proof (cases "x = c")
    case True
    with Cons.prems have "h = []" "Split c s = [t]" by simp_all
    with True Split_one [of c s t] show ?thesis by auto
  next
    case False
    with Cons.prems obtain w where "Split c s = [w, t]" "h = x # w"
      using Split_nonempty [of c s] by (auto split: list.splits)
    with Cons.IH [of w] False show ?thesis by simp
  qed
qed simp

lemma after_last_append: "c \<notin> set t \<Longrightarrow> rev (takeWhile (\<lambda>x. x \<noteq> c) (rev (s @ c # t))) = t"
  by (induction t rule: rev_induct) auto

lemma dropWhile_full: "length xs \<le> length (dropWhile P xs) \<Longrightarrow> dropWhile P xs = xs"
  by (cases xs) (auto dest: le_trans [OF _ length_dropWhile_le] split: if_splits)

lemma TrimSpace_full: "length s \<le> length (TrimSpace s) \<Longrightarrow> TrimSpace s = s"
proof -
  assume *: "length s \<le> length (TrimSpace s)"
  have "length (TrimSpace s) \<le> length (dropWhile is_space s)"
    using length_dropWhile_le [of is_space "rev (dropWhile is_space s)"] by (simp add: TrimSpace_def)
  with * have front: "dropWhile is_space s = s" by (intro dropWhile_full) simp
  with * have "dropWhile is_space (rev s) = rev s" by (intro dropWhile_full) (simp add: TrimSpace_def)
  with front show ?thesis by (simp add: TrimSpace_def)
qed

lemma HasSuffix_char: "HasSuffix s [c] \<longleftrightarrow> s \<noteq> [] \<and> last s = c"
  by (cases s rule: rev_cases) (auto simp: HasSuffix_def HasPrefix_def)

lemma lower_char_dot: "lower_char c = CHR ''.'' \<longleftrightarrow> c = CHR ''.''"
proof (cases "is_upper c")
  case True
  then have "(of_char (lower_char c) :: nat) = of_char c + 32" by (simp add: lower_char_def is_upper_def)
  with True show ?thesis by (auto simp: is_upper_def)
next
  case False
  then show ?thesis by (simp add: lower_char_def)
qed

lemma ToLower_TrimSuffix: "ToLower (TrimSuffix s ''.'') = TrimSuffix (ToLower s) ''.''"
  by (cases s rule: rev_cases) (simp_all add: TrimSuffix_def HasSuffix_char ToLower_def lower_char_dot)

end
