(* ===== verification/Tenant_Domains.thy ===== *)
theory Tenant_Domains
  imports Otp Go_Net Gin_Context
begin

text \<open>
  Custom domains of tenants: the rows and statements of \<^verbatim>\<open>database/tenant_domains_repository.go\<close>, the
  operations of \<^verbatim>\<open>services/domain_service.go\<close> and the handlers of \<^verbatim>\<open>controllers/admin/domain_controller.go\<close>.

  \<^item> \<open>newID\<close> is the value of \<^verbatim>\<open>uuid.New()\<close>, \<open>rnd\<close> the bytes of the verification token, \<open>dns\<close> the answers of
    \<^verbatim>\<open>net.LookupTXT\<close> at the time of the call (the text of an error, or the records), \<open>env\<close> the value of \<^verbatim>\<open>ENVIRONMENT\<close>, \<open>skip\<close> whether
    \<^verbatim>\<open>SKIP_DNS_VERIFICATION\<close> is \<^verbatim>\<open>true\<close>, \<open>parse\<close> is \<^verbatim>\<open>uuid.Parse\<close>.
  \<^item> Constraints (migration 092): ids and domains are unique, a tenant has one primary domain.
\<close>

section \<open>Data model\<close>

record TenantDomain =
  td_ID :: uuid
  td_TenantID :: uuid
  td_Domain :: string
  td_Kind :: string
  td_IsPrimary :: bool
  td_IsVerified :: bool
  td_VerificationMethod :: string
  td_VerificationToken :: string
  td_VerificationTXTName :: "string option"
  td_VerificationTXTValue :: "string option"
  td_VerifiedAt :: "gotime option"
  td_LastCheckedAt :: "gotime option"
  td_FailureReason :: "string option"
  td_CreatedAt :: gotime
  td_UpdatedAt :: gotime
  td_CreatedBy :: "uuid option"
  td_UpdatedBy :: "uuid option"

record domain_db = otp_db +
  tenant_domains :: "TenantDomain list"

section \<open>Repository\<close>

definition generateVerificationToken :: "random \<Rightarrow> go_error + string" where
  "generateVerificationToken rnd =
     (case rnd of None \<Rightarrow> Inl (Errorf ''failed to generate token'') | Some b \<Rightarrow> Inr (Hex (map b [0..<32])))"

definition normalizeDomain :: "string \<Rightarrow> string" where
  "normalizeDomain domain = TrimSuffix (ToLower (TrimSpace domain)) ''.''"

definition insert_domain :: "TenantDomain \<Rightarrow> 'a domain_db_scheme \<Rightarrow> go_error + 'a domain_db_scheme" where
  "insert_domain td s =
     (if \<exists>r \<in> set (tenant_domains s). td_ID r = td_ID td \<or> td_Domain r = td_Domain td then Inl DBError
      else Inr (s\<lparr> tenant_domains := tenant_domains s @ [td] \<rparr>))"

definition pending_domain :: "gotime \<Rightarrow> uuid \<Rightarrow> uuid \<Rightarrow> string \<Rightarrow> string \<Rightarrow> uuid option \<Rightarrow> TenantDomain" where
  "pending_domain now newID tenantID domain token createdBy =
     \<lparr> td_ID = newID, td_TenantID = tenantID, td_Domain = domain, td_Kind = ''custom'',
       td_IsPrimary = False, td_IsVerified = False, td_VerificationMethod = ''dns_txt'',
       td_VerificationToken = token, td_VerificationTXTName = Some (''_authsec-challenge.'' @ domain),
       td_VerificationTXTValue = Some (''authsec-domain-verification='' @ token),
       td_VerifiedAt = None, td_LastCheckedAt = None, td_FailureReason = None,
       td_CreatedAt = now, td_UpdatedAt = now, td_CreatedBy = createdBy, td_UpdatedBy = None \<rparr>"

definition store_domain ::
  "gotime \<Rightarrow> random \<Rightarrow> uuid \<Rightarrow> uuid \<Rightarrow> string \<Rightarrow> uuid option \<Rightarrow> 'a domain_db_scheme conn
     \<Rightarrow> (go_error + TenantDomain) \<times> 'a domain_db_scheme conn" where
  "store_domain now rnd newID tenantID domain createdBy c =
     (case generateVerificationToken rnd of
        Inl e \<Rightarrow> (Inl e, c)
      | Inr token \<Rightarrow>
          let td = pending_domain now newID tenantID domain token createdBy
          in (case exec_checked (insert_domain td) c of
                (Inl e, c1) \<Rightarrow> (Inl (Wrap ''failed to create domain: '' e), c1)
              | (Inr _, c1) \<Rightarrow> (Inr td, c1)))"

definition repo_CreateDomain ::
  "gotime \<Rightarrow> random \<Rightarrow> uuid \<Rightarrow> uuid \<Rightarrow> string \<Rightarrow> uuid option \<Rightarrow> 'a domain_db_scheme conn
     \<Rightarrow> (go_error + TenantDomain) \<times> 'a domain_db_scheme conn" where
  "repo_CreateDomain now rnd newID tenantID domain0 createdBy c =
     (let domain = normalizeDomain domain0
      in if domain = [] then (Inl (Errorf ''domain cannot be empty''), c)
         else if Contains domain ''/'' \<or> Contains domain [CHR 0x5C] \<or> Contains domain ''*'' then
           (Inl (Errorf ''invalid domain format''), c)
         else
           (case query_row (\<lambda>s. select_row (\<lambda>r. td_Domain r = domain) (tenant_domains s)) c of
              (Inl NoRows, c1) \<Rightarrow> store_domain now rnd newID tenantID domain createdBy c1
            | (Inl e, c1) \<Rightarrow> (Inl (Wrap ''failed to check domain uniqueness: '' e), c1)
            | (Inr r, c1) \<Rightarrow>
                if td_TenantID r \<noteq> tenantID then (Inl (Errorf ''domain already claimed by another tenant''), c1)
                else store_domain now rnd newID tenantID domain createdBy c1))"

text \<open>The readers replace \<^verbatim>\<open>sql.ErrNoRows\<close> by a message of their own.\<close>

definition read_domain ::
  "string \<Rightarrow> string \<Rightarrow> (TenantDomain \<Rightarrow> bool) \<Rightarrow> 'a domain_db_scheme conn
     \<Rightarrow> (go_error + TenantDomain) \<times> 'a domain_db_scheme conn" where
  "read_domain missing failed P c =
     (case query_row (\<lambda>s. select_row P (tenant_domains s)) c of
        (Inl NoRows, c1) \<Rightarrow> (Inl (Errorf missing), c1)
      | (Inl e, c1) \<Rightarrow> (Inl (Wrap failed e), c1)
      | (Inr td, c1) \<Rightarrow> (Inr td, c1))"

definition repo_GetDomainByID ::
  "uuid \<Rightarrow> 'a domain_db_scheme conn \<Rightarrow> (go_error + TenantDomain) \<times> 'a domain_db_scheme conn" where
  "repo_GetDomainByID i c = read_domain ''domain not found'' ''failed to get domain: '' (\<lambda>r. td_ID r = i) c"

definition GetDomainByHostname ::
  "string \<Rightarrow> 'a domain_db_scheme conn \<Rightarrow> (go_error + TenantDomain) \<times> 'a domain_db_scheme conn" where
  "GetDomainByHostname hostname c =
     read_domain ''domain not found or not verified'' ''failed to get domain: ''
       (\<lambda>r. td_Domain r = normalizeDomain hostname \<and> td_IsVerified r) c"

definition GetPrimaryDomainByTenantID ::
  "uuid \<Rightarrow> 'a domain_db_scheme conn \<Rightarrow> (go_error + TenantDomain) \<times> 'a domain_db_scheme conn" where
  "GetPrimaryDomainByTenantID tenantID c =
     read_domain ''no primary domain found for tenant'' ''failed to query primary domain: ''
       (\<lambda>r. td_TenantID r = tenantID \<and> td_IsPrimary r) c"

definition primary_first :: "TenantDomain list \<Rightarrow> TenantDomain list" where
  "primary_first t = sort_key (\<lambda>r. if td_IsPrimary r then 0 else 1 :: nat) t"

definition repo_ListTenantDomains ::
  "uuid \<Rightarrow> 'a domain_db_scheme conn \<Rightarrow> (go_error + TenantDomain list) \<times> 'a domain_db_scheme conn" where
  "repo_ListTenantDomains tenantID c =
     wrap_err ''failed to query domains: ''
       (query (\<lambda>s. primary_first (sort_key (\<lambda>r. - td_CreatedAt r)
          (filter (\<lambda>r. td_TenantID r = tenantID) (tenant_domains s)))) c)"

text \<open>An \<^verbatim>\<open>UPDATE\<close> or \<^verbatim>\<open>DELETE\<close> that must touch a row.\<close>

definition touch_domain ::
  "string \<Rightarrow> string \<Rightarrow> (TenantDomain \<Rightarrow> bool) \<Rightarrow> (TenantDomain list \<Rightarrow> TenantDomain list) \<Rightarrow> 'a domain_db_scheme conn
     \<Rightarrow> (go_error + unit) \<times> 'a domain_db_scheme conn" where
  "touch_domain failed missing P f c =
     (case exec (\<lambda>s. (s\<lparr> tenant_domains := f (tenant_domains s) \<rparr>, affected P (tenant_domains s))) c of
        (Inl e, c1) \<Rightarrow> (Inl (Wrap failed e), c1)
      | (Inr n, c1) \<Rightarrow> (if n = 0 then (Inl (Errorf missing), c1) else (Inr (), c1)))"

definition repo_VerifyDomain ::
  "gotime \<Rightarrow> uuid \<Rightarrow> uuid option \<Rightarrow> 'a domain_db_scheme conn \<Rightarrow> (go_error + unit) \<times> 'a domain_db_scheme conn" where
  "repo_VerifyDomain now i updatedBy c =
     touch_domain ''failed to verify domain: '' ''domain not found'' (\<lambda>r. td_ID r = i)
       (update_where (\<lambda>r. td_ID r = i) (\<lambda>r. r\<lparr> td_IsVerified := True, td_VerifiedAt := Some now,
          td_UpdatedAt := now, td_UpdatedBy := updatedBy \<rparr>)) c"

text \<open>The second statement fails when another domain of the tenant is still primary.\<close>

definition set_primary ::
  "gotime \<Rightarrow> uuid \<Rightarrow> uuid \<Rightarrow> uuid option \<Rightarrow> 'a domain_db_scheme \<Rightarrow> go_error + 'a domain_db_scheme" where
  "set_primary now tenantID domainID updatedBy s =
     (if (\<exists>r \<in> set (tenant_domains s). td_TenantID r = tenantID \<and> td_IsPrimary r \<and> td_ID r \<noteq> domainID) \<and>
         (\<exists>r \<in> set (tenant_domains s). td_ID r = domainID \<and> td_TenantID r = tenantID) then Inl DBError
      else Inr (s\<lparr> tenant_domains := update_where (\<lambda>r. td_ID r = domainID \<and> td_TenantID r = tenantID)
        (\<lambda>r. r\<lparr> td_IsPrimary := True, td_UpdatedAt := now, td_UpdatedBy := updatedBy \<rparr>) (tenant_domains s) \<rparr>))"

definition repo_SetPrimaryDomain ::
  "gotime \<Rightarrow> uuid \<Rightarrow> uuid \<Rightarrow> uuid option \<Rightarrow> 'a domain_db_scheme conn
     \<Rightarrow> (go_error + unit) \<times> 'a domain_db_scheme conn" where
  "repo_SetPrimaryDomain now tenantID domainID updatedBy c =
     (case exec (\<lambda>s. (s\<lparr> tenant_domains := update_where (\<lambda>r. td_TenantID r = tenantID \<and> td_IsPrimary r)
             (\<lambda>r. r\<lparr> td_IsPrimary := False, td_UpdatedAt := now, td_UpdatedBy := updatedBy \<rparr>)
             (tenant_domains s) \<rparr>, ())) c of
        (Inl e, c1) \<Rightarrow> (Inl (Wrap ''failed to unset other primary domains: '' e), c1)
      | (Inr _, c1) \<Rightarrow>
          (case exec (\<lambda>s. case set_primary now tenantID domainID updatedBy s of
                        Inl e \<Rightarrow> (s, Inl e)
                      | Inr s' \<Rightarrow> (s', Inr (affected (\<lambda>r. td_ID r = domainID \<and> td_TenantID r = tenantID)
                                            (tenant_domains s)))) c1 of
             (Inl e, c2) \<Rightarrow> (Inl (Wrap ''failed to set primary domain: '' e), c2)
           | (Inr (Inl e), c2) \<Rightarrow> (Inl (Wrap ''failed to set primary domain: '' e), c2)
           | (Inr (Inr n), c2) \<Rightarrow>
               (if n = 0 then (Inl (Errorf ''domain not found for tenant''), c2) else (Inr (), c2))))"

definition repo_DeleteDomain ::
  "uuid \<Rightarrow> 'a domain_db_scheme conn \<Rightarrow> (go_error + unit) \<times> 'a domain_db_scheme conn" where
  "repo_DeleteDomain i c =
     touch_domain ''failed to delete domain: '' ''domain not found'' (\<lambda>r. td_ID r = i)
       (delete_where (\<lambda>r. td_ID r = i)) c"

definition repo_GetVerifiedDomainsForTenant ::
  "uuid \<Rightarrow> 'a domain_db_scheme conn \<Rightarrow> (go_error + string list) \<times> 'a domain_db_scheme conn" where
  "repo_GetVerifiedDomainsForTenant tenantID c =
     wrap_err ''failed to query verified domains: ''
       (query (\<lambda>s. map td_Domain (primary_first
          (filter (\<lambda>r. td_TenantID r = tenantID \<and> td_IsVerified r) (tenant_domains s)))) c)"

definition UpdateVerificationStatus ::
  "gotime \<Rightarrow> uuid \<Rightarrow> bool \<Rightarrow> string option \<Rightarrow> 'a domain_db_scheme conn
     \<Rightarrow> (go_error + unit) \<times> 'a domain_db_scheme conn" where
  "UpdateVerificationStatus now i isVerified failureReason c =
     touch_domain ''failed to update verification status: '' ''domain not found'' (\<lambda>r. td_ID r = i)
       (update_where (\<lambda>r. td_ID r = i) (\<lambda>r. r\<lparr> td_IsVerified := isVerified, td_LastCheckedAt := Some now,
          td_FailureReason := failureReason, td_UpdatedAt := now \<rparr>)) c"

definition IsDomainOwnedByTenant ::
  "uuid \<Rightarrow> string \<Rightarrow> 'a domain_db_scheme conn \<Rightarrow> (go_error + bool) \<times> 'a domain_db_scheme conn" where
  "IsDomainOwnedByTenant tenantID hostname c =
     (case query (\<lambda>s. affected (\<lambda>r. td_TenantID r = tenantID \<and> td_Domain r = normalizeDomain hostname \<and> td_IsVerified r)
             (tenant_domains s)) c of
        (Inl e, c1) \<Rightarrow> (Inl (Wrap ''failed to check domain ownership: '' e), c1)
      | (Inr n, c1) \<Rightarrow> (Inr (n > 0), c1))"

section \<open>Redirect addresses\<close>

definition isDev :: "string \<Rightarrow> bool" where
  "isDev env \<longleftrightarrow> env = ''development'' \<or> env = []"

definition validateHostnameFormat :: "string \<Rightarrow> string \<Rightarrow> go_error option" where
  "validateHostnameFormat env hostname =
     (if hostname = [] then Some (Errorf ''empty hostname'')
      else if \<exists>c \<in> set hostname. c \<in> set (''/* '' @ [CHR 0x5C]) then
        Some (Errorf ''invalid hostname characters'')
      else if \<not> Contains hostname ''.'' \<or> length hostname < 3 \<or> length hostname > 253 then
        Some (Errorf ''invalid hostname format'')
      else if \<not> isDev env \<and> ParseIP hostname then
        Some (Errorf ''IP addresses not allowed in redirect URIs'')
      else None)"

text \<open>The host of a redirect address: what follows the scheme up to the path or query, less the last port.\<close>

definition redirect_host :: "string \<Rightarrow> string" where
  "redirect_host redirectURI =
     (let uriWithoutScheme = (if HasPrefix redirectURI ''https://'' then drop 8 redirectURI
                              else if HasPrefix redirectURI ''http://'' then drop 7 redirectURI else redirectURI);
          host = before_any ''/?'' uriWithoutScheme
      in if CHR '':'' \<in> set host \<and> \<not> Contains (before_last (CHR '':'') host) ''['' then before_last (CHR '':'') host
         else host)"

definition NormalizeHostnameAndCheckOwnership ::
  "string \<Rightarrow> uuid \<Rightarrow> string \<Rightarrow> 'a domain_db_scheme conn \<Rightarrow> (go_error + string) \<times> 'a domain_db_scheme conn" where
  "NormalizeHostnameAndCheckOwnership env tenantID redirectURI c =
     (if \<not> HasPrefix redirectURI ''http://'' \<and> \<not> HasPrefix redirectURI ''https://'' then
        (Inl (Errorf ''invalid redirect URI: must start with http:// or https://''), c)
      else
        let host = redirect_host redirectURI
        in if Contains host ''*'' \<or> Contains host ''%'' then (Inl (Errorf ''wildcard hosts not allowed''), c)
           else
             (case validateHostnameFormat env host of
                Some e \<Rightarrow> (Inl e, c)
              | None \<Rightarrow>
                  (case IsDomainOwnedByTenant tenantID host c of
                     (Inl e, c1) \<Rightarrow> (Inl e, c1)
                   | (Inr False, c1) \<Rightarrow>
                       (Inl (Errorf (''redirect URI host '' @ host @ '' is not owned by tenant '' @ tenantID)), c1)
                   | (Inr True, c1) \<Rightarrow> (Inr host, c1))))"

text \<open>The hosts that pass and the errors of the others.\<close>

fun redirect_hosts ::
  "string \<Rightarrow> uuid \<Rightarrow> string list \<Rightarrow> 'a domain_db_scheme conn
     \<Rightarrow> (string list \<times> go_error list) \<times> 'a domain_db_scheme conn" where
  "redirect_hosts env tenantID [] c = (([], []), c)"
| "redirect_hosts env tenantID (uri0 # uris) c =
     (let uri = TrimSpace uri0
      in if uri = [] then redirect_hosts env tenantID uris c
         else if isDev env \<and> Contains uri ''localhost'' then
           (let ((hs, es), c1) = redirect_hosts env tenantID uris c in ((uri # hs, es), c1))
         else
           (case NormalizeHostnameAndCheckOwnership env tenantID uri c of
              (Inl e, c1) \<Rightarrow> (let ((hs, es), c2) = redirect_hosts env tenantID uris c1 in ((hs, e # es), c2))
            | (Inr h, c1) \<Rightarrow> (let ((hs, es), c2) = redirect_hosts env tenantID uris c1 in ((h # hs, es), c2))))"

text \<open>The validated hosts, and the errors of \<^verbatim>\<open>RedirectURIValidationError\<close> if there are any.\<close>

definition ValidateRedirectURIs ::
  "string \<Rightarrow> uuid \<Rightarrow> string list \<Rightarrow> 'a domain_db_scheme conn
     \<Rightarrow> (string list \<times> go_error list option) \<times> 'a domain_db_scheme conn" where
  "ValidateRedirectURIs env tenantID redirectURIs c =
     (let ((hs, es), c1) = redirect_hosts env tenantID redirectURIs c
      in ((hs, if es = [] then None else Some es), c1))"

section \<open>Service\<close>

definition RegisterDomain ::
  "gotime \<Rightarrow> random \<Rightarrow> uuid \<Rightarrow> uuid \<Rightarrow> string \<Rightarrow> uuid option \<Rightarrow> 'a domain_db_scheme conn
     \<Rightarrow> (go_error + TenantDomain) \<times> 'a domain_db_scheme conn" where
  "RegisterDomain now rnd newID tenantID domain createdBy c =
     repo_CreateDomain now rnd newID tenantID domain createdBy c"

text \<open>\<open>None\<close> is a match, \<open>Some reason\<close> a failed verification.\<close>

definition verifyDNSTXT :: "bool \<Rightarrow> (string \<Rightarrow> string + string list) \<Rightarrow> string \<Rightarrow> string \<Rightarrow> string option" where
  "verifyDNSTXT skip dns txtName0 expectedValue =
     (if skip then None
      else
        let txtName = TrimSuffix txtName0 ''.''
        in case dns txtName of
             Inl err \<Rightarrow> Some (''DNS TXT lookup failed: '' @ err)
           | Inr [] \<Rightarrow> Some (''No TXT records found for '' @ txtName)
           | Inr txtRecords \<Rightarrow>
               if expectedValue \<in> set txtRecords then None
               else Some (''TXT record value mismatch. Expected: '' @ expectedValue @ '', Found: ['' @ Join txtRecords '' '' @ '']''))"

definition VerifyDomainOwnership ::
  "bool \<Rightarrow> (string \<Rightarrow> string + string list) \<Rightarrow> gotime \<Rightarrow> uuid \<Rightarrow> 'a domain_db_scheme conn
     \<Rightarrow> (go_error + unit) \<times> 'a domain_db_scheme conn" where
  "VerifyDomainOwnership skip dns now domainID c =
     (case repo_GetDomainByID domainID c of
        (Inl e, c1) \<Rightarrow> (Inl (Wrap ''domain not found: '' e), c1)
      | (Inr td, c1) \<Rightarrow>
          if td_IsVerified td then (Inl (Errorf ''domain already verified''), c1)
          else
            (case (td_VerificationTXTName td, td_VerificationTXTValue td) of
               (Some name, Some val) \<Rightarrow>
                 (case verifyDNSTXT skip dns name val of
                    None \<Rightarrow> wrap_err ''failed to mark domain as verified: '' (repo_VerifyDomain now domainID None c1)
                  | Some reason \<Rightarrow>
                      (case UpdateVerificationStatus now domainID False (Some reason) c1 of
                         (_, c2) \<Rightarrow> (Inl (Errorf (''verification failed: '' @ reason)), c2)))
             | _ \<Rightarrow> (Inl (Errorf ''verification details not set''), c1)))"

definition GetVerifiedDomainsForTenant ::
  "uuid \<Rightarrow> 'a domain_db_scheme conn \<Rightarrow> (go_error + string list) \<times> 'a domain_db_scheme conn" where
  "GetVerifiedDomainsForTenant tenantID c = repo_GetVerifiedDomainsForTenant tenantID c"

definition ResolveTenantByHost ::
  "string \<Rightarrow> 'a domain_db_scheme conn \<Rightarrow> (go_error + uuid) \<times> 'a domain_db_scheme conn" where
  "ResolveTenantByHost hostname c =
     (case GetDomainByHostname hostname c of
        (Inl e, c1) \<Rightarrow> (Inl e, c1)
      | (Inr td, c1) \<Rightarrow> (Inr (td_TenantID td), c1))"

definition ListTenantDomains ::
  "uuid \<Rightarrow> 'a domain_db_scheme conn \<Rightarrow> (go_error + TenantDomain list) \<times> 'a domain_db_scheme conn" where
  "ListTenantDomains tenantID c = repo_ListTenantDomains tenantID c"

definition SetPrimaryDomain ::
  "gotime \<Rightarrow> uuid \<Rightarrow> uuid \<Rightarrow> uuid option \<Rightarrow> 'a domain_db_scheme conn
     \<Rightarrow> (go_error + unit) \<times> 'a domain_db_scheme conn" where
  "SetPrimaryDomain now tenantID domainID updatedBy c = repo_SetPrimaryDomain now tenantID domainID updatedBy c"

definition DeleteDomain ::
  "uuid \<Rightarrow> 'a domain_db_scheme conn \<Rightarrow> (go_error + unit) \<times> 'a domain_db_scheme conn" where
  "DeleteDomain domainID c = repo_DeleteDomain domainID c"

definition ValidateRedirectURIHost ::
  "uuid \<Rightarrow> string \<Rightarrow> 'a domain_db_scheme conn \<Rightarrow> (go_error + bool) \<times> 'a domain_db_scheme conn" where
  "ValidateRedirectURIHost tenantID redirectURI c =
     (if \<not> HasPrefix redirectURI ''http://'' \<and> \<not> HasPrefix redirectURI ''https://'' then
        (Inl (Errorf ''invalid redirect URI: must start with http:// or https://''), c)
      else
        let host = redirect_host redirectURI
        in if Contains host ''*'' \<or> Contains host ''%'' then (Inl (Errorf ''wildcard hosts not allowed''), c)
           else
             (case repo_GetVerifiedDomainsForTenant tenantID c of
                (Inl e, c1) \<Rightarrow> (Inl e, c1)
              | (Inr verifiedDomains, c1) \<Rightarrow>
                  if verifiedDomains = [] then (Inl (Errorf ''no verified domains for tenant''), c1)
                  else if ToLower (TrimSuffix host ''.'') \<in> set verifiedDomains then (Inr True, c1)
                  else (Inl (Errorf (''redirect URI host '' @ host @ '' not verified for this tenant'')), c1)))"

section \<open>Handlers\<close>

text \<open>The request: the keys of the context, the path parameter and the outcome of \<^verbatim>\<open>ShouldBindJSON\<close>.\<close>

definition getTenantIDFromRequest :: "(string \<Rightarrow> uuid option) \<Rightarrow> gin_context \<Rightarrow> go_error + uuid" where
  "getTenantIDFromRequest parse ctx =
     (case ctx ''tenant_id'' of
        Some (GStr t) \<Rightarrow>
          if TrimSpace t = [] then Inl (Errorf ''tenant_id not found in request context'')
          else (case parse t of None \<Rightarrow> Inl (Errorf ''invalid tenant_id format'') | Some i \<Rightarrow> Inr i)
      | _ \<Rightarrow> Inl (Errorf ''tenant_id not found in request context''))"

definition getUserIDFromRequest :: "(string \<Rightarrow> uuid option) \<Rightarrow> gin_context \<Rightarrow> uuid option" where
  "getUserIDFromRequest parse ctx = (case ctx ''user_id'' of Some (GStr u) \<Rightarrow> parse u | _ \<Rightarrow> None)"

text \<open>The body names the row where the source copies its fields; \<open>DPanic\<close> is a panic that \<^verbatim>\<open>gin\<close> answers with 500.\<close>

datatype domain_body =
    DError string "go_error option"
  | DDomains "TenantDomain list"
  | DDomain TenantDomain
  | DDone string "TenantDomain option"
  | DPanic

abbreviation domain_reply :: "nat \<Rightarrow> domain_body \<Rightarrow> domain_body http_reply" where
  "domain_reply code b \<equiv> \<lparr> http_status = code, http_body = b, http_audit = [] \<rparr>"

definition http_ListDomains ::
  "(string \<Rightarrow> uuid option) \<Rightarrow> gin_context \<Rightarrow> 'a domain_db_scheme conn
     \<Rightarrow> domain_body http_reply \<times> 'a domain_db_scheme conn" where
  "http_ListDomains parse ctx c =
     (case getTenantIDFromRequest parse ctx of
        Inl e \<Rightarrow> (domain_reply 401 (DError [] (Some e)), c)
      | Inr tenantID \<Rightarrow>
          (case ListTenantDomains tenantID c of
             (Inl e, c1) \<Rightarrow> (domain_reply 500 (DError ''failed to list domains'' (Some e)), c1)
           | (Inr ds, c1) \<Rightarrow> (domain_reply 200 (DDomains ds), c1)))"

text \<open>
  The steps that the handlers of one domain share: the parameter, the tenant, the row and its owner;
  \<open>forbidden\<close> is the message for a domain of another tenant.
\<close>

definition with_own_domain ::
  "(string \<Rightarrow> uuid option) \<Rightarrow> gin_context \<Rightarrow> string \<Rightarrow> string
     \<Rightarrow> (uuid \<Rightarrow> uuid \<Rightarrow> TenantDomain \<Rightarrow> 'a domain_db_scheme conn \<Rightarrow> domain_body http_reply \<times> 'a domain_db_scheme conn)
     \<Rightarrow> 'a domain_db_scheme conn \<Rightarrow> domain_body http_reply \<times> 'a domain_db_scheme conn" where
  "with_own_domain parse ctx param forbidden k c =
     (if TrimSpace param = [] then (domain_reply 400 (DError ''domain_id is required'' None), c)
      else
        (case parse (TrimSpace param) of
           None \<Rightarrow> (domain_reply 400 (DError ''invalid domain_id format'' None), c)
         | Some domainID \<Rightarrow>
             (case getTenantIDFromRequest parse ctx of
                Inl e \<Rightarrow> (domain_reply 401 (DError [] (Some e)), c)
              | Inr tenantID \<Rightarrow>
                  (case repo_GetDomainByID domainID c of
                     (Inl _, c1) \<Rightarrow> (domain_reply 404 (DError ''domain not found'' None), c1)
                   | (Inr td, c1) \<Rightarrow>
                       if td_TenantID td \<noteq> tenantID then (domain_reply 403 (DError forbidden None), c1)
                       else k tenantID domainID td c1))))"

text \<open>The row read again after the operation; a failed read leaves a nil pointer that the handler follows.\<close>

definition done_with :: "string \<Rightarrow> uuid \<Rightarrow> 'a domain_db_scheme conn \<Rightarrow> domain_body http_reply \<times> 'a domain_db_scheme conn" where
  "done_with msg domainID c =
     (case repo_GetDomainByID domainID c of
        (Inl _, c1) \<Rightarrow> (domain_reply 500 DPanic, c1)
      | (Inr td, c1) \<Rightarrow> (domain_reply 200 (DDone msg (Some td)), c1))"

definition http_GetDomainByID ::
  "(string \<Rightarrow> uuid option) \<Rightarrow> gin_context \<Rightarrow> string \<Rightarrow> 'a domain_db_scheme conn
     \<Rightarrow> domain_body http_reply \<times> 'a domain_db_scheme conn" where
  "http_GetDomainByID parse ctx param c =
     with_own_domain parse ctx param ''not authorized to access this domain''
       (\<lambda>tenantID domainID td c1. (domain_reply 200 (DDomain td), c1)) c"

definition http_CreateDomain ::
  "(string \<Rightarrow> uuid option) \<Rightarrow> gotime \<Rightarrow> random \<Rightarrow> uuid \<Rightarrow> gin_context \<Rightarrow> go_error + string \<Rightarrow> 'a domain_db_scheme conn
     \<Rightarrow> domain_body http_reply \<times> 'a domain_db_scheme conn" where
  "http_CreateDomain parse now rnd newID ctx body c =
     (case getTenantIDFromRequest parse ctx of
        Inl e \<Rightarrow> (domain_reply 401 (DError [] (Some e)), c)
      | Inr tenantID \<Rightarrow>
          (case body of
             Inl e \<Rightarrow> (domain_reply 400 (DError [] (Some e)), c)
           | Inr domain \<Rightarrow>
               (case RegisterDomain now rnd newID tenantID domain (getUserIDFromRequest parse ctx) c of
                  (Inl e, c1) \<Rightarrow> (domain_reply 400 (DError [] (Some e)), c1)
                | (Inr td, c1) \<Rightarrow> (domain_reply 201 (DDomain td), c1))))"

text \<open>This handler answers 400, not 401, when the tenant in the context is not a UUID.\<close>

definition http_VerifyDomain ::
  "(string \<Rightarrow> uuid option) \<Rightarrow> bool \<Rightarrow> (string \<Rightarrow> string + string list) \<Rightarrow> gotime \<Rightarrow> gin_context \<Rightarrow> string
     \<Rightarrow> 'a domain_db_scheme conn \<Rightarrow> domain_body http_reply \<times> 'a domain_db_scheme conn" where
  "http_VerifyDomain parse skip dns now ctx param c =
     (if TrimSpace param = [] then (domain_reply 400 (DError ''domain_id is required'' None), c)
      else
        (case parse (TrimSpace param) of
           None \<Rightarrow> (domain_reply 400 (DError ''invalid domain_id format'' None), c)
         | Some domainID \<Rightarrow>
             (case ctx ''tenant_id'' of
                Some (GStr t) \<Rightarrow>
                  if TrimSpace t = [] then (domain_reply 401 (DError ''tenant_id not found in request'' None), c)
                  else
                    (case parse t of
                       None \<Rightarrow> (domain_reply 400 (DError ''invalid tenant_id format'' None), c)
                     | Some tenantID \<Rightarrow>
                         (case repo_GetDomainByID domainID c of
                            (Inl _, c1) \<Rightarrow> (domain_reply 404 (DError ''domain not found'' None), c1)
                          | (Inr td, c1) \<Rightarrow>
                              if td_TenantID td \<noteq> tenantID then
                                (domain_reply 403 (DError ''not authorized to verify this domain'' None), c1)
                              else
                                (case VerifyDomainOwnership skip dns now domainID c1 of
                                   (Inl e, c2) \<Rightarrow> (domain_reply 400 (DError ''verification failed'' (Some e)), c2)
                                 | (Inr _, c2) \<Rightarrow> done_with ''domain verified successfully'' domainID c2)))
              | _ \<Rightarrow> (domain_reply 401 (DError ''tenant_id not found in request'' None), c))))"

definition http_SetPrimaryDomain ::
  "(string \<Rightarrow> uuid option) \<Rightarrow> gotime \<Rightarrow> gin_context \<Rightarrow> string \<Rightarrow> 'a domain_db_scheme conn
     \<Rightarrow> domain_body http_reply \<times> 'a domain_db_scheme conn" where
  "http_SetPrimaryDomain parse now ctx param c =
     with_own_domain parse ctx param ''not authorized to modify this domain''
       (\<lambda>tenantID domainID td c1.
          if \<not> td_IsVerified td then
            (domain_reply 400 (DError ''domain must be verified before setting as primary'' None), c1)
          else
            (case SetPrimaryDomain now tenantID domainID (getUserIDFromRequest parse ctx) c1 of
               (Inl e, c2) \<Rightarrow> (domain_reply 500 (DError ''failed to set primary domain'' (Some e)), c2)
             | (Inr _, c2) \<Rightarrow> done_with ''domain set as primary'' domainID c2)) c"

definition http_DeleteDomain ::
  "(string \<Rightarrow> uuid option) \<Rightarrow> gin_context \<Rightarrow> string \<Rightarrow> 'a domain_db_scheme conn
     \<Rightarrow> domain_body http_reply \<times> 'a domain_db_scheme conn" where
  "http_DeleteDomain parse ctx param c =
     with_own_domain parse ctx param ''not authorized to delete this domain''
       (\<lambda>tenantID domainID td c1.
          (case DeleteDomain domainID c1 of
             (Inl e, c2) \<Rightarrow> (domain_reply 500 (DError ''failed to delete domain'' (Some e)), c2)
           | (Inr _, c2) \<Rightarrow> (domain_reply 200 (DDone ''domain deleted successfully'' None), c2))) c"

end
