(* ===== verification/Domain_Ownership.thy ===== *)
theory Domain_Ownership
  imports Tenant_Domains
begin

text \<open>
  What the domain handlers promise: who owns a domain, and where an accepted redirect address leads. The operations and
  the addresses they are shown for are those of \<open>Tenant_Domains\<close>.
\<close>

section \<open>What the statements do\<close>

lemma read_domain_tables [simp]: "tables (read_domain m f P c) = fst c"
  unfolding read_domain_def by (auto split: prod.splits sum.splits go_error.splits dest: query_row_tablesD)

lemma query_row_select:
  assumes "query_row (\<lambda>s. select_row P (g s)) c = (Inr r, c')"
  shows "r \<in> set (g (fst c)) \<and> P r"
proof -
  obtain q c1 where q: "query (\<lambda>s. select_row P (g s)) c = (q, c1)" by (rule prod.exhaust)
  with assms have "q = Inr (Inr r)" by (cases q) (auto simp: query_row_def)
  then have "select_row P (g (fst c)) = Inr r" using q by (cases c rule: conn_cases) (auto simp: query_def)
  then show ?thesis by (rule select_row_sound)
qed

lemma read_domain_Inr:
  assumes "read_domain m f P c = (Inr td, c')"
  shows "td \<in> set (tenant_domains (fst c)) \<and> P td \<and> fst c' = fst c"
proof -
  obtain q c1 where q: "query_row (\<lambda>s. select_row P (tenant_domains s)) c = (q, c1)" by (rule prod.exhaust)
  with assms have "q = Inr td" "c1 = c'" by (auto simp: read_domain_def split: sum.splits go_error.splits)
  with query_row_select [OF q [unfolded \<open>q = Inr td\<close>]] q show ?thesis using query_row_tablesD [of _ c q "fst c1" "snd c1"] by simp
qed

lemma touch_domain_keeps:
  assumes "P (fst c)" and "P ((fst c)\<lparr> tenant_domains := f (tenant_domains (fst c)) \<rparr>)"
  shows "P (tables (touch_domain m e Q f c))"
proof -
  let ?f = "\<lambda>s. (s\<lparr> tenant_domains := f (tenant_domains s) \<rparr>, affected Q (tenant_domains s))"
  obtain r c1 where r: "exec ?f c = (r, c1)" by (rule prod.exhaust)
  have "P (fst c1)" using exec_tables [OF r] assms by auto
  with r show ?thesis by (cases r) (auto simp: touch_domain_def)
qed

section \<open>Runs of the handlers\<close>

datatype domain_op =
    DoCreate gotime random uuid gin_context "go_error + string"
  | DoVerify "string \<Rightarrow> string + string list" gotime gin_context string
  | DoPrimary gotime gin_context string
  | DoDelete gin_context string
  | DoList gin_context
  | DoGet gin_context string

fun domain_handle ::
  "(string \<Rightarrow> uuid option) \<Rightarrow> bool \<Rightarrow> domain_op \<Rightarrow> 'a domain_db_scheme conn
     \<Rightarrow> 'a domain_db_scheme conn \<times> domain_body http_reply" where
  "domain_handle parse skip (DoCreate now rnd i ctx body) c = reply id (http_CreateDomain parse now rnd i ctx body c)"
| "domain_handle parse skip (DoVerify dns now ctx p) c = reply id (http_VerifyDomain parse skip dns now ctx p c)"
| "domain_handle parse skip (DoPrimary now ctx p) c = reply id (http_SetPrimaryDomain parse now ctx p c)"
| "domain_handle parse skip (DoDelete ctx p) c = reply id (http_DeleteDomain parse ctx p c)"
| "domain_handle parse skip (DoList ctx) c = reply id (http_ListDomains parse ctx c)"
| "domain_handle parse skip (DoGet ctx p) c = reply id (http_GetDomainByID parse ctx p c)"

text \<open>
  \<open>claimed\<close>: the tenant of the row asked for its domain with the token of the row. \<open>proved\<close>: that tenant asked to verify
  this very row, and the record with that token was found under the domain, unless the setting \<^verbatim>\<open>SKIP_DNS_VERIFICATION\<close> was on.
\<close>

definition claimed :: "(string \<Rightarrow> uuid option) \<Rightarrow> domain_op set \<Rightarrow> TenantDomain \<Rightarrow> bool" where
  "claimed parse H r \<longleftrightarrow>
     (\<exists>now b ctx d. DoCreate now (Some b) (td_ID r) ctx (Inr d) \<in> H \<and>
        getTenantIDFromRequest parse ctx = Inr (td_TenantID r) \<and> td_Domain r = normalizeDomain d \<and>
        td_VerificationToken r = Hex (map b [0..<32]))"

definition proved :: "(string \<Rightarrow> uuid option) \<Rightarrow> bool \<Rightarrow> domain_op set \<Rightarrow> TenantDomain \<Rightarrow> bool" where
  "proved parse skip H r \<longleftrightarrow>
     (\<exists>dns now ctx p. DoVerify dns now ctx p \<in> H \<and> getTenantIDFromRequest parse ctx = Inr (td_TenantID r) \<and>
        parse (TrimSpace p) = Some (td_ID r) \<and>
        (skip \<or> (\<exists>records. dns (TrimSuffix (''_authsec-challenge.'' @ td_Domain r) ''.'') = Inr records \<and>
           ''authsec-domain-verification='' @ td_VerificationToken r \<in> set records)))"

definition row_sound :: "(string \<Rightarrow> uuid option) \<Rightarrow> bool \<Rightarrow> domain_op set \<Rightarrow> TenantDomain \<Rightarrow> bool" where
  "row_sound parse skip H r \<longleftrightarrow> claimed parse H r \<and>
     td_VerificationTXTName r = Some (''_authsec-challenge.'' @ td_Domain r) \<and>
     td_VerificationTXTValue r = Some (''authsec-domain-verification='' @ td_VerificationToken r) \<and>
     (td_IsVerified r \<longrightarrow> proved parse skip H r) \<and> (td_IsPrimary r \<longrightarrow> td_IsVerified r)"

definition primaries_ok :: "TenantDomain list \<Rightarrow> bool" where
  "primaries_ok t \<longleftrightarrow> (\<forall>r \<in> set t. \<forall>r' \<in> set t.
     td_IsPrimary r \<and> td_IsPrimary r' \<and> td_TenantID r = td_TenantID r' \<longrightarrow> td_ID r = td_ID r')"

definition domains_ok :: "(string \<Rightarrow> uuid option) \<Rightarrow> bool \<Rightarrow> domain_op set \<Rightarrow> 'a domain_db_scheme \<Rightarrow> bool" where
  "domains_ok parse skip H s \<longleftrightarrow> distinct (map td_ID (tenant_domains s)) \<and> distinct (map td_Domain (tenant_domains s)) \<and>
     primaries_ok (tenant_domains s) \<and> (\<forall>r \<in> set (tenant_domains s). row_sound parse skip H r)"

lemmas domains_okD = domains_ok_def [THEN iffD1, THEN conjunct1] domains_ok_def [THEN iffD1, THEN conjunct2, THEN conjunct1]
  domains_ok_def [THEN iffD1, THEN conjunct2, THEN conjunct2, THEN conjunct1]
  domains_ok_def [THEN iffD1, THEN conjunct2, THEN conjunct2, THEN conjunct2, THEN bspec]

text \<open>What an update of a row leaves alone.\<close>

definition same_domain :: "TenantDomain \<Rightarrow> TenantDomain \<Rightarrow> bool" where
  "same_domain r r' \<longleftrightarrow> td_ID r' = td_ID r \<and> td_TenantID r' = td_TenantID r \<and> td_Domain r' = td_Domain r \<and>
     td_VerificationToken r' = td_VerificationToken r \<and> td_VerificationTXTName r' = td_VerificationTXTName r \<and>
     td_VerificationTXTValue r' = td_VerificationTXTValue r"

lemma row_sound_update:
  assumes "row_sound parse skip H r" and "same_domain r r'" and "td_IsVerified r' \<Longrightarrow> td_IsVerified r \<or> proved parse skip H r"
    and "td_IsPrimary r' \<Longrightarrow> td_IsVerified r'"
  shows "row_sound parse skip H r'"
  using assms unfolding row_sound_def claimed_def proved_def same_domain_def by auto

lemma domains_ok_update:
  assumes "domains_ok parse skip H s" and "\<And>r. same_domain r (f r)" and "primaries_ok (update_where P f (tenant_domains s))"
    and "\<And>r. r \<in> set (tenant_domains s) \<Longrightarrow> P r \<Longrightarrow> td_IsVerified (f r) \<Longrightarrow> td_IsVerified r \<or> proved parse skip H r"
    and "\<And>r. r \<in> set (tenant_domains s) \<Longrightarrow> P r \<Longrightarrow> td_IsPrimary (f r) \<Longrightarrow> td_IsVerified (f r)"
  shows "domains_ok parse skip H (s\<lparr> tenant_domains := update_where P f (tenant_domains s) \<rparr>)"
proof -
  have "map td_ID (update_where P f (tenant_domains s)) = map td_ID (tenant_domains s)"
      "map td_Domain (update_where P f (tenant_domains s)) = map td_Domain (tenant_domains s)"
    using assms(2) by (auto intro!: map_update_where simp: same_domain_def)
  moreover have "row_sound parse skip H r" if "r \<in> set (update_where P f (tenant_domains s))" for r
  proof -
    from that obtain x where x: "x \<in> set (tenant_domains s)" "r = (if P x then f x else x)" by (auto simp: update_where_def)
    show ?thesis
    proof (cases "P x")
      case True
      with x(2) show ?thesis using row_sound_update [OF domains_okD(4) [OF assms(1) x(1)] assms(2)] assms(4,5) [OF x(1) True] by simp
    next
      case False
      with x domains_okD(4) [OF assms(1) x(1)] show ?thesis by simp
    qed
  qed
  ultimately show ?thesis using assms(1,3) by (simp add: domains_ok_def)
qed

lemma primaries_ok_shrink:
  assumes "primaries_ok t" and "\<And>r. same_domain r (f r)" and "\<And>r. r \<in> set t \<Longrightarrow> P r \<Longrightarrow> td_IsPrimary (f r) \<Longrightarrow> td_IsPrimary r"
  shows "primaries_ok (update_where P f t)"
proof -
  have "\<exists>x \<in> set t. td_IsPrimary x \<and> td_TenantID x = td_TenantID r \<and> td_ID x = td_ID r"
    if "r \<in> set (update_where P f t)" and "td_IsPrimary r" for r
  proof -
    from that(1) obtain x where "x \<in> set t" "r = (if P x then f x else x)" by (auto simp: update_where_def)
    with that(2) assms(2) [of x] assms(3) [of x] show ?thesis by (cases "P x") (auto simp: same_domain_def)
  qed
  then show ?thesis using assms(1) unfolding primaries_ok_def by metis
qed

lemma domains_ok_delete: "domains_ok parse skip H s \<Longrightarrow>
    domains_ok parse skip H (s\<lparr> tenant_domains := delete_where P (tenant_domains s) \<rparr>)"
  unfolding domains_ok_def primaries_ok_def by (simp add: map_delete_where_distinct table_simps)

lemma domains_ok_id:
  assumes "domains_ok parse skip H s" and "td \<in> set (tenant_domains s)" and "r \<in> set (tenant_domains s)" and "td_ID r = td_ID td"
  shows "r = td"
  using domains_okD(1) [OF assms(1)] assms(2-4) by (auto simp: distinct_map inj_on_def)

lemma domains_ok_insert:
  assumes "domains_ok parse skip H s" and "row_sound parse skip H td" and "\<not> td_IsPrimary td"
    and "\<forall>r \<in> set (tenant_domains s). td_ID r \<noteq> td_ID td \<and> td_Domain r \<noteq> td_Domain td"
  shows "domains_ok parse skip H (s\<lparr> tenant_domains := tenant_domains s @ [td] \<rparr>)"
proof -
  have "td_ID td \<notin> td_ID ` set (tenant_domains s)" "td_Domain td \<notin> td_Domain ` set (tenant_domains s)"
    using assms(4) by fastforce+
  moreover have "r \<in> set (tenant_domains s)" if "r \<in> set (tenant_domains s @ [td])" "td_IsPrimary r" for r using that assms(3) by auto
  then have "primaries_ok (tenant_domains s @ [td])" using domains_okD(3) [OF assms(1)] unfolding primaries_ok_def by blast
  ultimately show ?thesis using assms(1,2) by (simp add: domains_ok_def)
qed

lemma repo_CreateDomain_ok:
  assumes "domains_ok parse skip H (fst c)" and "DoCreate now rnd i ctx (Inr d) \<in> H" and "getTenantIDFromRequest parse ctx = Inr t"
  shows "domains_ok parse skip H (tables (repo_CreateDomain now rnd i t d u c))"
proof -
  have store: "domains_ok parse skip H (tables (store_domain now rnd i t (normalizeDomain d) u c1))" if "fst c1 = fst c" for c1
  proof (cases rnd)
    case None
    then show ?thesis using that assms(1) by (simp add: store_domain_def generateVerificationToken_def)
  next
    case (Some b)
    let ?td = "pending_domain now i t (normalizeDomain d) (Hex (map b [0..<32])) u"
    have sound: "row_sound parse skip H ?td"
    proof -
      have "claimed parse H ?td" unfolding claimed_def using assms(2,3) Some
        by (intro exI [of _ now] exI [of _ b] exI [of _ ctx] exI [of _ d]) (simp add: pending_domain_def)
      then show ?thesis by (simp add: row_sound_def pending_domain_def)
    qed
    have "domains_ok parse skip H (tables (exec_checked (insert_domain ?td) c1))"
    proof (rule exec_checked_keeps [where P = "domains_ok parse skip H"])
      fix s s' :: "'a domain_db_scheme" assume ok: "domains_ok parse skip H s" and "insert_domain ?td s = Inr s'"
      then have "s' = s\<lparr> tenant_domains := tenant_domains s @ [?td] \<rparr>" "\<forall>r \<in> set (tenant_domains s). td_ID r \<noteq> td_ID ?td \<and> td_Domain r \<noteq> td_Domain ?td"
        by (auto simp: insert_domain_def split: if_splits)
      moreover have "\<not> td_IsPrimary ?td" by (simp add: pending_domain_def)
      ultimately show "domains_ok parse skip H s'" using domains_ok_insert [OF ok sound] by blast
    qed (use that assms(1) in simp)
    moreover obtain r c2 where "exec_checked (insert_domain ?td) c1 = (r, c2)" by (rule prod.exhaust)
    ultimately show ?thesis using Some by (cases r) (simp_all add: store_domain_def generateVerificationToken_def Let_def)
  qed
  obtain q c1 where q: "query_row (\<lambda>s. select_row (\<lambda>r. td_Domain r = normalizeDomain d) (tenant_domains s)) c = (q, c1)"
    by (rule prod.exhaust)
  then have "fst c1 = fst c" using query_row_tablesD [of _ c q "fst c1" "snd c1"] by simp
  then have kept: "domains_ok parse skip H (fst c1)" using assms(1) by simp
  show ?thesis
  proof (cases q)
    case (Inl e)
    with kept store [OF \<open>fst c1 = fst c\<close>] assms(1) show ?thesis unfolding repo_CreateDomain_def Let_def q by (cases e) simp_all
  next
    case (Inr r)
    with kept store [OF \<open>fst c1 = fst c\<close>] assms(1) show ?thesis unfolding repo_CreateDomain_def Let_def q by simp
  qed
qed

lemma VerifyDomainOwnership_ok:
  assumes "domains_ok parse skip H (fst c)" and "DoVerify dns now ctx p \<in> H" and "parse (TrimSpace p) = Some i"
    and "\<And>r. r \<in> set (tenant_domains (fst c)) \<Longrightarrow> td_ID r = i \<Longrightarrow> getTenantIDFromRequest parse ctx = Inr (td_TenantID r)"
  shows "domains_ok parse skip H (tables (VerifyDomainOwnership skip dns now i c))"
proof -
  obtain q c1 where q: "repo_GetDomainByID i c = (q, c1)" by (rule prod.exhaust)
  then have c1: "fst c1 = fst c" using read_domain_tables [of _ _ _ c] by (metis repo_GetDomainByID_def snd_conv)
  show ?thesis
  proof (cases q)
    case (Inl e)
    with q c1 assms(1) show ?thesis by (simp add: VerifyDomainOwnership_def)
  next
    case (Inr td)
    with q have td: "td \<in> set (tenant_domains (fst c))" "td_ID td = i"
      using read_domain_Inr [of _ _ _ c td c1] by (auto simp: repo_GetDomainByID_def)
    note ok = domains_okD(4) [OF assms(1) td(1)]
    let ?name = "''_authsec-challenge.'' @ td_Domain td" and ?val = "''authsec-domain-verification='' @ td_VerificationToken td"
    have only: "r = td" if "r \<in> set (tenant_domains (fst c1))" "td_ID r = i" for r
      using domains_ok_id [OF assms(1) td(1)] that td(2) c1 by simp
    have ok1: "domains_ok parse skip H (fst c1)" using assms(1) c1 by simp
    have match: "domains_ok parse skip H (tables (repo_VerifyDomain now i None c1))" if "verifyDNSTXT skip dns ?name ?val = None"
    proof -
      from that have "skip \<or> (\<exists>records. dns (TrimSuffix ?name ''.'') = Inr records \<and> ?val \<in> set records)"
        unfolding verifyDNSTXT_def Let_def by (auto split: if_splits sum.splits list.splits)
      with assms(2,3) assms(4) [OF td] td(2) have "proved parse skip H td" unfolding proved_def by blast
      with only show ?thesis unfolding repo_VerifyDomain_def
        by (intro touch_domain_keeps [where P = "domains_ok parse skip H"] ok1 domains_ok_update primaries_ok_shrink domains_okD(3) [OF ok1])
          (auto simp: same_domain_def)
    qed
    have miss: "domains_ok parse skip H (tables (UpdateVerificationStatus now i False x c1))" if "\<not> td_IsVerified td" for x
      using only that ok unfolding UpdateVerificationStatus_def
      by (intro touch_domain_keeps [where P = "domains_ok parse skip H"] ok1 domains_ok_update primaries_ok_shrink domains_okD(3) [OF ok1])
        (auto simp: same_domain_def row_sound_def)
    have details: "td_VerificationTXTName td = Some ?name" "td_VerificationTXTValue td = Some ?val" using ok by (simp_all add: row_sound_def)
    show ?thesis
    proof (cases "td_IsVerified td")
      case True
      with q Inr ok1 show ?thesis by (simp add: VerifyDomainOwnership_def)
    next
      case False
      show ?thesis
      proof (cases "verifyDNSTXT skip dns ?name ?val")
        case None
        with match False details show ?thesis unfolding VerifyDomainOwnership_def q Inr by simp
      next
        case (Some reason)
        obtain r c2 where "UpdateVerificationStatus now i False (Some reason) c1 = (r, c2)" by (rule prod.exhaust)
        with Some miss [OF False, of "Some reason"] False details show ?thesis unfolding VerifyDomainOwnership_def q Inr by simp
      qed
    qed
  qed
qed

text \<open>A row that is primary after the second statement was primary before or is the chosen one.\<close>

lemma set_primary_primaries:
  assumes "primaries_ok (tenant_domains s)" and "set_primary now t i u s = Inr s'"
  shows "primaries_ok (tenant_domains s')"
proof (cases "\<exists>r \<in> set (tenant_domains s). td_ID r = i \<and> td_TenantID r = t")
  case True
  with assms(2) have other: "\<not> (\<exists>r \<in> set (tenant_domains s). td_TenantID r = t \<and> td_IsPrimary r \<and> td_ID r \<noteq> i)"
    by (auto simp: set_primary_def split: if_splits)
  have row: "\<exists>x \<in> set (tenant_domains s). td_TenantID x = td_TenantID r \<and> td_ID x = td_ID r \<and>
      (td_IsPrimary x \<or> td_ID x = i \<and> td_TenantID x = t)" if "r \<in> set (tenant_domains s')" "td_IsPrimary r" for r
  proof -
    have "tenant_domains s' = update_where (\<lambda>r. td_ID r = i \<and> td_TenantID r = t)
        (\<lambda>r. r\<lparr> td_IsPrimary := True, td_UpdatedAt := now, td_UpdatedBy := u \<rparr>) (tenant_domains s)"
      using assms(2) by (auto simp: set_primary_def split: if_splits)
    with that show ?thesis by (auto simp: table_simps)
  qed
  show ?thesis unfolding primaries_ok_def
  proof (intro ballI impI)
    fix r r' assume r: "r \<in> set (tenant_domains s')" "r' \<in> set (tenant_domains s')"
      "td_IsPrimary r \<and> td_IsPrimary r' \<and> td_TenantID r = td_TenantID r'"
    obtain x where x: "x \<in> set (tenant_domains s)" "td_TenantID x = td_TenantID r" "td_ID x = td_ID r"
        "td_IsPrimary x \<or> td_ID x = i \<and> td_TenantID x = t" using row [of r] r by blast
    obtain y where y: "y \<in> set (tenant_domains s)" "td_TenantID y = td_TenantID r'" "td_ID y = td_ID r'"
        "td_IsPrimary y \<or> td_ID y = i \<and> td_TenantID y = t" using row [of r'] r by blast
    show "td_ID r = td_ID r'"
    proof (cases "td_TenantID r = t")
      case True
      then have "td_ID x = i" "td_ID y = i" using x y other r(3) by auto
      with x y show ?thesis by simp
    next
      case False
      then show ?thesis using x y r(3) assms(1) unfolding primaries_ok_def by metis
    qed
  qed
next
  case False
  then have "tenant_domains s' = tenant_domains s"
    using assms(2) update_where_none [of "tenant_domains s" "\<lambda>r. td_ID r = i \<and> td_TenantID r = t"]
    by (auto simp: set_primary_def split: if_splits)
  with assms(1) show ?thesis by simp
qed

lemma set_primary_ok:
  assumes "domains_ok parse skip H s" and "\<forall>r \<in> set (tenant_domains s). td_ID r = i \<longrightarrow> td_IsVerified r"
    and "set_primary now t i u s = Inr s'"
  shows "domains_ok parse skip H s'"
proof -
  let ?t = "update_where (\<lambda>r. td_ID r = i \<and> td_TenantID r = t)
      (\<lambda>r. r\<lparr> td_IsPrimary := True, td_UpdatedAt := now, td_UpdatedBy := u \<rparr>) (tenant_domains s)"
  have s': "s' = s\<lparr> tenant_domains := ?t \<rparr>" using assms(3) by (simp add: set_primary_def split: if_splits)
  have "primaries_ok ?t" using set_primary_primaries [OF domains_okD(3) [OF assms(1)] assms(3)] s' by simp
  with assms(1,2) show ?thesis unfolding s' by (intro domains_ok_update) (auto simp: same_domain_def)
qed

lemma repo_SetPrimaryDomain_ok:
  assumes "domains_ok parse skip H (fst c)" and "\<forall>r \<in> set (tenant_domains (fst c)). td_ID r = i \<longrightarrow> td_IsVerified r"
  shows "domains_ok parse skip H (tables (repo_SetPrimaryDomain now t i u c))"
proof -
  let ?P = "\<lambda>s. domains_ok parse skip H s \<and> (\<forall>r \<in> set (tenant_domains s). td_ID r = i \<longrightarrow> td_IsVerified r)"
  let ?f = "\<lambda>s. (s\<lparr> tenant_domains := update_where (\<lambda>r. td_TenantID r = t \<and> td_IsPrimary r)
      (\<lambda>r. r\<lparr> td_IsPrimary := False, td_UpdatedAt := now, td_UpdatedBy := u \<rparr>) (tenant_domains s) \<rparr>, ())"
  let ?g = "\<lambda>s. case set_primary now t i u s of Inl e \<Rightarrow> (s, Inl e)
      | Inr s' \<Rightarrow> (s', Inr (affected (\<lambda>r. td_ID r = i \<and> td_TenantID r = t) (tenant_domains s)))"
  have unset: "?P (fst (?f s))" if "?P s" for s
  proof -
    have "domains_ok parse skip H (fst (?f s))" unfolding fst_conv
      using that by (intro domains_ok_update primaries_ok_shrink domains_okD(3)) (auto simp: same_domain_def)
    moreover have "\<forall>r \<in> set (tenant_domains (fst (?f s))). td_ID r = i \<longrightarrow> td_IsVerified r"
      using that by (auto simp: table_simps)
    ultimately show ?thesis by blast
  qed
  obtain q c1 where q: "exec ?f c = (q, c1)" by (rule prod.exhaust)
  have "?P (tables (exec ?f c))" by (rule exec_keeps [where P = ?P]) (use assms in blast, rule unset)
  then have c1: "?P (fst c1)" unfolding q by simp
  obtain q2 c2 where q2: "exec ?g c1 = (q2, c2)" by (rule prod.exhaust)
  have "domains_ok parse skip H (fst (?g (fst c1)))"
    using c1 set_primary_ok [of parse skip H "fst c1" i now t u] by (auto split: sum.split)
  with exec_tables [OF q2] c1 have "domains_ok parse skip H (fst c2)" by auto
  with q q2 c1 show ?thesis by (cases q; cases q2) (auto simp: repo_SetPrimaryDomain_def split: sum.split)
qed

lemma repo_DeleteDomain_ok:
  "domains_ok parse skip H (fst c) \<Longrightarrow> domains_ok parse skip H (tables (repo_DeleteDomain i c))"
  unfolding repo_DeleteDomain_def
  by (intro touch_domain_keeps [where P = "domains_ok parse skip H"] domains_ok_delete)

lemma repo_GetDomainByID_tables [simp]: "tables (repo_GetDomainByID i c) = fst c"
  by (simp add: repo_GetDomainByID_def)

lemma repo_GetDomainByID_Inr:
  "repo_GetDomainByID i c = (Inr td, c') \<Longrightarrow> td \<in> set (tenant_domains (fst c)) \<and> td_ID td = i \<and> fst c' = fst c"
  unfolding repo_GetDomainByID_def by (rule read_domain_Inr)

lemma done_with_tables [simp]: "tables (done_with m i c) = fst c"
proof -
  obtain q c1 where q: "repo_GetDomainByID i c = (q, c1)" by (rule prod.exhaust)
  then have "fst c1 = fst c" using repo_GetDomainByID_tables [of i c] by simp
  with q show ?thesis by (cases q) (simp_all add: done_with_def)
qed

lemma with_own_domain_keeps:
  assumes "P (fst c)"
    and "\<And>t i td c1. td \<in> set (tenant_domains (fst c)) \<Longrightarrow> td_ID td = i \<Longrightarrow> td_TenantID td = t \<Longrightarrow> fst c1 = fst c \<Longrightarrow>
           P (tables (k t i td c1))"
  shows "P (tables (with_own_domain parse ctx p m k c))"
proof -
  define q c1 where "q i = fst (repo_GetDomainByID i c)" and "c1 i = snd (repo_GetDomainByID i c)" for i
  then have q: "repo_GetDomainByID i c = (q i, c1 i)" for i by simp
  then have c1: "fst (c1 i) = fst c" for i using repo_GetDomainByID_tables [of i c] by simp
  have found: "P (tables (k (td_TenantID td) i td (c1 i)))" if "q i = Inr td" for i td
    using assms(2) [of td i "td_TenantID td" "c1 i"] repo_GetDomainByID_Inr [of i c td "c1 i"] q [of i] that c1 by simp
  have one: "P (tables (case repo_GetDomainByID i c of
      (Inl _, c1) \<Rightarrow> (domain_reply 404 (DError ''domain not found'' None), c1)
    | (Inr td, c1) \<Rightarrow> if td_TenantID td \<noteq> t then (domain_reply 403 (DError m None), c1) else k t i td c1))" for i t
    using q [of i] c1 [of i] assms(1) found by (cases "q i") auto
  show ?thesis using assms(1) one by (simp add: with_own_domain_def split: option.split sum.split)
qed

lemma http_CreateDomain_ok:
  assumes "domains_ok parse skip H (fst c)" and "DoCreate now rnd i ctx body \<in> H"
  shows "domains_ok parse skip H (tables (http_CreateDomain parse now rnd i ctx body c))"
proof (cases "\<exists>t d. getTenantIDFromRequest parse ctx = Inr t \<and> body = Inr d")
  case True
  then obtain t d where td: "getTenantIDFromRequest parse ctx = Inr t" "body = Inr d" by blast
  obtain r c1 where "repo_CreateDomain now rnd i t d (getUserIDFromRequest parse ctx) c = (r, c1)" by (rule prod.exhaust)
  moreover have "domains_ok parse skip H (tables (repo_CreateDomain now rnd i t d (getUserIDFromRequest parse ctx) c))"
    using repo_CreateDomain_ok [OF assms(1) _ td(1)] assms(2) td(2) by blast
  ultimately show ?thesis using td by (cases r) (simp_all add: http_CreateDomain_def RegisterDomain_def)
next
  case False
  with assms(1) show ?thesis by (auto simp: http_CreateDomain_def split: sum.split)
qed

lemma http_VerifyDomain_ok:
  assumes "domains_ok parse skip H (fst c)" and "DoVerify dns now ctx p \<in> H"
  shows "domains_ok parse skip H (tables (http_VerifyDomain parse skip dns now ctx p c))"
proof -
  have one: "domains_ok parse skip H (tables (case repo_GetDomainByID i c of
      (Inl _, c1) \<Rightarrow> (domain_reply 404 (DError ''domain not found'' None), c1)
    | (Inr td, c1) \<Rightarrow> if td_TenantID td \<noteq> t then (domain_reply 403 (DError ''not authorized to verify this domain'' None), c1)
        else (case VerifyDomainOwnership skip dns now i c1 of
                (Inl e, c2) \<Rightarrow> (domain_reply 400 (DError ''verification failed'' (Some e)), c2)
              | (Inr _, c2) \<Rightarrow> done_with ''domain verified successfully'' i c2)))"
    if own: "parse (TrimSpace p) = Some i" "getTenantIDFromRequest parse ctx = Inr t" for i t
  proof -
    obtain q c1 where q: "repo_GetDomainByID i c = (q, c1)" by (rule prod.exhaust)
    then have same: "fst c1 = fst c" using repo_GetDomainByID_tables [of i c] by simp
    then have c1: "domains_ok parse skip H (fst c1)" using assms(1) by simp
    show ?thesis
    proof (cases "\<exists>td. q = Inr td \<and> td_TenantID td = t")
      case True
      then obtain td where td: "q = Inr td" "td_TenantID td = t" by blast
      have "td \<in> set (tenant_domains (fst c1))" "td_ID td = i"
        using repo_GetDomainByID_Inr [OF q [unfolded td(1)]] same by simp_all
      with td(2) own(2) have "getTenantIDFromRequest parse ctx = Inr (td_TenantID r)" if "r \<in> set (tenant_domains (fst c1))" "td_ID r = i" for r
        using domains_ok_id [OF c1, of td r] that by simp
      note ver = VerifyDomainOwnership_ok [OF c1 assms(2) own(1) this]
      obtain r c2 where r: "VerifyDomainOwnership skip dns now i c1 = (r, c2)" by (rule prod.exhaust)
      with ver q td show ?thesis by (cases r) simp_all
    qed (use q c1 in \<open>cases q; auto\<close>)
  qed
  show ?thesis
    using assms(1) one
    by (auto simp: http_VerifyDomain_def getTenantIDFromRequest_def split: option.splits goval.splits if_splits)
qed

lemma http_SetPrimaryDomain_ok:
  assumes "domains_ok parse skip H (fst c)"
  shows "domains_ok parse skip H (tables (http_SetPrimaryDomain parse now ctx p c))"
  unfolding http_SetPrimaryDomain_def
proof (rule with_own_domain_keeps [where P = "domains_ok parse skip H", OF assms])
  fix t i td c1 assume td: "td \<in> set (tenant_domains (fst c))" "td_ID td = i" "fst (c1 :: 'a domain_db_scheme conn) = fst c"
  have ok: "domains_ok parse skip H (fst c1)" using assms td(3) by simp
  obtain r c2 where r: "repo_SetPrimaryDomain now t i (getUserIDFromRequest parse ctx) c1 = (r, c2)" by (rule prod.exhaust)
  have "domains_ok parse skip H (fst c2)" if "td_IsVerified td"
  proof -
    have "\<forall>r \<in> set (tenant_domains (fst c1)). td_ID r = i \<longrightarrow> td_IsVerified r"
      using domains_ok_id [OF assms td(1)] that td by metis
    from repo_SetPrimaryDomain_ok [OF ok this, of now t "getUserIDFromRequest parse ctx"] r show ?thesis by simp
  qed
  with r ok show "domains_ok parse skip H (tables (if \<not> td_IsVerified td then
      (domain_reply 400 (DError ''domain must be verified before setting as primary'' None), c1)
      else (case SetPrimaryDomain now t i (getUserIDFromRequest parse ctx) c1 of
         (Inl e, c2) \<Rightarrow> (domain_reply 500 (DError ''failed to set primary domain'' (Some e)), c2)
       | (Inr _, c2) \<Rightarrow> done_with ''domain set as primary'' i c2)))"
    by (cases r) (simp_all add: SetPrimaryDomain_def)
qed

lemma http_DeleteDomain_ok:
  assumes "domains_ok parse skip H (fst c)"
  shows "domains_ok parse skip H (tables (http_DeleteDomain parse ctx p c))"
  unfolding http_DeleteDomain_def
proof (rule with_own_domain_keeps [where P = "domains_ok parse skip H", OF assms])
  fix i c1 assume c1: "fst (c1 :: 'a domain_db_scheme conn) = fst c"
  obtain r c2 where r: "repo_DeleteDomain i c1 = (r, c2)" by (rule prod.exhaust)
  with repo_DeleteDomain_ok [of parse skip H c1 i] assms c1
  show "domains_ok parse skip H (tables (case DeleteDomain i c1 of
      (Inl e, c2) \<Rightarrow> (domain_reply 500 (DError ''failed to delete domain'' (Some e)), c2)
    | (Inr _, c2) \<Rightarrow> (domain_reply 200 (DDone ''domain deleted successfully'' None), c2)))"
    by (cases r) (simp_all add: DeleteDomain_def)
qed

lemma http_reads_tables [simp]:
  "tables (http_ListDomains parse ctx c) = fst c" "tables (http_GetDomainByID parse ctx p c) = fst c"
proof -
  have list: "tables (case ListTenantDomains t c of
      (Inl e, c1) \<Rightarrow> (domain_reply 500 (DError ''failed to list domains'' (Some e)), c1)
    | (Inr ds, c1) \<Rightarrow> (domain_reply 200 (DDomains ds), c1)) = fst c" for t
  proof -
    obtain q c1 where q: "ListTenantDomains t c = (q, c1)" by (rule prod.exhaust)
    then have "fst c1 = fst c"
      using wrap_err_snd query_keeps_tables by (metis ListTenantDomains_def repo_ListTenantDomains_def snd_conv)
    with q show ?thesis by (cases q) simp_all
  qed
  show "tables (http_ListDomains parse ctx c) = fst c"
    using list by (cases "getTenantIDFromRequest parse ctx") (simp_all add: http_ListDomains_def)
  show "tables (http_GetDomainByID parse ctx p c) = fst c"
    unfolding http_GetDomainByID_def
    by (rule with_own_domain_keeps [where P = "\<lambda>s. s = fst c"]) (rule refl, simp only: fst_conv snd_conv)
qed

lemma domain_handle_ok:
  assumes "domains_ok parse skip H (fst c)" and "op \<in> H"
  shows "domains_ok parse skip H (fst (fst (domain_handle parse skip op c)))"
  using assms by (cases op) (simp_all add: reply_def http_CreateDomain_ok http_VerifyDomain_ok http_SetPrimaryDomain_ok http_DeleteDomain_ok)

lemma domains_run_ok:
  assumes "tenant_domains s = []"
  shows "domains_ok parse skip (set ops) (fst (fst (run (domain_handle parse skip) ops (s, os))))"
proof -
  have "domains_ok parse skip (set ops) s" unfolding domains_ok_def primaries_ok_def assms by simp
  then show ?thesis
    by (intro run_invariant_in [where I = "\<lambda>c. domains_ok parse skip (set ops) (fst c)"]) (simp_all add: domain_handle_ok)
qed

section \<open>Promises\<close>

text \<open>
  C11. A host resolves only to a tenant that proved it: after any run of the domain handlers from a table without domains, under any
  schedule of database faults, a host that resolves to a tenant was claimed by that tenant, and that tenant asked to verify the row of
  that claim; unless the setting \<^verbatim>\<open>SKIP_DNS_VERIFICATION\<close> (\<open>skip\<close>) turns the check off, the verification found, under the name that
  belongs to the domain, the record with the token drawn for that claim.
\<close>

theorem domain_owner_proved:
  assumes "tenant_domains s = []"
    and "ResolveTenantByHost host (fst (fst (run (domain_handle parse skip) ops (s, os))), os') = (Inr t, c')"
  shows "\<exists>now b i ctx d dns now' ctx' p.
           DoCreate now (Some b) i ctx (Inr d) \<in> set ops \<and> getTenantIDFromRequest parse ctx = Inr t \<and>
           normalizeDomain d = normalizeDomain host \<and>
           DoVerify dns now' ctx' p \<in> set ops \<and> getTenantIDFromRequest parse ctx' = Inr t \<and> parse (TrimSpace p) = Some i \<and>
           (skip \<or> (\<exists>records. dns (TrimSuffix (''_authsec-challenge.'' @ normalizeDomain host) ''.'') = Inr records \<and>
              ''authsec-domain-verification='' @ Hex (map b [0..<32]) \<in> set records))"
proof -
  let ?s = "fst (fst (run (domain_handle parse skip) ops (s, os)))"
  obtain q c1 where q: "GetDomainByHostname host (?s, os') = (q, c1)" by (rule prod.exhaust)
  with assms(2) obtain td where "q = Inr td" and t: "t = td_TenantID td" by (cases q) (auto simp: ResolveTenantByHost_def)
  with q have td: "td \<in> set (tenant_domains ?s)" "td_Domain td = normalizeDomain host" "td_IsVerified td"
    using read_domain_Inr [of _ _ _ "(?s, os')" td c1] by (auto simp: GetDomainByHostname_def)
  from domains_okD(4) [OF domains_run_ok [OF assms(1)] td(1)] td(3)
  have "claimed parse (set ops) td" and "proved parse skip (set ops) td" by (auto simp: row_sound_def)
  then show ?thesis unfolding claimed_def proved_def t td(2) by metis
qed

text \<open>
  C20. The table of domains stays sound in every run, under any schedule of faults: no domain belongs to two rows,
  hence not to two tenants; a tenant has at most one primary domain; a primary domain is verified.
\<close>

theorem domain_table_sound:
  assumes "tenant_domains s = []"
    and "r \<in> set (tenant_domains (fst (fst (run (domain_handle parse skip) ops (s, os)))))"
    and "r' \<in> set (tenant_domains (fst (fst (run (domain_handle parse skip) ops (s, os)))))"
  shows "(td_Domain r = td_Domain r' \<or> td_ID r = td_ID r' \<longrightarrow> r = r') \<and>
         (td_IsPrimary r \<and> td_IsPrimary r' \<and> td_TenantID r = td_TenantID r' \<longrightarrow> r = r') \<and>
         (td_IsPrimary r \<longrightarrow> td_IsVerified r)"
proof -
  note ok = domains_run_ok [OF assms(1), of parse skip ops os]
  have unique: "td_Domain r = td_Domain r' \<or> td_ID r = td_ID r' \<longrightarrow> r = r'"
    using domains_okD(1,2) [OF ok] assms(2,3) by (auto simp: distinct_map inj_on_def)
  moreover have "td_IsPrimary r \<and> td_IsPrimary r' \<and> td_TenantID r = td_TenantID r' \<longrightarrow> td_ID r = td_ID r'"
    using domains_okD(3) [OF ok] assms(2,3) unfolding primaries_ok_def by blast
  moreover have "td_IsPrimary r \<longrightarrow> td_IsVerified r" using domains_okD(4) [OF ok assms(2)] by (simp add: row_sound_def)
  ultimately show ?thesis by blast
qed

section \<open>Where a redirect goes\<close>

text \<open>
  The host of an address by RFC 3986, for a registered name: the authority ends at the path, the query or the
  fragment, the user information ends at the last \<open>@\<close>, and the port follows a colon.
\<close>

definition uri_host :: "string \<Rightarrow> string option" where
  "uri_host uri =
     (let rest = (if HasPrefix uri ''https://'' then drop 8 uri else drop 7 uri);
          hostport = rev (takeWhile (\<lambda>c. c \<noteq> CHR ''@'') (rev (before_any ''/?#'' rest)))
      in if CHR ''['' \<in> set hostport then None
         else case Split (CHR '':'') hostport of
                [h] \<Rightarrow> Some h
              | [h, port] \<Rightarrow> if list_all is_digit port then Some h else None
              | _ \<Rightarrow> None)"

text \<open>On a normal form the two ways to normalise a host agree.\<close>

lemma normal_domain:
  assumes "normalizeDomain d = d"
  shows "ToLower (TrimSuffix d ''.'') = d"
proof -
  have shorter: "length (TrimSpace d) \<le> length d"
    using length_dropWhile_le [of is_space "rev (dropWhile is_space d)"] length_dropWhile_le [of is_space d] by (simp add: TrimSpace_def)
  have no_dot: "\<not> HasSuffix (ToLower (TrimSpace d)) ''.''"
  proof
    assume dot: "HasSuffix (ToLower (TrimSpace d)) ''.''"
    then have "TrimSpace d \<noteq> []" by (auto simp: HasSuffix_def HasPrefix_def ToLower_def)
    then have "0 < length (TrimSpace d)" by simp
    with dot shorter have "length (normalizeDomain d) < length d" unfolding normalizeDomain_def TrimSuffix_def ToLower_def by (simp del: length_greater_0_conv)
    with assms show False by simp
  qed
  with assms have eq: "ToLower (TrimSpace d) = d" by (simp add: normalizeDomain_def TrimSuffix_def)
  then have "length d \<le> length (TrimSpace d)" by (metis ToLower_def length_map order_refl)
  with eq no_dot show ?thesis by (simp add: TrimSpace_full TrimSuffix_def)
qed

lemma redirect_host_uri_host:
  assumes "uri_host uri = Some h" and "CHR ''@'' \<notin> set uri" and "CHR ''#'' \<notin> set uri"
    and "HasPrefix uri ''http://'' \<or> HasPrefix uri ''https://''"
  shows "redirect_host uri = h"
proof -
  define rest where "rest = (if HasPrefix uri ''https://'' then drop 8 uri else drop 7 uri)"
  define a where "a = before_any ''/?'' rest"
  have rest: "set rest \<subseteq> set uri" unfolding rest_def by (auto dest: in_set_dropD)
  have same: "before_any ''/?#'' rest = a"
    unfolding a_def before_any_def using rest assms(3) by (intro takeWhile_cong refl) auto
  have "CHR ''@'' \<notin> set a" using rest assms(2) set_before_any [of "''/?''" rest] unfolding a_def by blast
  then have whole: "takeWhile (\<lambda>c. c \<noteq> CHR ''@'') (rev a) = rev a" by (intro takeWhile_eq_all_conv [THEN iffD2]) auto
  have host: "uri_host uri = (if CHR ''['' \<in> set a then None else case Split (CHR '':'') a of
      [h] \<Rightarrow> Some h | [h, port] \<Rightarrow> if list_all is_digit port then Some h else None | _ \<Rightarrow> None)"
    unfolding uri_host_def Let_def rest_def [symmetric] same whole rev_rev_ident ..
  have redirect: "redirect_host uri = (if CHR '':'' \<in> set a \<and> CHR ''['' \<notin> set (before_last (CHR '':'') a)
      then before_last (CHR '':'') a else a)"
    using assms(4) unfolding redirect_host_def Let_def a_def rest_def Contains_char by auto
  from assms(1) host have bracket: "CHR ''['' \<notin> set a" by (auto split: if_splits)
  consider "Split (CHR '':'') a = [h]" | port where "Split (CHR '':'') a = [h, port]"
    using assms(1) host by (auto split: if_splits list.splits)
  then show ?thesis
  proof cases
    case 1
    with redirect show ?thesis using Split_one [of "CHR '':''" a h] by simp
  next
    case (2 port)
    with redirect bracket show ?thesis
      using Split_two [of "CHR '':''" a h port] before_last_append [of "CHR '':''" port h] by auto
  qed
qed

lemma IsDomainOwnedByTenant_True:
  assumes "IsDomainOwnedByTenant t h c = (Inr True, c')"
  shows "\<exists>r \<in> set (tenant_domains (fst c)). td_TenantID r = t \<and> td_Domain r = normalizeDomain h \<and> td_IsVerified r"
proof -
  let ?P = "\<lambda>r. td_TenantID r = t \<and> td_Domain r = normalizeDomain h \<and> td_IsVerified r"
  obtain q c1 where q: "query (\<lambda>s. affected ?P (tenant_domains s)) c = (q, c1)" by (rule prod.exhaust)
  with assms obtain n where "q = Inr n" "n > 0" by (cases q) (auto simp: IsDomainOwnedByTenant_def)
  with q have "affected ?P (tenant_domains (fst c)) > 0" by (cases c rule: conn_cases) (auto simp: query_def)
  then show ?thesis using affected_zero_iff [of ?P "tenant_domains (fst c)"] by auto
qed

lemma NormalizeHostname_Inr:
  assumes "NormalizeHostnameAndCheckOwnership env t uri c = (Inr h, c')"
  shows "h = redirect_host uri \<and> (HasPrefix uri ''http://'' \<or> HasPrefix uri ''https://'') \<and>
         (\<exists>c1. IsDomainOwnedByTenant t h c = (Inr True, c1))"
proof -
  obtain q c1 where "IsDomainOwnedByTenant t (redirect_host uri) c = (q, c1)" by (rule prod.exhaust)
  with assms show ?thesis
    by (auto simp: NormalizeHostnameAndCheckOwnership_def Let_def split: if_splits option.splits sum.splits bool.splits)
qed

text \<open>
  C24. An accepted redirect stays at home: when the ownership check accepts an address that contains no \<^verbatim>\<open>@\<close> and no
  \<^verbatim>\<open>#\<close>, the host that a browser goes to is the host that was checked, and it is a verified
  domain of the tenant.
\<close>

theorem redirect_accepted_home:
  assumes "NormalizeHostnameAndCheckOwnership env t uri (s, os) = (Inr h, c')" and "uri_host uri = Some h'"
    and "CHR ''@'' \<notin> set uri" and "CHR ''#'' \<notin> set uri"
  shows "h = h' \<and> (\<exists>r \<in> set (tenant_domains s). td_TenantID r = t \<and> td_Domain r = normalizeDomain h' \<and> td_IsVerified r)"
proof -
  from NormalizeHostname_Inr [OF assms(1)] obtain c1 where h: "h = redirect_host uri"
    "HasPrefix uri ''http://'' \<or> HasPrefix uri ''https://''" "IsDomainOwnedByTenant t h (s, os) = (Inr True, c1)" by blast
  with redirect_host_uri_host [OF assms(2-4) h(2)] IsDomainOwnedByTenant_True [OF h(3)] show ?thesis by simp
qed

text \<open>
  User information defeats the ownership check: for every verified domain of the tenant and every other host
  there is an address that both checks accept for the domain and that a browser takes to the other host.
\<close>

theorem redirect_userinfo_bypass:
  assumes "r \<in> set (tenant_domains s)" and "td_TenantID r = t" and "td_IsVerified r" and "normalizeDomain (td_Domain r) = td_Domain r"
    and "validateHostnameFormat env (td_Domain r) = None" and "set (td_Domain r) \<inter> set ''/?#@:[*%'' = {}"
    and "set evil \<inter> set ''/?#@:['' = {}"
  shows "\<exists>uri. uri_host uri = Some evil \<and>
           NormalizeHostnameAndCheckOwnership env t uri (s, []) = (Inr (td_Domain r), s, []) \<and>
           ValidateRedirectURIHost t uri (s, []) = (Inr True, s, [])"
proof -
  let ?d = "td_Domain r" and ?tail = "'':x@'' @ evil"
  define uri where "uri = ''https://'' @ ?d @ ?tail @ ''/cb''"
  have rest: "drop 8 uri = ?d @ ?tail @ ''/cb''" "HasPrefix uri ''https://''" by (simp_all add: uri_def HasPrefix_def)
  have free: "set (?d @ ?tail) \<inter> set ''/?#'' = {}" "CHR '':'' \<notin> set (''x@'' @ evil)" "CHR ''@'' \<notin> set evil" using assms(6,7) by auto
  have auth: "before_any ''/?'' (?d @ ?tail @ ''/cb'') = ?d @ ?tail" "before_any ''/?#'' (?d @ ?tail @ ''/cb'') = ?d @ ?tail"
    using before_any_append [of "?d @ ?tail" "''/?''" "CHR ''/''" "''cb''"] before_any_append [of "?d @ ?tail" "''/?#''" "CHR ''/''" "''cb''"]
      free(1) by auto
  have last: "before_last (CHR '':'') (?d @ ?tail) = ?d" using before_last_append [OF free(2), of ?d] by simp
  have host: "redirect_host uri = ?d"
    unfolding redirect_host_def Let_def rest using rest(2) auth(1) last assms(6) by (auto simp: Contains_char)
  have "rev (takeWhile (\<lambda>c. c \<noteq> CHR ''@'') (rev ((?d @ '':x'') @ CHR ''@'' # evil))) = evil"
    by (rule after_last_append [OF free(3)])
  then have "uri_host uri = Some evil"
    unfolding uri_host_def Let_def using rest auth(2) assms(7) by (simp add: Split_single)
  moreover have "NormalizeHostnameAndCheckOwnership env t uri (s, []) = (Inr ?d, s, [])"
  proof -
    have "IsDomainOwnedByTenant t ?d (s, []) = (Inr True, s, [])"
      using assms(1-4) affected_zero_iff [of "\<lambda>r'. td_TenantID r' = t \<and> td_Domain r' = ?d \<and> td_IsVerified r'" "tenant_domains s"]
      by (auto simp: IsDomainOwnedByTenant_def query_fault_free affected_def)
    then show ?thesis
      using rest(2) assms(5,6) by (auto simp: NormalizeHostnameAndCheckOwnership_def host Contains_char)
  qed
  moreover have "ValidateRedirectURIHost t uri (s, []) = (Inr True, s, [])"
  proof -
    have "ToLower (TrimSuffix ?d ''.'') = ?d" using assms(4) by (rule normal_domain)
    moreover have "?d \<in> set (map td_Domain (primary_first (filter (\<lambda>r. td_TenantID r = t \<and> td_IsVerified r) (tenant_domains s))))"
      using assms(1-3) by (auto simp: primary_first_def)
    ultimately show ?thesis
      using rest(2) assms(6) unfolding ValidateRedirectURIHost_def repo_GetVerifiedDomainsForTenant_def query_fault_free
      by (auto simp: wrap_err_def Let_def host Contains_char)
  qed
  ultimately show ?thesis by blast
qed

text \<open>
  The two ownership checks agree: on a database that answers, for every address whose host has a valid form, the
  service accepts exactly what the repository accepts.
\<close>

theorem redirect_checks_agree:
  assumes "validateHostnameFormat env (redirect_host uri) = None" and "TrimSpace (redirect_host uri) = redirect_host uri"
  shows "(fst (ValidateRedirectURIHost t uri (s, [])) = Inr True) =
         (fst (NormalizeHostnameAndCheckOwnership env t uri (s, [])) = Inr (redirect_host uri))"
proof -
  let ?h = "redirect_host uri"
  let ?verified = "\<exists>r \<in> set (tenant_domains s). td_TenantID r = t \<and> td_Domain r = normalizeDomain ?h \<and> td_IsVerified r"
  have norm: "ToLower (TrimSuffix ?h ''.'') = normalizeDomain ?h"
    unfolding normalizeDomain_def assms(2) by (rule ToLower_TrimSuffix)
  have "ToLower (TrimSuffix ?h ''.'') \<in> set (map td_Domain (primary_first
      (filter (\<lambda>r. td_TenantID r = t \<and> td_IsVerified r) (tenant_domains s)))) \<longleftrightarrow> ?verified"
    unfolding norm by (force simp: primary_first_def)
  moreover have "affected (\<lambda>r. td_TenantID r = t \<and> td_Domain r = normalizeDomain ?h \<and> td_IsVerified r) (tenant_domains s) > 0 \<longleftrightarrow> ?verified"
    using affected_zero_iff [of "\<lambda>r. td_TenantID r = t \<and> td_Domain r = normalizeDomain ?h \<and> td_IsVerified r" "tenant_domains s"]
    by (auto simp: affected_def)
  ultimately show ?thesis
    unfolding ValidateRedirectURIHost_def NormalizeHostnameAndCheckOwnership_def repo_GetVerifiedDomainsForTenant_def
      IsDomainOwnedByTenant_def query_fault_free Let_def assms(1)
    by (auto simp: wrap_err_def split: bool.splits)
qed

section \<open>Examples\<close>

abbreviation ex_main :: domain_db where
  "ex_main \<equiv> \<lparr> roles = [], permissions = [], role_permissions = [], role_bindings = [],
     otp_entries = [], pending_registrations = [], tenant_domains = [] \<rparr>"

abbreviation ex_zeros :: "nat \<Rightarrow> byte" where
  "ex_zeros \<equiv> \<lambda>_. 0"

abbreviation ex_domain_ctx :: gin_context where
  "ex_domain_ctx \<equiv> [''tenant_id'' \<mapsto> GStr ''t'']"

definition ex_domain_record :: string where
  "ex_domain_record = ''authsec-domain-verification='' @ Hex (map ex_zeros [0..<32])"

abbreviation ex_domain_ops :: "domain_op list" where
  "ex_domain_ops \<equiv> [DoCreate 0 (Some ex_zeros) ''d'' ex_domain_ctx (Inr ''acme.io''), DoVerify (\<lambda>_. Inr [ex_domain_record]) 1 ex_domain_ctx ''d'']"

abbreviation ex_domain :: TenantDomain where
  "ex_domain \<equiv> (pending_domain 0 ''d'' ''t'' ''acme.io'' (Hex (map ex_zeros [0..<32])) None)\<lparr>
     td_IsVerified := True, td_VerifiedAt := Some 1, td_UpdatedAt := 1 \<rparr>"

lemma ex_domain_normal: "normalizeDomain ''acme.io'' = ''acme.io''" "TrimSpace ''d'' = ''d''" "TrimSpace ''t'' = ''t''"
  by code_simp+

lemma ex_domain_run: "fst (run (domain_handle Some False) ex_domain_ops (ex_main, [])) = (ex_main\<lparr> tenant_domains := [ex_domain] \<rparr>, [])"
proof -
  have "domain_handle Some False (DoCreate 0 (Some ex_zeros) ''d'' ex_domain_ctx (Inr ''acme.io'')) (ex_main, []) =
      ((ex_main\<lparr> tenant_domains := [pending_domain 0 ''d'' ''t'' ''acme.io'' (Hex (map ex_zeros [0..<32])) None] \<rparr>, []),
       domain_reply 201 (DDomain (pending_domain 0 ''d'' ''t'' ''acme.io'' (Hex (map ex_zeros [0..<32])) None)))"
    by (simp add: reply_def http_CreateDomain_def getTenantIDFromRequest_def getUserIDFromRequest_def RegisterDomain_def
        repo_CreateDomain_def Let_def ex_domain_normal Contains_char query_row_fault_free select_row_def store_domain_def
        generateVerificationToken_def insert_domain_def exec_checked_fault_free)
  moreover have "fst (domain_handle Some False (DoVerify (\<lambda>_. Inr [ex_domain_record]) 1 ex_domain_ctx ''d'')
      (ex_main\<lparr> tenant_domains := [pending_domain 0 ''d'' ''t'' ''acme.io'' (Hex (map ex_zeros [0..<32])) None] \<rparr>, [])) =
      (ex_main\<lparr> tenant_domains := [ex_domain] \<rparr>, [])"
    by (simp add: reply_def http_VerifyDomain_def ex_domain_normal repo_GetDomainByID_def read_domain_def query_row_fault_free
        select_row_def pending_domain_def VerifyDomainOwnership_def verifyDNSTXT_def Let_def wrap_err_def ex_domain_record_def repo_VerifyDomain_def
        touch_domain_def affected_def update_where_def done_with_def)
  ultimately show ?thesis by (simp add: case_prod_beta Let_def)
qed

theorem domain_owner_proved_witness:
  "\<exists>now b i ctx d dns now' ctx' p.
     DoCreate now (Some b) i ctx (Inr d) \<in> set ex_domain_ops \<and> getTenantIDFromRequest Some ctx = Inr ''t'' \<and>
     normalizeDomain d = normalizeDomain ''acme.io'' \<and>
     DoVerify dns now' ctx' p \<in> set ex_domain_ops \<and> getTenantIDFromRequest Some ctx' = Inr ''t'' \<and> Some (TrimSpace p) = Some i \<and>
     (False \<or> (\<exists>records. dns (TrimSuffix (''_authsec-challenge.'' @ normalizeDomain ''acme.io'') ''.'') = Inr records \<and>
        ''authsec-domain-verification='' @ Hex (map b [0..<32]) \<in> set records))"
proof (rule domain_owner_proved)
  show "tenant_domains ex_main = []" by simp
  show "ResolveTenantByHost ''acme.io'' (fst (fst (run (domain_handle Some False) ex_domain_ops (ex_main, []))), []) =
      (Inr ''t'', ex_main\<lparr> tenant_domains := [ex_domain] \<rparr>, [])"
    unfolding ex_domain_run by (simp add: ResolveTenantByHost_def GetDomainByHostname_def read_domain_def ex_domain_normal query_row_fault_free
        select_row_def pending_domain_def)
qed

theorem domain_table_sound_witness:
  "(td_IsPrimary ex_domain, td_IsVerified ex_domain) \<in> {(False, False), (False, True), (True, True)}"
  using domain_table_sound [of ex_main ex_domain Some False ex_domain_ops "[]" ex_domain] unfolding ex_domain_run by simp

lemma ex_host_format: "validateHostnameFormat ''production'' ''acme.io'' = None"
  by code_simp

lemma ex_redirect: "redirect_host ''https://acme.io:443/cb?x=1'' = ''acme.io''" "uri_host ''https://acme.io:443/cb?x=1'' = Some ''acme.io''"
  by code_simp+

lemma ex_redirect_accepted:
  "NormalizeHostnameAndCheckOwnership ''production'' ''t'' ''https://acme.io:443/cb?x=1'' (ex_main\<lparr> tenant_domains := [ex_domain] \<rparr>, []) =
     (Inr ''acme.io'', ex_main\<lparr> tenant_domains := [ex_domain] \<rparr>, [])"
  by (simp add: NormalizeHostnameAndCheckOwnership_def Let_def ex_redirect ex_host_format HasPrefix_def Contains_char IsDomainOwnedByTenant_def
      query_fault_free ex_domain_normal affected_def pending_domain_def)

theorem redirect_accepted_home_witness:
  "\<exists>r \<in> set [ex_domain]. td_TenantID r = ''t'' \<and> td_Domain r = normalizeDomain ''acme.io'' \<and> td_IsVerified r"
  using redirect_accepted_home [OF ex_redirect_accepted ex_redirect(2)] by simp

theorem redirect_userinfo_bypass_witness:
  "\<exists>uri. uri_host uri = Some ''evil.com'' \<and>
     NormalizeHostnameAndCheckOwnership ''production'' ''t'' uri (ex_main\<lparr> tenant_domains := [ex_domain] \<rparr>, []) =
       (Inr ''acme.io'', ex_main\<lparr> tenant_domains := [ex_domain] \<rparr>, []) \<and>
     ValidateRedirectURIHost ''t'' uri (ex_main\<lparr> tenant_domains := [ex_domain] \<rparr>, []) =
       (Inr True, ex_main\<lparr> tenant_domains := [ex_domain] \<rparr>, [])"
  using redirect_userinfo_bypass [of ex_domain "ex_main\<lparr> tenant_domains := [ex_domain] \<rparr>" "''t''" "''production''" "''evil.com''"]
  by (simp add: pending_domain_def ex_domain_normal ex_host_format)

theorem redirect_checks_agree_witness:
  "(fst (ValidateRedirectURIHost ''t'' ''https://acme.io:443/cb?x=1'' (ex_main, [])) = Inr True) =
   (fst (NormalizeHostnameAndCheckOwnership ''production'' ''t'' ''https://acme.io:443/cb?x=1'' (ex_main, [])) = Inr ''acme.io'')"
proof -
  have "TrimSpace ''acme.io'' = ''acme.io''" by code_simp
  then show ?thesis
    using redirect_checks_agree [of "''production''" "''https://acme.io:443/cb?x=1''" "''t''" ex_main]
    unfolding ex_redirect(1) by (simp add: ex_host_format)
qed

end
