(* ===== verification/Admin_Users.thy ===== *)
theory Admin_Users
  imports Tenant_Domains Directory
begin

text \<open>
  Administrators: the row of \<^verbatim>\<open>models/user.go\<close>, the statements of \<^verbatim>\<open>database/admin_user_repository.go\<close> and the
  seeding of the admin role in \<^verbatim>\<open>database/admin_seed_repository.go\<close>.

  \<^item> A text column that is \<^verbatim>\<open>NULL\<close> holds the empty text, which the readers make of it. A \<^verbatim>\<open>NULL\<close> in a column that a
    reader scans into a plain value makes the scan fail; that is the outcome lost.
  \<^item> The readers do not select every column: the fields they leave out keep their zero values.
  \<^item> \<open>gen\<close> and \<open>check\<close> are \<^verbatim>\<open>bcrypt.GenerateFromPassword\<close> and \<^verbatim>\<open>bcrypt.CompareHashAndPassword\<close>.
  \<^item> Constraints: the id is unique. Migration 094 drops every constraint on the address, and the unique index on the provider id
    leaves out rows without one, which is what the \<^verbatim>\<open>INSERT\<close> stores.
\<close>

section \<open>Data model\<close>

record AdminUser =
  au_ID :: uuid
  au_Email :: string
  au_Username :: string
  au_Password :: string
  au_PasswordHash :: string
  au_Name :: string
  au_ClientID :: "uuid option"
  au_TenantID :: "uuid option"
  au_ProjectID :: "uuid option"
  au_TenantDomain :: string
  au_Provider :: string
  au_ProviderID :: string
  au_ProviderData :: string
  au_AvatarURL :: string
  au_Active :: bool
  au_MFAEnabled :: bool
  au_MFAMethod :: "string list"
  au_MFADefaultMethod :: string
  au_MFAEnrolledAt :: "gotime option"
  au_MFAVerified :: bool
  au_ExternalID :: string
  au_SyncSource :: string
  au_LastSyncAt :: "gotime option"
  au_IsSyncedUser :: bool
  au_LastLogin :: "gotime option"
  au_TemporaryPassword :: bool
  au_TemporaryPasswordExpiresAt :: "gotime option"
  au_IsPrimaryAdmin :: bool
  au_FailedLoginAttempts :: int
  au_AccountLockedAt :: "gotime option"
  au_PasswordResetRequired :: bool
  au_CreatedAt :: gotime
  au_UpdatedAt :: gotime

record UserRole =
  ur_ID :: uuid
  ur_Name :: string

record admin_db = domain_db +
  admin_users :: "AdminUser list"
  main_tenants :: "Tenant list"

definition admin_HashPassword :: "(string \<Rightarrow> go_error + string) \<Rightarrow> AdminUser \<Rightarrow> go_error + AdminUser" where
  "admin_HashPassword gen u =
     (if au_Password u = [] then Inl (Errorf ''password cannot be empty'')
      else case gen (au_Password u) of
             Inl e \<Rightarrow> Inl e
           | Inr h \<Rightarrow> Inr (u\<lparr> au_PasswordHash := h, au_Password := [] \<rparr>))"

definition admin_CheckPassword :: "(string \<Rightarrow> string \<Rightarrow> bool) \<Rightarrow> AdminUser \<Rightarrow> string \<Rightarrow> bool" where
  "admin_CheckPassword check u password \<longleftrightarrow> check (au_PasswordHash u) password"

section \<open>Looking administrators up\<close>

text \<open>The join of \<^verbatim>\<open>users\<close>, \<^verbatim>\<open>role_bindings\<close> and \<^verbatim>\<open>roles\<close>.\<close>

definition holds_role :: "(RoleBinding \<Rightarrow> RBACRole \<Rightarrow> bool) \<Rightarrow> 'a admin_db_scheme \<Rightarrow> AdminUser \<Rightarrow> bool" where
  "holds_role Q s u \<longleftrightarrow> list_ex (\<lambda>b. rb_UserID b = Some (au_ID u) \<and>
     list_ex (\<lambda>r. rl_ID r = rb_RoleID b \<and> Q b r) (roles s)) (role_bindings s)"

definition is_admin :: "'a admin_db_scheme \<Rightarrow> AdminUser \<Rightarrow> bool" where
  "is_admin s u \<longleftrightarrow> holds_role (\<lambda>b r. ToLower (rl_Name r) = ''admin'') s u"

text \<open>What \<^verbatim>\<open>Scan\<close> fills in of a row.\<close>

definition scanned :: "AdminUser \<Rightarrow> AdminUser" where
  "scanned u = u\<lparr> au_Password := [], au_IsPrimaryAdmin := False, au_FailedLoginAttempts := 0,
     au_AccountLockedAt := None, au_PasswordResetRequired := False \<rparr>"

definition scanAdminUserFromQuery ::
  "('a admin_db_scheme \<Rightarrow> AdminUser \<Rightarrow> bool) \<Rightarrow> 'a admin_db_scheme conn
     \<Rightarrow> (go_error + AdminUser) \<times> 'a admin_db_scheme conn" where
  "scanAdminUserFromQuery P c =
     (case query_row (\<lambda>s. select_row (P s) (admin_users s)) c of
        (Inl NoRows, c1) \<Rightarrow> (Inl NoRows, c1)
      | (Inl e, c1) \<Rightarrow> (Inl (Wrap ''failed to get admin user: '' e), c1)
      | (Inr u, c1) \<Rightarrow> (Inr (scanned u), c1))"

definition GetAdminUserByEmail ::
  "string \<Rightarrow> 'a admin_db_scheme conn \<Rightarrow> (go_error + AdminUser) \<times> 'a admin_db_scheme conn" where
  "GetAdminUserByEmail email c =
     (case query_row (\<lambda>s. select_row (\<lambda>u. ToLower (au_Email u) = ToLower email \<and> au_Active u \<and> is_admin s u)
             (admin_users s)) c of
        (Inl NoRows, c1) \<Rightarrow> (Inl NoRows, c1)
      | (Inl e, c1) \<Rightarrow> (Inl (Wrap ''failed to get admin user by email: '' e), c1)
      | (Inr u, c1) \<Rightarrow> (Inr (scanned u), c1))"

text \<open>First with the admin role, then without; the second answer stands for \<^verbatim>\<open>return nil, err\<close> too.\<close>

definition GetAdminUserByEmailAndTenantDomain ::
  "string \<Rightarrow> string \<Rightarrow> 'a admin_db_scheme conn \<Rightarrow> (go_error + AdminUser) \<times> 'a admin_db_scheme conn" where
  "GetAdminUserByEmailAndTenantDomain email tenantDomain c =
     (case scanAdminUserFromQuery (\<lambda>s u. ToLower (au_Email u) = ToLower email \<and>
             ToLower (au_TenantDomain u) = ToLower tenantDomain \<and> au_Active u \<and> is_admin s u) c of
        (Inr u, c1) \<Rightarrow> (Inr u, c1)
      | (Inl NoRows, c1) \<Rightarrow>
          scanAdminUserFromQuery (\<lambda>s u. ToLower (au_Email u) = ToLower email \<and>
             ToLower (au_TenantDomain u) = ToLower tenantDomain \<and> au_Active u) c1
      | (Inl e, c1) \<Rightarrow> (Inl e, c1))"

definition GetAdminUserByID ::
  "uuid \<Rightarrow> 'a admin_db_scheme conn \<Rightarrow> (go_error + AdminUser) \<times> 'a admin_db_scheme conn" where
  "GetAdminUserByID i c =
     (case query_row (\<lambda>s. select_row (\<lambda>u. au_ID u = i \<and> au_Active u \<and> holds_role (\<lambda>b r. rl_Name r = ''admin'') s u)
             (admin_users s)) c of
        (Inl NoRows, c1) \<Rightarrow> (Inl NoRows, c1)
      | (Inl e, c1) \<Rightarrow> (Inl (Wrap ''failed to get admin user: '' e), c1)
      | (Inr u, c1) \<Rightarrow>
          (Inr ((scanned u)\<lparr> au_TemporaryPassword := False, au_TemporaryPasswordExpiresAt := None \<rparr>), c1))"

definition GetAllAdminUsers ::
  "'a admin_db_scheme conn \<Rightarrow> (go_error + AdminUser list) \<times> 'a admin_db_scheme conn" where
  "GetAllAdminUsers c =
     wrap_err ''failed to query admin users: ''
       (query (\<lambda>s. map (\<lambda>u. (scanned u)\<lparr> au_TemporaryPassword := False, au_TemporaryPasswordExpiresAt := None \<rparr>)
          (sort_key (\<lambda>u. - au_CreatedAt u)
            (filter (\<lambda>u. au_Active u \<and> holds_role (\<lambda>b r. rl_Name r = ''admin'') s u) (admin_users s)))) c)"

definition ListAdminUsersByTenantWithFilter ::
  "uuid \<Rightarrow> string \<Rightarrow> 'a admin_db_scheme conn \<Rightarrow> (go_error + AdminUser list) \<times> 'a admin_db_scheme conn" where
  "ListAdminUsersByTenantWithFilter tenantID provider c =
     wrap_err ''failed to query admin users: ''
       (query (\<lambda>s. map (\<lambda>u. (scanned u)\<lparr> au_IsPrimaryAdmin := au_IsPrimaryAdmin u \<rparr>)
          (sort_key (\<lambda>u. - au_CreatedAt u)
            (filter (\<lambda>u. au_Active u \<and> au_TenantID u = Some tenantID \<and>
                 holds_role (\<lambda>b r. rb_TenantID b = Some tenantID \<and> rl_TenantID r = Some tenantID \<and>
                   ToLower (rl_Name r) \<in> {''admin'', ''administrator'', ''super_admin''}) s u \<and>
                 (provider \<noteq> [] \<longrightarrow> au_Provider u = provider)) (admin_users s)))) c)"

definition ListAdminUsersByTenant ::
  "uuid \<Rightarrow> 'a admin_db_scheme conn \<Rightarrow> (go_error + AdminUser list) \<times> 'a admin_db_scheme conn" where
  "ListAdminUsersByTenant tenantID c = ListAdminUsersByTenantWithFilter tenantID [] c"

text \<open>The roles bound to a user in a tenant; \<^verbatim>\<open>DISTINCT\<close> and \<^verbatim>\<open>ORDER BY r.name\<close>.\<close>

definition bound_roles :: "uuid \<Rightarrow> uuid \<Rightarrow> 'a admin_db_scheme \<Rightarrow> RBACRole list" where
  "bound_roles userID tenantID s =
     [r. b \<leftarrow> role_bindings s, rb_UserID b = Some userID \<and> rb_TenantID b = Some tenantID, r \<leftarrow> roles s, rl_ID r = rb_RoleID b]"

definition GetUserRoles ::
  "uuid \<Rightarrow> uuid \<Rightarrow> 'a admin_db_scheme conn \<Rightarrow> (go_error + UserRole list) \<times> 'a admin_db_scheme conn" where
  "GetUserRoles userID tenantID c =
     wrap_err ''failed to query user roles: ''
       (query (\<lambda>s. sort_key ur_Name
          (remdups (map (\<lambda>r. \<lparr> ur_ID = rl_ID r, ur_Name = rl_Name r \<rparr>) (bound_roles userID tenantID s)))) c)"

definition GetAdminRoles ::
  "uuid \<Rightarrow> uuid \<Rightarrow> 'a admin_db_scheme conn \<Rightarrow> (go_error + string list) \<times> 'a admin_db_scheme conn" where
  "GetAdminRoles userID tenantID c =
     wrap_err ''failed to query admin roles: ''
       (query (\<lambda>s. sort (remdups (map rl_Name (bound_roles userID tenantID s)))) c)"

definition HasPendingRegistration ::
  "gotime \<Rightarrow> string \<Rightarrow> 'a otp_db_scheme conn \<Rightarrow> (go_error + bool) \<times> 'a otp_db_scheme conn" where
  "HasPendingRegistration now email c =
     wrap_err ''failed to check pending registration: ''
       (query (\<lambda>s. list_ex (\<lambda>r. ToLower (pr_Email r) = ToLower email \<and> pr_ExpiresAt r > now) (pending_registrations s)) c)"

text \<open>Lower case, trimmed, without the empty text and without repetition, in the order of the rows.\<close>

fun collect_values :: "string list \<Rightarrow> string list \<Rightarrow> string list" where
  "collect_values seen [] = []"
| "collect_values seen (v # vs) =
     (let n = TrimSpace (ToLower v)
      in if n = [] \<or> n \<in> set seen then collect_values seen vs else n # collect_values (n # seen) vs)"

definition collectStringValues ::
  "('a admin_db_scheme \<Rightarrow> string list) \<Rightarrow> 'a admin_db_scheme conn
     \<Rightarrow> (go_error + string list) \<times> 'a admin_db_scheme conn" where
  "collectStringValues g c =
     (case query g c of (Inl e, c1) \<Rightarrow> (Inl e, c1) | (Inr vs, c1) \<Rightarrow> (Inr (collect_values [] vs), c1))"

text \<open>The permissions that the roles of a user hold; this query does not join \<^verbatim>\<open>roles\<close>.\<close>

definition bound_permissions :: "uuid \<Rightarrow> 'a admin_db_scheme \<Rightarrow> RBACPermission list" where
  "bound_permissions userID s =
     [p. b \<leftarrow> role_bindings s, rb_UserID b = Some userID, l \<leftarrow> role_permissions s, rlp_RoleID l = rb_RoleID b,
         p \<leftarrow> permissions s, pm_ID p = rlp_PermissionID l]"

text \<open>Roles, scopes (always empty), resources and permissions.\<close>

definition GetAdminUserAccessContext ::
  "uuid \<Rightarrow> 'a admin_db_scheme conn
     \<Rightarrow> (go_error + string list \<times> string list \<times> string list \<times> string list) \<times> 'a admin_db_scheme conn" where
  "GetAdminUserAccessContext userID c =
     (case collectStringValues (\<lambda>s. [rl_Name r. b \<leftarrow> role_bindings s, rb_UserID b = Some userID,
             r \<leftarrow> roles s, rl_ID r = rb_RoleID b]) c of
        (Inl e, c1) \<Rightarrow> (Inl (Wrap ''failed to fetch admin roles: '' e), c1)
      | (Inr rs, c1) \<Rightarrow>
          (case collectStringValues (\<lambda>s. remdups (map pm_Resource (bound_permissions userID s))) c1 of
             (Inl e, c2) \<Rightarrow> (Inl (Wrap ''failed to fetch admin resources: '' e), c2)
           | (Inr res, c2) \<Rightarrow>
               (case collectStringValues (\<lambda>s. remdups (map (\<lambda>p. pm_Resource p @ '':'' @ pm_Action p)
                       (bound_permissions userID s))) c2 of
                  (Inl e, c3) \<Rightarrow> (Inl (Wrap ''failed to fetch admin permissions: '' e), c3)
                | (Inr ps, c3) \<Rightarrow> (Inr (rs, [], res, ps), c3))))"

section \<open>Changing administrators\<close>

text \<open>The columns that the callers of \<^verbatim>\<open>UpdateAdminUser\<close> set, each at most once.\<close>

datatype admin_column =
    SetFailedLoginAttempts int
  | SetAccountLockedAt "gotime option"
  | SetPasswordResetRequired bool
  | SetPasswordHash string
  | SetTemporaryPassword bool
  | SetTemporaryPasswordExpiresAt "gotime option"

fun set_column :: "admin_column \<Rightarrow> AdminUser \<Rightarrow> AdminUser" where
  "set_column (SetFailedLoginAttempts n) u = u\<lparr> au_FailedLoginAttempts := n \<rparr>"
| "set_column (SetAccountLockedAt t) u = u\<lparr> au_AccountLockedAt := t \<rparr>"
| "set_column (SetPasswordResetRequired b) u = u\<lparr> au_PasswordResetRequired := b \<rparr>"
| "set_column (SetPasswordHash h) u = u\<lparr> au_PasswordHash := h \<rparr>"
| "set_column (SetTemporaryPassword b) u = u\<lparr> au_TemporaryPassword := b \<rparr>"
| "set_column (SetTemporaryPasswordExpiresAt t) u = u\<lparr> au_TemporaryPasswordExpiresAt := t \<rparr>"

definition update_admin ::
  "uuid \<Rightarrow> (AdminUser \<Rightarrow> AdminUser) \<Rightarrow> 'a admin_db_scheme \<Rightarrow> 'a admin_db_scheme" where
  "update_admin i f s = s\<lparr> admin_users := update_where (\<lambda>u. au_ID u = i) f (admin_users s) \<rparr>"

definition UpdateAdminUser ::
  "gotime \<Rightarrow> uuid \<Rightarrow> admin_column list \<Rightarrow> 'a admin_db_scheme conn \<Rightarrow> (go_error + unit) \<times> 'a admin_db_scheme conn" where
  "UpdateAdminUser now i updates c =
     (if updates = [] then (Inl (Errorf ''no updates provided''), c)
      else wrap_err ''failed to update admin user: ''
        (exec (\<lambda>s. (update_admin i (\<lambda>u. (fold set_column updates u)\<lparr> au_UpdatedAt := now \<rparr>) s, ())) c))"

definition UpdateLastLogin ::
  "gotime \<Rightarrow> uuid \<Rightarrow> 'a admin_db_scheme conn \<Rightarrow> (go_error + unit) \<times> 'a admin_db_scheme conn" where
  "UpdateLastLogin now i c =
     wrap_err ''failed to update last login: ''
       (exec (\<lambda>s. (update_admin i (\<lambda>u. u\<lparr> au_LastLogin := Some now, au_UpdatedAt := now \<rparr>) s, ())) c)"

text \<open>Three writers of the active flag.\<close>

definition UpdateAdminUserActive ::
  "gotime \<Rightarrow> uuid \<Rightarrow> bool \<Rightarrow> 'a admin_db_scheme conn \<Rightarrow> (go_error + bool) \<times> 'a admin_db_scheme conn" where
  "UpdateAdminUserActive now userID active c =
     (case exec (\<lambda>s. (update_admin userID (\<lambda>u. u\<lparr> au_Active := active, au_UpdatedAt := now \<rparr>) s,
                      affected (\<lambda>u. au_ID u = userID) (admin_users s))) c of
        (Inl e, c1) \<Rightarrow> (Inl (Wrap ''failed to update admin user active flag: '' e), c1)
      | (Inr n, c1) \<Rightarrow> (Inr (n > 0), c1))"

definition UpdateAdminUserActiveStatus ::
  "gotime \<Rightarrow> uuid \<Rightarrow> bool \<Rightarrow> 'a admin_db_scheme conn \<Rightarrow> (go_error + unit) \<times> 'a admin_db_scheme conn" where
  "UpdateAdminUserActiveStatus now i active c =
     (case exec (\<lambda>s. (update_admin i (\<lambda>u. u\<lparr> au_Active := active, au_UpdatedAt := now \<rparr>) s,
                      affected (\<lambda>u. au_ID u = i) (admin_users s))) c of
        (Inl e, c1) \<Rightarrow> (Inl (Wrap ''failed to update admin user status: '' e), c1)
      | (Inr n, c1) \<Rightarrow> (if n = 0 then (Inl (Errorf ''admin user not found''), c1) else (Inr (), c1)))"

definition DeleteAdminUser ::
  "gotime \<Rightarrow> uuid \<Rightarrow> 'a admin_db_scheme conn \<Rightarrow> (go_error + unit) \<times> 'a admin_db_scheme conn" where
  "DeleteAdminUser now i c =
     (case exec (\<lambda>s. (update_admin i (\<lambda>u. u\<lparr> au_Active := False, au_UpdatedAt := now \<rparr>) s,
                      affected (\<lambda>u. au_ID u = i) (admin_users s))) c of
        (Inl e, c1) \<Rightarrow> (Inl (Wrap ''failed to delete admin user: '' e), c1)
      | (Inr n, c1) \<Rightarrow> (if n = 0 then (Inl (Errorf ''admin user not found''), c1) else (Inr (), c1)))"

definition VerifyPassword ::
  "(string \<Rightarrow> string \<Rightarrow> bool) \<Rightarrow> string \<Rightarrow> string \<Rightarrow> 'a admin_db_scheme conn
     \<Rightarrow> (go_error + AdminUser) \<times> 'a admin_db_scheme conn" where
  "VerifyPassword check email password c =
     (case GetAdminUserByEmail email c of
        (Inl e, c1) \<Rightarrow> (Inl e, c1)
      | (Inr u, c1) \<Rightarrow>
          (if check (au_PasswordHash u) password then (Inr u, c1) else (Inl (Errorf ''invalid password''), c1)))"

end
