(* ===== verification/Admin_Seed.thy ===== *)
theory Admin_Seed
  imports Admin_Users
begin

text \<open>
  The admin role of a tenant: the seeding of \<^verbatim>\<open>database/admin_seed_repository.go\<close>, the writers of
  \<^verbatim>\<open>database/admin_user_repository.go\<close> that rely on it, and what a new administrator may do.

  \<open>ids k\<close> is the id drawn for the \<open>k\<close>-th permission, \<open>roleID\<close> the one drawn for the role.
\<close>

section \<open>Seeding\<close>

text \<open>A statement with \<^verbatim>\<open>RETURNING\<close> that a constraint may refuse.\<close>

definition exec_returning :: "('s \<Rightarrow> go_error + 's \<times> 'r) \<Rightarrow> 's conn \<Rightarrow> (go_error + 'r) \<times> 's conn" where
  "exec_returning f c =
     (case exec (\<lambda>s. case f s of Inl e \<Rightarrow> (s, Inl e) | Inr (s', r) \<Rightarrow> (s', Inr r)) c of
        (Inl e, c1) \<Rightarrow> (Inl e, c1)
      | (Inr r, c1) \<Rightarrow> (r, c1))"

definition upsert_role ::
  "gotime \<Rightarrow> uuid \<Rightarrow> uuid \<Rightarrow> 'a rbac_db_scheme \<Rightarrow> go_error + 'a rbac_db_scheme \<times> uuid" where
  "upsert_role now roleID tenantID s =
     (case List.find (\<lambda>r. rl_TenantID r = Some tenantID \<and> rl_Name r = ''admin'') (roles s) of
        Some r \<Rightarrow> Inr (s, rl_ID r)
      | None \<Rightarrow>
          if list_ex (\<lambda>r. rl_ID r = roleID) (roles s) then Inl DBError
          else Inr (s\<lparr> roles := roles s @ [\<lparr> rl_ID = roleID, rl_TenantID = Some tenantID, rl_Name = ''admin'',
                 rl_Description = ''Administrator with full access'', rl_IsSystem = False, rl_CreatedAt = now \<rparr>] \<rparr>, roleID))"

definition upsert_permission ::
  "gotime \<Rightarrow> uuid \<Rightarrow> uuid \<Rightarrow> string \<times> string \<Rightarrow> 'a rbac_db_scheme \<Rightarrow> go_error + 'a rbac_db_scheme \<times> uuid" where
  "upsert_permission now permID tenantID ra s =
     (let key = (\<lambda>p. pm_TenantID p = Some tenantID \<and> pm_Resource p = fst ra \<and> pm_Action p = snd ra);
          desc = fst ra @ '' '' @ snd ra
      in case List.find key (permissions s) of
           Some p \<Rightarrow> Inr (s\<lparr> permissions := update_where key (\<lambda>p. p\<lparr> pm_Description := desc \<rparr>) (permissions s) \<rparr>, pm_ID p)
         | None \<Rightarrow>
             if list_ex (\<lambda>p. pm_ID p = permID) (permissions s) then Inl DBError
             else Inr (s\<lparr> permissions := permissions s @ [\<lparr> pm_ID = permID, pm_TenantID = Some tenantID, pm_Resource = fst ra,
                    pm_Action = snd ra, pm_Description = desc, pm_CreatedAt = now \<rparr>] \<rparr>, permID))"

definition bind_permission :: "uuid \<Rightarrow> uuid \<Rightarrow> 'a rbac_db_scheme \<Rightarrow> go_error + 'a rbac_db_scheme" where
  "bind_permission roleID permID s =
     (let l = \<lparr> rlp_RoleID = roleID, rlp_PermissionID = permID \<rparr>
      in if l \<in> set (role_permissions s) then Inr s
         else if link_ok s l then Inr (s\<lparr> role_permissions := role_permissions s @ [l] \<rparr>) else Inl DBError)"

definition crudm :: "string \<Rightarrow> (string \<times> string) list" where
  "crudm r = [(r, ''create''), (r, ''read''), (r, ''update''), (r, ''delete''), (r, ''manage'')]"

definition permRows :: "(string \<times> string) list" where
  "permRows =
     [(''admin'', ''access'')] @
     concat (map crudm [''users'', ''tenants'', ''projects'', ''roles'', ''permissions'', ''scopes'', ''role-bindings'', ''policy'',
       ''groups'', ''sync'', ''sync-configs'', ''oidc'', ''endusers'', ''clients'', ''user-endusers'', ''user-rbac-roles'',
       ''user-rbac-permissions'', ''user-rbac-scopes'', ''user-permissions'', ''user-groups'', ''user-clients'', ''user-projects'']) @
     [(''scopes'', ''create''), (''scopes'', ''read''), (''scopes'', ''update''), (''scopes'', ''delete''), (''scopes'', ''manage_permissions''),
      (''health'', ''read''),
      (''external-service'', ''create''), (''external-service'', ''read''), (''external-service'', ''update''),
      (''external-service'', ''delete''), (''external-service'', ''credentials''), (''external-service'', ''manage'')]"

fun seed_permissions ::
  "gotime \<Rightarrow> (nat \<Rightarrow> uuid) \<Rightarrow> nat \<Rightarrow> uuid \<Rightarrow> uuid \<Rightarrow> (string \<times> string) list \<Rightarrow> 'a rbac_db_scheme conn
     \<Rightarrow> (go_error + unit) \<times> 'a rbac_db_scheme conn" where
  "seed_permissions now ids k tenantID roleID [] c = (Inr (), c)"
| "seed_permissions now ids k tenantID roleID (ra # ras) c =
     (case exec_returning (upsert_permission now (ids k) tenantID ra) c of
        (Inl e, c1) \<Rightarrow> (Inl (Wrap (''ensure permission '' @ fst ra @ '':'' @ snd ra @ '': '') e), c1)
      | (Inr permID, c1) \<Rightarrow>
          (case exec_checked (bind_permission roleID permID) c1 of
             (Inl e, c2) \<Rightarrow> (Inl (Wrap (''bind permission '' @ fst ra @ '':'' @ snd ra @ '': '') e), c2)
           | (Inr _, c2) \<Rightarrow> seed_permissions now ids (Suc k) tenantID roleID ras c2))"

definition ensureAdminRoleAndPermissions ::
  "gotime \<Rightarrow> uuid \<Rightarrow> (nat \<Rightarrow> uuid) \<Rightarrow> uuid \<Rightarrow> 'a rbac_db_scheme conn \<Rightarrow> (go_error + uuid) \<times> 'a rbac_db_scheme conn" where
  "ensureAdminRoleAndPermissions now roleID0 ids tenantID c =
     (case exec_returning (upsert_role now roleID0 tenantID) c of
        (Inl e, c1) \<Rightarrow> (Inl (Wrap ''ensure admin role: '' e), c1)
      | (Inr roleID, c1) \<Rightarrow>
          (case seed_permissions now ids 0 tenantID roleID permRows c1 of
             (Inl e, c2) \<Rightarrow> (Inl e, c2)
           | (Inr _, c2) \<Rightarrow> (Inr roleID, c2)))"

definition EnsureAdminRole ::
  "gotime \<Rightarrow> uuid \<Rightarrow> (nat \<Rightarrow> uuid) \<Rightarrow> uuid \<Rightarrow> 'a admin_db_scheme conn \<Rightarrow> (go_error + uuid) \<times> 'a admin_db_scheme conn" where
  "EnsureAdminRole now roleID ids tenantID c = ensureAdminRoleAndPermissions now roleID ids tenantID c"

section \<open>Binding the role\<close>

definition admin_binding :: "gotime \<Rightarrow> uuid \<Rightarrow> uuid \<Rightarrow> uuid \<Rightarrow> uuid \<Rightarrow> RoleBinding" where
  "admin_binding now bindingID tenantID userID roleID =
     \<lparr> rb_ID = bindingID, rb_TenantID = Some tenantID, rb_UserID = Some userID, rb_Username = [], rb_ServiceAccountID = None,
       rb_RoleID = roleID, rb_RoleName = [], rb_ScopeType = None, rb_ScopeID = None, rb_Conditions = [], rb_ExpiresAt = None,
       rb_CreatedBy = None, rb_CreatedAt = now \<rparr>"

text \<open>\<^verbatim>\<open>INSERT ... WHERE NOT EXISTS\<close>; \<open>scoped\<close> says whether the test looks at \<^verbatim>\<open>scope_id\<close> too.\<close>

definition bind_role :: "bool \<Rightarrow> RoleBinding \<Rightarrow> 'a rbac_db_scheme \<Rightarrow> go_error + 'a rbac_db_scheme" where
  "bind_role scoped b s =
     (if list_ex (\<lambda>r. rb_TenantID r = rb_TenantID b \<and> rb_UserID r = rb_UserID b \<and> rb_RoleID r = rb_RoleID b \<and>
            rb_ScopeType r = None \<and> (scoped \<longrightarrow> rb_ScopeID r = None)) (role_bindings s)
      then Inr s else insert_binding b s)"

definition ensureAdminRoleBinding ::
  "gotime \<Rightarrow> uuid \<Rightarrow> uuid \<Rightarrow> uuid \<Rightarrow> uuid \<Rightarrow> 'a admin_db_scheme conn \<Rightarrow> (go_error + unit) \<times> 'a admin_db_scheme conn" where
  "ensureAdminRoleBinding now bindingID userID tenantID roleID c =
     wrap_err ''create admin role binding: ''
       (exec_checked (bind_role True (admin_binding now bindingID tenantID userID roleID)) c)"

definition assignAdminRoleToUser ::
  "gotime \<Rightarrow> uuid \<Rightarrow> (nat \<Rightarrow> uuid) \<Rightarrow> uuid \<Rightarrow> uuid \<Rightarrow> uuid \<Rightarrow> 'a admin_db_scheme conn
     \<Rightarrow> (go_error + unit) \<times> 'a admin_db_scheme conn" where
  "assignAdminRoleToUser now roleID0 ids bindingID userID tenantID c =
     (case EnsureAdminRole now roleID0 ids tenantID c of
        (Inl e, c1) \<Rightarrow> (Inl (Wrap ''failed to ensure admin role: '' e), c1)
      | (Inr roleID, c1) \<Rightarrow>
          wrap_err ''failed to assign admin role: ''
            (exec_checked (bind_role True (admin_binding now bindingID tenantID userID roleID)) c1))"

text \<open>
  The tenant's own administrator, or the oldest active user of the tenant. Every failure is logged and
  answered with success.
\<close>

definition EnsureTenantAdminRoleAssignment ::
  "gotime \<Rightarrow> uuid \<Rightarrow> (nat \<Rightarrow> uuid) \<Rightarrow> uuid \<Rightarrow> uuid \<Rightarrow> 'a admin_db_scheme conn
     \<Rightarrow> (go_error + unit) \<times> 'a admin_db_scheme conn" where
  "EnsureTenantAdminRoleAssignment now roleID0 ids bindingID tenantID c =
     (case ensureAdminRoleAndPermissions now roleID0 ids tenantID c of
        (Inl _, c1) \<Rightarrow> (Inr (), c1)
      | (Inr adminRoleID, c1) \<Rightarrow>
          (case query_row (\<lambda>s. select_row (\<lambda>u. au_TenantID u = Some tenantID \<and>
                  list_ex (\<lambda>t. tn_TenantID t = tenantID \<and> ToLower (tn_Email t) = ToLower (au_Email u)) (main_tenants s))
                (admin_users s)) c1 of
             (Inr u, c2) \<Rightarrow>
               (case ensureAdminRoleBinding now bindingID (au_ID u) tenantID adminRoleID c2 of (_, c3) \<Rightarrow> (Inr (), c3))
           | (Inl NoRows, c2) \<Rightarrow>
               (case query_row (\<lambda>s. select_row (\<lambda>_. True) (sort_key au_CreatedAt
                       (filter (\<lambda>u. au_TenantID u = Some tenantID \<and> au_Active u) (admin_users s)))) c2 of
                  (Inl _, c3) \<Rightarrow> (Inr (), c3)
                | (Inr u, c3) \<Rightarrow>
                    (case ensureAdminRoleBinding now bindingID (au_ID u) tenantID adminRoleID c3 of (_, c4) \<Rightarrow> (Inr (), c4)))
           | (Inl _, c2) \<Rightarrow> (Inr (), c2)))"

text \<open>The row that the \<^verbatim>\<open>INSERT\<close> stores: the columns it names, and the defaults of the table for the others.\<close>

definition new_admin_row :: "AdminUser \<Rightarrow> AdminUser" where
  "new_admin_row u = u\<lparr> au_Password := [], au_ProviderID := [], au_ProviderData := [], au_AvatarURL := [], au_MFAEnabled := False,
     au_MFAMethod := [], au_MFADefaultMethod := [], au_MFAEnrolledAt := None, au_MFAVerified := False, au_ExternalID := [],
     au_SyncSource := [], au_LastSyncAt := None, au_IsSyncedUser := False, au_LastLogin := None, au_IsPrimaryAdmin := False,
     au_FailedLoginAttempts := 0, au_AccountLockedAt := None, au_PasswordResetRequired := False \<rparr>"

definition insert_admin :: "AdminUser \<Rightarrow> 'a admin_db_scheme \<Rightarrow> go_error + 'a admin_db_scheme" where
  "insert_admin u s =
     (if list_ex (\<lambda>r. au_ID r = au_ID u) (admin_users s)
      then Inl DBError else Inr (s\<lparr> admin_users := admin_users s @ [new_admin_row u] \<rparr>))"

text \<open>The user as the caller sees it afterwards is the answer.\<close>

definition CreateAdminUser ::
  "gotime \<Rightarrow> uuid \<Rightarrow> uuid \<Rightarrow> (nat \<Rightarrow> uuid) \<Rightarrow> uuid \<Rightarrow> AdminUser \<Rightarrow> 'a admin_db_scheme conn
     \<Rightarrow> (go_error + AdminUser) \<times> 'a admin_db_scheme conn" where
  "CreateAdminUser now newID roleID0 ids bindingID u0 c =
     (if au_PasswordHash u0 = [] \<and> \<not> au_IsSyncedUser u0 \<and> au_Provider u0 \<noteq> ''ad_sync'' \<and> au_Provider u0 \<noteq> ''entra_id'' then
        (Inl (Errorf ''password hash must be set before creating admin user''), c)
      else
        let u = u0\<lparr> au_ID := (if au_ID u0 = nil_uuid then newID else au_ID u0),
                    au_CreatedAt := (if au_CreatedAt u0 = zero_time then now else au_CreatedAt u0),
                    au_UpdatedAt := (if au_UpdatedAt u0 = zero_time then now else au_UpdatedAt u0) \<rparr>;
            tenantID = (case au_TenantID u of None \<Rightarrow> nil_uuid | Some t \<Rightarrow> t)
        in (case exec_checked (insert_admin u) c of
              (Inl e, c1) \<Rightarrow> (Inl (Wrap ''failed to create admin user: '' e), c1)
            | (Inr _, c1) \<Rightarrow>
                (case EnsureAdminRole now roleID0 ids tenantID c1 of
                   (Inl _, c2) \<Rightarrow> (Inr u, c2)
                 | (Inr roleID, c2) \<Rightarrow>
                     (case exec_checked (bind_role False (admin_binding now bindingID tenantID (au_ID u) roleID)) c2 of
                        (_, c3) \<Rightarrow> (Inr u, c3)))))"

section \<open>What seeding grants\<close>

lemma exec_returning_fault_free [sql_simps]:
  "exec_returning f (s, []) = (case f s of Inl e \<Rightarrow> (Inl e, s, []) | Inr (s', r) \<Rightarrow> (Inr r, s', []))"
  by (simp add: exec_returning_def split: sum.split prod.split)

definition perm_keys :: "'a rbac_db_scheme \<Rightarrow> (uuid \<times> string \<times> string) set" where
  "perm_keys s = (\<lambda>p. (pm_ID p, pm_Resource p, pm_Action p)) ` set (permissions s)"

definition role_covers :: "'a rbac_db_scheme \<Rightarrow> uuid \<Rightarrow> string \<times> string \<Rightarrow> bool" where
  "role_covers s i ra \<longleftrightarrow> (\<exists>j. (j, ra) \<in> perm_keys s \<and> \<lparr> rlp_RoleID = i, rlp_PermissionID = j \<rparr> \<in> set (role_permissions s))"

text \<open>How seeding moves the tables: permissions and links only grow.\<close>

definition seeds :: "'a rbac_db_scheme \<Rightarrow> 'a rbac_db_scheme \<Rightarrow> bool" where
  "seeds s s' \<longleftrightarrow> rbac_inv s' \<and> roles s' = roles s \<and> role_bindings s' = role_bindings s \<and> perm_keys s \<subseteq> perm_keys s' \<and>
     set (role_permissions s) \<subseteq> set (role_permissions s')"

lemma seeds_trans: "seeds s s' \<Longrightarrow> seeds s' s'' \<Longrightarrow> seeds s s''"
  unfolding seeds_def by auto

lemma seeds_covers: "seeds s s' \<Longrightarrow> role_covers s i ra \<Longrightarrow> role_covers s' i ra"
  unfolding seeds_def role_covers_def by blast

lemma rbac_inv_permissions:
  assumes "rbac_inv s" and "distinct (map pm_ID ps)" and "pm_ID ` set (permissions s) \<subseteq> pm_ID ` set ps"
  shows "rbac_inv (s\<lparr> permissions := ps \<rparr>)"
proof -
  have "link_ok (s\<lparr> permissions := ps \<rparr>) l" if "link_ok s l" for l
    using that assms(3) unfolding link_ok_def by (auto simp: subset_iff image_iff) metis
  moreover have "binding_ok (s\<lparr> permissions := ps \<rparr>) b = binding_ok s b" for b by (simp add: binding_ok_def)
  ultimately show ?thesis using assms(1,2) by (auto simp: rbac_inv_def)
qed

lemma upsert_permission_ok:
  assumes "rbac_inv s" and "i \<notin> pm_ID ` set (permissions s)"
  shows "\<exists>s' j. upsert_permission now i t ra s = Inr (s', j) \<and> seeds s s' \<and> (j, ra) \<in> perm_keys s' \<and>
           pm_ID ` set (permissions s') \<subseteq> insert i (pm_ID ` set (permissions s))"
proof -
  let ?key = "\<lambda>p. pm_TenantID p = Some t \<and> pm_Resource p = fst ra \<and> pm_Action p = snd ra"
  let ?desc = "fst ra @ '' '' @ snd ra"
  note ids = rbac_inv_keys(2) [OF assms(1)]
  show ?thesis
  proof (cases "List.find ?key (permissions s)")
    case (Some p)
    let ?t = "update_where ?key (\<lambda>p. p\<lparr> pm_Description := ?desc \<rparr>) (permissions s)"
    have p: "p \<in> set (permissions s)" "?key p" using find_SomeD [OF Some] by blast+
    have keys: "map (\<lambda>p. (pm_ID p, pm_Resource p, pm_Action p)) ?t = map (\<lambda>p. (pm_ID p, pm_Resource p, pm_Action p)) (permissions s)"
      by (rule map_update_where) simp
    have "(\<lambda>p. (pm_ID p, pm_Resource p, pm_Action p)) ` set ?t = (\<lambda>p. (pm_ID p, pm_Resource p, pm_Action p)) ` set (permissions s)"
      by (simp only: set_map [symmetric] keys)
    then have same: "perm_keys (s\<lparr> permissions := ?t \<rparr>) = perm_keys s" by (simp add: perm_keys_def)
    have "map pm_ID ?t = map pm_ID (permissions s)" by (rule map_update_where) simp
    then have pm: "pm_ID ` set ?t = pm_ID ` set (permissions s)" "distinct (map pm_ID ?t)" using ids by (metis list.set_map, simp)
    have "upsert_permission now i t ra s = Inr (s\<lparr> permissions := ?t \<rparr>, pm_ID p)"
      unfolding upsert_permission_def Let_def Some by simp
    moreover have "seeds s (s\<lparr> permissions := ?t \<rparr>)"
      using rbac_inv_permissions [OF assms(1) pm(2)] pm(1) same by (simp add: seeds_def)
    moreover have "(pm_ID p, ra) \<in> perm_keys (s\<lparr> permissions := ?t \<rparr>)"
      unfolding same unfolding perm_keys_def using p by (intro image_eqI [of _ _ p]) auto
    ultimately show ?thesis using pm(1) by (intro exI conjI) auto
  next
    case None
    let ?p = "\<lparr> pm_ID = i, pm_TenantID = Some t, pm_Resource = fst ra, pm_Action = snd ra, pm_Description = ?desc, pm_CreatedAt = now \<rparr>"
    let ?s = "s\<lparr> permissions := permissions s @ [?p] \<rparr>"
    have "\<not> list_ex (\<lambda>p. pm_ID p = i) (permissions s)" using assms(2) by (auto simp: list_ex_iff)
    then have "upsert_permission now i t ra s = Inr (?s, i)" unfolding upsert_permission_def Let_def None by simp
    moreover have "seeds s ?s"
      using rbac_inv_permissions [OF assms(1), of "permissions s @ [?p]"] ids assms(2) by (auto simp: seeds_def perm_keys_def)
    moreover have "(i, ra) \<in> perm_keys ?s" by (simp add: perm_keys_def)
    ultimately show ?thesis by (intro exI conjI) auto
  qed
qed

lemma bind_permission_ok:
  assumes "rbac_inv s" and "i \<in> rl_ID ` set (roles s)" and "(j, ra) \<in> perm_keys s"
  shows "\<exists>s'. bind_permission i j s = Inr s' \<and> seeds s s' \<and> role_covers s' i ra \<and> permissions s' = permissions s"
proof -
  let ?l = "\<lparr> rlp_RoleID = i, rlp_PermissionID = j \<rparr>"
  have ok: "link_ok s ?l" using assms(2,3) unfolding link_ok_def perm_keys_def by auto
  show ?thesis
  proof (cases "?l \<in> set (role_permissions s)")
    case True
    then show ?thesis using assms(1,3) by (auto simp: bind_permission_def seeds_def role_covers_def)
  next
    case False
    let ?s = "s\<lparr> role_permissions := role_permissions s @ [?l] \<rparr>"
    have "rbac_inv ?s" using rbac_inv_keys [OF assms(1)] False ok by (intro rbac_inv_mono [OF assms(1)]) auto
    then show ?thesis using False ok assms(3) by (auto simp: bind_permission_def seeds_def role_covers_def perm_keys_def)
  qed
qed

lemma seed_permissions_ok:
  assumes "rbac_inv s" and "i \<in> rl_ID ` set (roles s)" and "inj ids" and "\<And>n. k \<le> n \<Longrightarrow> ids n \<notin> pm_ID ` set (permissions s)"
  shows "\<exists>s'. seed_permissions now ids k t i ras (s, []) = (Inr (), s', []) \<and> seeds s s' \<and> (\<forall>ra \<in> set ras. role_covers s' i ra)"
  using assms(1,2,4)
proof (induction ras arbitrary: k s)
  case Nil
  then show ?case by (simp add: seeds_def)
next
  case (Cons ra ras)
  obtain s1 j where 1: "upsert_permission now (ids k) t ra s = Inr (s1, j)" "seeds s s1" "(j, ra) \<in> perm_keys s1"
      "pm_ID ` set (permissions s1) \<subseteq> insert (ids k) (pm_ID ` set (permissions s))"
    using upsert_permission_ok [OF Cons.prems(1) Cons.prems(3) [OF order_refl], of now t ra] by blast
  then have inv1: "rbac_inv s1" "i \<in> rl_ID ` set (roles s1)" using Cons.prems(2) by (simp_all add: seeds_def)
  obtain s2 where 2: "bind_permission i j s1 = Inr s2" "seeds s1 s2" "role_covers s2 i ra" "permissions s2 = permissions s1"
    using bind_permission_ok [OF inv1 1(3)] by blast
  have fresh: "ids n \<notin> pm_ID ` set (permissions s2)" if "Suc k \<le> n" for n
    using 1(4) 2(4) Cons.prems(3) [of n] that injD [OF assms(3), of n k] by auto
  have inv2: "rbac_inv s2" "i \<in> rl_ID ` set (roles s2)" using 2(2) inv1 by (simp_all add: seeds_def)
  obtain s3 where 3: "seed_permissions now ids (Suc k) t i ras (s2, []) = (Inr (), s3, [])" "seeds s2 s3" "\<forall>ra \<in> set ras. role_covers s3 i ra"
    using Cons.IH [OF inv2 fresh] by blast
  have "seed_permissions now ids k t i (ra # ras) (s, []) = (Inr (), s3, [])"
    using 1(1) 2(1) 3(1) by (simp add: sql_simps)
  with 1(2) 2(2,3) 3(2,3) show ?case by (auto intro: seeds_trans seeds_covers)
qed

lemma upsert_role_ok:
  assumes "rbac_inv s" and "roleID \<notin> rl_ID ` set (roles s)"
  shows "\<exists>s' i. upsert_role now roleID t s = Inr (s', i) \<and> rbac_inv s' \<and> (\<exists>r \<in> set (roles s'). rl_ID r = i \<and> rl_TenantID r = Some t) \<and>
           permissions s' = permissions s \<and> role_bindings s' = role_bindings s"
proof (cases "List.find (\<lambda>r. rl_TenantID r = Some t \<and> rl_Name r = ''admin'') (roles s)")
  case (Some r)
  then show ?thesis using assms(1) find_SomeD [OF Some] by (auto simp: upsert_role_def)
next
  case None
  let ?r = "\<lparr> rl_ID = roleID, rl_TenantID = Some t, rl_Name = ''admin'', rl_Description = ''Administrator with full access'',
    rl_IsSystem = False, rl_CreatedAt = now \<rparr>"
  have "\<not> list_ex (\<lambda>r. rl_ID r = roleID) (roles s)" using assms(2) by (auto simp: list_ex_iff)
  moreover have "rbac_inv (s\<lparr> roles := roles s @ [?r] \<rparr>)"
    using rbac_inv_keys [OF assms(1)] assms(2) by (intro rbac_inv_mono [OF assms(1)]) auto
  ultimately show ?thesis using None by (auto simp: upsert_role_def)
qed

lemma EnsureAdminRole_ok:
  assumes "rbac_inv s" and "roleID \<notin> rl_ID ` set (roles s)" and "inj ids" and "\<forall>n. ids n \<notin> pm_ID ` set (permissions s)"
  shows "\<exists>s' i. EnsureAdminRole now roleID ids t (s, []) = (Inr i, s', []) \<and> rbac_inv s' \<and> role_bindings s' = role_bindings s \<and>
           (\<exists>r \<in> set (roles s'). rl_ID r = i \<and> rl_TenantID r = Some t) \<and> (\<forall>ra \<in> set permRows. role_covers s' i ra)"
proof -
  obtain s1 i where 1: "upsert_role now roleID t s = Inr (s1, i)" "rbac_inv s1" "\<exists>r \<in> set (roles s1). rl_ID r = i \<and> rl_TenantID r = Some t"
      "permissions s1 = permissions s" "role_bindings s1 = role_bindings s"
    using upsert_role_ok [OF assms(1,2)] by blast
  have "i \<in> rl_ID ` set (roles s1)" using 1(3) by auto
  from seed_permissions_ok [OF 1(2) this assms(3), of 0 now t permRows] assms(4) 1(4)
  obtain s2 where 2: "seed_permissions now ids 0 t i permRows (s1, []) = (Inr (), s2, [])" "seeds s1 s2" "\<forall>ra \<in> set permRows. role_covers s2 i ra"
    by auto
  have "EnsureAdminRole now roleID ids t (s, []) = (Inr i, s2, [])"
    using 1(1) 2(1) by (simp add: EnsureAdminRole_def ensureAdminRoleAndPermissions_def exec_returning_fault_free)
  with 1(3,5) 2(2,3) show ?thesis by (auto simp: seeds_def)
qed

lemma rbac_inv_admin_users [simp]: "rbac_inv (s\<lparr> admin_users := us \<rparr>) = rbac_inv s"
  by (simp add: rbac_inv_def link_ok_def binding_ok_def)

lemma bound_role_allows:
  assumes "rbac_inv s" and "b \<in> set (role_bindings s)" and "rb_UserID b = Some i" and "rb_ScopeID b = None"
    and "role_covers s (rb_RoleID b) (r, a)"
  shows "allows s i r a scope"
  using assms(2-) unfolding allows_granted [OF assms(1)] granted_def role_covers_def perm_keys_def by fastforce

text \<open>
  C21. A new administrator may do everything the seeding lists: creating an administrator of a tenant on a database that
  answers succeeds, and from then on the policy decision point allows the administrator every seeded
  action, in every scope of the tenant.
\<close>

theorem admin_seed_grants:
  assumes "rbac_inv s" and "au_ID u = nil_uuid" and "au_PasswordHash u \<noteq> []" and "au_TenantID u = Some t"
    and "\<forall>r \<in> set (admin_users s). au_ID r \<noteq> newID"
    and "\<forall>b \<in> set (role_bindings s). rb_ID b \<noteq> bindingID \<and> rb_UserID b \<noteq> Some newID"
    and "roleID \<notin> rl_ID ` set (roles s)" and "inj ids" and "\<forall>n. ids n \<notin> pm_ID ` set (permissions s)"
  shows "\<exists>u' s'. CreateAdminUser now newID roleID ids bindingID u (s, []) = (Inr u', s', []) \<and> au_ID u' = newID \<and>
           (\<forall>(r, a) \<in> set permRows. \<forall>scope. allows s' newID r a scope)"
proof -
  define u' where "u' = u\<lparr> au_ID := newID, au_CreatedAt := (if au_CreatedAt u = zero_time then now else au_CreatedAt u),
    au_UpdatedAt := (if au_UpdatedAt u = zero_time then now else au_UpdatedAt u) \<rparr>"
  let ?s1 = "s\<lparr> admin_users := admin_users s @ [new_admin_row u'] \<rparr>"
  have insert: "exec_checked (insert_admin u') (s, []) = (Inr (), ?s1, [])"
    using assms(4,5) by (auto simp: exec_checked_fault_free insert_admin_def list_ex_iff u'_def)
  obtain s2 i where 2: "EnsureAdminRole now roleID ids t (?s1, []) = (Inr i, s2, [])" "rbac_inv s2" "role_bindings s2 = role_bindings s"
      "\<exists>r \<in> set (roles s2). rl_ID r = i \<and> rl_TenantID r = Some t" "\<forall>ra \<in> set permRows. role_covers s2 i ra"
    using EnsureAdminRole_ok [of ?s1 roleID ids now t] assms(1,7-9) by auto
  let ?b = "admin_binding now bindingID t newID i" and ?s3 = "s2\<lparr> role_bindings := role_bindings s2 @ [admin_binding now bindingID t newID i] \<rparr>"
  have bind: "bind_role False ?b s2 = Inr ?s3"
    using assms(6) 2(3,4) by (auto simp: bind_role_def insert_binding_def admin_binding_def list_ex_iff)
  have "binding_ok s2 ?b" using 2(4) by (auto simp: binding_ok_def admin_binding_def)
  then have inv: "rbac_inv ?s3"
    using rbac_inv_keys [OF 2(2)] assms(6) 2(3) by (intro rbac_inv_mono [OF 2(2)]) (auto simp: admin_binding_def)
  have "CreateAdminUser now newID roleID ids bindingID u (s, []) = (Inr u', ?s3, [])"
    using assms(2-4) insert 2(1) bind unfolding CreateAdminUser_def Let_def u'_def by (simp add: exec_checked_fault_free)
  moreover have "allows ?s3 newID r a scope" if "(r, a) \<in> set permRows" for r a scope
  proof (rule bound_role_allows [OF inv])
    show "?b \<in> set (role_bindings ?s3)" by simp
    have "role_covers s2 i (r, a)" using 2(5) that by blast
    then show "role_covers ?s3 (rb_RoleID ?b) (r, a)" by (simp add: role_covers_def perm_keys_def admin_binding_def)
  qed (simp_all add: admin_binding_def)
  ultimately show ?thesis by (intro exI [of _ u'] exI [of _ ?s3]) (auto simp: u'_def)
qed

section \<open>Examples\<close>

definition ex_admin_user :: AdminUser where
  "ex_admin_user = \<lparr> au_ID = nil_uuid, au_Email = ''ann@acme.io'', au_Username = ''ann'', au_Password = [], au_PasswordHash = ''h'',
     au_Name = ''Ann'', au_ClientID = Some ''t'', au_TenantID = Some ''t'', au_ProjectID = None, au_TenantDomain = ''acme.io'',
     au_Provider = ''local'', au_ProviderID = [], au_ProviderData = [], au_AvatarURL = [], au_Active = True,
     au_MFAEnabled = False, au_MFAMethod = [], au_MFADefaultMethod = [], au_MFAEnrolledAt = None, au_MFAVerified = False,
     au_ExternalID = [], au_SyncSource = [], au_LastSyncAt = None, au_IsSyncedUser = False, au_LastLogin = None,
     au_TemporaryPassword = False, au_TemporaryPasswordExpiresAt = None, au_IsPrimaryAdmin = False, au_FailedLoginAttempts = 0,
     au_AccountLockedAt = None, au_PasswordResetRequired = False, au_CreatedAt = 0, au_UpdatedAt = 0 \<rparr>"

abbreviation ex_admin_db :: admin_db where
  "ex_admin_db \<equiv> \<lparr> roles = [], permissions = [], role_permissions = [], role_bindings = [], otp_entries = [],
     pending_registrations = [], tenant_domains = [], admin_users = [], main_tenants = [] \<rparr>"

theorem admin_seed_grants_witness:
  "\<exists>u' s'. CreateAdminUser 0 ''u'' ''r'' (\<lambda>n. replicate n CHR ''p'') ''b'' ex_admin_user (ex_admin_db, []) = (Inr u', s', []) \<and>
     au_ID u' = ''u'' \<and> allows s' ''u'' ''users'' ''create'' None"
proof -
  have "inj (\<lambda>n. replicate n CHR ''p'')" by (rule injI) (metis length_replicate)
  then have "\<exists>u' s'. CreateAdminUser 0 ''u'' ''r'' (\<lambda>n. replicate n CHR ''p'') ''b'' ex_admin_user (ex_admin_db, []) = (Inr u', s', []) \<and>
      au_ID u' = ''u'' \<and> (\<forall>(r, a) \<in> set permRows. \<forall>scope. allows s' ''u'' r a scope)"
    by (intro admin_seed_grants) (simp_all add: ex_admin_user_def rbac_inv_def)
  moreover have "(''users'', ''create'') \<in> set permRows" by (simp add: permRows_def crudm_def)
  ultimately show ?thesis by fastforce
qed

end
