(* ===== verification/Admin_Auth.thy ===== *)
theory Admin_Auth
  imports Admin_Seed Anti_Replay Token_Service
begin

text \<open>
  The public endpoints of \<^verbatim>\<open>controllers/admin/admin_auth_controller.go\<close>: login, the hybrid login that falls back to
  the tenant's database, registration and the three steps of a forgotten password.

  \<^item> \<open>is_email\<close> is the rule \<^verbatim>\<open>email\<close> of the validator; the rules \<^verbatim>\<open>required\<close>, \<^verbatim>\<open>min\<close> and \<^verbatim>\<open>len\<close> are written out. A body is the
    outcome of the JSON decoder.
  \<^item> \<open>origin\<close> and \<open>host\<close> are the \<^verbatim>\<open>Origin\<close> header and \<^verbatim>\<open>Request.Host\<close>.
  \<^item> \<open>R\<close> and \<open>st\<close> are the Redis client and its state; \<open>connect\<close> opens the database of a tenant.
  \<^item> Log lines, metrics, the audit logger and the delay of the forgotten-password answer are output only, and so is the
    mail: its failure does not change the answers.
\<close>

section \<open>Requests and answers\<close>

record AdminLoginInput =
  al_Email :: string
  al_Password :: string
  al_TenantDomain :: string
  al_Nonce :: string
  al_Timestamp :: int
  al_Challenge :: string
  al_Signature :: string

record VerifyOTPInput =
  vo_Email :: string
  vo_OTP :: string

record ResetPasswordInput =
  rp_Email :: string
  rp_NewPassword :: string

record RegisterInput =
  ri_Email :: string
  ri_Password :: string
  ri_Name :: string
  ri_TenantDomain :: string

record AdminLoginResponse =
  lr_TenantID :: "uuid option"
  lr_TenantDomain :: string
  lr_Email :: string
  lr_FirstLogin :: bool
  lr_OTPRequired :: bool
  lr_WebAuthnRequired :: bool
  lr_MFARequired :: bool
  lr_MFAMethod :: string
  lr_Methods :: "string list"
  lr_Token :: "string option"
  lr_PasswordChangeRequired :: bool

record HybridLoginResponse =
  hr_TenantID :: string
  hr_Email :: string
  hr_FirstLogin :: bool
  hr_Token :: string
  hr_Source :: string
  hr_UserType :: string
  hr_TenantDomain :: "string option"
  hr_PasswordChangeRequired :: bool

datatype admin_body =
    AError string
  | ALogin AdminLoginResponse
  | AHybrid HybridLoginResponse
  | AMessage string
  | ARegistered string string     \<comment> \<open>the address and the code, which the answer repeats\<close>

abbreviation admin_reply :: "nat \<Rightarrow> admin_body \<Rightarrow> admin_body http_reply" where
  "admin_reply code b \<equiv> \<lparr> http_status = code, http_body = b, http_audit = [] \<rparr>"

definition bind_login :: "(string \<Rightarrow> bool) \<Rightarrow> go_error + AdminLoginInput \<Rightarrow> go_error + AdminLoginInput" where
  "bind_login is_email body =
     (case body of
        Inl e \<Rightarrow> Inl e
      | Inr i \<Rightarrow> if al_Email i = [] \<or> \<not> is_email (al_Email i) \<or> length (al_Password i) < 10 then Inl (Errorf ''validation'') else Inr i)"

definition bind_forgot :: "(string \<Rightarrow> bool) \<Rightarrow> go_error + string \<Rightarrow> go_error + string" where
  "bind_forgot is_email body =
     (case body of Inl e \<Rightarrow> Inl e | Inr m \<Rightarrow> if m = [] \<or> \<not> is_email m then Inl (Errorf ''validation'') else Inr m)"

definition bind_otp :: "(string \<Rightarrow> bool) \<Rightarrow> go_error + VerifyOTPInput \<Rightarrow> go_error + VerifyOTPInput" where
  "bind_otp is_email body =
     (case body of
        Inl e \<Rightarrow> Inl e
      | Inr i \<Rightarrow> if vo_Email i = [] \<or> \<not> is_email (vo_Email i) \<or> length (vo_OTP i) \<noteq> 6 then Inl (Errorf ''validation'') else Inr i)"

definition bind_reset :: "(string \<Rightarrow> bool) \<Rightarrow> go_error + ResetPasswordInput \<Rightarrow> go_error + ResetPasswordInput" where
  "bind_reset is_email body =
     (case body of
        Inl e \<Rightarrow> Inl e
      | Inr i \<Rightarrow> if rp_Email i = [] \<or> \<not> is_email (rp_Email i) \<or> length (rp_NewPassword i) < 6 then Inl (Errorf ''validation'') else Inr i)"

definition bind_register :: "(string \<Rightarrow> bool) \<Rightarrow> go_error + RegisterInput \<Rightarrow> go_error + RegisterInput" where
  "bind_register is_email body =
     (case body of
        Inl e \<Rightarrow> Inl e
      | Inr i \<Rightarrow> if ri_Email i = [] \<or> \<not> is_email (ri_Email i) \<or> length (ri_Password i) < 10 \<or> ri_Name i = [] \<or> ri_TenantDomain i = []
                then Inl (Errorf ''validation'') else Inr i)"

section \<open>Login\<close>

definition generateAdminJWTToken ::
  "AuthManagerTokenService \<Rightarrow> signer \<Rightarrow> gotime \<Rightarrow> AdminUser \<Rightarrow> 'a admin_db_scheme conn
     \<Rightarrow> (go_error + string) \<times> 'a admin_db_scheme conn" where
  "generateAdminJWTToken tokens sign now u c =
     (let projectID = (case au_ProjectID u of Some p \<Rightarrow> p | None \<Rightarrow> nil_uuid);
          (rs, c1) = (case au_TenantID u of
                        Some t \<Rightarrow>
                          if t = nil_uuid then ([], c)
                          else (case GetAdminRoles (au_ID u) t c of (Inl _, c1) \<Rightarrow> ([], c1) | (Inr rs, c1) \<Rightarrow> (rs, c1))
                      | None \<Rightarrow> ([], c));
          rs' = (if rs = [] then [''admin''] else rs)
      in (case GenerateAdminToken tokens sign now (au_ID u) (au_Email u) projectID (au_TenantID u) (au_TenantDomain u) rs' of
            Inl e \<Rightarrow> Inl (Wrap ''failed to generate admin token: '' e) | Inr t \<Rightarrow> Inr t, c1))"

text \<open>The domain the request comes from.\<close>

definition current_domain :: "string \<Rightarrow> string \<Rightarrow> string" where
  "current_domain origin host =
     before_any '':'' (if origin \<noteq> [] then before_any ''/'' (TrimPrefix (TrimPrefix origin ''https://'') ''http://'') else host)"

definition isAPIBackendDomain :: "string \<Rightarrow> bool" where
  "isAPIBackendDomain d \<longleftrightarrow>
     Contains d ''.api.'' \<or> d = ''api.authsec.dev'' \<or> HasPrefix d ''dev'' \<and> Contains d ''.authsec.dev''"

text \<open>The domain to return: the primary one, or the verified custom one of the request.\<close>

definition domain_to_return ::
  "string \<Rightarrow> string \<Rightarrow> uuid \<Rightarrow> 'a domain_db_scheme conn \<Rightarrow> string \<times> 'a domain_db_scheme conn" where
  "domain_to_return current stored tenantID c =
     (case GetPrimaryDomainByTenantID tenantID c of
        (Inl _, c1) \<Rightarrow> (stored, c1)
      | (Inr p, c1) \<Rightarrow>
          if \<not> isAPIBackendDomain current \<and> current \<noteq> td_Domain p then
            (case GetDomainByHostname current c1 of
               (Inl _, c2) \<Rightarrow> (td_Domain p, c2)
             | (Inr d, c2) \<Rightarrow> (if td_TenantID d = tenantID \<and> td_IsVerified d then current else td_Domain p, c2))
          else (td_Domain p, c1))"

definition temporary_expired :: "gotime \<Rightarrow> AdminUser \<Rightarrow> bool" where
  "temporary_expired now u \<longleftrightarrow>
     au_TemporaryPassword u \<and> (case au_TemporaryPasswordExpiresAt u of None \<Rightarrow> False | Some t \<Rightarrow> now > t)"

text \<open>After the password has matched.\<close>

definition admin_login_success ::
  "AuthManagerTokenService \<Rightarrow> signer \<Rightarrow> gotime \<Rightarrow> string \<Rightarrow> string \<Rightarrow> AdminUser \<Rightarrow> 'a admin_db_scheme conn
     \<Rightarrow> admin_body http_reply \<times> 'a admin_db_scheme conn" where
  "admin_login_success tokens sign now origin host u c =
     (case UpdateLastLogin now (au_ID u) c of
        (_, c1) \<Rightarrow>
          if temporary_expired now u then
            (admin_reply 401 (AError ''Temporary password has expired. Please use forgot password to reset.''), c1)
          else
            let listed = au_MFAEnabled u \<and> au_MFAMethod u \<noteq> [];
                mfaMethod = (if listed then if au_MFADefaultMethod u \<noteq> [] then au_MFADefaultMethod u else hd (au_MFAMethod u) else []);
                (domain, c2) = (case au_TenantID u of
                                  None \<Rightarrow> (au_TenantDomain u, c1)
                                | Some t \<Rightarrow> domain_to_return (current_domain origin host) (au_TenantDomain u) t c1);
                response = \<lparr> lr_TenantID = au_TenantID u, lr_TenantDomain = domain, lr_Email = au_Email u,
                  lr_FirstLogin = (au_LastLogin u = None),
                  lr_OTPRequired = (listed \<and> (''otp'' \<in> set (au_MFAMethod u) \<or> ''totp'' \<in> set (au_MFAMethod u))),
                  lr_WebAuthnRequired = (listed \<and> ''webauthn'' \<in> set (au_MFAMethod u)),
                  lr_MFARequired = au_MFAEnabled u, lr_MFAMethod = mfaMethod,
                  lr_Methods = (if listed then au_MFAMethod u else []),
                  lr_Token = None, lr_PasswordChangeRequired = au_TemporaryPassword u \<rparr>
            in if au_MFAEnabled u then (admin_reply 200 (ALogin response), c2)
               else (case generateAdminJWTToken tokens sign now u c2 of
                       (Inl _, c3) \<Rightarrow> (admin_reply 500 (AError ''Failed to generate token''), c3)
                     | (Inr token, c3) \<Rightarrow> (admin_reply 200 (ALogin (response\<lparr> lr_Token := Some token \<rparr>)), c3)))"

text \<open>A wrong password is counted; the third one locks the account.\<close>

definition admin_login_wrong ::
  "gotime \<Rightarrow> AdminUser \<Rightarrow> 'a admin_db_scheme conn \<Rightarrow> admin_body http_reply \<times> 'a admin_db_scheme conn" where
  "admin_login_wrong now u c =
     (let n = au_FailedLoginAttempts u + 1
      in if n \<ge> 3 then
           (case UpdateAdminUser now (au_ID u) [SetFailedLoginAttempts n, SetAccountLockedAt (Some now), SetPasswordResetRequired True] c of
              (_, c1) \<Rightarrow> (admin_reply 401 (AError ''Account locked due to multiple failed login attempts''), c1))
         else
           (case UpdateAdminUser now (au_ID u) [SetFailedLoginAttempts n] c of
              (_, c1) \<Rightarrow> (admin_reply 401 (AError ''Invalid credentials''), c1)))"

text \<open>The lock: refuse within half an hour, else clear it and go on.\<close>

definition admin_unlock ::
  "gotime \<Rightarrow> AdminUser \<Rightarrow> 'a admin_db_scheme conn \<Rightarrow> AdminUser option \<times> 'a admin_db_scheme conn" where
  "admin_unlock now u c =
     (case au_AccountLockedAt u of
        None \<Rightarrow> (Some u, c)
      | Some t \<Rightarrow>
          if now - t < 30 * Minute then (None, c)
          else (case UpdateAdminUser now (au_ID u) [SetFailedLoginAttempts 0, SetAccountLockedAt None] c of
                  (_, c1) \<Rightarrow> (Some (u\<lparr> au_FailedLoginAttempts := 0, au_AccountLockedAt := None \<rparr>), c1)))"

definition admin_login_found ::
  "(string \<Rightarrow> string \<Rightarrow> bool) \<Rightarrow> AuthManagerTokenService \<Rightarrow> signer \<Rightarrow> gotime \<Rightarrow> string \<Rightarrow> string \<Rightarrow> AdminLoginInput
     \<Rightarrow> AdminUser \<Rightarrow> 'a admin_db_scheme conn \<Rightarrow> admin_body http_reply \<times> 'a admin_db_scheme conn" where
  "admin_login_found check tokens sign now origin host input u c =
     (if al_TenantDomain input \<noteq> [] \<and> au_TenantDomain u \<noteq> [] \<and> au_TenantDomain u \<noteq> al_TenantDomain input then
        (admin_reply 401 (AError ''Invalid credentials for this tenant''), c)
      else if \<not> au_Active u then (admin_reply 401 (AError ''Account is disabled''), c)
      else
        (case admin_unlock now u c of
           (None, c1) \<Rightarrow> (admin_reply 401 (AError ''Account is temporarily locked due to multiple failed login attempts''), c1)
         | (Some u1, c1) \<Rightarrow>
             if au_PasswordResetRequired u1 then (admin_reply 401 (AError ''Password reset required''), c1)
             else if \<not> admin_CheckPassword check u1 (al_Password input) then admin_login_wrong now u1 c1
             else
               (case (if au_FailedLoginAttempts u1 > 0
                      then UpdateAdminUser now (au_ID u1) [SetFailedLoginAttempts 0, SetAccountLockedAt None] c1 else (Inr (), c1)) of
                  (_, c2) \<Rightarrow> admin_login_success tokens sign now origin host u1 c2)))"

definition AdminLogin ::
  "(string \<Rightarrow> bool) \<Rightarrow> (string \<Rightarrow> string \<Rightarrow> bool) \<Rightarrow> AuthManagerTokenService \<Rightarrow> signer \<Rightarrow> 'st redis \<Rightarrow> gotime \<Rightarrow> string \<Rightarrow> string
     \<Rightarrow> go_error + AdminLoginInput \<Rightarrow> 'st \<Rightarrow> 'a admin_db_scheme conn \<Rightarrow> admin_body http_reply \<times> 'st \<times> 'a admin_db_scheme conn" where
  "AdminLogin is_email check tokens sign R now origin host body st c =
     (case bind_login is_email body of
        Inl _ \<Rightarrow> (admin_reply 400 (AError ''validation''), st, c)
      | Inr input \<Rightarrow>
          if al_Email input = [] \<or> al_Password input = [] then
            (admin_reply 400 (AError ''Email and password are required''), st, c)
          else
            (case (if al_Nonce input \<noteq> [] \<or> al_Timestamp input \<noteq> 0
                   then ValidateLoginRequest R now
                          \<lparr> sl_Email = al_Email input, sl_Password = al_Password input, sl_TenantDomain = al_TenantDomain input,
                            sl_Nonce = al_Nonce input, sl_Timestamp = al_Timestamp input, sl_Challenge = al_Challenge input,
                            sl_Signature = al_Signature input \<rparr> st
                   else (None, st)) of
               (Some _, st1) \<Rightarrow> (admin_reply 401 (AError ''Request validation failed''), st1, c)
             | (None, st1) \<Rightarrow>
                 (case (if al_TenantDomain input \<noteq> []
                        then GetAdminUserByEmailAndTenantDomain (al_Email input) (al_TenantDomain input) c
                        else GetAdminUserByEmail (al_Email input) c) of
                    (Inl _, c1) \<Rightarrow>
                      (admin_reply 401 (AError (if al_TenantDomain input \<noteq> [] then ''Invalid credentials for this tenant''
                                                else ''Invalid credentials'')), st1, c1)
                  | (Inr u, c1) \<Rightarrow>
                      (case admin_login_found check tokens sign now origin host input u c1 of (r, c2) \<Rightarrow> (r, st1, c2)))))"

section \<open>Hybrid login\<close>

definition hybrid_main ::
  "(string \<Rightarrow> string \<Rightarrow> bool) \<Rightarrow> AuthManagerTokenService \<Rightarrow> signer \<Rightarrow> gotime \<Rightarrow> AdminLoginInput \<Rightarrow> AdminUser
     \<Rightarrow> 'a admin_db_scheme conn \<Rightarrow> admin_body http_reply \<times> 'a admin_db_scheme conn" where
  "hybrid_main check tokens sign now input u c =
     (if \<not> au_Active u then (admin_reply 401 (AError ''Account is disabled''), c)
      else if \<not> admin_CheckPassword check u (al_Password input) then (admin_reply 401 (AError ''Invalid credentials''), c)
      else
        (case UpdateLastLogin now (au_ID u) c of
           (_, c1) \<Rightarrow>
             if temporary_expired now u then
               (admin_reply 401 (AError ''Temporary password has expired. Please use forgot password to reset.''), c1)
             else
               (case generateAdminJWTToken tokens sign now u c1 of
                  (Inl _, c2) \<Rightarrow> (admin_reply 500 (AError ''Failed to generate token''), c2)
                | (Inr token, c2) \<Rightarrow>
                    (admin_reply 200 (AHybrid \<lparr> hr_TenantID = ''admin'', hr_Email = au_Email u, hr_FirstLogin = (au_LastLogin u = None),
                       hr_Token = token, hr_Source = ''main_database'', hr_UserType = ''global_admin'', hr_TenantDomain = None,
                       hr_PasswordChangeRequired = au_TemporaryPassword u \<rparr>), c2))))"

definition hybrid_tenant ::
  "(string \<Rightarrow> string \<Rightarrow> bool) \<Rightarrow> AuthManagerTokenService \<Rightarrow> signer \<Rightarrow> (uuid \<Rightarrow> go_error + directory conn) \<Rightarrow> gotime \<Rightarrow> string \<Rightarrow> string
     \<Rightarrow> AdminLoginInput \<Rightarrow> 'a admin_db_scheme conn \<Rightarrow> admin_body http_reply \<times> 'a admin_db_scheme conn" where
  "hybrid_tenant check tokens sign connect now origin host input c =
     (case query_row (\<lambda>s. select_row (\<lambda>t. tn_TenantDomain t = al_TenantDomain input) (main_tenants s)) c of
        (Inl _, c1) \<Rightarrow> (admin_reply 401 (AError ''Invalid credentials''), c1)
      | (Inr tenant, c1) \<Rightarrow>
          (case connect (tn_ID tenant) of
             Inl _ \<Rightarrow> (admin_reply 500 (AError ''Failed to connect to tenant database''), c1)
           | Inr tc \<Rightarrow>
               (case fst (GetUserByEmail (al_Email input) tc) of
                  Inl _ \<Rightarrow> (admin_reply 401 (AError ''Invalid credentials''), c1)
                | Inr tu \<Rightarrow>
                    if \<not> us_Active tu then (admin_reply 401 (AError ''Account is disabled''), c1)
                    else if \<not> check (us_PasswordHash tu) (al_Password input) then
                      (admin_reply 401 (AError ''Invalid credentials''), c1)
                    else
                      (case GenerateTenantUserToken tokens sign now (us_ID tu) (tn_ID tenant) (us_ProjectID tu) (us_Email tu) (24 * Hour) of
                         Inl _ \<Rightarrow> (admin_reply 500 (AError ''Failed to generate token''), c1)
                       | Inr token \<Rightarrow>
                           (case domain_to_return (current_domain origin host) (al_TenantDomain input) (tn_ID tenant) c1 of
                              (domain, c2) \<Rightarrow>
                                (admin_reply 200 (AHybrid \<lparr> hr_TenantID = tn_ID tenant, hr_Email = us_Email tu,
                                   hr_FirstLogin = (us_LastLogin tu = None), hr_Token = token, hr_Source = ''tenant_database'',
                                   hr_UserType = ''tenant_user'', hr_TenantDomain = Some domain,
                                   hr_PasswordChangeRequired = False \<rparr>), c2))))))"

definition AdminLoginHybrid ::
  "(string \<Rightarrow> bool) \<Rightarrow> (string \<Rightarrow> string \<Rightarrow> bool) \<Rightarrow> AuthManagerTokenService \<Rightarrow> signer \<Rightarrow> (uuid \<Rightarrow> go_error + directory conn) \<Rightarrow> gotime
     \<Rightarrow> string \<Rightarrow> string \<Rightarrow> go_error + AdminLoginInput \<Rightarrow> 'a admin_db_scheme conn \<Rightarrow> admin_body http_reply \<times> 'a admin_db_scheme conn" where
  "AdminLoginHybrid is_email check tokens sign connect now origin host body c =
     (case bind_login is_email body of
        Inl _ \<Rightarrow> (admin_reply 400 (AError ''validation''), c)
      | Inr input \<Rightarrow>
          if al_Email input = [] \<or> al_Password input = [] then (admin_reply 400 (AError ''Email and password are required''), c)
          else
            (case GetAdminUserByEmail (al_Email input) c of
               (Inr u, c1) \<Rightarrow> hybrid_main check tokens sign now input u c1
             | (Inl _, c1) \<Rightarrow>
                 if al_TenantDomain input = [] then (admin_reply 401 (AError ''Invalid credentials''), c1)
                 else hybrid_tenant check tokens sign connect now origin host input c1))"

section \<open>Forgotten passwords\<close>

definition otp_row :: "string \<Rightarrow> string \<Rightarrow> gotime \<Rightarrow> bool \<Rightarrow> OTPEntry" where
  "otp_row email otp expires verified =
     \<lparr> ot_ID = nil_uuid, ot_Email = email, ot_OTP = otp, ot_ExpiresAt = expires, ot_Verified = verified,
       ot_CreatedAt = zero_time, ot_UpdatedAt = zero_time \<rparr>"

text \<open>\<^verbatim>\<open>errors.Is(err, sql.ErrNoRows)\<close> looks through wrapped errors.\<close>

fun is_no_rows :: "go_error \<Rightarrow> bool" where
  "is_no_rows NoRows = True"
| "is_no_rows (Wrap _ e) = is_no_rows e"
| "is_no_rows _ = False"

definition AdminForgotPassword ::
  "(string \<Rightarrow> bool) \<Rightarrow> gotime \<Rightarrow> (nat \<Rightarrow> nat option) \<Rightarrow> uuid \<Rightarrow> go_error + string \<Rightarrow> 'a admin_db_scheme conn
     \<Rightarrow> admin_body http_reply \<times> 'a admin_db_scheme conn" where
  "AdminForgotPassword is_email now draw otpID body c =
     (case bind_forgot is_email body of
        Inl _ \<Rightarrow> (admin_reply 400 (AError ''validation''), c)
      | Inr m \<Rightarrow>
          let email = ToLower (TrimSpace m)
          in (case GetAdminUserByEmail email c of
                (Inl e, c1) \<Rightarrow>
                  if is_no_rows e then (admin_reply 200 (AMessage ''If the email exists, a reset code has been sent''), c1)
                  else (admin_reply 500 (AError ''Internal server error''), c1)
              | (Inr u, c1) \<Rightarrow>
                  (case GenerateOTP draw of
                     Inl _ \<Rightarrow> (admin_reply 500 (AError ''Internal server error''), c1)
                   | Inr otp \<Rightarrow>
                       (case DeleteOTPsByEmail email c1 of
                          (Inl _, c2) \<Rightarrow> (admin_reply 500 (AError ''Internal server error''), c2)
                        | (Inr _, c2) \<Rightarrow>
                            (case CreateOTP now otpID (otp_row email otp (now + 30 * Minute) False) c2 of
                               (Inl _, c3) \<Rightarrow> (admin_reply 500 (AError ''Internal server error''), c3)
                             | (Inr _, c3) \<Rightarrow>
                                 (admin_reply 200 (AMessage ''If the email exists, a reset code has been sent''), c3))))))"

definition AdminVerifyOTP ::
  "(string \<Rightarrow> bool) \<Rightarrow> gotime \<Rightarrow> uuid \<Rightarrow> uuid \<Rightarrow> go_error + VerifyOTPInput \<Rightarrow> 'a otp_db_scheme conn
     \<Rightarrow> admin_body http_reply \<times> 'a otp_db_scheme conn" where
  "AdminVerifyOTP is_email now synthID otpID body c =
     (case bind_otp is_email body of
        Inl _ \<Rightarrow> (admin_reply 400 (AError ''validation''), c)
      | Inr input \<Rightarrow>
          let email = ToLower (vo_Email input); isHardcodedOTP = hardwired (vo_OTP input)
          in (case GetValidOTP now synthID email (vo_OTP input) c of
                (found, c1) \<Rightarrow>
                  if isHardcodedOTP then
                    (case DeleteOTPsByEmail email c1 of
                       (_, c2) \<Rightarrow>
                         (case CreateOTP now otpID (otp_row email (vo_OTP input) (now + 30 * Minute) True) c2 of
                            (_, c3) \<Rightarrow> (admin_reply 200 (AMessage ''OTP verified successfully''), c3)))
                  else
                    (case found of
                       Inl _ \<Rightarrow> (admin_reply 401 (AError ''Invalid or expired OTP''), c1)
                     | Inr e \<Rightarrow>
                         (case VerifyOTP now (ot_ID e) c1 of
                            (Inl _, c2) \<Rightarrow> (admin_reply 500 (AError ''Failed to verify OTP''), c2)
                          | (Inr _, c2) \<Rightarrow> (admin_reply 200 (AMessage ''OTP verified successfully''), c2)))))"

definition AdminResetPassword ::
  "(string \<Rightarrow> bool) \<Rightarrow> (string \<Rightarrow> go_error + string) \<Rightarrow> gotime \<Rightarrow> uuid \<Rightarrow> go_error + ResetPasswordInput \<Rightarrow> 'a admin_db_scheme conn
     \<Rightarrow> admin_body http_reply \<times> 'a admin_db_scheme conn" where
  "AdminResetPassword is_email gen now synthID body c =
     (case bind_reset is_email body of
        Inl _ \<Rightarrow> (admin_reply 400 (AError ''validation''), c)
      | Inr input \<Rightarrow>
          let email = ToLower (rp_Email input)
          in (case GetVerifiedOTP now synthID email c of
                (Inl _, c1) \<Rightarrow> (admin_reply 401 (AError ''No verified reset code found. Please request a new password reset''), c1)
              | (Inr _, c1) \<Rightarrow>
                  (case GetAdminUserByEmail email c1 of
                     (Inl _, c2) \<Rightarrow> (admin_reply 400 (AError ''Admin user not found''), c2)
                   | (Inr u, c2) \<Rightarrow>
                       (case admin_HashPassword gen (u\<lparr> au_Password := rp_NewPassword input \<rparr>) of
                          Inl _ \<Rightarrow> (admin_reply 500 (AError ''Failed to hash password''), c2)
                        | Inr u1 \<Rightarrow>
                            (case UpdateAdminUser now (au_ID u1) [SetPasswordHash (au_PasswordHash u1), SetTemporaryPassword False,
                                     SetTemporaryPasswordExpiresAt None, SetFailedLoginAttempts 0, SetAccountLockedAt None,
                                     SetPasswordResetRequired False] c2 of
                               (Inl _, c3) \<Rightarrow> (admin_reply 500 (AError ''Failed to update password''), c3)
                             | (Inr _, c3) \<Rightarrow>
                                 (case DeleteOTPsByEmail email c3 of
                                    (_, c4) \<Rightarrow> (admin_reply 200 (AMessage ''Password reset successfully''), c4)))))))"

section \<open>Registration\<close>

text \<open>
  \<open>active\<close> is the column \<^verbatim>\<open>tenants.active\<close>, \<open>None\<close> when the table does not have it (migration 016 drops it): then the count
  of active tenants fails. \<open>available\<close> says whether the multi-tenant plugin answers.
\<close>

definition count_active ::
  "(Tenant \<Rightarrow> bool) option \<Rightarrow> 'a admin_db_scheme conn \<Rightarrow> (go_error + int) \<times> 'a admin_db_scheme conn" where
  "count_active active c =
     (case active of
        None \<Rightarrow> query_row (\<lambda>_. Inl DBError) c
      | Some f \<Rightarrow> query (\<lambda>s. affected f (main_tenants s)) c)"

text \<open>A fresh code for an address with a staged registration.\<close>

definition register_again ::
  "gotime \<Rightarrow> (nat \<Rightarrow> nat option) \<Rightarrow> uuid \<Rightarrow> string \<Rightarrow> 'a admin_db_scheme conn \<Rightarrow> admin_body http_reply \<times> 'a admin_db_scheme conn" where
  "register_again now draw otpID email c =
     (case GenerateOTP draw of
        Inl _ \<Rightarrow> (admin_reply 500 (AError ''Failed to generate OTP''), c)
      | Inr otp \<Rightarrow>
          (case DeleteOTPsByEmail email c of
             (_, c1) \<Rightarrow>
               (case CreateOTP now otpID (otp_row email otp (now + 30 * Minute) False) c1 of
                  (Inl _, c2) \<Rightarrow> (admin_reply 500 (AError ''Failed to create OTP''), c2)
                | (Inr _, c2) \<Rightarrow> (admin_reply 200 (ARegistered email otp), c2))))"

text \<open>A first registration: the staged row, the code, and the two fixed codes.\<close>

definition register_first ::
  "(string \<Rightarrow> go_error + string) \<Rightarrow> gotime \<Rightarrow> (nat \<Rightarrow> nat option) \<Rightarrow> uuid \<Rightarrow> uuid \<Rightarrow> uuid \<times> uuid \<times> uuid \<Rightarrow> RegisterInput \<Rightarrow> string
     \<Rightarrow> 'a admin_db_scheme conn \<Rightarrow> admin_body http_reply \<times> 'a admin_db_scheme conn" where
  "register_first gen now draw adminUUID pendingID otpIDs input tenantDomain c =
     (case gen (ri_Password input) of
        Inl _ \<Rightarrow> (admin_reply 500 (AError ''Failed to hash password''), c)
      | Inr hash \<Rightarrow>
          (case CreatePendingRegistration now pendingID
                  \<lparr> pr_ID = nil_uuid, pr_Email = ri_Email input, pr_PasswordHash = hash, pr_FirstName = [], pr_LastName = [],
                    pr_TenantID = adminUUID, pr_ProjectID = nil_uuid, pr_ClientID = adminUUID, pr_ExpiresAt = now + 24 * Hour,
                    pr_CreatedAt = zero_time, pr_UpdatedAt = zero_time, pr_TenantDomain = tenantDomain \<rparr> c of
             (Inl _, c1) \<Rightarrow> (admin_reply 500 (AError ''Failed to create pending registration''), c1)
           | (Inr _, c1) \<Rightarrow>
               (case GenerateOTP draw of
                  Inl _ \<Rightarrow> (admin_reply 500 (AError ''Failed to generate OTP''), c1)
                | Inr otp \<Rightarrow>
                    (case CreateOTP now (fst otpIDs) (otp_row (ri_Email input) otp (now + 30 * Minute) False) c1 of
                       (Inl _, c2) \<Rightarrow> (admin_reply 500 (AError ''Failed to create OTP''), c2)
                     | (Inr _, c2) \<Rightarrow>
                         (case CreateOTP now (fst (snd otpIDs)) (otp_row (ri_Email input) ''1111111'' (now + 24 * Hour) False) c2 of
                            (_, c3) \<Rightarrow>
                              (case CreateOTP now (snd (snd otpIDs)) (otp_row (ri_Email input) ''111111'' (now + 24 * Hour) False) c3 of
                                 (_, c4) \<Rightarrow> (admin_reply 201 (ARegistered (ri_Email input) otp), c4)))))))"

definition AdminRegister ::
  "(string \<Rightarrow> bool) \<Rightarrow> (string \<Rightarrow> go_error + string) \<Rightarrow> (Tenant \<Rightarrow> bool) option \<Rightarrow> bool \<Rightarrow> string \<Rightarrow> gotime \<Rightarrow> (nat \<Rightarrow> nat option)
     \<Rightarrow> uuid \<Rightarrow> uuid \<Rightarrow> uuid \<times> uuid \<times> uuid \<Rightarrow> go_error + RegisterInput \<Rightarrow> 'a admin_db_scheme conn
     \<Rightarrow> admin_body http_reply \<times> 'a admin_db_scheme conn" where
  "AdminRegister is_email gen active available domainSuffix now draw adminUUID pendingID otpIDs body c =
     (case bind_register is_email body of
        Inl _ \<Rightarrow> (admin_reply 400 (AError ''validation''), c)
      | Inr input \<Rightarrow>
          (case GetAdminUserByEmail (ri_Email input) c of
             (Inr _, c1) \<Rightarrow> (admin_reply 409 (AError ''Admin user already exists''), c1)
           | (Inl _, c1) \<Rightarrow>
               let tenantDomain = ToLower (ri_TenantDomain input) @ ''.'' @ domainSuffix
               in (case query (\<lambda>s. affected (\<lambda>t. tn_TenantDomain t = tenantDomain) (main_tenants s)) c1 of
                     (Inl _, c2) \<Rightarrow> (admin_reply 500 (AError ''Failed to check tenant domain''), c2)
                   | (Inr n, c2) \<Rightarrow>
                       if n > 0 then (admin_reply 409 (AError ''Tenant domain already exists''), c2)
                       else
                         (case (if available then (Inr 0, c2) else count_active active c2) of
                            (guard, c3) \<Rightarrow>
                              if (case guard of Inr k \<Rightarrow> k > 0 | Inl _ \<Rightarrow> False) then
                                (admin_reply 409 (AError ''Single-tenant mode: only one admin is allowed.''), c3)
                              else
                                (case GetPendingRegistration now (ri_Email input) c3 of
                                   (Inr (Some _), c4) \<Rightarrow> register_again now draw (fst otpIDs) (ri_Email input) c4
                                 | (_, c4) \<Rightarrow> register_first gen now draw adminUUID pendingID otpIDs input tenantDomain c4)))))"

end
