(* ===== verification/Admin_Security.thy ===== *)
theory Admin_Security
  imports Admin_Auth Domain_Ownership
begin

text \<open>
  What the endpoints of \<open>Admin_Auth\<close> guarantee, and where they do not: who gets a token, what a login writes, when the
  lock of an account closes, what stands behind a password reset, and what the hybrid login leaves out.
\<close>

section \<open>What the lookups find\<close>

lemma scanned_simps [simp]:
  "au_ID (scanned u) = au_ID u" "au_Email (scanned u) = au_Email u" "au_PasswordHash (scanned u) = au_PasswordHash u"
  "au_TenantID (scanned u) = au_TenantID u" "au_ProjectID (scanned u) = au_ProjectID u" "au_TenantDomain (scanned u) = au_TenantDomain u"
  "au_Active (scanned u) = au_Active u" "au_MFAEnabled (scanned u) = au_MFAEnabled u" "au_MFAMethod (scanned u) = au_MFAMethod u"
  "au_TemporaryPassword (scanned u) = au_TemporaryPassword u"
  "au_TemporaryPasswordExpiresAt (scanned u) = au_TemporaryPasswordExpiresAt u" "au_LastLogin (scanned u) = au_LastLogin u"
  "au_FailedLoginAttempts (scanned u) = 0" "au_AccountLockedAt (scanned u) = None" "\<not> au_PasswordResetRequired (scanned u)"
  by (simp_all add: scanned_def)

lemma temporary_expired_scanned [simp]: "temporary_expired now (scanned u) = temporary_expired now u"
  by (simp add: temporary_expired_def)

lemma scanAdminUserFromQuery_Inr:
  assumes "scanAdminUserFromQuery P c = (Inr u, c')"
  shows "fst c' = fst c \<and> (\<exists>row \<in> set (admin_users (fst c)). u = scanned row \<and> P (fst c) row)"
proof -
  obtain q c1 where q: "query_row (\<lambda>s. select_row (P s) (admin_users s)) c = (q, c1)" by (rule prod.exhaust)
  with assms obtain row where row: "q = Inr row" "u = scanned row" "c1 = c'"
    by (auto simp: scanAdminUserFromQuery_def split: sum.splits go_error.splits)
  obtain x c2 where x: "query (\<lambda>s. select_row (P s) (admin_users s)) c = (x, c2)" by (rule prod.exhaust)
  with q row have "x = Inr (Inr row)" by (cases x) (auto simp: query_row_def)
  with x have "select_row (P (fst c)) (admin_users (fst c)) = Inr row" by (cases c rule: conn_cases) (auto simp: query_def)
  with select_row_sound [OF this] row q query_row_tablesD [of _ c q "fst c1" "snd c1"] show ?thesis by auto
qed

lemma scanAdminUserFromQuery_tables [simp]: "tables (scanAdminUserFromQuery P c) = fst c"
  unfolding scanAdminUserFromQuery_def by (auto split: prod.splits sum.splits go_error.splits dest: query_row_tablesD)

lemma scanAdminUserFromQuery_Inl: "scanAdminUserFromQuery P c = (Inl e, c') \<Longrightarrow> fst c' = fst c"
  using scanAdminUserFromQuery_tables [of P c] by simp

lemma GetAdminUserByEmail_scan:
  "GetAdminUserByEmail m c = (Inr u, c') \<Longrightarrow>
     scanAdminUserFromQuery (\<lambda>s u. ToLower (au_Email u) = ToLower m \<and> au_Active u \<and> is_admin s u) c = (Inr u, c')"
  unfolding GetAdminUserByEmail_def scanAdminUserFromQuery_def by (auto split: prod.splits sum.splits go_error.splits)

lemma GetAdminUserByEmail_Inr:
  assumes "GetAdminUserByEmail m c = (Inr u, c')"
  shows "fst c' = fst c \<and> (\<exists>row \<in> set (admin_users (fst c)). u = scanned row \<and> ToLower (au_Email row) = ToLower m \<and> au_Active row \<and>
           is_admin (fst c) row)"
  using scanAdminUserFromQuery_Inr [OF GetAdminUserByEmail_scan [OF assms]] by simp

lemma GetAdminUserByEmailAndTenantDomain_Inr:
  assumes "GetAdminUserByEmailAndTenantDomain m d c = (Inr u, c')"
  shows "fst c' = fst c \<and> (\<exists>row \<in> set (admin_users (fst c)). u = scanned row \<and> ToLower (au_Email row) = ToLower m \<and> au_Active row)"
proof -
  let ?P = "\<lambda>s u. ToLower (au_Email u) = ToLower m \<and> ToLower (au_TenantDomain u) = ToLower d \<and> au_Active u \<and> is_admin s u"
  let ?Q = "\<lambda>s u. ToLower (au_Email u) = ToLower m \<and> ToLower (au_TenantDomain u) = ToLower d \<and> au_Active u"
  obtain q c1 where q: "scanAdminUserFromQuery ?P c = (q, c1)" by (rule prod.exhaust)
  show ?thesis
  proof (cases q)
    case (Inr x)
    with q assms have "x = u" "c1 = c'" by (simp_all add: GetAdminUserByEmailAndTenantDomain_def)
    with scanAdminUserFromQuery_Inr [OF q [unfolded Inr]] show ?thesis by auto
  next
    case (Inl e)
    with q assms have "scanAdminUserFromQuery ?Q c1 = (Inr u, c')"
      by (cases e) (simp_all add: GetAdminUserByEmailAndTenantDomain_def)
    from scanAdminUserFromQuery_Inr [OF this] scanAdminUserFromQuery_Inl [OF q [unfolded Inl]] show ?thesis by auto
  qed
qed

text \<open>A user that was looked up is never locked, so the login goes straight to the password.\<close>

lemma admin_login_found_scanned:
  "admin_login_found check tokens sign now origin host input (scanned u) c =
     (if al_TenantDomain input \<noteq> [] \<and> au_TenantDomain u \<noteq> [] \<and> au_TenantDomain u \<noteq> al_TenantDomain input then
        (admin_reply 401 (AError ''Invalid credentials for this tenant''), c)
      else if \<not> au_Active u then (admin_reply 401 (AError ''Account is disabled''), c)
      else if \<not> check (au_PasswordHash u) (al_Password input) then
        (case UpdateAdminUser now (au_ID u) [SetFailedLoginAttempts 1] c of
           (_, c1) \<Rightarrow> (admin_reply 401 (AError ''Invalid credentials''), c1))
      else admin_login_success tokens sign now origin host (scanned u) c)"
  unfolding admin_login_found_def admin_unlock_def admin_login_wrong_def admin_CheckPassword_def by simp

section \<open>The token of an administrator\<close>

text \<open>The claims of an administrator's token, and the roles that go into them.\<close>

definition admin_claims :: "gotime \<Rightarrow> AdminUser \<Rightarrow> string list \<Rightarrow> MapClaims" where
  "admin_claims now u rs =
     jwtClaims now (empty_claims\<lparr>
       tc_TenantID := (case au_TenantID u of Some t \<Rightarrow> if t \<noteq> nil_uuid then t else ''admin'' | None \<Rightarrow> ''admin''),
       tc_TenantDomain := au_TenantDomain u, tc_ProjectID := (case au_ProjectID u of Some p \<Rightarrow> p | None \<Rightarrow> nil_uuid),
       tc_ClientID := au_ID u, tc_EmailID := au_Email u, tc_UserID := Some (au_ID u), tc_Roles := rs, tc_ExpiresIn := 24 * Hour \<rparr>) ''default''"

definition token_roles :: "AdminUser \<Rightarrow> 'a admin_db_scheme conn \<Rightarrow> string list" where
  "token_roles u c =
     (let rs = (case au_TenantID u of
                  Some t \<Rightarrow> if t = nil_uuid then [] else (case fst (GetAdminRoles (au_ID u) t c) of Inl _ \<Rightarrow> [] | Inr rs \<Rightarrow> rs)
                | None \<Rightarrow> [])
      in if rs = [] then [''admin''] else rs)"

lemma admin_claims_simps: "admin_claims now u rs ''sub'' = Some (GStr (au_ID u))"
  "rs \<noteq> [] \<Longrightarrow> admin_claims now u rs ''roles'' = Some (GStrs rs)"
  by (simp_all add: admin_claims_def jwtClaims_def Let_def)

lemma generateAdminJWTToken_signs:
  "fst (generateAdminJWTToken tokens sign now u c) =
     (case sign ''default'' (admin_claims now u (token_roles u c)) (jwtDefaultSecret tokens) of
        Inl e \<Rightarrow> Inl (Wrap ''failed to generate admin token: '' (Wrap ''failed to sign token: '' e)) | Inr t \<Rightarrow> Inr t)"
proof -
  define x where "x = (case au_TenantID u of
                        Some t \<Rightarrow>
                          if t = nil_uuid then ([], c)
                          else (case GetAdminRoles (au_ID u) t c of (Inl _, c1) \<Rightarrow> ([], c1) | (Inr rs, c1) \<Rightarrow> (rs, c1))
                      | None \<Rightarrow> ([], c))"
  have "token_roles u c = (if fst x = [] then [''admin''] else fst x)"
    unfolding token_roles_def x_def by (auto split: option.splits prod.splits sum.splits)
  then show ?thesis
    unfolding generateAdminJWTToken_def x_def [symmetric] GenerateAdminToken_def GenerateToken_def generateTokenWithType_def admin_claims_def
    by (simp add: case_prod_beta Let_def split: sum.split)
qed

lemma generateAdminJWTToken_Inr:
  assumes "generateAdminJWTToken tokens sign now u c = (Inr tok, c')"
  shows "\<exists>claims. sign ''default'' claims (jwtDefaultSecret tokens) = Inr tok \<and> claims ''sub'' = Some (GStr (au_ID u))"
proof (intro exI conjI)
  show "sign ''default'' (admin_claims now u (token_roles u c)) (jwtDefaultSecret tokens) = Inr tok"
    using generateAdminJWTToken_signs [of tokens sign now u c] assms by (simp split: sum.splits)
qed (rule admin_claims_simps)

section \<open>What a login writes\<close>

text \<open>The columns of the lock, the last login and the time of the change, blanked out.\<close>

definition core_user :: "AdminUser \<Rightarrow> AdminUser" where
  "core_user u = u\<lparr> au_FailedLoginAttempts := 0, au_AccountLockedAt := None, au_PasswordResetRequired := False,
     au_LastLogin := None, au_UpdatedAt := 0 \<rparr>"

definition core :: "'a admin_db_scheme \<Rightarrow> 'a admin_db_scheme" where
  "core s = s\<lparr> admin_users := map core_user (admin_users s) \<rparr>"

fun lock_column :: "admin_column \<Rightarrow> bool" where
  "lock_column (SetFailedLoginAttempts _) = True"
| "lock_column (SetAccountLockedAt _) = True"
| "lock_column (SetPasswordResetRequired _) = True"
| "lock_column _ = False"

lemma core_update_admin: "(\<And>u. core_user (f u) = core_user u) \<Longrightarrow> core (update_admin i f s) = core s"
  by (simp add: core_def update_admin_def update_where_def)

lemma core_set_columns: "list_all lock_column cols \<Longrightarrow> core_user (fold set_column cols u) = core_user u"
proof (induction cols arbitrary: u)
  case (Cons x cols)
  then have "core_user (set_column x u) = core_user u" by (cases x) (simp_all add: core_user_def)
  with Cons show ?case by simp
qed simp

lemma core_UpdateAdminUser [simp]:
  assumes "list_all lock_column cols"
  shows "core (tables (UpdateAdminUser now i cols c)) = core (fst c)"
proof -
  have "core_user ((fold set_column cols u)\<lparr> au_UpdatedAt := now \<rparr>) = core_user u" for u
    using core_set_columns [OF assms, of u] by (simp add: core_user_def)
  then show ?thesis
    unfolding UpdateAdminUser_def
    by (auto intro!: exec_keeps [where P = "\<lambda>s. core s = core (fst c)"] simp: core_update_admin)
qed

lemma core_UpdateLastLogin [simp]: "core (tables (UpdateLastLogin now i c)) = core (fst c)"
  unfolding UpdateLastLogin_def wrap_err_snd
  by (rule exec_keeps [where P = "\<lambda>s. core s = core (fst c)"]) (simp_all add: core_update_admin core_user_def)

lemma GetAdminUserByEmail_tables [simp]: "tables (GetAdminUserByEmail m c) = fst c"
  unfolding GetAdminUserByEmail_def by (auto split: prod.splits sum.splits go_error.splits dest: query_row_tablesD)

lemma GetAdminUserByEmailAndTenantDomain_tables [simp]: "tables (GetAdminUserByEmailAndTenantDomain m d c) = fst c"
proof -
  obtain q c1 where q: "scanAdminUserFromQuery (\<lambda>s u. ToLower (au_Email u) = ToLower m \<and>
             ToLower (au_TenantDomain u) = ToLower d \<and> au_Active u \<and> is_admin s u) c = (q, c1)" by (rule prod.exhaust)
  have "fst c1 = fst c" using tables_of [OF q] by simp
  with q show ?thesis by (auto simp: GetAdminUserByEmailAndTenantDomain_def split: sum.splits go_error.splits)
qed

lemma domain_to_return_tables [simp]: "tables (domain_to_return cur stored t c) = fst c"
proof -
  obtain q c1 where q: "GetPrimaryDomainByTenantID t c = (q, c1)" by (rule prod.exhaust)
  have 1: "fst c1 = fst c" using tables_of [OF q] by (simp add: GetPrimaryDomainByTenantID_def)
  obtain d c2 where d: "GetDomainByHostname cur c1 = (d, c2)" by (rule prod.exhaust)
  have 2: "fst c2 = fst c" using tables_of [OF d] 1 by (simp add: GetDomainByHostname_def)
  from 1 2 q d show ?thesis by (cases q; cases d) (simp_all add: domain_to_return_def)
qed

lemma generateAdminJWTToken_tables [simp]: "tables (generateAdminJWTToken tokens sign now u c) = fst c"
proof -
  have "tables (GetAdminRoles i t c) = fst c" for i t by (simp add: GetAdminRoles_def)
  then have "fst c1 = fst c" if "GetAdminRoles i t c = (q, c1)" for i t q c1 using tables_of [OF that] by simp
  then show ?thesis unfolding generateAdminJWTToken_def Let_def by (auto split: option.splits sum.splits prod.splits if_splits)
qed

lemma admin_login_success_token:
  fixes c :: "'a admin_db_scheme conn"
  assumes "admin_login_success tokens sign now origin host u c = (r, c')" and "http_body r = ALogin resp" and "lr_Token resp = Some tok"
  shows "\<not> au_MFAEnabled u \<and> \<not> temporary_expired now u \<and> 
           (\<exists>c1 c2 :: 'a admin_db_scheme conn. core (fst c1) = core (fst c) \<and> generateAdminJWTToken tokens sign now u c1 = (Inr tok, c2))"
proof -
  have e: "\<not> temporary_expired now u" using assms by (auto simp: admin_login_success_def split: prod.splits if_splits)
  have m: "\<not> au_MFAEnabled u"
  proof
    assume "au_MFAEnabled u"
    with assms e show False by (auto simp: admin_login_success_def Let_def split: prod.splits if_splits)
  qed
  obtain x c1 where x: "UpdateLastLogin now (au_ID u) c = (x, c1)" by (rule prod.exhaust)
  obtain d c2 where d: "(case au_TenantID u of None \<Rightarrow> (au_TenantDomain u, c1)
      | Some t \<Rightarrow> domain_to_return (current_domain origin host) (au_TenantDomain u) t c1) = (d, c2)" by (rule prod.exhaust)
  obtain y c3 where y: "generateAdminJWTToken tokens sign now u c2 = (y, c3)" by (rule prod.exhaust)
  have "y = Inr tok"
    using assms e m unfolding admin_login_success_def x prod.case d Let_def y by (cases y) (auto split: if_splits)
  with y have "generateAdminJWTToken tokens sign now u c2 = (Inr tok, c3)" by simp
  moreover have "core (fst c2) = core (fst c)" using tables_of [OF x] tables_of [OF d] by (cases "au_TenantID u") simp_all
  ultimately show ?thesis using e m by blast
qed

lemma admin_login_success_core [simp]:
  "core (tables (admin_login_success tokens sign now origin host u c)) = core (fst c)"
proof -
  obtain x c1 where x: "UpdateLastLogin now (au_ID u) c = (x, c1)" by (rule prod.exhaust)
  have 1: "core (fst c1) = core (fst c)" using tables_of [OF x] by simp
  obtain d c2 where d: "(case au_TenantID u of None \<Rightarrow> (au_TenantDomain u, c1)
      | Some t \<Rightarrow> domain_to_return (current_domain origin host) (au_TenantDomain u) t c1) = (d, c2)" by (rule prod.exhaust)
  have 2: "fst c2 = fst c1" using tables_of [OF d] by (cases "au_TenantID u") simp_all
  obtain y c3 where y: "generateAdminJWTToken tokens sign now u c2 = (y, c3)" by (rule prod.exhaust)
  have 3: "fst c3 = fst c2" using tables_of [OF y] by simp
  show ?thesis using 1 2 3 unfolding admin_login_success_def x prod.case d Let_def y by (cases y) auto
qed

lemma admin_login_found_core [simp]:
  "core (tables (admin_login_found check tokens sign now origin host input (scanned u) c)) = core (fst c)"
proof -
  have "core (fst c1) = core (fst c)" if "UpdateAdminUser now i [SetFailedLoginAttempts 1] c = (x, c1)" for x c1 i
    using tables_of [OF that] by simp
  then show ?thesis unfolding admin_login_found_scanned by (simp split: prod.split)
qed

lemma AdminLogin_core:
  "core (fst (snd (snd (AdminLogin is_email check tokens sign R now origin host body st c)))) = core (fst c)"
proof (cases "bind_login is_email body")
  case (Inl e)
  then show ?thesis by (simp add: AdminLogin_def)
next
  case (Inr input)
  obtain v st1 where v: "(if al_Nonce input \<noteq> [] \<or> al_Timestamp input \<noteq> 0
                   then ValidateLoginRequest R now
                          \<lparr> sl_Email = al_Email input, sl_Password = al_Password input, sl_TenantDomain = al_TenantDomain input,
                            sl_Nonce = al_Nonce input, sl_Timestamp = al_Timestamp input, sl_Challenge = al_Challenge input,
                            sl_Signature = al_Signature input \<rparr> st
                   else (None, st)) = (v, st1)" by (rule prod.exhaust)
  obtain q c1 where q: "(if al_TenantDomain input \<noteq> [] then GetAdminUserByEmailAndTenantDomain (al_Email input) (al_TenantDomain input) c
      else GetAdminUserByEmail (al_Email input) c) = (q, c1)" by (rule prod.exhaust)
  have 1: "fst c1 = fst c" using tables_of [OF q] by (simp split: if_splits)
  have "\<exists>row. u = scanned row" if "q = Inr u" for u
    using that q GetAdminUserByEmailAndTenantDomain_Inr [of "al_Email input" "al_TenantDomain input" c u c1]
      GetAdminUserByEmail_Inr [of "al_Email input" c u c1] by (auto split: if_splits)
  then have 2: "core (tables (admin_login_found check tokens sign now origin host input u c1)) = core (fst c1)" if "q = Inr u" for u
    using that by auto
  show ?thesis unfolding AdminLogin_def Inr sum.case v q
    using 1 2 by (cases v; cases q) (auto simp: case_prod_beta)
qed

section \<open>Who gets a token\<close>

text \<open>An answer with a login body comes from a user that was looked up.\<close>

lemma AdminLogin_found:
  fixes c :: "'a admin_db_scheme conn"
  assumes "AdminLogin is_email check tokens sign R now origin host (Inr input) st c = (r, st', c')" and "http_body r = ALogin resp"
  shows "\<exists>row. \<exists>c1 :: 'a admin_db_scheme conn. row \<in> set (admin_users (fst c)) \<and> ToLower (au_Email row) = ToLower (al_Email input) \<and> au_Active row \<and>
           admin_login_found check tokens sign now origin host input (scanned row) c1 = (r, c')"
proof -
  obtain q c1 where q: "(if al_TenantDomain input \<noteq> [] then GetAdminUserByEmailAndTenantDomain (al_Email input) (al_TenantDomain input) c
      else GetAdminUserByEmail (al_Email input) c) = (q, c1)" by (rule prod.exhaust)
  obtain v st1 where v: "(if al_Nonce input \<noteq> [] \<or> al_Timestamp input \<noteq> 0
                   then ValidateLoginRequest R now
                          \<lparr> sl_Email = al_Email input, sl_Password = al_Password input, sl_TenantDomain = al_TenantDomain input,
                            sl_Nonce = al_Nonce input, sl_Timestamp = al_Timestamp input, sl_Challenge = al_Challenge input,
                            sl_Signature = al_Signature input \<rparr> st
                   else (None, st)) = (v, st1)" by (rule prod.exhaust)
  have b: "bind_login is_email (Inr input) = Inr input" "al_Email input \<noteq> []" "al_Password input \<noteq> []"
    using assms by (auto simp: AdminLogin_def bind_login_def split: if_splits)
  have run: "(case v of Some _ \<Rightarrow> (admin_reply 401 (AError ''Request validation failed''), st1, c)
      | None \<Rightarrow>
          (case q of
             Inl _ \<Rightarrow> (admin_reply 401 (AError (if al_TenantDomain input \<noteq> [] then ''Invalid credentials for this tenant''
                                                else ''Invalid credentials'')), st1, c1)
           | Inr u \<Rightarrow> (case admin_login_found check tokens sign now origin host input u c1 of (r, c2) \<Rightarrow> (r, st1, c2)))) = (r, st', c')"
    using assms(1) b(2,3) unfolding AdminLogin_def b(1) sum.case v q by (cases v; cases q) auto
  then have "v = None" using assms(2) by (cases v) auto
  show ?thesis
  proof (cases q)
    case (Inl e)
    with run assms(2) \<open>v = None\<close> show ?thesis by auto
  next
    case (Inr u)
    with run \<open>v = None\<close> have f: "admin_login_found check tokens sign now origin host input u c1 = (r, c')"
      by (simp split: prod.splits)
    from q Inr have "\<exists>row \<in> set (admin_users (fst c)). u = scanned row \<and> ToLower (au_Email row) = ToLower (al_Email input) \<and> au_Active row"
      using GetAdminUserByEmailAndTenantDomain_Inr [of "al_Email input" "al_TenantDomain input" c u c1]
        GetAdminUserByEmail_Inr [of "al_Email input" c u c1]
      by (auto split: if_splits)
    with f show ?thesis by blast
  qed
qed

text \<open>
  C12. An administrator's token is earned: whatever the database does, the login answers with a token only if the table
  holds an active user with that address, the password matches the stored hash, no second factor is required and no temporary
  password has expired, and the token is signed for that user.
\<close>

theorem admin_login_token_sound:
  fixes c :: "'a admin_db_scheme conn"
  assumes "AdminLogin is_email check tokens sign R now origin host (Inr input) st c = (r, st', c')" and "http_body r = ALogin resp"
    and "lr_Token resp = Some tok"
  shows "\<exists>u \<in> set (admin_users (fst c)). ToLower (au_Email u) = ToLower (al_Email input) \<and> au_Active u \<and>
           check (au_PasswordHash u) (al_Password input) \<and> \<not> au_MFAEnabled u \<and> \<not> temporary_expired now u \<and>
           (\<exists>claims. sign ''default'' claims (jwtDefaultSecret tokens) = Inr tok \<and> claims ''sub'' = Some (GStr (au_ID u)))"
proof -
  from AdminLogin_found [OF assms(1,2)] obtain row c1 where
    row: "row \<in> set (admin_users (fst c))" "ToLower (au_Email row) = ToLower (al_Email input)" "au_Active row" and
    f: "admin_login_found check tokens sign now origin host input (scanned row) c1 = (r, c')" by blast
  from f assms(2) have ok: "check (au_PasswordHash row) (al_Password input)" and
    s: "admin_login_success tokens sign now origin host (scanned row) c1 = (r, c')"
    unfolding admin_login_found_scanned by (auto split: if_splits prod.splits)
  from admin_login_success_token [OF s assms(2,3)] obtain c3 c4 :: "'a admin_db_scheme conn" where
    tok: "\<not> au_MFAEnabled row" "\<not> temporary_expired now row" "generateAdminJWTToken tokens sign now (scanned row) c3 = (Inr tok, c4)" by auto
  from generateAdminJWTToken_Inr [OF tok(3)] row ok tok(1,2) show ?thesis by (intro bexI [of _ row]) auto
qed

section \<open>Logins that succeed\<close>

definition admin_row :: "string \<Rightarrow> 'a admin_db_scheme \<Rightarrow> AdminUser \<Rightarrow> bool" where
  "admin_row m s u \<longleftrightarrow> ToLower (au_Email u) = ToLower m \<and> au_Active u \<and> is_admin s u"

lemma GetAdminUserByEmail_found:
  "List.find (admin_row m s) (admin_users s) = Some u \<Longrightarrow> GetAdminUserByEmail m (s, []) = (Inr (scanned u), s, [])"
  by (simp add: GetAdminUserByEmail_def admin_row_def [abs_def] sql_simps select_row_def)

lemma core_user_simps [simp]:
  "au_ID (core_user u) = au_ID u" "au_Email (core_user u) = au_Email u" "au_PasswordHash (core_user u) = au_PasswordHash u"
  "au_Active (core_user u) = au_Active u" "temporary_expired now (core_user u) = temporary_expired now u"
  by (simp_all add: core_user_def temporary_expired_def)

lemma admin_row_core: "admin_row m (core s) (core_user u) = admin_row m s u"
  by (simp add: admin_row_def is_admin_def holds_role_def core_def)

lemma find_core: "List.find (admin_row m (core s)) (admin_users (core s)) = map_option core_user (List.find (admin_row m s) (admin_users s))"
  using admin_row_core [of m s] by (simp add: core_def find_map)

lemma find_same_core:
  assumes "core s' = core s" and "List.find (admin_row m s) (admin_users s) = Some u"
  shows "\<exists>u'. List.find (admin_row m s') (admin_users s') = Some u' \<and> core_user u' = core_user u"
  using find_core [of m s] find_core [of m s'] assms by (cases "List.find (admin_row m s') (admin_users s')") auto

text \<open>Past the password only the signer can fail.\<close>

lemma admin_login_success_ok:
  fixes c :: "'a admin_db_scheme conn"
  assumes "\<not> temporary_expired now u" and "\<And>kid claims secret. \<exists>tok. sign kid claims secret = Inr tok"
  shows "\<exists>resp. fst (admin_login_success tokens sign now origin host u c) = admin_reply 200 (ALogin resp) \<and> lr_Email resp = au_Email u \<and>
           lr_MFARequired resp = au_MFAEnabled u \<and> (lr_Token resp = None \<longleftrightarrow> au_MFAEnabled u)"
proof -
  obtain x c1 where x: "UpdateLastLogin now (au_ID u) c = (x, c1)" by (rule prod.exhaust)
  obtain d c2 where d: "(case au_TenantID u of None \<Rightarrow> (au_TenantDomain u, c1)
      | Some t \<Rightarrow> domain_to_return (current_domain origin host) (au_TenantDomain u) t c1) = (d, c2)" by (rule prod.exhaust)
  obtain y c3 where y: "generateAdminJWTToken tokens sign now u c2 = (y, c3)" by (rule prod.exhaust)
  have "\<exists>tok. y = Inr tok"
    using generateAdminJWTToken_signs [of tokens sign now u c2] y
      assms(2) [of "''default''" "admin_claims now u (token_roles u c2)" "jwtDefaultSecret tokens"] by auto
  then show ?thesis using assms(1) unfolding admin_login_success_def x prod.case d Let_def y by auto
qed

text \<open>The request of a login with an address and a password only.\<close>

definition plain_login :: "string \<Rightarrow> string \<Rightarrow> AdminLoginInput" where
  "plain_login m pw = \<lparr> al_Email = m, al_Password = pw, al_TenantDomain = [], al_Nonce = [], al_Timestamp = 0, al_Challenge = [], al_Signature = [] \<rparr>"

lemma AdminLogin_plain:
  assumes "List.find (admin_row m s) (admin_users s) = Some u" and "m \<noteq> []" and "is_email m" and "10 \<le> length pw"
    and "check (au_PasswordHash u) pw"
  shows "fst (AdminLogin is_email check tokens sign R now origin host (Inr (plain_login m pw)) st (s, [])) =
           fst (admin_login_success tokens sign now origin host (scanned u) (s, []))"
proof -
  have "pw \<noteq> []" and "au_Active u" using assms(1,4) find_SomeD [OF assms(1)] by (auto simp: admin_row_def)
  with assms show ?thesis
    by (simp add: AdminLogin_def bind_login_def plain_login_def GetAdminUserByEmail_found admin_login_found_scanned case_prod_beta)
qed

section \<open>The lock never closes\<close>

type_synonym admin_login_op = "gotime \<times> string \<times> string \<times> (go_error + AdminLoginInput)"

fun admin_login_step ::
  "(string \<Rightarrow> bool) \<Rightarrow> (string \<Rightarrow> string \<Rightarrow> bool) \<Rightarrow> AuthManagerTokenService \<Rightarrow> signer \<Rightarrow> 'st redis \<Rightarrow> admin_login_op
     \<Rightarrow> 'st \<times> 'a admin_db_scheme conn \<Rightarrow> ('st \<times> 'a admin_db_scheme conn) \<times> admin_body http_reply" where
  "admin_login_step is_email check tokens sign R (now, origin, host, body) (st, c) =
     (case AdminLogin is_email check tokens sign R now origin host body st c of (r, st', c') \<Rightarrow> ((st', c'), r))"

lemma login_run_core:
  fixes c :: "'a admin_db_scheme conn" and st :: 'st
  shows "core (fst (snd (fst (run (admin_login_step is_email check tokens sign R) ops (st, c))))) = core (fst c)"
proof (rule run_invariant [where I = "\<lambda>x. core (fst (snd x)) = core (fst c)"])
  fix op :: admin_login_op and x :: "'st \<times> 'a admin_db_scheme conn"
  assume "core (fst (snd x)) = core (fst c)"
  then show "core (fst (snd (fst (admin_login_step is_email check tokens sign R op x)))) = core (fst c)"
    by (cases op; cases x) (simp add: case_prod_beta AdminLogin_core)
qed simp

text \<open>
  The lock of an administrator's account never closes: after any run of login requests, whatever they answered and whatever
  the database did, the right password logs in. The lookups do not read the columns of the lock, so every wrong
  password is counted as the first.
\<close>

theorem admin_lockout_never:
  assumes "List.find (admin_row m s) (admin_users s) = Some u" and "check (au_PasswordHash u) pw" and "\<not> temporary_expired now u"
    and "m \<noteq> []" and "is_email m" and "10 \<le> length pw" and "\<forall>kid claims secret. \<exists>tok. sign kid claims secret = Inr tok"
  shows "\<exists>resp. fst (AdminLogin is_email check tokens sign R now origin host (Inr (plain_login m pw)) st'
             (fst (snd (fst (run (admin_login_step is_email check tokens sign R) ops (st, s, os)))), [])) = admin_reply 200 (ALogin resp) \<and>
           lr_Email resp = au_Email u"
proof -
  let ?s = "fst (snd (fst (run (admin_login_step is_email check tokens sign R) ops (st, s, os))))"
  have "core ?s = core s" using login_run_core [of is_email check tokens sign R ops st "(s, os)"] by simp
  from find_same_core [OF this assms(1)] obtain u' where u': "List.find (admin_row m ?s) (admin_users ?s) = Some u'"
    and eq: "core_user u' = core_user u" by blast
  from arg_cong [OF eq, of au_PasswordHash] arg_cong [OF eq, of "temporary_expired now"] arg_cong [OF eq, of au_Email]
  have "au_PasswordHash u' = au_PasswordHash u" "temporary_expired now u' = temporary_expired now u" "au_Email u' = au_Email u" by simp_all
  moreover from this assms have "fst (AdminLogin is_email check tokens sign R now origin host (Inr (plain_login m pw)) st' (?s, [])) =
      fst (admin_login_success tokens sign now origin host (scanned u') (?s, []))" by (intro AdminLogin_plain [OF u']) simp_all
  moreover have "\<exists>resp. fst (admin_login_success tokens sign now origin host (scanned u') (?s, [])) = admin_reply 200 (ALogin resp) \<and>
      lr_Email resp = au_Email (scanned u')"
    using admin_login_success_ok [of now "scanned u'" sign tokens origin host "(?s, [])"] calculation assms(3,7) by auto
  ultimately show ?thesis by simp
qed

section \<open>Second factors and roles\<close>

lemma bound_roles_core: "bound_roles i t (core s) = bound_roles i t s"
  by (simp add: bound_roles_def core_def cong: if_cong)

lemma token_roles_none:
  "au_TenantID u = Some t \<Longrightarrow> bound_roles (au_ID u) t (fst c) = [] \<Longrightarrow> token_roles u c = [''admin'']"
  by (cases c rule: conn_cases) (simp_all add: token_roles_def GetAdminRoles_def wrap_err_def query_def)

text \<open>
  The hybrid login skips the second factor: for an administrator with a second factor the login answers without a token
  and asks for it, while the hybrid login hands the same request a token signed for that administrator.
\<close>

theorem hybrid_skips_mfa:
  assumes "List.find (admin_row m s) (admin_users s) = Some u" and "check (au_PasswordHash u) pw" and "\<not> temporary_expired now u"
    and "au_MFAEnabled u" and "m \<noteq> []" and "is_email m" and "10 \<le> length pw" and "\<forall>kid claims secret. \<exists>tok. sign kid claims secret = Inr tok"
  shows "(\<exists>resp. fst (AdminLogin is_email check tokens sign R now origin host (Inr (plain_login m pw)) st (s, [])) =
              admin_reply 200 (ALogin resp) \<and> lr_MFARequired resp \<and> lr_Token resp = None) \<and>
         (\<exists>h claims. fst (AdminLoginHybrid is_email check tokens sign connect now origin host (Inr (plain_login m pw)) (s, [])) =
              admin_reply 200 (AHybrid h) \<and> sign ''default'' claims (jwtDefaultSecret tokens) = Inr (hr_Token h) \<and>
              claims ''sub'' = Some (GStr (au_ID u)))"
proof
  show "\<exists>resp. fst (AdminLogin is_email check tokens sign R now origin host (Inr (plain_login m pw)) st (s, [])) =
      admin_reply 200 (ALogin resp) \<and> lr_MFARequired resp \<and> lr_Token resp = None"
    using AdminLogin_plain [of m s u is_email pw check tokens sign R now origin host st] assms(1,2,5-7) admin_login_success_ok [of now "scanned u" sign tokens origin host "(s, [])"] assms(3,4,8) by auto
  obtain x c1 where x: "UpdateLastLogin now (au_ID (scanned u)) (s, []) = (x, c1)" by (rule prod.exhaust)
  let ?claims = "admin_claims now (scanned u) (token_roles (scanned u) c1)"
  obtain tok where tok: "sign ''default'' ?claims (jwtDefaultSecret tokens) = Inr tok" using assms(8) by blast
  obtain y c2 where y: "generateAdminJWTToken tokens sign now (scanned u) c1 = (y, c2)" by (rule prod.exhaust)
  have "y = Inr tok" using generateAdminJWTToken_signs [of tokens sign now "scanned u" c1] y tok by simp
  have "au_Active u" "pw \<noteq> []" using find_SomeD [OF assms(1)] assms(7) by (auto simp: admin_row_def)
  have "AdminLoginHybrid is_email check tokens sign connect now origin host (Inr (plain_login m pw)) (s, []) =
      hybrid_main check tokens sign now (plain_login m pw) (scanned u) (s, [])"
    using assms(5-7) \<open>pw \<noteq> []\<close> by (simp add: AdminLoginHybrid_def bind_login_def plain_login_def GetAdminUserByEmail_found [OF assms(1)])
  moreover have "\<exists>h. fst (hybrid_main check tokens sign now (plain_login m pw) (scanned u) (s, [])) = admin_reply 200 (AHybrid h) \<and> hr_Token h = tok"
    unfolding hybrid_main_def x prod.case y
    using \<open>au_Active u\<close> assms(2,3) \<open>y = Inr tok\<close> by (simp add: admin_CheckPassword_def plain_login_def)
  ultimately show "\<exists>h claims. fst (AdminLoginHybrid is_email check tokens sign connect now origin host (Inr (plain_login m pw)) (s, [])) =
      admin_reply 200 (AHybrid h) \<and> sign ''default'' claims (jwtDefaultSecret tokens) = Inr (hr_Token h) \<and> claims ''sub'' = Some (GStr (au_ID u))"
    using tok admin_claims_simps(1) [of now "scanned u"] by (metis scanned_simps(1))
qed

text \<open>
  A user without any role gets an administrator's token: when a login names the tenant's domain and no administrator matches,
  any active user of that domain with that address is taken, and the token of a user without roles says \<open>admin\<close>.
\<close>

theorem nonadmin_gets_admin_role:
  fixes s :: "'a admin_db_scheme"
  assumes "List.find (\<lambda>v. ToLower (au_Email v) = ToLower (al_Email input) \<and> ToLower (au_TenantDomain v) = ToLower (al_TenantDomain input) \<and>
                        au_Active v) (admin_users s) = Some u"
    and "\<forall>v \<in> set (admin_users s). ToLower (au_Email v) = ToLower (al_Email input) \<longrightarrow> \<not> is_admin s v"
    and "au_TenantDomain u = al_TenantDomain input" and "au_TenantID u = Some t" and "bound_roles (au_ID u) t s = []"
    and "check (au_PasswordHash u) (al_Password input)" and "\<not> au_MFAEnabled u" and "\<not> temporary_expired now u"
    and "bind_login is_email (Inr input) = Inr input" and "al_TenantDomain input \<noteq> []" and "al_Nonce input = []" and "al_Timestamp input = 0"
    and "\<forall>kid claims secret. \<exists>tok. sign kid claims secret = Inr tok"
  shows "\<exists>resp tok claims. fst (AdminLogin is_email check tokens sign R now origin host (Inr input) st (s, [])) = admin_reply 200 (ALogin resp) \<and>
           lr_Token resp = Some tok \<and> sign ''default'' claims (jwtDefaultSecret tokens) = Inr tok \<and>
           claims ''sub'' = Some (GStr (au_ID u)) \<and> claims ''roles'' = Some (GStrs [''admin''])"
proof -
  have none: "List.find (\<lambda>v. ToLower (au_Email v) = ToLower (al_Email input) \<and> ToLower (au_TenantDomain v) = ToLower (al_TenantDomain input) \<and>
      au_Active v \<and> is_admin s v) (admin_users s) = None" using assms(2) by (auto simp: find_None_iff)
  have get: "GetAdminUserByEmailAndTenantDomain (al_Email input) (al_TenantDomain input) (s, []) = (Inr (scanned u), s, [])"
    by (simp add: GetAdminUserByEmailAndTenantDomain_def scanAdminUserFromQuery_def sql_simps select_row_def none assms(1))
  have u: "au_Active u" using find_SomeD [OF assms(1)] by simp
  have input: "al_Email input \<noteq> []" "al_Password input \<noteq> []" using assms(9) by (auto simp: bind_login_def split: if_splits)
  have login: "fst (AdminLogin is_email check tokens sign R now origin host (Inr input) st (s, [])) =
      fst (admin_login_success tokens sign now origin host (scanned u) (s, []))"
    using assms(3,6,10-12) input u
    by (simp add: AdminLogin_def assms(9) get admin_login_found_scanned case_prod_beta)
  obtain resp where resp: "fst (admin_login_success tokens sign now origin host (scanned u) (s, [])) = admin_reply 200 (ALogin resp)" "lr_Token resp \<noteq> None"
    using admin_login_success_ok [of now "scanned u" sign tokens origin host "(s, [])"] assms(7,8,13) by auto
  then obtain tok where tok: "lr_Token resp = Some tok" by blast
  obtain c0 where c0: "admin_login_success tokens sign now origin host (scanned u) (s, []) = (admin_reply 200 (ALogin resp), c0)"
    using resp(1) by (cases "admin_login_success tokens sign now origin host (scanned u) (s, [])") simp
  from admin_login_success_token [OF c0, of resp tok] tok obtain c1 c2 :: "'a admin_db_scheme conn" where
    c1: "core (fst c1) = core s" "generateAdminJWTToken tokens sign now (scanned u) c1 = (Inr tok, c2)" by auto
  have "bound_roles (au_ID u) t (fst c1) = []" using assms(5) bound_roles_core [of "au_ID u" t s] bound_roles_core [of "au_ID u" t "fst c1"] c1(1) by simp
  then have "token_roles (scanned u) c1 = [''admin'']" using assms(4) by (intro token_roles_none [of _ t]) simp_all
  then have "sign ''default'' (admin_claims now (scanned u) [''admin'']) (jwtDefaultSecret tokens) = Inr tok"
    using generateAdminJWTToken_signs [of tokens sign now "scanned u" c1] c1(2) by (simp split: sum.splits)
  with login resp(1) tok show ?thesis 
    by (intro exI [of _ resp] exI [of _ tok] exI [of _ "admin_claims now (scanned u) [''admin'']"]) (simp add: admin_claims_simps)
qed

section \<open>Forgotten passwords\<close>

datatype reset_op =
    DoForgot gotime "nat \<Rightarrow> nat option" uuid "go_error + string"
  | DoVerifyCode gotime uuid uuid "go_error + VerifyOTPInput"
  | DoReset gotime uuid "go_error + ResetPasswordInput"

fun reset_handle ::
  "(string \<Rightarrow> bool) \<Rightarrow> (string \<Rightarrow> go_error + string) \<Rightarrow> reset_op \<Rightarrow> 'a admin_db_scheme conn
     \<Rightarrow> 'a admin_db_scheme conn \<times> admin_body http_reply" where
  "reset_handle is_email gen (DoForgot now draw i body) c = reply id (AdminForgotPassword is_email now draw i body c)"
| "reset_handle is_email gen (DoVerifyCode now i j body) c = reply id (AdminVerifyOTP is_email now i j body c)"
| "reset_handle is_email gen (DoReset now i body) c = reply id (AdminResetPassword is_email gen now i body c)"

text \<open>
  \<open>mailed\<close>: the code was drawn for that address. \<open>authorised\<close>: a code was presented for the address, one that
  was mailed to it or one of the fixed codes; or the code drawn happened to be a fixed one.
\<close>

definition mailed :: "reset_op set \<Rightarrow> string \<Rightarrow> string \<Rightarrow> bool" where
  "mailed H m code \<longleftrightarrow>
     (\<exists>now draw i addr. DoForgot now draw i (Inr addr) \<in> H \<and> ToLower (TrimSpace addr) = m \<and> GenerateOTP draw = Inr code)"

definition authorised :: "reset_op set \<Rightarrow> string \<Rightarrow> bool" where
  "authorised H m \<longleftrightarrow>
     (\<exists>now i j v. DoVerifyCode now i j (Inr v) \<in> H \<and> ToLower (vo_Email v) = m \<and> (hardwired (vo_OTP v) \<or> mailed H m (vo_OTP v))) \<or>
     (\<exists>code. hardwired code \<and> mailed H m code)"

definition code_ok :: "reset_op set \<Rightarrow> OTPEntry \<Rightarrow> bool" where
  "code_ok H e \<longleftrightarrow> (ot_Verified e \<or> hardwired (ot_OTP e) \<longrightarrow> authorised H (ot_Email e)) \<and>
     (hardwired (ot_OTP e) \<or> mailed H (ot_Email e) (ot_OTP e))"

definition codes_backed :: "reset_op set \<Rightarrow> 'a admin_db_scheme \<Rightarrow> bool" where
  "codes_backed H s \<longleftrightarrow> (\<forall>e \<in> set (otp_entries s). code_ok H e) \<and> distinct (map ot_ID (otp_entries s))"

lemma codes_backed_delete:
  "codes_backed H (fst c) \<Longrightarrow> codes_backed H (tables (DeleteOTPsByEmail m c))"
  unfolding DeleteOTPsByEmail_def
  by (rule exec_keeps) (auto simp: codes_backed_def delete_where_def distinct_map_filter)

lemma codes_backed_create:
  assumes "codes_backed H (fst c)" and "code_ok H e"
  shows "codes_backed H (tables (CreateOTP now i e c))"
proof -
  define row where "row = e\<lparr> ot_ID := i, ot_CreatedAt := (if ot_CreatedAt e = zero_time then now else ot_CreatedAt e),
    ot_UpdatedAt := (if ot_UpdatedAt e = zero_time then now else ot_UpdatedAt e) \<rparr>"
  have row: "code_ok H row" "ot_ID row = i" using assms(2) by (simp_all add: row_def code_ok_def)
  show ?thesis
    unfolding CreateOTP_def Let_def row_def [symmetric]
  proof (rule exec_checked_keeps [where P = "codes_backed H"])
    fix s s' :: "'a admin_db_scheme"
    assume "codes_backed H s" and "(if \<exists>r \<in> set (otp_entries s). ot_ID r = i then Inl DBError else Inr (s\<lparr> otp_entries := otp_entries s @ [row] \<rparr>)) = Inr s'"
    with row show "codes_backed H s'" by (fastforce simp: codes_backed_def split: if_splits)
  qed (rule assms(1))
qed

lemma codes_backed_verify:
  assumes "codes_backed H (fst c)" and "e \<in> set (otp_entries (fst c))" and "authorised H (ot_Email e)"
  shows "codes_backed H (tables (VerifyOTP now (ot_ID e) c))"
proof -
  let ?f = "\<lambda>r. r\<lparr> ot_Verified := True, ot_UpdatedAt := now \<rparr>"
  let ?g = "\<lambda>s. (s\<lparr> otp_entries := update_where (\<lambda>r. ot_ID r = ot_ID e) ?f (otp_entries s) \<rparr>, affected (\<lambda>r. ot_ID r = ot_ID e) (otp_entries s))"
  obtain x c1 where x: "exec ?g c = (x, c1)" by (rule prod.exhaust)
  have "tables (VerifyOTP now (ot_ID e) c) = fst c1" unfolding VerifyOTP_def x by (cases x) auto
  moreover have "codes_backed H (fst (?g (fst c)))"
  proof -
    have "code_ok H (?f r)" if "r \<in> set (otp_entries (fst c))" "ot_ID r = ot_ID e" for r
    proof -
      have "r = e" using assms(1,2) that by (auto simp: codes_backed_def distinct_map inj_on_def)
      with assms show ?thesis by (simp add: codes_backed_def code_ok_def)
    qed
    then have "\<forall>r \<in> set (update_where (\<lambda>r. ot_ID r = ot_ID e) ?f (otp_entries (fst c))). code_ok H r"
      using assms(1) unfolding set_update_where codes_backed_def by blast
    moreover have "map ot_ID (update_where (\<lambda>r. ot_ID r = ot_ID e) ?f (otp_entries (fst c))) = map ot_ID (otp_entries (fst c))"
      by (simp add: update_where_def)
    ultimately show ?thesis using assms(1) by (simp add: codes_backed_def)
  qed
  ultimately show ?thesis using exec_tables [OF x] assms(1) by auto
qed

lemma AdminForgotPassword_backed:
  assumes "codes_backed H (fst c)" and "DoForgot now draw i body \<in> H"
  shows "codes_backed H (tables (AdminForgotPassword is_email now draw i body c))"
proof (cases "bind_forgot is_email body")
  case (Inl e)
  with assms(1) show ?thesis by (simp add: AdminForgotPassword_def)
next
  case (Inr m)
  then have body: "body = Inr m" by (auto simp: bind_forgot_def split: sum.splits if_splits)
  let ?m = "ToLower (TrimSpace m)"
  obtain q c1 where q: "GetAdminUserByEmail ?m c = (q, c1)" by (rule prod.exhaust)
  have 1: "codes_backed H (fst c1)" using tables_of [OF q] assms(1) by simp
  obtain x c2 where x: "DeleteOTPsByEmail ?m c1 = (x, c2)" by (rule prod.exhaust)
  have 2: "codes_backed H (fst c2)" using tables_of [OF x] codes_backed_delete [OF 1, of ?m] by simp
  have 3: "codes_backed H (tables (CreateOTP now i (otp_row ?m otp (now + 30 * Minute) False) c2))" if "GenerateOTP draw = Inr otp" for otp
  proof (rule codes_backed_create [OF 2])
    have "mailed H ?m otp" using assms(2) that unfolding mailed_def body by blast
    then show "code_ok H (otp_row ?m otp (now + 30 * Minute) False)" by (auto simp: code_ok_def otp_row_def authorised_def)
  qed
  show ?thesis
    unfolding AdminForgotPassword_def Inr sum.case Let_def q prod.case x
    using 1 2 3 by (cases q; cases "GenerateOTP draw"; cases x) (auto split: sum.split prod.split)
qed

lemma AdminVerifyOTP_backed:
  assumes "codes_backed H (fst c)" and "DoVerifyCode now i j body \<in> H"
  shows "codes_backed H (tables (AdminVerifyOTP is_email now i j body c))"
proof (cases "bind_otp is_email body")
  case (Inl e)
  with assms(1) show ?thesis by (simp add: AdminVerifyOTP_def)
next
  case (Inr v)
  then have body: "body = Inr v" by (auto simp: bind_otp_def split: sum.splits if_splits)
  let ?m = "ToLower (vo_Email v)"
  obtain q c1 where q: "GetValidOTP now i ?m (vo_OTP v) c = (q, c1)" by (rule prod.exhaust)
  have 1: "fst c1 = fst c" using tables_of [OF q] by simp
  show ?thesis
  proof (cases "hardwired (vo_OTP v)")
    case True
    then have auth: "authorised H ?m" using assms(2) unfolding authorised_def body by blast
    obtain x c2 where x: "DeleteOTPsByEmail ?m c1 = (x, c2)" by (rule prod.exhaust)
    have "codes_backed H (fst c2)" using tables_of [OF x] codes_backed_delete [of H c1 ?m] 1 assms(1) by simp
    then have "codes_backed H (tables (CreateOTP now j (otp_row ?m (vo_OTP v) (now + 30 * Minute) True) c2))"
      using auth True by (intro codes_backed_create) (simp_all add: code_ok_def otp_row_def)
    then show ?thesis unfolding AdminVerifyOTP_def Inr sum.case Let_def q prod.case x using True by (auto split: prod.split)
  next
    case False
    have 2: "codes_backed H (tables (VerifyOTP now (ot_ID e) c1))" if "q = Inr e" for e
    proof (rule codes_backed_verify)
      have e: "e \<in> set (otp_entries (fst c))" "ot_Email e = ?m" "ot_OTP e = vo_OTP v" using GetValidOTP_Inr [OF q [unfolded that] False] by simp_all
      then have "mailed H ?m (vo_OTP v)" using assms(1) False by (auto simp: codes_backed_def code_ok_def)
      then show "authorised H (ot_Email e)" using assms(2) unfolding authorised_def body e(2) by blast
      show "e \<in> set (otp_entries (fst c1))" "codes_backed H (fst c1)" using e(1) 1 assms(1) by simp_all
    qed
    show ?thesis
      unfolding AdminVerifyOTP_def Inr sum.case Let_def q prod.case
      using 1 2 False assms(1) by (cases q) (auto split: prod.split sum.split)
  qed
qed

lemma codes_backed_UpdateAdminUser: "codes_backed H (fst c) \<Longrightarrow> codes_backed H (tables (UpdateAdminUser now i cols c))"
proof -
  assume "codes_backed H (fst c)"
  moreover have "codes_backed H (update_admin i f s)" if "codes_backed H s" for f s using that by (simp add: codes_backed_def update_admin_def)
  ultimately show ?thesis unfolding UpdateAdminUser_def by (auto intro!: exec_keeps [where P = "codes_backed H"])
qed

text \<open>A reset that is answered with success found a verified code, or a fixed one, of that address.\<close>

lemma AdminResetPassword_backed:
  assumes "codes_backed H (fst c)"
  shows "codes_backed H (tables (AdminResetPassword is_email gen now i body c)) \<and>
           (\<forall>input. body = Inr input \<longrightarrow> http_status (fst (AdminResetPassword is_email gen now i body c)) = 200 \<longrightarrow>
              authorised H (ToLower (rp_Email input)))"
proof (cases "bind_reset is_email body")
  case (Inl e)
  then have "AdminResetPassword is_email gen now i body c = (admin_reply 400 (AError ''validation''), c)" by (simp add: AdminResetPassword_def)
  with assms show ?thesis by auto
next
  case (Inr input)
  then have body: "body = Inr input" by (auto simp: bind_reset_def split: sum.splits if_splits)
  let ?m = "ToLower (rp_Email input)"
  obtain q c1 where q: "GetVerifiedOTP now i ?m c = (q, c1)" by (rule prod.exhaust)
  have 1: "codes_backed H (fst c1)" using tables_of [OF q] assms by simp
  obtain x c2 where x: "GetAdminUserByEmail ?m c1 = (x, c2)" by (rule prod.exhaust)
  have 2: "codes_backed H (fst c2)" using tables_of [OF x] 1 by simp
  have 3: "codes_backed H (fst c3)" if "UpdateAdminUser now k cols c2 = (y, c3)" for k cols y c3
    using tables_of [OF that] codes_backed_UpdateAdminUser [OF 2] by simp
  have 4: "codes_backed H (fst c4)" if "UpdateAdminUser now k cols c2 = (y, c3)" "DeleteOTPsByEmail ?m c3 = (z, c4)" for k cols y z c3 c4
    using tables_of [OF that(2)] codes_backed_delete [OF 3 [OF that(1)]] by simp
  have auth: "authorised H ?m" if "q = Inr e" for e
    using GetVerifiedOTP_Inr [OF q [unfolded that]] assms by (auto simp: codes_backed_def code_ok_def)
  show ?thesis
  proof (cases q)
    case (Inl e)
    with Inr q have "AdminResetPassword is_email gen now i body c =
        (admin_reply 401 (AError ''No verified reset code found. Please request a new password reset''), c1)"
      by (simp add: AdminResetPassword_def)
    with 1 show ?thesis by auto
  next
    case (Inr e)
    have "codes_backed H (tables (AdminResetPassword is_email gen now i body c))"
      unfolding AdminResetPassword_def \<open>bind_reset is_email body = Inr input\<close> sum.case Let_def q prod.case Inr x
      using 2 3 4 by (cases x) (auto split: sum.split prod.split)
    with auth [OF Inr] body show ?thesis by simp
  qed
qed

lemma codes_backed_run:
  assumes "otp_entries s = []"
  shows "codes_backed (set ops) (fst (fst (run (reset_handle is_email gen) ops (s, os))))"
proof -
  have step: "codes_backed H (fst (fst (reset_handle is_email gen op c)))" if "codes_backed H (fst c)" "op \<in> H" for H op c
    using that AdminForgotPassword_backed AdminVerifyOTP_backed AdminResetPassword_backed [THEN conjunct1] by (cases op) (simp_all add: reply_def)
  have "codes_backed (set ops) s" using assms by (simp add: codes_backed_def)
  then show ?thesis
    by (intro run_invariant_in [where I = "\<lambda>c. codes_backed (set ops) (fst c)"]) (simp_all add: step)
qed

text \<open>
  C13. A password reset is backed by a code: after any run of the forgotten-password endpoints from a table without codes, under any
  schedule of database faults, a reset that succeeds was preceded by the presentation, for that address, of a code drawn for it
  or of one of the fixed codes, or by drawing a fixed code for it.
\<close>

theorem admin_reset_backed:
  assumes "otp_entries s = []"
    and "http_status (snd (reset_handle is_email gen (DoReset now i (Inr input)) (fst (run (reset_handle is_email gen) ops (s, os))))) = 200"
  shows "authorised (set ops) (ToLower (rp_Email input))"
  using AdminResetPassword_backed [OF codes_backed_run [OF assms(1)]] assms(2) by (simp add: reply_def)

text \<open>
  C37. Anyone who knows an administrator's address takes the account over: with the fixed code, which needs no mail and no earlier request,
  verification and reset set a password of the caller's choice, and the next login with it is answered with 200 (an account with a second
  factor still has to present that).
\<close>

theorem admin_takeover_hardwired:
  fixes s :: "'a admin_db_scheme"
  assumes "verified = AdminVerifyOTP is_email now i j (Inr \<lparr> vo_Email = m, vo_OTP = ''111111'' \<rparr>) (s, [])"
    and "reset = AdminResetPassword is_email gen now i (Inr \<lparr> rp_Email = m, rp_NewPassword = pw \<rparr>) (snd verified)"
    and "List.find (admin_row m s) (admin_users s) = Some u" and "j \<notin> ot_ID ` set (otp_entries s)"
    and "gen pw = Inr h" and "check h pw" and "m \<noteq> []" and "is_email m" and "10 \<le> length pw"
    and "\<forall>kid claims secret. \<exists>tok. sign kid claims secret = Inr tok"
  shows "http_status (fst verified) = 200 \<and> http_status (fst reset) = 200 \<and>
         (\<exists>resp. fst (AdminLogin is_email check tokens sign R now origin host (Inr (plain_login m pw)) st (snd reset)) =
            admin_reply 200 (ALogin resp) \<and> lr_Email resp = au_Email u)"
proof -
  let ?m = "ToLower m"
  define row where "row = (otp_row ?m ''111111'' (now + 30 * Minute) True)\<lparr> ot_ID := j, ot_CreatedAt := now, ot_UpdatedAt := now \<rparr>"
  define s1 where "s1 = s\<lparr> otp_entries := delete_where (\<lambda>r. ot_Email r = ?m) (otp_entries s) @ [row] \<rparr>"
  have v: "verified = (admin_reply 200 (AMessage ''OTP verified successfully''), s1, [])"
    using assms(4,7,8) unfolding assms(1)
    by (auto simp: AdminVerifyOTP_def bind_otp_def GetValidOTP_def hardwired_def DeleteOTPsByEmail_def CreateOTP_def Let_def sql_simps
        s1_def row_def otp_row_def table_simps)
  have row: "ot_Email row = ?m" "hardwired (ot_OTP row)" by (simp_all add: row_def otp_row_def hardwired_def)
  then have "filter (\<lambda>r. ot_Email r = ?m) (otp_entries s1) = [row]" by (simp add: s1_def delete_where_def)
  then have got: "\<exists>e. GetVerifiedOTP now i ?m (s1, []) = (Inr e, s1, [])"
    using row by (simp add: GetVerifiedOTP_def newest_otp_def select_row_def sql_simps)
  have found: "List.find (admin_row ?m s1) (admin_users s1) = Some u"
    using assms(3) by (simp add: s1_def admin_row_def [abs_def] is_admin_def holds_role_def ToLower_idem)
  define f where "f = (\<lambda>u. (fold set_column [SetPasswordHash h, SetTemporaryPassword False, SetTemporaryPasswordExpiresAt None,
     SetFailedLoginAttempts 0, SetAccountLockedAt None, SetPasswordResetRequired False] u)\<lparr> au_UpdatedAt := now \<rparr>)"
  define s2 where "s2 = (update_admin (au_ID u) f s1)\<lparr> otp_entries := delete_where (\<lambda>r. ot_Email r = ?m) (otp_entries s1) \<rparr>"
  have r: "reset = (admin_reply 200 (AMessage ''Password reset successfully''), s2, [])"
    using got assms(5,7-9) GetAdminUserByEmail_found [OF found] unfolding assms(2) v
    by (auto simp: AdminResetPassword_def bind_reset_def Let_def admin_HashPassword_def UpdateAdminUser_def wrap_err_def DeleteOTPsByEmail_def
        s2_def f_def update_admin_def)
  have same: "admin_row m s2 (if au_ID v = au_ID u then f v else v) = admin_row ?m s1 v" for v
    by (simp add: admin_row_def is_admin_def holds_role_def s2_def update_admin_def f_def ToLower_idem)
  have "List.find (admin_row m s2) (admin_users s2) = map_option (\<lambda>v. if au_ID v = au_ID u then f v else v) (List.find (admin_row ?m s1) (admin_users s1))"
    by (simp add: s2_def update_admin_def update_where_def find_map same [unfolded s2_def update_admin_def update_where_def])
  then have "List.find (admin_row m s2) (admin_users s2) = Some (f u)" using found by simp
  from AdminLogin_plain [OF this, of is_email pw check tokens sign R now origin host st] assms(6-9)
  have "fst (AdminLogin is_email check tokens sign R now origin host (Inr (plain_login m pw)) st (s2, [])) =
      fst (admin_login_success tokens sign now origin host (scanned (f u)) (s2, []))" by (simp add: f_def)
  moreover have "\<not> temporary_expired now (scanned (f u))" "au_Email (f u) = au_Email u" by (simp_all add: f_def temporary_expired_def)
  ultimately show ?thesis
    using admin_login_success_ok [of now "scanned (f u)" sign tokens origin host "(s2, [])"] assms(10) v r by auto
qed

section \<open>Examples\<close>

definition ex_ann :: AdminUser where
  "ex_ann = ex_admin_user\<lparr> au_ID := ''u'', au_PasswordHash := ''h0123456789'' \<rparr>"

text \<open>The administrator \<open>ex_ann\<close> with her role; \<open>f\<close> changes her row.\<close>

definition ex_admins :: "(AdminUser \<Rightarrow> AdminUser) \<Rightarrow> admin_db" where
  "ex_admins f = ex_admin_db\<lparr> admin_users := [f ex_ann], role_bindings := [admin_binding 0 ''b'' ''t'' ''u'' ''r''],
     roles := [\<lparr> rl_ID = ''r'', rl_TenantID = Some ''t'', rl_Name = ''admin'', rl_Description = [], rl_IsSystem = True, rl_CreatedAt = 0 \<rparr>] \<rparr>"

definition ex_hash :: "string \<Rightarrow> go_error + string" where
  "ex_hash pw = Inr (CHR ''h'' # pw)"

definition ex_check :: "string \<Rightarrow> string \<Rightarrow> bool" where
  "ex_check h pw \<longleftrightarrow> h = CHR ''h'' # pw"

lemmas ex_admin_defs = ex_admins_def ex_ann_def ex_admin_user_def admin_binding_def ex_hash_def ex_check_def

lemma ex_sign_ok: "\<forall>kid claims secret. \<exists>tok. ex_sign kid claims secret = Inr tok"
  using ex_sign_total by blast

lemma ex_ann_found:
  assumes "au_Email (f ex_ann) = ''ann@acme.io''" and "au_Active (f ex_ann)" and "au_ID (f ex_ann) = ''u''"
  shows "List.find (admin_row ''ann@acme.io'' (ex_admins f)) (admin_users (ex_admins f)) = Some (f ex_ann)"
  using assms by (simp add: ex_admins_def admin_row_def is_admin_def holds_role_def admin_binding_def ToLower_def lower_char_def is_upper_def)

theorem admin_lockout_never_witness:
  "\<exists>resp. fst (AdminLogin (\<lambda>_. True) ex_check ex_tokens ex_sign map_redis 9 [] [] (Inr (plain_login ''ann@acme.io'' ''0123456789'')) Map.empty
      (fst (snd (fst (run (admin_login_step (\<lambda>_. True) ex_check ex_tokens ex_sign map_redis)
         (replicate 5 (1, [], [], Inr (plain_login ''ann@acme.io'' ''wrong-wrong''))) (Map.empty, ex_admins id, [])))), [])) =
      admin_reply 200 (ALogin resp) \<and> lr_Email resp = au_Email ex_ann"
proof (rule admin_lockout_never)
  show "List.find (admin_row ''ann@acme.io'' (ex_admins id)) (admin_users (ex_admins id)) = Some ex_ann"
    using ex_ann_found [of id] by (simp add: ex_ann_def ex_admin_user_def)
qed (simp_all add: ex_admin_defs temporary_expired_def ex_sign_ok)

theorem admin_takeover_hardwired_witness:
  "\<exists>resp. fst (AdminLogin (\<lambda>_. True) ex_check ex_tokens ex_sign map_redis 9 [] [] (Inr (plain_login ''ann@acme.io'' ''mine-mine-mine'')) Map.empty
      (snd (AdminResetPassword (\<lambda>_. True) ex_hash 9 ''i'' (Inr \<lparr> rp_Email = ''ann@acme.io'', rp_NewPassword = ''mine-mine-mine'' \<rparr>)
        (snd (AdminVerifyOTP (\<lambda>_. True) 9 ''i'' ''j'' (Inr \<lparr> vo_Email = ''ann@acme.io'', vo_OTP = ''111111'' \<rparr>) (ex_admins id, [])))))) =
      admin_reply 200 (ALogin resp) \<and> lr_Email resp = au_Email ex_ann"
proof -
  have "List.find (admin_row ''ann@acme.io'' (ex_admins id)) (admin_users (ex_admins id)) = Some ex_ann"
    using ex_ann_found [of id] by (simp add: ex_ann_def ex_admin_user_def)
  note take = admin_takeover_hardwired [OF refl refl this, where j = "''j''" and i = "''i''" and gen = ex_hash and pw = "''mine-mine-mine''" and check = ex_check
    and is_email = "\<lambda>_. True" and sign = ex_sign and R = map_redis and now = 9 and origin = "[]" and host = "[]" and st = Map.empty
    and tokens = ex_tokens, OF _ ex_hash_def]
  show ?thesis
    by (rule take [THEN conjunct2, THEN conjunct2]) (simp_all add: ex_sign_ok ex_check_def, simp add: ex_admins_def)
qed

theorem hybrid_skips_mfa_witness:
  "\<exists>h claims. fst (AdminLoginHybrid (\<lambda>_. True) ex_check ex_tokens ex_sign (\<lambda>_. Inl DBError) 9 [] []
       (Inr (plain_login ''ann@acme.io'' ''0123456789'')) (ex_admins (au_MFAEnabled_update (\<lambda>_. True)), [])) = admin_reply 200 (AHybrid h) \<and>
     ex_sign ''default'' claims (jwtDefaultSecret ex_tokens) = Inr (hr_Token h) \<and> claims ''sub'' = Some (GStr ''u'')"
proof -
  let ?f = "au_MFAEnabled_update (\<lambda>_. True)"
  have "List.find (admin_row ''ann@acme.io'' (ex_admins ?f)) (admin_users (ex_admins ?f)) = Some (?f ex_ann)"
    using ex_ann_found [of ?f] by (simp add: ex_ann_def ex_admin_user_def)
  note skip = hybrid_skips_mfa [OF this, where check = ex_check and pw = "''0123456789''" and now = 9 and is_email = "\<lambda>_. True" and sign = ex_sign
    and tokens = ex_tokens and R = map_redis and origin = "[]" and host = "[]" and st = Map.empty and connect = "\<lambda>_. Inl DBError"]
  have "au_ID (?f ex_ann) = ''u''" by (simp add: ex_ann_def)
  moreover have "\<exists>h claims. fst (AdminLoginHybrid (\<lambda>_. True) ex_check ex_tokens ex_sign (\<lambda>_. Inl DBError) 9 [] []
       (Inr (plain_login ''ann@acme.io'' ''0123456789'')) (ex_admins ?f, [])) = admin_reply 200 (AHybrid h) \<and>
     ex_sign ''default'' claims (jwtDefaultSecret ex_tokens) = Inr (hr_Token h) \<and> claims ''sub'' = Some (GStr (au_ID (?f ex_ann)))"
    by (rule skip [THEN conjunct2]) (simp_all add: ex_sign_ok, simp_all add: ex_admin_defs temporary_expired_def)
  ultimately show ?thesis by (simp only:)
qed

lemma ex_login_domain: "bind_login (\<lambda>_. True) (Inr ((plain_login ''ann@acme.io'' ''0123456789'')\<lparr> al_TenantDomain := ''acme.io'' \<rparr>)) =
    Inr ((plain_login ''ann@acme.io'' ''0123456789'')\<lparr> al_TenantDomain := ''acme.io'' \<rparr>)"
  by (simp add: bind_login_def plain_login_def)

theorem nonadmin_gets_admin_role_witness:
  "\<exists>resp tok claims. fst (AdminLogin (\<lambda>_. True) ex_check ex_tokens ex_sign map_redis 9 [] []
      (Inr ((plain_login ''ann@acme.io'' ''0123456789'')\<lparr> al_TenantDomain := ''acme.io'' \<rparr>)) Map.empty
      (ex_admin_db\<lparr> admin_users := [ex_ann] \<rparr>, [])) = admin_reply 200 (ALogin resp) \<and> lr_Token resp = Some tok \<and>
     ex_sign ''default'' claims (jwtDefaultSecret ex_tokens) = Inr tok \<and> claims ''sub'' = Some (GStr (au_ID ex_ann)) \<and>
     claims ''roles'' = Some (GStrs [''admin''])"
  by (rule nonadmin_gets_admin_role [of _ _ _ "''t''"])
    (simp_all add: ex_login_domain, simp_all add: ex_admin_defs plain_login_def temporary_expired_def is_admin_def holds_role_def bound_roles_def ex_sign_ok)

definition ex_reset_ops :: "reset_op list" where
  "ex_reset_ops = [DoForgot 0 (\<lambda>_. Some 5) ''o'' (Inr ''ann@acme.io''),
     DoVerifyCode 1 ''i'' ''j'' (Inr \<lparr> vo_Email = ''ann@acme.io'', vo_OTP = ''100005'' \<rparr>)]"

lemma ex_address: "ToLower ''ann@acme.io'' = ''ann@acme.io''" "TrimSpace ''ann@acme.io'' = ''ann@acme.io''"
  by code_simp+

lemma ex_otp: "GenerateOTP (\<lambda>_. Some 5) = Inr ''100005''"
  by (simp add: GenerateOTP_def show_nat.simps char_of_def bit_0)

lemma ex_ann_admin: "is_admin (ex_admins id\<lparr> otp_entries := x \<rparr>) ex_ann" "is_admin (ex_admins id) ex_ann"
  by (simp_all add: ex_admin_defs is_admin_def holds_role_def ToLower_def lower_char_def is_upper_def)

lemma ex_ann_row: "admin_users (ex_admins id) = [ex_ann]" "au_Email ex_ann = ''ann@acme.io''" "au_Active ex_ann"
  by (simp_all add: ex_admins_def ex_ann_def ex_admin_user_def)

lemma ex_reset_run:
  "fst (run (reset_handle (\<lambda>_. True) ex_hash) ex_reset_ops (ex_admins id, [])) =
     (ex_admins id\<lparr> otp_entries := [\<lparr> ot_ID = ''o'', ot_Email = ''ann@acme.io'', ot_OTP = ''100005'', ot_ExpiresAt = 30 * Minute, ot_Verified = True,
        ot_CreatedAt = 0, ot_UpdatedAt = 1 \<rparr>] \<rparr>, [])"
proof -
  have found: "GetAdminUserByEmail ''ann@acme.io'' (ex_admins id, []) = (Inr (scanned ex_ann), ex_admins id, [])"
    using GetAdminUserByEmail_found [OF ex_ann_found [of id]] by (simp add: ex_ann_def ex_admin_user_def)
  have "otp_entries (ex_admins id) = []" by (simp add: ex_admins_def)
  then show ?thesis
    by (simp add: ex_reset_ops_def reply_def AdminForgotPassword_def AdminVerifyOTP_def bind_forgot_def bind_otp_def Let_def ex_address ex_otp found
        sql_simps DeleteOTPsByEmail_def CreateOTP_def GetValidOTP_def VerifyOTP_def hardwired_def newest_otp_def select_row_def otp_row_def
        delete_where_def update_where_def affected_def zero_time_def Minute_def Second_def)
qed

theorem admin_reset_backed_witness: "authorised (set ex_reset_ops) (ToLower ''ann@acme.io'')"
proof -
  let ?s = "ex_admins id\<lparr> otp_entries := [\<lparr> ot_ID = ''o'', ot_Email = ''ann@acme.io'', ot_OTP = ''100005'', ot_ExpiresAt = 30 * Minute, ot_Verified = True,
        ot_CreatedAt = 0, ot_UpdatedAt = 1 \<rparr>] \<rparr>"
  have "GetAdminUserByEmail ''ann@acme.io'' (?s, []) = (Inr (scanned ex_ann), ?s, [])"
    by (rule GetAdminUserByEmail_found) (simp add: ex_ann_row admin_row_def ex_ann_admin)
  then have "http_status (snd (reset_handle (\<lambda>_. True) ex_hash (DoReset 2 ''k'' (Inr \<lparr> rp_Email = ''ann@acme.io'', rp_NewPassword = ''secret'' \<rparr>))
      (fst (run (reset_handle (\<lambda>_. True) ex_hash) ex_reset_ops (ex_admins id, []))))) = 200"
    by (simp add: ex_reset_run reply_def AdminResetPassword_def bind_reset_def ex_address Let_def GetVerifiedOTP_def verified_otp_def newest_otp_def
        select_row_def sql_simps hardwired_def admin_HashPassword_def ex_hash_def UpdateAdminUser_def wrap_err_def DeleteOTPsByEmail_def Minute_def Second_def)
  from admin_reset_backed [OF _ this] show ?thesis by (simp add: ex_admins_def)
qed

theorem admin_login_token_sound_witness:
  "\<exists>u \<in> set (admin_users (ex_admins id)). au_Active u \<and> ex_check (au_PasswordHash u) ''0123456789'' \<and> \<not> au_MFAEnabled u"
proof -
  let ?x = "AdminLogin (\<lambda>_. True) ex_check ex_tokens ex_sign map_redis 9 [] [] (Inr (plain_login ''ann@acme.io'' ''0123456789'')) Map.empty (ex_admins id, [])"
  have u: "List.find (admin_row ''ann@acme.io'' (ex_admins id)) (admin_users (ex_admins id)) = Some ex_ann"
    using ex_ann_found [of id] by (simp add: ex_ann_def ex_admin_user_def)
  have "\<not> temporary_expired 9 (scanned ex_ann)" by (simp add: ex_admin_defs temporary_expired_def)
  from admin_login_success_ok [OF this, of ex_sign ex_tokens "[]" "[]" "(ex_admins id, [])"] ex_sign_ok
  obtain resp where "fst ?x = admin_reply 200 (ALogin resp)" "lr_Token resp \<noteq> None"
    using AdminLogin_plain [OF u, of "\<lambda>_. True" "''0123456789''" ex_check ex_tokens ex_sign map_redis 9 "[]" "[]" Map.empty]
    by (auto simp: ex_admin_defs)
  then have "http_body (fst ?x) = ALogin resp" and "\<exists>tok. lr_Token resp = Some tok" by auto
  then show ?thesis
    using admin_login_token_sound [of "\<lambda>_. True" ex_check ex_tokens ex_sign map_redis 9 "[]" "[]" "plain_login ''ann@acme.io'' ''0123456789''"
        Map.empty "(ex_admins id, [])" "fst ?x" "fst (snd ?x)" "snd (snd ?x)" resp]
    by (auto simp: plain_login_def)
qed

end
