(* ===== verification/Spire_Store.thy ===== *)
theory Spire_Store
  imports Directory Go_Net
begin

text \<open>
  The stores of the workload identity service (\<^verbatim>\<open>internal/spire\<close>): its errors and rows, the tenants of the
  platform database, the connections to the databases of the tenants, the repositories of workload entries
  and agents, and the client of Vault.

  \<^item> \<open>spire\<close> is the platform table of tenants, the databases of the tenants by name, the connections and
    the signing keys that the process holds, and the requests that Vault has received, in order.
  \<^item> \<open>spire_env\<close> holds what is not code of the repository: the cast of PostgreSQL from text to
    \<^verbatim>\<open>uuid\<close>, whether the database reads \<^verbatim>\<open>??\<close> as the operator that tests for a key, the
    answers of Vault to a request after the requests before it, the checks of \<^verbatim>\<open>crypto/x509\<close> on a signing request and the digest of a certificate,
    the path of \<^verbatim>\<open>url.Parse\<close>, and the text of a database error.
  \<^item> A Go map with text keys is an association list; the first pair of a key is its value.
  \<^item> An operation is an action on the connection (\<open>act\<close>); \<open>bind_act\<close> is the early return on an error. A schedule
    of outcomes covers the statements of all databases; requests to Vault fail by the answer of Vault.
\<close>

section \<open>Errors\<close>

text \<open>\<^verbatim>\<open>*errors.AppError\<close> with its code, message, status and wrapped error; other errors; and \<^verbatim>\<open>fmt.Errorf\<close> with \<^verbatim>\<open>%w\<close>.\<close>

datatype spire_error =
    AppError string string nat "spire_error option"
  | Plain go_error
  | Wrapped string spire_error
  | Panic string                \<comment> \<open>a run-time panic, which the framework recovers\<close>

definition NewUnauthorizedError :: "string \<Rightarrow> spire_error option \<Rightarrow> spire_error" where
  "NewUnauthorizedError msg err = AppError ''UNAUTHORIZED'' msg 401 err"
definition NewForbiddenError :: "string \<Rightarrow> spire_error option \<Rightarrow> spire_error" where
  "NewForbiddenError msg err = AppError ''FORBIDDEN'' msg 403 err"
definition NewNotFoundError :: "string \<Rightarrow> spire_error option \<Rightarrow> spire_error" where
  "NewNotFoundError msg err = AppError ''NOT_FOUND'' msg 404 err"
definition NewBadRequestError :: "string \<Rightarrow> spire_error option \<Rightarrow> spire_error" where
  "NewBadRequestError msg err = AppError ''BAD_REQUEST'' msg 400 err"
definition NewInternalError :: "string \<Rightarrow> spire_error option \<Rightarrow> spire_error" where
  "NewInternalError msg err = AppError ''INTERNAL_ERROR'' msg 500 err"
definition NewConflictError :: "string \<Rightarrow> spire_error option \<Rightarrow> spire_error" where
  "NewConflictError msg err = AppError ''CONFLICT'' msg 409 err"

text \<open>\<^verbatim>\<open>Error()\<close>; \<open>show\<close> gives the text of an error of another package.\<close>

fun Error_text :: "(go_error \<Rightarrow> string) \<Rightarrow> spire_error \<Rightarrow> string" where
  "Error_text show (AppError _ msg _ None) = msg"
| "Error_text show (AppError _ msg _ (Some e)) = msg @ '': '' @ Error_text show e"
| "Error_text show (Plain e) = show e"
| "Error_text show (Wrapped msg e) = msg @ Error_text show e"
| "Error_text show (Panic msg) = msg"

section \<open>Data model\<close>

type_synonym str_map = "(string \<times> string) list"
type_synonym any_map = "(string \<times> goval) list"

text \<open>The number of keys of a map.\<close>

definition map_len :: "('k \<times> 'v) list \<Rightarrow> nat" where
  "map_len m = length (remdups (map fst m))"

record WorkloadEntry =
  we_ID :: string
  we_TenantID :: string
  we_SpiffeID :: string
  we_ParentID :: string
  we_Selectors :: str_map
  we_TTL :: "int option"
  we_Admin :: bool
  we_Downstream :: bool
  we_CreatedAt :: gotime
  we_UpdatedAt :: gotime

record WorkloadEntryFilter =
  wf_TenantID :: string
  wf_ParentID :: string
  wf_SpiffeID :: string
  wf_SpiffeIDPartial :: bool
  wf_SelectorType :: string
  wf_Admin :: "bool option"
  wf_Limit :: int
  wf_Offset :: int

definition MatchesSelectors :: "WorkloadEntry \<Rightarrow> str_map \<Rightarrow> bool" where
  "MatchesSelectors we sels = (\<forall>k \<in> set (map fst (we_Selectors we)). map_of sels k = map_of (we_Selectors we) k)"

definition entry_Validate :: "WorkloadEntry \<Rightarrow> spire_error option" where
  "entry_Validate we =
     (if we_TenantID we = [] then Some (Plain (Errorf ''tenant_id is required''))
      else if we_SpiffeID we = [] then Some (Plain (Errorf ''spiffe_id is required''))
      else if map_len (we_Selectors we) = 0 then Some (Plain (Errorf ''at least one selector is required''))
      else (case we_TTL we of
              Some t \<Rightarrow> if t \<le> 0 then Some (Plain (Errorf ''ttl must be positive'')) else None
            | None \<Rightarrow> None))"

record Agent =
  ag_ID :: string
  ag_TenantID :: string
  ag_NodeID :: string
  ag_SpiffeID :: string
  ag_AttestationType :: string
  ag_NodeSelectors :: str_map
  ag_CertificateSerial :: string
  ag_Status :: string
  ag_ClusterName :: string
  ag_LastSeen :: gotime
  ag_LastHeartbeat :: gotime
  ag_CreatedAt :: gotime
  ag_UpdatedAt :: gotime

definition AgentStatusActive :: string where "AgentStatusActive = ''active''"

text \<open>A row of \<^verbatim>\<open>tenants\<close> with the column that the identity service added, and the struct it is scanned into.\<close>

record tenant_row = Tenant +
  tn_VaultMount :: "string option"

record spire_Tenant =
  st_ID :: string
  st_Name :: string
  st_VaultMount :: string
  st_Status :: string
  st_CreatedAt :: gotime
  st_UpdatedAt :: gotime

definition tenant_IsActive :: "spire_Tenant \<Rightarrow> bool" where
  "tenant_IsActive t \<longleftrightarrow> st_Status t = ''active''"

record workload_svid =
  sv_TenantID :: string
  sv_EntryID :: string
  sv_SpiffeID :: string
  sv_SerialNumber :: string
  sv_TTL :: int
  sv_IssuedAt :: gotime

record Workload =
  wl_ID :: string
  wl_TenantID :: string
  wl_SpiffeID :: string
  wl_Selectors :: str_map
  wl_VaultRole :: string
  wl_Status :: string
  wl_AttestationType :: string
  wl_CreatedAt :: gotime
  wl_UpdatedAt :: gotime

record Certificate =
  ct_ID :: string
  ct_TenantID :: string
  ct_WorkloadID :: string
  ct_SerialNumber :: string
  ct_SHA256Fingerprint :: string
  ct_SpiffeID :: string
  ct_CertPEM :: string
  ct_CAChain :: "string list"
  ct_IssuedAt :: gotime
  ct_ExpiresAt :: gotime
  ct_RevokedAt :: "gotime option"
  ct_Status :: string
  ct_IssueType :: string
  ct_CreatedAt :: gotime

record AttestationPolicy =
  ap_ID :: string
  ap_TenantID :: string
  ap_Name :: string
  ap_Description :: string
  ap_AttestationType :: string
  ap_SelectorRules :: any_map
  ap_VaultRole :: string
  ap_TTL :: int
  ap_Priority :: int
  ap_Enabled :: bool
  ap_CreatedAt :: gotime
  ap_UpdatedAt :: gotime

record AuditLog =
  al_ID :: string
  al_TenantID :: string
  al_EventType :: string
  al_WorkloadID :: string
  al_CertificateID :: string
  al_SpiffeID :: string
  al_Success :: bool
  al_ErrorMessage :: string
  al_Metadata :: any_map
  al_IPAddress :: string
  al_UserAgent :: string
  al_CreatedAt :: gotime

text \<open>
  The database of a tenant. No migration creates \<^verbatim>\<open>workload_svids\<close>, \<^verbatim>\<open>certificates\<close> and \<^verbatim>\<open>audit_icp_logs\<close>,
  so these tables may be missing, the last one also from the platform database.
\<close>

record tenant_db =
  db_entries :: "WorkloadEntry list"
  db_agents :: "Agent list"
  db_svids :: "workload_svid list option"
  db_workloads :: "Workload list"
  db_policies :: "AttestationPolicy list"
  db_certificates :: "Certificate list option"
  db_audit :: "AuditLog list option"

text \<open>A request to Vault: a write of data to a path, a read of a path, and a plain request for a path.\<close>

datatype vault_call = VWrite string any_map | VRead string | VGet string

record spire =
  sp_tenants :: "tenant_row list"
  sp_dbs :: "string \<rightharpoonup> tenant_db"
  sp_conns :: "string \<rightharpoonup> string"
  sp_keys :: "string \<rightharpoonup> string"
  sp_vault :: "vault_call list"
  sp_audit :: "AuditLog list option"

datatype csr_check = NoPEM | BadCSR | BadCSRSignature | GoodCSR

record spire_env =
  se_uuid :: "string \<Rightarrow> uuid option"
  se_key_operator :: bool
  se_write :: "vault_call list \<Rightarrow> string \<Rightarrow> any_map \<Rightarrow> go_error + any_map option"
  se_read :: "vault_call list \<Rightarrow> string \<Rightarrow> go_error + any_map option"
  se_get :: "vault_call list \<Rightarrow> string \<Rightarrow> go_error + (nat \<times> (go_error + string))"
  se_pkiBasePath :: string
  se_csr :: "string \<Rightarrow> csr_check"
  se_fingerprint :: "string \<Rightarrow> string"
  se_url_path :: "string \<Rightarrow> go_error + string"
  se_show :: "go_error \<Rightarrow> string"
  se_float_int :: "rat \<Rightarrow> int"

section \<open>Actions\<close>

type_synonym 'r act = "spire conn \<Rightarrow> (spire_error + 'r) \<times> spire conn"

definition return_act :: "'r \<Rightarrow> 'r act" where
  "return_act x c = (Inr x, c)"

definition fail_act :: "spire_error \<Rightarrow> 'r act" where
  "fail_act e c = (Inl e, c)"

definition bind_act :: "'r act \<Rightarrow> ('r \<Rightarrow> 'q act) \<Rightarrow> 'q act" where
  "bind_act m f c = (case m c of (Inl e, c') \<Rightarrow> (Inl e, c') | (Inr x, c') \<Rightarrow> f x c')"

text \<open>The error of an action, replaced, and the action whose error its caller looks at.\<close>

definition map_error :: "(spire_error \<Rightarrow> spire_error) \<Rightarrow> 'r act \<Rightarrow> 'r act" where
  "map_error g m c = (case m c of (Inl e, c') \<Rightarrow> (Inl (g e), c') | (Inr x, c') \<Rightarrow> (Inr x, c'))"

definition try_act :: "'r act \<Rightarrow> (spire_error + 'r) act" where
  "try_act m c = (case m c of (r, c') \<Rightarrow> (Inr r, c'))"

definition of_result :: "spire_error + 'r \<Rightarrow> 'r act" where
  "of_result r c = (r, c)"

text \<open>A statement: on the platform database, and on the database with a given name.\<close>

definition stmt :: "(spire \<Rightarrow> go_error + spire \<times> 'r) \<Rightarrow> 'r act" where
  "stmt f c =
     (case exec (\<lambda>s. case f s of Inl e \<Rightarrow> (s, Inl e) | Inr (s', x) \<Rightarrow> (s', Inr x)) c of
        (Inl e, c') \<Rightarrow> (Inl (Plain e), c')
      | (Inr (Inl e), c') \<Rightarrow> (Inl (Plain e), c')
      | (Inr (Inr x), c') \<Rightarrow> (Inr x, c'))"

definition on_db :: "string \<Rightarrow> (tenant_db \<Rightarrow> go_error + tenant_db \<times> 'r) \<Rightarrow> spire \<Rightarrow> go_error + spire \<times> 'r" where
  "on_db n f s =
     (case sp_dbs s n of
        None \<Rightarrow> Inl DBError
      | Some d \<Rightarrow> (case f d of Inl e \<Rightarrow> Inl e
                   | Inr (d', x) \<Rightarrow> Inr (s\<lparr> sp_dbs := (sp_dbs s)(n \<mapsto> d') \<rparr>, x)))"

definition db_stmt :: "string \<Rightarrow> (tenant_db \<Rightarrow> go_error + tenant_db \<times> 'r) \<Rightarrow> 'r act" where
  "db_stmt n f = stmt (on_db n f)"

definition db_read :: "string \<Rightarrow> (tenant_db \<Rightarrow> go_error + 'r) \<Rightarrow> 'r act" where
  "db_read n g = db_stmt n (\<lambda>d. case g d of Inl e \<Rightarrow> Inl e | Inr x \<Rightarrow> Inr (d, x))"

text \<open>A change of the state of the process that sends no statement.\<close>

definition process :: "(spire \<Rightarrow> spire) \<Rightarrow> unit act" where
  "process f c = (Inr (), f (fst c), snd c)"

definition ask :: "(spire \<Rightarrow> 'r) \<Rightarrow> 'r act" where
  "ask g c = (Inr (g (fst c)), c)"

text \<open>A text parameter for a column of type \<^verbatim>\<open>uuid\<close>.\<close>

definition cast_uuid :: "spire_env \<Rightarrow> string \<Rightarrow> go_error + uuid" where
  "cast_uuid E x = (case se_uuid E x of None \<Rightarrow> Inl DBError | Some u \<Rightarrow> Inr u)"

section \<open>Tenants\<close>

definition scan_tenant :: "tenant_row \<Rightarrow> spire_Tenant" where
  "scan_tenant t =
     \<lparr> st_ID = tn_TenantID t, st_Name = tn_Name t,
       st_VaultMount = (case tn_VaultMount t of Some m \<Rightarrow> m | None \<Rightarrow> tn_TenantDomain t),
       st_Status = tn_Status t, st_CreatedAt = tn_CreatedAt t, st_UpdatedAt = tn_UpdatedAt t \<rparr>"

definition no_tenant :: "spire_error \<Rightarrow> spire_error" where
  "no_tenant e = (if e = Plain NoRows then NewNotFoundError ''Tenant not found'' (Some e)
                  else NewInternalError ''Failed to get tenant'' (Some e))"

definition tenant_GetByID :: "spire_env \<Rightarrow> string \<Rightarrow> spire_Tenant act" where
  "tenant_GetByID E i =
     map_error no_tenant
       (stmt (\<lambda>s. case cast_uuid E i of
          Inl e \<Rightarrow> Inl e
        | Inr u \<Rightarrow> (case select_row (\<lambda>t. tn_TenantID t = u \<and> tn_Status t = ''active'') (sp_tenants s) of
                      Inl e \<Rightarrow> Inl e | Inr t \<Rightarrow> Inr (s, scan_tenant t))))"

definition tenant_GetByDomain :: "string \<Rightarrow> spire_Tenant act" where
  "tenant_GetByDomain domain =
     map_error no_tenant
       (stmt (\<lambda>s. case select_row (\<lambda>t. tn_TenantDomain t = domain \<and> tn_Status t = ''active'') (sp_tenants s) of
                    Inl e \<Rightarrow> Inl e | Inr t \<Rightarrow> Inr (s, scan_tenant t)))"

section \<open>Connections\<close>

definition tenant_db_name :: "string \<Rightarrow> string" where
  "tenant_db_name tenantID = ''tenant_'' @ map (\<lambda>c. if c = CHR ''-'' then CHR ''_'' else c) tenantID"

definition Ping :: "string \<Rightarrow> unit act" where
  "Ping n = db_read n (\<lambda>d. Inr ())"

definition open_connection :: "string \<Rightarrow> string \<Rightarrow> string act" where
  "open_connection tenantID n =
     bind_act (map_error (\<lambda>e. NewInternalError ''Failed to connect to tenant database'' (Some e)) (Ping n))
       (\<lambda>_. bind_act (process (\<lambda>s. s\<lparr> sp_conns := (sp_conns s)(tenantID \<mapsto> n) \<rparr>)) (\<lambda>_. return_act n))"

definition createTenantConnection :: "spire_env \<Rightarrow> string \<Rightarrow> string act" where
  "createTenantConnection E tenantID =
     bind_act (ask (\<lambda>s. sp_conns s tenantID))
       (\<lambda>conn. case conn of
          Some n \<Rightarrow> return_act n
        | None \<Rightarrow>
            bind_act (map_error (\<lambda>e. NewNotFoundError ''Tenant not found'' (Some e)) (tenant_GetByID E tenantID))
              (\<lambda>tenant.
                 if \<not> tenant_IsActive tenant then fail_act (NewForbiddenError ''Tenant is not active'' None)
                 else open_connection tenantID (tenant_db_name tenantID)))"

definition removeTenantConnection :: "string \<Rightarrow> unit act" where
  "removeTenantConnection tenantID = process (\<lambda>s. s\<lparr> sp_conns := (sp_conns s)(tenantID := None) \<rparr>)"

definition GetTenantDB :: "spire_env \<Rightarrow> string \<Rightarrow> string act" where
  "GetTenantDB E tenantID =
     bind_act (ask (\<lambda>s. sp_conns s tenantID))
       (\<lambda>conn. case conn of
          None \<Rightarrow> createTenantConnection E tenantID
        | Some n \<Rightarrow>
            bind_act (try_act (Ping n))
              (\<lambda>r. case r of
                 Inr _ \<Rightarrow> return_act n
               | Inl _ \<Rightarrow> bind_act (removeTenantConnection tenantID) (\<lambda>_. createTenantConnection E tenantID)))"

definition createTenantConnectionByName :: "string \<Rightarrow> string \<Rightarrow> string act" where
  "createTenantConnectionByName tenantID dbName =
     bind_act (ask (\<lambda>s. sp_conns s tenantID))
       (\<lambda>conn. case conn of Some n \<Rightarrow> return_act n | None \<Rightarrow> open_connection tenantID dbName)"

definition GetTenantDBByName :: "string \<Rightarrow> string \<Rightarrow> string act" where
  "GetTenantDBByName tenantID dbName =
     bind_act (ask (\<lambda>s. sp_conns s tenantID))
       (\<lambda>conn. case conn of
          None \<Rightarrow> createTenantConnectionByName tenantID dbName
        | Some n \<Rightarrow>
            bind_act (try_act (Ping n))
              (\<lambda>r. case r of
                 Inr _ \<Rightarrow> return_act n
               | Inl _ \<Rightarrow> bind_act (removeTenantConnection tenantID)
                             (\<lambda>_. createTenantConnectionByName tenantID dbName)))"

section \<open>Workload entries\<close>

text \<open>
  The constraints of \<^verbatim>\<open>workload_entries\<close>: ids and SPIFFE IDs are unique, the texts have at most 512
  characters, a lifetime is a 32-bit integer.
\<close>

definition entry_fits :: "WorkloadEntry \<Rightarrow> bool" where
  "entry_fits we \<longleftrightarrow>
     length (we_SpiffeID we) \<le> 512 \<and> length (we_ParentID we) \<le> 512 \<and>
     (case we_TTL we of None \<Rightarrow> True | Some t \<Rightarrow> - (2 ^ 31) \<le> t \<and> t < 2 ^ 31)"

text \<open>The row as the database stores it: the ids in canonical form.\<close>

definition insert_entry :: "spire_env \<Rightarrow> WorkloadEntry \<Rightarrow> tenant_db \<Rightarrow> go_error + tenant_db \<times> unit" where
  "insert_entry E we d =
     (case (cast_uuid E (we_ID we), cast_uuid E (we_TenantID we)) of
        (Inr i, Inr t) \<Rightarrow>
          if entry_fits we \<and> (\<forall>r \<in> set (db_entries d). we_ID r \<noteq> i \<and> we_SpiffeID r \<noteq> we_SpiffeID we)
          then Inr (d\<lparr> db_entries := db_entries d @ [we\<lparr> we_ID := i, we_TenantID := t \<rparr>] \<rparr>, ())
          else Inl DBError
      | _ \<Rightarrow> Inl DBError)"

definition stamp_entry :: "gotime \<Rightarrow> uuid \<Rightarrow> WorkloadEntry \<Rightarrow> WorkloadEntry" where
  "stamp_entry now newID we =
     we\<lparr> we_ID := (if we_ID we = [] then newID else we_ID we), we_CreatedAt := now, we_UpdatedAt := now \<rparr>"

definition entry_Create :: "spire_env \<Rightarrow> gotime \<Rightarrow> uuid \<Rightarrow> string \<Rightarrow> WorkloadEntry \<Rightarrow> WorkloadEntry act" where
  "entry_Create E now newID n we =
     (case entry_Validate we of
        Some e \<Rightarrow> fail_act e
      | None \<Rightarrow>
          (let we' = stamp_entry now newID we
           in bind_act (map_error (Wrapped ''failed to create workload entry: '') (db_stmt n (insert_entry E we')))
                (\<lambda>_. return_act we')))"

text \<open>\<^verbatim>\<open>sql.ErrNoRows\<close> becomes \<^verbatim>\<open>nil, nil\<close>.\<close>

definition read_entry :: "string \<Rightarrow> (tenant_db \<Rightarrow> go_error + WorkloadEntry) \<Rightarrow> WorkloadEntry option act" where
  "read_entry n g =
     map_error (Wrapped ''failed to get workload entry: '')
       (db_read n (\<lambda>d. case g d of Inr we \<Rightarrow> Inr (Some we) | Inl NoRows \<Rightarrow> Inr None | Inl e \<Rightarrow> Inl e))"

definition entry_GetByID :: "spire_env \<Rightarrow> string \<Rightarrow> string \<Rightarrow> WorkloadEntry option act" where
  "entry_GetByID E n i =
     read_entry n (\<lambda>d. case cast_uuid E i of
        Inl e \<Rightarrow> Inl e | Inr u \<Rightarrow> select_row (\<lambda>r. we_ID r = u) (db_entries d))"

definition entry_GetBySpiffeID :: "spire_env \<Rightarrow> string \<Rightarrow> string \<Rightarrow> string \<Rightarrow> WorkloadEntry option act" where
  "entry_GetBySpiffeID E n tenantID spiffeID =
     read_entry n (\<lambda>d. case cast_uuid E tenantID of
        Inl e \<Rightarrow> Inl e
      | Inr u \<Rightarrow> select_row (\<lambda>r. we_TenantID r = u \<and> we_SpiffeID r = spiffeID) (db_entries d))"

text \<open>\<^verbatim>\<open>LIKE\<close> of PostgreSQL, with the percent sign, the underscore and the backslash as escape.\<close>

fun like :: "string \<Rightarrow> string \<Rightarrow> bool" where
  "like [] s = (s = [])"
| "like (p # ps) [] = (p = CHR ''%'' \<and> like ps [])"
| "like (p # ps) (c # s) =
     (if p = CHR ''%'' then like ps (c # s) \<or> like (p # ps) s
      else if p = CHR ''_'' then like ps s
      else if p = CHR 0x5C then (case ps of [] \<Rightarrow> False | q # qs \<Rightarrow> q = c \<and> like qs s)
      else p = c \<and> like ps s)"

definition ilike :: "string \<Rightarrow> string \<Rightarrow> bool" where
  "ilike s p = like (ToLower p) (ToLower s)"

definition selector_keys :: "string \<Rightarrow> string list option" where
  "selector_keys typ =
     (if typ = ''unix'' then Some [''unix:uid'', ''unix:gid'', ''unix:pid'', ''unix:user'', ''unix:group'']
      else if typ = ''kubernetes''
      then Some [''k8s:ns'', ''k8s:sa'', ''k8s:pod-name'', ''k8s:pod-uid'', ''k8s:pod-label:app'']
      else if typ = ''docker'' then Some [''docker:label'', ''docker:env'', ''docker:image_id'']
      else None)"

text \<open>The conditions that \<^verbatim>\<open>List\<close> and \<^verbatim>\<open>Count\<close> build from a filter.\<close>

definition filter_matches :: "uuid \<Rightarrow> WorkloadEntryFilter \<Rightarrow> WorkloadEntry \<Rightarrow> bool" where
  "filter_matches tenant f r \<longleftrightarrow>
     we_TenantID r = tenant \<and>
     (wf_ParentID f = [] \<or> we_ParentID r = wf_ParentID f) \<and>
     (wf_SpiffeID f = [] \<or>
        (if wf_SpiffeIDPartial f then ilike (we_SpiffeID r) (CHR ''%'' # wf_SpiffeID f @ ''%'')
         else we_SpiffeID r = wf_SpiffeID f)) \<and>
     (case wf_Admin f of None \<Rightarrow> True | Some a \<Rightarrow> we_Admin r = a) \<and>
     (case selector_keys (wf_SelectorType f) of
        None \<Rightarrow> True | Some ks \<Rightarrow> list_ex (\<lambda>k. map_of (we_Selectors r) k \<noteq> None) ks)"

definition filter_rows :: "spire_env \<Rightarrow> WorkloadEntryFilter \<Rightarrow> tenant_db \<Rightarrow> go_error + WorkloadEntry list" where
  "filter_rows E f d =
     (case cast_uuid E (wf_TenantID f) of
        Inl e \<Rightarrow> Inl e
      | Inr u \<Rightarrow> if selector_keys (wf_SelectorType f) \<noteq> None \<and> \<not> se_key_operator E then Inl DBError
                 else Inr (filter (filter_matches u f) (db_entries d)))"

definition newest_first :: "WorkloadEntry list \<Rightarrow> WorkloadEntry list" where
  "newest_first = sort_key (\<lambda>r. - we_CreatedAt r)"

definition page :: "int \<Rightarrow> int \<Rightarrow> 'r list \<Rightarrow> 'r list" where
  "page limit offset rs =
     (let rs' = (if offset > 0 then drop (nat offset) rs else rs)
      in if limit > 0 then take (nat limit) rs' else rs')"

definition entry_List :: "spire_env \<Rightarrow> string \<Rightarrow> WorkloadEntryFilter \<Rightarrow> WorkloadEntry list act" where
  "entry_List E n f =
     map_error (Wrapped ''failed to list workload entries: '')
       (db_read n (\<lambda>d. case filter_rows E f d of
          Inl e \<Rightarrow> Inl e | Inr rs \<Rightarrow> Inr (page (wf_Limit f) (wf_Offset f) (newest_first rs))))"

definition entry_Count :: "spire_env \<Rightarrow> string \<Rightarrow> WorkloadEntryFilter \<Rightarrow> int act" where
  "entry_Count E n f =
     map_error (Wrapped ''failed to count workload entries: '')
       (db_read n (\<lambda>d. case filter_rows E f d of Inl e \<Rightarrow> Inl e | Inr rs \<Rightarrow> Inr (int (length rs))))"

definition entry_ListByParent :: "spire_env \<Rightarrow> string \<Rightarrow> string \<Rightarrow> string \<Rightarrow> WorkloadEntry list act" where
  "entry_ListByParent E n tenantID parentID =
     map_error (Wrapped ''failed to list workload entries by parent: '')
       (db_read n (\<lambda>d. case cast_uuid E tenantID of
          Inl e \<Rightarrow> Inl e
        | Inr u \<Rightarrow> Inr (newest_first
            (filter (\<lambda>r. we_TenantID r = u \<and> (we_ParentID r = parentID \<or> we_ParentID r = [])) (db_entries d)))))"

definition set_entry :: "gotime \<Rightarrow> WorkloadEntry \<Rightarrow> WorkloadEntry \<Rightarrow> WorkloadEntry" where
  "set_entry now we r =
     r\<lparr> we_SpiffeID := we_SpiffeID we, we_ParentID := we_ParentID we, we_Selectors := we_Selectors we,
        we_TTL := we_TTL we, we_Admin := we_Admin we, we_Downstream := we_Downstream we, we_UpdatedAt := now \<rparr>"

text \<open>The number of rows touched.\<close>

definition update_entry ::
  "spire_env \<Rightarrow> gotime \<Rightarrow> WorkloadEntry \<Rightarrow> tenant_db \<Rightarrow> go_error + tenant_db \<times> int" where
  "update_entry E now we d =
     (case cast_uuid E (we_ID we) of
        Inl e \<Rightarrow> Inl e
      | Inr i \<Rightarrow>
          if affected (\<lambda>r. we_ID r = i) (db_entries d) = 0 then Inr (d, 0)
          else if entry_fits we \<and> (\<forall>r \<in> set (db_entries d). we_ID r = i \<or> we_SpiffeID r \<noteq> we_SpiffeID we)
          then Inr (d\<lparr> db_entries := update_where (\<lambda>r. we_ID r = i) (set_entry now we) (db_entries d) \<rparr>,
                    affected (\<lambda>r. we_ID r = i) (db_entries d))
          else Inl DBError)"

definition entry_Update :: "spire_env \<Rightarrow> gotime \<Rightarrow> string \<Rightarrow> WorkloadEntry \<Rightarrow> WorkloadEntry act" where
  "entry_Update E now n we =
     (case entry_Validate we of
        Some e \<Rightarrow> fail_act e
      | None \<Rightarrow>
          bind_act (map_error (Wrapped ''failed to update workload entry: '') (db_stmt n (update_entry E now we)))
            (\<lambda>k. if k = 0 then fail_act (Plain (Errorf (''workload entry not found: '' @ we_ID we)))
                 else return_act (we\<lparr> we_UpdatedAt := now \<rparr>)))"

definition delete_entry :: "spire_env \<Rightarrow> string \<Rightarrow> tenant_db \<Rightarrow> go_error + tenant_db \<times> int" where
  "delete_entry E i d =
     (case cast_uuid E i of
        Inl e \<Rightarrow> Inl e
      | Inr u \<Rightarrow> Inr (d\<lparr> db_entries := delete_where (\<lambda>r. we_ID r = u) (db_entries d) \<rparr>,
                     affected (\<lambda>r. we_ID r = u) (db_entries d)))"

definition entry_Delete :: "spire_env \<Rightarrow> string \<Rightarrow> string \<Rightarrow> unit act" where
  "entry_Delete E n i =
     bind_act (map_error (Wrapped ''failed to delete workload entry: '') (db_stmt n (delete_entry E i)))
       (\<lambda>k. if k = 0 then fail_act (Plain (Errorf (''workload entry not found: '' @ i))) else return_act ())"

definition claim_entries ::
  "spire_env \<Rightarrow> gotime \<Rightarrow> string \<Rightarrow> string \<Rightarrow> tenant_db \<Rightarrow> go_error + tenant_db \<times> int" where
  "claim_entries E now tenantID agent d =
     (case cast_uuid E tenantID of
        Inl e \<Rightarrow> Inl e
      | Inr u \<Rightarrow>
          if length agent \<le> 512 \<or> (\<forall>r \<in> set (db_entries d). \<not> (we_TenantID r = u \<and> we_ParentID r = []))
          then Inr (d\<lparr> db_entries := update_where (\<lambda>r. we_TenantID r = u \<and> we_ParentID r = [])
                        (\<lambda>r. r\<lparr> we_ParentID := agent, we_UpdatedAt := now \<rparr>) (db_entries d) \<rparr>,
                    affected (\<lambda>r. we_TenantID r = u \<and> we_ParentID r = []) (db_entries d))
          else Inl DBError)"

definition ClaimUnassignedEntries :: "spire_env \<Rightarrow> gotime \<Rightarrow> string \<Rightarrow> string \<Rightarrow> string \<Rightarrow> int act" where
  "ClaimUnassignedEntries E now n tenantID agent =
     map_error (Wrapped ''failed to claim unassigned entries: '') (db_stmt n (claim_entries E now tenantID agent))"

text \<open>Containment of \<^verbatim>\<open>jsonb\<close> objects with text values.\<close>

definition jsonb_contains :: "str_map \<Rightarrow> str_map \<Rightarrow> bool" where
  "jsonb_contains a b = list_all (\<lambda>k. map_of a k = map_of b k) (map fst b)"

definition entry_FindMatchingEntries :: "spire_env \<Rightarrow> string \<Rightarrow> string \<Rightarrow> str_map \<Rightarrow> WorkloadEntry list act" where
  "entry_FindMatchingEntries E n tenantID sels =
     map_error (Wrapped ''failed to find matching workload entries: '')
       (db_read n (\<lambda>d. case cast_uuid E tenantID of
          Inl e \<Rightarrow> Inl e
        | Inr u \<Rightarrow> Inr (newest_first
            (filter (\<lambda>r. we_TenantID r = u \<and> jsonb_contains sels (we_Selectors r)) (db_entries d)))))"

section \<open>Agents\<close>

text \<open>\<^verbatim>\<open>agents\<close> has no key; the texts of a row have bounded lengths.\<close>

definition agent_fits :: "Agent \<Rightarrow> bool" where
  "agent_fits a \<longleftrightarrow>
     length (ag_SpiffeID a) \<le> 512 \<and> length (ag_TenantID a) \<le> 255 \<and> length (ag_NodeID a) \<le> 255 \<and>
     length (ag_AttestationType a) \<le> 100 \<and> length (ag_CertificateSerial a) \<le> 255 \<and>
     length (ag_Status a) \<le> 50 \<and> length (ag_ClusterName a) \<le> 255"

definition heartbeat :: "Agent \<Rightarrow> gotime" where
  "heartbeat a = (if ag_LastHeartbeat a = zero_time then ag_LastSeen a else ag_LastHeartbeat a)"

definition insert_agent :: "spire_env \<Rightarrow> Agent \<Rightarrow> tenant_db \<Rightarrow> go_error + tenant_db \<times> unit" where
  "insert_agent E a d =
     (case cast_uuid E (ag_ID a) of
        Inl e \<Rightarrow> Inl e
      | Inr i \<Rightarrow> if agent_fits a
                 then Inr (d\<lparr> db_agents := db_agents d @ [a\<lparr> ag_ID := i, ag_LastHeartbeat := heartbeat a \<rparr>] \<rparr>, ())
                 else Inl DBError)"

definition agent_Create :: "spire_env \<Rightarrow> gotime \<Rightarrow> string \<Rightarrow> Agent \<Rightarrow> unit act" where
  "agent_Create E now n a =
     map_error (\<lambda>e. NewInternalError ''Failed to create agent'' (Some e))
       (db_stmt n (insert_agent E (a\<lparr> ag_CreatedAt := now, ag_UpdatedAt := now \<rparr>)))"

definition no_agent :: "spire_error \<Rightarrow> spire_error" where
  "no_agent e = (if e = Plain NoRows then NewNotFoundError ''Agent not found'' (Some e)
                 else NewInternalError ''Failed to get agent'' (Some e))"

definition agent_GetByID :: "spire_env \<Rightarrow> string \<Rightarrow> string \<Rightarrow> Agent act" where
  "agent_GetByID E n i =
     map_error no_agent
       (db_read n (\<lambda>d. case cast_uuid E i of
          Inl e \<Rightarrow> Inl e | Inr u \<Rightarrow> select_row (\<lambda>a. ag_ID a = u) (db_agents d)))"

definition agent_GetBySpiffeID :: "string \<Rightarrow> string \<Rightarrow> Agent act" where
  "agent_GetBySpiffeID n spiffeID =
     map_error no_agent (db_read n (\<lambda>d. select_row (\<lambda>a. ag_SpiffeID a = spiffeID) (db_agents d)))"

definition GetByTenantAndNode :: "string \<Rightarrow> string \<Rightarrow> string \<Rightarrow> Agent act" where
  "GetByTenantAndNode n tenantID nodeID =
     map_error no_agent
       (db_read n (\<lambda>d. select_row (\<lambda>a. ag_TenantID a = tenantID \<and> ag_NodeID a = nodeID) (db_agents d)))"

definition set_agent :: "gotime \<Rightarrow> Agent \<Rightarrow> Agent \<Rightarrow> Agent" where
  "set_agent now a r =
     r\<lparr> ag_NodeID := ag_NodeID a, ag_SpiffeID := ag_SpiffeID a, ag_AttestationType := ag_AttestationType a,
        ag_NodeSelectors := ag_NodeSelectors a, ag_CertificateSerial := ag_CertificateSerial a,
        ag_Status := ag_Status a, ag_ClusterName := ag_ClusterName a, ag_LastSeen := ag_LastSeen a,
        ag_LastHeartbeat := heartbeat a, ag_UpdatedAt := now \<rparr>"

definition change_agents ::
  "spire_env \<Rightarrow> string \<Rightarrow> bool \<Rightarrow> (Agent \<Rightarrow> Agent) \<Rightarrow> tenant_db \<Rightarrow> go_error + tenant_db \<times> int" where
  "change_agents E i fits f d =
     (case cast_uuid E i of
        Inl e \<Rightarrow> Inl e
      | Inr u \<Rightarrow> if fits \<or> affected (\<lambda>r. ag_ID r = u) (db_agents d) = 0
                 then Inr (d\<lparr> db_agents := update_where (\<lambda>r. ag_ID r = u) f (db_agents d) \<rparr>,
                           affected (\<lambda>r. ag_ID r = u) (db_agents d))
                 else Inl DBError)"

definition agent_touched :: "int \<Rightarrow> unit act" where
  "agent_touched k = (if k = 0 then fail_act (NewNotFoundError ''Agent not found'' None) else return_act ())"

definition agent_Update :: "spire_env \<Rightarrow> gotime \<Rightarrow> string \<Rightarrow> Agent \<Rightarrow> unit act" where
  "agent_Update E now n a =
     bind_act (map_error (\<lambda>e. NewInternalError ''Failed to update agent'' (Some e))
                (db_stmt n (change_agents E (ag_ID a) (agent_fits a) (set_agent now a)))) agent_touched"

definition agent_Delete :: "spire_env \<Rightarrow> string \<Rightarrow> string \<Rightarrow> unit act" where
  "agent_Delete E n i =
     bind_act (map_error (\<lambda>e. NewInternalError ''Failed to delete agent'' (Some e))
       (db_stmt n (\<lambda>d. case cast_uuid E i of
          Inl e \<Rightarrow> Inl e
        | Inr u \<Rightarrow> Inr (d\<lparr> db_agents := delete_where (\<lambda>r. ag_ID r = u) (db_agents d) \<rparr>,
                       affected (\<lambda>r. ag_ID r = u) (db_agents d))))) agent_touched"

text \<open>The statement of \<^verbatim>\<open>ListByTenant\<close> does not select the cluster and the heartbeat.\<close>

definition ListByTenant :: "string \<Rightarrow> string \<Rightarrow> Agent list act" where
  "ListByTenant n tenantID =
     map_error (\<lambda>e. NewInternalError ''Failed to list agents'' (Some e))
       (db_read n (\<lambda>d. Inr (map (\<lambda>a. a\<lparr> ag_ClusterName := [], ag_LastHeartbeat := zero_time \<rparr>)
          (sort_key (\<lambda>a. - ag_CreatedAt a) (filter (\<lambda>a. ag_TenantID a = tenantID) (db_agents d))))))"

definition UpdateLastSeen :: "spire_env \<Rightarrow> gotime \<Rightarrow> string \<Rightarrow> string \<Rightarrow> unit act" where
  "UpdateLastSeen E now n i =
     bind_act (map_error (\<lambda>e. NewInternalError ''Failed to update last_seen'' (Some e))
       (db_stmt n (change_agents E i True (\<lambda>r. r\<lparr> ag_LastSeen := now, ag_UpdatedAt := now \<rparr>)))) agent_touched"

section \<open>Vault\<close>

record CertificateRequest =
  cq_CSR :: string
  cq_CommonName :: string
  cq_TTL :: string
  cq_AltNames :: "string list"
  cq_IPSANs :: "string list"
  cq_URISANs :: "string list"

record CertificateResponse =
  cp_Certificate :: string
  cp_CAChain :: "string list"
  cp_SerialNumber :: string
  cp_SHA256Fingerprint :: string
  cp_ExpirationTime :: gotime

text \<open>Every request is sent and recorded, whatever the answer.\<close>

definition vault_write :: "spire_env \<Rightarrow> string \<Rightarrow> any_map \<Rightarrow> any_map option act" where
  "vault_write E path data =
     bind_act (ask (\<lambda>s. se_write E (sp_vault s) path data))
       (\<lambda>r. bind_act (process (\<lambda>s. s\<lparr> sp_vault := sp_vault s @ [VWrite path data] \<rparr>))
              (\<lambda>_. of_result (case r of Inl e \<Rightarrow> Inl (Plain e) | Inr x \<Rightarrow> Inr x)))"

definition vault_read :: "spire_env \<Rightarrow> string \<Rightarrow> any_map option act" where
  "vault_read E path =
     bind_act (ask (\<lambda>s. se_read E (sp_vault s) path))
       (\<lambda>r. bind_act (process (\<lambda>s. s\<lparr> sp_vault := sp_vault s @ [VRead path] \<rparr>))
              (\<lambda>_. of_result (case r of Inl e \<Rightarrow> Inl (Plain e) | Inr x \<Rightarrow> Inr x)))"

definition vault_get :: "spire_env \<Rightarrow> string \<Rightarrow> (nat \<times> (go_error + string)) act" where
  "vault_get E path =
     bind_act (ask (\<lambda>s. se_get E (sp_vault s) path))
       (\<lambda>r. bind_act (process (\<lambda>s. s\<lparr> sp_vault := sp_vault s @ [VGet path] \<rparr>))
              (\<lambda>_. of_result (case r of Inl e \<Rightarrow> Inl (Plain e) | Inr x \<Rightarrow> Inr x)))"

definition pki_path :: "spire_env \<Rightarrow> string \<Rightarrow> string \<Rightarrow> string" where
  "pki_path E mount rest =
     (if se_pkiBasePath E \<noteq> [] then se_pkiBasePath E @ ''/'' @ mount @ ''/'' @ rest else mount @ ''/'' @ rest)"

definition sign_data :: "CertificateRequest \<Rightarrow> any_map" where
  "sign_data q =
     [(''csr'', GStr (cq_CSR q)), (''common_name'', GStr (cq_CommonName q)), (''ttl'', GStr (cq_TTL q))] @
     (if cq_AltNames q \<noteq> [] then [(''alt_names'', GStrs (cq_AltNames q))] else []) @
     (if cq_IPSANs q \<noteq> [] then [(''ip_sans'', GStrs (cq_IPSANs q))] else []) @
     (if cq_URISANs q \<noteq> [] then [(''uri_sans'', GStrs (cq_URISANs q))] else [])"

definition str_of :: "goval option \<Rightarrow> string option" where
  "str_of v = (case v of Some (GStr s) \<Rightarrow> Some s | _ \<Rightarrow> None)"

definition strs_in :: "goval list \<Rightarrow> string list" where
  "strs_in vs = List.map_filter (\<lambda>v. str_of (Some v)) vs"

text \<open>The answer of a signature.\<close>

definition cert_response :: "spire_env \<Rightarrow> gotime \<Rightarrow> any_map \<Rightarrow> string \<Rightarrow> CertificateResponse" where
  "cert_response E now data cert =
     \<lparr> cp_Certificate = cert,
       cp_CAChain = (case map_of data ''ca_chain'' of Some (GArr vs) \<Rightarrow> strs_in vs | _ \<Rightarrow> []),
       cp_SerialNumber = (case str_of (map_of data ''serial_number'') of Some n \<Rightarrow> n | None \<Rightarrow> []),
       cp_SHA256Fingerprint = se_fingerprint E cert,
       cp_ExpirationTime =
         (case map_of data ''expiration'' of
            Some (GFloat r) \<Rightarrow> float_to_int (se_float_int E) r * Second
          | _ \<Rightarrow> now + 24 * Hour) \<rparr>"

definition IssueCertificate ::
  "spire_env \<Rightarrow> gotime \<Rightarrow> string \<Rightarrow> string \<Rightarrow> CertificateRequest \<Rightarrow> CertificateResponse act" where
  "IssueCertificate E now mount role q =
     bind_act (map_error (\<lambda>e. NewInternalError ''Failed to issue certificate from Vault'' (Some e))
                (vault_write E (pki_path E mount (''sign/'' @ role)) (sign_data q)))
       (\<lambda>secret. case secret of
          None \<Rightarrow> fail_act (NewInternalError ''Empty response from Vault'' None)
        | Some data \<Rightarrow>
            (case str_of (map_of data ''certificate'') of
               None \<Rightarrow> fail_act (NewInternalError ''Invalid certificate in response'' None)
             | Some cert \<Rightarrow> return_act (cert_response E now data cert)))"

definition RevokeCertificate :: "spire_env \<Rightarrow> string \<Rightarrow> string \<Rightarrow> unit act" where
  "RevokeCertificate E mount serial =
     bind_act (map_error (\<lambda>e. NewInternalError ''Failed to revoke certificate in Vault'' (Some e))
                (vault_write E (pki_path E mount ''revoke'') [(''serial_number'', GStr serial)]))
       (\<lambda>_. return_act ())"

definition GetCABundle :: "spire_env \<Rightarrow> string \<Rightarrow> string act" where
  "GetCABundle E mount =
     bind_act (map_error (\<lambda>e. NewInternalError ''Failed to get CA bundle from Vault'' (Some e))
                (vault_get E (''/v1/'' @ pki_path E mount ''ca/pem'')))
       (\<lambda>(status, body).
          if status \<noteq> 200
          then fail_act (NewNotFoundError ''CA bundle not found''
                 (Some (Plain (Errorf (''vault returned status '' @ Itoa (int status))))))
          else (case body of
                  Inl e \<Rightarrow> fail_act (NewInternalError ''Failed to read CA bundle'' (Some (Plain e)))
                | Inr pem \<Rightarrow> return_act pem))"

record PKIRoleConfig =
  pr_AllowedDomains :: "string list"
  pr_AllowedURISANs :: "string list"
  pr_AllowSubdomains :: bool
  pr_AllowAnyName :: bool
  pr_AllowURISANs :: bool
  pr_AllowIPSANs :: bool
  pr_MaxTTL :: string
  pr_TTL :: string
  pr_KeyType :: string
  pr_KeyBits :: int
  pr_RequireCN :: bool

definition role_data :: "PKIRoleConfig \<Rightarrow> any_map" where
  "role_data k =
     [(''allowed_domains'', GStrs (pr_AllowedDomains k)), (''allow_subdomains'', GBool (pr_AllowSubdomains k)),
      (''allow_any_name'', GBool (pr_AllowAnyName k)), (''allow_uri_sans'', GBool (pr_AllowURISANs k)),
      (''allow_ip_sans'', GBool (pr_AllowIPSANs k)), (''max_ttl'', GStr (pr_MaxTTL k)), (''ttl'', GStr (pr_TTL k)),
      (''key_type'', GStr (pr_KeyType k)), (''key_bits'', GInt (pr_KeyBits k)),
      (''require_cn'', GBool (pr_RequireCN k)), (''enforce_hostnames'', GBool False)] @
     (if pr_AllowedURISANs k \<noteq> [] then [(''allowed_uri_sans'', GStrs (pr_AllowedURISANs k))] else [])"

definition CreatePKIRole :: "spire_env \<Rightarrow> string \<Rightarrow> string \<Rightarrow> PKIRoleConfig \<Rightarrow> unit act" where
  "CreatePKIRole E mount role k =
     bind_act (vault_write E (mount @ ''/roles/'' @ role) (role_data k)) (\<lambda>_. return_act ())"

definition ReadKVSecret :: "spire_env \<Rightarrow> string \<Rightarrow> string \<Rightarrow> any_map option act" where
  "ReadKVSecret E mount path =
     (let p = mount @ ''/data/'' @ path
      in bind_act (map_error (Wrapped (''failed to read KV secret at '' @ p @ '': '')) (vault_read E p))
           (\<lambda>secret. case secret of
              None \<Rightarrow> return_act None
            | Some data \<Rightarrow>
                (case map_of data ''data'' of
                   Some (GMap m) \<Rightarrow> return_act (Some m)
                 | _ \<Rightarrow> fail_act (Plain (Errorf (''unexpected KV v2 response format at '' @ p))))))"

definition WriteKVSecret :: "spire_env \<Rightarrow> string \<Rightarrow> string \<Rightarrow> any_map \<Rightarrow> unit act" where
  "WriteKVSecret E mount path data =
     (let p = mount @ ''/data/'' @ path
      in bind_act (map_error (Wrapped (''failed to write KV secret at '' @ p @ '': ''))
                     (vault_write E p [(''data'', GMap data)])) (\<lambda>_. return_act ()))"

section \<open>Laws of actions\<close>

text \<open>
  \<open>keeps P m\<close>: the action keeps the property \<open>P\<close> of the state, whatever it returns and whichever statements
  fail. The collection \<open>keeps_intros\<close> takes an action apart.
\<close>

definition keeps :: "(spire \<Rightarrow> bool) \<Rightarrow> (spire conn \<Rightarrow> 'r \<times> spire conn) \<Rightarrow> bool" where
  "keeps P m \<longleftrightarrow> (\<forall>c. P (fst c) \<longrightarrow> P (tables (m c)))"

named_theorems keeps_intros

lemma keepsD: "keeps P m \<Longrightarrow> P (fst c) \<Longrightarrow> m c = (r, c') \<Longrightarrow> P (fst c')"
  unfolding keeps_def by (metis snd_conv)

lemma keeps_return [keeps_intros]: "keeps P (return_act x)"
  by (simp add: keeps_def return_act_def)

lemma keeps_fail [keeps_intros]: "keeps P (fail_act e)"
  by (simp add: keeps_def fail_act_def)

lemma keeps_of_result [keeps_intros]: "keeps P (of_result r)"
  by (simp add: keeps_def of_result_def)

lemma keeps_ask [keeps_intros]: "keeps P (ask g)"
  by (simp add: keeps_def ask_def)

lemma keeps_process: "(\<And>s. P s \<Longrightarrow> P (f s)) \<Longrightarrow> keeps P (process f)"
  by (simp add: keeps_def process_def)

lemma bind_act_cases:
  "bind_act m f c = (r, c') \<longleftrightarrow>
     (\<exists>e. m c = (Inl e, c') \<and> r = Inl e) \<or> (\<exists>x c1. m c = (Inr x, c1) \<and> f x c1 = (r, c'))"
  by (auto simp: bind_act_def split: prod.splits sum.splits)

lemma bind_act_Inr:
  "bind_act m f c = (Inr y, c') \<longleftrightarrow> (\<exists>x c1. m c = (Inr x, c1) \<and> f x c1 = (Inr y, c'))"
  by (auto simp: bind_act_cases)

lemma map_error_Inr [simp]: "map_error g m c = (Inr x, c') \<longleftrightarrow> m c = (Inr x, c')"
  by (auto simp: map_error_def split: prod.splits sum.splits)

lemma map_error_tables [simp]: "tables (map_error g m c) = tables (m c)"
  by (auto simp: map_error_def split: prod.splits sum.splits)

lemma try_act_tables [simp]: "tables (try_act m c) = tables (m c)"
  by (simp add: try_act_def split: prod.splits)

text \<open>A bind may use what is known of the result of its first action.\<close>

lemma keeps_bind_value:
  assumes "keeps P m" and "\<And>c x c1. P (fst c) \<Longrightarrow> m c = (Inr x, c1) \<Longrightarrow> Q x" and "\<And>x. Q x \<Longrightarrow> keeps P (f x)"
  shows "keeps P (bind_act m f)"
  unfolding keeps_def
proof (intro allI impI)
  fix c :: "spire conn"
  assume P: "P (fst c)"
  obtain r c' where bind: "bind_act m f c = (r, c')" by (rule prod.exhaust)
  then consider e where "m c = (Inl e, c')" | x c1 where "m c = (Inr x, c1)" "f x c1 = (r, c')"
    unfolding bind_act_cases by blast
  then show "P (tables (bind_act m f c))"
  proof cases
    case 1
    with keepsD [OF assms(1) P] bind show ?thesis by simp
  next
    case 2
    have "P (fst c1)" using keepsD [OF assms(1) P 2(1)] .
    moreover have "keeps P (f x)" using assms(2) [OF P 2(1)] by (rule assms(3))
    ultimately have "P (fst c')" using 2(2) by (blast intro: keepsD)
    with bind show ?thesis by simp
  qed
qed

lemma keeps_bind [keeps_intros]: "keeps P m \<Longrightarrow> (\<And>x. keeps P (f x)) \<Longrightarrow> keeps P (bind_act m f)"
  by (rule keeps_bind_value [where Q = "\<lambda>_. True"]) simp_all

lemma keeps_map_error [keeps_intros]: "keeps P m \<Longrightarrow> keeps P (map_error g m)"
  by (simp add: keeps_def)

lemma keeps_try [keeps_intros]: "keeps P m \<Longrightarrow> keeps P (try_act m)"
  by (simp add: keeps_def)

lemma keeps_if [keeps_intros]: "(b \<Longrightarrow> keeps P m) \<Longrightarrow> (\<not> b \<Longrightarrow> keeps P m') \<Longrightarrow> keeps P (if b then m else m')"
  by simp

lemma keeps_option [keeps_intros]:
  "(v = None \<Longrightarrow> keeps P m) \<Longrightarrow> (\<And>x. v = Some x \<Longrightarrow> keeps P (f x)) \<Longrightarrow> keeps P (case v of None \<Rightarrow> m | Some x \<Rightarrow> f x)"
  by (simp split: option.splits)

lemma keeps_sum [keeps_intros]:
  "(\<And>e. v = Inl e \<Longrightarrow> keeps P (g e)) \<Longrightarrow> (\<And>x. v = Inr x \<Longrightarrow> keeps P (f x))
     \<Longrightarrow> keeps P (case v of Inl e \<Rightarrow> g e | Inr x \<Rightarrow> f x)"
  by (simp split: sum.splits)

lemma keeps_Let [keeps_intros]: "keeps P (f v) \<Longrightarrow> keeps P (Let v f)"
  by simp

lemma keeps_prod [keeps_intros]: "(\<And>a b. v = (a, b) \<Longrightarrow> keeps P (f a b)) \<Longrightarrow> keeps P (case v of (a, b) \<Rightarrow> f a b)"
  by (simp split: prod.splits)

lemma stmt_tables:
  "fst (snd (stmt f c)) = fst c \<or> (\<exists>x. f (fst c) = Inr (fst (snd (stmt f c)), x))"
  by (cases c rule: conn_cases; cases "f (fst c)") (auto simp: stmt_def split: prod.splits)

lemma stmt_Inr: "stmt f c = (Inr x, c') \<Longrightarrow> f (fst c) = Inr (fst c', x)"
  by (cases c rule: conn_cases; cases "f (fst c)") (auto simp: stmt_def split: prod.splits)

lemma stmt_fault_free [sql_simps]:
  "stmt f (s, []) = (case f s of Inl e \<Rightarrow> (Inl (Plain e), s, []) | Inr (s', x) \<Rightarrow> (Inr x, s', []))"
  by (auto simp: stmt_def split: sum.splits prod.splits)

lemma keeps_stmt: "(\<And>s s' x. P s \<Longrightarrow> f s = Inr (s', x) \<Longrightarrow> P s') \<Longrightarrow> keeps P (stmt f)"
  unfolding keeps_def using stmt_tables by metis

lemma on_db_Inr:
  "on_db n f s = Inr (s', x) \<longleftrightarrow>
     (\<exists>d d'. sp_dbs s n = Some d \<and> f d = Inr (d', x) \<and> s' = s\<lparr> sp_dbs := (sp_dbs s)(n \<mapsto> d') \<rparr>)"
  by (auto simp: on_db_def split: option.splits sum.splits)

lemma keeps_db_stmt:
  assumes "\<And>s d d' x. P s \<Longrightarrow> sp_dbs s n = Some d \<Longrightarrow> f d = Inr (d', x) \<Longrightarrow> P (s\<lparr> sp_dbs := (sp_dbs s)(n \<mapsto> d') \<rparr>)"
  shows "keeps P (db_stmt n f)"
  unfolding db_stmt_def by (rule keeps_stmt) (use assms in \<open>auto simp: on_db_Inr\<close>)

text \<open>Reads leave the state alone.\<close>

lemma db_read_Inr:
  assumes "db_read n g c = (Inr x, c')"
  shows "\<exists>d. sp_dbs (fst c) n = Some d \<and> g d = Inr x \<and> fst c' = fst c"
proof -
  have "on_db n (\<lambda>d. case g d of Inl e \<Rightarrow> Inl e | Inr x \<Rightarrow> Inr (d, x)) (fst c) = Inr (fst c', x)"
    using assms unfolding db_read_def db_stmt_def by (rule stmt_Inr)
  then obtain d where d: "sp_dbs (fst c) n = Some d" and "fst c' = (fst c)\<lparr> sp_dbs := (sp_dbs (fst c))(n \<mapsto> d) \<rparr>"
    and g: "g d = Inr x"
    by (cases "g (the (sp_dbs (fst c) n))") (auto simp: on_db_Inr)
  then show ?thesis by (simp add: fun_upd_idem)
qed

lemma keeps_db_read [keeps_intros]: "keeps P (db_read n g)"
  unfolding db_read_def
  by (rule keeps_db_stmt) (auto simp: fun_upd_idem split: sum.splits)

lemma keeps_tenant_GetByID [keeps_intros]: "keeps P (tenant_GetByID E i)"
  unfolding tenant_GetByID_def
  by (intro keeps_intros keeps_stmt) (auto split: sum.splits)

lemma tenant_GetByID_Inr:
  assumes "tenant_GetByID E i c = (Inr t, c')"
  shows "fst c' = fst c \<and> (\<exists>r \<in> set (sp_tenants (fst c)). se_uuid E i = Some (tn_TenantID r) \<and>
           tn_Status r = ''active'' \<and> t = scan_tenant r)"
  using assms unfolding tenant_GetByID_def map_error_Inr
  by (auto dest!: stmt_Inr select_row_sound simp: cast_uuid_def split: sum.splits option.splits)

section \<open>Connections are to the database of the tenant\<close>

definition conns_ok :: "spire \<Rightarrow> bool" where
  "conns_ok s \<longleftrightarrow> (\<forall>t n. sp_conns s t = Some n \<longrightarrow> n = tenant_db_name t)"

lemma open_connection_Inr:
  "open_connection t n c = (Inr x, c') \<Longrightarrow> x = n \<and> fst c' = (fst c)\<lparr> sp_conns := (sp_conns (fst c))(t \<mapsto> n) \<rparr>"
  unfolding open_connection_def Ping_def
  by (auto simp: bind_act_Inr process_def return_act_def dest!: db_read_Inr)

lemma createTenantConnection_Inr:
  assumes "createTenantConnection E t c = (Inr n, c')" and "conns_ok (fst c)"
  shows "n = tenant_db_name t"
  using assms(1) unfolding createTenantConnection_def
  by (auto simp: bind_act_Inr ask_def return_act_def fail_act_def split: option.splits if_splits
           dest!: open_connection_Inr) (use assms(2) in \<open>auto simp: conns_ok_def\<close>)

text \<open>What only depends on the databases, the tenants and Vault is kept; so is that connections are right.\<close>

lemma keeps_GetTenantDB:
  assumes "\<And>s f. P s \<Longrightarrow> f t = None \<or> f t = Some (tenant_db_name t) \<Longrightarrow> (\<And>t'. t' \<noteq> t \<Longrightarrow> f t' = sp_conns s t')
             \<Longrightarrow> P (s\<lparr> sp_conns := f \<rparr>)"
  shows "keeps P (GetTenantDB E t)"
  unfolding GetTenantDB_def createTenantConnection_def removeTenantConnection_def open_connection_def Ping_def
  by (intro keeps_intros keeps_process assms) (auto split: if_splits)

lemma keeps_GetTenantDB_dbs [keeps_intros]: "keeps (\<lambda>s. P (sp_dbs s) (sp_tenants s) (sp_vault s)) (GetTenantDB E t)"
  by (rule keeps_GetTenantDB) simp

lemma keeps_GetTenantDB_conns [keeps_intros]: "keeps conns_ok (GetTenantDB E t)"
  unfolding conns_ok_def by (rule keeps_GetTenantDB) (metis option.distinct(1) option.inject spire.select_convs(3) spire.surjective spire.update_convs(3))

lemma GetTenantDB_Inr:
  assumes "GetTenantDB E t c = (Inr n, c')" and ok: "conns_ok (fst c)"
  shows "n = tenant_db_name t"
proof (cases "sp_conns (fst c) t")
  case None
  with assms have "createTenantConnection E t c = (Inr n, c')"
    by (simp add: GetTenantDB_def bind_act_def ask_def)
  from this ok show ?thesis by (rule createTenantConnection_Inr)
next
  case (Some m)
  obtain r c1 where ping: "try_act (Ping m) c = (Inr r, c1)"
    by (cases "Ping m c") (simp add: try_act_def)
  have ok1: "conns_ok (fst c1)"
    using ping ok by (blast intro: keepsD keeps_try keeps_db_read [where n = m and g = "\<lambda>_. Inr ()", folded Ping_def])
  show ?thesis
  proof (cases r)
    case (Inr u)
    with assms Some ping show ?thesis
      by (auto simp: GetTenantDB_def bind_act_def ask_def return_act_def conns_ok_def)
  next
    case (Inl e)
    have "createTenantConnection E t ((fst c1)\<lparr> sp_conns := (sp_conns (fst c1))(t := None) \<rparr>, snd c1) = (Inr n, c')"
      using assms(1) Some ping Inl
      by (simp add: GetTenantDB_def bind_act_def ask_def removeTenantConnection_def process_def)
    then show ?thesis
      by (rule createTenantConnection_Inr) (use ok1 in \<open>auto simp: conns_ok_def\<close>)
  qed
qed

end
