(* ===== verification/Spire_Service.thy ===== *)
theory Spire_Service
  imports Spire_Store
begin

text \<open>
  The services of workload identity: registration of workload entries
  (\<^verbatim>\<open>services/workload_entry_service.go\<close>), attestation of workloads
  (\<^verbatim>\<open>services/workload_attestation_service.go\<close>) and of nodes (\<^verbatim>\<open>services/node_attestation_service.go\<close>,
  \<^verbatim>\<open>services/kubernetes_validator.go\<close>), and the agents (\<^verbatim>\<open>services/agent_service.go\<close>,
  \<^verbatim>\<open>services/agent_renewal_service.go\<close>), all under \<^verbatim>\<open>internal/spire\<close>.

  \<open>now\<close> is the clock of the call and \<open>newID\<close> the value of \<^verbatim>\<open>uuid.New()\<close>; \<open>k8s_env\<close> holds the configuration of the
  Kubernetes validator, the answer of the token review and the decoding of a token payload.
\<close>

section \<open>Workload entries\<close>

definition with_tenant_db :: "spire_env \<Rightarrow> string \<Rightarrow> (string \<Rightarrow> 'r act) \<Rightarrow> 'r act" where
  "with_tenant_db E tenantID f =
     bind_act (map_error (Wrapped ''failed to connect to tenant database: '') (GetTenantDB E tenantID)) f"

definition CreateEntry :: "spire_env \<Rightarrow> gotime \<Rightarrow> uuid \<Rightarrow> WorkloadEntry \<Rightarrow> WorkloadEntry act" where
  "CreateEntry E now newID we =
     (case entry_Validate we of
        Some e \<Rightarrow> fail_act (Wrapped ''validation failed: '' e)
      | None \<Rightarrow>
          with_tenant_db E (we_TenantID we)
            (\<lambda>n. bind_act (map_error (Wrapped ''failed to check existing entry: '')
                             (entry_GetBySpiffeID E n (we_TenantID we) (we_SpiffeID we)))
               (\<lambda>existing.
                  if existing \<noteq> None
                  then fail_act (Plain (Errorf (''workload entry with SPIFFE ID '' @ we_SpiffeID we @ '' already exists'')))
                  else map_error (Wrapped ''failed to create workload entry: '') (entry_Create E now newID n we))))"

text \<open>The entry with an id, if it is one of the tenant.\<close>

definition own_entry :: "spire_env \<Rightarrow> string \<Rightarrow> string \<Rightarrow> string \<Rightarrow> string \<Rightarrow> WorkloadEntry act" where
  "own_entry E n tenantID i msg =
     bind_act (map_error (Wrapped msg) (entry_GetByID E n i))
       (\<lambda>found. case found of
          None \<Rightarrow> fail_act (Plain (Errorf (''workload entry not found: '' @ i)))
        | Some we \<Rightarrow>
            if we_TenantID we \<noteq> tenantID then fail_act (Plain (Errorf ''workload entry does not belong to tenant''))
            else return_act we)"

definition GetEntry :: "spire_env \<Rightarrow> string \<Rightarrow> string \<Rightarrow> WorkloadEntry act" where
  "GetEntry E tenantID entryID =
     with_tenant_db E tenantID (\<lambda>n. own_entry E n tenantID entryID ''failed to get workload entry: '')"

definition ListEntries :: "spire_env \<Rightarrow> WorkloadEntryFilter \<Rightarrow> WorkloadEntry list act" where
  "ListEntries E f =
     with_tenant_db E (wf_TenantID f)
       (\<lambda>n. map_error (Wrapped ''failed to list workload entries: '') (entry_List E n f))"

definition ListEntriesByParent :: "spire_env \<Rightarrow> string \<Rightarrow> string \<Rightarrow> WorkloadEntry list act" where
  "ListEntriesByParent E tenantID parentID =
     with_tenant_db E tenantID
       (\<lambda>n. map_error (Wrapped ''failed to list workload entries by parent: '') (entry_ListByParent E n tenantID parentID))"

definition UpdateEntry :: "spire_env \<Rightarrow> gotime \<Rightarrow> WorkloadEntry \<Rightarrow> WorkloadEntry act" where
  "UpdateEntry E now we =
     (case entry_Validate we of
        Some e \<Rightarrow> fail_act (Wrapped ''validation failed: '' e)
      | None \<Rightarrow>
          with_tenant_db E (we_TenantID we)
            (\<lambda>n. bind_act (own_entry E n (we_TenantID we) (we_ID we) ''failed to get existing entry: '')
               (\<lambda>_. map_error (Wrapped ''failed to update workload entry: '') (entry_Update E now n we))))"

definition DeleteEntry :: "spire_env \<Rightarrow> string \<Rightarrow> string \<Rightarrow> unit act" where
  "DeleteEntry E tenantID entryID =
     with_tenant_db E tenantID
       (\<lambda>n. bind_act (own_entry E n tenantID entryID ''failed to get existing entry: '')
          (\<lambda>_. map_error (Wrapped ''failed to delete workload entry: '') (entry_Delete E n entryID)))"

definition CountEntries :: "spire_env \<Rightarrow> WorkloadEntryFilter \<Rightarrow> int act" where
  "CountEntries E f =
     with_tenant_db E (wf_TenantID f)
       (\<lambda>n. map_error (Wrapped ''failed to count workload entries: '') (entry_Count E n f))"

definition FindMatchingEntries :: "spire_env \<Rightarrow> string \<Rightarrow> str_map \<Rightarrow> WorkloadEntry list act" where
  "FindMatchingEntries E tenantID sels =
     with_tenant_db E tenantID
       (\<lambda>n. map_error (Wrapped ''failed to find matching entries: '') (entry_FindMatchingEntries E n tenantID sels))"

definition MatchSelectorsWithWildcard :: "str_map \<Rightarrow> str_map \<Rightarrow> bool" where
  "MatchSelectorsWithWildcard collected entry =
     (\<forall>k \<in> set (map fst entry).
        case (map_of collected k, map_of entry k) of
          (Some c, Some v) \<Rightarrow> if Contains v ''*'' then Match v c else c = v
        | _ \<Rightarrow> False)"

definition FilterEntriesWithWildcard :: "WorkloadEntry list \<Rightarrow> str_map \<Rightarrow> WorkloadEntry list" where
  "FilterEntriesWithWildcard es collected = filter (\<lambda>we. MatchSelectorsWithWildcard collected (we_Selectors we)) es"

section \<open>Attestation of workloads\<close>

record AttestWorkloadRequest =
  aw_TenantID :: string
  aw_AgentID :: string
  aw_Selectors :: str_map
  aw_CSR :: string

record AttestWorkloadResponse =
  ar_SpiffeID :: string
  ar_Certificate :: string
  ar_TrustBundle :: string
  ar_ExpiresAt :: gotime
  ar_TTL :: int

definition entry_score :: "string \<Rightarrow> WorkloadEntry \<Rightarrow> nat" where
  "entry_score agent we = map_len (we_Selectors we) + (if we_ParentID we = agent then 1000 else 0)"

fun best_from :: "string \<Rightarrow> WorkloadEntry \<Rightarrow> nat \<Rightarrow> WorkloadEntry list \<Rightarrow> WorkloadEntry" where
  "best_from agent entry best [] = entry"
| "best_from agent entry best (we # es) =
     (if entry_score agent we > best then best_from agent we (entry_score agent we) es
      else best_from agent entry best es)"

text \<open>Only for a list with a first entry.\<close>

definition best_entry :: "string \<Rightarrow> WorkloadEntry list \<Rightarrow> WorkloadEntry" where
  "best_entry agent es = best_from agent (hd es) 0 es"

definition check_csr :: "spire_env \<Rightarrow> string \<Rightarrow> unit act" where
  "check_csr E csr =
     (if csr = []
      then fail_act (Plain (Errorf ''CSR is required: workload must generate its own keypair and submit a CSR''))
      else case se_csr E csr of
        NoPEM \<Rightarrow> fail_act (Plain (Errorf ''invalid CSR format: failed to decode PEM block''))
      | BadCSR \<Rightarrow> fail_act (Wrapped ''failed to parse CSR: '' (Plain (Errorf ''x509'')))
      | BadCSRSignature \<Rightarrow> fail_act (Wrapped ''invalid CSR signature: '' (Plain (Errorf ''x509'')))
      | GoodCSR \<Rightarrow> return_act ())"

definition recordWorkloadSVID ::
  "spire_env \<Rightarrow> gotime \<Rightarrow> string \<Rightarrow> string \<Rightarrow> string \<Rightarrow> string \<Rightarrow> int \<Rightarrow> unit act" where
  "recordWorkloadSVID E now tenantID entryID spiffeID serial ttl =
     with_tenant_db E tenantID
       (\<lambda>n. bind_act
          (try_act (db_stmt n (\<lambda>d. case db_svids d of
             None \<Rightarrow> Inl DBError
           | Some svs \<Rightarrow> Inr (d\<lparr> db_svids := Some (svs @ [\<lparr> sv_TenantID = tenantID, sv_EntryID = entryID,
               sv_SpiffeID = spiffeID, sv_SerialNumber = serial, sv_TTL = ttl, sv_IssuedAt = now \<rparr>]) \<rparr>, ()))))
          (\<lambda>_. return_act ()))"

text \<open>From the checked request on: the certificate for an entry.\<close>

definition issue_svid ::
  "spire_env \<Rightarrow> gotime \<Rightarrow> string \<Rightarrow> AttestWorkloadRequest \<Rightarrow> WorkloadEntry \<Rightarrow> AttestWorkloadResponse act" where
  "issue_svid E now mount req we =
     bind_act (check_csr E (aw_CSR req))
       (\<lambda>_. case se_url_path E (we_SpiffeID we) of
          Inl e \<Rightarrow> fail_act (Wrapped ''invalid SPIFFE ID format: '' (Plain e))
        | Inr path \<Rightarrow>
            (let ttl = (case we_TTL we of Some t \<Rightarrow> t | None \<Rightarrow> 3600) in
             bind_act (map_error (Wrapped ''failed to issue certificate: '')
               (IssueCertificate E now mount ''workload''
                  \<lparr> cq_CSR = aw_CSR req, cq_CommonName = last (Split CHR ''/'' path), cq_TTL = Itoa ttl @ ''s'',
                    cq_AltNames = [], cq_IPSANs = [], cq_URISANs = [we_SpiffeID we] \<rparr>))
             (\<lambda>cert. bind_act (map_error (Wrapped ''failed to get CA bundle: '') (GetCABundle E mount))
             (\<lambda>bundle. bind_act (try_act (recordWorkloadSVID E now (aw_TenantID req) (we_ID we) (we_SpiffeID we)
                                            (cp_SerialNumber cert) ttl))
             (\<lambda>_. return_act \<lparr> ar_SpiffeID = we_SpiffeID we, ar_Certificate = cp_Certificate cert,
                    ar_TrustBundle = bundle, ar_ExpiresAt = now + wrap_int (ttl * Second), ar_TTL = ttl \<rparr>)))))"

definition AttestWorkload :: "spire_env \<Rightarrow> gotime \<Rightarrow> AttestWorkloadRequest \<Rightarrow> AttestWorkloadResponse act" where
  "AttestWorkload E now req =
     bind_act (map_error (Wrapped ''failed to fetch tenant vault mount: '') (tenant_GetByID E (aw_TenantID req)))
       (\<lambda>tenant.
          if \<not> tenant_IsActive tenant then fail_act (Plain (Errorf ''tenant is not active''))
          else if st_VaultMount tenant = [] then fail_act (Plain (Errorf ''tenant vault mount is not configured''))
          else
            bind_act (map_error (Wrapped ''failed to find matching workload entries: '')
                        (FindMatchingEntries E (aw_TenantID req) (aw_Selectors req)))
              (\<lambda>es.
                 if es = [] then fail_act (Plain (Errorf ''no workload entry matches the provided selectors''))
                 else
                   (let we = best_entry (aw_AgentID req) es
                    in if \<not> (we_ParentID we = [] \<or> we_ParentID we = aw_AgentID req)
                       then fail_act (Plain (Errorf (''agent '' @ aw_AgentID req @ '' is not authorized for workload '' @
                              we_SpiffeID we @ '' (expected parent: '' @ we_ParentID we @ '')'')))
                       else issue_svid E now (st_VaultMount tenant) req we)))"

definition RevokeWorkloadSVID :: "spire_env \<Rightarrow> string \<Rightarrow> string \<Rightarrow> unit act" where
  "RevokeWorkloadSVID E tenantID serial =
     bind_act (map_error (Wrapped ''failed to fetch tenant vault mount: '') (tenant_GetByID E tenantID))
       (\<lambda>tenant.
          if \<not> tenant_IsActive tenant then fail_act (Plain (Errorf ''tenant is not active''))
          else map_error (Wrapped ''failed to revoke certificate: '') (RevokeCertificate E (st_VaultMount tenant) serial))"

section \<open>Attestation of nodes\<close>

record k8s_env =
  ke_useTokenReview :: bool
  ke_k8sAPIHost :: string
  ke_review :: "string \<Rightarrow> go_error + any_map"
  ke_payload :: "string \<Rightarrow> go_error + any_map"

text \<open>\<^verbatim>\<open>claims[k].(string)\<close> into selectors \<open>ks\<close>.\<close>

definition claim_selectors :: "any_map \<Rightarrow> string \<Rightarrow> string list \<Rightarrow> str_map" where
  "claim_selectors claims k ks = (case str_of (map_of claims k) of Some v \<Rightarrow> map (\<lambda>s. (s, v)) ks | None \<Rightarrow> [])"

definition parseJWT :: "k8s_env \<Rightarrow> string \<Rightarrow> spire_error + any_map" where
  "parseJWT K token =
     (case Split CHR ''.'' token of
        [h, p, g] \<Rightarrow>
          (case ke_payload K
                  (p @ (if length p mod 4 = 2 then ''=='' else if length p mod 4 = 3 then ''='' else [])) of
             Inl e \<Rightarrow> Inl (Plain e) | Inr m \<Rightarrow> Inr m)
      | _ \<Rightarrow> Inl (Plain (Errorf ''invalid JWT format'')))"

definition first_str :: "any_map \<Rightarrow> string \<Rightarrow> string \<Rightarrow> any_map" where
  "first_str extra k claim =
     (case map_of extra k of Some (GArr (GStr v # vs)) \<Rightarrow> [(claim, GStr v)] | _ \<Rightarrow> [])"

definition review_claims :: "any_map \<Rightarrow> any_map" where
  "review_claims user =
     (case str_of (map_of user ''username'') of
        Some name \<Rightarrow>
          if HasPrefix name ''system:serviceaccount:'' \<and> length (Split CHR '':'' name) \<ge> 4
          then [(''kubernetes.io/serviceaccount/namespace'', GStr (Split CHR '':'' name ! 2)),
                (''kubernetes.io/serviceaccount/service-account.name'', GStr (Split CHR '':'' name ! 3))]
          else []
      | None \<Rightarrow> []) @
     (case str_of (map_of user ''uid'') of Some u \<Rightarrow> [(''sub'', GStr u)] | None \<Rightarrow> []) @
     (case map_of user ''extra'' of
        Some (GMap extra) \<Rightarrow>
          first_str extra ''authentication.kubernetes.io/pod-name'' ''kubernetes.io/pod/name'' @
          first_str extra ''authentication.kubernetes.io/pod-uid'' ''kubernetes.io/pod/uid'' @
          first_str extra ''authentication.kubernetes.io/node-name'' ''kubernetes.io/pod/node-name''
      | _ \<Rightarrow> [])"

definition validateWithTokenReview :: "k8s_env \<Rightarrow> string \<Rightarrow> spire_error + any_map" where
  "validateWithTokenReview K token =
     (case ke_review K token of
        Inl e \<Rightarrow> Inl (Plain e)
      | Inr response \<Rightarrow>
          (case map_of response ''status'' of
             Some (GMap status) \<Rightarrow>
               if map_of status ''authenticated'' \<noteq> Some (GBool True)
               then Inl (Plain (Errorf ''token is not authenticated''))
               else (case map_of status ''user'' of
                       Some (GMap user) \<Rightarrow> Inr (review_claims user)
                     | _ \<Rightarrow> Inl (Plain (Errorf ''invalid TokenReview response: missing user info'')))
           | _ \<Rightarrow> Inl (Plain (Errorf ''invalid TokenReview response: missing status''))))"

definition k8s_Validate :: "k8s_env \<Rightarrow> any_map \<Rightarrow> spire_error + str_map" where
  "k8s_Validate K evidence =
     (case str_of (map_of evidence ''psat_token'') of
        None \<Rightarrow> Inl (Plain (Errorf ''psat_token required''))
      | Some token \<Rightarrow>
          if token = [] then Inl (Plain (Errorf ''psat_token required''))
          else
            (case (if ke_useTokenReview K \<and> ke_k8sAPIHost K \<noteq> []
                   then map_sum (Wrapped ''token review validation failed: '') id (validateWithTokenReview K token)
                   else map_sum (Wrapped ''invalid token: '') id (parseJWT K token)) of
               Inl e \<Rightarrow> Inl e
             | Inr claims \<Rightarrow> Inr
                 ((case str_of (map_of evidence ''cluster_name'') of
                     Some cl \<Rightarrow> if cl \<noteq> [] then [(''k8s:cluster'', cl)] else [] | None \<Rightarrow> []) @
                  claim_selectors claims ''kubernetes.io/serviceaccount/namespace'' [''k8s:ns'', ''k8s:namespace''] @
                  claim_selectors claims ''kubernetes.io/serviceaccount/service-account.name''
                    [''k8s:sa'', ''k8s:service-account''] @
                  claim_selectors claims ''kubernetes.io/pod/name'' [''k8s:pod-name''] @
                  claim_selectors claims ''kubernetes.io/pod/uid'' [''k8s:pod-uid''] @
                  claim_selectors claims ''kubernetes.io/pod/node-name'' [''k8s:node-name''])))"

record NodeAttestRequest =
  na_TenantID :: string
  na_NodeID :: string
  na_AttestationType :: string
  na_Evidence :: any_map
  na_CSR :: string

record NodeAttestResponse =
  nr_Certificate :: string
  nr_CAChain :: "string list"
  nr_SpiffeID :: string
  nr_ExpiresAt :: gotime
  nr_AgentID :: string

definition validateEvidence :: "spire_env \<Rightarrow> k8s_env \<Rightarrow> string \<Rightarrow> any_map \<Rightarrow> spire_error + str_map" where
  "validateEvidence E K typ evidence =
     (if typ = ''kubernetes'' then k8s_Validate K evidence
      else if typ = ''unix''
      then Inr ((case map_of evidence ''pid'' of
                   Some (GFloat r) \<Rightarrow> [(''unix:pid'', Itoa (float_to_int (se_float_int E) r))] | _ \<Rightarrow> []) @
                claim_selectors evidence ''username'' [''unix:username''] @
                claim_selectors evidence ''hostname'' [''unix:hostname''])
      else if typ = ''docker''
      then Inr (claim_selectors evidence ''container_id'' [''docker:container_id''] @
                claim_selectors evidence ''image_name'' [''docker:image_name''])
      else if typ = ''tpm'' then Inl (Plain (Errorf ''TPM attestation not yet implemented''))
      else if typ = ''aws'' then Inl (Plain (Errorf ''AWS attestation not yet implemented''))
      else Inl (Plain (Errorf (''unsupported attestation type: '' @ typ))))"

definition generateAgentSpiffeID :: "string \<Rightarrow> string \<Rightarrow> string" where
  "generateAgentSpiffeID tenantID nodeID = ''spiffe://'' @ tenantID @ ''/agent/'' @ nodeID"

definition ensureVaultRoleConfigured :: "spire_env \<Rightarrow> string \<Rightarrow> string \<Rightarrow> unit act" where
  "ensureVaultRoleConfigured E mount tenantID =
     CreatePKIRole E mount ''agent''
       \<lparr> pr_AllowedDomains = [], pr_AllowedURISANs = [''spiffe://'' @ tenantID @ ''/*''],
         pr_AllowSubdomains = False, pr_AllowAnyName = False, pr_AllowURISANs = True, pr_AllowIPSANs = False,
         pr_MaxTTL = ''2h'', pr_TTL = ''1h'', pr_KeyType = ''rsa'', pr_KeyBits = 2048, pr_RequireCN = False \<rparr>"

definition agent_csr :: "spire_env \<Rightarrow> string \<Rightarrow> unit act" where
  "agent_csr E csr =
     (case se_csr E csr of
        NoPEM \<Rightarrow> fail_act (NewBadRequestError ''Invalid CSR format'' None)
      | BadCSR \<Rightarrow> fail_act (NewBadRequestError ''Failed to parse CSR'' (Some (Plain (Errorf ''x509''))))
      | BadCSRSignature \<Rightarrow> fail_act (NewBadRequestError ''Invalid CSR signature'' (Some (Plain (Errorf ''x509''))))
      | GoodCSR \<Rightarrow> return_act ())"

definition agent_cert :: "string \<Rightarrow> string \<Rightarrow> CertificateRequest" where
  "agent_cert csr spiffeID =
     \<lparr> cq_CSR = csr, cq_CommonName = spiffeID, cq_TTL = ''1h'', cq_AltNames = [], cq_IPSANs = [],
       cq_URISANs = [spiffeID] \<rparr>"

text \<open>The agent of the node, stored again or created.\<close>

definition store_agent ::
  "spire_env \<Rightarrow> gotime \<Rightarrow> uuid \<Rightarrow> string \<Rightarrow> NodeAttestRequest \<Rightarrow> str_map \<Rightarrow> string \<Rightarrow> string \<Rightarrow> string act" where
  "store_agent E now newID n req sels spiffeID serial =
     bind_act (try_act (GetByTenantAndNode n (na_TenantID req) (na_NodeID req)))
       (\<lambda>r. case r of
          Inr a \<Rightarrow>
            bind_act (map_error (\<lambda>e. NewInternalError ''Failed to update agent'' (Some e))
              (agent_Update E now n
                 (a\<lparr> ag_SpiffeID := spiffeID, ag_AttestationType := na_AttestationType req, ag_NodeSelectors := sels,
                     ag_CertificateSerial := serial, ag_Status := AgentStatusActive, ag_LastSeen := now \<rparr>)))
              (\<lambda>_. return_act (ag_ID a))
        | Inl _ \<Rightarrow>
            bind_act (map_error (\<lambda>e. NewInternalError ''Failed to store agent'' (Some e))
              (agent_Create E now n
                 \<lparr> ag_ID = newID, ag_TenantID = na_TenantID req, ag_NodeID = na_NodeID req, ag_SpiffeID = spiffeID,
                   ag_AttestationType = na_AttestationType req, ag_NodeSelectors = sels,
                   ag_CertificateSerial = serial, ag_Status = AgentStatusActive, ag_ClusterName = [],
                   ag_LastSeen = now, ag_LastHeartbeat = zero_time, ag_CreatedAt = zero_time, ag_UpdatedAt = zero_time \<rparr>))
              (\<lambda>_. return_act newID))"

definition node_Attest ::
  "spire_env \<Rightarrow> k8s_env \<Rightarrow> gotime \<Rightarrow> uuid \<Rightarrow> NodeAttestRequest \<Rightarrow> NodeAttestResponse act" where
  "node_Attest E K now newID req =
     bind_act (map_error (\<lambda>e. NewNotFoundError ''Tenant not found'' (Some e)) (tenant_GetByID E (na_TenantID req)))
       (\<lambda>tenant.
          if st_Status tenant \<noteq> ''active'' then fail_act (NewForbiddenError ''Tenant is not active'' None)
          else
            bind_act (map_error (\<lambda>e. NewUnauthorizedError ''Attestation failed'' (Some e))
                        (of_result (validateEvidence E K (na_AttestationType req) (na_Evidence req))))
            (\<lambda>sels. bind_act (agent_csr E (na_CSR req))
            (\<lambda>_. let spiffeID = generateAgentSpiffeID (na_TenantID req) (na_NodeID req) in
             bind_act (map_error (\<lambda>e. NewInternalError ''Failed to configure Vault PKI role'' (Some e))
                         (ensureVaultRoleConfigured E (st_VaultMount tenant) (na_TenantID req)))
            (\<lambda>_. bind_act (map_error (\<lambda>e. NewInternalError ''Failed to issue certificate'' (Some e))
                         (IssueCertificate E now (st_VaultMount tenant) ''agent'' (agent_cert (na_CSR req) spiffeID)))
            (\<lambda>cert. bind_act (map_error (\<lambda>e. NewInternalError ''Failed to connect to tenant database'' (Some e))
                         (GetTenantDB E (na_TenantID req)))
            (\<lambda>n. bind_act (store_agent E now newID n req sels spiffeID (cp_SerialNumber cert))
            (\<lambda>i. return_act \<lparr> nr_Certificate = cp_Certificate cert, nr_CAChain = cp_CAChain cert, nr_SpiffeID = spiffeID,
                               nr_ExpiresAt = cp_ExpirationTime cert, nr_AgentID = i \<rparr>)))))))"

section \<open>Agents\<close>

definition ListAgentsByTenant :: "spire_env \<Rightarrow> string \<Rightarrow> Agent list act" where
  "ListAgentsByTenant E tenantID =
     bind_act (map_error (\<lambda>e. NewNotFoundError ''Tenant not found'' (Some e)) (GetTenantDB E tenantID))
       (\<lambda>n. bind_act (map_error (\<lambda>e. NewInternalError ''Failed to list agents'' (Some e)) (ListByTenant n tenantID))
          (\<lambda>as. return_act (filter (\<lambda>a. ag_Status a = AgentStatusActive) as)))"

record AgentRenewRequest =
  rq_AgentID :: string
  rq_TenantID :: string
  rq_CSR :: string

record AgentRenewResponse =
  rp_SpiffeID :: string
  rp_Certificate :: string
  rp_CABundle :: string
  rp_TTL :: int
  rp_CAChain :: "string list"
  rp_ExpiresAt :: gotime

text \<open>\<open>ctx_tenant\<close> is the value of the key \<^verbatim>\<open>tenant_id\<close> in the context of the request, if it is a text.\<close>

definition agent_Renew ::
  "spire_env \<Rightarrow> gotime \<Rightarrow> string option \<Rightarrow> AgentRenewRequest \<Rightarrow> AgentRenewResponse act" where
  "agent_Renew E now ctx_tenant req =
     (case ctx_tenant of
        None \<Rightarrow> fail_act (NewUnauthorizedError
          ''Tenant ID not found in mTLS context. Agent renewal requires mutual TLS authentication.'' None)
      | Some tenantID \<Rightarrow>
          if tenantID = [] then fail_act (NewUnauthorizedError
            ''Tenant ID not found in mTLS context. Agent renewal requires mutual TLS authentication.'' None)
          else
            bind_act (map_error (\<lambda>e. NewNotFoundError ''Tenant not found'' (Some e)) (tenant_GetByID E tenantID))
            (\<lambda>tenant. if st_Status tenant \<noteq> ''active'' then fail_act (NewForbiddenError ''Tenant is not active'' None) else
             bind_act (map_error (\<lambda>e. NewInternalError ''Failed to connect to tenant database'' (Some e)) (GetTenantDB E tenantID))
            (\<lambda>n. bind_act (map_error (\<lambda>e. NewNotFoundError ''Agent not found'' (Some e)) (agent_GetByID E n (rq_AgentID req)))
            (\<lambda>a. if ag_Status a \<noteq> AgentStatusActive then fail_act (NewForbiddenError ''Agent is not active'' None)
                 else if ag_TenantID a \<noteq> tenantID
                 then fail_act (NewForbiddenError ''Agent does not belong to authenticated tenant'' None)
                 else
             bind_act (agent_csr E (rq_CSR req))
            (\<lambda>_. bind_act (map_error (\<lambda>e. NewInternalError ''Failed to issue certificate'' (Some e))
                   (IssueCertificate E now (st_VaultMount tenant) ''agent'' (agent_cert (rq_CSR req) (ag_SpiffeID a))))
            (\<lambda>cert. bind_act (map_error (\<lambda>e. NewInternalError ''Failed to update agent'' (Some e))
                   (agent_Update E now n (a\<lparr> ag_CertificateSerial := cp_SerialNumber cert, ag_LastSeen := now \<rparr>)))
            (\<lambda>_. if cp_CAChain cert = [] then fail_act (Panic ''index out of range'')
                 else return_act \<lparr> rp_SpiffeID = ag_SpiffeID a, rp_Certificate = cp_Certificate cert,
                        rp_CABundle = Join (cp_CAChain cert) [CHR 0x0A], rp_TTL = 3600,
                        rp_CAChain = cp_CAChain cert, rp_ExpiresAt = cp_ExpirationTime cert \<rparr>)))))))"

end
