(* ===== verification/Spire_Certificates.thy ===== *)
theory Spire_Certificates
  imports Spire_Service
begin

text \<open>
  The certificates that services obtain over mutual TLS: under \<^verbatim>\<open>internal/spire\<close>, the repositories of workloads,
  certificates, attestation policies and the audit log, and \<^verbatim>\<open>services/attestation_service.go\<close>,
  \<^verbatim>\<open>services/renewal_service.go\<close> and \<^verbatim>\<open>services/revocation_service.go\<close>.

  \<^item> The tables \<^verbatim>\<open>certificates\<close> and \<^verbatim>\<open>audit_icp_logs\<close> may be missing; a statement on a missing table is an error. No
    migration states constraints for them, so a violated one is an outcome of the schedule.
  \<^item> A value of type \<^verbatim>\<open>jsonb\<close> is read back as JSON gives it (\<open>json_value\<close>).
  \<^item> The serial number of a certificate that a request presents is an argument.
\<close>

section \<open>Workloads\<close>

text \<open>Two rows of \<^verbatim>\<open>workloads\<close> differ in their ids; the texts of a row have bounded lengths.\<close>

definition workload_fits :: "Workload \<Rightarrow> bool" where
  "workload_fits w \<longleftrightarrow>
     length (wl_ID w) \<le> 255 \<and> length (wl_TenantID w) \<le> 255 \<and> length (wl_SpiffeID w) \<le> 500 \<and>
     length (wl_VaultRole w) \<le> 255 \<and> length (wl_Status w) \<le> 50 \<and> length (wl_AttestationType w) \<le> 50"

definition no_workload :: "spire_error \<Rightarrow> spire_error" where
  "no_workload e = (if e = Plain NoRows then NewNotFoundError ''Workload not found'' (Some e)
                    else NewInternalError ''Failed to get workload'' (Some e))"

definition workload_GetByID :: "string \<Rightarrow> string \<Rightarrow> string \<Rightarrow> Workload act" where
  "workload_GetByID n tenantID i =
     map_error no_workload (db_read n (\<lambda>d. select_row (\<lambda>w. wl_ID w = i \<and> wl_TenantID w = tenantID) (db_workloads d)))"

definition workload_GetBySpiffeID :: "string \<Rightarrow> string \<Rightarrow> string \<Rightarrow> Workload act" where
  "workload_GetBySpiffeID n tenantID spiffeID =
     map_error no_workload (db_read n (\<lambda>d. select_row (\<lambda>w. wl_SpiffeID w = spiffeID \<and> wl_TenantID w = tenantID) (db_workloads d)))"

definition insert_workload :: "Workload \<Rightarrow> tenant_db \<Rightarrow> go_error + tenant_db \<times> unit" where
  "insert_workload w d =
     (if workload_fits w \<and> wl_ID w \<notin> wl_ID ` set (db_workloads d)
      then Inr (d\<lparr> db_workloads := db_workloads d @ [w] \<rparr>, ()) else Inl DBError)"

definition workload_Create :: "gotime \<Rightarrow> string \<Rightarrow> Workload \<Rightarrow> unit act" where
  "workload_Create now n w =
     map_error (\<lambda>e. NewInternalError ''Failed to create workload'' (Some e))
       (db_stmt n (insert_workload (w\<lparr> wl_CreatedAt := now, wl_UpdatedAt := now \<rparr>)))"

definition workload_touched :: "int \<Rightarrow> unit act" where
  "workload_touched k = (if k = 0 then fail_act (NewNotFoundError ''Workload not found'' None) else return_act ())"

definition set_workload :: "gotime \<Rightarrow> Workload \<Rightarrow> Workload \<Rightarrow> Workload" where
  "set_workload now w r =
     r\<lparr> wl_Selectors := wl_Selectors w, wl_VaultRole := wl_VaultRole w, wl_Status := wl_Status w,
        wl_AttestationType := wl_AttestationType w, wl_UpdatedAt := now \<rparr>"

definition workload_Update :: "gotime \<Rightarrow> string \<Rightarrow> Workload \<Rightarrow> unit act" where
  "workload_Update now n w =
     bind_act (map_error (\<lambda>e. NewInternalError ''Failed to update workload'' (Some e))
       (db_stmt n (\<lambda>d. let P = (\<lambda>r. wl_ID r = wl_ID w \<and> wl_TenantID r = wl_TenantID w); k = affected P (db_workloads d)
          in if k = 0 \<or> length (wl_VaultRole w) \<le> 255 \<and> length (wl_Status w) \<le> 50 \<and> length (wl_AttestationType w) \<le> 50
             then Inr (d\<lparr> db_workloads := update_where P (set_workload now w) (db_workloads d) \<rparr>, k) else Inl DBError)))
       workload_touched"

definition workload_Delete :: "string \<Rightarrow> string \<Rightarrow> string \<Rightarrow> unit act" where
  "workload_Delete n tenantID i =
     bind_act (map_error (\<lambda>e. NewInternalError ''Failed to delete workload'' (Some e))
       (db_stmt n (\<lambda>d. let P = (\<lambda>r. wl_ID r = i \<and> wl_TenantID r = tenantID)
          in Inr (d\<lparr> db_workloads := delete_where P (db_workloads d) \<rparr>, affected P (db_workloads d)))))
       workload_touched"

definition queryWorkloads :: "string \<Rightarrow> string \<Rightarrow> Workload list act" where
  "queryWorkloads n tenantID =
     map_error (\<lambda>e. NewInternalError ''Failed to query workloads'' (Some e))
       (db_read n (\<lambda>d. Inr (filter (\<lambda>w. wl_TenantID w = tenantID) (db_workloads d))))"

definition workload_ListByTenant :: "string \<Rightarrow> string \<Rightarrow> Workload list act" where
  "workload_ListByTenant n tenantID =
     bind_act (queryWorkloads n tenantID) (\<lambda>ws. return_act (sort_key (\<lambda>w. - wl_CreatedAt w) ws))"

text \<open>A key that the workload does not have reads as the empty text.\<close>

definition matchesSelectors :: "str_map \<Rightarrow> str_map \<Rightarrow> bool" where
  "matchesSelectors ws qs =
     (\<forall>k \<in> set (map fst qs). (case map_of ws k of None \<Rightarrow> [] | Some v \<Rightarrow> v) = the (map_of qs k))"

definition FindBySelectors :: "string \<Rightarrow> string \<Rightarrow> str_map \<Rightarrow> Workload list act" where
  "FindBySelectors n tenantID sels =
     bind_act (queryWorkloads n tenantID) (\<lambda>ws. return_act (filter (\<lambda>w. matchesSelectors (wl_Selectors w) sels) ws))"

section \<open>Certificates\<close>

definition ct_IsValid :: "gotime \<Rightarrow> Certificate \<Rightarrow> bool" where
  "ct_IsValid now x \<longleftrightarrow> ct_Status x = ''active'' \<and> now < ct_ExpiresAt x \<and> ct_RevokedAt x = None"

definition IsExpiringSoon :: "gotime \<Rightarrow> Certificate \<Rightarrow> int \<Rightarrow> bool" where
  "IsExpiringSoon now x threshold \<longleftrightarrow> ct_ExpiresAt x - now < threshold"

definition cert_stmt :: "string \<Rightarrow> (Certificate list \<Rightarrow> go_error + Certificate list \<times> 'r) \<Rightarrow> 'r act" where
  "cert_stmt n f =
     db_stmt n (\<lambda>d. case db_certificates d of
        None \<Rightarrow> Inl DBError
      | Some xs \<Rightarrow> (case f xs of Inl e \<Rightarrow> Inl e | Inr (xs', y) \<Rightarrow> Inr (d\<lparr> db_certificates := Some xs' \<rparr>, y)))"

definition scanCertificate :: "string \<Rightarrow> (Certificate list \<Rightarrow> go_error + Certificate) \<Rightarrow> Certificate act" where
  "scanCertificate n g =
     map_error (\<lambda>e. if e = Plain NoRows then NewNotFoundError ''Certificate not found'' (Some e)
                    else NewInternalError ''Failed to get certificate'' (Some e))
       (cert_stmt n (\<lambda>xs. case g xs of Inl e \<Rightarrow> Inl e | Inr x \<Rightarrow> Inr (xs, x)))"

definition queryCertificates :: "string \<Rightarrow> (Certificate list \<Rightarrow> Certificate list) \<Rightarrow> Certificate list act" where
  "queryCertificates n g =
     map_error (\<lambda>e. NewInternalError ''Failed to query certificates'' (Some e)) (cert_stmt n (\<lambda>xs. Inr (xs, g xs)))"

definition cert_GetByID :: "string \<Rightarrow> string \<Rightarrow> string \<Rightarrow> Certificate act" where
  "cert_GetByID n tenantID i = scanCertificate n (select_row (\<lambda>x. ct_ID x = i \<and> ct_TenantID x = tenantID))"

definition GetBySerialNumber :: "string \<Rightarrow> string \<Rightarrow> string \<Rightarrow> Certificate act" where
  "GetBySerialNumber n tenantID serial = scanCertificate n (select_row (\<lambda>x. ct_SerialNumber x = serial \<and> ct_TenantID x = tenantID))"

definition GetActiveByWorkload :: "string \<Rightarrow> string \<Rightarrow> string \<Rightarrow> Certificate act" where
  "GetActiveByWorkload n tenantID workloadID =
     scanCertificate n (\<lambda>xs. select_row (\<lambda>x. ct_WorkloadID x = workloadID \<and> ct_TenantID x = tenantID \<and> ct_Status x = ''active'')
                                (sort_key (\<lambda>x. - ct_IssuedAt x) xs))"

text \<open>The statement leaves \<^verbatim>\<open>revoked_at\<close> out.\<close>

definition cert_Create :: "gotime \<Rightarrow> string \<Rightarrow> Certificate \<Rightarrow> unit act" where
  "cert_Create now n x =
     map_error (\<lambda>e. NewInternalError ''Failed to create certificate'' (Some e))
       (cert_stmt n (\<lambda>xs. Inr (xs @ [x\<lparr> ct_CreatedAt := now, ct_RevokedAt := None \<rparr>], ())))"

definition cert_touched :: "int \<Rightarrow> unit act" where
  "cert_touched k = (if k = 0 then fail_act (NewNotFoundError ''Certificate not found'' None) else return_act ())"

definition set_cert :: "string \<Rightarrow> string \<Rightarrow> (Certificate \<Rightarrow> Certificate) \<Rightarrow> Certificate list \<Rightarrow> go_error + Certificate list \<times> int" where
  "set_cert tenantID i f xs =
     (let P = (\<lambda>x. ct_ID x = i \<and> ct_TenantID x = tenantID) in Inr (update_where P f xs, affected P xs))"

definition cert_Update :: "string \<Rightarrow> Certificate \<Rightarrow> unit act" where
  "cert_Update n x =
     bind_act (map_error (\<lambda>e. NewInternalError ''Failed to update certificate'' (Some e))
       (cert_stmt n (set_cert (ct_TenantID x) (ct_ID x) (\<lambda>r. r\<lparr> ct_Status := ct_Status x, ct_RevokedAt := ct_RevokedAt x \<rparr>))))
       cert_touched"

definition cert_Revoke :: "gotime \<Rightarrow> string \<Rightarrow> string \<Rightarrow> string \<Rightarrow> unit act" where
  "cert_Revoke now n tenantID i =
     bind_act (map_error (\<lambda>e. NewInternalError ''Failed to revoke certificate'' (Some e))
       (cert_stmt n (set_cert tenantID i (\<lambda>r. r\<lparr> ct_Status := ''revoked'', ct_RevokedAt := Some now \<rparr>))))
       cert_touched"

definition ListByWorkload :: "string \<Rightarrow> string \<Rightarrow> string \<Rightarrow> Certificate list act" where
  "ListByWorkload n tenantID workloadID =
     queryCertificates n (\<lambda>xs. sort_key (\<lambda>x. - ct_IssuedAt x) (filter (\<lambda>x. ct_WorkloadID x = workloadID \<and> ct_TenantID x = tenantID) xs))"

definition ListExpiring :: "gotime \<Rightarrow> string \<Rightarrow> string \<Rightarrow> int \<Rightarrow> Certificate list act" where
  "ListExpiring now n tenantID window =
     queryCertificates n (\<lambda>xs. sort_key ct_ExpiresAt
       (filter (\<lambda>x. ct_TenantID x = tenantID \<and> ct_Status x = ''active'' \<and> ct_ExpiresAt x < now + window) xs))"

section \<open>Attestation policies\<close>

definition policy_MatchesSelectors :: "AttestationPolicy \<Rightarrow> str_map \<Rightarrow> bool" where
  "policy_MatchesSelectors p sels \<longleftrightarrow>
     ap_Enabled p \<and>
     (\<forall>k \<in> set (map fst (ap_SelectorRules p)).
        case (map_of sels k, map_of (ap_SelectorRules p) k) of
          (Some actual, Some (GStr expected)) \<Rightarrow> expected = ''*'' \<or> actual = expected
        | _ \<Rightarrow> False)"

definition policy_fits :: "AttestationPolicy \<Rightarrow> bool" where
  "policy_fits p \<longleftrightarrow>
     length (ap_Name p) \<le> 255 \<and> length (ap_AttestationType p) \<le> 50 \<and> length (ap_VaultRole p) \<le> 255 \<and>
     - (2 ^ 31) \<le> ap_TTL p \<and> ap_TTL p < 2 ^ 31 \<and> - (2 ^ 31) \<le> ap_Priority p \<and> ap_Priority p < 2 ^ 31"

text \<open>A statement with the id and the tenant of a policy as texts.\<close>

definition policy_key :: "spire_env \<Rightarrow> string \<Rightarrow> string \<Rightarrow> go_error + (AttestationPolicy \<Rightarrow> bool)" where
  "policy_key E tenantID i =
     (case (cast_uuid E i, cast_uuid E tenantID) of
        (Inr u, Inr t) \<Rightarrow> Inr (\<lambda>p. ap_ID p = u \<and> ap_TenantID p = t) | _ \<Rightarrow> Inl DBError)"

definition stored_rules :: "AttestationPolicy \<Rightarrow> any_map" where
  "stored_rules p = map (\<lambda>(k, v). (k, json_value v)) (ap_SelectorRules p)"

definition policy_GetByID :: "spire_env \<Rightarrow> string \<Rightarrow> string \<Rightarrow> string \<Rightarrow> AttestationPolicy act" where
  "policy_GetByID E n tenantID i =
     map_error (\<lambda>e. if e = Plain NoRows then NewNotFoundError ''Policy not found'' (Some e)
                    else NewInternalError ''Failed to get policy'' (Some e))
       (db_read n (\<lambda>d. case policy_key E tenantID i of Inl e \<Rightarrow> Inl e | Inr P \<Rightarrow> select_row P (db_policies d)))"

definition policy_Create :: "spire_env \<Rightarrow> gotime \<Rightarrow> string \<Rightarrow> AttestationPolicy \<Rightarrow> unit act" where
  "policy_Create E now n p =
     map_error (\<lambda>e. NewInternalError ''Failed to create policy'' (Some e))
       (db_stmt n (\<lambda>d. case (cast_uuid E (ap_ID p), cast_uuid E (ap_TenantID p)) of
          (Inr i, Inr t) \<Rightarrow>
            if policy_fits p \<and> i \<notin> ap_ID ` set (db_policies d)
            then Inr (d\<lparr> db_policies := db_policies d @ [p\<lparr> ap_ID := i, ap_TenantID := t, ap_SelectorRules := stored_rules p,
                          ap_CreatedAt := now, ap_UpdatedAt := now \<rparr>] \<rparr>, ())
            else Inl DBError
        | _ \<Rightarrow> Inl DBError))"

definition policy_touched :: "int \<Rightarrow> unit act" where
  "policy_touched k = (if k = 0 then fail_act (NewNotFoundError ''Policy not found'' None) else return_act ())"

definition set_policy :: "gotime \<Rightarrow> AttestationPolicy \<Rightarrow> AttestationPolicy \<Rightarrow> AttestationPolicy" where
  "set_policy now p r =
     r\<lparr> ap_Name := ap_Name p, ap_Description := ap_Description p, ap_AttestationType := ap_AttestationType p,
        ap_SelectorRules := stored_rules p, ap_VaultRole := ap_VaultRole p, ap_TTL := ap_TTL p,
        ap_Priority := ap_Priority p, ap_Enabled := ap_Enabled p, ap_UpdatedAt := now \<rparr>"

definition policy_Update :: "spire_env \<Rightarrow> gotime \<Rightarrow> string \<Rightarrow> AttestationPolicy \<Rightarrow> unit act" where
  "policy_Update E now n p =
     bind_act (map_error (\<lambda>e. NewInternalError ''Failed to update policy'' (Some e))
       (db_stmt n (\<lambda>d. case policy_key E (ap_TenantID p) (ap_ID p) of
          Inl e \<Rightarrow> Inl e
        | Inr P \<Rightarrow> let k = affected P (db_policies d)
                   in if k = 0 \<or> policy_fits p
                      then Inr (d\<lparr> db_policies := update_where P (set_policy now p) (db_policies d) \<rparr>, k) else Inl DBError)))
       policy_touched"

definition policy_Delete :: "spire_env \<Rightarrow> string \<Rightarrow> string \<Rightarrow> string \<Rightarrow> unit act" where
  "policy_Delete E n tenantID i =
     bind_act (map_error (\<lambda>e. NewInternalError ''Failed to delete policy'' (Some e))
       (db_stmt n (\<lambda>d. case policy_key E tenantID i of
          Inl e \<Rightarrow> Inl e
        | Inr P \<Rightarrow> Inr (d\<lparr> db_policies := delete_where P (db_policies d) \<rparr>, affected P (db_policies d)))))
       policy_touched"

definition queryPolicies :: "spire_env \<Rightarrow> string \<Rightarrow> string \<Rightarrow> (AttestationPolicy \<Rightarrow> bool) \<Rightarrow> AttestationPolicy list act" where
  "queryPolicies E n tenantID P =
     map_error (\<lambda>e. NewInternalError ''Failed to query policies'' (Some e))
       (db_read n (\<lambda>d. case cast_uuid E tenantID of
          Inl e \<Rightarrow> Inl e | Inr t \<Rightarrow> Inr (filter (\<lambda>p. ap_TenantID p = t \<and> P p) (db_policies d))))"

definition by_priority :: "AttestationPolicy list \<Rightarrow> AttestationPolicy list" where
  "by_priority ps = sort_key (\<lambda>p. - ap_Priority p) ps"

definition policy_ListByTenant :: "spire_env \<Rightarrow> string \<Rightarrow> string \<Rightarrow> AttestationPolicy list act" where
  "policy_ListByTenant E n tenantID =
     bind_act (queryPolicies E n tenantID (\<lambda>_. True)) (\<lambda>ps. return_act (by_priority (sort_key (\<lambda>p. - ap_CreatedAt p) ps)))"

definition FindMatchingPolicy :: "spire_env \<Rightarrow> string \<Rightarrow> string \<Rightarrow> string \<Rightarrow> str_map \<Rightarrow> AttestationPolicy act" where
  "FindMatchingPolicy E n tenantID typ sels =
     bind_act (queryPolicies E n tenantID (\<lambda>p. ap_AttestationType p = typ \<and> ap_Enabled p))
       (\<lambda>ps. case List.find (\<lambda>p. policy_MatchesSelectors p sels) (by_priority ps) of
          Some p \<Rightarrow> return_act p | None \<Rightarrow> fail_act (NewNotFoundError ''No matching policy found'' None))"

section \<open>Audit log\<close>

datatype audit_db = PlatformAudit | TenantAudit string

definition audit_stmt :: "audit_db \<Rightarrow> (AuditLog list \<Rightarrow> go_error + AuditLog list \<times> 'r) \<Rightarrow> 'r act" where
  "audit_stmt db f =
     (case db of
        PlatformAudit \<Rightarrow>
          stmt (\<lambda>s. case sp_audit s of
             None \<Rightarrow> Inl DBError
           | Some ls \<Rightarrow> (case f ls of Inl e \<Rightarrow> Inl e | Inr (ls', y) \<Rightarrow> Inr (s\<lparr> sp_audit := Some ls' \<rparr>, y)))
      | TenantAudit n \<Rightarrow>
          db_stmt n (\<lambda>d. case db_audit d of
             None \<Rightarrow> Inl DBError
           | Some ls \<Rightarrow> (case f ls of Inl e \<Rightarrow> Inl e | Inr (ls', y) \<Rightarrow> Inr (d\<lparr> db_audit := Some ls' \<rparr>, y))))"

definition audit_Create :: "gotime \<Rightarrow> uuid \<Rightarrow> audit_db \<Rightarrow> AuditLog \<Rightarrow> unit act" where
  "audit_Create now newID db l =
     map_error (\<lambda>e. NewInternalError ''Failed to create audit log'' (Some e))
       (audit_stmt db (\<lambda>ls. Inr (ls @ [l\<lparr> al_ID := (if al_ID l = [] then newID else al_ID l), al_CreatedAt := now,
          al_Metadata := map (\<lambda>(k, v). (k, json_value v)) (al_Metadata l) \<rparr>], ())))"

text \<open>\<^verbatim>\<open>LIMIT\<close> and \<^verbatim>\<open>OFFSET\<close> refuse negative numbers.\<close>

definition queryAuditLogs :: "audit_db \<Rightarrow> (AuditLog \<Rightarrow> bool) \<Rightarrow> int \<Rightarrow> int \<Rightarrow> AuditLog list act" where
  "queryAuditLogs db P limit offset =
     map_error (\<lambda>e. NewInternalError ''Failed to query audit logs'' (Some e))
       (audit_stmt db (\<lambda>ls.
          if limit < 0 \<or> offset < 0 then Inl DBError
          else Inr (ls, take (nat limit) (drop (nat offset) (sort_key (\<lambda>l. - al_CreatedAt l) (filter P ls))))))"

definition audit_List :: "audit_db \<Rightarrow> string \<Rightarrow> int \<Rightarrow> int \<Rightarrow> AuditLog list act" where
  "audit_List db tenantID = queryAuditLogs db (\<lambda>l. al_TenantID l = tenantID)"

definition audit_ListByWorkload :: "audit_db \<Rightarrow> string \<Rightarrow> string \<Rightarrow> int \<Rightarrow> int \<Rightarrow> AuditLog list act" where
  "audit_ListByWorkload db tenantID workloadID = queryAuditLogs db (\<lambda>l. al_TenantID l = tenantID \<and> al_WorkloadID l = workloadID)"

definition ListByEventType :: "audit_db \<Rightarrow> string \<Rightarrow> string \<Rightarrow> int \<Rightarrow> int \<Rightarrow> AuditLog list act" where
  "ListByEventType db tenantID typ = queryAuditLogs db (\<lambda>l. al_TenantID l = tenantID \<and> al_EventType l = typ)"

definition ListByDateRange :: "audit_db \<Rightarrow> string \<Rightarrow> gotime \<Rightarrow> gotime \<Rightarrow> int \<Rightarrow> int \<Rightarrow> AuditLog list act" where
  "ListByDateRange db tenantID start stop =
     queryAuditLogs db (\<lambda>l. al_TenantID l = tenantID \<and> start \<le> al_CreatedAt l \<and> al_CreatedAt l \<le> stop)"

text \<open>The services log an error of the audit log and go on.\<close>

definition audited :: "gotime \<Rightarrow> uuid \<Rightarrow> audit_db \<Rightarrow> AuditLog \<Rightarrow> unit act" where
  "audited now newID db l = bind_act (try_act (audit_Create now newID db l)) (\<lambda>_. return_act ())"

definition refuse :: "unit act \<Rightarrow> spire_error \<Rightarrow> 'r act" where
  "refuse a e = bind_act a (\<lambda>_. fail_act e)"

section \<open>Attestation\<close>

record AttestRequest =
  at_TenantID :: string
  at_CSR :: string
  at_AttestationType :: string
  at_Selectors :: str_map
  at_VaultMount :: string
  at_IPAddress :: string
  at_UserAgent :: string

record AttestResponse =
  as_Certificate :: string
  as_CAChain :: "string list"
  as_SpiffeID :: string
  as_ExpiresAt :: gotime
  as_WorkloadID :: string
  as_SerialNumber :: string

text \<open>The ids that a request draws: of a workload, of a certificate and of an audit entry.\<close>

record fresh_ids =
  fi_workload :: uuid
  fi_certificate :: uuid
  fi_audit :: uuid

definition generateSpiffeID :: "string \<Rightarrow> str_map \<Rightarrow> string" where
  "generateSpiffeID tenantID sels =
     ''spiffe://'' @ tenantID @
     (case map_of sels ''k8s:namespace'' of Some ns \<Rightarrow> ''/ns/'' @ ns | None \<Rightarrow> []) @
     (case map_of sels ''k8s:service-account'' of Some sa \<Rightarrow> ''/sa/'' @ sa | None \<Rightarrow> [])"

definition auditAttestationWithRepo ::
  "gotime \<Rightarrow> uuid \<Rightarrow> audit_db \<Rightarrow> AttestRequest \<Rightarrow> string \<Rightarrow> bool \<Rightarrow> string \<Rightarrow> unit act" where
  "auditAttestationWithRepo now newID db req spiffeID success msg =
     audited now newID db
       \<lparr> al_ID = [], al_TenantID = at_TenantID req, al_EventType = ''attest'', al_WorkloadID = [], al_CertificateID = [],
         al_SpiffeID = spiffeID, al_Success = success, al_ErrorMessage = msg,
         al_Metadata = [(''attestation_type'', GStr (at_AttestationType req)),
                        (''selectors'', GMap (map (\<lambda>(k, v). (k, GStr v)) (at_Selectors req)))],
         al_IPAddress = at_IPAddress req, al_UserAgent = at_UserAgent req, al_CreatedAt = zero_time \<rparr>"

definition getOrCreateWorkloadInRepo ::
  "gotime \<Rightarrow> uuid \<Rightarrow> string \<Rightarrow> string \<Rightarrow> string \<Rightarrow> str_map \<Rightarrow> string \<Rightarrow> string \<Rightarrow> Workload act" where
  "getOrCreateWorkloadInRepo now newID n tenantID spiffeID sels role typ =
     bind_act (try_act (workload_GetBySpiffeID n tenantID spiffeID))
       (\<lambda>r. case r of
          Inr w \<Rightarrow> return_act w
        | Inl _ \<Rightarrow>
            (let w = \<lparr> wl_ID = newID, wl_TenantID = tenantID, wl_SpiffeID = spiffeID, wl_Selectors = sels, wl_VaultRole = role,
                       wl_Status = ''active'', wl_AttestationType = typ, wl_CreatedAt = now, wl_UpdatedAt = now \<rparr>
             in bind_act (map_error (\<lambda>e. NewInternalError ''Failed to create workload'' (Some e)) (workload_Create now n w))
                  (\<lambda>_. return_act w)))"

text \<open>The mount for the request: the one of the tenant, or for a tenant that is not found the one that the request names.\<close>

definition attest_mount :: "gotime \<Rightarrow> fresh_ids \<Rightarrow> AttestRequest \<Rightarrow> spire_error + spire_Tenant \<Rightarrow> string act" where
  "attest_mount now ids req r =
     (case r of
        Inl _ \<Rightarrow> return_act (if at_VaultMount req \<noteq> [] then at_VaultMount req else ''pki/'' @ at_TenantID req)
      | Inr tenant \<Rightarrow>
          if \<not> tenant_IsActive tenant
          then refuse (auditAttestationWithRepo now (fi_audit ids) PlatformAudit req [] False ''tenant not active'')
                 (NewForbiddenError ''Tenant is not active'' None)
          else return_act (st_VaultMount tenant))"

text \<open>The checks of a signing request, where a refusal is audited.\<close>

definition audited_csr :: "spire_env \<Rightarrow> (string \<Rightarrow> unit act) \<Rightarrow> string \<Rightarrow> unit act" where
  "audited_csr E note csr =
     (case se_csr E csr of
        NoPEM \<Rightarrow> refuse (note ''invalid CSR format'') (NewBadRequestError ''Invalid CSR format'' None)
      | BadCSR \<Rightarrow> refuse (note ''failed to parse CSR'') (NewBadRequestError ''Failed to parse CSR'' (Some (Plain (Errorf ''x509''))))
      | BadCSRSignature \<Rightarrow> refuse (note ''invalid CSR signature'') (NewBadRequestError ''Invalid CSR signature'' (Some (Plain (Errorf ''x509''))))
      | GoodCSR \<Rightarrow> return_act ())"

definition svc_role :: "spire_error + AttestationPolicy \<Rightarrow> string \<times> int" where
  "svc_role r = (case r of Inl _ \<Rightarrow> (''workload'', 86400) | Inr p \<Rightarrow> (ap_VaultRole p, ap_TTL p))"

definition on_error :: "'r act \<Rightarrow> unit act \<Rightarrow> 'r act" where
  "on_error m a = bind_act (try_act m) (\<lambda>r. case r of Inl e \<Rightarrow> refuse a e | Inr x \<Rightarrow> return_act x)"

definition new_certificate :: "gotime \<Rightarrow> uuid \<Rightarrow> string \<Rightarrow> Workload \<Rightarrow> string \<Rightarrow> string \<Rightarrow> CertificateResponse \<Rightarrow> Certificate" where
  "new_certificate now newID tenantID w spiffeID typ cert =
     \<lparr> ct_ID = newID, ct_TenantID = tenantID, ct_WorkloadID = wl_ID w, ct_SerialNumber = cp_SerialNumber cert,
       ct_SHA256Fingerprint = [], ct_SpiffeID = spiffeID, ct_CertPEM = cp_Certificate cert, ct_CAChain = cp_CAChain cert,
       ct_IssuedAt = now, ct_ExpiresAt = cp_ExpirationTime cert, ct_RevokedAt = None, ct_Status = ''active'',
       ct_IssueType = typ, ct_CreatedAt = zero_time \<rparr>"

text \<open>From the checked request on: policy, workload, certificate.\<close>

definition attest_issue :: "spire_env \<Rightarrow> gotime \<Rightarrow> fresh_ids \<Rightarrow> AttestRequest \<Rightarrow> string \<Rightarrow> string \<Rightarrow> AttestResponse act" where
  "attest_issue E now ids req n mount =
     bind_act (try_act (FindMatchingPolicy E n (at_TenantID req) (at_AttestationType req) (at_Selectors req)))
       (\<lambda>r. let (role, ttl) = svc_role r; spiffeID = generateSpiffeID (at_TenantID req) (at_Selectors req);
                note = auditAttestationWithRepo now (fi_audit ids) (TenantAudit n) req spiffeID in
        bind_act (on_error (getOrCreateWorkloadInRepo now (fi_workload ids) n (at_TenantID req) spiffeID (at_Selectors req)
                              role (at_AttestationType req)) (note False ''failed to create workload''))
        (\<lambda>w. bind_act (on_error (IssueCertificate E now (TrimPrefix mount ''pki/'') role
                  \<lparr> cq_CSR = at_CSR req, cq_CommonName = spiffeID, cq_TTL = Itoa ttl @ ''s'', cq_AltNames = [], cq_IPSANs = [],
                    cq_URISANs = [spiffeID] \<rparr>) (note False ''vault issuance failed''))
        (\<lambda>cert. bind_act (try_act (cert_Create now n (new_certificate now (fi_certificate ids) (at_TenantID req) w spiffeID ''attest'' cert)))
        (\<lambda>_. bind_act (note True [])
        (\<lambda>_. return_act \<lparr> as_Certificate = cp_Certificate cert, as_CAChain = cp_CAChain cert, as_SpiffeID = spiffeID,
                as_ExpiresAt = cp_ExpirationTime cert, as_WorkloadID = wl_ID w, as_SerialNumber = cp_SerialNumber cert \<rparr>)))))"

definition tenant_repositories :: "spire_env \<Rightarrow> string \<Rightarrow> string act" where
  "tenant_repositories E tenantID =
     map_error (\<lambda>e. NewInternalError ''Failed to connect to tenant database'' (Some (Wrapped ''failed to connect to tenant database: '' e)))
       (GetTenantDB E tenantID)"

definition svc_Attest :: "spire_env \<Rightarrow> gotime \<Rightarrow> fresh_ids \<Rightarrow> AttestRequest \<Rightarrow> AttestResponse act" where
  "svc_Attest E now ids req =
     bind_act (tenant_repositories E (at_TenantID req))
       (\<lambda>n. bind_act (try_act (tenant_GetByID E (at_TenantID req)))
       (\<lambda>r. bind_act (attest_mount now ids req r)
       (\<lambda>mount. bind_act (audited_csr E (auditAttestationWithRepo now (fi_audit ids) PlatformAudit req [] False) (at_CSR req))
       (\<lambda>_. attest_issue E now ids req n mount))))"

section \<open>Renewal\<close>

record RenewRequest =
  rn_TenantID :: string
  rn_WorkloadID :: string
  rn_CSR :: string
  rn_OldCertificate :: string
  rn_IPAddress :: string
  rn_UserAgent :: string

record RenewResponse =
  rw_Certificate :: string
  rw_CAChain :: "string list"
  rw_ExpiresAt :: gotime
  rw_SerialNumber :: string

datatype old_cert = NoCertBlock | BadCertificate | CertSerial string

text \<open>
  The service holds the certificate repository of a database, or a nil one, and reads a presented certificate
  down to its serial number. The renewal window is only logged.
\<close>

record RenewalService =
  rs_certRepo :: "string option"
  rs_parse :: "string \<Rightarrow> old_cert"

definition auditRenewal :: "gotime \<Rightarrow> uuid \<Rightarrow> RenewRequest \<Rightarrow> bool \<Rightarrow> string \<Rightarrow> unit act" where
  "auditRenewal now newID req success msg =
     audited now newID PlatformAudit
       \<lparr> al_ID = [], al_TenantID = rn_TenantID req, al_EventType = ''renew'', al_WorkloadID = rn_WorkloadID req, al_CertificateID = [],
         al_SpiffeID = [], al_Success = success, al_ErrorMessage = msg, al_Metadata = [(''workload_id'', GStr (rn_WorkloadID req))],
         al_IPAddress = rn_IPAddress req, al_UserAgent = rn_UserAgent req, al_CreatedAt = zero_time \<rparr>"

definition validateOldCertificate :: "RenewalService \<Rightarrow> string \<Rightarrow> string \<Rightarrow> string \<Rightarrow> unit act" where
  "validateOldCertificate S tenantID workloadID pem =
     (case rs_parse S pem of
        NoCertBlock \<Rightarrow> fail_act (NewBadRequestError ''Invalid certificate format'' None)
      | BadCertificate \<Rightarrow> fail_act (NewBadRequestError ''Failed to parse certificate'' (Some (Plain (Errorf ''x509''))))
      | CertSerial serial \<Rightarrow>
          (case rs_certRepo S of
             None \<Rightarrow> fail_act (Panic ''nil pointer dereference'')
           | Some n \<Rightarrow>
               bind_act (map_error (\<lambda>e. NewForbiddenError ''No active certificate found for workload'' (Some e))
                           (GetActiveByWorkload n tenantID workloadID))
                 (\<lambda>x. if serial \<noteq> ct_SerialNumber x then fail_act (NewForbiddenError ''Certificate serial number mismatch'' None)
                      else return_act ())))"

text \<open>A panic leaves the caller at once; every other error is audited.\<close>

definition check_old :: "RenewalService \<Rightarrow> (string \<Rightarrow> unit act) \<Rightarrow> RenewRequest \<Rightarrow> unit act" where
  "check_old S note req =
     (if rn_OldCertificate req = [] then return_act ()
      else bind_act (try_act (validateOldCertificate S (rn_TenantID req) (rn_WorkloadID req) (rn_OldCertificate req)))
             (\<lambda>r. case r of
                Inr _ \<Rightarrow> return_act ()
              | Inl (Panic m) \<Rightarrow> fail_act (Panic m)
              | Inl e \<Rightarrow> refuse (note ''old certificate validation failed'') e))"

definition svc_Renew :: "spire_env \<Rightarrow> RenewalService \<Rightarrow> gotime \<Rightarrow> fresh_ids \<Rightarrow> RenewRequest \<Rightarrow> RenewResponse act" where
  "svc_Renew E S now ids req =
     (let note = auditRenewal now (fi_audit ids) req False in
      bind_act (bind_act (try_act (tenant_GetByID E (rn_TenantID req)))
        (\<lambda>r. case r of Inl e \<Rightarrow> refuse (note (Error_text (se_show E) e)) e | Inr t \<Rightarrow> return_act t))
      (\<lambda>tenant. if \<not> tenant_IsActive tenant then refuse (note ''tenant not active'') (NewForbiddenError ''Tenant is not active'' None) else
       bind_act (tenant_repositories E (rn_TenantID req))
      (\<lambda>n. bind_act (on_error (map_error (\<lambda>e. NewNotFoundError ''Workload not found'' (Some e)) (workload_GetByID n (rn_TenantID req) (rn_WorkloadID req)))
              (note ''workload not found''))
      (\<lambda>w. if wl_Status w \<noteq> ''active'' then refuse (note ''workload not active'') (NewForbiddenError ''Workload is not active'' None) else
       bind_act (check_old S note req)
      (\<lambda>_. bind_act (audited_csr E note (rn_CSR req))
      (\<lambda>_. bind_act (on_error (IssueCertificate E now (TrimPrefix (st_VaultMount tenant) ''pki/'') (wl_VaultRole w)
                \<lparr> cq_CSR = rn_CSR req, cq_CommonName = wl_SpiffeID w, cq_TTL = ''24h'', cq_AltNames = [], cq_IPSANs = [],
                  cq_URISANs = [wl_SpiffeID w] \<rparr>) (note ''vault issuance failed''))
      (\<lambda>cert. bind_act (try_act (cert_Create now n (new_certificate now (fi_certificate ids) (rn_TenantID req) w (wl_SpiffeID w) ''renew'' cert)))
      (\<lambda>_. bind_act (auditRenewal now (fi_audit ids) req True [])
      (\<lambda>_. return_act \<lparr> rw_Certificate = cp_Certificate cert, rw_CAChain = cp_CAChain cert,
              rw_ExpiresAt = cp_ExpirationTime cert, rw_SerialNumber = cp_SerialNumber cert \<rparr>)))))))))"

section \<open>Revocation\<close>

record RevokeRequest =
  rv_TenantID :: string
  rv_SerialNumber :: string
  rv_Reason :: string
  rv_IPAddress :: string
  rv_UserAgent :: string

definition auditRevocation :: "gotime \<Rightarrow> uuid \<Rightarrow> RevokeRequest \<Rightarrow> bool \<Rightarrow> string \<Rightarrow> unit act" where
  "auditRevocation now newID req success msg =
     audited now newID PlatformAudit
       \<lparr> al_ID = [], al_TenantID = rv_TenantID req, al_EventType = ''revoke'', al_WorkloadID = [], al_CertificateID = [],
         al_SpiffeID = [], al_Success = success, al_ErrorMessage = msg,
         al_Metadata = [(''serial_number'', GStr (rv_SerialNumber req)), (''reason'', GStr (rv_Reason req))],
         al_IPAddress = rv_IPAddress req, al_UserAgent = rv_UserAgent req, al_CreatedAt = zero_time \<rparr>"

definition svc_Revoke :: "spire_env \<Rightarrow> gotime \<Rightarrow> fresh_ids \<Rightarrow> RevokeRequest \<Rightarrow> unit act" where
  "svc_Revoke E now ids req =
     (let note = auditRevocation now (fi_audit ids) req False in
      bind_act (bind_act (try_act (tenant_GetByID E (rv_TenantID req)))
        (\<lambda>r. case r of Inl e \<Rightarrow> refuse (note (Error_text (se_show E) e)) e | Inr t \<Rightarrow> return_act t))
      (\<lambda>tenant. if \<not> tenant_IsActive tenant then refuse (note ''tenant not active'') (NewForbiddenError ''Tenant is not active'' None) else
       bind_act (tenant_repositories E (rv_TenantID req))
      (\<lambda>n. bind_act (on_error (map_error (\<lambda>e. NewNotFoundError ''Certificate not found'' (Some e))
                (GetBySerialNumber n (rv_TenantID req) (rv_SerialNumber req))) (note ''certificate not found''))
      (\<lambda>x. if ct_RevokedAt x \<noteq> None
           then refuse (note ''certificate already revoked'') (NewConflictError ''Certificate already revoked'' None) else
       bind_act (on_error (RevokeCertificate E (st_VaultMount tenant) (rv_SerialNumber req)) (note ''vault revocation failed''))
      (\<lambda>_. bind_act (try_act (cert_Revoke now n (rv_TenantID req) (ct_ID x)))
      (\<lambda>_. auditRevocation now (fi_audit ids) req True []))))))"

end
