(* ===== verification/Spire_Api.thy ===== *)
theory Spire_Api
  imports Spire_Service Gin_Context
begin

text \<open>
  The routes of workload identity (\<^verbatim>\<open>internal/spire/router.go\<close>): the two middlewares that authenticate callers
  (\<^verbatim>\<open>middleware/jwt_auth_middleware.go\<close>, \<^verbatim>\<open>middleware/agent_cert_middleware.go\<close>) and the handlers of
  \<^verbatim>\<open>controllers/workload_controller.go\<close>, \<^verbatim>\<open>controllers/node_attestation_controller.go\<close> and
  \<^verbatim>\<open>controllers/agent_controller.go\<close>.

  \<^item> A handler gets the outcome of decoding its body; the checks of the binding tags are part of the model. A
    time in a reply is kept as a time.
  \<^item> \<open>route_env\<close> holds the validator of bearer tokens, if one was configured: the user and tenant of a token; the
    decoding of a certificate header to the URIs of the certificate; and the agent middleware as the
    process configures it.
\<close>

section \<open>Replies\<close>

datatype spire_body =
    ErrorBody string string
  | RecoveredPanic
  | SvidBody AttestWorkloadResponse
  | RevokedBody string
  | EntryBody WorkloadEntry
  | AgentEntryBody WorkloadEntry string
  | EntriesBody "WorkloadEntry list" int
  | DeletedBody string
  | NodeBody string string string string int
  | AgentsBody "Agent list"
  | RenewBody AgentRenewResponse

type_synonym spire_reply = "spire_body http_reply"

definition spire_json :: "nat \<Rightarrow> spire_body \<Rightarrow> spire_reply" where
  "spire_json st b = \<lparr> http_status = st, http_body = b, http_audit = [] \<rparr>"

fun sendError :: "spire_error \<Rightarrow> spire_reply" where
  "sendError (AppError code msg st _) = spire_json st (ErrorBody code msg)"
| "sendError (Panic _) = spire_json 500 RecoveredPanic"
| "sendError _ = spire_json 500 (ErrorBody ''INTERNAL_ERROR'' ''Internal server error'')"

text \<open>The end of a handler: the reply of a service call, and of its error as the handler wraps it.\<close>

definition respond ::
  "'r act \<Rightarrow> ('r \<Rightarrow> spire_reply) \<Rightarrow> (spire_error \<Rightarrow> spire_error) \<Rightarrow> spire conn \<Rightarrow> spire_reply \<times> spire conn" where
  "respond m ok wrap c = (case m c of (Inl e, c') \<Rightarrow> (sendError (wrap e), c') | (Inr x, c') \<Rightarrow> (ok x, c'))"

definition bad_request :: "string \<Rightarrow> spire_reply" where
  "bad_request msg = sendError (NewBadRequestError msg None)"

definition forbidden :: "string \<Rightarrow> spire_reply" where
  "forbidden msg = sendError (NewForbiddenError msg None)"

section \<open>Context keys\<close>

definition GetSpireTenantID :: "gin_context \<Rightarrow> string option" where
  "GetSpireTenantID ctx = str_of (ctx ''spire_tenant_id'')"

definition GetSpireSpiffeID :: "gin_context \<Rightarrow> string option" where
  "GetSpireSpiffeID ctx = str_of (ctx ''spire_spiffe_id'')"

section \<open>Middleware\<close>

datatype mw_result = Next gin_context | Aborted spire_reply

definition unauthorized :: "string \<Rightarrow> mw_result" where
  "unauthorized msg = Aborted (spire_json 401 (ErrorBody ''UNAUTHORIZED'' msg))"

text \<open>
  \<open>validate\<close> is \<^verbatim>\<open>ValidateToken\<close>: the user and the tenant of the claims. The claims themselves, which the
  middleware also puts into the context, are not read by any handler.
\<close>

definition JWT_Authenticate ::
  "(string \<Rightarrow> go_error + string \<times> string) \<Rightarrow> string \<Rightarrow> gin_context \<Rightarrow> mw_result" where
  "JWT_Authenticate validate authHeader ctx =
     (if authHeader = [] \<or> \<not> HasPrefix authHeader ''Bearer ''
      then unauthorized ''Authorization header with Bearer token required''
      else
        (case SplitN2 CHR '' '' authHeader of
           [_, token] \<Rightarrow>
             (case validate token of
                Inl _ \<Rightarrow> unauthorized ''Invalid or expired token''
              | Inr (user, tenant) \<Rightarrow>
                  if tenant = [] then unauthorized ''Tenant ID missing in JWT claims''
                  else Next (ctx(''spire_tenant_id'' \<mapsto> GStr tenant, ''spire_user_id'' \<mapsto> GStr user,
                                 ''spire_is_agent'' \<mapsto> GBool False)))
         | _ \<Rightarrow> unauthorized ''Invalid authorization header format''))"

definition parseAgentSpiffeID :: "string \<Rightarrow> (string \<times> bool) option" where
  "parseAgentSpiffeID spiffeID =
     (if \<not> HasPrefix spiffeID ''spiffe://'' then None
      else
        (case SplitN2 CHR ''/'' (TrimPrefix spiffeID ''spiffe://'') of
           [] \<Rightarrow> None
         | tenant # rest \<Rightarrow>
             if tenant = [] then None
             else Some (tenant, case rest of [] \<Rightarrow> False | p # _ \<Rightarrow> hd (Split CHR ''/'' p) = ''agent'')))"

record AgentCertMiddleware =
  am_dbProvider :: "(string \<Rightarrow> go_error + string) option"
  am_strict :: bool

datatype client_cert = NoCert | HeaderCert string | PeerCert "string list"

datatype cert_header = BadEncoding | NoCertPEM | BadCert | CertURIs "string list"

text \<open>A call through the missing provider panics.\<close>

definition lookupAgent :: "AgentCertMiddleware \<Rightarrow> string \<Rightarrow> string \<Rightarrow> (string \<times> string) option act" where
  "lookupAgent m tenantID spiffeID =
     (case am_dbProvider m of
        None \<Rightarrow> fail_act (Panic ''nil pointer dereference'')
      | Some p \<Rightarrow>
          (case p tenantID of
             Inl e \<Rightarrow> fail_act (Plain e)
           | Inr n \<Rightarrow>
               db_read n (\<lambda>d. case select_row (\<lambda>a. ag_SpiffeID a = spiffeID) (db_agents d) of
                                Inr a \<Rightarrow> Inr (Some (ag_ID a, ag_Status a))
                              | Inl NoRows \<Rightarrow> Inr None
                              | Inl e \<Rightarrow> Inl e)))"

definition agent_context :: "string \<Rightarrow> string \<Rightarrow> string \<Rightarrow> gin_context \<Rightarrow> gin_context" where
  "agent_context agentID tenantID spiffeID ctx =
     ctx(''spire_agent_id'' \<mapsto> GStr agentID, ''spire_tenant_id'' \<mapsto> GStr tenantID,
         ''spire_spiffe_id'' \<mapsto> GStr spiffeID, ''spire_is_agent'' \<mapsto> GBool True)"

definition authenticateFromTLSCert ::
  "AgentCertMiddleware \<Rightarrow> string list \<Rightarrow> gin_context \<Rightarrow> spire conn \<Rightarrow> mw_result \<times> spire conn" where
  "authenticateFromTLSCert m uris ctx c =
     (case List.find (\<lambda>u. HasPrefix u ''spiffe://'') uris of
        None \<Rightarrow> (unauthorized ''No SPIFFE ID in agent certificate URI SANs'', c)
      | Some spiffeID \<Rightarrow>
          (case parseAgentSpiffeID spiffeID of
             None \<Rightarrow> (unauthorized ''Invalid SPIFFE ID format in agent certificate'', c)
           | Some (tenantID, isAgent) \<Rightarrow>
               if \<not> isAgent
               then (Aborted (forbidden ''Certificate does not belong to an agent (expected spiffe://<tenant>/agent/...)''), c)
               else
                 (case lookupAgent m tenantID spiffeID c of
                    (Inl (Panic msg), c') \<Rightarrow> (Aborted (sendError (Panic msg)), c')
                  | (Inl e, c') \<Rightarrow> (Aborted (sendError (NewInternalError ''Failed to verify agent identity'' None)), c')
                  | (Inr None, c') \<Rightarrow> (unauthorized (''Agent not found: '' @ spiffeID), c')
                  | (Inr (Some (agentID, status)), c') \<Rightarrow>
                      if status \<noteq> ''active''
                      then (Aborted (forbidden (''Agent is not active (status: '' @ status @ '')'')), c')
                      else (Next (agent_context agentID tenantID spiffeID ctx), c'))))"

definition AgentCert_Authenticate ::
  "AgentCertMiddleware \<Rightarrow> (string \<Rightarrow> cert_header) \<Rightarrow> client_cert \<Rightarrow> gin_context \<Rightarrow> spire conn \<Rightarrow> mw_result \<times> spire conn" where
  "AgentCert_Authenticate m decode cert ctx c =
     (case cert of
        HeaderCert h \<Rightarrow>
          (case decode h of
             BadEncoding \<Rightarrow> (Aborted (bad_request ''Invalid ssl-client-cert header encoding''), c)
           | NoCertPEM \<Rightarrow> (Aborted (bad_request ''Invalid certificate PEM in ssl-client-cert header''), c)
           | BadCert \<Rightarrow> (Aborted (bad_request ''Failed to parse agent certificate''), c)
           | CertURIs uris \<Rightarrow> authenticateFromTLSCert m uris ctx c)
      | PeerCert uris \<Rightarrow> authenticateFromTLSCert m uris ctx c
      | NoCert \<Rightarrow>
          if am_strict m
          then (unauthorized ''Agent certificate required: provide client certificate via mTLS or ssl-client-cert header'', c)
          else (Next ctx, c))"

section \<open>Workload handlers\<close>

definition validateTenantOwnership :: "gin_context \<Rightarrow> string \<Rightarrow> bool" where
  "validateTenantOwnership ctx requestTenantID =
     (case GetSpireTenantID ctx of None \<Rightarrow> False | Some t \<Rightarrow> t \<noteq> [] \<and> t = requestTenantID)"

record attest_input =
  ai_TenantID :: string
  ai_AgentID :: string
  ai_Selectors :: str_map

definition http_AttestWorkload ::
  "spire_env \<Rightarrow> gotime \<Rightarrow> gin_context \<Rightarrow> go_error + attest_input \<Rightarrow> spire conn \<Rightarrow> spire_reply \<times> spire conn" where
  "http_AttestWorkload E now ctx body c =
     (case body of
        Inl e \<Rightarrow> (bad_request ''Invalid request body'', c)
      | Inr req \<Rightarrow>
          if ai_TenantID req = [] then (bad_request ''tenant_id is required'', c)
          else if ai_AgentID req = [] then (bad_request ''agent_id is required'', c)
          else if map_len (ai_Selectors req) = 0 then (bad_request ''selectors are required'', c)
          else if (case GetSpireSpiffeID ctx of None \<Rightarrow> False | Some s \<Rightarrow> s \<noteq> [] \<and> s \<noteq> ai_AgentID req)
          then (forbidden ''Agent identity mismatch: authenticated SPIFFE ID does not match agent_id in request'', c)
          else respond
                 (AttestWorkload E now \<lparr> aw_TenantID = ai_TenantID req, aw_AgentID = ai_AgentID req,
                    aw_Selectors = ai_Selectors req, aw_CSR = [] \<rparr>)
                 (\<lambda>r. spire_json 200 (SvidBody r))
                 (\<lambda>e. NewBadRequestError (''Attestation failed: '' @ Error_text (se_show E) e) (Some e)) c)"

definition http_RevokeWorkloadSVID ::
  "spire_env \<Rightarrow> go_error + string \<times> string \<Rightarrow> spire conn \<Rightarrow> spire_reply \<times> spire conn" where
  "http_RevokeWorkloadSVID E body c =
     (case body of
        Inl e \<Rightarrow> (bad_request ''Invalid request body'', c)
      | Inr (tenantID, serial) \<Rightarrow>
          if tenantID = [] then (bad_request ''tenant_id is required'', c)
          else if serial = [] then (bad_request ''serial_number is required'', c)
          else respond (RevokeWorkloadSVID E tenantID serial) (\<lambda>_. spire_json 200 (RevokedBody serial))
                 (\<lambda>e. NewInternalError (''Revocation failed: '' @ Error_text (se_show E) e) (Some e)) c)"

record CreateWorkloadEntryRequest =
  ce_TenantID :: string
  ce_SpiffeID :: string
  ce_ParentID :: string
  ce_Selectors :: "str_map option"
  ce_TTL :: "int option"
  ce_Admin :: bool
  ce_Downstream :: bool

text \<open>A required text is not empty, a required map is not \<^verbatim>\<open>nil\<close>.\<close>

definition bind_create :: "go_error + CreateWorkloadEntryRequest \<Rightarrow> CreateWorkloadEntryRequest option" where
  "bind_create body =
     (case body of
        Inl e \<Rightarrow> None
      | Inr r \<Rightarrow> if ce_TenantID r = [] \<or> ce_SpiffeID r = [] \<or> ce_Selectors r = None then None else Some r)"

definition the_map :: "str_map option \<Rightarrow> str_map" where
  "the_map m = (case m of None \<Rightarrow> [] | Some s \<Rightarrow> s)"

definition request_entry :: "string \<Rightarrow> string \<Rightarrow> CreateWorkloadEntryRequest \<Rightarrow> WorkloadEntry" where
  "request_entry i tenantID r =
     \<lparr> we_ID = i, we_TenantID = tenantID, we_SpiffeID = ce_SpiffeID r, we_ParentID = ce_ParentID r,
       we_Selectors = the_map (ce_Selectors r), we_TTL = ce_TTL r, we_Admin = ce_Admin r,
       we_Downstream = ce_Downstream r, we_CreatedAt = zero_time, we_UpdatedAt = zero_time \<rparr>"

definition http_CreateEntry ::
  "spire_env \<Rightarrow> gotime \<Rightarrow> uuid \<Rightarrow> gin_context \<Rightarrow> go_error + CreateWorkloadEntryRequest
     \<Rightarrow> spire conn \<Rightarrow> spire_reply \<times> spire conn" where
  "http_CreateEntry E now newID ctx body c =
     (case bind_create body of
        None \<Rightarrow> (bad_request ''Invalid request body'', c)
      | Some req \<Rightarrow>
          if \<not> validateTenantOwnership ctx (ce_TenantID req) then (forbidden ''Tenant ownership validation failed'', c)
          else respond (CreateEntry E now newID (request_entry [] (ce_TenantID req) req))
                 (\<lambda>we. spire_json 201 (EntryBody we))
                 (\<lambda>e. NewInternalError ''Failed to create workload entry'' (Some e)) c)"

record CreateAgentEntryRequest =
  ca_TenantID :: string
  ca_ClientID :: string
  ca_AgentType :: string
  ca_ParentID :: string
  ca_Selectors :: str_map
  ca_TTL :: "int option"

definition agent_entry :: "CreateAgentEntryRequest \<Rightarrow> WorkloadEntry" where
  "agent_entry r =
     \<lparr> we_ID = [], we_TenantID = ca_TenantID r,
       we_SpiffeID = ''spiffe://'' @ ca_TenantID r @ ''/agent/'' @ ca_ClientID r @ ''/'' @ ca_AgentType r,
       we_ParentID = ca_ParentID r,
       we_Selectors = ca_Selectors r @ [(''authsec:client_id'', ca_ClientID r), (''authsec:agent_type'', ca_AgentType r),
                                        (''authsec:tenant_id'', ca_TenantID r)],
       we_TTL = ca_TTL r, we_Admin = False, we_Downstream = False, we_CreatedAt = zero_time, we_UpdatedAt = zero_time \<rparr>"

text \<open>The tags of the request and the check of the handler both reject an empty field; the messages differ.\<close>

definition http_CreateAgentEntry ::
  "spire_env \<Rightarrow> gotime \<Rightarrow> uuid \<Rightarrow> gin_context \<Rightarrow> go_error + CreateAgentEntryRequest
     \<Rightarrow> spire conn \<Rightarrow> spire_reply \<times> spire conn" where
  "http_CreateAgentEntry E now newID ctx body c =
     (case body of
        Inl e \<Rightarrow> (bad_request ''Invalid request body'', c)
      | Inr req \<Rightarrow>
          if ca_TenantID req = [] \<or> ca_ClientID req = [] \<or> ca_AgentType req = []
          then (bad_request ''Invalid request body'', c)
          else if \<not> validateTenantOwnership ctx (ca_TenantID req) then (forbidden ''Tenant ownership validation failed'', c)
          else respond (CreateEntry E now newID (agent_entry req))
                 (\<lambda>we. spire_json 201 (AgentEntryBody we (ca_ClientID req)))
                 (\<lambda>e. NewInternalError ''Failed to create agent workload entry'' (Some e)) c)"

text \<open>The handlers of one tenant: the tenant is named and is the caller's.\<close>

definition with_own_tenant ::
  "gin_context \<Rightarrow> string \<Rightarrow> (spire conn \<Rightarrow> spire_reply \<times> spire conn) \<Rightarrow> spire conn \<Rightarrow> spire_reply \<times> spire conn" where
  "with_own_tenant ctx tenantID k c =
     (if tenantID = [] then (bad_request ''tenant_id is required'', c)
      else if \<not> validateTenantOwnership ctx tenantID then (forbidden ''Tenant ownership validation failed'', c)
      else k c)"

definition http_GetEntry ::
  "spire_env \<Rightarrow> gin_context \<Rightarrow> string \<Rightarrow> string \<Rightarrow> spire conn \<Rightarrow> spire_reply \<times> spire conn" where
  "http_GetEntry E ctx tenantID entryID =
     with_own_tenant ctx tenantID
       (respond (GetEntry E tenantID entryID) (\<lambda>we. spire_json 200 (EntryBody we))
          (\<lambda>e. NewNotFoundError ''Workload entry not found'' (Some e)))"

text \<open>The query of a list; a number is the outcome of \<^verbatim>\<open>strconv.Atoi\<close>.\<close>

record list_query =
  lq_parent_id :: string
  lq_spiffe_id :: string
  lq_spiffe_id_search :: string
  lq_selector_type :: string
  lq_limit :: "int option"
  lq_offset :: "int option"
  lq_admin :: string

definition query_limit :: "int option \<Rightarrow> int" where
  "query_limit l = (case l of None \<Rightarrow> 100 | Some k \<Rightarrow> if k > 0 then min k 1000 else 100)"

definition query_filter :: "string \<Rightarrow> list_query \<Rightarrow> WorkloadEntryFilter" where
  "query_filter tenantID q =
     \<lparr> wf_TenantID = tenantID, wf_ParentID = lq_parent_id q,
       wf_SpiffeID = (if lq_spiffe_id_search q \<noteq> [] then lq_spiffe_id_search q else lq_spiffe_id q),
       wf_SpiffeIDPartial = (lq_spiffe_id_search q \<noteq> []), wf_SelectorType = lq_selector_type q,
       wf_Admin = (if lq_admin q = ''true'' then Some True else if lq_admin q = ''false'' then Some False else None),
       wf_Limit = query_limit (lq_limit q),
       wf_Offset = (case lq_offset q of None \<Rightarrow> 0 | Some k \<Rightarrow> if k \<ge> 0 then k else 0) \<rparr>"

definition list_and_count :: "spire_env \<Rightarrow> WorkloadEntryFilter \<Rightarrow> (WorkloadEntry list \<times> int) act" where
  "list_and_count E f =
     bind_act (ListEntries E f)
       (\<lambda>es. bind_act (try_act (CountEntries E f))
          (\<lambda>r. return_act (es, case r of Inr k \<Rightarrow> k | Inl _ \<Rightarrow> int (length es))))"

definition http_ListEntries ::
  "spire_env \<Rightarrow> gin_context \<Rightarrow> string \<Rightarrow> list_query \<Rightarrow> spire conn \<Rightarrow> spire_reply \<times> spire conn" where
  "http_ListEntries E ctx tenantID q =
     with_own_tenant ctx tenantID
       (\<lambda>c. if lq_selector_type q \<noteq> [] \<and> lq_selector_type q \<notin> {''unix'', ''kubernetes'', ''docker''}
            then (bad_request ''selector_type must be one of: unix, kubernetes, docker'', c)
            else respond (list_and_count E (query_filter tenantID q))
                   (\<lambda>(es, total). spire_json 200 (EntriesBody es total))
                   (\<lambda>e. NewInternalError ''Failed to list workload entries'' (Some e)) c)"

definition http_ListEntriesByParent ::
  "spire_env \<Rightarrow> gin_context \<Rightarrow> string \<Rightarrow> string \<Rightarrow> spire conn \<Rightarrow> spire_reply \<times> spire conn" where
  "http_ListEntriesByParent E ctx tenantID parentID c =
     (if tenantID = [] then (bad_request ''tenant_id is required'', c)
      else if parentID = [] then (bad_request ''parent_id is required'', c)
      else if (case GetSpireTenantID ctx of None \<Rightarrow> False | Some t \<Rightarrow> t \<noteq> [] \<and> t \<noteq> tenantID)
      then (forbidden ''Tenant mismatch'', c)
      else respond (ListEntriesByParent E tenantID parentID)
             (\<lambda>es. spire_json 200 (EntriesBody es (int (length es))))
             (\<lambda>e. NewInternalError ''Failed to list workload entries'' (Some e)) c)"

definition bind_update :: "go_error + CreateWorkloadEntryRequest \<Rightarrow> CreateWorkloadEntryRequest option" where
  "bind_update body =
     (case body of
        Inl e \<Rightarrow> None
      | Inr r \<Rightarrow> if ce_SpiffeID r = [] \<or> ce_ParentID r = [] \<or> ce_Selectors r = None then None else Some r)"

definition http_UpdateEntry ::
  "spire_env \<Rightarrow> gotime \<Rightarrow> gin_context \<Rightarrow> string \<Rightarrow> string \<Rightarrow> go_error + CreateWorkloadEntryRequest
     \<Rightarrow> spire conn \<Rightarrow> spire_reply \<times> spire conn" where
  "http_UpdateEntry E now ctx tenantID entryID body =
     with_own_tenant ctx tenantID
       (\<lambda>c. case bind_update body of
          None \<Rightarrow> (bad_request ''Invalid request body'', c)
        | Some req \<Rightarrow> respond (UpdateEntry E now (request_entry entryID tenantID req))
                        (\<lambda>we. spire_json 200 (EntryBody we))
                        (\<lambda>e. NewInternalError ''Failed to update workload entry'' (Some e)) c)"

definition http_DeleteEntry ::
  "spire_env \<Rightarrow> gin_context \<Rightarrow> string \<Rightarrow> string \<Rightarrow> spire conn \<Rightarrow> spire_reply \<times> spire conn" where
  "http_DeleteEntry E ctx tenantID entryID =
     with_own_tenant ctx tenantID
       (respond (DeleteEntry E tenantID entryID) (\<lambda>_. spire_json 200 (DeletedBody entryID))
          (\<lambda>e. NewInternalError ''Failed to delete workload entry'' (Some e)))"

section \<open>Node and agent handlers\<close>

definition node_reply :: "gotime \<Rightarrow> NodeAttestResponse \<Rightarrow> spire_reply" where
  "node_reply now r =
     spire_json 200 (NodeBody (nr_AgentID r) (nr_SpiffeID r) (nr_Certificate r) (Join (nr_CAChain r) [CHR 0x0A])
       (max 0 ((nr_ExpiresAt r - now) div Second)))"

text \<open>\<open>evidence\<close> is absent when the body has none.\<close>

definition http_NodeAttest ::
  "spire_env \<Rightarrow> k8s_env \<Rightarrow> gotime \<Rightarrow> uuid \<Rightarrow> go_error + NodeAttestRequest \<times> bool \<Rightarrow> spire conn \<Rightarrow> spire_reply \<times> spire conn" where
  "http_NodeAttest E K now newID body c =
     (case body of
        Inl e \<Rightarrow> (bad_request ''Invalid request body'', c)
      | Inr (req, evidence) \<Rightarrow>
          if na_TenantID req = [] then (bad_request ''tenant_id is required'', c)
          else if na_NodeID req = [] then (bad_request ''node_id is required'', c)
          else if na_CSR req = [] then (bad_request ''csr is required'', c)
          else if na_AttestationType req = [] then (bad_request ''attestation_type is required'', c)
          else if \<not> evidence then (bad_request ''evidence is required'', c)
          else respond (node_Attest E K now newID req) (node_reply now) (\<lambda>e. e) c)"

definition http_ListAgents :: "spire_env \<Rightarrow> gin_context \<Rightarrow> spire conn \<Rightarrow> spire_reply \<times> spire conn" where
  "http_ListAgents E ctx c =
     (case GetSpireTenantID ctx of
        Some tenantID \<Rightarrow>
          if tenantID = []
          then (sendError (NewUnauthorizedError ''tenant_id not found in authentication context'' None), c)
          else respond (ListAgentsByTenant E tenantID) (\<lambda>as. spire_json 200 (AgentsBody as)) (\<lambda>e. e) c
      | None \<Rightarrow> (sendError (NewUnauthorizedError ''tenant_id not found in authentication context'' None), c))"

definition http_RenewAgent ::
  "spire_env \<Rightarrow> gotime \<Rightarrow> string option \<Rightarrow> go_error + AgentRenewRequest \<Rightarrow> spire conn \<Rightarrow> spire_reply \<times> spire conn" where
  "http_RenewAgent E now ctx_tenant body c =
     (case body of
        Inl e \<Rightarrow> (bad_request ''Invalid request body'', c)
      | Inr req \<Rightarrow>
          if rq_AgentID req = [] then (bad_request ''agent_id is required'', c)
          else if rq_CSR req = [] then (bad_request ''csr is required'', c)
          else respond (agent_Renew E now ctx_tenant req) (\<lambda>r. spire_json 200 (RenewBody r)) (\<lambda>e. e) c)"

section \<open>Routes\<close>

record route_env =
  re_env :: spire_env
  re_k8s :: k8s_env
  re_jwt :: "(string \<Rightarrow> go_error + string \<times> string) option"
  re_cert :: "string \<Rightarrow> cert_header"

text \<open>The agent middleware of \<^verbatim>\<open>Bootstrap\<close>: no provider of databases, and permissive.\<close>

definition bootstrap_agent_cert :: AgentCertMiddleware where
  "bootstrap_agent_cert = \<lparr> am_dbProvider = None, am_strict = False \<rparr>"

definition via_jwt ::
  "route_env \<Rightarrow> string \<Rightarrow> (gin_context \<Rightarrow> spire conn \<Rightarrow> spire_reply \<times> spire conn) \<Rightarrow> spire conn \<Rightarrow> spire_reply \<times> spire conn" where
  "via_jwt R authHeader h c =
     (case re_jwt R of
        None \<Rightarrow> h Map.empty c
      | Some validate \<Rightarrow>
          (case JWT_Authenticate validate authHeader Map.empty of Next ctx \<Rightarrow> h ctx c | Aborted r \<Rightarrow> (r, c)))"

definition via_agent ::
  "route_env \<Rightarrow> client_cert \<Rightarrow> (gin_context \<Rightarrow> spire conn \<Rightarrow> spire_reply \<times> spire conn) \<Rightarrow> spire conn \<Rightarrow> spire_reply \<times> spire conn" where
  "via_agent R cert h c =
     (case AgentCert_Authenticate bootstrap_agent_cert (re_cert R) cert Map.empty c of
        (Next ctx, c') \<Rightarrow> h ctx c' | (Aborted r, c') \<Rightarrow> (r, c'))"

text \<open>A request to a route; times and fresh ids belong to the request.\<close>

datatype spire_op =
    PostNodeAttest gotime uuid "go_error + NodeAttestRequest \<times> bool"
  | PostAgentRenew gotime "go_error + AgentRenewRequest"
  | GetEntriesByParent client_cert string string
  | PostWorkloadAttest gotime client_cert "go_error + attest_input"
  | PostWorkloadRevoke client_cert "go_error + string \<times> string"
  | GetAgents string
  | PostEntries gotime uuid string "go_error + CreateWorkloadEntryRequest"
  | GetEntries string string list_query
  | GetEntriesId string string string
  | PutEntriesId gotime string string string "go_error + CreateWorkloadEntryRequest"
  | DeleteEntriesId string string string
  | PostEntriesAgent gotime uuid string "go_error + CreateAgentEntryRequest"

fun route :: "route_env \<Rightarrow> spire_op \<Rightarrow> spire conn \<Rightarrow> spire_reply \<times> spire conn" where
  "route R (PostNodeAttest now newID body) = http_NodeAttest (re_env R) (re_k8s R) now newID body"
| "route R (PostAgentRenew now body) = http_RenewAgent (re_env R) now None body"
| "route R (GetEntriesByParent cert t p) = via_agent R cert (\<lambda>ctx. http_ListEntriesByParent (re_env R) ctx t p)"
| "route R (PostWorkloadAttest now cert body) = via_agent R cert (\<lambda>ctx. http_AttestWorkload (re_env R) now ctx body)"
| "route R (PostWorkloadRevoke cert body) = via_agent R cert (\<lambda>ctx. http_RevokeWorkloadSVID (re_env R) body)"
| "route R (GetAgents auth) = via_jwt R auth (\<lambda>ctx. http_ListAgents (re_env R) ctx)"
| "route R (PostEntries now newID auth body) = via_jwt R auth (\<lambda>ctx. http_CreateEntry (re_env R) now newID ctx body)"
| "route R (GetEntries auth t q) = via_jwt R auth (\<lambda>ctx. http_ListEntries (re_env R) ctx t q)"
| "route R (GetEntriesId auth t i) = via_jwt R auth (\<lambda>ctx. http_GetEntry (re_env R) ctx t i)"
| "route R (PutEntriesId now auth t i body) = via_jwt R auth (\<lambda>ctx. http_UpdateEntry (re_env R) now ctx t i body)"
| "route R (DeleteEntriesId auth t i) = via_jwt R auth (\<lambda>ctx. http_DeleteEntry (re_env R) ctx t i)"
| "route R (PostEntriesAgent now newID auth body) = via_jwt R auth (\<lambda>ctx. http_CreateAgentEntry (re_env R) now newID ctx body)"

end
