(* ===== verification/Spire_Tables.thy ===== *)
theory Spire_Tables
  imports Spire_Api
begin

text \<open>
  What every route of workload identity keeps of the stores: connections lead to the database of their tenant,
  the registration tables satisfy their constraints, and the entries of a database change only by requests of its
  tenant. The properties of the routes in \<^verbatim>\<open>Spire_Security\<close> rest on these lemmas.
\<close>

section \<open>The tables of entries\<close>

text \<open>
  What holds of the entries of the database \<open>n\<close>: ids and SPIFFE IDs are unique, every entry is valid and fits its
  columns, and it belongs to a tenant whose database has that name.
\<close>

definition entry_ok :: "spire_env \<Rightarrow> string \<Rightarrow> WorkloadEntry \<Rightarrow> bool" where
  "entry_ok E n we \<longleftrightarrow>
     we_SpiffeID we \<noteq> [] \<and> map_len (we_Selectors we) \<noteq> 0 \<and> entry_fits we \<and>
     (\<forall>t. we_TTL we = Some t \<longrightarrow> 0 < t) \<and>
     (\<exists>t. se_uuid E t = Some (we_TenantID we) \<and> n = tenant_db_name t)"

definition entries_ok :: "spire_env \<Rightarrow> string \<Rightarrow> WorkloadEntry list \<Rightarrow> bool" where
  "entries_ok E n es \<longleftrightarrow>
     distinct (map we_ID es) \<and> distinct (map we_SpiffeID es) \<and> (\<forall>we \<in> set es. entry_ok E n we)"

definition entries_at :: "spire \<Rightarrow> string \<Rightarrow> WorkloadEntry list" where
  "entries_at s n = (case sp_dbs s n of None \<Rightarrow> [] | Some d \<Rightarrow> db_entries d)"

definition spire_ok :: "spire_env \<Rightarrow> spire \<Rightarrow> bool" where
  "spire_ok E s \<longleftrightarrow> conns_ok s \<and> (\<forall>n. entries_ok E n (entries_at s n))"

text \<open>\<open>scoped E X f\<close>: the tables are right, and outside the databases \<open>X\<close> the entries are those of \<open>f\<close>.\<close>

definition scoped :: "spire_env \<Rightarrow> string set \<Rightarrow> (string \<Rightarrow> WorkloadEntry list) \<Rightarrow> spire \<Rightarrow> bool" where
  "scoped E X f s \<longleftrightarrow> spire_ok E s \<and> (\<forall>n. n \<notin> X \<longrightarrow> entries_at s n = f n)"

lemma scopedI: "spire_ok E s \<Longrightarrow> scoped E X (entries_at s) s"
  by (simp add: scoped_def)

lemma entries_at_vault [simp]: "entries_at (s\<lparr> sp_vault := v \<rparr>) n = entries_at s n"
  by (simp add: entries_at_def)

lemma entries_at_conns [simp]: "entries_at (s\<lparr> sp_conns := f \<rparr>) n = entries_at s n"
  by (simp add: entries_at_def)

lemma entries_at_dbs:
  "entries_at (s\<lparr> sp_dbs := (sp_dbs s)(m \<mapsto> d) \<rparr>) n = (if n = m then db_entries d else entries_at s n)"
  by (simp add: entries_at_def)

lemma scoped_vault: "scoped E X f s \<Longrightarrow> scoped E X f (s\<lparr> sp_vault := v \<rparr>)"
  by (simp add: scoped_def spire_ok_def conns_ok_def)

lemma scoped_entries:
  assumes "scoped E X f s" and "sp_dbs s n = Some d"
    and "db_entries d' = db_entries d \<or> n \<in> X \<and> entries_ok E n (db_entries d')"
  shows "scoped E X f (s\<lparr> sp_dbs := (sp_dbs s)(n \<mapsto> d') \<rparr>)"
proof -
  have "entries_ok E n (db_entries d')"
    using assms by (auto simp: scoped_def spire_ok_def entries_at_def dest: spec [of _ n])
  with assms show ?thesis
    by (auto simp: scoped_def spire_ok_def conns_ok_def entries_at_dbs) (auto simp: entries_at_def)
qed

lemma scoped_conns_ok: "scoped E X f s \<Longrightarrow> conns_ok s"
  by (simp add: scoped_def spire_ok_def)

lemma keeps_scoped_GetTenantDB [keeps_intros]: "keeps (scoped E X f) (GetTenantDB E' t)"
proof (rule keeps_GetTenantDB)
  fix s g
  assume s: "scoped E X f s" and g: "g t = None \<or> g t = Some (tenant_db_name t)"
    and rest: "\<And>t'. t' \<noteq> t \<Longrightarrow> g t' = sp_conns s t'"
  have "conns_ok (s\<lparr> sp_conns := g \<rparr>)"
    unfolding conns_ok_def
  proof (intro allI impI)
    fix t' n
    assume n: "sp_conns (s\<lparr> sp_conns := g \<rparr>) t' = Some n"
    show "n = tenant_db_name t'"
      using n g rest [of t'] scoped_conns_ok [OF s] by (cases "t' = t") (auto simp: conns_ok_def)
  qed
  with s show "scoped E X f (s\<lparr> sp_conns := g \<rparr>)" by (simp add: scoped_def spire_ok_def)
qed

lemma keeps_with_tenant_db:
  assumes "keeps (scoped E X f) (k (tenant_db_name t))"
  shows "keeps (scoped E X f) (with_tenant_db E' t k)"
  unfolding with_tenant_db_def
  by (rule keeps_bind_value [where Q = "\<lambda>n. n = tenant_db_name t"])
    (use assms in \<open>auto intro: keeps_intros dest: GetTenantDB_Inr scoped_conns_ok\<close>)

text \<open>Statements on other tables, and requests to Vault.\<close>

lemma keeps_other_tables:
  assumes "\<And>d d' x. g d = Inr (d', x) \<Longrightarrow> db_entries d' = db_entries d"
  shows "keeps (scoped E X f) (db_stmt n g)"
  by (rule keeps_db_stmt) (use assms in \<open>auto intro: scoped_entries\<close>)

lemma keeps_vault [keeps_intros]:
  "keeps (scoped E X f) (vault_write E' p v)" "keeps (scoped E X f) (vault_get E' p)" "keeps (scoped E X f) (vault_read E' p)"
  unfolding vault_write_def vault_get_def vault_read_def
  by (intro keeps_intros keeps_process scoped_vault; assumption)+

section \<open>What the statements do to a table of entries\<close>

lemma cast_uuid_Inr [simp]: "cast_uuid E x = Inr u \<longleftrightarrow> se_uuid E x = Some u"
  by (simp add: cast_uuid_def split: option.splits)

lemma entry_Validate_None:
  "entry_Validate we = None \<longleftrightarrow>
     we_TenantID we \<noteq> [] \<and> we_SpiffeID we \<noteq> [] \<and> map_len (we_Selectors we) \<noteq> 0 \<and> (\<forall>t. we_TTL we = Some t \<longrightarrow> 0 < t)"
  by (auto simp: entry_Validate_def split: option.splits)

lemma insert_entry_ok:
  assumes "insert_entry E we d = Inr (d', x)" and "entries_ok E n (db_entries d)"
    and "entry_Validate we = None" and "n = tenant_db_name (we_TenantID we)"
  shows "entries_ok E n (db_entries d')"
proof -
  obtain i t where i: "se_uuid E (we_ID we) = Some i" and t: "se_uuid E (we_TenantID we) = Some t"
    and fits: "entry_fits we" and fresh: "\<forall>r \<in> set (db_entries d). we_ID r \<noteq> i \<and> we_SpiffeID r \<noteq> we_SpiffeID we"
    and d': "db_entries d' = db_entries d @ [we\<lparr> we_ID := i, we_TenantID := t \<rparr>]"
    using assms(1) by (auto simp: insert_entry_def split: sum.splits if_splits)
  have "entry_ok E n (we\<lparr> we_ID := i, we_TenantID := t \<rparr>)"
    unfolding entry_ok_def using assms(3,4) t fits by (auto simp: entry_Validate_None entry_fits_def)
  with fresh assms(2) show ?thesis by (auto simp: entries_ok_def d')
qed

lemma distinct_update_key:
  assumes "distinct (map k t)" and "distinct (map h t)" and "\<And>r. h (f r) = y" and "\<forall>r \<in> set t. k r = x \<or> h r \<noteq> y"
  shows "distinct (map h (update_where (\<lambda>r. k r = x) f t))"
  using assms
proof (induction t)
  case (Cons a t)
  have "y \<notin> h ` set (update_where (\<lambda>r. k r = x) f t)" if "k a = x"
    using Cons.prems that by (auto simp: table_simps) (metis image_eqI)
  moreover have "h a \<notin> h ` set (update_where (\<lambda>r. k r = x) f t)" if "k a \<noteq> x"
    using Cons.prems that by (auto simp: table_simps)
  moreover have "distinct (map h (update_where (\<lambda>r. k r = x) f t))"
    using Cons.prems by (intro Cons.IH) simp_all
  moreover have "update_where (\<lambda>r. k r = x) f (a # t) = (if k a = x then f a else a) # update_where (\<lambda>r. k r = x) f t"
    by (simp add: update_where_def)
  ultimately show ?case using Cons.prems(3) by (cases "k a = x") simp_all
qed (simp add: update_where_def)

lemma update_entry_ok:
  assumes upd: "update_entry E now we d = Inr (d', x)" and ok: "entries_ok E n (db_entries d)" and "entry_Validate we = None"
  shows "entries_ok E n (db_entries d')"
proof -
  obtain i where i: "se_uuid E (we_ID we) = Some i"
    using upd by (auto simp: update_entry_def split: sum.splits)
  consider "d' = d" | "entry_fits we" "\<forall>r \<in> set (db_entries d). we_ID r = i \<or> we_SpiffeID r \<noteq> we_SpiffeID we"
      "db_entries d' = update_where (\<lambda>r. we_ID r = i) (set_entry now we) (db_entries d)"
  proof (cases "affected (\<lambda>r. we_ID r = i) (db_entries d) = 0")
    case True
    with upd i have "d' = d" by (simp add: update_entry_def cast_uuid_def)
    then show ?thesis by (rule that)
  next
    case False
    with upd i have "entry_fits we \<and> (\<forall>r \<in> set (db_entries d). we_ID r = i \<or> we_SpiffeID r \<noteq> we_SpiffeID we)"
      by (simp add: update_entry_def cast_uuid_def split: if_splits)
    moreover from this False upd i have "d' = d\<lparr> db_entries := update_where (\<lambda>r. we_ID r = i) (set_entry now we) (db_entries d) \<rparr>"
      by (simp add: update_entry_def cast_uuid_def)
    ultimately show ?thesis using that by simp
  qed
  then show ?thesis
  proof cases
    case 2
    have "distinct (map we_ID (db_entries d'))"
      using ok 2(3) by (simp add: entries_ok_def map_update_where set_entry_def)
    moreover have "distinct (map we_SpiffeID (db_entries d'))"
      unfolding 2(3) by (rule distinct_update_key) (use ok 2(2) in \<open>auto simp: entries_ok_def set_entry_def\<close>)
    moreover have "\<forall>r \<in> set (db_entries d'). entry_ok E n r"
      using ok 2 assms(3) by (auto simp: entries_ok_def entry_ok_def entry_Validate_None set_entry_def entry_fits_def table_simps)
    ultimately show ?thesis by (simp add: entries_ok_def)
  qed (use ok in simp)
qed

lemma delete_entry_ok:
  "delete_entry E i d = Inr (d', x) \<Longrightarrow> entries_ok E n (db_entries d) \<Longrightarrow> entries_ok E n (db_entries d')"
  by (auto simp: delete_entry_def entries_ok_def map_delete_where_distinct table_simps split: sum.splits)

lemma claim_entries_ok:
  assumes "claim_entries E now t a d = Inr (d', x)" and "entries_ok E n (db_entries d)"
  shows "entries_ok E n (db_entries d')"
  using assms
  by (auto simp: claim_entries_def entries_ok_def map_update_where entry_ok_def entry_fits_def table_simps
           split: sum.splits if_splits)

lemma keeps_entries:
  assumes "\<And>d d' x. g d = Inr (d', x) \<Longrightarrow> entries_ok E n (db_entries d) \<Longrightarrow> entries_ok E n (db_entries d')" and "n \<in> X"
  shows "keeps (scoped E X f) (db_stmt n g)"
proof (rule keeps_db_stmt)
  fix s d d' x
  assume s: "scoped E X f s" and d: "sp_dbs s n = Some d" and g: "g d = Inr (d', x)"
  have "entries_ok E n (db_entries d)"
    using s d by (auto simp: scoped_def spire_ok_def entries_at_def dest: spec [of _ n])
  with s d g assms show "scoped E X f (s\<lparr> sp_dbs := (sp_dbs s)(n \<mapsto> d') \<rparr>)"
    by (blast intro: scoped_entries)
qed

section \<open>What the services do to the tables of entries\<close>

lemma keeps_reads [keeps_intros]:
  "keeps P (entry_GetByID E n i)" "keeps P (entry_GetBySpiffeID E n t sp)" "keeps P (entry_List E n q)"
  "keeps P (entry_Count E n q)" "keeps P (entry_ListByParent E n t p)" "keeps P (entry_FindMatchingEntries E n t sels)"
  "keeps P (own_entry E n t i msg)" "keeps P (agent_GetByID E n i)" "keeps P (GetByTenantAndNode n t nd)"
  "keeps P (ListByTenant n t)"
  unfolding entry_GetByID_def entry_GetBySpiffeID_def read_entry_def entry_List_def entry_Count_def
    entry_ListByParent_def entry_FindMatchingEntries_def own_entry_def agent_GetByID_def GetByTenantAndNode_def ListByTenant_def
  by (intro keeps_intros)+

lemma keeps_CreateEntry:
  assumes "tenant_db_name (we_TenantID we) \<in> X"
  shows "keeps (scoped E X f) (CreateEntry E now newID we)"
proof -
  have ins: "keeps (scoped E X f) (db_stmt (tenant_db_name (we_TenantID we)) (insert_entry E (stamp_entry now newID we)))"
    if "entry_Validate we = None"
  proof (rule keeps_entries [OF _ assms])
    fix d d' x
    assume "insert_entry E (stamp_entry now newID we) d = Inr (d', x)"
      and "entries_ok E (tenant_db_name (we_TenantID we)) (db_entries d)"
    then show "entries_ok E (tenant_db_name (we_TenantID we)) (db_entries d')"
      by (rule insert_entry_ok) (use that in \<open>simp_all add: stamp_entry_def entry_Validate_None\<close>)
  qed
  show ?thesis
    unfolding CreateEntry_def entry_Create_def
    by (intro keeps_intros keeps_with_tenant_db ins) assumption
qed

lemma keeps_UpdateEntry:
  assumes "tenant_db_name (we_TenantID we) \<in> X"
  shows "keeps (scoped E X f) (UpdateEntry E now we)"
proof -
  have upd: "keeps (scoped E X f) (db_stmt (tenant_db_name (we_TenantID we)) (update_entry E now we))"
    if "entry_Validate we = None"
    by (rule keeps_entries) (use assms that in \<open>auto intro: update_entry_ok\<close>)
  show ?thesis
    unfolding UpdateEntry_def entry_Update_def
    by (intro keeps_intros keeps_with_tenant_db upd) assumption
qed

lemma keeps_DeleteEntry:
  assumes "tenant_db_name t \<in> X"
  shows "keeps (scoped E X f) (DeleteEntry E t i)"
proof -
  have "keeps (scoped E X f) (db_stmt (tenant_db_name t) (delete_entry E i))"
    by (rule keeps_entries) (use assms in \<open>auto intro: delete_entry_ok\<close>)
  then show ?thesis
    unfolding DeleteEntry_def entry_Delete_def by (intro keeps_intros keeps_with_tenant_db)
qed

lemma keeps_agent_writes [keeps_intros]:
  "keeps (scoped E X f) (agent_Create E' now n a)" "keeps (scoped E X f) (agent_Update E' now n a)"
  unfolding agent_Create_def agent_Update_def agent_touched_def
  by (intro keeps_intros keeps_other_tables; auto simp: insert_agent_def change_agents_def split: sum.splits if_splits)+

lemma keeps_vault_client [keeps_intros]:
  "keeps (scoped E X f) (IssueCertificate E' now m role q)" "keeps (scoped E X f) (RevokeCertificate E' m n)"
  "keeps (scoped E X f) (GetCABundle E' m)" "keeps (scoped E X f) (CreatePKIRole E' m role k)"
  unfolding IssueCertificate_def RevokeCertificate_def GetCABundle_def CreatePKIRole_def
  by (intro keeps_intros)+

lemma keeps_checks [keeps_intros]: "keeps P (check_csr E csr)" "keeps P (agent_csr E csr)"
  unfolding check_csr_def agent_csr_def by (auto intro: keeps_intros split: csr_check.splits)

lemma keeps_recordWorkloadSVID [keeps_intros]: "keeps (scoped E X f) (recordWorkloadSVID E' now t i sp n ttl)"
  unfolding recordWorkloadSVID_def
  by (intro keeps_with_tenant_db keeps_intros keeps_other_tables) (auto split: option.splits)

lemma keeps_services [keeps_intros]:
  "keeps (scoped E X f) (GetEntry E' t i)" "keeps (scoped E X f) (ListEntries E' q)"
  "keeps (scoped E X f) (CountEntries E' q)" "keeps (scoped E X f) (ListEntriesByParent E' t p)"
  "keeps (scoped E X f) (FindMatchingEntries E' t sels)"
  unfolding GetEntry_def ListEntries_def CountEntries_def ListEntriesByParent_def FindMatchingEntries_def
  by (intro keeps_with_tenant_db keeps_intros)+

lemma keeps_AttestWorkload [keeps_intros]: "keeps (scoped E X f) (AttestWorkload E' now req)"
  unfolding AttestWorkload_def issue_svid_def by (intro keeps_intros)

lemma keeps_agents [keeps_intros]:
  "keeps (scoped E X f) (RevokeWorkloadSVID E' t n)" "keeps (scoped E X f) (node_Attest E' K now newID nreq)"
  "keeps (scoped E X f) (ListAgentsByTenant E' t)" "keeps (scoped E X f) (agent_Renew E' now ct rreq)"
  unfolding RevokeWorkloadSVID_def node_Attest_def store_agent_def ensureVaultRoleConfigured_def
    ListAgentsByTenant_def agent_Renew_def
  by (intro keeps_intros)+

section \<open>What the routes do to the tables of entries\<close>

text \<open>\<open>jwt_caller R auth t\<close>: the header carries a token that the configured validator accepts, of the tenant \<open>t\<close>.\<close>

definition jwt_caller :: "route_env \<Rightarrow> string \<Rightarrow> string \<Rightarrow> bool" where
  "jwt_caller R auth t \<longleftrightarrow>
     t \<noteq> [] \<and> (\<exists>validate token user. re_jwt R = Some validate \<and> auth = ''Bearer '' @ token \<and> validate token = Inr (user, t))"

lemma JWT_Authenticate_Next:
  assumes "JWT_Authenticate validate auth ctx = Next ctx'"
  shows "\<exists>token user t. auth = ''Bearer '' @ token \<and> validate token = Inr (user, t) \<and> t \<noteq> [] \<and> GetSpireTenantID ctx' = Some t"
proof -
  obtain a token user t where pre: "HasPrefix auth ''Bearer ''" and sp: "SplitN2 CHR '' '' auth = [a, token]"
    and v: "validate token = Inr (user, t)" "t \<noteq> []"
    and ctx': "ctx' = ctx(''spire_tenant_id'' \<mapsto> GStr t, ''spire_user_id'' \<mapsto> GStr user, ''spire_is_agent'' \<mapsto> GBool False)"
    using assms unfolding JWT_Authenticate_def unauthorized_def
    by (auto simp del: SplitN2.simps split: if_splits list.splits sum.splits)
  have auth: "auth = a @ CHR '' '' # token" and "CHR '' '' \<notin> set a" using sp unfolding SplitN2_Cons_iff by auto
  obtain rest where "auth = ''Bearer '' @ rest"
    using pre unfolding HasPrefix_def by (metis append_take_drop_id)
  then have "SplitN2 CHR '' '' auth = [''Bearer'', rest]" unfolding SplitN2_Cons_iff by simp
  with sp have "a = ''Bearer''" by simp
  with auth v ctx' show ?thesis by (auto simp: GetSpireTenantID_def str_of_def)
qed

lemma keeps_via_jwt:
  assumes "\<And>ctx. (\<And>t. GetSpireTenantID ctx = Some t \<Longrightarrow> jwt_caller R auth t) \<Longrightarrow> keeps P (h ctx)"
  shows "keeps P (via_jwt R auth h)"
proof (cases "re_jwt R")
  case None
  have "keeps P (h Map.empty)" by (rule assms) (simp add: GetSpireTenantID_def str_of_def)
  with None show ?thesis by (simp add: keeps_def via_jwt_def)
next
  case (Some validate)
  show ?thesis
  proof (cases "JWT_Authenticate validate auth Map.empty")
    case (Next ctx)
    have "keeps P (h ctx)"
      by (rule assms) (use JWT_Authenticate_Next [OF Next] Some in \<open>auto simp: jwt_caller_def\<close>)
    with Some Next show ?thesis by (simp add: keeps_def via_jwt_def)
  qed (use Some in \<open>simp add: keeps_def via_jwt_def\<close>)
qed

lemma keeps_lookupAgent [keeps_intros]: "keeps P (lookupAgent m t sp)"
  unfolding lookupAgent_def by (intro keeps_intros)

lemma keeps_authenticateFromTLSCert: "keeps P (authenticateFromTLSCert m uris ctx)"
proof -
  have "fst c' = fst c" if "lookupAgent m t sp c = (r, c')" for t sp c r c'
    using keepsD [OF keeps_lookupAgent [of "\<lambda>s. s = fst c"] _ that] by simp
  then show ?thesis
    unfolding keeps_def authenticateFromTLSCert_def
    by (auto split: option.splits prod.splits sum.splits spire_error.splits if_splits; metis fst_conv)
qed

lemma keeps_AgentCert: "keeps P (AgentCert_Authenticate m decode cert ctx)"
  using keeps_authenticateFromTLSCert [of P m]
  by (auto simp: keeps_def AgentCert_Authenticate_def split: client_cert.splits cert_header.splits)

lemma keeps_via_agent:
  assumes "\<And>ctx. keeps P (h ctx)"
  shows "keeps P (via_agent R cert h)"
  unfolding keeps_def
proof (intro allI impI)
  fix c :: "spire conn"
  assume P: "P (fst c)"
  obtain r c1 where auth: "AgentCert_Authenticate bootstrap_agent_cert (re_cert R) cert Map.empty c = (r, c1)"
    by (rule prod.exhaust)
  have "P (fst c1)" using keepsD [OF keeps_AgentCert [of P] P auth] .
  then have "P (tables (h ctx c1))" for ctx
    using assms [of ctx] unfolding keeps_def by blast
  with auth \<open>P (fst c1)\<close> show "P (tables (via_agent R cert h c))"
    by (cases r) (simp_all add: via_agent_def)
qed

text \<open>Taking a handler apart.\<close>

lemma keeps_reply [keeps_intros]: "keeps P (\<lambda>c. (r, c))"
  by (simp add: keeps_def)

lemma keeps_respond [keeps_intros]: "keeps P m \<Longrightarrow> keeps P (respond m ok w)"
  by (auto simp: respond_def keeps_def split: prod.splits sum.splits) (metis fst_conv snd_conv)+

lemma keeps_if_fun [keeps_intros]:
  "(b \<Longrightarrow> keeps P m) \<Longrightarrow> (\<not> b \<Longrightarrow> keeps P m') \<Longrightarrow> keeps P (\<lambda>c. if b then m c else m' c)"
  by (cases b) simp_all

lemma keeps_option_fun [keeps_intros]:
  "(v = None \<Longrightarrow> keeps P m) \<Longrightarrow> (\<And>x. v = Some x \<Longrightarrow> keeps P (f x)) \<Longrightarrow> keeps P (\<lambda>c. case v of None \<Rightarrow> m c | Some x \<Rightarrow> f x c)"
  by (cases v) simp_all

lemma keeps_sum_fun [keeps_intros]:
  "(\<And>e. v = Inl e \<Longrightarrow> keeps P (g e)) \<Longrightarrow> (\<And>x. v = Inr x \<Longrightarrow> keeps P (f x))
     \<Longrightarrow> keeps P (\<lambda>c. case v of Inl e \<Rightarrow> g e c | Inr x \<Rightarrow> f x c)"
  by (cases v) simp_all

lemma keeps_prod_fun [keeps_intros]:
  "(\<And>a b. v = (a, b) \<Longrightarrow> keeps P (f a b)) \<Longrightarrow> keeps P (\<lambda>c. case v of (a, b) \<Rightarrow> f a b c)"
  by (cases v) simp_all

lemma validateTenantOwnershipD: "validateTenantOwnership ctx t \<Longrightarrow> GetSpireTenantID ctx = Some t"
  by (auto simp: validateTenantOwnership_def split: option.splits)

text \<open>The databases that a caller may change.\<close>

definition own_dbs :: "gin_context \<Rightarrow> string set" where
  "own_dbs ctx = tenant_db_name ` {t. GetSpireTenantID ctx = Some t}"

lemma own_dbsI: "validateTenantOwnership ctx t \<Longrightarrow> tenant_db_name t \<in> own_dbs ctx"
  by (auto simp: own_dbs_def dest: validateTenantOwnershipD)

lemma keeps_entry_handlers:
  assumes "own_dbs ctx \<subseteq> X"
  shows "keeps (scoped E X f) (http_CreateEntry E now newID ctx body)"
    and "keeps (scoped E X f) (http_CreateAgentEntry E now newID ctx abody)"
    and "keeps (scoped E X f) (http_UpdateEntry E now ctx t i body)"
    and "keeps (scoped E X f) (http_DeleteEntry E ctx t i)"
proof -
  have own: "tenant_db_name t' \<in> X" if "\<not> \<not> validateTenantOwnership ctx t'" for t'
    using assms own_dbsI that by auto
  show "keeps (scoped E X f) (http_CreateEntry E now newID ctx body)"
    unfolding http_CreateEntry_def [abs_def]
    by (intro keeps_intros keeps_CreateEntry) (simp add: request_entry_def own)
  show "keeps (scoped E X f) (http_CreateAgentEntry E now newID ctx abody)"
    unfolding http_CreateAgentEntry_def [abs_def]
    by (intro keeps_intros keeps_CreateEntry) (simp add: agent_entry_def own)
  show "keeps (scoped E X f) (http_UpdateEntry E now ctx t i body)"
    unfolding http_UpdateEntry_def with_own_tenant_def [abs_def]
    by (intro keeps_intros keeps_UpdateEntry) (simp add: request_entry_def own)
  show "keeps (scoped E X f) (http_DeleteEntry E ctx t i)"
    unfolding http_DeleteEntry_def with_own_tenant_def [abs_def]
    by (intro keeps_intros keeps_DeleteEntry) (simp add: own)
qed

lemma keeps_list_and_count [keeps_intros]: "keeps (scoped E X f) (list_and_count E' q)"
  unfolding list_and_count_def by (intro keeps_intros)

lemma keeps_other_handlers:
  "keeps (scoped E X f) (http_NodeAttest E' K now newID nbody)"
  "keeps (scoped E X f) (http_RenewAgent E' now ct rbody)"
  "keeps (scoped E X f) (http_ListEntriesByParent E' ctx t p)"
  "keeps (scoped E X f) (http_AttestWorkload E' now ctx body)"
  "keeps (scoped E X f) (http_RevokeWorkloadSVID E' vbody)"
  "keeps (scoped E X f) (http_ListAgents E' ctx)"
  "keeps (scoped E X f) (http_ListEntries E' ctx t q)"
  "keeps (scoped E X f) (http_GetEntry E' ctx t i)"
  unfolding http_NodeAttest_def [abs_def] http_RenewAgent_def [abs_def] http_ListEntriesByParent_def [abs_def]
    http_AttestWorkload_def [abs_def] http_RevokeWorkloadSVID_def [abs_def] http_ListAgents_def [abs_def]
    http_ListEntries_def http_GetEntry_def with_own_tenant_def [abs_def]
  by (intro keeps_intros)+

text \<open>The header of the requests that write entries.\<close>

fun write_auth :: "spire_op \<Rightarrow> string option" where
  "write_auth (PostEntries now newID auth body) = Some auth"
| "write_auth (PutEntriesId now auth t i body) = Some auth"
| "write_auth (DeleteEntriesId auth t i) = Some auth"
| "write_auth (PostEntriesAgent now newID auth body) = Some auth"
| "write_auth _ = None"

definition writable_dbs :: "route_env \<Rightarrow> spire_op \<Rightarrow> string set" where
  "writable_dbs R op = tenant_db_name ` {t. \<exists>auth. write_auth op = Some auth \<and> jwt_caller R auth t}"

lemma keeps_route: "keeps (scoped (re_env R) (writable_dbs R op) f) (route R op)"
proof (cases "write_auth op")
  case None
  then show ?thesis
    by (cases op) (auto intro!: keeps_via_jwt keeps_via_agent keeps_other_handlers)
next
  case (Some auth)
  then show ?thesis
    by (cases op) (auto intro!: keeps_via_jwt keeps_entry_handlers simp: own_dbs_def writable_dbs_def)
qed

definition spire_step :: "route_env \<Rightarrow> spire_op \<Rightarrow> spire conn \<Rightarrow> spire conn \<times> spire_reply" where
  "spire_step R op c = (snd (route R op c), fst (route R op c))"

definition spire_start :: "spire \<Rightarrow> bool" where
  "spire_start s \<longleftrightarrow> sp_conns s = Map.empty \<and> (\<forall>n. entries_at s n = [])"

lemma spire_start_ok: "spire_start s \<Longrightarrow> spire_ok E s"
  by (simp add: spire_start_def spire_ok_def conns_ok_def entries_ok_def)

lemma route_scoped:
  assumes "spire_ok (re_env R) (fst c)"
  shows "scoped (re_env R) (writable_dbs R op) (entries_at (fst c)) (tables (route R op c))"
  using keeps_route scopedI [OF assms] unfolding keeps_def by blast

text \<open>
  The service of workload identity keeps its tables right; a request moves only the entries of databases that
  its token opens.
\<close>

interpretation spire_run:
  guarded_service "spire_step R" "\<lambda>c. spire_ok (re_env R) (fst c)" "\<lambda>c c'. True" for R
  by unfold_locales
    (use route_scoped in \<open>auto simp: spire_step_def scoped_def\<close>)

end
