(* ===== verification/Spire_Security.thy ===== *)
theory Spire_Security
  imports Spire_Tables
begin

text \<open>
  The properties of workload identity: the registration tables in every run, who changes them, which entry an
  attestation picks and to whom Vault signs an identity, what the routes for agents and nodes do as they are
  configured, and that the evidence of unix and docker nodes is not looked at.
\<close>

section \<open>Runs of the routes\<close>

text \<open>
  C18. In every run of requests to the routes of workload identity, from empty tables of entries and whichever
  statements and requests to Vault fail, the registration tables are right: in the database of a tenant no two
  entries share an id or a SPIFFE ID, every entry has a SPIFFE ID and a selector, fits its columns, has a
  positive lifetime or none, and belongs to a tenant whose database that is.
\<close>

theorem entry_tables_sound:
  assumes "spire_start s" and "es = entries_at (fst (fst (run (spire_step R) ops (s, faults)))) n"
  shows "distinct (map we_ID es) \<and> distinct (map we_SpiffeID es) \<and> (\<forall>we \<in> set es. entry_ok (re_env R) n we)"
proof -
  have "spire_ok (re_env R) (fst (fst (run (spire_step R) ops (s, faults))))"
    using spire_run.run_keeps [of R "(s, faults)" ops] spire_start_ok [OF assms(1)] by simp
  with assms(2) show ?thesis by (simp add: spire_ok_def entries_ok_def)
qed

text \<open>
  C7. After any run from empty tables, a request changes the entries of a database only if it is one of the four
  requests that write entries and carries a bearer token that the configured validator accepts, of a tenant whose
  database that is. This holds whichever statements fail.
\<close>

theorem entries_changed_by_owner:
  assumes "spire_start s" and "c = fst (run (spire_step R) ops (s, faults))"
    and "entries_at (tables (route R op c)) n \<noteq> entries_at (fst c) n"
  shows "\<exists>auth t. write_auth op = Some auth \<and> jwt_caller R auth t \<and> n = tenant_db_name t"
proof -
  have "spire_ok (re_env R) (fst c)"
    using spire_run.run_keeps [of R "(s, faults)" ops] spire_start_ok [OF assms(1)] assms(2) by simp
  from route_scoped [OF this, of op] assms(3) have "n \<in> writable_dbs R op" unfolding scoped_def by blast
  then show ?thesis by (auto simp: writable_dbs_def)
qed

section \<open>Selectors\<close>

lemma map_of_keys: "(\<forall>k \<in> set (map fst b). map_of a k = map_of b k) \<longleftrightarrow> map_of b \<subseteq>\<^sub>m map_of a"
  by (auto simp: map_le_def dom_map_of_conv_image_fst)

lemma jsonb_contains_iff: "jsonb_contains a b \<longleftrightarrow> map_of b \<subseteq>\<^sub>m map_of a"
  unfolding jsonb_contains_def list_all_iff by (rule map_of_keys)

text \<open>
  The three tests of selectors agree: the containment that the database computes, the loop of
  \<^verbatim>\<open>MatchesSelectors\<close>, and, for selectors without a star, the wildcard test. All three say that the selectors of the
  entry are among those presented.
\<close>

theorem selector_tests_agree:
  assumes "\<forall>(k, v) \<in> set (we_Selectors we). CHR ''*'' \<notin> set v"
  shows "jsonb_contains sels (we_Selectors we) = MatchesSelectors we sels \<and>
         MatchSelectorsWithWildcard sels (we_Selectors we) = MatchesSelectors we sels \<and>
         MatchesSelectors we sels = (map_of (we_Selectors we) \<subseteq>\<^sub>m map_of sels)"
proof -
  let ?b = "we_Selectors we"
  have star: "\<not> Contains v ''*''" if "map_of ?b k = Some v" for k v
    using assms map_of_SomeD [OF that] by (auto simp: Contains_char)
  have "MatchSelectorsWithWildcard sels ?b \<longleftrightarrow> (\<forall>k \<in> set (map fst ?b). map_of sels k = map_of ?b k)"
    unfolding MatchSelectorsWithWildcard_def
  proof (rule ball_cong [OF refl])
    fix k
    assume "k \<in> set (map fst ?b)"
    then obtain v where v: "map_of ?b k = Some v" by (auto simp: map_of_eq_None_iff dest: weak_map_of_SomeI)
    show "(case (map_of sels k, map_of ?b k) of (Some c, Some v) \<Rightarrow> if Contains v ''*'' then Match v c else c = v | _ \<Rightarrow> False)
            = (map_of sels k = map_of ?b k)"
      using star [OF v] v by (auto split: option.splits)
  qed
  then show ?thesis unfolding jsonb_contains_iff MatchesSelectors_def map_of_keys by simp
qed

section \<open>The best entry\<close>

lemma best_from_spec:
  "best_from agent e b es = e \<and> (\<forall>x \<in> set es. entry_score agent x \<le> b) \<or>
   (\<exists>pre x post. es = pre @ x # post \<and> best_from agent e b es = x \<and> b < entry_score agent x \<and>
      (\<forall>y \<in> set pre. entry_score agent y < entry_score agent x) \<and> (\<forall>y \<in> set post. entry_score agent y \<le> entry_score agent x))"
proof (induction es arbitrary: e b)
  case (Cons a es)
  show ?case
  proof (cases "entry_score agent a > b")
    case True
    from Cons.IH [of a "entry_score agent a"] show ?thesis
    proof (elim disjE exE conjE)
      assume "best_from agent a (entry_score agent a) es = a" and "\<forall>x \<in> set es. entry_score agent x \<le> entry_score agent a"
      with True show ?thesis
        by (intro disjI2 exI [of _ "[]"] exI [of _ a] exI [of _ es]) simp
    next
      fix pre x post
      assume "es = pre @ x # post" "best_from agent a (entry_score agent a) es = x" "entry_score agent a < entry_score agent x"
        "\<forall>y \<in> set pre. entry_score agent y < entry_score agent x" "\<forall>y \<in> set post. entry_score agent y \<le> entry_score agent x"
      with True show ?thesis
        by (intro disjI2 exI [of _ "a # pre"] exI [of _ x] exI [of _ post]) simp
    qed
  next
    case False
    from Cons.IH [of e b] show ?thesis
    proof (elim disjE exE conjE)
      fix pre x post
      assume "es = pre @ x # post" "best_from agent e b es = x" "b < entry_score agent x"
        "\<forall>y \<in> set pre. entry_score agent y < entry_score agent x" "\<forall>y \<in> set post. entry_score agent y \<le> entry_score agent x"
      with False show ?thesis
        by (intro disjI2 exI [of _ "a # pre"] exI [of _ x] exI [of _ post]) simp
    qed (use False in simp)
  qed
qed simp

text \<open>
  Among matching entries that have selectors, fewer than a thousand each, the attestation picks an entry of the requesting
  agent if there is one and the most specific of them, otherwise the most specific of all; of equals the newest, which comes
  first.
\<close>

theorem best_entry_chosen:
  assumes "es \<noteq> []" and "\<forall>we \<in> set es. 0 < map_len (we_Selectors we) \<and> map_len (we_Selectors we) < 1000"
  shows "\<exists>pre post. es = pre @ best_entry agent es # post \<and>
     (let own = (\<lambda>we. we_ParentID we = agent); n = (\<lambda>we. map_len (we_Selectors we)); b = best_entry agent es in
        (\<forall>y \<in> set es. own y \<longrightarrow> own b \<and> n y \<le> n b) \<and>
        (\<forall>y \<in> set es. \<not> own b \<longrightarrow> n y \<le> n b) \<and>
        (\<forall>y \<in> set pre. own y = own b \<longrightarrow> n y < n b))"
proof -
  have pos: "\<exists>x \<in> set es. \<not> entry_score agent x \<le> 0"
    using assms by (cases es) (auto simp: entry_score_def)
  obtain pre x post where es: "es = pre @ x # post" and x: "best_entry agent es = x"
    and pre: "\<forall>y \<in> set pre. entry_score agent y < entry_score agent x"
    and post: "\<forall>y \<in> set post. entry_score agent y \<le> entry_score agent x"
    using best_from_spec [of agent "hd es" 0 es] pos unfolding best_entry_def by blast
  have le: "\<forall>y \<in> set es. entry_score agent y \<le> entry_score agent x"
    using pre post es by (auto intro: less_imp_le)
  have lt: "map_len (we_Selectors y) < 1000" if "y \<in> set es" for y using assms(2) that by blast
  have "x \<in> set es" using es by simp
  show ?thesis
  proof (intro exI conjI)
    show "es = pre @ best_entry agent es # post" using es x by simp
  next
    show "let own = (\<lambda>we. we_ParentID we = agent); n = (\<lambda>we. map_len (we_Selectors we)); b = best_entry agent es in
        (\<forall>y \<in> set es. own y \<longrightarrow> own b \<and> n y \<le> n b) \<and>
        (\<forall>y \<in> set es. \<not> own b \<longrightarrow> n y \<le> n b) \<and>
        (\<forall>y \<in> set pre. own y = own b \<longrightarrow> n y < n b)"
      unfolding Let_def x
    proof (intro conjI ballI impI)
      fix y
      assume y: "y \<in> set es" and "we_ParentID y = agent"
      then show "we_ParentID x = agent" "map_len (we_Selectors y) \<le> map_len (we_Selectors x)"
        using bspec [OF le y] lt [OF \<open>x \<in> set es\<close>] by (auto simp: entry_score_def split: if_splits)
    next
      fix y
      assume "y \<in> set es" and "we_ParentID x \<noteq> agent"
      then show "map_len (we_Selectors y) \<le> map_len (we_Selectors x)"
        using bspec [OF le, of y] by (auto simp: entry_score_def split: if_splits)
    next
      fix y
      assume "y \<in> set pre" and "(we_ParentID y = agent) = (we_ParentID x = agent)"
      then show "map_len (we_Selectors y) < map_len (we_Selectors x)"
        using bspec [OF pre, of y] by (auto simp: entry_score_def split: if_splits)
    qed
  qed
qed

section \<open>Certificates for workloads\<close>

lemma vault_write_state:
  "vault_write E p v c = (r, c') \<Longrightarrow> fst c' = (fst c)\<lparr> sp_vault := sp_vault (fst c) @ [VWrite p v] \<rparr>"
  by (auto simp: vault_write_def bind_act_def ask_def process_def of_result_def)

lemma vault_get_state:
  "vault_get E p c = (r, c') \<Longrightarrow> fst c' = (fst c)\<lparr> sp_vault := sp_vault (fst c) @ [VGet p] \<rparr>"
  by (auto simp: vault_get_def bind_act_def ask_def process_def of_result_def)

lemma IssueCertificate_state:
  "IssueCertificate E now m role q c = (Inr cr, c') \<Longrightarrow>
     fst c' = (fst c)\<lparr> sp_vault := sp_vault (fst c) @ [VWrite (pki_path E m (''sign/'' @ role)) (sign_data q)] \<rparr>"
  unfolding IssueCertificate_def
  by (auto simp: bind_act_Inr return_act_def fail_act_def split: option.splits dest!: vault_write_state)

lemma GetCABundle_state:
  assumes "GetCABundle E m c = (Inr b, c')"
  shows "fst c' = (fst c)\<lparr> sp_vault := sp_vault (fst c) @ [VGet (''/v1/'' @ pki_path E m ''ca/pem'')] \<rparr>"
  using assms unfolding GetCABundle_def bind_act_Inr map_error_Inr
proof (elim exE conjE)
  fix x c1
  assume get: "vault_get E (''/v1/'' @ pki_path E m ''ca/pem'') c = (Inr x, c1)"
  obtain status body where x: "x = (status, body)" by (cases x)
  assume "(case x of (status, body) \<Rightarrow>
      if status \<noteq> 200 then fail_act (NewNotFoundError ''CA bundle not found''
        (Some (Plain (Errorf (''vault returned status '' @ Itoa (int status))))))
      else case body of Inl e \<Rightarrow> fail_act (NewInternalError ''Failed to read CA bundle'' (Some (Plain e)))
           | Inr pem \<Rightarrow> return_act pem) c1 = (Inr b, c')"
  then have "c' = c1" unfolding x by (cases "status = 200"; cases body) (simp_all add: fail_act_def return_act_def)
  with vault_get_state [OF get] show ?thesis by simp
qed

lemma keeps_vault_log_record: "keeps (\<lambda>s. sp_vault s = v) (recordWorkloadSVID E now t i sp n ttl)"
  unfolding recordWorkloadSVID_def with_tenant_db_def
  by (intro keeps_intros keeps_db_stmt keeps_GetTenantDB_dbs [where P = "\<lambda>d t w. w = v"]) simp

lemma FindMatchingEntries_Inr:
  assumes "FindMatchingEntries E t sels c = (Inr es, c')" and "conns_ok (fst c)"
  shows "sp_vault (fst c') = sp_vault (fst c)"
    and "we \<in> set es \<Longrightarrow> we \<in> set (entries_at (fst c) (tenant_db_name t)) \<and>
           se_uuid E t = Some (we_TenantID we) \<and> MatchesSelectors we sels"
proof -
  obtain n c1 where db: "GetTenantDB E t c = (Inr n, c1)"
    and find: "entry_FindMatchingEntries E n t sels c1 = (Inr es, c')"
    using assms(1) by (auto simp: FindMatchingEntries_def with_tenant_db_def bind_act_Inr)
  have n: "n = tenant_db_name t" using db assms(2) by (rule GetTenantDB_Inr)
  have same: "sp_dbs (fst c1) = sp_dbs (fst c) \<and> sp_vault (fst c1) = sp_vault (fst c)"
    using keepsD [OF keeps_GetTenantDB_dbs [where P = "\<lambda>d t v. d = sp_dbs (fst c) \<and> v = sp_vault (fst c)"] _ db] by simp
  obtain d u where d: "sp_dbs (fst c1) n = Some d" and u: "se_uuid E t = Some u" and c': "fst c' = fst c1"
    and es: "es = newest_first (filter (\<lambda>r. we_TenantID r = u \<and> jsonb_contains sels (we_Selectors r)) (db_entries d))"
    using find by (auto simp: entry_FindMatchingEntries_def cast_uuid_def split: sum.splits option.splits dest!: db_read_Inr)
  show "sp_vault (fst c') = sp_vault (fst c)" using c' same by simp
  show "we \<in> set (entries_at (fst c) (tenant_db_name t)) \<and> se_uuid E t = Some (we_TenantID we) \<and> MatchesSelectors we sels"
    if "we \<in> set es"
    using that es d same n u
    by (auto simp: newest_first_def entries_at_def jsonb_contains_iff MatchesSelectors_def [unfolded map_of_keys])
qed

lemma best_entry_in: "es \<noteq> [] \<Longrightarrow> best_entry agent es \<in> set es"
  using best_from_spec [of agent "hd es" 0 es] by (metis best_entry_def hd_in_set in_set_conv_decomp)

lemma issue_svid_Inr:
  assumes "issue_svid E now mount req we c = (Inr r, c')"
  shows "ar_SpiffeID r = we_SpiffeID we \<and> se_csr E (aw_CSR req) = GoodCSR \<and>
     (\<exists>cn. sp_vault (fst c') = sp_vault (fst c) @
        [VWrite (pki_path E mount ''sign/workload'')
           [(''csr'', GStr (aw_CSR req)), (''common_name'', GStr cn), (''ttl'', GStr (Itoa (ar_TTL r) @ ''s'')),
            (''uri_sans'', GStrs [we_SpiffeID we])],
         VGet (''/v1/'' @ pki_path E mount ''ca/pem'')])"
proof -
  obtain path where csr: "check_csr E (aw_CSR req) c = (Inr (), c)" and path: "se_url_path E (we_SpiffeID we) = Inr path"
    using assms
    by (auto simp: issue_svid_def bind_act_Inr check_csr_def fail_act_def return_act_def
             split: sum.splits csr_check.splits if_splits)
  let ?ttl = "case we_TTL we of Some t \<Rightarrow> t | None \<Rightarrow> 3600"
  let ?q = "\<lparr> cq_CSR = aw_CSR req, cq_CommonName = last (Split CHR ''/'' path), cq_TTL = Itoa ?ttl @ ''s'',
              cq_AltNames = [], cq_IPSANs = [], cq_URISANs = [we_SpiffeID we] \<rparr>"
  obtain cert c1 pem c2 x c3 where c1: "IssueCertificate E now mount ''workload'' ?q c = (Inr cert, c1)"
    and c2: "GetCABundle E mount c1 = (Inr pem, c2)"
    and c3: "try_act (recordWorkloadSVID E now (aw_TenantID req) (we_ID we) (we_SpiffeID we) (cp_SerialNumber cert) ?ttl) c2 = (Inr x, c3)"
    and r: "ar_SpiffeID r = we_SpiffeID we" "ar_TTL r = ?ttl" and c': "c' = c3"
    using assms unfolding issue_svid_def bind_act_Inr csr path by (auto simp: bind_act_Inr return_act_def Let_def)
  have "sp_vault (fst c3) = sp_vault (fst c2)"
    using keepsD [OF keeps_try [OF keeps_vault_log_record] _ c3] by simp
  moreover have "se_csr E (aw_CSR req) = GoodCSR"
    using csr by (auto simp: check_csr_def fail_act_def split: csr_check.splits if_splits)
  ultimately show ?thesis
    using r c' IssueCertificate_state [OF c1] GetCABundle_state [OF c2] by (auto simp: sign_data_def)
qed

text \<open>
  C6. The workload attestation service has an X.509 identity signed only when it is entitled to it: the tenant is active, its own
  registration table holds an entry for that tenant whose selectors are all among the presented ones, which names no
  parent or the requesting agent, the signing request is genuine, and the only signature asked of Vault is one by the
  mount of the tenant, for exactly the SPIFFE ID of that entry and its lifetime. This holds after any run of the
  routes and whichever statements fail.
\<close>

theorem svid_entitled:
  assumes "spire_start s" and "c = fst (run (spire_step R) ops (s, faults))" and "E = re_env R"
    and "AttestWorkload E now req c = (Inr r, c')"
  shows "\<exists>t \<in> set (sp_tenants (fst c)). \<exists>we \<in> set (entries_at (fst c) (tenant_db_name (aw_TenantID req))). \<exists>cn.
     se_uuid E (aw_TenantID req) = Some (tn_TenantID t) \<and> tn_Status t = ''active'' \<and> we_TenantID we = tn_TenantID t \<and>
     MatchesSelectors we (aw_Selectors req) \<and> (we_ParentID we = [] \<or> we_ParentID we = aw_AgentID req) \<and>
     ar_SpiffeID r = we_SpiffeID we \<and> se_csr E (aw_CSR req) = GoodCSR \<and>
     sp_vault (fst c') = sp_vault (fst c) @
       [VWrite (pki_path E (st_VaultMount (scan_tenant t)) ''sign/workload'')
          [(''csr'', GStr (aw_CSR req)), (''common_name'', GStr cn), (''ttl'', GStr (Itoa (ar_TTL r) @ ''s'')),
           (''uri_sans'', GStrs [we_SpiffeID we])],
        VGet (''/v1/'' @ pki_path E (st_VaultMount (scan_tenant t)) ''ca/pem'')]"
proof -
  have ok: "conns_ok (fst c)"
    using spire_run.run_keeps [of R "(s, faults)" ops] spire_start_ok [OF assms(1)] assms(2)
    by (simp add: spire_ok_def)
  obtain tenant c1 es c2 where t: "tenant_GetByID E (aw_TenantID req) c = (Inr tenant, c1)"
    and es: "FindMatchingEntries E (aw_TenantID req) (aw_Selectors req) c1 = (Inr es, c2)" and ne: "es \<noteq> []"
    and parent: "we_ParentID (best_entry (aw_AgentID req) es) = [] \<or> we_ParentID (best_entry (aw_AgentID req) es) = aw_AgentID req"
    and iss: "issue_svid E now (st_VaultMount tenant) req (best_entry (aw_AgentID req) es) c2 = (Inr r, c')"
    using assms(4) unfolding AttestWorkload_def
    by (auto simp: bind_act_Inr fail_act_def Let_def split: if_splits)
  obtain row where row: "row \<in> set (sp_tenants (fst c))" "se_uuid E (aw_TenantID req) = Some (tn_TenantID row)"
    "tn_Status row = ''active''" "tenant = scan_tenant row" and c1: "fst c1 = fst c"
    using tenant_GetByID_Inr [OF t] by blast
  have "conns_ok (fst c1)" using ok c1 by simp
  note found = FindMatchingEntries_Inr [OF es this]
  have we: "best_entry (aw_AgentID req) es \<in> set (entries_at (fst c) (tenant_db_name (aw_TenantID req)))"
    "MatchesSelectors (best_entry (aw_AgentID req) es) (aw_Selectors req)"
    "we_TenantID (best_entry (aw_AgentID req) es) = tn_TenantID row"
    using found(2) [OF best_entry_in [OF ne]] row(2) c1 by auto
  have "sp_vault (fst c2) = sp_vault (fst c)" using found(1) c1 by simp
  with issue_svid_Inr [OF iss] row we parent show ?thesis
    by (intro bexI [of _ row] bexI [of _ "best_entry (aw_AgentID req) es"]) (simp_all add: ex_simps)
qed

section \<open>Requests of agents\<close>

lemma http_status_spire_json [simp]: "http_status (spire_json st b) = st"
  by (simp add: spire_json_def)

lemma keeps_vault_log:
  "aw_CSR req = [] \<Longrightarrow> keeps (\<lambda>s. sp_vault s = v) (AttestWorkload E now req)"
  unfolding AttestWorkload_def FindMatchingEntries_def with_tenant_db_def issue_svid_def
  by (intro keeps_intros keeps_GetTenantDB_dbs [where P = "\<lambda>d t w. w = v"] keeps_bind_value [where m = "check_csr E (aw_CSR req)" and Q = "\<lambda>_. False"])
    (auto simp: check_csr_def fail_act_def)

lemma AttestWorkload_no_csr: "aw_CSR req = [] \<Longrightarrow> AttestWorkload E now req c \<noteq> (Inr r, c')"
  by (auto simp: AttestWorkload_def bind_act_Inr fail_act_def Let_def issue_svid_def check_csr_def split: if_splits)

lemma respond_no_csr:
  assumes "aw_CSR req = []" and "\<And>e. http_status (sendError (w e)) = 400"
  shows "http_status (fst (respond (AttestWorkload E now req) ok w c)) = 400 \<and>
         sp_vault (tables (respond (AttestWorkload E now req) ok w c)) = sp_vault (fst c)"
proof -
  obtain x c' where x: "AttestWorkload E now req c = (x, c')" by (rule prod.exhaust)
  have "sp_vault (fst c') = sp_vault (fst c)" using keepsD [OF keeps_vault_log [OF assms(1)] _ x] by simp
  moreover obtain e where "x = Inl e" using AttestWorkload_no_csr [OF assms(1)] x by (cases x) auto
  ultimately show ?thesis unfolding respond_def x by (simp add: assms(2))
qed

lemma http_AttestWorkload_refused:
  "http_status (fst (http_AttestWorkload E now ctx body c)) \<in> {400, 403} \<and>
   sp_vault (tables (http_AttestWorkload E now ctx body c)) = sp_vault (fst c)"
  by (simp add: http_AttestWorkload_def bad_request_def forbidden_def NewBadRequestError_def NewForbiddenError_def
        respond_no_csr split: sum.splits)

text \<open>
  C22. The route for attesting workloads never issues an identity: whatever the request, the configuration and the state, the
  answer is not 200 and Vault is not asked for anything. The handler reads no signing request from the body and
  passes none on, and the service refuses to go on without one.
\<close>

theorem workload_attest_never_issues:
  "http_status (fst (route R (PostWorkloadAttest now cert body) c)) \<noteq> 200 \<and>
   sp_vault (tables (route R (PostWorkloadAttest now cert body) c)) = sp_vault (fst c)"
proof -
  obtain r c1 where auth: "AgentCert_Authenticate bootstrap_agent_cert (re_cert R) cert Map.empty c = (r, c1)"
    by (rule prod.exhaust)
  have same: "fst c1 = fst c"
    using keepsD [OF keeps_AgentCert [of "\<lambda>s. s = fst c"] _ auth] by simp
  show ?thesis
  proof (cases r)
    case (Next ctx)
    with auth have "route R (PostWorkloadAttest now cert body) c = http_AttestWorkload (re_env R) now ctx body c1"
      by (simp add: via_agent_def)
    with http_AttestWorkload_refused [of "re_env R" now ctx body c1] same show ?thesis by auto
  next
    case (Aborted rep)
    have "http_status rep \<noteq> 200"
      using auth Aborted
      by (auto simp: AgentCert_Authenticate_def authenticateFromTLSCert_def unauthorized_def bad_request_def forbidden_def
            NewBadRequestError_def NewForbiddenError_def NewInternalError_def
          split: client_cert.splits cert_header.splits option.splits prod.splits sum.splits spire_error.splits if_splits)
    with auth Aborted same show ?thesis by (simp add: via_agent_def)
  qed
qed

text \<open>
  The route for renewing the certificate of an agent refuses every request and changes nothing: it runs no
  middleware that would put the tenant into the context, which the service insists on.
\<close>

theorem agent_renewal_always_refused:
  "\<exists>rep. route R (PostAgentRenew now body) c = (rep, c) \<and> http_status rep \<in> {400, 401}"
  by (auto simp: http_RenewAgent_def respond_def agent_Renew_def fail_act_def bad_request_def
        NewBadRequestError_def NewUnauthorizedError_def split: sum.splits)

text \<open>
  The agent middleware as the process configures it turns authentication around: a request with the certificate of an
  agent ends in a panic before any check of the agent, and a request without a certificate reaches the handler
  unauthenticated.
\<close>

theorem agent_cert_inverted:
  assumes "List.find (\<lambda>u. HasPrefix u ''spiffe://'') uris = Some sp" and "parseAgentSpiffeID sp = Some (t, True)"
  shows "via_agent R (PeerCert uris) h c = (spire_json 500 RecoveredPanic, c) \<and> via_agent R NoCert h c = h Map.empty c"
  using assms
  by (simp add: via_agent_def AgentCert_Authenticate_def authenticateFromTLSCert_def lookupAgent_def
        bootstrap_agent_cert_def fail_act_def)

theorem agent_cert_inverted_witness:
  "\<forall>R h c. via_agent R (PeerCert [''spiffe://t/agent/n'']) h c = (spire_json 500 RecoveredPanic, c) \<and>
   via_agent R NoCert h c = h Map.empty c"
  by (intro allI agent_cert_inverted [where sp = "''spiffe://t/agent/n''" and t = "''t''"])
    (simp_all add: HasPrefix_def parseAgentSpiffeID_def TrimPrefix_def)

section \<open>Without faults\<close>

text \<open>An active tenant whose database exists.\<close>

definition tenant_ready :: "spire_env \<Rightarrow> spire \<Rightarrow> string \<Rightarrow> tenant_row \<Rightarrow> tenant_db \<Rightarrow> bool" where
  "tenant_ready E s t row d \<longleftrightarrow>
     se_uuid E t = Some (tn_TenantID row) \<and> tn_Status row = ''active'' \<and>
     List.find (\<lambda>r. tn_TenantID r = tn_TenantID row \<and> tn_Status r = ''active'') (sp_tenants s) = Some row \<and>
     conns_ok s \<and> sp_dbs s (tenant_db_name t) = Some d"

definition with_conn :: "spire \<Rightarrow> string \<Rightarrow> spire" where
  "with_conn s t = s\<lparr> sp_conns := (sp_conns s)(t \<mapsto> tenant_db_name t) \<rparr>"

lemma with_conn_sel [simp]:
  "sp_dbs (with_conn s t) = sp_dbs s" "sp_tenants (with_conn s t) = sp_tenants s" "sp_vault (with_conn s t) = sp_vault s"
  by (simp_all add: with_conn_def)

lemma with_conn_idem [simp]: "with_conn (with_conn s t) t = with_conn s t"
  by (simp add: with_conn_def)

lemma with_conn_ready: "tenant_ready E s t row d \<Longrightarrow> tenant_ready E (with_conn s t) t row d"
  by (auto simp: tenant_ready_def conns_ok_def with_conn_def)

lemma ready_update:
  "tenant_ready E s t row d \<Longrightarrow> tenant_ready E (s\<lparr> sp_dbs := (sp_dbs s)(tenant_db_name t \<mapsto> d') \<rparr>) t row d'"
  "tenant_ready E s t row d \<Longrightarrow> tenant_ready E (s\<lparr> sp_vault := v \<rparr>) t row d"
  by (auto simp: tenant_ready_def conns_ok_def)

lemma with_conn_twice: "sp_conns s t = Some n \<Longrightarrow> conns_ok s \<Longrightarrow> with_conn s t = s"
  by (cases s) (auto simp: with_conn_def conns_ok_def fun_upd_idem)

lemma db_read_ready:
  "tenant_ready E s t row d \<Longrightarrow>
     db_read (tenant_db_name t) g (s, []) = (case g d of Inl e \<Rightarrow> (Inl (Plain e), s, []) | Inr x \<Rightarrow> (Inr x, s, []))"
  by (auto simp: db_read_def db_stmt_def sql_simps on_db_def tenant_ready_def fun_upd_idem split: sum.splits)

lemma db_stmt_ready:
  "tenant_ready E s t row d \<Longrightarrow>
     db_stmt (tenant_db_name t) g (s, []) =
       (case g d of Inl e \<Rightarrow> (Inl (Plain e), s, [])
        | Inr (d', x) \<Rightarrow> (Inr x, s\<lparr> sp_dbs := (sp_dbs s)(tenant_db_name t \<mapsto> d') \<rparr>, []))"
  by (auto simp: db_stmt_def sql_simps on_db_def tenant_ready_def split: sum.splits)

lemma tenant_GetByID_ready:
  "tenant_ready E s t row d \<Longrightarrow> tenant_GetByID E t (s, []) = (Inr (scan_tenant row), s, [])"
  by (simp add: tenant_GetByID_def map_error_def sql_simps cast_uuid_def select_row_def tenant_ready_def)

lemma GetTenantDB_ready:
  assumes r: "tenant_ready E s t row d"
  shows "GetTenantDB E t (s, []) = (Inr (tenant_db_name t), with_conn s t, [])"
proof (cases "sp_conns s t")
  case None
  have "tenant_IsActive (scan_tenant row)" using r by (simp add: tenant_IsActive_def scan_tenant_def tenant_ready_def)
  with None r show ?thesis
    by (simp add: GetTenantDB_def createTenantConnection_def open_connection_def Ping_def bind_act_def ask_def map_error_def
        tenant_GetByID_ready db_read_ready process_def return_act_def with_conn_def)
next
  case (Some n)
  then have n: "n = tenant_db_name t" using r by (auto simp: tenant_ready_def conns_ok_def)
  have "with_conn s t = s" using r Some by (auto simp: tenant_ready_def intro: with_conn_twice)
  with Some n r show ?thesis
    by (simp add: GetTenantDB_def Ping_def bind_act_def ask_def try_act_def db_read_ready return_act_def)
qed

lemma with_tenant_db_ready:
  "tenant_ready E s t row d \<Longrightarrow> with_tenant_db E t k (s, []) = k (tenant_db_name t) (with_conn s t, [])"
  by (simp add: with_tenant_db_def bind_act_def map_error_def GetTenantDB_ready)

lemmas fault_free_simps =
  bind_act_def map_error_def return_act_def fail_act_def try_act_def of_result_def ask_def process_def

section \<open>Lists of entries\<close>

lemma page_length: "0 < l \<Longrightarrow> length (page l k xs) \<le> nat l"
  by (simp add: page_def Let_def)

text \<open>
  When no statement fails, the list of the entries of the caller's tenant is exact: the answer holds the page of at
  most a thousand entries that the query asks for, newest first, out of exactly the entries of that tenant that satisfy
  the filter, and the total is their number.
\<close>

theorem entries_listed_exactly:
  assumes "tenant_ready E s t row d" and "validateTenantOwnership ctx t" and "t \<noteq> []"
    and "lq_selector_type q = [] \<or> lq_selector_type q \<in> {''unix'', ''kubernetes'', ''docker''} \<and> se_key_operator E"
  shows "\<exists>es. http_ListEntries E ctx t q (s, []) =
       (spire_json 200 (EntriesBody es (int (length (filter (filter_matches (tn_TenantID row) (query_filter t q)) (db_entries d))))),
        with_conn s t, []) \<and>
     es = page (query_limit (lq_limit q)) (wf_Offset (query_filter t q))
            (newest_first (filter (filter_matches (tn_TenantID row) (query_filter t q)) (db_entries d))) \<and>
     length es \<le> 1000 \<and> (\<forall>we \<in> set es. we \<in> set (db_entries d) \<and> we_TenantID we = tn_TenantID row)"
proof -
  let ?f = "query_filter t q"
  let ?m = "filter (filter_matches (tn_TenantID row) ?f) (db_entries d)"
  let ?es = "page (query_limit (lq_limit q)) (wf_Offset ?f) (newest_first ?m)"
  have f: "wf_TenantID ?f = t" "wf_Limit ?f = query_limit (lq_limit q)" "wf_SelectorType ?f = lq_selector_type q"
    by (simp_all add: query_filter_def)
  have rows: "filter_rows E ?f d = Inr ?m"
    using assms(1,4) by (auto simp: filter_rows_def cast_uuid_def f tenant_ready_def selector_keys_def)
  have lst: "ListEntries E ?f (s, []) = (Inr ?es, with_conn s t, [])"
    using assms(1) rows
    by (simp add: ListEntries_def f with_tenant_db_ready entry_List_def fault_free_simps db_read_ready [OF with_conn_ready])
  have cnt: "CountEntries E ?f (with_conn s t, []) = (Inr (int (length ?m)), with_conn s t, [])"
    using assms(1) rows
    by (simp add: CountEntries_def f with_tenant_db_ready [OF with_conn_ready] entry_Count_def fault_free_simps
        db_read_ready [OF with_conn_ready])
  have "http_ListEntries E ctx t q (s, []) = (spire_json 200 (EntriesBody ?es (int (length ?m))), with_conn s t, [])"
    using assms(2-4) lst cnt
    by (auto simp: http_ListEntries_def with_own_tenant_def respond_def list_and_count_def fault_free_simps)
  moreover have "0 < query_limit (lq_limit q)" "query_limit (lq_limit q) \<le> 1000"
    by (auto simp: query_limit_def split: option.splits)
  then have "length ?es \<le> 1000" using page_length [of "query_limit (lq_limit q)" "wf_Offset ?f" "newest_first ?m"] by simp
  moreover have "set ?es \<subseteq> set ?m"
    by (auto simp: page_def Let_def newest_first_def dest!: in_set_takeD in_set_dropD split: if_splits)
  then have "\<forall>we \<in> set ?es. we \<in> set (db_entries d) \<and> we_TenantID we = tn_TenantID row"
    by (auto simp: filter_matches_def)
  ultimately show ?thesis by blast
qed

section \<open>An example environment\<close>

text \<open>
  An environment in which text is its own \<^verbatim>\<open>uuid\<close>, Vault signs everything, and one signing request is genuine.
\<close>

definition ex_spire_env :: spire_env where
  "ex_spire_env =
     \<lparr> se_uuid = Some, se_key_operator = False,
       se_write = (\<lambda>_ _ _. Inr (Some [(''certificate'', GStr ''pem''), (''serial_number'', GStr ''01'')])),
       se_read = (\<lambda>_ _. Inr None), se_get = (\<lambda>_ _. Inr (200, Inr ''ca'')), se_pkiBasePath = [],
       se_csr = (\<lambda>x. if x = ''csr'' then GoodCSR else NoPEM), se_fingerprint = (\<lambda>_. []),
       se_url_path = (\<lambda>_. Inr ''/w''), se_show = (\<lambda>_. []), se_float_int = (\<lambda>_. 0) \<rparr>"

definition ex_tenant_row :: tenant_row where
  "ex_tenant_row =
     \<lparr> tn_ID = ''t'', tn_TenantID = ''t'', tn_TenantDB = [], tn_Email = [], tn_Username = None, tn_PasswordHash = [],
       tn_Provider = [], tn_ProviderID = None, tn_Avatar = None, tn_Name = ''T'', tn_Source = [], tn_Status = ''active'',
       tn_LastLogin = None, tn_CreatedAt = 0, tn_UpdatedAt = 0, tn_TenantDomain = ''t.example'',
       tn_VaultMount = Some ''pki/t'' \<rparr>"

definition ex_db :: "WorkloadEntry list \<Rightarrow> Agent list \<Rightarrow> tenant_db" where
  "ex_db es as = \<lparr> db_entries = es, db_agents = as, db_svids = None, db_workloads = [], db_policies = [],
     db_certificates = None, db_audit = None \<rparr>"

lemma ex_db_simps [simp]:
  "db_entries (ex_db es as) = es" "db_agents (ex_db es as) = as" "db_svids (ex_db es as) = None"
  "(ex_db es as)\<lparr> db_entries := es' \<rparr> = ex_db es' as" "(ex_db es as)\<lparr> db_agents := as' \<rparr> = ex_db es as'"
  by (simp_all add: ex_db_def)

definition ex_spire :: "WorkloadEntry list \<Rightarrow> Agent list \<Rightarrow> spire" where
  "ex_spire es as =
     \<lparr> sp_tenants = [ex_tenant_row],
       sp_dbs = [''tenant_t'' \<mapsto> ex_db es as],
       sp_conns = Map.empty, sp_keys = Map.empty, sp_vault = [], sp_audit = None \<rparr>"

definition ex_entry :: "string \<Rightarrow> string \<Rightarrow> str_map \<Rightarrow> WorkloadEntry" where
  "ex_entry i parent sels =
     \<lparr> we_ID = i, we_TenantID = ''t'', we_SpiffeID = ''spiffe://t/'' @ i, we_ParentID = parent, we_Selectors = sels,
       we_TTL = None, we_Admin = False, we_Downstream = False, we_CreatedAt = 0, we_UpdatedAt = 0 \<rparr>"

lemma ex_spire_ready:
  "tenant_ready ex_spire_env (ex_spire es as) ''t'' ex_tenant_row (ex_db es as)"
  by (simp add: tenant_ready_def ex_spire_env_def ex_tenant_row_def ex_spire_def conns_ok_def tenant_db_name_def)

theorem entries_listed_exactly_witness:
  "\<exists>es k c. http_ListEntries ex_spire_env [''spire_tenant_id'' \<mapsto> GStr ''t''] ''t''
       \<lparr> lq_parent_id = [], lq_spiffe_id = [], lq_spiffe_id_search = [], lq_selector_type = [], lq_limit = None,
         lq_offset = None, lq_admin = [] \<rparr> (ex_spire [ex_entry ''a'' [] [(''k'', ''v'')]] [], []) =
       (spire_json 200 (EntriesBody es k), c) \<and> length es \<le> 1000"
  using entries_listed_exactly [OF ex_spire_ready [of "[ex_entry ''a'' [] [(''k'', ''v'')]]" "[]"],
      of "[''spire_tenant_id'' \<mapsto> GStr ''t'']"
         "\<lparr> lq_parent_id = [], lq_spiffe_id = [], lq_spiffe_id_search = [], lq_selector_type = [], lq_limit = None,
            lq_offset = None, lq_admin = [] \<rparr>"]
  by (auto simp: validateTenantOwnership_def GetSpireTenantID_def str_of_def)

lemma CreateEntry_ready:
  assumes r: "tenant_ready E s t row d" and we: "we_TenantID we = t" "we_ID we = []" "entry_Validate we = None" "entry_fits we"
    and new: "se_uuid E newID = Some newID"
    and fresh: "\<forall>r \<in> set (db_entries d). we_ID r \<noteq> newID \<and> we_SpiffeID r \<noteq> we_SpiffeID we"
  shows "CreateEntry E now newID we (s, []) =
    (Inr (stamp_entry now newID we),
     (with_conn s t)\<lparr> sp_dbs := (sp_dbs s)(tenant_db_name t \<mapsto>
        d\<lparr> db_entries := db_entries d @ [(stamp_entry now newID we)\<lparr> we_TenantID := tn_TenantID row \<rparr>] \<rparr>) \<rparr>, [])"
proof -
  note r' = with_conn_ready [OF r]
  have u: "se_uuid E t = Some (tn_TenantID row)" using r by (simp add: tenant_ready_def)
  have "List.find (\<lambda>r. we_TenantID r = tn_TenantID row \<and> we_SpiffeID r = we_SpiffeID we) (db_entries d) = None"
    using fresh by (auto simp: find_None_iff)
  then have look: "entry_GetBySpiffeID E (tenant_db_name t) t (we_SpiffeID we) (with_conn s t, []) = (Inr None, with_conn s t, [])"
    using r' u
    by (simp add: entry_GetBySpiffeID_def read_entry_def fault_free_simps db_read_ready cast_uuid_def select_row_def)
  have "insert_entry E (stamp_entry now newID we) d =
      Inr (d\<lparr> db_entries := db_entries d @ [(stamp_entry now newID we)\<lparr> we_TenantID := tn_TenantID row \<rparr>] \<rparr>, ())"
    using we new u fresh by (auto simp: insert_entry_def cast_uuid_def stamp_entry_def entry_fits_def)
  then have "entry_Create E now newID (tenant_db_name t) we (with_conn s t, []) =
    (Inr (stamp_entry now newID we),
     (with_conn s t)\<lparr> sp_dbs := (sp_dbs s)(tenant_db_name t \<mapsto>
        d\<lparr> db_entries := db_entries d @ [(stamp_entry now newID we)\<lparr> we_TenantID := tn_TenantID row \<rparr>] \<rparr>) \<rparr>, [])"
    using we r' by (simp add: entry_Create_def fault_free_simps db_stmt_ready Let_def)
  with look we r show ?thesis
    by (simp add: CreateEntry_def with_tenant_db_ready fault_free_simps)
qed

lemma FindMatchingEntries_ready:
  assumes r: "tenant_ready E s t row d"
  shows "FindMatchingEntries E t sels (s, []) =
       (Inr (newest_first (filter (\<lambda>r. we_TenantID r = tn_TenantID row \<and> jsonb_contains sels (we_Selectors r)) (db_entries d))),
        with_conn s t, [])"
proof -
  have "se_uuid E t = Some (tn_TenantID row)" using r by (simp add: tenant_ready_def)
  then show ?thesis
    using r with_conn_ready [OF r]
    by (simp add: FindMatchingEntries_def with_tenant_db_ready entry_FindMatchingEntries_def fault_free_simps db_read_ready
        cast_uuid_def)
qed

text \<open>In the example environment a genuine request for an identity is signed.\<close>

lemma ex_issue_svid:
  assumes "aw_CSR req = ''csr''"
  shows "\<exists>r c'. issue_svid ex_spire_env now mount req we c = (Inr r, c')"
proof -
  obtain x c3 where "recordWorkloadSVID ex_spire_env now (aw_TenantID req) (we_ID we) (we_SpiffeID we) ''01''
      (case we_TTL we of Some t \<Rightarrow> t | None \<Rightarrow> 3600)
      ((fst c)\<lparr> sp_vault := sp_vault (fst c) @
         [VWrite (pki_path ex_spire_env mount ''sign/workload'')
            (sign_data \<lparr> cq_CSR = ''csr'', cq_CommonName = last (Split CHR ''/'' ''/w''),
               cq_TTL = Itoa (case we_TTL we of Some t \<Rightarrow> t | None \<Rightarrow> 3600) @ ''s'', cq_AltNames = [], cq_IPSANs = [],
               cq_URISANs = [we_SpiffeID we] \<rparr>),
          VGet (''/v1/'' @ pki_path ex_spire_env mount ''ca/pem'')] \<rparr>, snd c) = (x, c3)"
    by (rule prod.exhaust)
  with assms show ?thesis
    by (simp add: issue_svid_def check_csr_def IssueCertificate_def GetCABundle_def vault_write_def vault_get_def fault_free_simps
        ex_spire_env_def str_of_def cert_response_def Let_def)
qed

definition ex_create :: CreateWorkloadEntryRequest where
  "ex_create = \<lparr> ce_TenantID = ''t'', ce_SpiffeID = ''spiffe://t/w'', ce_ParentID = [], ce_Selectors = Some [(''k'', ''v'')],
                 ce_TTL = None, ce_Admin = False, ce_Downstream = False \<rparr>"

text \<open>
  Two entries match a workload: one that any agent may use, and a more specific one of another agent. The attestation
  picks the second and refuses the agent, although the first entitles it; the refusal is an error of the service, and
  without the second entry the same request succeeds.
\<close>

theorem entitled_agent_refused:
  "(let broad = ex_entry ''a'' [] [(''k'', ''v'')]; specific = ex_entry ''b'' ''other'' [(''k'', ''v''), (''l'', ''w'')];
        req = \<lparr> aw_TenantID = ''t'', aw_AgentID = ''agent'', aw_Selectors = [(''k'', ''v''), (''l'', ''w'')], aw_CSR = ''csr'' \<rparr>
    in MatchesSelectors broad (aw_Selectors req) \<and> we_ParentID broad = [] \<and>
       fst (AttestWorkload ex_spire_env 0 req (ex_spire [broad, specific] [], [])) =
         Inl (Plain (Errorf ''agent agent is not authorized for workload spiffe://t/b (expected parent: other)'')) \<and>
       map_sum id ar_SpiffeID (fst (AttestWorkload ex_spire_env 0 req (ex_spire [broad] [], []))) = Inr ''spiffe://t/a'')"
proof -
  let ?broad = "ex_entry ''a'' [] [(''k'', ''v'')]" and ?specific = "ex_entry ''b'' ''other'' [(''k'', ''v''), (''l'', ''w'')]"
  let ?req = "\<lparr> aw_TenantID = ''t'', aw_AgentID = ''agent'', aw_Selectors = [(''k'', ''v''), (''l'', ''w'')], aw_CSR = ''csr'' \<rparr>"
  have act: "tenant_IsActive (scan_tenant ex_tenant_row)" "st_VaultMount (scan_tenant ex_tenant_row) = ''pki/t''"
    by (simp_all add: tenant_IsActive_def scan_tenant_def ex_tenant_row_def)
  have t: "tn_TenantID ex_tenant_row = ''t''" by (simp add: ex_tenant_row_def)
  have find: "FindMatchingEntries ex_spire_env ''t'' (aw_Selectors ?req) (ex_spire es [], []) =
      (Inr (newest_first (filter (\<lambda>r. we_TenantID r = ''t'' \<and> jsonb_contains (aw_Selectors ?req) (we_Selectors r)) es)),
       with_conn (ex_spire es []) ''t'', [])" for es
    using FindMatchingEntries_ready [OF ex_spire_ready] t by simp
  have two: "newest_first (filter (\<lambda>r. we_TenantID r = ''t'' \<and> jsonb_contains (aw_Selectors ?req) (we_Selectors r)) [?broad, ?specific])
      = [?broad, ?specific]"
    and one: "newest_first (filter (\<lambda>r. we_TenantID r = ''t'' \<and> jsonb_contains (aw_Selectors ?req) (we_Selectors r)) [?broad]) = [?broad]"
    by (simp_all add: newest_first_def jsonb_contains_def ex_entry_def)
  have best: "best_entry ''agent'' [?broad, ?specific] = ?specific" "best_entry ''agent'' [?broad] = ?broad"
    by (simp_all add: best_entry_def entry_score_def map_len_def ex_entry_def)
  have "\<exists>r c. issue_svid ex_spire_env 0 ''pki/t'' ?req ?broad (with_conn (ex_spire [?broad] []) ''t'', []) = (Inr r, c)"
    by (rule ex_issue_svid) simp
  then obtain r c where iss: "issue_svid ex_spire_env 0 ''pki/t'' ?req ?broad (with_conn (ex_spire [?broad] []) ''t'', []) = (Inr r, c)"
    by blast
  have refused: "fst (AttestWorkload ex_spire_env 0 ?req (ex_spire [?broad, ?specific] [], [])) =
      Inl (Plain (Errorf ''agent agent is not authorized for workload spiffe://t/b (expected parent: other)''))"
    using find [of "[?broad, ?specific]"] two best(1) act tenant_GetByID_ready [OF ex_spire_ready [of "[?broad, ?specific]" "[]"]]
    by (simp add: AttestWorkload_def bind_act_def map_error_def Let_def fail_act_def) (simp add: ex_entry_def)
  have "AttestWorkload ex_spire_env 0 ?req (ex_spire [?broad] [], []) = (Inr r, c)"
    using find [of "[?broad]"] one best(2) act iss tenant_GetByID_ready [OF ex_spire_ready [of "[?broad]" "[]"]]
    by (simp add: AttestWorkload_def bind_act_def map_error_def Let_def) (simp add: ex_entry_def)
  with refused issue_svid_Inr [OF iss] show ?thesis
    by (simp add: Let_def MatchesSelectors_def) (simp add: ex_entry_def)
qed

section \<open>Attestation of nodes\<close>

definition agents_at :: "spire \<Rightarrow> string \<Rightarrow> Agent list" where
  "agents_at s n = (case sp_dbs s n of Some d \<Rightarrow> db_agents d | None \<Rightarrow> [])"

lemma bind_try: "m c = (r, c') \<Longrightarrow> bind_act (try_act m) f c = f r c'"
  by (simp add: bind_act_def try_act_def)

text \<open>What is stored of the evidence decides neither whether an agent is stored nor anything else that is done.\<close>

lemma db_stmt_fst:
  assumes "\<And>d. map_sum id snd (f d) = map_sum id snd (g d)"
  shows "fst (db_stmt n f c) = fst (db_stmt n g c)"
proof -
  obtain s os where c: "c = (s, os)" by (rule prod.exhaust)
  show ?thesis
  proof (cases "sp_dbs s n")
    case (Some d)
    with assms [of d] show ?thesis unfolding c db_stmt_def stmt_def
      by (cases "f d"; cases "g d") (auto simp: exec_sched on_db_def)
  qed (simp add: c db_stmt_def stmt_def exec_sched on_db_def)
qed

lemma fst_bind_map_error:
  assumes "fst (m c) = fst (m' c)" and "\<And>x d d'. fst (k x d) = fst (k x d')"
  shows "fst (bind_act (map_error g m) k c) = fst (bind_act (map_error g m') k c)"
proof -
  obtain y d d' where "m c = (y, d)" "m' c = (y, d')" using assms(1) by (metis prod.collapse)
  then show ?thesis using assms(2) by (cases y) (simp_all add: bind_act_def map_error_def)
qed

lemma agent_stmts_sels:
  assumes "ag_ID a = ag_ID a'" and "agent_fits a = agent_fits a'"
  shows "fst (agent_Update E now n a c) = fst (agent_Update E now n a' c)" and "fst (agent_Create E now n a c) = fst (agent_Create E now n a' c)"
proof -
  show "fst (agent_Update E now n a c) = fst (agent_Update E now n a' c)"
    unfolding agent_Update_def
    by (rule fst_bind_map_error, rule db_stmt_fst, cases "cast_uuid E (ag_ID a')")
      (simp_all add: change_agents_def assms agent_touched_def fail_act_def return_act_def del: cast_uuid_Inr)
  have fits: "agent_fits (b\<lparr> ag_CreatedAt := now, ag_UpdatedAt := now \<rparr>) = agent_fits b" for b by (simp add: agent_fits_def)
  have "fst (db_stmt n (insert_agent E (a\<lparr> ag_CreatedAt := now, ag_UpdatedAt := now \<rparr>)) c) =
      fst (db_stmt n (insert_agent E (a'\<lparr> ag_CreatedAt := now, ag_UpdatedAt := now \<rparr>)) c)"
    by (rule db_stmt_fst, cases "cast_uuid E (ag_ID a')") (simp_all add: insert_agent_def fits assms del: cast_uuid_Inr)
  then show "fst (agent_Create E now n a c) = fst (agent_Create E now n a' c)"
    unfolding agent_Create_def map_error_def by (auto split: prod.split sum.split)
qed

lemma silent_agents: "keeps (\<lambda>s. sp_vault s = v) (store_agent E now newID n req sels sp serial)"
  unfolding store_agent_def GetByTenantAndNode_def agent_Update_def agent_Create_def agent_touched_def
  by (intro keeps_intros keeps_db_stmt) simp_all

lemma store_agent_sels:
  "fst (store_agent E now newID n req sels sp serial c) = fst (store_agent E now newID n req sels' sp serial c)"
proof -
  obtain r c1 where r: "GetByTenantAndNode n (na_TenantID req) (na_NodeID req) c = (r, c1)" by (rule prod.exhaust)
  let ?old = "\<lambda>a s. a\<lparr> ag_SpiffeID := sp, ag_AttestationType := na_AttestationType req, ag_NodeSelectors := s,
       ag_CertificateSerial := serial, ag_Status := AgentStatusActive, ag_LastSeen := now \<rparr>"
  let ?new = "\<lambda>s. \<lparr> ag_ID = newID, ag_TenantID = na_TenantID req, ag_NodeID = na_NodeID req, ag_SpiffeID = sp,
       ag_AttestationType = na_AttestationType req, ag_NodeSelectors = s, ag_CertificateSerial = serial, ag_Status = AgentStatusActive,
       ag_ClusterName = [], ag_LastSeen = now, ag_LastHeartbeat = zero_time, ag_CreatedAt = zero_time, ag_UpdatedAt = zero_time \<rparr>"
  have old: "fst (agent_Update E now n (?old a sels) c1) = fst (agent_Update E now n (?old a sels') c1)" for a
    by (rule agent_stmts_sels) (simp_all add: agent_fits_def)
  have new: "fst (agent_Create E now n (?new sels) c1) = fst (agent_Create E now n (?new sels') c1)"
    by (rule agent_stmts_sels) (simp_all add: agent_fits_def)
  show ?thesis
    unfolding store_agent_def bind_try [where m = "GetByTenantAndNode n (na_TenantID req) (na_NodeID req)", OF r]
    by (cases r) (auto intro!: fst_bind_map_error old new simp: return_act_def)
qed

lemma agent_Update_Inr:
  assumes "agent_Update E now n a c = (Inr u, c')"
  shows "\<exists>r. set_agent now a r \<in> set (agents_at (fst c') n) \<and> se_uuid E (ag_ID a) = Some (ag_ID r)"
proof -
  from assms obtain k where up: "db_stmt n (change_agents E (ag_ID a) (agent_fits a) (set_agent now a)) c = (Inr k, c')" and k: "k \<noteq> 0"
    by (auto simp: agent_Update_def bind_act_Inr return_act_def agent_touched_def fail_act_def split: if_splits)
  from stmt_Inr [OF up [unfolded db_stmt_def]] obtain d d' where
    d: "change_agents E (ag_ID a) (agent_fits a) (set_agent now a) d = Inr (d', k)"
    and c': "fst c' = (fst c)\<lparr> sp_dbs := (sp_dbs (fst c))(n \<mapsto> d') \<rparr>"
    by (auto simp: on_db_Inr)
  from d obtain x where x: "se_uuid E (ag_ID a) = Some x" "d' = d\<lparr> db_agents := update_where (\<lambda>r. ag_ID r = x) (set_agent now a) (db_agents d) \<rparr>"
    "k = affected (\<lambda>r. ag_ID r = x) (db_agents d)"
    by (cases "cast_uuid E (ag_ID a)") (auto simp: change_agents_def split: if_splits)
  from k x(3) obtain r where r: "r \<in> set (db_agents d)" "ag_ID r = x" by (auto simp: affected_zero_iff)
  with x(1,2) c' show ?thesis by (intro exI [of _ r]) (auto simp: agents_at_def table_simps)
qed

lemma agent_Create_Inr:
  assumes "agent_Create E now n a c = (Inr u, c')"
  shows "\<exists>b \<in> set (agents_at (fst c') n). se_uuid E (ag_ID a) = Some (ag_ID b) \<and> ag_NodeID b = ag_NodeID a \<and> ag_SpiffeID b = ag_SpiffeID a \<and>
     ag_Status b = ag_Status a"
proof -
  let ?a = "a\<lparr> ag_CreatedAt := now, ag_UpdatedAt := now \<rparr>"
  from assms have "db_stmt n (insert_agent E ?a) c = (Inr u, c')" by (simp add: agent_Create_def)
  from stmt_Inr [OF this [unfolded db_stmt_def]] obtain d d' where
    d: "insert_agent E ?a d = Inr (d', u)" and c': "fst c' = (fst c)\<lparr> sp_dbs := (sp_dbs (fst c))(n \<mapsto> d') \<rparr>"
    by (auto simp: on_db_Inr)
  from d obtain x where "se_uuid E (ag_ID a) = Some x" "d' = d\<lparr> db_agents := db_agents d @ [?a\<lparr> ag_ID := x, ag_LastHeartbeat := heartbeat ?a \<rparr>] \<rparr>"
    by (cases "cast_uuid E (ag_ID a)") (auto simp: insert_agent_def split: if_splits)
  with c' show ?thesis by (intro bexI [of _ "?a\<lparr> ag_ID := x, ag_LastHeartbeat := heartbeat ?a \<rparr>"]) (simp_all add: agents_at_def)
qed

lemma store_agent_Inr:
  assumes "store_agent E now newID n req sels sp serial c = (Inr i, c')"
  shows "\<exists>a \<in> set (agents_at (fst c') n). se_uuid E i = Some (ag_ID a) \<and> ag_NodeID a = na_NodeID req \<and> ag_SpiffeID a = sp \<and>
     ag_Status a = AgentStatusActive"
proof -
  obtain r c1 where r: "GetByTenantAndNode n (na_TenantID req) (na_NodeID req) c = (r, c1)" by (rule prod.exhaust)
  note run = assms [unfolded store_agent_def bind_try [where m = "GetByTenantAndNode n (na_TenantID req) (na_NodeID req)", OF r]]
  show ?thesis
  proof (cases r)
    case (Inr a)
    from db_read_Inr [OF r [unfolded Inr GetByTenantAndNode_def map_error_Inr]] have node: "ag_NodeID a = na_NodeID req"
      by (auto dest: select_row_sound)
    from run [unfolded Inr sum.case bind_act_Inr map_error_Inr] obtain u where
      "agent_Update E now n (a\<lparr> ag_SpiffeID := sp, ag_AttestationType := na_AttestationType req, ag_NodeSelectors := sels,
         ag_CertificateSerial := serial, ag_Status := AgentStatusActive, ag_LastSeen := now \<rparr>) c1 = (Inr u, c')" "i = ag_ID a"
      by (auto simp: return_act_def)
    with agent_Update_Inr [OF this(1)] node show ?thesis
      by (elim exE conjE) (erule bexI [rotated], simp add: set_agent_def)
  next
    case (Inl e)
    from run [unfolded Inl sum.case bind_act_Inr map_error_Inr] obtain a u where
      "agent_Create E now n a c1 = (Inr u, c')" "i = ag_ID a" "ag_NodeID a = na_NodeID req" "ag_SpiffeID a = sp" "ag_Status a = AgentStatusActive"
      by (auto simp: return_act_def)
    with agent_Create_Inr [OF this(1)] show ?thesis by auto
  qed
qed

text \<open>Two actions with the same answer and the same requests to Vault.\<close>

definition same_outcome :: "'r act \<Rightarrow> 'r act \<Rightarrow> spire conn \<Rightarrow> bool" where
  "same_outcome m m' c \<longleftrightarrow> fst (m c) = fst (m' c) \<and> sp_vault (tables (m c)) = sp_vault (tables (m' c))"

lemma same_bind: "(\<And>x c1. same_outcome (f x) (g x) c1) \<Longrightarrow> same_outcome (bind_act m f) (bind_act m g) c"
  by (auto simp: same_outcome_def bind_act_def split: prod.split sum.split)

lemma same_store:
  "same_outcome (bind_act (store_agent E now newID n req sels sp serial) (\<lambda>i. return_act (h i)))
     (bind_act (store_agent E now newID n req sels' sp serial) (\<lambda>i. return_act (h i))) c"
proof -
  obtain y d d' where y: "store_agent E now newID n req sels sp serial c = (y, d)" "store_agent E now newID n req sels' sp serial c = (y, d')"
    using store_agent_sels [of E now newID n req sels sp serial c sels'] by (metis prod.collapse)
  moreover have "sp_vault (fst d) = sp_vault (fst d')"
    using keepsD [OF silent_agents [where v = "sp_vault (fst c)"] refl y(1)] keepsD [OF silent_agents [where v = "sp_vault (fst c)"] refl y(2)]
    by simp
  ultimately show ?thesis by (cases y) (simp_all add: same_outcome_def bind_act_def return_act_def)
qed

lemma store_agent_evidence: "store_agent E now newID n (req\<lparr> na_Evidence := ev \<rparr>) = store_agent E now newID n req"
  by (intro ext) (simp add: store_agent_def cong: sum.case_cong)

lemma unverified_evidence: "typ \<in> {''unix'', ''docker''} \<Longrightarrow> \<exists>sels. validateEvidence E K typ ev = Inr sels"
  by (auto simp: validateEvidence_def)

lemma node_Attest_evidence:
  assumes "na_AttestationType req \<in> {''unix'', ''docker''}"
  shows "same_outcome (node_Attest E K now newID (req\<lparr> na_Evidence := ev \<rparr>)) (node_Attest E K now newID req) c"
proof -
  have fields: "na_TenantID (req\<lparr> na_Evidence := ev \<rparr>) = na_TenantID req" "na_NodeID (req\<lparr> na_Evidence := ev \<rparr>) = na_NodeID req"
    "na_AttestationType (req\<lparr> na_Evidence := ev \<rparr>) = na_AttestationType req" "na_CSR (req\<lparr> na_Evidence := ev \<rparr>) = na_CSR req"
    "na_Evidence (req\<lparr> na_Evidence := ev \<rparr>) = ev" by simp_all
  obtain sels sels' where "validateEvidence E K (na_AttestationType req) ev = Inr sels"
      "validateEvidence E K (na_AttestationType req) (na_Evidence req) = Inr sels'"
    using unverified_evidence [OF assms] by meson
  moreover have "bind_act (map_error g (of_result (Inr x))) f = f x" for g x and f :: "str_map \<Rightarrow> NodeAttestResponse act"
    by (rule ext) (simp add: bind_act_def map_error_def of_result_def)
  moreover have "same_outcome m m c" for m :: "NodeAttestResponse act" and c by (simp add: same_outcome_def)
  ultimately have step: "same_outcome (if b then m else bind_act (map_error g (of_result (validateEvidence E K (na_AttestationType req) ev))) f)
      (if b then m else bind_act (map_error g (of_result (validateEvidence E K (na_AttestationType req) (na_Evidence req)))) f') c"
    if "same_outcome (f sels) (f' sels') c" for b c g f f' and m :: "NodeAttestResponse act"
    using that by simp
  show ?thesis
    unfolding node_Attest_def Let_def store_agent_evidence fields
    by (rule same_bind, rule step, (rule same_bind)+, rule same_store)
qed

text \<open>
  C38. The evidence of a node of type \<^verbatim>\<open>unix\<close> or \<^verbatim>\<open>docker\<close> counts for nothing. After any run of the routes, under any faults and
  whatever Vault answers, the outcome of a node attestation and the requests it sends to Vault are the same whatever evidence is
  presented. So whenever one such attestation of a node succeeds, every request for that node does: Vault is asked to sign the identity
  of the agent of the node for the key of the caller, and the agent is stored as active under that identity, also one that had been
  revoked. The route asks for no authentication.
\<close>

theorem node_evidence_unverified:
  assumes "spire_start s" and "c = fst (run (spire_step R) ops (s, faults))" and "E = re_env R"
    and "na_AttestationType req \<in> {''unix'', ''docker''}"
  defines "sp \<equiv> ''spiffe://'' @ na_TenantID req @ ''/agent/'' @ na_NodeID req"
  shows "fst (node_Attest E K now newID (req\<lparr> na_Evidence := ev \<rparr>) c) = fst (node_Attest E K now newID req c) \<and>
     sp_vault (tables (node_Attest E K now newID (req\<lparr> na_Evidence := ev \<rparr>) c)) = sp_vault (tables (node_Attest E K now newID req c)) \<and>
     (\<forall>r c'. node_Attest E K now newID req c = (Inr r, c') \<longrightarrow> nr_SpiffeID r = sp \<and>
        (\<exists>t \<in> set (sp_tenants (fst c)). \<exists>role. se_uuid E (na_TenantID req) = Some (tn_TenantID t) \<and> tn_Status t = ''active'' \<and>
           sp_vault (fst c') = sp_vault (fst c) @
             [VWrite (st_VaultMount (scan_tenant t) @ ''/roles/agent'') role,
              VWrite (pki_path E (st_VaultMount (scan_tenant t)) ''sign/agent'')
                [(''csr'', GStr (na_CSR req)), (''common_name'', GStr sp), (''ttl'', GStr ''1h''), (''uri_sans'', GStrs [sp])]]) \<and>
        (\<exists>a \<in> set (agents_at (fst c') (tenant_db_name (na_TenantID req))). se_uuid E (nr_AgentID r) = Some (ag_ID a) \<and>
           ag_NodeID a = na_NodeID req \<and> ag_SpiffeID a = sp \<and> ag_Status a = ''active''))"
proof (intro conjI allI impI)
  have sp: "generateAgentSpiffeID (na_TenantID req) (na_NodeID req) = sp" by (simp add: generateAgentSpiffeID_def sp_def)
  have same: "same_outcome (node_Attest E K now newID (req\<lparr> na_Evidence := ev \<rparr>)) (node_Attest E K now newID req) c"
    using assms(4) by (rule node_Attest_evidence)
  then show "fst (node_Attest E K now newID (req\<lparr> na_Evidence := ev \<rparr>) c) = fst (node_Attest E K now newID req c)"
    "sp_vault (tables (node_Attest E K now newID (req\<lparr> na_Evidence := ev \<rparr>) c)) = sp_vault (tables (node_Attest E K now newID req c))"
    by (simp_all add: same_outcome_def)
  fix r c'
  assume "node_Attest E K now newID req c = (Inr r, c')"
  then obtain tenant c1 sels c2 c3 cert c4 n c5 i where t: "tenant_GetByID E (na_TenantID req) c = (Inr tenant, c1)"
    and csr: "agent_csr E (na_CSR req) c1 = (Inr (), c2)"
    and role: "ensureVaultRoleConfigured E (st_VaultMount tenant) (na_TenantID req) c2 = (Inr (), c3)"
    and cert: "IssueCertificate E now (st_VaultMount tenant) ''agent'' (agent_cert (na_CSR req) sp) c3 = (Inr cert, c4)"
    and n: "GetTenantDB E (na_TenantID req) c4 = (Inr n, c5)"
    and st: "store_agent E now newID n req sels sp (cp_SerialNumber cert) c5 = (Inr i, c')" and r: "nr_SpiffeID r = sp" "nr_AgentID r = i"
    unfolding node_Attest_def Let_def sp by (auto simp: bind_act_Inr of_result_def return_act_def fail_act_def split: if_splits)
  show "nr_SpiffeID r = sp" by (rule r(1))
  obtain row where row: "row \<in> set (sp_tenants (fst c))" "se_uuid E (na_TenantID req) = Some (tn_TenantID row)"
    "tn_Status row = ''active''" "tenant = scan_tenant row" and c1: "fst c1 = fst c"
    using tenant_GetByID_Inr [OF t] by blast
  have c2: "c2 = c1" using csr by (auto simp: agent_csr_def return_act_def fail_act_def split: csr_check.splits)
  obtain k where c3: "fst c3 = (fst c)\<lparr> sp_vault := sp_vault (fst c) @ [VWrite (st_VaultMount tenant @ ''/roles/agent'') k] \<rparr>"
    using role unfolding ensureVaultRoleConfigured_def CreatePKIRole_def c2
    by (auto simp: bind_act_Inr return_act_def c1 dest!: vault_write_state)
  have c4: "fst c4 = (fst c3)\<lparr> sp_vault := sp_vault (fst c3) @
      [VWrite (pki_path E (st_VaultMount tenant) ''sign/agent'') (sign_data (agent_cert (na_CSR req) sp))] \<rparr>"
    using IssueCertificate_state [OF cert] by simp
  have "sp_vault (fst c5) = sp_vault (fst c4)"
    using keepsD [OF keeps_GetTenantDB_dbs [of "\<lambda>d t v. v = sp_vault (fst c4)"] _ n] by simp
  moreover have "sp_vault (fst c') = sp_vault (fst c5)" using keepsD [OF silent_agents _ st] by simp
  ultimately have v: "sp_vault (fst c') = sp_vault (fst c) @ [VWrite (st_VaultMount (scan_tenant row) @ ''/roles/agent'') k,
      VWrite (pki_path E (st_VaultMount (scan_tenant row)) ''sign/agent'')
        [(''csr'', GStr (na_CSR req)), (''common_name'', GStr sp), (''ttl'', GStr ''1h''), (''uri_sans'', GStrs [sp])]]"
    using c3 c4 row(4) by (simp add: sign_data_def agent_cert_def)
  show "\<exists>t \<in> set (sp_tenants (fst c)). \<exists>role. se_uuid E (na_TenantID req) = Some (tn_TenantID t) \<and> tn_Status t = ''active'' \<and>
     sp_vault (fst c') = sp_vault (fst c) @
       [VWrite (st_VaultMount (scan_tenant t) @ ''/roles/agent'') role,
        VWrite (pki_path E (st_VaultMount (scan_tenant t)) ''sign/agent'')
          [(''csr'', GStr (na_CSR req)), (''common_name'', GStr sp), (''ttl'', GStr ''1h''), (''uri_sans'', GStrs [sp])]]"
    using row v by (intro bexI [of _ row] exI [of _ k]) simp_all
  have "conns_ok (fst c)"
    using spire_run.run_keeps [of R "(s, faults)" ops] spire_start_ok [OF assms(1)] assms(2) by (simp add: spire_ok_def)
  then have "conns_ok (fst c4)" using c3 c4 by (simp add: conns_ok_def)
  with n have "n = tenant_db_name (na_TenantID req)" by (rule GetTenantDB_Inr)
  with store_agent_Inr [OF st] r show "\<exists>a \<in> set (agents_at (fst c') (tenant_db_name (na_TenantID req))). se_uuid E (nr_AgentID r) = Some (ag_ID a) \<and>
     ag_NodeID a = na_NodeID req \<and> ag_SpiffeID a = sp \<and> ag_Status a = ''active''"
    by (simp add: AgentStatusActive_def)
qed

definition ex_agent :: Agent where
  "ex_agent = \<lparr> ag_ID = ''a'', ag_TenantID = ''t'', ag_NodeID = ''n'', ag_SpiffeID = ''spiffe://t/agent/n'',
     ag_AttestationType = ''kubernetes'', ag_NodeSelectors = [], ag_CertificateSerial = [], ag_Status = ''revoked'',
     ag_ClusterName = [], ag_LastSeen = 0, ag_LastHeartbeat = 0, ag_CreatedAt = 0, ag_UpdatedAt = 0 \<rparr>"

definition ex_k8s :: k8s_env where
  "ex_k8s = \<lparr> ke_useTokenReview = True, ke_k8sAPIHost = ''h'', ke_review = (\<lambda>_. Inl DBError), ke_payload = (\<lambda>_. Inl DBError) \<rparr>"

section \<open>Witnesses\<close>

definition ex_routes :: route_env where
  "ex_routes = \<lparr> re_env = ex_spire_env, re_k8s = ex_k8s,
     re_jwt = Some (\<lambda>token. Inr (''u'', token)), re_cert = (\<lambda>_. BadCert) \<rparr>"

lemma ex_spire_start: "spire_start (ex_spire [] as)"
  by (simp add: spire_start_def ex_spire_def entries_at_def)

text \<open>A revoked agent of a node is active again after anybody sent a genuine signing request and no evidence at all.\<close>

definition ex_node :: NodeAttestRequest where
  "ex_node = \<lparr> na_TenantID = ''t'', na_NodeID = ''n'', na_AttestationType = ''unix'', na_Evidence = [], na_CSR = ''csr'' \<rparr>"

lemma ex_node_attests: "\<exists>r c'. node_Attest ex_spire_env ex_k8s 0 ''b'' ex_node (ex_spire [] [ex_agent], []) = (Inr r, c')"
proof -
  note r = ex_spire_ready [of "[]" "[ex_agent]"]
  have a: "ag_ID ex_agent = ''a''" "ag_TenantID ex_agent = ''t''" "ag_NodeID ex_agent = ''n''" by (simp_all add: ex_agent_def)
  have node: "na_TenantID ex_node = ''t''" "na_NodeID ex_node = ''n''" "na_AttestationType ex_node = ''unix''" "na_Evidence ex_node = []"
    "na_CSR ex_node = ''csr''" by (simp_all add: ex_node_def)
  have act: "st_Status (scan_tenant ex_tenant_row) = ''active''" by (simp add: scan_tenant_def ex_tenant_row_def)
  have ev: "validateEvidence ex_spire_env ex_k8s ''unix'' [] = Inr []" by (simp add: validateEvidence_def claim_selectors_def str_of_def)
  have role: "\<exists>v. ensureVaultRoleConfigured ex_spire_env m ''t'' (s, []) = (Inr (), s\<lparr> sp_vault := v \<rparr>, [])" for m and s :: spire
    by (simp add: ensureVaultRoleConfigured_def CreatePKIRole_def vault_write_def fault_free_simps ex_spire_env_def) (rule exI, rule refl)
  obtain v where v: "ensureVaultRoleConfigured ex_spire_env (st_VaultMount (scan_tenant ex_tenant_row)) ''t'' (ex_spire [] [ex_agent], []) =
      (Inr (), (ex_spire [] [ex_agent])\<lparr> sp_vault := v \<rparr>, [])" using role by blast
  have sign: "\<exists>cert v'. cp_SerialNumber cert = ''01'' \<and> IssueCertificate ex_spire_env 0 m ''agent'' q (s, []) = (Inr cert, s\<lparr> sp_vault := v' \<rparr>, [])"
    for m q and s :: spire
    by (simp add: IssueCertificate_def vault_write_def fault_free_simps ex_spire_env_def str_of_def cert_response_def) (rule exI, rule refl)
  obtain cert v' where cert: "cp_SerialNumber cert = ''01''" "IssueCertificate ex_spire_env 0 (st_VaultMount (scan_tenant ex_tenant_row)) ''agent''
      (agent_cert ''csr'' (generateAgentSpiffeID ''t'' ''n'')) ((ex_spire [] [ex_agent])\<lparr> sp_vault := v \<rparr>, []) =
      (Inr cert, (ex_spire [] [ex_agent])\<lparr> sp_vault := v' \<rparr>, [])"
    using sign [of "st_VaultMount (scan_tenant ex_tenant_row)" "agent_cert ''csr'' (generateAgentSpiffeID ''t'' ''n'')"
        "(ex_spire [] [ex_agent])\<lparr> sp_vault := v \<rparr>"] by auto
  let ?s = "with_conn ((ex_spire [] [ex_agent])\<lparr> sp_vault := v' \<rparr>) ''t''"
  have r': "tenant_ready ex_spire_env ?s ''t'' ex_tenant_row (ex_db [] [ex_agent])"
    by (rule with_conn_ready [OF ready_update(2) [OF r]])
  have look: "GetByTenantAndNode (tenant_db_name ''t'') ''t'' ''n'' (?s, []) = (Inr ex_agent, ?s, [])"
    by (simp add: GetByTenantAndNode_def map_error_def db_read_ready [OF r'] select_row_def a ex_db_def)
  let ?a = "ex_agent\<lparr> ag_SpiffeID := generateAgentSpiffeID ''t'' ''n'', ag_AttestationType := ''unix'', ag_NodeSelectors := [],
      ag_CertificateSerial := ''01'', ag_Status := AgentStatusActive, ag_LastSeen := 0 \<rparr>"
  have fits: "agent_fits ?a" by (simp add: agent_fits_def ex_agent_def generateAgentSpiffeID_def AgentStatusActive_def)
  have "\<exists>d' k. change_agents ex_spire_env ''a'' True (set_agent 0 ?a) (ex_db [] [ex_agent]) = Inr (d', k) \<and> k \<noteq> 0"
    by (simp add: change_agents_def cast_uuid_def ex_spire_env_def) (simp add: ex_db_def a affected_def)
  then have "\<exists>c'. agent_Update ex_spire_env 0 (tenant_db_name ''t'') ?a (?s, []) = (Inr (), c')"
    by (auto simp: agent_Update_def fault_free_simps db_stmt_ready [OF r'] fits a agent_touched_def)
  then have store: "\<exists>c'. store_agent ex_spire_env 0 ''b'' (tenant_db_name ''t'') ex_node [] (generateAgentSpiffeID ''t'' ''n'') ''01'' (?s, []) = (Inr ''a'', c')"
    unfolding store_agent_def using look by (auto simp: fault_free_simps node a)
  have csr: "se_csr ex_spire_env ''csr'' = GoodCSR" by (simp add: ex_spire_env_def)
  from store show ?thesis
    using act ev v cert csr GetTenantDB_ready [OF ready_update(2) [OF r], of v']
    by (auto simp: node_Attest_def fault_free_simps tenant_GetByID_ready [OF r] agent_csr_def Let_def node)
qed

theorem node_evidence_unverified_witness:
  "\<exists>r c' a. fst (node_Attest ex_spire_env ex_k8s 0 ''b'' (ex_node\<lparr> na_Evidence := [(''pid'', GStr ''forged'')] \<rparr>) (ex_spire [] [ex_agent], [])) = Inr r \<and>
     node_Attest ex_spire_env ex_k8s 0 ''b'' ex_node (ex_spire [] [ex_agent], []) = (Inr r, c') \<and>
     nr_SpiffeID r = ''spiffe://t/agent/n'' \<and> a \<in> set (agents_at (fst c') (tenant_db_name ''t'')) \<and> ag_Status a = ''active''"
proof -
  obtain r c' where att: "node_Attest ex_spire_env ex_k8s 0 ''b'' ex_node (ex_spire [] [ex_agent], []) = (Inr r, c')"
    using ex_node_attests by blast
  have "(ex_spire [] [ex_agent], []) = fst (run (spire_step ex_routes) [] (ex_spire [] [ex_agent], []))" "ex_spire_env = re_env ex_routes"
    "na_AttestationType ex_node \<in> {''unix'', ''docker''}"
    by (simp_all add: ex_routes_def ex_node_def)
  note unverified = node_evidence_unverified [OF ex_spire_start this, of ex_k8s 0 "''b''" "[(''pid'', GStr ''forged'')]"]
  have t: "na_TenantID ex_node = ''t''" "na_NodeID ex_node = ''n''" by (simp_all add: ex_node_def)
  from unverified [THEN conjunct2, THEN conjunct2, rule_format, OF att]
  have "nr_SpiffeID r = ''spiffe://t/agent/n''" "\<exists>a. a \<in> set (agents_at (fst c') (tenant_db_name ''t'')) \<and> ag_Status a = ''active''"
    unfolding t by auto
  moreover from unverified att have "fst (node_Attest ex_spire_env ex_k8s 0 ''b'' (ex_node\<lparr> na_Evidence := [(''pid'', GStr ''forged'')] \<rparr>)
      (ex_spire [] [ex_agent], [])) = Inr r" by simp
  ultimately show ?thesis using att by blast
qed

definition ex_stored :: WorkloadEntry where
  "ex_stored = (stamp_entry 0 ''w'' (request_entry [] ''t'' ex_create))"

text \<open>The request that registers an entry, and the state it leaves.\<close>

definition ex_post :: spire_op where
  "ex_post = PostEntries 0 ''w'' ''Bearer t'' (Inr ex_create)"

lemma ex_post_state: "snd (route ex_routes ex_post (ex_spire [] [], [])) = (with_conn (ex_spire [ex_stored] []) ''t'', [])"
proof -
  have "CreateEntry ex_spire_env 0 ''w'' (request_entry [] ''t'' ex_create) (ex_spire [] [], []) =
     (Inr ex_stored, with_conn (ex_spire [ex_stored] []) ''t'', [])"
    using CreateEntry_ready [OF ex_spire_ready [of "[]" "[]"], of "request_entry [] ''t'' ex_create" "''w''" 0]
    by (simp add: request_entry_def ex_create_def entry_Validate_def entry_fits_def map_len_def the_map_def
        ex_spire_env_def ex_stored_def ex_tenant_row_def ex_spire_def with_conn_def tenant_db_name_def stamp_entry_def)
  moreover have "route ex_routes ex_post = http_CreateEntry ex_spire_env 0 ''w''
      [''spire_tenant_id'' \<mapsto> GStr ''t'', ''spire_user_id'' \<mapsto> GStr ''u'', ''spire_is_agent'' \<mapsto> GBool False] (Inr ex_create)"
    by (rule ext) (simp add: ex_post_def via_jwt_def ex_routes_def JWT_Authenticate_def HasPrefix_def)
  ultimately show ?thesis
    by (simp add: http_CreateEntry_def bind_create_def ex_create_def validateTenantOwnership_def GetSpireTenantID_def str_of_def respond_def)
qed

lemma ex_posted: "fst (run (spire_step ex_routes) [ex_post] (ex_spire [] [], [])) = (with_conn (ex_spire [ex_stored] []) ''t'', [])"
  by (simp add: spire_step_def ex_post_state)

lemma ex_posted_entries: "entries_at (with_conn (ex_spire [ex_stored] []) ''t'') ''tenant_t'' = [ex_stored]"
  by (simp add: with_conn_def ex_spire_def entries_at_def)

theorem entry_tables_sound_witness: "entry_ok ex_spire_env ''tenant_t'' ex_stored"
  using entry_tables_sound [OF ex_spire_start refl, of ex_routes "[ex_post]" "[]" "[]" "''tenant_t''"]
  unfolding ex_posted fst_conv ex_posted_entries by (simp add: ex_routes_def)

theorem entries_changed_by_owner_witness: "\<exists>auth t. write_auth ex_post = Some auth \<and> jwt_caller ex_routes auth t \<and> ''tenant_t'' = tenant_db_name t"
proof (rule entries_changed_by_owner [OF ex_spire_start [of "[]"], where ops = "[]" and faults = "[]"])
  show "(ex_spire [] [], []) = fst (run (spire_step ex_routes) [] (ex_spire [] [], []))" by simp
  have "entries_at (tables (route ex_routes ex_post (ex_spire [] [], []))) ''tenant_t'' = [ex_stored]"
    by (simp add: ex_post_state ex_posted_entries)
  then show "entries_at (tables (route ex_routes ex_post (ex_spire [] [], []))) ''tenant_t'' \<noteq>
      entries_at (fst (ex_spire [] [], [])) ''tenant_t''"
    by (simp add: ex_spire_def entries_at_def)
qed

theorem selector_tests_agree_witness:
  "jsonb_contains [(''k'', ''v''), (''l'', ''w'')] [(''k'', ''v'')] = MatchesSelectors (ex_entry ''a'' [] [(''k'', ''v'')]) [(''k'', ''v''), (''l'', ''w'')]"
  using selector_tests_agree [of "ex_entry ''a'' [] [(''k'', ''v'')]" "[(''k'', ''v''), (''l'', ''w'')]"] by (simp add: ex_entry_def)

theorem best_entry_chosen_witness:
  "\<exists>pre post. [ex_entry ''a'' [] [(''k'', ''v'')], ex_entry ''b'' ''x'' [(''k'', ''v'')]] =
     pre @ best_entry ''x'' [ex_entry ''a'' [] [(''k'', ''v'')], ex_entry ''b'' ''x'' [(''k'', ''v'')]] # post"
  using best_entry_chosen [of "[ex_entry ''a'' [] [(''k'', ''v'')], ex_entry ''b'' ''x'' [(''k'', ''v'')]]" "''x''"]
  by (auto simp: ex_entry_def map_len_def)

theorem svid_entitled_witness:
  "\<exists>r c' t (we :: WorkloadEntry). AttestWorkload ex_spire_env 0
       \<lparr> aw_TenantID = ''t'', aw_AgentID = ''a'', aw_Selectors = [(''k'', ''v'')], aw_CSR = ''csr'' \<rparr>
       (with_conn (ex_spire [ex_stored] []) ''t'', []) = (Inr r, c') \<and>
     t \<in> set (sp_tenants (with_conn (ex_spire [ex_stored] []) ''t'')) \<and> we_TenantID we = tn_TenantID t \<and> ar_SpiffeID r = we_SpiffeID we"
proof -
  let ?q = "\<lparr> aw_TenantID = ''t'', aw_AgentID = ''a'', aw_Selectors = [(''k'', ''v'')], aw_CSR = ''csr'' \<rparr>"
  let ?s = "with_conn (ex_spire [ex_stored] []) ''t''"
  note r = with_conn_ready [OF ex_spire_ready [of "[ex_stored]" "[]"]]
  have sel: "we_Selectors ex_stored = [(''k'', ''v'')]" "we_ParentID ex_stored = []" "we_TenantID ex_stored = ''t''"
    by (simp_all add: ex_stored_def stamp_entry_def request_entry_def ex_create_def the_map_def)
  have t: "tn_TenantID ex_tenant_row = ''t''" "tenant_IsActive (scan_tenant ex_tenant_row)" "st_VaultMount (scan_tenant ex_tenant_row) = ''pki/t''"
    by (simp_all add: tenant_IsActive_def scan_tenant_def ex_tenant_row_def)
  have find: "FindMatchingEntries ex_spire_env ''t'' [(''k'', ''v'')] (?s, []) = (Inr [ex_stored], ?s, [])"
    unfolding FindMatchingEntries_ready [OF r] using sel t(1) by (simp add: newest_first_def jsonb_contains_def)
  have "\<exists>r c'. issue_svid ex_spire_env 0 ''pki/t'' ?q ex_stored (?s, []) = (Inr r, c')"
    by (rule ex_issue_svid) simp
  then obtain r' c' where "issue_svid ex_spire_env 0 ''pki/t'' ?q ex_stored (?s, []) = (Inr r', c')" by blast
  then have att: "AttestWorkload ex_spire_env 0 ?q (?s, []) = (Inr r', c')"
    using find t sel by (simp add: AttestWorkload_def bind_act_def map_error_def tenant_GetByID_ready [OF r] Let_def best_entry_def)
  have "(?s, []) = fst (run (spire_step ex_routes) [ex_post] (ex_spire [] [], []))" "ex_spire_env = re_env ex_routes"
    unfolding ex_posted by (simp_all add: ex_routes_def)
  from svid_entitled [OF ex_spire_start this att] obtain t and we :: WorkloadEntry where "t \<in> set (sp_tenants ?s)" "we_TenantID we = tn_TenantID t"
    "ar_SpiffeID r' = we_SpiffeID we" unfolding fst_conv by blast
  with att show ?thesis by blast
qed

end
