(* ===== verification/Spire_Jwt.thy ===== *)
theory Spire_Jwt
  imports Spire_Security
begin

text \<open>
  Token identities of workloads: \<^verbatim>\<open>internal/spire/services/jwt_svid_service.go\<close> and
  \<^verbatim>\<open>internal/spire/controllers/jwt_svid_controller.go\<close>.

  \<^item> A signing key is an opaque text. \<open>jwt_env\<close> holds the code outside the repository: the encoding of keys, the
    signature of a set of claims with a key, the verification of a token with the public half of a key at a given
    time, the published form of a public key, and the fresh key of \<^verbatim>\<open>rsa.GenerateKey\<close> is an argument.
  \<^item> Claims are an association list; a verified token gives them after a round trip through JSON
    (\<open>json_map\<close>). Expiry times are whole seconds.
  \<^item> \<open>jwt_library\<close> states what the code relies on of the library: a token verifies only with its key; one whose claims
    \<^verbatim>\<open>exp\<close> and \<^verbatim>\<open>nbf\<close> are whole seconds verifies with its key exactly while it is valid, and yields the claims that were signed.
\<close>

section \<open>Keys\<close>

record jwt_env =
  je_marshal :: "string \<Rightarrow> string"
  je_parse :: "string \<Rightarrow> go_error + string"
  je_sign :: "string \<Rightarrow> any_map \<Rightarrow> go_error + string"
  je_verify :: "gotime \<Rightarrow> string \<Rightarrow> string \<Rightarrow> go_error + any_map"
  je_jwks :: "string \<Rightarrow> string"
  je_rfc3339 :: "gotime \<Rightarrow> string"

definition jwt_key_path :: "string \<Rightarrow> string" where
  "jwt_key_path tenantID = ''secret/spire/jwt-signing-keys/'' @ tenantID"

text \<open>The key in the stored secret, if it is there and can be decoded.\<close>

definition stored_key :: "jwt_env \<Rightarrow> any_map option \<Rightarrow> string option" where
  "stored_key J data =
     (case data of
        None \<Rightarrow> None
      | Some m \<Rightarrow>
          (case str_of (map_of m ''private_key_pem'') of
             None \<Rightarrow> None
           | Some pem \<Rightarrow> if pem = [] then None else (case je_parse J pem of Inl _ \<Rightarrow> None | Inr k \<Rightarrow> Some k)))"

definition cache_key :: "string \<Rightarrow> string \<Rightarrow> string act" where
  "cache_key tenantID k = bind_act (process (\<lambda>s. s\<lparr> sp_keys := (sp_keys s)(tenantID \<mapsto> k) \<rparr>)) (\<lambda>_. return_act k)"

definition getOrCreateSigningKey :: "spire_env \<Rightarrow> jwt_env \<Rightarrow> gotime \<Rightarrow> (go_error + string) \<Rightarrow> string \<Rightarrow> string act" where
  "getOrCreateSigningKey E J now newKey tenantID =
     bind_act (ask (\<lambda>s. sp_keys s tenantID))
       (\<lambda>cached. case cached of
          Some k \<Rightarrow> return_act k
        | None \<Rightarrow>
            bind_act (try_act (ReadKVSecret E ''kv'' (jwt_key_path tenantID)))
              (\<lambda>r. case stored_key J (case r of Inl _ \<Rightarrow> None | Inr data \<Rightarrow> data) of
                 Some k \<Rightarrow> cache_key tenantID k
               | None \<Rightarrow>
                   (case newKey of
                      Inl e \<Rightarrow> fail_act (Wrapped ''failed to generate RSA key: '' (Plain e))
                    | Inr k \<Rightarrow>
                        bind_act (try_act (WriteKVSecret E ''kv'' (jwt_key_path tenantID)
                           [(''private_key_pem'', GStr (je_marshal J k)), (''created_at'', GStr (je_rfc3339 J now))]))
                          (\<lambda>_. cache_key tenantID k))))"

section \<open>Service\<close>

record IssueJWTSVIDRequest =
  ij_TenantID :: string
  ij_SpiffeID :: string
  ij_Audience :: "string list"
  ij_TTL :: int
  ij_CustomClaims :: any_map

record IssueJWTSVIDResponse =
  ijr_SpiffeID :: string
  ijr_Token :: string
  ijr_ExpiresAt :: gotime

record ValidateJWTSVIDResponse =
  vj_SpiffeID :: string
  vj_Valid :: bool
  vj_Claims :: any_map

definition standard_claims :: "string list" where
  "standard_claims = [''iss'', ''sub'', ''aud'', ''exp'', ''nbf'', ''iat'', ''jti'']"

definition svid_expiry :: "gotime \<Rightarrow> int \<Rightarrow> gotime" where
  "svid_expiry now ttl = now + wrap_int (ttl * Second)"

definition effective_ttl :: "int \<Rightarrow> int" where
  "effective_ttl ttl = (if ttl = 0 then 3600 else ttl)"

definition svid_claims :: "gotime \<Rightarrow> uuid \<Rightarrow> IssueJWTSVIDRequest \<Rightarrow> any_map" where
  "svid_claims now jti req =
     [(''iss'', GStr (''spiffe://'' @ ij_TenantID req)), (''sub'', GStr (ij_SpiffeID req)), (''aud'', GStrs (ij_Audience req)),
      (''exp'', GInt64 (Unix (svid_expiry now (effective_ttl (ij_TTL req))))), (''nbf'', GInt64 (Unix now)),
      (''iat'', GInt64 (Unix now)), (''jti'', GStr jti)] @
     filter (\<lambda>(k, v). k \<notin> set standard_claims) (ij_CustomClaims req)"

definition IssueJWTSVID ::
  "spire_env \<Rightarrow> jwt_env \<Rightarrow> gotime \<Rightarrow> (go_error + string) \<Rightarrow> uuid \<Rightarrow> IssueJWTSVIDRequest \<Rightarrow> IssueJWTSVIDResponse act" where
  "IssueJWTSVID E J now newKey jti req =
     (if ij_TenantID req = [] then fail_act (Plain (Errorf ''tenant_id is required''))
      else if ij_SpiffeID req = [] then fail_act (Plain (Errorf ''spiffe_id is required''))
      else if ij_Audience req = [] then fail_act (Plain (Errorf ''audience is required''))
      else
        bind_act (map_error (Wrapped ''failed to get signing key: '') (getOrCreateSigningKey E J now newKey (ij_TenantID req)))
          (\<lambda>key. case je_sign J key (svid_claims now jti req) of
             Inl e \<Rightarrow> fail_act (Wrapped ''failed to sign JWT: '' (Plain e))
           | Inr token \<Rightarrow> return_act \<lparr> ijr_SpiffeID = ij_SpiffeID req, ijr_Token = token,
                            ijr_ExpiresAt = svid_expiry now (effective_ttl (ij_TTL req)) \<rparr>))"

definition audience_match :: "string \<Rightarrow> goval option \<Rightarrow> bool" where
  "audience_match a v = (case v of Some (GArr vs) \<Rightarrow> GStr a \<in> set vs | Some (GStr s) \<Rightarrow> s = a | _ \<Rightarrow> False)"

definition invalid_svid :: "string \<Rightarrow> ValidateJWTSVIDResponse" where
  "invalid_svid sp = \<lparr> vj_SpiffeID = sp, vj_Valid = False, vj_Claims = [] \<rparr>"

definition claim_str :: "any_map \<Rightarrow> string \<Rightarrow> string" where
  "claim_str m k = (case str_of (map_of m k) of Some v \<Rightarrow> v | None \<Rightarrow> [])"

definition ValidateJWTSVID ::
  "spire_env \<Rightarrow> jwt_env \<Rightarrow> gotime \<Rightarrow> (go_error + string) \<Rightarrow> string \<Rightarrow> string \<Rightarrow> string \<Rightarrow> ValidateJWTSVIDResponse act" where
  "ValidateJWTSVID E J now newKey tenantID token audience =
     bind_act (map_error (Wrapped ''failed to get public key: '') (getOrCreateSigningKey E J now newKey tenantID))
       (\<lambda>key. return_act
          (case je_verify J now key token of
             Inl e \<Rightarrow> invalid_svid []
           | Inr claims \<Rightarrow>
               if audience \<noteq> [] \<and> \<not> audience_match audience (map_of claims ''aud'')
               then invalid_svid (claim_str claims ''sub'')
               else \<lparr> vj_SpiffeID = claim_str claims ''sub'', vj_Valid = True, vj_Claims = claims \<rparr>))"

definition GetJWTBundle :: "spire_env \<Rightarrow> jwt_env \<Rightarrow> gotime \<Rightarrow> (go_error + string) \<Rightarrow> string \<Rightarrow> string act" where
  "GetJWTBundle E J now newKey tenantID =
     bind_act (map_error (Wrapped ''failed to get public key: '') (getOrCreateSigningKey E J now newKey tenantID))
       (\<lambda>key. return_act (je_jwks J key))"

section \<open>Handlers\<close>

datatype jwt_body = JwtError string string | JwtPanic | TokenBody IssueJWTSVIDResponse | ClaimsBody ValidateJWTSVIDResponse any_map | Jwks string

type_synonym jwt_reply = "jwt_body http_reply"

definition jwt_json :: "nat \<Rightarrow> jwt_body \<Rightarrow> jwt_reply" where
  "jwt_json st b = \<lparr> http_status = st, http_body = b, http_audit = [] \<rparr>"

fun jwt_sendError :: "spire_error \<Rightarrow> jwt_reply" where
  "jwt_sendError (AppError code msg st _) = jwt_json st (JwtError code msg)"
| "jwt_sendError (Panic _) = jwt_json 500 JwtPanic"
| "jwt_sendError _ = jwt_json 500 (JwtError ''INTERNAL_ERROR'' ''Internal server error'')"

text \<open>A handler runs its body as an action whose errors are those it sends.\<close>

definition jwt_respond :: "'r act \<Rightarrow> ('r \<Rightarrow> jwt_reply) \<Rightarrow> spire conn \<Rightarrow> jwt_reply \<times> spire conn" where
  "jwt_respond m ok c = (case m c of (Inl e, c') \<Rightarrow> (jwt_sendError e, c') | (Inr x, c') \<Rightarrow> (ok x, c'))"

definition bound :: "go_error + 'r \<Rightarrow> 'r act" where
  "bound body = (case body of Inl e \<Rightarrow> fail_act (NewBadRequestError ''Invalid request body'' (Some (Plain e))) | Inr r \<Rightarrow> return_act r)"

definition issue_or_500 ::
  "spire_env \<Rightarrow> jwt_env \<Rightarrow> gotime \<Rightarrow> (go_error + string) \<Rightarrow> uuid \<Rightarrow> IssueJWTSVIDRequest \<Rightarrow> IssueJWTSVIDResponse act" where
  "issue_or_500 E J now newKey jti req =
     map_error (\<lambda>e. NewInternalError (Error_text (se_show E) e) (Some e)) (IssueJWTSVID E J now newKey jti req)"

definition http_IssueJWTSVID ::
  "spire_env \<Rightarrow> jwt_env \<Rightarrow> gotime \<Rightarrow> (go_error + string) \<Rightarrow> uuid \<Rightarrow> go_error + IssueJWTSVIDRequest \<Rightarrow> spire conn \<Rightarrow> jwt_reply \<times> spire conn" where
  "http_IssueJWTSVID E J now newKey jti body =
     jwt_respond (bind_act (bound body) (issue_or_500 E J now newKey jti)) (\<lambda>r. jwt_json 200 (TokenBody r))"

text \<open>The claims that a reply repeats at its top level.\<close>

definition flattened :: "ValidateJWTSVIDResponse \<Rightarrow> any_map" where
  "flattened r =
     (if vj_Valid r then
        (case str_of (map_of (vj_Claims r) ''sub'') of Some v \<Rightarrow> [(''sub'', GStr v)] | None \<Rightarrow> []) @
        (case str_of (map_of (vj_Claims r) ''tenant_id'') of Some v \<Rightarrow> [(''tenant_id'', GStr v)] | None \<Rightarrow> []) @
        concat (map (\<lambda>(k, k'). case map_of (vj_Claims r) k of Some v \<Rightarrow> [(k', v)] | None \<Rightarrow> [])
          [(''permissions'', ''permissions''), (''aud'', ''audience''), (''exp'', ''expires_at''), (''iat'', ''issued_at'')])
      else [])"

definition http_ValidateJWTSVID ::
  "spire_env \<Rightarrow> jwt_env \<Rightarrow> gotime \<Rightarrow> (go_error + string) \<Rightarrow> go_error + string \<times> string \<times> string \<Rightarrow> spire conn \<Rightarrow> jwt_reply \<times> spire conn" where
  "http_ValidateJWTSVID E J now newKey body =
     jwt_respond (bind_act (bound body) (\<lambda>(tenantID, token, audience).
         map_error (\<lambda>e. NewInternalError (Error_text (se_show E) e) (Some e)) (ValidateJWTSVID E J now newKey tenantID token audience)))
       (\<lambda>r. jwt_json 200 (ClaimsBody r (flattened r)))"

definition http_GetJWTBundle ::
  "spire_env \<Rightarrow> jwt_env \<Rightarrow> gotime \<Rightarrow> (go_error + string) \<Rightarrow> string \<Rightarrow> spire conn \<Rightarrow> jwt_reply \<times> spire conn" where
  "http_GetJWTBundle E J now newKey tenantID =
     jwt_respond
       (if tenantID = [] then fail_act (NewBadRequestError ''tenant_id query parameter is required'' None)
        else map_error (\<lambda>e. NewInternalError (Error_text (se_show E) e) (Some e)) (GetJWTBundle E J now newKey tenantID))
       (\<lambda>j. jwt_json 200 (Jwks j))"

definition defaultMaxDelegatedTTL :: int where "defaultMaxDelegatedTTL = 86400"

definition restrictedCustomClaims :: "string list" where
  "restrictedCustomClaims = [''role'', ''roles'', ''perms'', ''scopes'', ''scope'', ''admin'', ''is_admin'']"

record JWTSVIDController =
  jc_defaultAudience :: "string list"
  jc_allowedAudiences :: "string list"

definition validateDelegationAuth :: "string \<Rightarrow> string \<Rightarrow> string \<Rightarrow> spire_error option" where
  "validateDelegationAuth callerTenantID reqTenantID reqSpiffeID =
     (if callerTenantID = [] then Some (Plain (Errorf ''caller tenant ID not found in authentication context''))
      else if callerTenantID \<noteq> reqTenantID
      then Some (Plain (Errorf (''tenant mismatch: authenticated as tenant '' @ callerTenantID @
                  '' but requesting delegation for tenant '' @ reqTenantID)))
      else if \<not> HasPrefix reqSpiffeID (''spiffe://'' @ reqTenantID @ ''/'')
      then Some (Plain (Errorf (''spiffe_id '' @ reqSpiffeID @ '' does not belong to tenant '' @ reqTenantID @ '' trust domain'')))
      else None)"

text \<open>The request as the handler changes it before it issues.\<close>

definition delegated_request :: "JWTSVIDController \<Rightarrow> IssueJWTSVIDRequest \<Rightarrow> IssueJWTSVIDRequest" where
  "delegated_request ctrl req =
     req\<lparr> ij_Audience := (if ij_Audience req = [] then jc_defaultAudience ctrl else ij_Audience req),
          ij_TTL := (if ij_TTL req \<le> 0 then defaultMaxDelegatedTTL else ij_TTL req),
          ij_CustomClaims := filter (\<lambda>(k, v). ToLower k \<notin> set restrictedCustomClaims) (ij_CustomClaims req) \<rparr>"

text \<open>
  The verb \<^verbatim>\<open>%q\<close>: quotes and backslashes are escaped, the control characters that have a name get it, and the other
  ones are written in hexadecimal. Bytes above 127 are taken as parts of printable characters.
\<close>

definition escaped :: "char \<Rightarrow> string" where
  "escaped x =
     (let n = of_char x :: nat in
      if n = 34 \<or> n = 92 then [CHR 0x5C, x]
      else (case map_of [(7, CHR ''a''), (8, CHR ''b''), (9, CHR ''t''), (10, CHR ''n''), (11, CHR ''v''), (12, CHR ''f''), (13, CHR ''r'')] n of
          Some a \<Rightarrow> [CHR 0x5C, a]
        | None \<Rightarrow> if n < 32 \<or> n = 127 then [CHR 0x5C, CHR ''x'', ''0123456789abcdef'' ! (n div 16), ''0123456789abcdef'' ! (n mod 16)] else [x]))"

definition quoted :: "string \<Rightarrow> string" where
  "quoted a = CHR 0x22 # concat (map escaped a) @ [CHR 0x22]"

definition delegated_checks :: "spire_env \<Rightarrow> JWTSVIDController \<Rightarrow> gin_context \<Rightarrow> IssueJWTSVIDRequest \<Rightarrow> unit act" where
  "delegated_checks E ctrl ctx req =
     (case validateDelegationAuth (case GetSpireTenantID ctx of None \<Rightarrow> [] | Some t \<Rightarrow> t) (ij_TenantID req) (ij_SpiffeID req) of
        Some e \<Rightarrow> fail_act (NewForbiddenError (Error_text (se_show E) e) (Some e))
      | None \<Rightarrow>
          if ij_Audience (delegated_request ctrl req) = [] then fail_act (NewBadRequestError ''audience is required'' None)
          else
            (case List.find (\<lambda>a. jc_allowedAudiences ctrl \<noteq> [] \<and> a \<notin> set (jc_allowedAudiences ctrl)) (ij_Audience (delegated_request ctrl req)) of
               Some a \<Rightarrow> fail_act (NewForbiddenError (''audience '' @ quoted a @ '' is not allowed'') None)
             | None \<Rightarrow> return_act ()))"

definition http_IssueDelegatedJWTSVID ::
  "spire_env \<Rightarrow> jwt_env \<Rightarrow> JWTSVIDController \<Rightarrow> gotime \<Rightarrow> (go_error + string) \<Rightarrow> uuid \<Rightarrow> gin_context \<Rightarrow> go_error + IssueJWTSVIDRequest
     \<Rightarrow> spire conn \<Rightarrow> jwt_reply \<times> spire conn" where
  "http_IssueDelegatedJWTSVID E J ctrl now newKey jti ctx body =
     jwt_respond (bind_act (bound body) (\<lambda>req. bind_act (delegated_checks E ctrl ctx req)
         (\<lambda>_. issue_or_500 E J now newKey jti (delegated_request ctrl req))))
       (\<lambda>r. jwt_json 200 (TokenBody r))"

definition renewal_audience :: "goval option \<Rightarrow> string list" where
  "renewal_audience v = (case v of Some (GArr vs) \<Rightarrow> strs_in vs | Some (GStr s) \<Rightarrow> [s] | _ \<Rightarrow> [])"

definition renewal_request :: "string \<Rightarrow> any_map \<Rightarrow> IssueJWTSVIDRequest" where
  "renewal_request tenantID claims =
     \<lparr> ij_TenantID = tenantID, ij_SpiffeID = claim_str claims ''sub'', ij_Audience = renewal_audience (map_of claims ''aud''),
       ij_TTL = defaultMaxDelegatedTTL, ij_CustomClaims = filter (\<lambda>(k, v). k \<notin> set standard_claims) claims \<rparr>"

definition http_RenewJWTSVID ::
  "spire_env \<Rightarrow> jwt_env \<Rightarrow> gotime \<Rightarrow> (go_error + string) \<Rightarrow> uuid \<Rightarrow> go_error + string \<times> string \<Rightarrow> spire conn \<Rightarrow> jwt_reply \<times> spire conn" where
  "http_RenewJWTSVID E J now newKey jti body =
     jwt_respond (bind_act (bound body) (\<lambda>(tenantID, token).
         if tenantID = [] \<or> token = [] then fail_act (NewBadRequestError ''tenant_id and token are required'' None)
         else bind_act (map_error (\<lambda>e. NewInternalError ''Failed to validate token'' (Some e)) (ValidateJWTSVID E J now newKey tenantID token []))
           (\<lambda>v. if \<not> vj_Valid v then fail_act (NewUnauthorizedError ''Token is invalid or expired - cannot renew'' None)
                else issue_or_500 E J now newKey jti (renewal_request tenantID (vj_Claims v)))))
       (\<lambda>r. jwt_json 200 (TokenBody r))"

section \<open>The key of a tenant\<close>

lemma cached_key:
  "sp_keys (fst c) t = Some k \<Longrightarrow> getOrCreateSigningKey E J now newKey t c = (Inr k, c)"
  by (simp add: getOrCreateSigningKey_def bind_act_def ask_def return_act_def)

lemma cache_key_Inr: "cache_key t k c = (Inr k', c') \<Longrightarrow> k' = k \<and> sp_keys (fst c') t = Some k"
  by (auto simp: cache_key_def bind_act_def process_def return_act_def)

lemma getOrCreateSigningKey_Inr:
  assumes "getOrCreateSigningKey E J now newKey t c = (Inr k, c')"
  shows "sp_keys (fst c') t = Some k"
  using assms unfolding getOrCreateSigningKey_def
  by (auto simp: bind_act_Inr ask_def return_act_def fail_act_def split: option.splits sum.splits dest!: cache_key_Inr)

text \<open>What validation answers when the key of the tenant is in the cache.\<close>

lemma ValidateJWTSVID_cached:
  assumes "sp_keys (fst c) t = Some k"
  shows "ValidateJWTSVID E J now newKey t token audience c =
     (Inr (case je_verify J now k token of
        Inl e \<Rightarrow> invalid_svid []
      | Inr claims \<Rightarrow>
          if audience \<noteq> [] \<and> \<not> audience_match audience (map_of claims ''aud'') then invalid_svid (claim_str claims ''sub'')
          else \<lparr> vj_SpiffeID = claim_str claims ''sub'', vj_Valid = True, vj_Claims = claims \<rparr>), c)"
  using cached_key [OF assms] by (simp add: ValidateJWTSVID_def bind_act_def map_error_def return_act_def)

section \<open>Issued tokens are valid\<close>

definition json_map :: "any_map \<Rightarrow> any_map" where
  "json_map m = map (\<lambda>(k, v). (k, json_value v)) m"

lemma map_of_json: "map_of (json_map m) k = map_option json_value (map_of m k)"
  by (induction m) (auto simp: json_map_def)

text \<open>A set of claims with an expiry and a start in whole seconds, and whether the token with these claims is valid at a time.\<close>

definition svid_timed :: "any_map \<Rightarrow> bool" where
  "svid_timed m \<longleftrightarrow> (\<exists>x y. map_of m ''exp'' = Some (GInt64 x) \<and> map_of m ''nbf'' = Some (GInt64 y))"

definition svid_current :: "gotime \<Rightarrow> any_map \<Rightarrow> bool" where
  "svid_current now m \<longleftrightarrow>
     (\<exists>x y. map_of m ''exp'' = Some (GInt64 x) \<and> map_of m ''nbf'' = Some (GInt64 y) \<and> y * Second \<le> now \<and> now < x * Second)"

definition jwt_library :: "jwt_env \<Rightarrow> bool" where
  "jwt_library J \<longleftrightarrow>
     (\<forall>key m token now. je_sign J key m = Inr token \<and> svid_current now m \<longrightarrow> je_verify J now key token = Inr (json_map m)) \<and>
     (\<forall>key m token now key'. je_sign J key m = Inr token \<and> (svid_timed m \<and> \<not> svid_current now m \<or> key' \<noteq> key) \<longrightarrow>
        (\<exists>e. je_verify J now key' token = Inl e))"

lemma svid_claims_sel:
  "map_of (svid_claims now jti req) ''iss'' = Some (GStr (''spiffe://'' @ ij_TenantID req))"
  "map_of (svid_claims now jti req) ''sub'' = Some (GStr (ij_SpiffeID req))"
  "map_of (svid_claims now jti req) ''aud'' = Some (GStrs (ij_Audience req))"
  "map_of (svid_claims now jti req) ''exp'' = Some (GInt64 (Unix (svid_expiry now (effective_ttl (ij_TTL req)))))"
  "map_of (svid_claims now jti req) ''nbf'' = Some (GInt64 (Unix now))"
  by (simp_all add: svid_claims_def)

lemma IssueJWTSVID_Inr:
  assumes "IssueJWTSVID E J now newKey jti req c = (Inr r, c')"
  shows "\<exists>key. sp_keys (fst c') (ij_TenantID req) = Some key \<and> je_sign J key (svid_claims now jti req) = Inr (ijr_Token r) \<and>
     ijr_SpiffeID r = ij_SpiffeID req \<and> ijr_ExpiresAt r = svid_expiry now (effective_ttl (ij_TTL req))"
proof -
  let ?rest = "\<lambda>key. case je_sign J key (svid_claims now jti req) of
             Inl e \<Rightarrow> fail_act (Wrapped ''failed to sign JWT: '' (Plain e))
           | Inr token \<Rightarrow> return_act \<lparr> ijr_SpiffeID = ij_SpiffeID req, ijr_Token = token,
                            ijr_ExpiresAt = svid_expiry now (effective_ttl (ij_TTL req)) \<rparr>"
  obtain key c1 where key: "getOrCreateSigningKey E J now newKey (ij_TenantID req) c = (Inr key, c1)" and rest: "?rest key c1 = (Inr r, c')"
    using assms unfolding IssueJWTSVID_def by (auto simp: bind_act_Inr fail_act_def split: if_splits)
  obtain token where "je_sign J key (svid_claims now jti req) = Inr token"
    using rest by (cases "je_sign J key (svid_claims now jti req)") (simp_all add: fail_act_def)
  with rest getOrCreateSigningKey_Inr [OF key] show ?thesis by (auto simp: return_act_def)
qed

text \<open>
  C23. A token that the service issued validates for its tenant from the moment of issue until the second it expires, with any
  audience it was issued for or none, in every state that still has the key of the tenant, and yields the SPIFFE ID
  and exactly the signed claims. For a tenant with another key, or after it has expired, it does not validate.
\<close>

theorem jwt_svid_roundtrip:
  assumes lib: "jwt_library J" and iss: "IssueJWTSVID E J now newKey jti req c = (Inr r, c')"
    and key: "sp_keys (fst d) (ij_TenantID req) = sp_keys (fst c') (ij_TenantID req)"
    and aud: "audience = [] \<or> audience \<in> set (ij_Audience req)"
  shows "(now \<le> now' \<and> now' < Unix (ijr_ExpiresAt r) * Second \<longrightarrow>
       ValidateJWTSVID E J now' newKey' (ij_TenantID req) (ijr_Token r) audience d =
         (Inr \<lparr> vj_SpiffeID = ij_SpiffeID req, vj_Valid = True, vj_Claims = json_map (svid_claims now jti req) \<rparr>, d)) \<and>
     (Unix (ijr_ExpiresAt r) * Second \<le> now' \<longrightarrow>
       ValidateJWTSVID E J now' newKey' (ij_TenantID req) (ijr_Token r) audience d = (Inr (invalid_svid []), d)) \<and>
     (\<forall>t k. sp_keys (fst d) t = Some k \<and> Some k \<noteq> sp_keys (fst c') (ij_TenantID req) \<longrightarrow>
       ValidateJWTSVID E J now' newKey' t (ijr_Token r) audience d = (Inr (invalid_svid []), d))"
proof -
  let ?m = "svid_claims now jti req"
  obtain k where k: "sp_keys (fst c') (ij_TenantID req) = Some k" and sign: "je_sign J k ?m = Inr (ijr_Token r)"
    and x: "ijr_ExpiresAt r = svid_expiry now (effective_ttl (ij_TTL req))"
    using IssueJWTSVID_Inr [OF iss] by blast
  note val = ValidateJWTSVID_cached [of d _ _ E J now' newKey' _ audience]
  have cur: "svid_current now' ?m \<longleftrightarrow> now' < Unix (ijr_ExpiresAt r) * Second \<and> Unix now * Second \<le> now'"
    by (auto simp: svid_current_def svid_claims_sel x)
  have sub: "claim_str (json_map ?m) ''sub'' = ij_SpiffeID req" by (simp add: claim_str_def map_of_json svid_claims_sel str_of_def)
  have am: "audience = [] \<or> audience_match audience (map_of (json_map ?m) ''aud'')"
    using aud by (auto simp: audience_match_def map_of_json svid_claims_sel)
  have timed: "svid_timed ?m" by (simp add: svid_timed_def svid_claims_sel)
  have bad: "\<exists>e. je_verify J now' q (ijr_Token r) = Inl e" if "\<not> svid_current now' ?m \<or> q \<noteq> k" for q
    using lib sign that timed unfolding jwt_library_def by blast
  show ?thesis
  proof (intro conjI allI impI)
    assume "now \<le> now' \<and> now' < Unix (ijr_ExpiresAt r) * Second"
    then have "svid_current now' ?m" using cur Unix_lower [of now] by simp
    then have "je_verify J now' k (ijr_Token r) = Inr (json_map ?m)" using lib sign unfolding jwt_library_def by blast
    with val [of "ij_TenantID req" k] key k sub am show
      "ValidateJWTSVID E J now' newKey' (ij_TenantID req) (ijr_Token r) audience d =
         (Inr \<lparr> vj_SpiffeID = ij_SpiffeID req, vj_Valid = True, vj_Claims = json_map (svid_claims now jti req) \<rparr>, d)"
      by auto
  next
    assume "Unix (ijr_ExpiresAt r) * Second \<le> now'"
    then have "\<not> svid_current now' ?m" using cur by simp
    with bad obtain e where "je_verify J now' k (ijr_Token r) = Inl e" by blast
    with val [of "ij_TenantID req" k] key k
    show "ValidateJWTSVID E J now' newKey' (ij_TenantID req) (ijr_Token r) audience d = (Inr (invalid_svid []), d)" by simp
  next
    fix t q
    assume q: "sp_keys (fst d) t = Some q \<and> Some q \<noteq> sp_keys (fst c') (ij_TenantID req)"
    with bad k obtain e where "je_verify J now' q (ijr_Token r) = Inl e" by auto
    with val [of t q] q show "ValidateJWTSVID E J now' newKey' t (ijr_Token r) audience d = (Inr (invalid_svid []), d)" by simp
  qed
qed

section \<open>Delegated tokens\<close>

text \<open>The errors of the handlers are never sent with status 200.\<close>

lemma delegated_errors:
  assumes "bind_act (bound body) (\<lambda>req. bind_act (delegated_checks E ctrl ctx req)
      (\<lambda>_. issue_or_500 E J now newKey jti (delegated_request ctrl req))) c = (Inl e, c')"
  shows "http_status (jwt_sendError e) \<noteq> 200"
  using assms
  by (auto simp: bind_act_cases bound_def delegated_checks_def issue_or_500_def map_error_def fail_act_def return_act_def
      NewBadRequestError_def NewForbiddenError_def NewInternalError_def jwt_json_def
      split: sum.splits option.splits if_splits prod.splits)

lemma restricted_absent:
  assumes "ToLower k \<in> set restrictedCustomClaims"
  shows "map_of (svid_claims now jti (delegated_request ctrl req)) k = None"
proof -
  have std: "k \<notin> set standard_claims"
    using assms by (auto simp: standard_claims_def restrictedCustomClaims_def ToLower_def lower_char_def is_upper_def)
  have "map_of (filter (\<lambda>(k, v). k \<notin> set standard_claims) (filter (\<lambda>(k, v). ToLower k \<notin> set restrictedCustomClaims) (ij_CustomClaims req))) k = None"
    using assms by (auto simp: map_of_eq_None_iff)
  with std show ?thesis by (simp add: svid_claims_def delegated_request_def standard_claims_def)
qed

text \<open>
  C8. A delegated token stays within the tenant of the caller: when the handler answers 200, the caller is authenticated for
  the tenant of the request, the token is signed with the key of that tenant, names it as the issuer and a SPIFFE ID of its
  trust domain as the subject, carries none of the restricted claims in any case of letters, and is for allowed
  audiences only.
\<close>

theorem delegated_token_confined:
  assumes "http_IssueDelegatedJWTSVID E J ctrl now newKey jti ctx body c = (rep, c')" and "http_status rep = 200"
  shows "\<exists>req r key. body = Inr req \<and> rep = jwt_json 200 (TokenBody r) \<and> GetSpireTenantID ctx = Some (ij_TenantID req) \<and>
     HasPrefix (ij_SpiffeID req) (''spiffe://'' @ ij_TenantID req @ ''/'') \<and> sp_keys (fst c') (ij_TenantID req) = Some key \<and>
     (let m = svid_claims now jti (delegated_request ctrl req) in
        je_sign J key m = Inr (ijr_Token r) \<and> map_of m ''iss'' = Some (GStr (''spiffe://'' @ ij_TenantID req)) \<and>
        map_of m ''sub'' = Some (GStr (ij_SpiffeID req)) \<and>
        (\<forall>k. ToLower k \<in> set restrictedCustomClaims \<longrightarrow> map_of m k = None) \<and>
        (jc_allowedAudiences ctrl \<noteq> [] \<longrightarrow> set (ij_Audience (delegated_request ctrl req)) \<subseteq> set (jc_allowedAudiences ctrl)))"
proof -
  let ?act = "bind_act (bound body) (\<lambda>req. bind_act (delegated_checks E ctrl ctx req)
      (\<lambda>_. issue_or_500 E J now newKey jti (delegated_request ctrl req)))"
  obtain x c1 where x: "?act c = (x, c1)" by (rule prod.exhaust)
  obtain r where r: "x = Inr r"
    using delegated_errors [of body E ctrl ctx J now newKey jti c] x assms
    by (cases x) (auto simp: http_IssueDelegatedJWTSVID_def jwt_respond_def)
  then have rep: "rep = jwt_json 200 (TokenBody r)" "c1 = c'" using x assms(1) by (auto simp: http_IssueDelegatedJWTSVID_def jwt_respond_def)
  obtain req where req: "body = Inr req" and chk: "delegated_checks E ctrl ctx req c = (Inr (), c)"
    and iss: "IssueJWTSVID E J now newKey jti (delegated_request ctrl req) c = (Inr r, c')"
    using x r rep(2)
    by (auto simp: bind_act_Inr bound_def issue_or_500_def delegated_checks_def fail_act_def return_act_def
        split: sum.splits option.splits if_splits)
  have auth: "GetSpireTenantID ctx = Some (ij_TenantID req)" "HasPrefix (ij_SpiffeID req) (''spiffe://'' @ ij_TenantID req @ ''/'')"
    using chk by (auto simp: delegated_checks_def validateDelegationAuth_def fail_act_def split: option.splits if_splits)
  have aud: "List.find (\<lambda>a. jc_allowedAudiences ctrl \<noteq> [] \<and> a \<notin> set (jc_allowedAudiences ctrl)) (ij_Audience (delegated_request ctrl req)) = None"
    using chk by (auto simp: delegated_checks_def fail_act_def split: option.splits if_splits)
  have t: "ij_TenantID (delegated_request ctrl req) = ij_TenantID req" "ij_SpiffeID (delegated_request ctrl req) = ij_SpiffeID req"
    by (simp_all add: delegated_request_def)
  obtain key where "sp_keys (fst c') (ij_TenantID req) = Some key"
    "je_sign J key (svid_claims now jti (delegated_request ctrl req)) = Inr (ijr_Token r)"
    using IssueJWTSVID_Inr [OF iss] t by auto
  then show ?thesis
    using req rep(1) auth aud t restricted_absent
    by (auto simp: Let_def svid_claims_sel find_None_iff)
qed

text \<open>
  The lifetime of a delegated token is not capped: every number of seconds up to 9223372036, some 292 years, is taken as
  requested, and one more overflows the duration so that the token has expired before it is issued.
\<close>

theorem delegated_ttl_uncapped:
  assumes "0 < ttl" and "ttl \<le> 9223372036"
  shows "map_of (svid_claims now jti (delegated_request ctrl (req\<lparr> ij_TTL := ttl \<rparr>))) ''exp'' = Some (GInt64 (Unix now + ttl)) \<and>
         svid_expiry now (effective_ttl (ij_TTL (delegated_request ctrl (req\<lparr> ij_TTL := 9223372037 \<rparr>)))) < now"
proof -
  have "wrap_int (ttl * Second) = ttl * Second" using assms by (intro wrap_int_id) (simp_all add: Second_def)
  with assms(1) show ?thesis
    by (simp add: svid_claims_sel delegated_request_def effective_ttl_def svid_expiry_def) (simp add: wrap_int_def Second_def)
qed

section \<open>Renewal\<close>

lemma strs_in_GStr: "strs_in (map GStr as) = as"
  by (induction as) (simp_all add: strs_in_def str_of_def map_filter_simps)

text \<open>
  Renewal needs no authentication and no limit: whoever holds a token that is still valid obtains, from the public route, a
  new one for the same subject and audience that is valid for another day, and so on for ever. No claim is checked against
  the present state of the workload.
\<close>

theorem jwt_renewed_by_anyone:
  assumes lib: "jwt_library J" and key: "sp_keys (fst c) (ij_TenantID req) = Some k" and tok: "je_sign J k (svid_claims now0 jti0 req) = Inr token"
    and cur: "now0 \<le> now" "now < Unix (svid_expiry now0 (effective_ttl (ij_TTL req))) * Second"
    and req: "ij_TenantID req \<noteq> []" "ij_SpiffeID req \<noteq> []" "ij_Audience req \<noteq> []" "token \<noteq> []"
    and signs: "je_sign J k (svid_claims now jti (renewal_request (ij_TenantID req) (json_map (svid_claims now0 jti0 req)))) = Inr token'"
  shows "http_RenewJWTSVID E J now newKey jti (Inr (ij_TenantID req, token)) c =
       (jwt_json 200 (TokenBody \<lparr> ijr_SpiffeID = ij_SpiffeID req, ijr_Token = token', ijr_ExpiresAt = now + 24 * Hour \<rparr>), c) \<and>
     (now \<le> now' \<and> now' < Unix (now + 24 * Hour) * Second \<longrightarrow>
       je_verify J now' k token' = Inr (json_map (svid_claims now jti (renewal_request (ij_TenantID req) (json_map (svid_claims now0 jti0 req))))))"
proof -
  let ?m = "svid_claims now0 jti0 req" and ?t = "ij_TenantID req"
  let ?req = "renewal_request ?t (json_map ?m)"
  have "svid_current now ?m" using cur Unix_lower [of now0] by (simp add: svid_current_def svid_claims_sel)
  then have ver: "je_verify J now k token = Inr (json_map ?m)" using lib tok unfolding jwt_library_def by blast
  have val: "ValidateJWTSVID E J now newKey ?t token [] c =
      (Inr \<lparr> vj_SpiffeID = claim_str (json_map ?m) ''sub'', vj_Valid = True, vj_Claims = json_map ?m \<rparr>, c)"
    using ver by (simp add: ValidateJWTSVID_cached [OF key])
  have sel: "ij_SpiffeID ?req = ij_SpiffeID req" "ij_Audience ?req = ij_Audience req" "ij_TenantID ?req = ?t" "ij_TTL ?req = 86400"
    by (simp_all add: renewal_request_def claim_str_def map_of_json svid_claims_sel str_of_def renewal_audience_def strs_in_GStr
        defaultMaxDelegatedTTL_def)
  note tok' = signs
  have x: "svid_expiry now (effective_ttl 86400) = now + 24 * Hour"
    by (simp add: svid_expiry_def effective_ttl_def wrap_int_def Second_def Hour_def Minute_def)
  have "IssueJWTSVID E J now newKey jti ?req c =
      (Inr \<lparr> ijr_SpiffeID = ij_SpiffeID req, ijr_Token = token', ijr_ExpiresAt = now + 24 * Hour \<rparr>, c)"
    using req cached_key [OF key] tok' sel x by (simp add: IssueJWTSVID_def bind_act_def map_error_def return_act_def)
  then have "http_RenewJWTSVID E J now newKey jti (Inr (?t, token)) c =
      (jwt_json 200 (TokenBody \<lparr> ijr_SpiffeID = ij_SpiffeID req, ijr_Token = token', ijr_ExpiresAt = now + 24 * Hour \<rparr>), c)"
    using req val by (simp add: http_RenewJWTSVID_def jwt_respond_def bound_def bind_act_def map_error_def return_act_def issue_or_500_def)
  moreover have "je_verify J now' k token' = Inr (json_map (svid_claims now jti ?req))" if "now \<le> now' \<and> now' < Unix (now + 24 * Hour) * Second"
  proof -
    have "svid_current now' (svid_claims now jti ?req)"
      using that Unix_lower [of now] sel x by (simp add: svid_current_def svid_claims_sel)
    with tok' lib show ?thesis unfolding jwt_library_def by blast
  qed
  ultimately show ?thesis by blast
qed


section \<open>Keys in Vault\<close>

text \<open>
  What a key-value engine of Vault holds at a path: the data of the last write. \<open>kv_engine\<close>: every write under the
  mount \<^verbatim>\<open>kv\<close> is taken, and a read gives what the engine holds. \<open>key_codec\<close>: an encoded key is not empty and
  decodes to itself.
\<close>

definition kv_data :: "vault_call list \<Rightarrow> string \<Rightarrow> any_map option" where
  "kv_data calls p = foldl (\<lambda>held call. case call of VWrite q d \<Rightarrow> if q = p then Some d else held | _ \<Rightarrow> held) None calls"

definition kv_engine :: "spire_env \<Rightarrow> bool" where
  "kv_engine E \<longleftrightarrow>
     (\<forall>calls p. HasPrefix p ''kv/'' \<longrightarrow> se_read E calls p = Inr (kv_data calls p) \<and> (\<forall>d. \<exists>x. se_write E calls p d = Inr x))"

definition key_codec :: "jwt_env \<Rightarrow> bool" where
  "key_codec J \<longleftrightarrow> (\<forall>k. je_marshal J k \<noteq> [] \<and> je_parse J (je_marshal J k) = Inr k)"

definition kv_key_path :: "string \<Rightarrow> string" where
  "kv_key_path t = ''kv/data/'' @ jwt_key_path t"

text \<open>The key that the key-value engine holds for a tenant, as the service decodes it.\<close>

definition held_key :: "jwt_env \<Rightarrow> vault_call list \<Rightarrow> string \<Rightarrow> string option" where
  "held_key J calls t =
     (case kv_data calls (kv_key_path t) of
        None \<Rightarrow> None
      | Some d \<Rightarrow> (case map_of d ''data'' of Some (GMap m) \<Rightarrow> stored_key J (Some m) | _ \<Rightarrow> None))"

definition key_secret :: "jwt_env \<Rightarrow> gotime \<Rightarrow> string \<Rightarrow> any_map" where
  "key_secret J now k = [(''data'', GMap [(''private_key_pem'', GStr (je_marshal J k)), (''created_at'', GStr (je_rfc3339 J now))])]"

lemma kv_data_snoc [simp]:
  "kv_data (calls @ [VRead q]) p = kv_data calls p"
  "kv_data (calls @ [VWrite q d]) p = (if q = p then Some d else kv_data calls p)"
  by (simp_all add: kv_data_def)

lemma kv_key_path_prefix: "HasPrefix (kv_key_path t) ''kv/''"
  by (simp add: kv_key_path_def HasPrefix_def)

text \<open>The slow path of \<^verbatim>\<open>getOrCreateSigningKey\<close>, by the outcome of the read.\<close>

lemma uncached_key:
  assumes "sp_keys s t = None"
    and "key = (case se_read E (sp_vault s) (kv_key_path t) of
       Inr (Some d) \<Rightarrow> (case map_of d ''data'' of Some (GMap m) \<Rightarrow> stored_key J (Some m) | _ \<Rightarrow> None) | _ \<Rightarrow> None)"
  shows "getOrCreateSigningKey E J now newKey t (s, fs) =
     (let s1 = s\<lparr> sp_vault := sp_vault s @ [VRead (kv_key_path t)] \<rparr> in
      case key of
        Some k \<Rightarrow> (Inr k, s1\<lparr> sp_keys := (sp_keys s)(t \<mapsto> k) \<rparr>, fs)
      | None \<Rightarrow>
          (case newKey of
             Inl e \<Rightarrow> (Inl (Wrapped ''failed to generate RSA key: '' (Plain e)), s1, fs)
           | Inr k \<Rightarrow> (Inr k, s1\<lparr> sp_vault := sp_vault s1 @ [VWrite (kv_key_path t) (key_secret J now k)],
                              sp_keys := (sp_keys s)(t \<mapsto> k) \<rparr>, fs)))"
  using assms
  by (auto simp: getOrCreateSigningKey_def ReadKVSecret_def WriteKVSecret_def vault_read_def vault_write_def bind_act_def ask_def
      process_def of_result_def return_act_def fail_act_def map_error_def try_act_def cache_key_def kv_key_path_def key_secret_def
      stored_key_def Let_def split: option.splits sum.splits goval.splits)

lemma stored_key_secret: "key_codec J \<Longrightarrow> kv_data calls (kv_key_path t) = Some (key_secret J now k) \<Longrightarrow> held_key J calls t = Some k"
  by (simp add: held_key_def key_secret_def stored_key_def str_of_def key_codec_def)

lemma kv_engine_read:
  assumes "kv_engine E"
  shows "(case se_read E calls (kv_key_path t) of
       Inr (Some d) \<Rightarrow> (case map_of d ''data'' of Some (GMap m) \<Rightarrow> stored_key J (Some m) | _ \<Rightarrow> None) | _ \<Rightarrow> None) = held_key J calls t"
proof -
  have "se_read E calls (kv_key_path t) = Inr (kv_data calls (kv_key_path t))"
    using assms kv_key_path_prefix unfolding kv_engine_def by blast
  then show ?thesis by (simp add: held_key_def split: option.split)
qed

text \<open>
  The key of a tenant survives a restart: with a working key-value engine, the key that the service hands out after it
  looked in Vault is held there afterwards, and every later process that finds the engine unchanged at that path gives the
  same key, whatever key it could have generated.
\<close>

theorem signing_key_survives_restart:
  assumes "kv_engine E" and "key_codec J" and "sp_keys (fst c) t = None"
    and "getOrCreateSigningKey E J now newKey t c = (Inr k, c')"
    and "sp_keys (fst d) t = None" and "kv_data (sp_vault (fst d)) (kv_key_path t) = kv_data (sp_vault (fst c')) (kv_key_path t)"
  shows "held_key J (sp_vault (fst c')) t = Some k \<and> fst (getOrCreateSigningKey E J now' newKey' t d) = Inr k"
proof -
  obtain s fs where c: "c = (s, fs)" by (rule prod.exhaust)
  obtain s' fs' where d: "d = (s', fs')" by (rule prod.exhaust)
  have none: "sp_keys s t = None" "sp_keys s' t = None" using assms c d by simp_all
  have held: "held_key J (sp_vault (fst c')) t = Some k"
  proof (cases "held_key J (sp_vault s) t")
    case None
    with assms(4) have "kv_data (sp_vault (fst c')) (kv_key_path t) = Some (key_secret J now k)"
      unfolding c uncached_key [OF none(1) kv_engine_read [OF assms(1), symmetric]]
      by (auto simp: Let_def kv_data_def split: sum.splits)
    then show ?thesis by (rule stored_key_secret [OF assms(2)])
  next
    case (Some k0)
    with assms(4) show ?thesis
      unfolding c uncached_key [OF none(1) kv_engine_read [OF assms(1), symmetric]] by (auto simp: Let_def held_key_def)
  qed
  then have "held_key J (sp_vault s') t = Some k" using assms(6) d by (simp add: held_key_def)
  then have "fst (getOrCreateSigningKey E J now' newKey' t d) = Inr k"
    unfolding d uncached_key [OF none(2) kv_engine_read [OF assms(1), symmetric]] by simp
  with held show ?thesis by simp
qed

text \<open>
  A read of Vault that fails for a moment destroys the key of a tenant: the service takes the error for a missing key,
  overwrites the one in Vault with a fresh one, and no token signed with the former key validates any more.
\<close>

theorem signing_key_lost:
  assumes "jwt_library J" and "key_codec J" and "sp_keys s t = None" and "se_read E (sp_vault s) (kv_key_path t) = Inl e"
    and "je_sign J old m = Inr token" and "k \<noteq> old"
  shows "\<exists>s'. getOrCreateSigningKey E J now (Inr k) t (s, fs) = (Inr k, s', fs) \<and> held_key J (sp_vault s') t = Some k \<and>
     (\<forall>now' newKey audience fs'. ValidateJWTSVID E J now' newKey t token audience (s', fs') = (Inr (invalid_svid []), s', fs'))"
proof -
  let ?s = "s\<lparr> sp_vault := sp_vault s @ [VRead (kv_key_path t), VWrite (kv_key_path t) (key_secret J now k)], sp_keys := (sp_keys s)(t \<mapsto> k) \<rparr>"
  have get: "getOrCreateSigningKey E J now (Inr k) t (s, fs) = (Inr k, ?s, fs)"
    using uncached_key [OF assms(3) refl, of E J now "Inr k" fs] assms(4) by (simp add: Let_def)
  have "kv_data (sp_vault ?s) (kv_key_path t) = Some (key_secret J now k)"
    by (simp add: kv_data_def)
  then have held: "held_key J (sp_vault ?s) t = Some k" by (rule stored_key_secret [OF assms(2)])
  have "ValidateJWTSVID E J now' newKey t token audience (?s, fs') = (Inr (invalid_svid []), ?s, fs')" for now' newKey audience fs'
  proof -
    obtain e' where "je_verify J now' k token = Inl e'" using assms(1,5,6) unfolding jwt_library_def by blast
    then show ?thesis by (simp add: ValidateJWTSVID_cached [of "(?s, fs')" t k])
  qed
  with get held show ?thesis by blast
qed

section \<open>Witnesses\<close>

definition ex_svid :: IssueJWTSVIDRequest where
  "ex_svid = \<lparr> ij_TenantID = ''t'', ij_SpiffeID = ''spiffe://t/w'', ij_Audience = [''api''], ij_TTL = 60, ij_CustomClaims = [] \<rparr>"

definition ex_renewal :: IssueJWTSVIDRequest where
  "ex_renewal = renewal_request ''t'' (json_map (svid_claims 0 ''j'' ex_svid))"

text \<open>A library that signs two sets of claims: a token is the number of the set and the key.\<close>

definition ex_jwt :: jwt_env where
  "ex_jwt = \<lparr> je_marshal = (\<lambda>k. CHR ''p'' # k), je_parse = (\<lambda>p. Inr (tl p)),
     je_sign = (\<lambda>k m. if m = svid_claims 0 ''j'' ex_svid then Inr (CHR ''1'' # k)
                      else if m = svid_claims Second ''n'' ex_renewal then Inr (CHR ''2'' # k) else Inl (Errorf [])),
     je_verify = (\<lambda>now k token.
        let m = (if take 1 token = ''1'' then svid_claims 0 ''j'' ex_svid else svid_claims Second ''n'' ex_renewal)
        in if tl token = k \<and> svid_current now m then Inr (json_map m) else Inl (Errorf [])),
     je_jwks = (\<lambda>k. k), je_rfc3339 = (\<lambda>_. []) \<rparr>"

lemma ex_jwt_library: "jwt_library ex_jwt"
  unfolding jwt_library_def by (auto simp: ex_jwt_def Let_def split: if_splits)

lemma ex_key_codec: "key_codec ex_jwt"
  by (simp add: key_codec_def ex_jwt_def)

definition ex_kv_env :: spire_env where
  "ex_kv_env = ex_spire_env\<lparr> se_write := (\<lambda>_ _ _. Inr None), se_read := (\<lambda>calls p. Inr (kv_data calls p)) \<rparr>"

lemma ex_kv_engine: "kv_engine ex_kv_env"
  by (simp add: kv_engine_def ex_kv_env_def)

abbreviation ex_cached :: spire where
  "ex_cached \<equiv> (ex_spire [] [])\<lparr> sp_keys := [''t'' \<mapsto> ''k''] \<rparr>"

lemma ex_sign: "je_sign ex_jwt k (svid_claims 0 ''j'' ex_svid) = Inr (CHR ''1'' # k)"
  by (simp add: ex_jwt_def)

lemma ex_issue:
  "IssueJWTSVID E ex_jwt 0 newKey ''j'' ex_svid (ex_cached, fs) =
     (Inr \<lparr> ijr_SpiffeID = ''spiffe://t/w'', ijr_Token = ''1k'', ijr_ExpiresAt = 60 * Second \<rparr>, ex_cached, fs)"
proof -
  have "svid_expiry 0 (effective_ttl 60) = 60 * Second" by (simp add: svid_expiry_def effective_ttl_def wrap_int_def Second_def)
  then show ?thesis
    using cached_key [of "(ex_cached, fs)" "''t''" "''k''"] ex_sign [of "''k''"]
    by (simp add: IssueJWTSVID_def bind_act_def map_error_def return_act_def) (simp add: ex_svid_def return_act_def)
qed

theorem jwt_svid_roundtrip_witness:
  "ValidateJWTSVID ex_spire_env ex_jwt (59 * Second) (Inl (Errorf [])) ''t'' ''1k'' ''api'' (ex_cached, []) =
     (Inr \<lparr> vj_SpiffeID = ''spiffe://t/w'', vj_Valid = True, vj_Claims = json_map (svid_claims 0 ''j'' ex_svid) \<rparr>, ex_cached, []) \<and>
   ValidateJWTSVID ex_spire_env ex_jwt (60 * Second) (Inl (Errorf [])) ''t'' ''1k'' ''api'' (ex_cached, []) =
     (Inr (invalid_svid []), ex_cached, [])"
  using jwt_svid_roundtrip [OF ex_jwt_library ex_issue [of ex_spire_env "Inl (Errorf [])" "[]"] refl, of "''api''" "59 * Second" "Inl (Errorf [])"]
    jwt_svid_roundtrip [OF ex_jwt_library ex_issue [of ex_spire_env "Inl (Errorf [])" "[]"] refl, of "''api''" "60 * Second" "Inl (Errorf [])"]
  by (simp add: ex_svid_def Unix_def Second_def)

definition ex_delegation :: JWTSVIDController where
  "ex_delegation = \<lparr> jc_defaultAudience = [''api''], jc_allowedAudiences = [''api''] \<rparr>"

lemma ex_delegated: "delegated_request ex_delegation (ex_svid\<lparr> ij_Audience := [], ij_CustomClaims := [(''Role'', GStr ''admin'')] \<rparr>) = ex_svid"
  by (simp add: delegated_request_def ex_delegation_def ex_svid_def restrictedCustomClaims_def ToLower_def lower_char_def is_upper_def char_of_def bit_0)

theorem delegated_token_confined_witness:
  "\<exists>rep r. http_IssueDelegatedJWTSVID ex_spire_env ex_jwt ex_delegation 0 (Inl (Errorf [])) ''j'' [''spire_tenant_id'' \<mapsto> GStr ''t'']
       (Inr (ex_svid\<lparr> ij_Audience := [], ij_CustomClaims := [(''Role'', GStr ''admin'')] \<rparr>)) (ex_cached, []) = (rep, ex_cached, []) \<and>
     rep = jwt_json 200 (TokenBody r) \<and> je_sign ex_jwt ''k'' (svid_claims 0 ''j'' ex_svid) = Inr (ijr_Token r)"
proof -
  have ex_tenant: "ij_TenantID ex_svid = ''t''" by (simp add: ex_svid_def)
  let ?req = "ex_svid\<lparr> ij_Audience := [], ij_CustomClaims := [(''Role'', GStr ''admin'')] \<rparr>" and ?ctx = "[''spire_tenant_id'' \<mapsto> GStr ''t'']"
  have chk: "delegated_checks ex_spire_env ex_delegation ?ctx ?req (ex_cached, []) = (Inr (), ex_cached, [])"
    unfolding delegated_checks_def ex_delegated
    by (simp add: ex_svid_def ex_delegation_def validateDelegationAuth_def GetSpireTenantID_def str_of_def HasPrefix_def return_act_def)
  have "http_IssueDelegatedJWTSVID ex_spire_env ex_jwt ex_delegation 0 (Inl (Errorf [])) ''j'' ?ctx (Inr ?req) (ex_cached, []) =
      (jwt_json 200 (TokenBody \<lparr> ijr_SpiffeID = ''spiffe://t/w'', ijr_Token = ''1k'', ijr_ExpiresAt = 60 * Second \<rparr>), ex_cached, [])"
    using chk by (simp add: http_IssueDelegatedJWTSVID_def jwt_respond_def bound_def bind_act_def return_act_def ex_delegated
        issue_or_500_def map_error_def ex_issue)
  moreover from delegated_token_confined [OF this] obtain r key where
    "jwt_json 200 (TokenBody \<lparr> ijr_SpiffeID = ''spiffe://t/w'', ijr_Token = ''1k'', ijr_ExpiresAt = 60 * Second \<rparr>) = jwt_json 200 (TokenBody r)"
    "sp_keys ex_cached ''t'' = Some key" "je_sign ex_jwt key (svid_claims 0 ''j'' ex_svid) = Inr (ijr_Token r)"
    by (auto simp: ex_delegated jwt_json_def Let_def ex_tenant split: if_splits)
  ultimately show ?thesis by auto
qed

theorem delegated_ttl_uncapped_witness:
  "map_of (svid_claims 0 ''j'' (delegated_request ex_delegation (ex_svid\<lparr> ij_TTL := 3153600000 \<rparr>))) ''exp'' = Some (GInt64 3153600000)"
  using delegated_ttl_uncapped [of 3153600000 0 "''j''" ex_delegation ex_svid] by (simp add: Unix_def)

theorem jwt_renewed_by_anyone_witness:
  "http_RenewJWTSVID ex_spire_env ex_jwt Second (Inl (Errorf [])) ''n'' (Inr (''t'', ''1k'')) (ex_cached, []) =
     (jwt_json 200 (TokenBody \<lparr> ijr_SpiffeID = ''spiffe://t/w'', ijr_Token = ''2k'', ijr_ExpiresAt = Second + 24 * Hour \<rparr>), ex_cached, [])"
proof -
  have t: "ij_TenantID ex_svid = ''t''" "ij_SpiffeID ex_svid = ''spiffe://t/w''" "ij_Audience ex_svid = [''api'']" "ij_TTL ex_svid = 60"
    by (simp_all add: ex_svid_def)
  have "svid_claims 0 ''j'' ex_svid \<noteq> svid_claims Second ''n'' ex_renewal"
    by (simp add: svid_claims_def)
  then have two: "je_sign ex_jwt ''k'' (svid_claims Second ''n'' ex_renewal) = Inr ''2k''" by (simp add: ex_jwt_def)
  show ?thesis
    using jwt_renewed_by_anyone [OF ex_jwt_library, of "(ex_cached, [])" ex_svid "''k''" 0 "''j''" "''1k''" Second "''n''" "''2k''" ex_spire_env "Inl (Errorf [])"]
      two ex_sign [of "''k''"] unfolding t
    by (simp add: t ex_renewal_def svid_expiry_def effective_ttl_def wrap_int_def Unix_def Second_def)
qed

theorem signing_key_survives_restart_witness:
  "held_key ex_jwt (sp_vault (tables (getOrCreateSigningKey ex_kv_env ex_jwt 0 (Inr ''k'') ''t'' (ex_spire [] [], [])))) ''t'' = Some ''k''"
proof -
  obtain s' fs' where c': "getOrCreateSigningKey ex_kv_env ex_jwt 0 (Inr ''k'') ''t'' (ex_spire [] [], []) = (Inr ''k'', s', fs')"
    by (simp add: uncached_key [OF _ kv_engine_read [OF ex_kv_engine, symmetric]] ex_spire_def Let_def held_key_def kv_data_def)
  have "held_key ex_jwt (sp_vault (fst (s', fs'))) ''t'' = Some ''k'' \<and>
      fst (getOrCreateSigningKey ex_kv_env ex_jwt 1 (Inr ''other'') ''t'' (s'\<lparr> sp_keys := Map.empty \<rparr>, [])) = Inr ''k''"
    by (rule signing_key_survives_restart [OF ex_kv_engine ex_key_codec _ c']) (simp_all add: ex_spire_def)
  with c' show ?thesis by simp
qed

theorem signing_key_lost_witness:
  "\<exists>s'. getOrCreateSigningKey (ex_kv_env\<lparr> se_read := (\<lambda>_ _. Inl (Errorf ''timeout'')) \<rparr>) ex_jwt 0 (Inr ''new'') ''t'' (ex_spire [] [], []) =
     (Inr ''new'', s', []) \<and> held_key ex_jwt (sp_vault s') ''t'' = Some ''new''"
proof -
  have "sp_keys (ex_spire [] []) ''t'' = None"
    "se_read (ex_kv_env\<lparr> se_read := (\<lambda>_ _. Inl (Errorf ''timeout'')) \<rparr>) (sp_vault (ex_spire [] [])) (kv_key_path ''t'') = Inl (Errorf ''timeout'')"
    by (simp_all add: ex_spire_def)
  from signing_key_lost [OF ex_jwt_library ex_key_codec this ex_sign [of "''k''"], of "''new''" 0 "[]"] show ?thesis by auto
qed

end
