(* ===== verification/Spire_Mtls.thy ===== *)
theory Spire_Mtls
  imports Spire_Certificates Spire_Jwt
begin

text \<open>
  The routes behind mutual TLS (\<^verbatim>\<open>internal/spire/router.go\<close>): \<^verbatim>\<open>middleware/mtls_middleware.go\<close>,
  \<^verbatim>\<open>controllers/attestation_controller.go\<close> and \<^verbatim>\<open>controllers/certificate_controller.go\<close>, with the properties of
  attestation, renewal and revocation.

  \<^item> The certificate of a client is the list of the URIs it names; \<open>me_url\<close> is \<^verbatim>\<open>url.Parse\<close>, down to scheme, host and path.
  \<^item> A request carries the time, the ids it draws, the connection and the header \<^verbatim>\<open>X-Tenant-ID\<close>.
\<close>

section \<open>Middleware\<close>

datatype tls_state = NoTLS | NoClientCert | ClientCert "string list"

record mtls_env =
  me_env :: spire_env
  me_jwt :: jwt_env
  me_url :: "string \<Rightarrow> go_error + string \<times> string \<times> string"
  me_devModeBypass :: bool
  me_parse :: "string \<Rightarrow> old_cert"

text \<open>\<^verbatim>\<open>strings.Trim\<close> with one character.\<close>

definition Trim_char :: "char \<Rightarrow> string \<Rightarrow> string" where
  "Trim_char a s = rev (dropWhile (\<lambda>x. x = a) (rev (dropWhile (\<lambda>x. x = a) s)))"

definition parseSpiffeID :: "(string \<Rightarrow> go_error + string \<times> string \<times> string) \<Rightarrow> string \<Rightarrow> (string \<times> bool) option" where
  "parseSpiffeID url spiffeID =
     (case url spiffeID of
        Inl _ \<Rightarrow> None
      | Inr (scheme, host, path) \<Rightarrow>
          if scheme \<noteq> ''spiffe'' \<or> host = [] then None
          else Some (host, hd (Split CHR ''/'' (Trim_char CHR ''/'' path)) = ''agent''))"

definition defaultDevTenant :: string where
  "defaultDevTenant = ''4e615215-66b4-4414-bb39-4e0c6daa8f8b''"

definition MTLS_Authenticate :: "mtls_env \<Rightarrow> tls_state \<Rightarrow> string \<Rightarrow> gin_context \<Rightarrow> mw_result" where
  "MTLS_Authenticate M tls tenantHeader ctx =
     (if me_devModeBypass M \<and> tls = NoTLS
      then (let tenantID = (if tenantHeader = [] then defaultDevTenant else tenantHeader)
            in Next (ctx(''spire_tenant_id'' \<mapsto> GStr tenantID, ''spire_spiffe_id'' \<mapsto> GStr (''spiffe://'' @ tenantID @ ''/dev/admin''),
                         ''spire_is_agent'' \<mapsto> GBool False)))
      else
        (case tls of
           NoTLS \<Rightarrow> unauthorized ''TLS connection required''
         | NoClientCert \<Rightarrow> unauthorized ''Client certificate required''
         | ClientCert uris \<Rightarrow>
             (case List.find (\<lambda>u. HasPrefix u ''spiffe://'') uris of
                None \<Rightarrow> unauthorized ''SPIFFE ID not found in certificate''
              | Some spiffeID \<Rightarrow>
                  (case parseSpiffeID (me_url M) spiffeID of
                     None \<Rightarrow> unauthorized ''Invalid SPIFFE ID format''
                   | Some (tenantID, isAgent) \<Rightarrow>
                       Next (ctx(''spire_tenant_id'' \<mapsto> GStr tenantID, ''spire_spiffe_id'' \<mapsto> GStr spiffeID,
                                 ''spire_is_agent'' \<mapsto> GBool isAgent))))))"

section \<open>Handlers\<close>

datatype icp_body = Refused spire_body | AttestBody AttestResponse | RenewedBody RenewResponse | RevokedCert string | TokenReply jwt_body

type_synonym icp_reply = "icp_body http_reply"

definition wrap_reply :: "('a \<Rightarrow> 'b) \<Rightarrow> 'a http_reply \<Rightarrow> 'b http_reply" where
  "wrap_reply g r = \<lparr> http_status = http_status r, http_body = g (http_body r), http_audit = http_audit r \<rparr>"

definition icp_json :: "nat \<Rightarrow> icp_body \<Rightarrow> icp_reply" where
  "icp_json st b = \<lparr> http_status = st, http_body = b, http_audit = [] \<rparr>"

definition icp_respond :: "'r act \<Rightarrow> ('r \<Rightarrow> icp_body) \<Rightarrow> spire conn \<Rightarrow> icp_reply \<times> spire conn" where
  "icp_respond m ok c = (case m c of (Inl e, c') \<Rightarrow> (wrap_reply Refused (sendError e), c') | (Inr x, c') \<Rightarrow> (icp_json 200 (ok x), c'))"

definition required :: "bool \<Rightarrow> string \<Rightarrow> 'r act \<Rightarrow> 'r act" where
  "required ok name m = (if ok then m else fail_act (NewBadRequestError (name @ '' is required'') None))"

definition bound_body :: "go_error + 'r \<Rightarrow> ('r \<Rightarrow> 'q act) \<Rightarrow> 'q act" where
  "bound_body body k = (case body of Inl e \<Rightarrow> fail_act (NewBadRequestError ''Invalid request body'' (Some (Plain e))) | Inr r \<Rightarrow> k r)"

definition http_Attest :: "spire_env \<Rightarrow> gotime \<Rightarrow> fresh_ids \<Rightarrow> go_error + AttestRequest \<Rightarrow> spire conn \<Rightarrow> icp_reply \<times> spire conn" where
  "http_Attest E now ids body =
     icp_respond (bound_body body (\<lambda>req.
       required (at_TenantID req \<noteq> []) ''tenant_id'' (required (at_CSR req \<noteq> []) ''csr''
         (required (at_AttestationType req \<noteq> []) ''attestation_type'' (svc_Attest E now ids req))))) AttestBody"

definition http_Renew ::
  "spire_env \<Rightarrow> RenewalService \<Rightarrow> gotime \<Rightarrow> fresh_ids \<Rightarrow> go_error + RenewRequest \<Rightarrow> spire conn \<Rightarrow> icp_reply \<times> spire conn" where
  "http_Renew E S now ids body =
     icp_respond (bound_body body (\<lambda>req.
       required (rn_TenantID req \<noteq> []) ''tenant_id'' (required (rn_CSR req \<noteq> []) ''csr''
         (required (rn_WorkloadID req \<noteq> []) ''workload_id'' (svc_Renew E S now ids req))))) RenewedBody"

definition http_Revoke :: "spire_env \<Rightarrow> gotime \<Rightarrow> fresh_ids \<Rightarrow> go_error + RevokeRequest \<Rightarrow> spire conn \<Rightarrow> icp_reply \<times> spire conn" where
  "http_Revoke E now ids body =
     icp_respond (bound_body body (\<lambda>req.
       required (rv_TenantID req \<noteq> []) ''tenant_id'' (required (rv_SerialNumber req \<noteq> []) ''serial_number''
         (bind_act (svc_Revoke E now ids req) (\<lambda>_. return_act (rv_SerialNumber req)))))) RevokedCert"

section \<open>Routes\<close>

text \<open>The renewal service of \<^verbatim>\<open>Bootstrap\<close>: no certificate repository.\<close>

definition bootstrap_renewal :: "mtls_env \<Rightarrow> RenewalService" where
  "bootstrap_renewal M = \<lparr> rs_certRepo = None, rs_parse = me_parse M \<rparr>"

datatype mtls_call =
    PostAttest "go_error + AttestRequest"
  | PostRenew "go_error + RenewRequest"
  | PostRevoke "go_error + RevokeRequest"
  | PostJwtIssue "go_error + string" uuid "go_error + IssueJWTSVIDRequest"

fun mtls_handler :: "mtls_env \<Rightarrow> gotime \<Rightarrow> fresh_ids \<Rightarrow> mtls_call \<Rightarrow> gin_context \<Rightarrow> spire conn \<Rightarrow> icp_reply \<times> spire conn" where
  "mtls_handler M now ids (PostAttest body) ctx = http_Attest (me_env M) now ids body"
| "mtls_handler M now ids (PostRenew body) ctx = http_Renew (me_env M) (bootstrap_renewal M) now ids body"
| "mtls_handler M now ids (PostRevoke body) ctx = http_Revoke (me_env M) now ids body"
| "mtls_handler M now ids (PostJwtIssue newKey jti body) ctx =
     (\<lambda>c. map_prod (wrap_reply TokenReply) id (http_IssueJWTSVID (me_env M) (me_jwt M) now newKey jti body c))"

definition mtls_route ::
  "mtls_env \<Rightarrow> gotime \<Rightarrow> fresh_ids \<Rightarrow> tls_state \<Rightarrow> string \<Rightarrow> mtls_call \<Rightarrow> spire conn \<Rightarrow> icp_reply \<times> spire conn" where
  "mtls_route M now ids tls tenantHeader call c =
     (case MTLS_Authenticate M tls tenantHeader Map.empty of
        Next ctx \<Rightarrow> mtls_handler M now ids call ctx c
      | Aborted r \<Rightarrow> (wrap_reply Refused r, c))"

section \<open>Revocations last\<close>

text \<open>The revoked certificates in the database \<open>n\<close>, by tenant, serial number and id.\<close>

definition revoked_in :: "Certificate list \<Rightarrow> (string \<times> string \<times> string) set" where
  "revoked_in xs = (\<lambda>x. (ct_TenantID x, ct_SerialNumber x, ct_ID x)) ` {x \<in> set xs. ct_Status x = ''revoked'' \<and> ct_RevokedAt x \<noteq> None}"

definition revoked_certs :: "spire \<Rightarrow> string \<Rightarrow> (string \<times> string \<times> string) set" where
  "revoked_certs s n = (case sp_dbs s n of Some d \<Rightarrow> (case db_certificates d of Some xs \<Rightarrow> revoked_in xs | None \<Rightarrow> {}) | None \<Rightarrow> {})"

definition kept :: "string \<Rightarrow> (string \<times> string \<times> string) set \<Rightarrow> spire \<Rightarrow> bool" where
  "kept n K s \<longleftrightarrow> conns_ok s \<and> K \<subseteq> revoked_certs s n"

lemma kept_frame:
  "kept n K (s\<lparr> sp_vault := v \<rparr>) = kept n K s" "kept n K (s\<lparr> sp_audit := a \<rparr>) = kept n K s" "kept n K (s\<lparr> sp_keys := k \<rparr>) = kept n K s"
  by (simp_all add: kept_def conns_ok_def revoked_certs_def)

lemma kept_db:
  assumes "kept n K s" and "sp_dbs s m = Some d"
    and "\<And>xs. db_certificates d = Some xs \<Longrightarrow> \<exists>xs'. db_certificates d' = Some xs' \<and> revoked_in xs \<subseteq> revoked_in xs'"
  shows "kept n K (s\<lparr> sp_dbs := (sp_dbs s)(m \<mapsto> d') \<rparr>)"
  using assms by (auto simp: kept_def conns_ok_def revoked_certs_def split: option.splits) fastforce+

lemma kept_other_tables:
  "(\<And>d d' x. g d = Inr (d', x) \<Longrightarrow> db_certificates d' = db_certificates d) \<Longrightarrow> keeps (kept n K) (db_stmt m g)"
  by (rule keeps_db_stmt) (auto intro: kept_db)

lemma kept_cert_stmt:
  assumes "\<And>xs xs' y. f xs = Inr (xs', y) \<Longrightarrow> revoked_in xs \<subseteq> revoked_in xs'"
  shows "keeps (kept n K) (cert_stmt m f)"
  unfolding cert_stmt_def
  by (rule keeps_db_stmt) (use assms in \<open>auto intro!: kept_db split: option.splits sum.splits\<close>)

lemma kept_audit_stmt [keeps_intros]: "keeps (kept n K) (audit_stmt db f)"
proof (cases db)
  case PlatformAudit
  then show ?thesis
    by (auto simp: audit_stmt_def kept_frame intro!: keeps_stmt split: option.splits sum.splits)
next
  case (TenantAudit m)
  then show ?thesis
    by (auto simp: audit_stmt_def intro!: kept_other_tables split: option.splits sum.splits)
qed

lemma kept_vault [keeps_intros]: "keeps (kept n K) (vault_write E p v)" "keeps (kept n K) (vault_read E p)"
  unfolding vault_write_def vault_read_def by (intro keeps_intros keeps_process; simp add: kept_frame)+

lemma kept_GetTenantDB [keeps_intros]: "keeps (kept n K) (GetTenantDB E t)"
  using keeps_GetTenantDB_conns [of E t] keeps_GetTenantDB_dbs [of "\<lambda>d ts v. K \<subseteq> (case d n of Some d \<Rightarrow> (case db_certificates d of Some xs \<Rightarrow> revoked_in xs | None \<Rightarrow> {}) | None \<Rightarrow> {})" E t]
  unfolding keeps_def kept_def revoked_certs_def by blast

lemma revoked_in_set:
  assumes "\<And>x. ct_TenantID (f x) = ct_TenantID x \<and> ct_SerialNumber (f x) = ct_SerialNumber x \<and> ct_ID (f x) = ct_ID x"
    and "\<And>x. ct_Status (f x) = ''revoked'' \<and> ct_RevokedAt (f x) \<noteq> None"
  shows "revoked_in xs \<subseteq> revoked_in (update_where P f xs)"
proof
  fix k
  assume "k \<in> revoked_in xs"
  then obtain x where x: "x \<in> set xs" "ct_Status x = ''revoked''" "ct_RevokedAt x \<noteq> None" "k = (ct_TenantID x, ct_SerialNumber x, ct_ID x)"
    by (auto simp: revoked_in_def)
  let ?y = "if P x then f x else x"
  have "?y \<in> set (update_where P f xs)" using x(1) by (auto simp: update_where_def)
  moreover have "ct_Status ?y = ''revoked'' \<and> ct_RevokedAt ?y \<noteq> None \<and> k = (ct_TenantID ?y, ct_SerialNumber ?y, ct_ID ?y)"
    using x assms by simp
  ultimately show "k \<in> revoked_in (update_where P f xs)" unfolding revoked_in_def by blast
qed

text \<open>The statements and calls of the services.\<close>

lemma kept_workloads [keeps_intros]:
  "keeps (kept n K) (workload_GetBySpiffeID m t sp)" "keeps (kept n K) (workload_GetByID m t i)" "keeps (kept n K) (workload_Create now m w)"
  unfolding workload_GetBySpiffeID_def workload_GetByID_def workload_Create_def
  by (intro keeps_intros kept_other_tables; simp add: insert_workload_def split: if_splits; fastforce)+

lemma kept_policies [keeps_intros]: "keeps (kept n K) (FindMatchingPolicy E m t typ sels)"
  unfolding FindMatchingPolicy_def queryPolicies_def by (intro keeps_intros)

lemma kept_audited [keeps_intros]: "keeps (kept n K) (audited now newID db l)"
  unfolding audited_def audit_Create_def by (intro keeps_intros)

lemma kept_vault_client [keeps_intros]:
  "keeps (kept n K) (IssueCertificate E now mount role q)" "keeps (kept n K) (RevokeCertificate E mount serial)"
  unfolding IssueCertificate_def RevokeCertificate_def by (intro keeps_intros)+

lemma kept_scanCertificate [keeps_intros]: "keeps (kept n K) (scanCertificate m g)"
  unfolding scanCertificate_def by (intro keeps_intros kept_cert_stmt) (auto split: sum.splits)

lemma kept_cert_Create [keeps_intros]: "keeps (kept n K) (cert_Create now m x)"
  unfolding cert_Create_def by (intro keeps_intros kept_cert_stmt) (auto simp: revoked_in_def)

lemma kept_cert_Revoke [keeps_intros]: "keeps (kept n K) (cert_Revoke now m t i)"
  unfolding cert_Revoke_def cert_touched_def set_cert_def Let_def
  by (intro keeps_intros kept_cert_stmt) (use revoked_in_set in \<open>simp; blast\<close>)

lemma kept_refuse [keeps_intros]: "keeps (kept n K) a \<Longrightarrow> keeps (kept n K) (refuse a e)"
  unfolding refuse_def by (intro keeps_intros)

lemma kept_on_error [keeps_intros]: "keeps (kept n K) m \<Longrightarrow> keeps (kept n K) a \<Longrightarrow> keeps (kept n K) (on_error m a)"
  unfolding on_error_def by (intro keeps_intros)

lemma kept_audited_csr [keeps_intros]: "(\<And>msg. keeps (kept n K) (note msg)) \<Longrightarrow> keeps (kept n K) (audited_csr E note csr)"
  unfolding audited_csr_def by (cases "se_csr E csr") (simp_all add: keeps_return kept_refuse)

lemma kept_notes [keeps_intros]:
  "keeps (kept n K) (auditAttestationWithRepo now newID db areq sp ok msg)" "keeps (kept n K) (auditRenewal now newID rreq ok msg)"
  "keeps (kept n K) (auditRevocation now newID vreq ok msg)"
  unfolding auditAttestationWithRepo_def auditRenewal_def auditRevocation_def by (intro keeps_intros)+

lemma kept_tenant_repositories [keeps_intros]: "keeps (kept n K) (tenant_repositories E t)"
  unfolding tenant_repositories_def by (intro keeps_intros)

lemma kept_check_old [keeps_intros]:
  assumes "\<And>msg. keeps (kept n K) (note msg)"
  shows "keeps (kept n K) (check_old S note req)"
proof -
  have old: "keeps (kept n K) (validateOldCertificate S t i pem)" for t i pem
    unfolding validateOldCertificate_def
    by (cases "rs_parse S pem") (simp_all add: keeps_fail, unfold GetActiveByWorkload_def, intro keeps_intros)
  show ?thesis unfolding check_old_def by (intro keeps_intros old) (use assms in \<open>auto intro!: keeps_intros split: spire_error.split\<close>)
qed

lemma kept_services [keeps_intros]:
  "keeps (kept n K) (svc_Attest E now ids areq)" "keeps (kept n K) (svc_Renew E S now ids rreq)" "keeps (kept n K) (svc_Revoke E now ids vreq)"
  unfolding svc_Attest_def attest_mount_def attest_issue_def getOrCreateWorkloadInRepo_def svc_Renew_def svc_Revoke_def
    GetBySerialNumber_def Let_def
  by (intro keeps_intros)+

lemma kept_IssueJWTSVID [keeps_intros]: "keeps (kept n K) (IssueJWTSVID E J now newKey jti req)"
  unfolding IssueJWTSVID_def getOrCreateSigningKey_def cache_key_def ReadKVSecret_def WriteKVSecret_def Let_def
  by (intro keeps_intros keeps_process) (auto simp: kept_frame intro!: keeps_intros split: goval.split)

lemma kept_icp_respond: "keeps (kept n K) m \<Longrightarrow> keeps (kept n K) (icp_respond m ok)"
  unfolding keeps_def icp_respond_def by (auto split: prod.splits sum.splits) (metis fst_conv snd_conv)+

lemma kept_mtls_route: "keeps (kept n K) (mtls_route M now ids tls h call)"
proof -
  have "keeps (kept n K) (mtls_handler M now ids call ctx)" for ctx
  proof (cases call)
    case (PostJwtIssue newKey jti body)
    have "keeps (kept n K) (http_IssueJWTSVID E J now newKey jti body)" for E J
    proof -
      have "keeps (kept n K) (bind_act (bound body) (issue_or_500 E J now newKey jti))"
        unfolding bound_def issue_or_500_def by (intro keeps_intros)
      then show ?thesis
        unfolding http_IssueJWTSVID_def keeps_def jwt_respond_def by (auto split: prod.splits sum.splits) (metis fst_conv snd_conv)+
    qed
    then show ?thesis using PostJwtIssue by (simp add: keeps_def)
  qed (auto simp: http_Attest_def http_Renew_def http_Revoke_def bound_body_def required_def intro!: kept_icp_respond keeps_intros)
  then show ?thesis unfolding keeps_def mtls_route_def by (auto split: mw_result.splits)
qed

type_synonym mtls_op = "gotime \<times> fresh_ids \<times> tls_state \<times> string \<times> mtls_call"

definition mtls_step :: "mtls_env \<Rightarrow> mtls_op \<Rightarrow> spire conn \<Rightarrow> spire conn \<times> icp_reply" where
  "mtls_step M op c = (case op of (now, ids, tls, h, call) \<Rightarrow> prod.swap (mtls_route M now ids tls h call c))"

text \<open>Every request behind mutual TLS keeps the connections right, and no revocation is undone.\<close>

interpretation mtls_run:
  guarded_service "mtls_step M" "\<lambda>c. conns_ok (fst c)" "\<lambda>c c'. \<forall>n. revoked_certs (fst c) n \<subseteq> revoked_certs (fst c') n" for M
proof
  fix c :: "spire conn" and op :: mtls_op
  assume ok: "conns_ok (fst c)"
  obtain now ids tls h call where op: "op = (now, ids, tls, h, call)" by (cases op)
  have "kept n (revoked_certs (fst c) n) (fst (fst (mtls_step M op c)))" for n
    using keepsD [OF kept_mtls_route [of n "revoked_certs (fst c) n" M now ids tls h call], of c] ok
    by (cases "mtls_route M now ids tls h call c") (auto simp: mtls_step_def op kept_def)
  then show "conns_ok (fst (fst (mtls_step M op c))) \<and> (\<forall>n. revoked_certs (fst c) n \<subseteq> revoked_certs (fst (fst (mtls_step M op c))) n)"
    unfolding kept_def by blast
qed auto

section \<open>What attestation asks of Vault\<close>

lemma refuse_Inr [simp]: "refuse a e c \<noteq> (Inr x, c')"
  by (simp add: refuse_def bind_act_Inr fail_act_def)

lemma on_error_Inr [simp]: "on_error m a c = (Inr x, c') \<longleftrightarrow> m c = (Inr x, c')"
  by (auto simp: on_error_def bind_act_Inr try_act_def return_act_def split: prod.splits sum.splits)

lemma try_act_Inr [simp]: "try_act m c = (Inr r, c') \<longleftrightarrow> m c = (r, c')"
  by (auto simp: try_act_def split: prod.splits)

lemma audited_csr_Inr: "audited_csr E note csr c = (Inr x, c') \<Longrightarrow> se_csr E csr = GoodCSR \<and> c' = c"
  by (cases "se_csr E csr") (simp_all add: audited_csr_def return_act_def)

text \<open>Everything but the client of Vault leaves the requests to Vault alone.\<close>

lemma silent_stmts [keeps_intros]: "keeps (\<lambda>s. sp_vault s = v) (db_stmt n g)" "keeps (\<lambda>s. sp_vault s = v) (audit_stmt db f)"
proof -
  show db: "keeps (\<lambda>s. sp_vault s = v) (db_stmt n g)" for n and g :: "tenant_db \<Rightarrow> go_error + tenant_db \<times> 'a"
    by (rule keeps_db_stmt) simp
  have "keeps (\<lambda>s. sp_vault s = v) (db_stmt n g)" for n and g :: "tenant_db \<Rightarrow> go_error + tenant_db \<times> 'b"
    by (rule keeps_db_stmt) simp
  then show "keeps (\<lambda>s. sp_vault s = v) (audit_stmt db f)"
    by (cases db) (auto simp: audit_stmt_def intro!: keeps_stmt split: option.splits sum.splits)
qed

lemma silent_services [keeps_intros]:
  "keeps (\<lambda>s. sp_vault s = v) (getOrCreateWorkloadInRepo now newID n t sp sels role typ)"
  "keeps (\<lambda>s. sp_vault s = v) (cert_Create now n x)" "keeps (\<lambda>s. sp_vault s = v) (audited now newID db l)"
  unfolding getOrCreateWorkloadInRepo_def workload_GetBySpiffeID_def workload_Create_def cert_Create_def cert_stmt_def audited_def audit_Create_def Let_def
  by (intro keeps_intros)+

definition policies_at :: "spire \<Rightarrow> string \<Rightarrow> AttestationPolicy list" where
  "policies_at s n = (case sp_dbs s n of Some d \<Rightarrow> db_policies d | None \<Rightarrow> [])"

lemma find_sort_key:
  fixes f :: "'a \<Rightarrow> 'b :: linorder"
  assumes "List.find P (sort_key f xs) = Some p" and "q \<in> set xs" and "P q"
  shows "p \<in> set xs \<and> P p \<and> f p \<le> f q"
proof -
  obtain i where i: "i < length (sort_key f xs)" "P (sort_key f xs ! i)" "p = sort_key f xs ! i" "\<forall>j<i. \<not> P (sort_key f xs ! j)"
    using assms(1) by (auto simp: find_Some_iff)
  obtain j where j: "j < length (sort_key f xs)" "q = sort_key f xs ! j"
    using assms(2) by (metis in_set_conv_nth set_sort)
  have "\<not> j < i" using i(4) j assms(3) by blast
  then have "map f (sort_key f xs) ! i \<le> map f (sort_key f xs) ! j"
    using j(1) by (intro sorted_nth_mono) simp_all
  with i j show ?thesis by (metis nth_map nth_mem set_sort)
qed

text \<open>The policy that a request falls under: enabled, of its tenant and type, matching, and none such has a higher priority.\<close>

definition governs :: "spire_env \<Rightarrow> AttestRequest \<Rightarrow> AttestationPolicy list \<Rightarrow> AttestationPolicy \<Rightarrow> bool" where
  "governs E req ps p \<longleftrightarrow>
     (let fits = (\<lambda>q. se_uuid E (at_TenantID req) = Some (ap_TenantID q) \<and> ap_AttestationType q = at_AttestationType req \<and>
                      policy_MatchesSelectors q (at_Selectors req))
      in p \<in> set ps \<and> fits p \<and> (\<forall>q \<in> set ps. fits q \<longrightarrow> ap_Priority q \<le> ap_Priority p))"

lemma FindMatchingPolicy_Inr:
  assumes "FindMatchingPolicy E n (at_TenantID req) (at_AttestationType req) (at_Selectors req) c = (Inr p, c')"
  shows "governs E req (policies_at (fst c) n) p"
proof -
  let ?P = "\<lambda>p. ap_AttestationType p = at_AttestationType req \<and> ap_Enabled p"
  let ?M = "\<lambda>p. policy_MatchesSelectors p (at_Selectors req)"
  obtain ps where q: "queryPolicies E n (at_TenantID req) ?P c = (Inr ps, c')" and p: "List.find ?M (by_priority ps) = Some p"
    using assms by (auto simp: FindMatchingPolicy_def bind_act_Inr return_act_def fail_act_def split: option.splits)
  obtain t where t: "se_uuid E (at_TenantID req) = Some t" and ps: "ps = filter (\<lambda>p. ap_TenantID p = t \<and> ?P p) (policies_at (fst c) n)"
  proof (cases "se_uuid E (at_TenantID req)")
    case (Some t)
    then have "db_read n (\<lambda>d. Inr (filter (\<lambda>p. ap_TenantID p = t \<and> ?P p) (db_policies d))) c = (Inr ps, c')"
      using q by (simp add: queryPolicies_def cast_uuid_def)
    from db_read_Inr [OF this] that [OF Some] show ?thesis by (auto simp: policies_at_def)
  next
    case None
    then have "db_read n (\<lambda>d. Inl DBError) c = (Inr ps, c')" using q by (simp add: queryPolicies_def cast_uuid_def)
    from db_read_Inr [OF this] show ?thesis by simp
  qed
  have p': "p \<in> set ps \<and> ?M p" using find_SomeD [OF p] by (simp add: by_priority_def)
  have max: "ap_Priority q \<le> ap_Priority p" if "q \<in> set ps" "?M q" for q
    using find_sort_key [OF p [unfolded by_priority_def] that] by simp
  have "ap_Enabled q" if "?M q" for q using that by (simp add: policy_MatchesSelectors_def)
  with p' max t ps show ?thesis unfolding governs_def Let_def by auto
qed

text \<open>When no statement fails, a policy is missed only if none governs the request, and a tenant only if it is not there.\<close>

lemma FindMatchingPolicy_none:
  assumes "FindMatchingPolicy E n (at_TenantID req) (at_AttestationType req) (at_Selectors req) (s, []) = (Inl e, c')"
  shows "\<not> governs E req (policies_at s n) p"
proof
  assume g: "governs E req (policies_at s n) p"
  then obtain d where d: "sp_dbs s n = Some d" "p \<in> set (db_policies d)"
    by (cases "sp_dbs s n") (simp_all add: governs_def Let_def policies_at_def)
  let ?ps = "filter (\<lambda>q. ap_TenantID q = ap_TenantID p \<and> ap_AttestationType q = at_AttestationType req \<and> ap_Enabled q) (db_policies d)"
  from g have p: "se_uuid E (at_TenantID req) = Some (ap_TenantID p)" "policy_MatchesSelectors p (at_Selectors req)" "p \<in> set ?ps"
    using d(2) by (auto simp: governs_def Let_def policy_MatchesSelectors_def)
  then have "List.find (\<lambda>q. policy_MatchesSelectors q (at_Selectors req)) (by_priority ?ps) \<noteq> None"
    by (auto simp: find_None_iff by_priority_def)
  with assms p(1) d(1) show False
    by (auto simp: FindMatchingPolicy_def queryPolicies_def fault_free_simps db_read_def db_stmt_def sql_simps on_db_def cast_uuid_def
        return_act_def split: option.splits)
qed

lemma tenant_GetByID_none:
  assumes "tenant_GetByID E i (s, []) = (Inl e, c')" and "r \<in> set (sp_tenants s)" and "tn_Status r = ''active''"
  shows "se_uuid E i \<noteq> Some (tn_TenantID r)"
  using assms by (auto simp: tenant_GetByID_def map_error_def sql_simps cast_uuid_def select_row_def find_None_iff split: option.splits)

lemma tenant_GetByID_quiet: "snd (snd (tenant_GetByID E t (s, []))) = []"
  by (auto simp: tenant_GetByID_def map_error_def sql_simps cast_uuid_def split: option.splits sum.splits)

lemma Ping_quiet: "snd (snd (Ping n (s, []))) = []"
  by (auto simp: Ping_def db_read_def db_stmt_def sql_simps on_db_def split: option.splits)

lemma createTenantConnection_quiet: "snd (snd (createTenantConnection E t (s, []))) = []"
proof -
  obtain r s1 where r: "tenant_GetByID E t (s, []) = (r, s1, [])"
    using tenant_GetByID_quiet [of E t s] by (metis prod.collapse)
  obtain q s2 where "Ping (tenant_db_name t) (s1, []) = (q, s2, [])"
    using Ping_quiet [of "tenant_db_name t" s1] by (metis prod.collapse)
  with r show ?thesis
    by (cases r; cases q) (auto simp: createTenantConnection_def open_connection_def bind_act_def ask_def map_error_def process_def
        return_act_def fail_act_def split: option.splits)
qed

lemma GetTenantDB_quiet: "snd (snd (GetTenantDB E t (s, []))) = []"
proof (cases "sp_conns s t")
  case None
  then show ?thesis using createTenantConnection_quiet by (simp add: GetTenantDB_def bind_act_def ask_def)
next
  case (Some n)
  obtain q s1 where "Ping n (s, []) = (q, s1, [])" using Ping_quiet [of n s] by (metis prod.collapse)
  with Some show ?thesis using createTenantConnection_quiet
    by (cases q) (simp_all add: GetTenantDB_def removeTenantConnection_def bind_act_def ask_def try_act_def process_def return_act_def)
qed

definition attest_paths :: "spire_env \<Rightarrow> AttestRequest \<Rightarrow> string \<Rightarrow> string \<Rightarrow> int \<Rightarrow> vault_call" where
  "attest_paths E req mount role ttl =
     (let sp = generateSpiffeID (at_TenantID req) (at_Selectors req) in
      VWrite (pki_path E (TrimPrefix mount ''pki/'') (''sign/'' @ role))
        [(''csr'', GStr (at_CSR req)), (''common_name'', GStr sp), (''ttl'', GStr (Itoa ttl @ ''s'')), (''uri_sans'', GStrs [sp])])"

lemma attest_issue_Inr:
  assumes "attest_issue E now ids req n mount c = (Inr r, c')"
  shows "as_SpiffeID r = generateSpiffeID (at_TenantID req) (at_Selectors req) \<and>
     (\<exists>role ttl. sp_vault (fst c') = sp_vault (fst c) @ [attest_paths E req mount role ttl] \<and>
        ((\<exists>p. governs E req (policies_at (fst c) n) p \<and> role = ap_VaultRole p \<and> ttl = ap_TTL p) \<or>
         (role, ttl) = (''workload'', 86400) \<and> (snd c = [] \<longrightarrow> (\<nexists>p. governs E req (policies_at (fst c) n) p))))"
proof -
  let ?sp = "generateSpiffeID (at_TenantID req) (at_Selectors req)"
  let ?find = "FindMatchingPolicy E n (at_TenantID req) (at_AttestationType req) (at_Selectors req)"
  obtain q c1 where q: "?find c = (q, c1)" by (rule prod.exhaust)
  obtain role ttl where role: "svc_role q = (role, ttl)" by (rule prod.exhaust)
  have "keeps (\<lambda>s. s = fst c) ?find" unfolding FindMatchingPolicy_def queryPolicies_def by (intro keeps_intros)
  from keepsD [OF this _ q] have c1: "fst c1 = fst c" by simp
  obtain w c2 cert c3 x c4 y z where w: "getOrCreateWorkloadInRepo now (fi_workload ids) n (at_TenantID req) ?sp (at_Selectors req) role (at_AttestationType req) c1 = (Inr w, c2)"
    and cert: "IssueCertificate E now (TrimPrefix mount ''pki/'') role \<lparr> cq_CSR = at_CSR req, cq_CommonName = ?sp, cq_TTL = Itoa ttl @ ''s'',
        cq_AltNames = [], cq_IPSANs = [], cq_URISANs = [?sp] \<rparr> c2 = (Inr cert, c3)"
    and c4: "cert_Create now n (new_certificate now (fi_certificate ids) (at_TenantID req) w ?sp ''attest'' cert) c3 = (x, c4)"
    and c': "auditAttestationWithRepo now (fi_audit ids) (TenantAudit n) req ?sp True [] c4 = (y, c')" and r: "r = z\<lparr> as_SpiffeID := ?sp \<rparr>"
    using assms unfolding attest_issue_def bind_try [where m = ?find, OF q] role Let_def prod.case bind_act_Inr on_error_Inr try_act_Inr return_act_def
      prod.inject sum.inject
    by (metis (no_types) AttestResponse.update_convs(3))
  have "sp_vault (fst c2) = sp_vault (fst c)" using keepsD [OF silent_services(1) _ w] c1 by simp
  moreover have "sp_vault (fst c3) = sp_vault (fst c2) @ [attest_paths E req mount role ttl]"
    using IssueCertificate_state [OF cert] by (simp add: attest_paths_def sign_data_def Let_def)
  moreover have "sp_vault (fst c4) = sp_vault (fst c3)" "sp_vault (fst c') = sp_vault (fst c4)"
    using keepsD [OF silent_services(2) _ c4] keepsD [OF silent_services(3) _ c' [unfolded auditAttestationWithRepo_def]] by simp_all
  moreover have "(\<exists>p. governs E req (policies_at (fst c) n) p \<and> role = ap_VaultRole p \<and> ttl = ap_TTL p) \<or>
      (role, ttl) = (''workload'', 86400) \<and> (snd c = [] \<longrightarrow> (\<nexists>p. governs E req (policies_at (fst c) n) p))"
  proof (cases q)
    case (Inl e)
    with role q FindMatchingPolicy_none [of E n req "fst c" e c1] show ?thesis by (cases c) (auto simp: svc_role_def)
  next
    case (Inr p)
    with role q FindMatchingPolicy_Inr [of E n req c p c1] show ?thesis by (auto simp: svc_role_def)
  qed
  ultimately show ?thesis using r by auto
qed

text \<open>
  C9. A service that attests obtains exactly one signature from Vault: for the SPIFFE ID that its selectors spell out in the trust
  domain of the tenant of the request, over a genuine signing request. The role and the lifetime are those of a policy that governs the
  request, of maximal priority, or the defaults, and the mount is that of the active tenant, or the one the request names. The defaults
  are taken only if no policy governs the request or a statement of the attestation fails, and the mount of the request only if there is
  no active tenant with that id or a statement fails. This holds after any run of the requests behind mutual TLS under any faults.
\<close>

theorem service_attested:
  assumes "sp_conns s = Map.empty" and "c = fst (run (mtls_step M) ops (s, faults))"
    and "svc_Attest E now ids req c = (Inr r, c')"
  defines "governing \<equiv> governs E req (policies_at (fst c) (tenant_db_name (at_TenantID req)))"
    and "mounts \<equiv> {st_VaultMount (scan_tenant t) | t. t \<in> set (sp_tenants (fst c)) \<and> se_uuid E (at_TenantID req) = Some (tn_TenantID t) \<and>
                      tn_Status t = ''active''}"
  shows "se_csr E (at_CSR req) = GoodCSR \<and> as_SpiffeID r = generateSpiffeID (at_TenantID req) (at_Selectors req) \<and>
     (\<exists>mount role ttl. sp_vault (fst c') = sp_vault (fst c) @ [attest_paths E req mount role ttl] \<and>
        ((\<exists>p. governing p \<and> role = ap_VaultRole p \<and> ttl = ap_TTL p) \<or>
         (role, ttl) = (''workload'', 86400) \<and> (snd c = [] \<longrightarrow> (\<nexists>p. governing p))) \<and>
        (mount \<in> mounts \<or>
         mount = (if at_VaultMount req \<noteq> [] then at_VaultMount req else ''pki/'' @ at_TenantID req) \<and> (snd c = [] \<longrightarrow> mounts = {})))"
proof -
  have ok: "conns_ok (fst c)" using mtls_run.run_keeps [of "(s, faults)" M ops] assms(1,2) by (simp add: conns_ok_def)
  obtain n c1 q c2 mount c3 u c4 where n: "GetTenantDB E (at_TenantID req) c = (Inr n, c1)"
    and q: "tenant_GetByID E (at_TenantID req) c1 = (q, c2)" and mount: "attest_mount now ids req q c2 = (Inr mount, c3)"
    and csr: "audited_csr E (auditAttestationWithRepo now (fi_audit ids) PlatformAudit req [] False) (at_CSR req) c3 = (Inr u, c4)"
    and iss: "attest_issue E now ids req n mount c4 = (Inr r, c')"
    using assms(3) unfolding svc_Attest_def tenant_repositories_def bind_act_Inr map_error_Inr try_act_Inr by blast
  have db: "n = tenant_db_name (at_TenantID req)" using n ok by (rule GetTenantDB_Inr)
  have same: "sp_dbs (fst c1) = sp_dbs (fst c) \<and> sp_tenants (fst c1) = sp_tenants (fst c) \<and> sp_vault (fst c1) = sp_vault (fst c)"
    using keepsD [OF keeps_GetTenantDB_dbs [of "\<lambda>d t v. d = sp_dbs (fst c) \<and> t = sp_tenants (fst c) \<and> v = sp_vault (fst c)"] _ n] by simp
  have c2: "fst c2 = fst c1" using keepsD [OF keeps_tenant_GetByID [of "\<lambda>s. s = fst c1"] _ q] by simp
  have quiet: "snd c1 = []" "snd c2 = []" if "snd c = []"
    using that n q GetTenantDB_quiet [of E "at_TenantID req" "fst c"] tenant_GetByID_quiet [of E "at_TenantID req" "fst c1"]
    by (metis prod.collapse snd_conv)+
  have good: "se_csr E (at_CSR req) = GoodCSR" "c4 = c3" using audited_csr_Inr [OF csr] by simp_all
  have c3: "c3 = c2" "mount \<in> mounts \<or>
      mount = (if at_VaultMount req \<noteq> [] then at_VaultMount req else ''pki/'' @ at_TenantID req) \<and> (snd c = [] \<longrightarrow> mounts = {})"
  proof -
    show "c3 = c2" using mount by (cases q) (auto simp: attest_mount_def return_act_def split: if_splits)
    show "mount \<in> mounts \<or>
      mount = (if at_VaultMount req \<noteq> [] then at_VaultMount req else ''pki/'' @ at_TenantID req) \<and> (snd c = [] \<longrightarrow> mounts = {})"
    proof (cases q)
      case (Inl e)
      have "mounts = {}" if "snd c = []"
        using q quiet(1) [OF that] Inl same tenant_GetByID_none [of E "at_TenantID req" "fst c1" e c2] unfolding mounts_def
        by (cases c1) auto
      with mount Inl show ?thesis by (auto simp: attest_mount_def return_act_def)
    next
      case (Inr tn)
      with mount q same tenant_GetByID_Inr [of E "at_TenantID req" c1 tn c2] show ?thesis
        by (auto simp: mounts_def attest_mount_def return_act_def split: if_splits)
    qed
  qed
  have c4: "policies_at (fst c4) n = policies_at (fst c) n" "sp_vault (fst c4) = sp_vault (fst c)"
    using good(2) c3(1) c2 same by (simp_all add: policies_at_def)
  have "snd c = [] \<Longrightarrow> snd c4 = []" using quiet(2) good(2) c3(1) by simp
  with attest_issue_Inr [OF iss, unfolded c4, unfolded db] good(1) c3(2) show ?thesis unfolding governing_def by blast
qed

section \<open>Revocation\<close>

lemma audited_platform: "\<exists>a. audited now newID PlatformAudit l (s, []) = (Inr (), s\<lparr> sp_audit := a \<rparr>, [])"
proof (cases "sp_audit s")
  case None
  then have "audited now newID PlatformAudit l (s, []) = (Inr (), s\<lparr> sp_audit := None \<rparr>, [])"
    by (simp add: audited_def audit_Create_def audit_stmt_def fault_free_simps sql_simps)
  then show ?thesis by blast
next
  case (Some ls)
  then show ?thesis
    by (simp add: audited_def audit_Create_def audit_stmt_def fault_free_simps sql_simps) blast
qed

lemma cert_stmt_ready:
  assumes "tenant_ready E s t row d" and "db_certificates d = Some xs" and "f xs = Inr (xs', y)"
  shows "cert_stmt (tenant_db_name t) f (s, []) =
     (Inr y, s\<lparr> sp_dbs := (sp_dbs s)(tenant_db_name t \<mapsto> d\<lparr> db_certificates := Some xs' \<rparr>) \<rparr>, [])"
  using assms by (simp add: cert_stmt_def db_stmt_ready)

lemma GetBySerialNumber_ready:
  assumes "tenant_ready E s t row d" and "db_certificates d = Some xs"
    and "List.find (\<lambda>x. ct_SerialNumber x = sn \<and> ct_TenantID x = t') xs = Some x"
  shows "GetBySerialNumber (tenant_db_name t) t' sn (s, []) = (Inr x, s, [])"
proof -
  have "d\<lparr> db_certificates := Some xs \<rparr> = d" using assms(2) by (cases d) simp
  then have "s\<lparr> sp_dbs := (sp_dbs s)(tenant_db_name t \<mapsto> d\<lparr> db_certificates := Some xs \<rparr>) \<rparr> = s"
    using assms(1) by (simp add: tenant_ready_def fun_upd_idem)
  then show ?thesis
    using assms by (simp add: GetBySerialNumber_def scanCertificate_def map_error_def select_row_def cert_stmt_ready)
qed

lemma cert_Revoke_ready:
  assumes "tenant_ready E s t row d" and "db_certificates d = Some xs" and "x \<in> set xs"
  shows "\<exists>s'. cert_Revoke now (tenant_db_name t) (ct_TenantID x) (ct_ID x) (s, []) = (Inr (), s', []) \<and> conns_ok s' \<and> sp_vault s' = sp_vault s \<and>
     (ct_TenantID x, ct_SerialNumber x, ct_ID x) \<in> revoked_certs s' (tenant_db_name t)"
proof -
  let ?P = "\<lambda>y. ct_ID y = ct_ID x \<and> ct_TenantID y = ct_TenantID x" and ?f = "\<lambda>r. r\<lparr> ct_Status := ''revoked'', ct_RevokedAt := Some now \<rparr>"
  let ?s = "s\<lparr> sp_dbs := (sp_dbs s)(tenant_db_name t \<mapsto> d\<lparr> db_certificates := Some (update_where ?P ?f xs) \<rparr>) \<rparr>"
  have "affected ?P xs \<noteq> 0" using assms(3) by (auto simp: affected_zero_iff)
  then have "cert_Revoke now (tenant_db_name t) (ct_TenantID x) (ct_ID x) (s, []) = (Inr (), ?s, [])"
    using cert_stmt_ready [OF assms(1,2), of "set_cert (ct_TenantID x) (ct_ID x) ?f" "update_where ?P ?f xs" "affected ?P xs"]
    by (simp add: cert_Revoke_def set_cert_def Let_def fault_free_simps cert_touched_def)
  moreover have "?f x \<in> set (update_where ?P ?f xs)" using assms(3) by (force simp: update_where_def)
  then have "(ct_TenantID x, ct_SerialNumber x, ct_ID x) \<in> revoked_in (update_where ?P ?f xs)"
    unfolding revoked_in_def by (intro image_eqI [where x = "?f x"]) simp_all
  moreover have "conns_ok ?s" using assms(1) by (simp add: tenant_ready_def conns_ok_def)
  ultimately show ?thesis by (intro exI [of _ ?s]) (simp add: revoked_certs_def)
qed

lemma svc_Revoke_ready:
  assumes r: "tenant_ready E s t row d" and xs: "db_certificates d = Some xs"
    and x: "List.find (\<lambda>x. ct_SerialNumber x = rv_SerialNumber req \<and> ct_TenantID x = t) xs = Some x" "ct_RevokedAt x = None"
    and req: "rv_TenantID req = t"
    and vault: "se_write E (sp_vault s) (pki_path E (st_VaultMount (scan_tenant row)) ''revoke'') [(''serial_number'', GStr (rv_SerialNumber req))] = Inr y"
  shows "\<exists>s'. svc_Revoke E now ids req (s, []) = (Inr (), s', []) \<and> conns_ok s' \<and>
     sp_vault s' = sp_vault s @ [VWrite (pki_path E (st_VaultMount (scan_tenant row)) ''revoke'') [(''serial_number'', GStr (rv_SerialNumber req))]] \<and>
     (t, rv_SerialNumber req, ct_ID x) \<in> revoked_certs s' (tenant_db_name t)"
proof -
  let ?call = "VWrite (pki_path E (st_VaultMount (scan_tenant row)) ''revoke'') [(''serial_number'', GStr (rv_SerialNumber req))]"
  let ?s1 = "with_conn s t" and ?s2 = "(with_conn s t)\<lparr> sp_vault := sp_vault s @ [?call] \<rparr>"
  have r1: "tenant_ready E ?s1 t row d" using r by (rule with_conn_ready)
  have r2: "tenant_ready E ?s2 t row d" using r1 by (rule ready_update(2))
  have x': "x \<in> set xs" "ct_SerialNumber x = rv_SerialNumber req" "ct_TenantID x = t" using find_SomeD [OF x(1)] by simp_all
  have act: "tenant_IsActive (scan_tenant row)" using r by (simp add: tenant_IsActive_def scan_tenant_def tenant_ready_def)
  have rev: "RevokeCertificate E (st_VaultMount (scan_tenant row)) (rv_SerialNumber req) (?s1, []) = (Inr (), ?s2, [])"
    using vault by (simp add: RevokeCertificate_def vault_write_def fault_free_simps with_conn_def)
  obtain s3 where s3: "cert_Revoke now (tenant_db_name t) t (ct_ID x) (?s2, []) = (Inr (), s3, [])" "conns_ok s3" "sp_vault s3 = sp_vault ?s2"
      "(t, rv_SerialNumber req, ct_ID x) \<in> revoked_certs s3 (tenant_db_name t)"
    using cert_Revoke_ready [OF r2 xs x'(1), of now] x' by auto
  obtain a where a: "auditRevocation now (fi_audit ids) req True [] (s3, []) = (Inr (), s3\<lparr> sp_audit := a \<rparr>, [])"
    using audited_platform unfolding auditRevocation_def by blast
  have "svc_Revoke E now ids req (s, []) = (Inr (), s3\<lparr> sp_audit := a \<rparr>, [])"
    unfolding svc_Revoke_def Let_def req
    using r act rev s3(1) a x(2) GetBySerialNumber_ready [OF r1 xs x(1)]
    by (simp add: bind_act_def try_act_def return_act_def on_error_def map_error_def tenant_repositories_def tenant_GetByID_ready GetTenantDB_ready)
  moreover have "conns_ok (s3\<lparr> sp_audit := a \<rparr>)" "revoked_certs (s3\<lparr> sp_audit := a \<rparr>) n = revoked_certs s3 n" for n
    using s3(2) by (simp_all add: conns_ok_def revoked_certs_def)
  ultimately show ?thesis using s3 by auto
qed

text \<open>
  C19. A revocation lasts. When no statement fails and Vault accepts the request, revoking a stored certificate of an active tenant answers
  200 and asks Vault at the mount of the tenant; from then on, in every run of requests behind mutual TLS and whichever statements fail, the
  stored certificate stays revoked.
\<close>

theorem revocation_lasts:
  assumes "tenant_ready (me_env M) s t row d" and "db_certificates d = Some xs"
    and "List.find (\<lambda>x. ct_SerialNumber x = rv_SerialNumber req \<and> ct_TenantID x = t) xs = Some x" and "ct_RevokedAt x = None"
    and "rv_TenantID req = t" and "t \<noteq> []" and "rv_SerialNumber req \<noteq> []"
    and "se_write (me_env M) (sp_vault s) (pki_path (me_env M) (st_VaultMount (scan_tenant row)) ''revoke'')
           [(''serial_number'', GStr (rv_SerialNumber req))] = Inr y"
  shows "\<exists>s'. http_Revoke (me_env M) now ids (Inr req) (s, []) = (icp_json 200 (RevokedCert (rv_SerialNumber req)), s', []) \<and>
     sp_vault s' = sp_vault s @ [VWrite (pki_path (me_env M) (st_VaultMount (scan_tenant row)) ''revoke'')
                                   [(''serial_number'', GStr (rv_SerialNumber req))]] \<and>
     (\<forall>ops faults. (t, rv_SerialNumber req, ct_ID x) \<in> revoked_certs (fst (fst (run (mtls_step M) ops (s', faults)))) (tenant_db_name t))"
proof -
  obtain s' where rev: "svc_Revoke (me_env M) now ids req (s, []) = (Inr (), s', [])" "conns_ok s'"
      "sp_vault s' = sp_vault s @ [VWrite (pki_path (me_env M) (st_VaultMount (scan_tenant row)) ''revoke'') [(''serial_number'', GStr (rv_SerialNumber req))]]"
      "(t, rv_SerialNumber req, ct_ID x) \<in> revoked_certs s' (tenant_db_name t)"
    using svc_Revoke_ready [OF assms(1-5,8)] by blast
  have "http_Revoke (me_env M) now ids (Inr req) (s, []) = (icp_json 200 (RevokedCert (rv_SerialNumber req)), s', [])"
    using rev(1) assms(5,6,7) by (simp add: http_Revoke_def icp_respond_def bound_body_def required_def bind_act_def return_act_def)
  moreover have "(t, rv_SerialNumber req, ct_ID x) \<in> revoked_certs (fst (fst (run (mtls_step M) ops (s', faults)))) (tenant_db_name t)" for ops faults
    using mtls_run.run_moves [of "(s', faults)" M ops] rev(2,4) by (auto dest!: spec [of _ "tenant_db_name t"])
  ultimately show ?thesis using rev(3) by blast
qed

lemma check_old_Inr:
  assumes "check_old S note req c = (Inr u, c')"
  shows "rn_OldCertificate req = [] \<and> c' = c \<or>
     validateOldCertificate S (rn_TenantID req) (rn_WorkloadID req) (rn_OldCertificate req) c = (Inr (), c')"
proof -
  obtain r c1 where r: "validateOldCertificate S (rn_TenantID req) (rn_WorkloadID req) (rn_OldCertificate req) c = (r, c1)" by (rule prod.exhaust)
  note attempt = bind_try [where m = "validateOldCertificate S (rn_TenantID req) (rn_WorkloadID req) (rn_OldCertificate req)", OF r]
  show ?thesis
  proof (cases r)
    case (Inl e)
    with assms r show ?thesis by (cases e) (auto simp: check_old_def attempt return_act_def fail_act_def split: if_splits)
  next
    case (Inr x)
    with assms r show ?thesis by (auto simp: check_old_def attempt return_act_def split: if_splits)
  qed
qed

lemma svc_Renew_Inr:
  assumes "svc_Renew E S now ids req c = (Inr r, c')"
  shows "rn_OldCertificate req = [] \<or> (\<exists>n sn. rs_certRepo S = Some n \<and> rs_parse S (rn_OldCertificate req) = CertSerial sn)"
    and "\<exists>t \<in> set (sp_tenants (fst c)). \<exists>role data. se_uuid E (rn_TenantID req) = Some (tn_TenantID t) \<and> tn_Status t = ''active'' \<and>
       sp_vault (fst c') = sp_vault (fst c) @ [VWrite (pki_path E (TrimPrefix (st_VaultMount (scan_tenant t)) ''pki/'') (''sign/'' @ role)) data]"
proof -
  let ?note = "auditRenewal now (fi_audit ids) req False"
  obtain q c1 where q: "tenant_GetByID E (rn_TenantID req) c = (q, c1)" by (rule prod.exhaust)
  have c1: "fst c1 = fst c" using keepsD [OF keeps_tenant_GetByID [of "\<lambda>s. s = fst c"] _ q] by simp
  obtain tenant n c2 w c3 u c4 v c5 cert c6 y c7 z where t: "q = Inr tenant" and n: "GetTenantDB E (rn_TenantID req) c1 = (Inr n, c2)"
    and w: "workload_GetByID n (rn_TenantID req) (rn_WorkloadID req) c2 = (Inr w, c3)" and old: "check_old S ?note req c3 = (Inr u, c4)"
    and csr: "audited_csr E ?note (rn_CSR req) c4 = (Inr v, c5)"
    and cert: "IssueCertificate E now (TrimPrefix (st_VaultMount tenant) ''pki/'') (wl_VaultRole w)
        \<lparr> cq_CSR = rn_CSR req, cq_CommonName = wl_SpiffeID w, cq_TTL = ''24h'', cq_AltNames = [], cq_IPSANs = [], cq_URISANs = [wl_SpiffeID w] \<rparr> c5 = (Inr cert, c6)"
    and c7: "cert_Create now n (new_certificate now (fi_certificate ids) (rn_TenantID req) w (wl_SpiffeID w) ''renew'' cert) c6 = (y, c7)"
    and c': "auditRenewal now (fi_audit ids) req True [] c7 = (z, c')"
    using assms q unfolding svc_Renew_def Let_def tenant_repositories_def
    by (auto simp: bind_act_Inr return_act_def split: sum.splits if_splits)
  have old': "rn_OldCertificate req = [] \<and> c4 = c3 \<or> validateOldCertificate S (rn_TenantID req) (rn_WorkloadID req) (rn_OldCertificate req) c3 = (Inr (), c4)"
    using old by (rule check_old_Inr)
  then show "rn_OldCertificate req = [] \<or> (\<exists>n sn. rs_certRepo S = Some n \<and> rs_parse S (rn_OldCertificate req) = CertSerial sn)"
    by (auto simp: validateOldCertificate_def fail_act_def split: old_cert.splits option.splits)
  obtain t where "t \<in> set (sp_tenants (fst c))" "se_uuid E (rn_TenantID req) = Some (tn_TenantID t)" "tn_Status t = ''active''" "tenant = scan_tenant t"
    using tenant_GetByID_Inr [OF q [unfolded t]] by blast
  moreover have "sp_vault (fst c2) = sp_vault (fst c)"
    using keepsD [OF keeps_GetTenantDB_dbs [of "\<lambda>d t v. v = sp_vault (fst c1)"] _ n] c1 by simp
  moreover have "sp_vault (fst c3) = sp_vault (fst c2)"
  proof -
    have "keeps (\<lambda>s. sp_vault s = sp_vault (fst c2)) (workload_GetByID n (rn_TenantID req) (rn_WorkloadID req))"
      unfolding workload_GetByID_def by (intro keeps_intros)
    from keepsD [OF this _ w] show ?thesis by simp
  qed
  moreover have "sp_vault (fst c4) = sp_vault (fst c3)"
  proof -
    have "keeps (\<lambda>s. sp_vault s = sp_vault (fst c3)) (GetActiveByWorkload m t i)" for m t i
      unfolding GetActiveByWorkload_def scanCertificate_def cert_stmt_def by (intro keeps_intros)
    from keepsD [OF this] have act: "sp_vault (fst d) = sp_vault (fst c3)" if "GetActiveByWorkload m t i c3 = (x, d)" for m t i x d
      using that by blast
    show ?thesis
      using old' by (auto simp: bind_act_Inr return_act_def fail_act_def validateOldCertificate_def dest: act split: if_splits old_cert.splits option.splits)
  qed
  moreover have "c5 = c4" using audited_csr_Inr [OF csr] by simp
  moreover have "sp_vault (fst c7) = sp_vault (fst c6)" "sp_vault (fst c') = sp_vault (fst c7)"
    using keepsD [OF silent_services(2) _ c7] keepsD [OF silent_services(3) _ c' [unfolded auditRenewal_def]] by simp_all
  ultimately show "\<exists>t \<in> set (sp_tenants (fst c)). \<exists>role data. se_uuid E (rn_TenantID req) = Some (tn_TenantID t) \<and> tn_Status t = ''active'' \<and>
       sp_vault (fst c') = sp_vault (fst c) @ [VWrite (pki_path E (TrimPrefix (st_VaultMount (scan_tenant t)) ''pki/'') (''sign/'' @ role)) data]"
    using IssueCertificate_state [OF cert] by auto
qed

lemma svc_Revoke_Inr:
  assumes "svc_Revoke E now ids req c = (Inr u, c')"
  shows "\<exists>t \<in> set (sp_tenants (fst c)). \<exists>n c1 c2 x. se_uuid E (rv_TenantID req) = Some (tn_TenantID t) \<and> tn_Status t = ''active'' \<and>
     GetTenantDB E (rv_TenantID req) c1 = (Inr n, c2) \<and> fst c1 = fst c \<and> sp_dbs (fst c2) = sp_dbs (fst c) \<and>
     GetBySerialNumber n (rv_TenantID req) (rv_SerialNumber req) c2 = (Inr x, snd (GetBySerialNumber n (rv_TenantID req) (rv_SerialNumber req) c2)) \<and>
     sp_vault (fst c') = sp_vault (fst c) @ [VWrite (pki_path E (st_VaultMount (scan_tenant t)) ''revoke'') [(''serial_number'', GStr (rv_SerialNumber req))]]"
proof -
  obtain q c1 where q: "tenant_GetByID E (rv_TenantID req) c = (q, c1)" by (rule prod.exhaust)
  have c1: "fst c1 = fst c" using keepsD [OF keeps_tenant_GetByID [of "\<lambda>s. s = fst c"] _ q] by simp
  obtain tenant n c2 x c3 v c4 y c5 where t: "q = Inr tenant" and n: "GetTenantDB E (rv_TenantID req) c1 = (Inr n, c2)"
    and x: "GetBySerialNumber n (rv_TenantID req) (rv_SerialNumber req) c2 = (Inr x, c3)"
    and rev: "RevokeCertificate E (st_VaultMount tenant) (rv_SerialNumber req) c3 = (Inr v, c4)"
    and c5: "cert_Revoke now n (rv_TenantID req) (ct_ID x) c4 = (y, c5)" and c': "auditRevocation now (fi_audit ids) req True [] c5 = (Inr u, c')"
    using assms q unfolding svc_Revoke_def Let_def tenant_repositories_def
    by (auto simp: bind_act_Inr return_act_def split: sum.splits if_splits)
  obtain t where t': "t \<in> set (sp_tenants (fst c))" "se_uuid E (rv_TenantID req) = Some (tn_TenantID t)" "tn_Status t = ''active''" "tenant = scan_tenant t"
    using tenant_GetByID_Inr [OF q [unfolded t]] by blast
  have c2: "sp_dbs (fst c2) = sp_dbs (fst c) \<and> sp_vault (fst c2) = sp_vault (fst c)"
    using keepsD [OF keeps_GetTenantDB_dbs [of "\<lambda>d t v. d = sp_dbs (fst c) \<and> v = sp_vault (fst c)"] _ n] c1 by simp
  have "keeps (\<lambda>s. sp_vault s = sp_vault (fst c2)) (GetBySerialNumber n (rv_TenantID req) (rv_SerialNumber req))"
    unfolding GetBySerialNumber_def scanCertificate_def cert_stmt_def by (intro keeps_intros)
  from keepsD [OF this _ x] have c3: "sp_vault (fst c3) = sp_vault (fst c2)" by simp
  have "keeps (\<lambda>s. sp_vault s = sp_vault (fst c4)) (cert_Revoke now n (rv_TenantID req) (ct_ID x))"
    unfolding cert_Revoke_def cert_stmt_def cert_touched_def by (intro keeps_intros)
  from keepsD [OF this _ c5] keepsD [OF silent_services(3) _ c' [unfolded auditRevocation_def]] have c5': "sp_vault (fst c') = sp_vault (fst c4)" by simp
  have "sp_vault (fst c4) = sp_vault (fst c3) @ [VWrite (pki_path E (st_VaultMount tenant) ''revoke'') [(''serial_number'', GStr (rv_SerialNumber req))]]"
    using rev by (auto simp: RevokeCertificate_def bind_act_Inr return_act_def dest!: vault_write_state)
  with c2 c3 c5' t'(4) have "sp_vault (fst c') = sp_vault (fst c) @
      [VWrite (pki_path E (st_VaultMount (scan_tenant t)) ''revoke'') [(''serial_number'', GStr (rv_SerialNumber req))]]" by simp
  with t' n c1 c2 x show ?thesis by (intro bexI [of _ t] exI [of _ n] exI [of _ c1] exI [of _ c2] exI [of _ x]) simp_all
qed

text \<open>
  The mounts disagree: renewal signs at the mount without its leading \<^verbatim>\<open>pki/\<close>, revocation asks at the mount with it. So for a
  tenant whose mount starts that way no certificate is ever revoked where it was signed.
\<close>

theorem revoked_elsewhere:
  assumes mount: "\<forall>t \<in> set (sp_tenants (fst c)). se_uuid E tid = Some (tn_TenantID t) \<longrightarrow> st_VaultMount (scan_tenant t) = ''pki/'' @ m"
    and "svc_Renew E S now ids req c = (Inr r, c')" and "rn_TenantID req = tid"
    and "svc_Revoke E now' ids' vreq e = (Inr u, e')" and "rv_TenantID vreq = tid" and "sp_tenants (fst e) = sp_tenants (fst c)"
  shows "\<exists>role data data'. sp_vault (fst c') = sp_vault (fst c) @ [VWrite (pki_path E m (''sign/'' @ role)) data] \<and>
     sp_vault (fst e') = sp_vault (fst e) @ [VWrite (pki_path E (''pki/'' @ m) ''revoke'') data']"
  using svc_Renew_Inr(2) [OF assms(2)] svc_Revoke_Inr [OF assms(4)] mount assms(3,5,6) TrimPrefix_append [of "''pki/''" m] by (metis (no_types))

text \<open>A renewal that presents the old certificate never succeeds: the service has no repository to look it up in, and panics.\<close>

theorem renewal_with_old_certificate_fails:
  assumes "rn_OldCertificate req \<noteq> []"
  shows "svc_Renew E (bootstrap_renewal M) now ids req c \<noteq> (Inr r, c')"
  using svc_Renew_Inr(1) [of E "bootstrap_renewal M" now ids req c r c'] assms by (auto simp: bootstrap_renewal_def)

text \<open>As long as the database of a tenant lacks the table of certificates, which no migration creates, nothing is ever revoked.\<close>

theorem revocation_needs_table:
  assumes "conns_ok (fst c)" and "\<And>d. sp_dbs (fst c) (tenant_db_name (rv_TenantID req)) = Some d \<Longrightarrow> db_certificates d = None"
  shows "svc_Revoke E now ids req c \<noteq> (Inr u, c')"
proof
  assume "svc_Revoke E now ids req c = (Inr u, c')"
  then obtain n c1 c2 x c3 where n: "GetTenantDB E (rv_TenantID req) c1 = (Inr n, c2)" and c1: "fst c1 = fst c" and c2: "sp_dbs (fst c2) = sp_dbs (fst c)"
    and x: "GetBySerialNumber n (rv_TenantID req) (rv_SerialNumber req) c2 = (Inr x, c3)"
    using svc_Revoke_Inr by blast
  have "n = tenant_db_name (rv_TenantID req)" using n assms(1) c1 by (auto dest: GetTenantDB_Inr)
  moreover obtain d xs where "sp_dbs (fst c2) n = Some d" "db_certificates d = Some xs"
    using x by (auto simp: GetBySerialNumber_def scanCertificate_def cert_stmt_def db_stmt_def on_db_Inr dest!: stmt_Inr split: option.splits)
  ultimately show False using assms(2) c2 by auto
qed

section \<open>Who may ask\<close>

lemma audited_returns: "\<exists>c'. audited now newID db l c = (Inr (), c')"
  by (cases "audit_Create now newID db l c") (simp add: audited_def bind_act_def try_act_def return_act_def)

text \<open>The request to Vault that a renewal for a stored workload makes.\<close>

definition renew_call :: "spire_env \<Rightarrow> tenant_row \<Rightarrow> Workload \<Rightarrow> string \<Rightarrow> string \<times> any_map" where
  "renew_call E row w csr =
     (pki_path E (TrimPrefix (st_VaultMount (scan_tenant row)) ''pki/'') (''sign/'' @ wl_VaultRole w),
      [(''csr'', GStr csr), (''common_name'', GStr (wl_SpiffeID w)), (''ttl'', GStr ''24h''), (''uri_sans'', GStrs [wl_SpiffeID w])])"

lemma svc_Renew_ready:
  assumes r: "tenant_ready E s t row d"
    and w: "List.find (\<lambda>w. wl_ID w = rn_WorkloadID req \<and> wl_TenantID w = t) (db_workloads d) = Some w" "wl_Status w = ''active''"
    and req: "rn_TenantID req = t" "rn_OldCertificate req = []" "se_csr E (rn_CSR req) = GoodCSR"
    and vault: "se_write E (sp_vault s) (fst (renew_call E row w (rn_CSR req))) (snd (renew_call E row w (rn_CSR req))) = Inr (Some data)"
      "map_of data ''certificate'' = Some (GStr cert)"
  shows "\<exists>x c'. svc_Renew E S now ids req (s, []) = (Inr x, c') \<and> rw_Certificate x = cert \<and>
     sp_vault (fst c') = sp_vault s @ [case_prod VWrite (renew_call E row w (rn_CSR req))]"
proof -
  let ?s = "with_conn s t" and ?m = "TrimPrefix (st_VaultMount (scan_tenant row)) ''pki/''" and ?n = "tenant_db_name t"
  let ?q = "\<lparr> cq_CSR = rn_CSR req, cq_CommonName = wl_SpiffeID w, cq_TTL = ''24h'', cq_AltNames = [], cq_IPSANs = [], cq_URISANs = [wl_SpiffeID w] \<rparr>"
  let ?c = "(?s\<lparr> sp_vault := sp_vault s @ [case_prod VWrite (renew_call E row w (rn_CSR req))] \<rparr>, [])"
  let ?cert = "cert_response E now data cert"
  have act: "tenant_IsActive (scan_tenant row)" using r by (simp add: tenant_IsActive_def scan_tenant_def tenant_ready_def)
  have look: "workload_GetByID ?n t (rn_WorkloadID req) (?s, []) = (Inr w, ?s, [])"
    using w(1) by (simp add: workload_GetByID_def map_error_def db_read_ready [OF with_conn_ready [OF r]] select_row_def)
  have sign: "IssueCertificate E now ?m (wl_VaultRole w) ?q (?s, []) = (Inr ?cert, ?c)"
    using vault by (simp add: IssueCertificate_def vault_write_def fault_free_simps renew_call_def sign_data_def str_of_def)
  obtain y c1 where c1: "cert_Create now ?n (new_certificate now (fi_certificate ids) t w (wl_SpiffeID w) ''renew'' ?cert) ?c = (y, c1)"
    by (rule prod.exhaust)
  obtain c2 where c2: "auditRenewal now (fi_audit ids) req True [] c1 = (Inr (), c2)"
    using audited_returns unfolding auditRenewal_def by blast
  have "svc_Renew E S now ids req (s, []) = (Inr \<lparr> rw_Certificate = cp_Certificate ?cert, rw_CAChain = cp_CAChain ?cert,
      rw_ExpiresAt = cp_ExpirationTime ?cert, rw_SerialNumber = cp_SerialNumber ?cert \<rparr>, c2)"
    unfolding svc_Renew_def Let_def req(1)
    using act look sign c1 c2 w(2) req(2,3)
    by (simp add: bind_act_def try_act_def return_act_def on_error_def map_error_def tenant_repositories_def tenant_GetByID_ready [OF r]
        GetTenantDB_ready [OF r] check_old_def audited_csr_def)
  moreover have "sp_vault (fst c1) = sp_vault (fst ?c)" "sp_vault (fst c2) = sp_vault (fst c1)"
    using keepsD [OF silent_services(2) _ c1] keepsD [OF silent_services(3) _ c2 [unfolded auditRenewal_def]] by simp_all
  ultimately show ?thesis by (simp add: cert_response_def)
qed

text \<open>
  C39. Behind mutual TLS a client of one tenant acts for every other. Whoever presents a certificate for a SPIFFE ID of any tenant \<open>a\<close>
  revokes a stored certificate of the active tenant \<open>t\<close> that is not yet revoked, when Vault accepts the revocation, and obtains, for a
  key of its own, the certificate that Vault signs for the SPIFFE ID of a stored active workload of \<open>t\<close>, when Vault signs it; no
  statement fails. The tenant that the middleware reads off the certificate is compared with nothing.
\<close>

theorem mtls_foreign_client:
  assumes client: "List.find (\<lambda>u. HasPrefix u ''spiffe://'') uris = Some own" "me_url M own = Inr (''spiffe'', a, path)" "a \<noteq> []"
    and ready: "tenant_ready (me_env M) s t row d" "t \<noteq> []"
    and cert: "db_certificates d = Some xs" "List.find (\<lambda>x. ct_SerialNumber x = rv_SerialNumber vreq \<and> ct_TenantID x = t) xs = Some x"
      "ct_RevokedAt x = None" "rv_TenantID vreq = t" "rv_SerialNumber vreq \<noteq> []"
      "se_write (me_env M) (sp_vault s) (pki_path (me_env M) (st_VaultMount (scan_tenant row)) ''revoke'')
         [(''serial_number'', GStr (rv_SerialNumber vreq))] = Inr y"
    and workload: "List.find (\<lambda>w. wl_ID w = rn_WorkloadID rreq \<and> wl_TenantID w = t) (db_workloads d) = Some w" "wl_Status w = ''active''"
      "rn_TenantID rreq = t" "rn_OldCertificate rreq = []" "se_csr (me_env M) (rn_CSR rreq) = GoodCSR" "rn_CSR rreq \<noteq> []" "rn_WorkloadID rreq \<noteq> []"
      "se_write (me_env M) (sp_vault s) (fst (renew_call (me_env M) row w (rn_CSR rreq))) (snd (renew_call (me_env M) row w (rn_CSR rreq))) =
         Inr (Some data)" "map_of data ''certificate'' = Some (GStr pem)"
  shows "(\<exists>ctx. MTLS_Authenticate M (ClientCert uris) h Map.empty = Next ctx \<and> ctx ''spire_tenant_id'' = Some (GStr a)) \<and>
    (\<exists>s'. mtls_route M now ids (ClientCert uris) h (PostRevoke (Inr vreq)) (s, []) = (icp_json 200 (RevokedCert (rv_SerialNumber vreq)), s', []) \<and>
       (t, rv_SerialNumber vreq, ct_ID x) \<in> revoked_certs s' (tenant_db_name t)) \<and>
    (\<exists>r c'. mtls_route M now ids (ClientCert uris) h (PostRenew (Inr rreq)) (s, []) = (icp_json 200 (RenewedBody r), c') \<and>
       rw_Certificate r = pem \<and> sp_vault (fst c') = sp_vault s @ [case_prod VWrite (renew_call (me_env M) row w (rn_CSR rreq))])"
proof (intro conjI)
  show auth: "\<exists>ctx. MTLS_Authenticate M (ClientCert uris) h Map.empty = Next ctx \<and> ctx ''spire_tenant_id'' = Some (GStr a)"
    using client by (simp add: MTLS_Authenticate_def parseSpiffeID_def)
  then obtain ctx where "MTLS_Authenticate M (ClientCert uris) h Map.empty = Next ctx" by blast
  then have route: "mtls_route M now ids (ClientCert uris) h call c = mtls_handler M now ids call ctx c" for call c
    by (simp add: mtls_route_def)
  obtain s' where rev: "svc_Revoke (me_env M) now ids vreq (s, []) = (Inr (), s', [])"
      "(t, rv_SerialNumber vreq, ct_ID x) \<in> revoked_certs s' (tenant_db_name t)"
    using svc_Revoke_ready [OF ready(1) cert(1-4,6)] by blast
  then show "\<exists>s'. mtls_route M now ids (ClientCert uris) h (PostRevoke (Inr vreq)) (s, []) = (icp_json 200 (RevokedCert (rv_SerialNumber vreq)), s', []) \<and>
       (t, rv_SerialNumber vreq, ct_ID x) \<in> revoked_certs s' (tenant_db_name t)"
    unfolding route using ready(2) cert(4,5)
    by (simp add: http_Revoke_def icp_respond_def bound_body_def required_def bind_act_def return_act_def)
  obtain r c' where ren: "svc_Renew (me_env M) (bootstrap_renewal M) now ids rreq (s, []) = (Inr r, c')" "rw_Certificate r = pem"
      "sp_vault (fst c') = sp_vault s @ [case_prod VWrite (renew_call (me_env M) row w (rn_CSR rreq))]"
    using svc_Renew_ready [OF ready(1) workload(1-5,8,9)] by blast
  then show "\<exists>r c'. mtls_route M now ids (ClientCert uris) h (PostRenew (Inr rreq)) (s, []) = (icp_json 200 (RenewedBody r), c') \<and>
       rw_Certificate r = pem \<and> sp_vault (fst c') = sp_vault s @ [case_prod VWrite (renew_call (me_env M) row w (rn_CSR rreq))]"
    unfolding route using ready(2) workload(3,6,7)
    by (intro exI [of _ r] exI [of _ c']) (simp add: http_Renew_def icp_respond_def bound_body_def required_def)
qed

section \<open>Witnesses\<close>

definition ex_mtls :: mtls_env where
  "ex_mtls = \<lparr> me_env = ex_spire_env, me_jwt = ex_jwt, me_url = (\<lambda>u. Inr (''spiffe'', take 1 (drop 9 u), drop 10 u)),
     me_devModeBypass = False, me_parse = (\<lambda>_. CertSerial ''1'') \<rparr>"

definition ex_ids :: fresh_ids where
  "ex_ids = \<lparr> fi_workload = ''w1'', fi_certificate = ''c1'', fi_audit = ''l1'' \<rparr>"

definition ex_attest :: AttestRequest where
  "ex_attest = \<lparr> at_TenantID = ''t'', at_CSR = ''csr'', at_AttestationType = ''unix'', at_Selectors = [(''k8s:namespace'', ''prod'')],
     at_VaultMount = [], at_IPAddress = [], at_UserAgent = [] \<rparr>"

definition ex_attested :: AttestResponse where
  "ex_attested = \<lparr> as_Certificate = ''pem'', as_CAChain = [], as_SpiffeID = ''spiffe://t/ns/prod'', as_ExpiresAt = 24 * Hour,
     as_WorkloadID = ''w1'', as_SerialNumber = ''01'' \<rparr>"

lemma ex_attest_issues: "\<exists>c'. svc_Attest ex_spire_env 0 ex_ids ex_attest (ex_spire [] [], []) = (Inr ex_attested, c')"
proof -
  let ?s = "with_conn (ex_spire [] []) ''t''"
  note r = ex_spire_ready [of "[]" "[]"]
  note r1 = with_conn_ready [OF r]
  have t: "at_TenantID ex_attest = ''t''" "at_CSR ex_attest = ''csr''" "at_AttestationType ex_attest = ''unix''" by (simp_all add: ex_attest_def)
  have act: "tenant_IsActive (scan_tenant ex_tenant_row)" by (simp add: tenant_IsActive_def scan_tenant_def ex_tenant_row_def)
  have mount: "attest_mount 0 ex_ids ex_attest (Inr (scan_tenant ex_tenant_row)) (?s, []) = (Inr ''pki/t'', ?s, [])"
    using act by (simp add: attest_mount_def return_act_def) (simp add: scan_tenant_def ex_tenant_row_def)
  have csr: "audited_csr ex_spire_env k ''csr'' (?s, []) = (Inr (), ?s, [])" for k
    by (simp add: audited_csr_def ex_spire_env_def return_act_def)
  have sp: "generateSpiffeID ''t'' (at_Selectors ex_attest) = ''spiffe://t/ns/prod''" by (simp add: generateSpiffeID_def ex_attest_def)
  have find: "FindMatchingPolicy ex_spire_env (tenant_db_name ''t'') ''t'' ''unix'' (at_Selectors ex_attest) (?s, []) =
      (Inl (NewNotFoundError ''No matching policy found'' None), ?s, [])"
    by (simp add: FindMatchingPolicy_def queryPolicies_def fault_free_simps db_read_ready [OF r1] cast_uuid_def ex_spire_env_def by_priority_def ex_db_def)
  obtain w s2 where w: "getOrCreateWorkloadInRepo 0 ''w1'' (tenant_db_name ''t'') ''t'' ''spiffe://t/ns/prod'' (at_Selectors ex_attest) ''workload'' ''unix'' (?s, []) =
      (Inr w, s2, [])" "wl_ID w = ''w1''"
    by (simp add: getOrCreateWorkloadInRepo_def workload_GetBySpiffeID_def workload_Create_def fault_free_simps db_read_ready [OF r1] db_stmt_ready [OF r1]
        select_row_def insert_workload_def workload_fits_def ex_db_def Let_def)
  let ?q = "\<lparr> cq_CSR = ''csr'', cq_CommonName = ''spiffe://t/ns/prod'', cq_TTL = Itoa 86400 @ ''s'', cq_AltNames = [], cq_IPSANs = [],
      cq_URISANs = [''spiffe://t/ns/prod''] \<rparr>"
  let ?cert = "\<lparr> cp_Certificate = ''pem'', cp_CAChain = [], cp_SerialNumber = ''01'', cp_SHA256Fingerprint = [], cp_ExpirationTime = 24 * Hour \<rparr>"
  obtain s3 where cert: "IssueCertificate ex_spire_env 0 ''t'' ''workload'' ?q (s2, []) = (Inr ?cert, s3, [])"
    by (simp add: IssueCertificate_def vault_write_def fault_free_simps ex_spire_env_def str_of_def cert_response_def)
  obtain y c4 where c4: "cert_Create 0 (tenant_db_name ''t'') (new_certificate 0 ''c1'' ''t'' w ''spiffe://t/ns/prod'' ''attest'' ?cert) (s3, []) = (y, c4)"
    by (rule prod.exhaust)
  obtain c5 where c5: "auditAttestationWithRepo 0 ''l1'' (TenantAudit (tenant_db_name ''t'')) ex_attest ''spiffe://t/ns/prod'' True [] c4 = (Inr (), c5)"
    using audited_returns unfolding auditAttestationWithRepo_def by blast
  have ids: "fi_workload ex_ids = ''w1''" "fi_certificate ex_ids = ''c1''" "fi_audit ex_ids = ''l1''" by (simp_all add: ex_ids_def)
  have mt: "TrimPrefix ''pki/t'' ''pki/'' = ''t''" using TrimPrefix_append [of "''pki/''" "''t''"] by simp
  have iss: "attest_issue ex_spire_env 0 ex_ids ex_attest (tenant_db_name ''t'') ''pki/t'' (?s, []) = (Inr ex_attested, c5)"
    unfolding attest_issue_def t ids sp mt Let_def bind_try [where m = "FindMatchingPolicy ex_spire_env (tenant_db_name ''t'') ''t'' ''unix'' (at_Selectors ex_attest)", OF find]
    using w cert c4 c5 by (simp add: svc_role_def bind_act_def on_error_def try_act_def return_act_def ex_attested_def)
  have "svc_Attest ex_spire_env 0 ex_ids ex_attest (ex_spire [] [], []) = (Inr ex_attested, c5)"
    unfolding svc_Attest_def t
    using mount csr iss by (simp add: bind_act_def try_act_def tenant_repositories_def map_error_def GetTenantDB_ready [OF r] tenant_GetByID_ready [OF r1])
  then show ?thesis by blast
qed

theorem service_attested_witness:
  "\<exists>c' mount role ttl. svc_Attest ex_spire_env 0 ex_ids ex_attest (ex_spire [] [], []) = (Inr ex_attested, c') \<and>
     sp_vault (fst c') = [attest_paths ex_spire_env ex_attest mount role ttl]"
proof -
  obtain c' where att: "svc_Attest ex_spire_env 0 ex_ids ex_attest (ex_spire [] [], []) = (Inr ex_attested, c')"
    using ex_attest_issues by blast
  have "sp_conns (ex_spire [] []) = Map.empty" "(ex_spire [] [], []) = fst (run (mtls_step ex_mtls) [] (ex_spire [] [], []))"
    by (simp_all add: ex_spire_def)
  from service_attested [OF this att] have "\<exists>mount role ttl. sp_vault (fst c') = sp_vault (ex_spire [] []) @ [attest_paths ex_spire_env ex_attest mount role ttl]"
    unfolding fst_conv by blast
  with att show ?thesis by (auto simp: ex_spire_def)
qed

definition ex_issued :: Certificate where
  "ex_issued = new_certificate 0 ''c1'' ''t'' \<lparr> wl_ID = ''w1'', wl_TenantID = ''t'', wl_SpiffeID = ''spiffe://t'', wl_Selectors = [], wl_VaultRole = ''workload'',
     wl_Status = ''active'', wl_AttestationType = ''unix'', wl_CreatedAt = 0, wl_UpdatedAt = 0 \<rparr> ''spiffe://t'' ''attest''
     \<lparr> cp_Certificate = ''pem'', cp_CAChain = [], cp_SerialNumber = ''01'', cp_SHA256Fingerprint = [], cp_ExpirationTime = 24 * Hour \<rparr>"

definition ex_icp :: spire where
  "ex_icp = (ex_spire [] [])\<lparr> sp_dbs := [''tenant_t'' \<mapsto> (ex_db [] [])\<lparr> db_certificates := Some [ex_issued] \<rparr>] \<rparr>"

definition ex_revoke :: RevokeRequest where
  "ex_revoke = \<lparr> rv_TenantID = ''t'', rv_SerialNumber = ''01'', rv_Reason = [], rv_IPAddress = [], rv_UserAgent = [] \<rparr>"

lemma ex_icp_ready: "tenant_ready ex_spire_env ex_icp ''t'' ex_tenant_row ((ex_db [] [])\<lparr> db_certificates := Some [ex_issued] \<rparr>)"
  by (simp add: tenant_ready_def ex_icp_def ex_spire_env_def ex_tenant_row_def ex_spire_def conns_ok_def tenant_db_name_def)

theorem revocation_lasts_witness:
  "\<exists>s'. http_Revoke ex_spire_env 0 ex_ids (Inr ex_revoke) (ex_icp, []) = (icp_json 200 (RevokedCert ''01''), s', []) \<and>
     (''t'', ''01'', ''c1'') \<in> revoked_certs (fst (fst (run (mtls_step ex_mtls) [(0, ex_ids, NoTLS, [], PostRevoke (Inr ex_revoke))] (s', [])))) (tenant_db_name ''t'')"
proof -
  have M: "me_env ex_mtls = ex_spire_env" by (simp add: ex_mtls_def)
  have x: "ct_SerialNumber ex_issued = ''01''" "ct_TenantID ex_issued = ''t''" "ct_ID ex_issued = ''c1''" "ct_RevokedAt ex_issued = None"
    by (simp_all add: ex_issued_def new_certificate_def)
  have v: "rv_TenantID ex_revoke = ''t''" "rv_SerialNumber ex_revoke = ''01''" by (simp_all add: ex_revoke_def)
  have "\<exists>s'. http_Revoke (me_env ex_mtls) 0 ex_ids (Inr ex_revoke) (ex_icp, []) = (icp_json 200 (RevokedCert (rv_SerialNumber ex_revoke)), s', []) \<and>
     sp_vault s' = sp_vault ex_icp @ [VWrite (pki_path (me_env ex_mtls) (st_VaultMount (scan_tenant ex_tenant_row)) ''revoke'') [(''serial_number'', GStr (rv_SerialNumber ex_revoke))]] \<and>
     (\<forall>ops faults. (''t'', rv_SerialNumber ex_revoke, ct_ID ex_issued) \<in>
        revoked_certs (fst (fst (run (mtls_step ex_mtls) ops (s', faults)))) (tenant_db_name ''t''))"
    by (rule revocation_lasts [where d = "(ex_db [] [])\<lparr> db_certificates := Some [ex_issued] \<rparr>" and xs = "[ex_issued]"])
      (use ex_icp_ready in \<open>simp_all add: M x v\<close>, simp add: ex_spire_env_def)
  then show ?thesis unfolding M v x by blast
qed

text \<open>A workload of tenant \<^verbatim>\<open>a\<close> revokes a certificate of tenant \<^verbatim>\<open>t\<close> and obtains the identity of a workload of \<^verbatim>\<open>t\<close>.\<close>

definition ex_worker :: Workload where
  "ex_worker = \<lparr> wl_ID = ''w1'', wl_TenantID = ''t'', wl_SpiffeID = ''spiffe://t/w'', wl_Selectors = [], wl_VaultRole = ''workload'',
     wl_Status = ''active'', wl_AttestationType = ''unix'', wl_CreatedAt = 0, wl_UpdatedAt = 0 \<rparr>"

definition ex_victim_db :: tenant_db where
  "ex_victim_db = (ex_db [] [])\<lparr> db_certificates := Some [ex_issued], db_workloads := [ex_worker] \<rparr>"

definition ex_victim :: spire where
  "ex_victim = (ex_spire [] [])\<lparr> sp_dbs := [''tenant_t'' \<mapsto> ex_victim_db] \<rparr>"

definition ex_renew :: RenewRequest where
  "ex_renew = \<lparr> rn_TenantID = ''t'', rn_WorkloadID = ''w1'', rn_CSR = ''csr'', rn_OldCertificate = [], rn_IPAddress = [], rn_UserAgent = [] \<rparr>"

theorem mtls_foreign_client_witness:
  "(\<exists>ctx. MTLS_Authenticate ex_mtls (ClientCert [''spiffe://a/w'']) [] Map.empty = Next ctx \<and> ctx ''spire_tenant_id'' = Some (GStr ''a'')) \<and>
   (\<exists>s'. mtls_route ex_mtls 0 ex_ids (ClientCert [''spiffe://a/w'']) [] (PostRevoke (Inr ex_revoke)) (ex_victim, []) =
      (icp_json 200 (RevokedCert ''01''), s', []) \<and> (''t'', ''01'', ''c1'') \<in> revoked_certs s' (tenant_db_name ''t'')) \<and>
   (\<exists>r c'. mtls_route ex_mtls 0 ex_ids (ClientCert [''spiffe://a/w'']) [] (PostRenew (Inr ex_renew)) (ex_victim, []) =
      (icp_json 200 (RenewedBody r), c') \<and> rw_Certificate r = ''pem'')"
proof -
  have M: "me_env ex_mtls = ex_spire_env" by (simp add: ex_mtls_def)
  have ready: "tenant_ready ex_spire_env ex_victim ''t'' ex_tenant_row ex_victim_db"
    by (simp add: tenant_ready_def ex_victim_def ex_spire_env_def ex_tenant_row_def ex_spire_def conns_ok_def tenant_db_name_def)
  have x: "ct_SerialNumber ex_issued = ''01''" "ct_TenantID ex_issued = ''t''" "ct_ID ex_issued = ''c1''" "ct_RevokedAt ex_issued = None"
    by (simp_all add: ex_issued_def new_certificate_def)
  have w: "wl_ID ex_worker = ''w1''" "wl_TenantID ex_worker = ''t''" "wl_Status ex_worker = ''active''" by (simp_all add: ex_worker_def)
  have v: "rv_TenantID ex_revoke = ''t''" "rv_SerialNumber ex_revoke = ''01''" by (simp_all add: ex_revoke_def)
  have n: "rn_TenantID ex_renew = ''t''" "rn_WorkloadID ex_renew = ''w1''" "rn_CSR ex_renew = ''csr''" "rn_OldCertificate ex_renew = []"
    by (simp_all add: ex_renew_def)
  have d: "db_certificates ex_victim_db = Some [ex_issued]" "db_workloads ex_victim_db = [ex_worker]" by (simp_all add: ex_victim_db_def)
  have E: "se_write ex_spire_env vs p q = Inr (Some [(''certificate'', GStr ''pem''), (''serial_number'', GStr ''01'')])"
    "se_csr ex_spire_env ''csr'' = GoodCSR" for vs p q by (simp_all add: ex_spire_env_def)
  have url: "me_url ex_mtls ''spiffe://a/w'' = Inr (''spiffe'', ''a'', ''/w'')" by (simp add: ex_mtls_def)
  have find: "List.find (\<lambda>u. HasPrefix u ''spiffe://'') [''spiffe://a/w''] = Some ''spiffe://a/w''" by (simp add: HasPrefix_def)
  have "(\<exists>ctx. MTLS_Authenticate ex_mtls (ClientCert [''spiffe://a/w'']) [] Map.empty = Next ctx \<and> ctx ''spire_tenant_id'' = Some (GStr ''a'')) \<and>
   (\<exists>s'. mtls_route ex_mtls 0 ex_ids (ClientCert [''spiffe://a/w'']) [] (PostRevoke (Inr ex_revoke)) (ex_victim, []) =
      (icp_json 200 (RevokedCert (rv_SerialNumber ex_revoke)), s', []) \<and>
      (''t'', rv_SerialNumber ex_revoke, ct_ID ex_issued) \<in> revoked_certs s' (tenant_db_name ''t'')) \<and>
   (\<exists>r c'. mtls_route ex_mtls 0 ex_ids (ClientCert [''spiffe://a/w'']) [] (PostRenew (Inr ex_renew)) (ex_victim, []) =
      (icp_json 200 (RenewedBody r), c') \<and> rw_Certificate r = ''pem'' \<and>
      sp_vault (fst c') = sp_vault ex_victim @ [case_prod VWrite (renew_call (me_env ex_mtls) ex_tenant_row ex_worker (rn_CSR ex_renew))])"
    by (rule mtls_foreign_client [OF find url, where d = ex_victim_db and xs = "[ex_issued]"
          and data = "[(''certificate'', GStr ''pem''), (''serial_number'', GStr ''01'')]"])
      (use ready in \<open>simp_all add: M x w v n d E\<close>)
  then show ?thesis unfolding v x by blast
qed

end
