(* ===== verification/Spec2Isabelle.thy ===== *)
theory Spec2Isabelle
  imports Device_Auth Ciba_Auth Authz Input_Validation Anti_Replay Agent_Guard Totp_Security Domain_Ownership Admin_Security Spire_Mtls
begin

text \<open>
  Verification of the AuthSec identity service (Go).

  The service authenticates users and workloads of many tenants and decides what they may do. This
  development models the parts that decide: the two polled login grants, the tokens they issue, the
  gates that read those tokens, authenticator codes and the login without a password they give, the checks at
  the door of the API, roles and the decisions drawn from them, the custom domains of tenants, the accounts of
  administrators, the identities of workloads, and the guard that holds back risky actions of software agents until
  humans approve them.

  \<^bold>\<open>How the parts interact.\<close> A client without a browser starts a grant (device flow or CIBA); a human
  answers it on another device; the client polls and receives a token that the token service signed.
  A user with a confirmed authenticator logs in with its code, or approves a device
  code with it. Requests carrying a token pass the authorization gates. Login requests pass the validators and the
  anti-replay service first. An administrator registers, logs in or resets a forgotten password with a mailed code; the account is
  created with the admin role, whose permissions the policy decision point then finds. A tenant claims a domain, proves it with
  a DNS record, and only then hosts and redirect addresses of that domain count as the tenant's. A tenant registers workloads by their
  selectors; a node obtains a certificate for its agent, an agent obtains one for a workload whose selectors it presents,
  signed by Vault, and workloads obtain tokens under the key of the tenant. A software agent submits an action to the guard, which resolves the tenant from the
  client, asks the risk engine for a score under the tenant's policies and settings, stores the request,
  approves it or notifies an approver, and answers the agent's polls; every outcome goes to the audit log.

  \<^bold>\<open>Theories and sources.\<close>
  \<^item> \<open>Authsec_Prelude\<close>: clock, errors, SQL statements over tables with a schedule of outcomes, runs of
    operations, the locale \<open>guarded_service\<close> (an invariant and a relation between states kept by every
    step are kept by every run).
  \<^item> \<open>Go_Strings\<close>, \<open>Go_Regexp\<close>: what the sources use of \<^verbatim>\<open>strings\<close>, \<^verbatim>\<open>unicode\<close>, \<^verbatim>\<open>path/filepath\<close>,
    \<^verbatim>\<open>encoding\<close> and \<^verbatim>\<open>regexp\<close>; the derivative matcher is shown to decide the language.
  \<^item> \<open>Go_Runes\<close>: what \<^verbatim>\<open>range\<close> over a text and \<^verbatim>\<open>unicode\<close> do with bytes that are not ASCII: decoding of UTF-8, and the classes of
    runes over the category tables, which are an argument above Latin-1.
  \<^item> \<open>Go_Crypto\<close>: what the sources use of \<^verbatim>\<open>crypto/sha1\<close>, \<^verbatim>\<open>crypto/hmac\<close>, \<^verbatim>\<open>encoding/base32\<close>,
    \<^verbatim>\<open>encoding/binary\<close> and of hexadecimal and decimal formatting, on bytes and 32 bit words.
  \<^item> \<open>Go_Net\<close>: what the sources use of \<^verbatim>\<open>strings\<close> on host names, and \<^verbatim>\<open>net.ParseIP\<close>.
  \<^item> \<open>Gin_Context\<close>: what the handlers use of a request context, replies and audit entries.
  \<^item> \<open>Directory\<close>: \<^verbatim>\<open>models/tenant.go\<close>, \<^verbatim>\<open>models/user.go\<close> and the lookups of
    \<^verbatim>\<open>database/admin_tenant_repository.go\<close>, \<^verbatim>\<open>database/user_repository.go\<close>.
  \<^item> \<open>Token_Service\<close>: \<^verbatim>\<open>services/authmanager_token_service.go\<close>, claims and constructors of tokens.
  \<^item> \<open>One_Time_Grant\<close>: the abstract grant machine and the locales \<open>phased_grant\<close> and \<open>one_time_grant\<close>.
  \<^item> \<open>Device_Auth\<close>: \<^verbatim>\<open>models/device_auth.go\<close>, \<^verbatim>\<open>database/device_auth_repository.go\<close>,
    \<^verbatim>\<open>services/device_auth_service.go\<close>.
  \<^item> \<open>Ciba_Auth\<close>: \<^verbatim>\<open>models/ciba.go\<close>, \<^verbatim>\<open>database/ciba_auth_repository.go\<close>,
    \<^verbatim>\<open>services/ciba_auth_service.go\<close>, \<^verbatim>\<open>controllers/enduser/ciba_auth_controller.go\<close> (the flow).
  \<^item> \<open>Totp\<close>, \<open>Totp_Security\<close>: \<^verbatim>\<open>models/totp.go\<close>, \<^verbatim>\<open>database/totp_repository.go\<close>,
    \<^verbatim>\<open>services/totp_service.go\<close>, the login and approval handlers of
    \<^verbatim>\<open>controllers/enduser/totp_controller.go\<close>, and what they promise.
  \<^item> \<open>Otp\<close>: \<^verbatim>\<open>database/otp_repository.go\<close> with its rows in \<^verbatim>\<open>models/aliases.go\<close>, the generator of
    \<^verbatim>\<open>utils/otp.go\<close>.
  \<^item> \<open>Rbac\<close>: \<^verbatim>\<open>models/rbac_scoped.go\<close>, \<^verbatim>\<open>services/rbac_service.go\<close>, \<^verbatim>\<open>services/permission_service.go\<close>.
  \<^item> \<open>Tenant_Domains\<close>, \<open>Domain_Ownership\<close>: \<^verbatim>\<open>database/tenant_domains_repository.go\<close>,
    \<^verbatim>\<open>services/domain_service.go\<close>, \<^verbatim>\<open>controllers/admin/domain_controller.go\<close>, and what they promise.
  \<^item> \<open>Admin_Users\<close>, \<open>Admin_Seed\<close>: \<^verbatim>\<open>database/admin_user_repository.go\<close>, \<^verbatim>\<open>database/admin_seed_repository.go\<close>.
  \<^item> \<open>Admin_Auth\<close>, \<open>Admin_Security\<close>: the login, registration and forgotten-password handlers of
    \<^verbatim>\<open>controllers/admin/admin_auth_controller.go\<close>, and what they promise.
  \<^item> \<open>Authz\<close>: \<^verbatim>\<open>internal/authz/authz.go\<close>, \<^verbatim>\<open>internal/authz/policy.go\<close>, the claim readers of
    \<^verbatim>\<open>middlewares/auth.go\<close>.
  \<^item> \<open>Input_Validation\<close>: \<^verbatim>\<open>utils/input_validation.go\<close>.
  \<^item> \<open>Anti_Replay\<close>: \<^verbatim>\<open>services/anti_replay_service.go\<close>; the locale \<open>ttl_store\<close> states what it needs of
    Redis.
  \<^item> \<open>Agent_Repository\<close>, \<open>Risk_Engine\<close>, \<open>Agent_Action\<close>, \<open>Agent_Guard\<close>: \<^verbatim>\<open>models/agent_action.go\<close>,
    \<^verbatim>\<open>database/agent_action_repository.go\<close>, \<^verbatim>\<open>services/risk_engine_service.go\<close>,
    \<^verbatim>\<open>services/agent_action_service.go\<close>, and what the guard promises.

  \<^item> \<open>Spire_Store\<close>: under \<^verbatim>\<open>internal/spire\<close>, the errors, the rows of \<^verbatim>\<open>domain/models\<close>, the repositories of entries,
    agents and tenants, \<^verbatim>\<open>infrastructure/database/connection_manager.go\<close> and \<^verbatim>\<open>infrastructure/vault/client.go\<close>, as actions on
    the databases of the tenants, the cache of connections and the calls to Vault; the laws of actions.
  \<^item> \<open>Spire_Service\<close>: \<^verbatim>\<open>services/workload_entry_service.go\<close>, \<^verbatim>\<open>workload_attestation_service.go\<close>,
    \<^verbatim>\<open>node_attestation_service.go\<close>, \<^verbatim>\<open>kubernetes_validator.go\<close>, \<^verbatim>\<open>agent_service.go\<close>, \<^verbatim>\<open>agent_renewal_service.go\<close>.
  \<^item> \<open>Spire_Api\<close>: the middleware, controllers and routes that reach these services; \<open>Spire_Tables\<close>: what every request
    keeps of the tables; \<open>Spire_Security\<close>: what the routes and services promise.
  \<^item> \<open>Spire_Jwt\<close>: \<^verbatim>\<open>services/jwt_svid_service.go\<close>, \<^verbatim>\<open>controllers/jwt_svid_controller.go\<close>, and what they promise.
  \<^item> \<open>Spire_Certificates\<close>: the repositories of workloads, certificates, policies and the audit log, \<^verbatim>\<open>services/attestation_service.go\<close>,
    \<^verbatim>\<open>renewal_service.go\<close>, \<^verbatim>\<open>revocation_service.go\<close>; \<open>Spire_Mtls\<close>: the routes behind mutual TLS and what they promise.

  \<^bold>\<open>State and operations.\<close> A struct is a record with the source's fields, a table the list of its rows, a
  service's state the record of its tables. An operation takes the instant it reads, the random values it
  draws, its arguments and a connection, and returns its reply and the connection; \<open>Inl\<close> is a non-nil
  error. Every SQL statement consumes one outcome of the connection's schedule: it is applied, it is lost
  (an error and no effect), or it takes effect and the reply is lost. An exhausted schedule means that no
  statement fails. A violated unique constraint is an error; a value out of a column's range or a missing
  foreign key is the outcome lost. Statuses are the strings the database holds. Each operation reads the
  clock once. \<^verbatim>\<open>ORDER BY\<close> is a stable sort. Strings are lists of bytes; except for passwords their
  contents are taken to be ASCII. Machine integers are integers with the
  wrap-around written out where it can happen.

  \<^bold>\<open>What the theorems show.\<close>
  \<^item> Grants: tokens handed out never exceed the requests made (in the device flow, under faults, plus the polls whose consuming
    statement was lost); each is backed by a request and an approval of its user code in time; the stored status refines the abstract machine; polls and cleanup are specified branch by
    branch; approval leads to a token; two polls within an interval issue once. Where the code falls
    short (a lost consuming statement, interleaved CIBA polls, answers by any caller) the shortfall is a
    theorem too.
  \<^item> Authenticator codes: the code is the one of RFC 4226 on a thirty second counter and valid for ninety
    seconds; a login is backed by a device registered and confirmed before; a backup code is redeemed at
    most once; an enrolled device can log in; an approval reaches the polling device. Replays within the half
    minute, logins of deactivated users and the loss of the primary flag are theorems too.
  \<^item> Authorization: the decision of a gate for every token, by roles, resource lists, permissions and scopes; permissions built from scopes agree
    with the scopes; which tokens the gates cannot read.
  \<^item> Roles: the policy decision point allows exactly what bindings, roles and permissions grant; granting and
    revoking a role is exact; the scopes of a token are the user's permissions. That expiry dates and scopes of
    bindings are lost on the way is a theorem too.
  \<^item> Domains: a host resolves only to a tenant that claimed it and proved it (or had it accepted unproved under the setting that skips DNS); the table keeps one owner per domain
    and one verified primary domain per tenant; an accepted redirect address leads home. That user information before the host
    defeats the check is a theorem too.
  \<^item> Administrators: a token is earned with the password of an active account without a second factor; a password reset is
    backed by a code; a new administrator is allowed everything the seeded role grants. The shortfalls (fixed codes that give any account
    away, a lock that never closes, a second factor that the hybrid login skips, an admin role for users without roles) are
    theorems too.
  \<^item> Workload identity: the registration tables are well formed in every run and change only by a token of their tenant;
    an identity is signed only for an entry whose selectors were presented and that belongs to the agent or to none; the tests of
    selectors agree and the most specific entry is chosen; a list of entries is exact. An
    issued token validates until it expires and under its key only; a delegated one stays in the tenant of the caller; the
    key of a tenant survives a restart. Behind mutual TLS one signature is asked for the identity the selectors spell out, under the policy of
    highest priority at the mount of the tenant, and a revocation is never undone. The shortfalls (a route that never issues, a renewal that always refuses, agents turned
    away for their certificate, nodes attested without evidence, lifetimes without a cap, renewal for ever, a key lost by an
    error of Vault, clients of one tenant acting for another, revocation at the wrong mount) are theorems too.
  \<^item> Validation and anti-replay: what is accepted, exactly; how long a replay is refused.
  \<^item> Agent guard: a score is explained by its factors; the best policy is chosen; approval needs grow with the
    score; an action is approved only with the approvals recorded; a decision is final; the audit log
    holds every outcome and can be paged without loss; settings round trip; tenants do not touch each
    other's policies. The shortfalls (one approver counted twice, a denial overwritten, cleanup without
    an entry) are theorems too.

  \<^bold>\<open>Fuel.\<close> No definition needs fuel: every loop of the modelled code runs over a list or a range and is
  structural recursion or has a termination proof.

  \<^bold>\<open>Arguments.\<close> \<^verbatim>\<open>uuid.Parse\<close>, the JWT signature, the push provider, the time zone database, the tenant
  connection manager, Redis, bcrypt, the DNS resolver, the answers of Vault, the Unicode tables, the conversion of a float out of the range of integers,
  the parsers of certificates, signing requests and addresses, the token review of Kubernetes, RSA keys with their encodings, the JWT library of
  workload tokens, the cast of texts to \<^verbatim>\<open>uuid\<close> and the operator \<^verbatim>\<open>??\<close> of the database, the HMAC of the anti-replay service and the mail address parser are arguments of the definitions that call
  them, and the laws used of them are hypotheses or locale assumptions.

  \<^bold>\<open>Not modelled.\<close> Administration, end-user and platform controllers beyond the handlers named above
  (request parsing over GORM queries), WebAuthn (an external library), Hydra, OIDC and DNS clients (remote
  services), of workload identity the provisioning of PKI mounts, bundles and rate limits, the SDK manager, authenticator codes of tenant databases, voice login, rate limiting,
  migrations, configuration, routing and monitoring.
\<close>

end
